(* ===== verification/Dorf_Prelude.thy ===== *)
theory Dorf_Prelude
  imports Main
begin

text \<open>
  What every other theory of the development shares: the Go error values, the state-and-error
  actions that operations are written in (\<open>bnd\<close>, \<open>require\<close>, \<open>tx\<close>), the weakest-precondition
  calculus \<open>wp\<close> with which their properties are computed by the simplifier, and a few
  generic lemmas on lists and options.
\<close>

named_theorems wp_simps \<open>weakest preconditions of the primitive actions\<close>
named_theorems wp_defs \<open>definitions of small actions, unfolded while computing preconditions\<close>

section \<open>Go errors\<close>

text \<open>
  The sentinel errors (package variables created by \<open>errors.New\<close>) callers compare with
  \<open>errors.Is\<close>, and the error values built from them. \<open>Errorf\<close> is a fresh \<open>fmt.Errorf\<close>
  with no wrapped error, identified by a short tag of its message; \<open>Wrapf\<close> wraps with one
  \<open>%w\<close>; \<open>Join\<close> is \<open>errors.Join\<close> (or two \<open>%w\<close> verbs) of two non-nil errors. The typed
  errors are the pointer types callers find with \<open>errors.As\<close>.
\<close>

datatype reader_error =
    ReaderUnauthorized | ReaderInvalidRequest | ReaderSandboxNotFound | ReaderInvalidFilePath
  | ReaderFileNotFound | ReaderFileTooLarge | ReaderUnavailable | ReaderResponseTooLarge
  | ReaderSessionNotFound

datatype api_error =
    ApiInvalidInput | ApiProfileNotFound | ApiInvalidCursor | ApiSessionNotFound
  | ApiStatusUnavailable | ApiExecUnavailable | ApiExecFailed | ApiSandboxNotFound
  | ApiInvalidFilePath | ApiFileNotFound | ApiFileTooLarge | ApiFileUnavailable
  | ApiRetryUnavailable | ApiIdempotencyConflict | ApiTimelineUnavailable | ApiTurnNotFound

datatype sentinel =
    ErrNotFound | ErrNoRows | ErrAdmissionConflict | ErrDirectAdmissionConflict
  | ErrInvalidAdmission | ErrNativeUnavailable | ErrNativeUnknown | ErrInvalidEvent
  | ErrRetryReplayConflict | ErrRetryNotEligible
  | ErrCheckpointIneligible | ErrCheckpointSuperseded | ErrCheckpointNotFound
  | ErrCaptureNotFound | ErrCaptureConflict
  | ErrEnrollmentUnavailable | ErrUnauthenticated | ErrClientConflict | ErrClientNotFound
  | ErrInvalidInput | ErrNoTaskContext
  | ErrInvalidFilePath | ErrFileUnavailable | ErrFileTooLarge | ErrFileNotExist
  | ErrTimelineUnavailable | ErrTurnNotFound | ErrCommandTimeout | ErrProfileNotFound
  | Reader reader_error | Api api_error

datatype err =
    Sentinel sentinel
  | Errorf string
  | Wrapf string err
  | Join err err
  | OwnershipError string
  | UnsupportedError string
  | ArtifactUnavailableError string
  | AttentionError string \<comment> \<open>the attention errors of the gateway and of the Codex harness\<close>
  | PgError string string \<comment> \<open>SQLSTATE code and constraint name\<close>
  | AbsurdTimeout
  | External string \<comment> \<open>an error reported by code outside the repository\<close>

primrec err_is :: "err \<Rightarrow> sentinel \<Rightarrow> bool" where
  "err_is (Sentinel t) s = (t = s)"
| "err_is (Errorf m) s = False"
| "err_is (Wrapf m e) s = err_is e s"
| "err_is (Join d e) s = (err_is d s \<or> err_is e s)"
| "err_is (OwnershipError m) s = False"
| "err_is (UnsupportedError m) s = False"
| "err_is (ArtifactUnavailableError m) s = False"
| "err_is (AttentionError m) s = False"
| "err_is (PgError c k) s = False"
| "err_is AbsurdTimeout s = False"
| "err_is (External m) s = False"

section \<open>Actions with state and errors\<close>

text \<open>
  An action maps a state to an error or a result, and a state. A Go function that returns
  \<open>(T, error)\<close> and mutates durable state is an action; an early \<open>return err\<close> keeps the
  effects already made, as it does in Go. \<open>tx\<close> is a database transaction with
  \<open>defer tx.Rollback()\<close>: an error leaves the state as it was when the transaction began.
\<close>

type_synonym ('s, 'a) act = "'s \<Rightarrow> (err + 'a) \<times> 's"

definition ret :: "'a \<Rightarrow> ('s, 'a) act" where
  "ret x = (\<lambda>s. (Inr x, s))"

definition fail :: "err \<Rightarrow> ('s, 'a) act" where
  "fail e = (\<lambda>s. (Inl e, s))"

definition bnd :: "('s, 'a) act \<Rightarrow> ('a \<Rightarrow> ('s, 'b) act) \<Rightarrow> ('s, 'b) act" where
  "bnd m f = (\<lambda>s. case m s of (Inl e, t) \<Rightarrow> (Inl e, t) | (Inr x, t) \<Rightarrow> f x t)"

definition seq :: "('s, 'a) act \<Rightarrow> ('s, 'b) act \<Rightarrow> ('s, 'b) act" where
  "seq m n = bnd m (\<lambda>_. n)"

definition require :: "bool \<Rightarrow> err \<Rightarrow> ('s, unit) act" where
  "require b e = (if b then ret () else fail e)"

definition gets :: "('s \<Rightarrow> 'a) \<Rightarrow> ('s, 'a) act" where
  "gets f = (\<lambda>s. (Inr (f s), s))"

definition modify :: "('s \<Rightarrow> 's) \<Rightarrow> ('s, unit) act" where
  "modify f = (\<lambda>s. (Inr (), f s))"

definition lift :: "err + 'a \<Rightarrow> ('s, 'a) act" where
  "lift r = (case r of Inl e \<Rightarrow> fail e | Inr x \<Rightarrow> ret x)"

definition the_row :: "'a option \<Rightarrow> err \<Rightarrow> ('s, 'a) act" where
  "the_row r e = (case r of None \<Rightarrow> fail e | Some x \<Rightarrow> ret x)"

definition attempt :: "('s, 'a) act \<Rightarrow> ('s, err + 'a) act" where
  \<comment> \<open>the call whose error the caller inspects instead of returning it\<close>
  "attempt m = (\<lambda>s. case m s of (r, t) \<Rightarrow> (Inr r, t))"

definition tx :: "('s, 'a) act \<Rightarrow> ('s, 'a) act" where
  "tx m = (\<lambda>s. case m s of (Inl e, t) \<Rightarrow> (Inl e, s) | (Inr x, t) \<Rightarrow> (Inr x, t))"

primrec for_each :: "'a list \<Rightarrow> ('a \<Rightarrow> ('s, unit) act) \<Rightarrow> ('s, unit) act" where
  "for_each [] f = ret ()"
| "for_each (x # xs) f = seq (f x) (for_each xs f)"

section \<open>Weakest preconditions\<close>

definition wp :: "('s, 'a) act \<Rightarrow> ('a \<Rightarrow> 's \<Rightarrow> bool) \<Rightarrow> (err \<Rightarrow> 's \<Rightarrow> bool) \<Rightarrow> 's \<Rightarrow> bool" where
  "wp m Q E s = (case m s of (Inr x, t) \<Rightarrow> Q x t | (Inl e, t) \<Rightarrow> E e t)"

lemma wp_ret [wp_simps]: "wp (ret x) Q E = Q x"
  by (rule ext) (simp add: wp_def ret_def)

lemma wp_fail [wp_simps]: "wp (fail e) Q E = E e"
  by (rule ext) (simp add: wp_def fail_def)

lemma wp_bnd [wp_simps]: "wp (bnd m f) Q E = wp m (\<lambda>x. wp (f x) Q E) E"
  by (rule ext) (auto simp: wp_def bnd_def split: prod.splits sum.splits)

lemma wp_seq [wp_simps]: "wp (seq m n) Q E = wp m (\<lambda>_. wp n Q E) E"
  by (simp add: seq_def wp_bnd)

lemma wp_require [wp_simps]:
  "wp (require b e) Q E = (\<lambda>s. (b \<longrightarrow> Q () s) \<and> (\<not> b \<longrightarrow> E e s))"
  by (rule ext) (simp add: require_def wp_ret wp_fail)

lemma wp_gets [wp_simps]: "wp (gets f) Q E = (\<lambda>s. Q (f s) s)"
  by (rule ext) (simp add: wp_def gets_def)

lemma wp_modify [wp_simps]: "wp (modify f) Q E = (\<lambda>s. Q () (f s))"
  by (rule ext) (simp add: wp_def modify_def)

lemma wp_total [wp_simps]: "wp (\<lambda>s. (Inr (v s), f s)) Q E = (\<lambda>s. Q (v s) (f s))"
  by (rule ext) (simp add: wp_def)

lemma wp_lift [wp_simps]:
  "wp (lift r) Q E = (\<lambda>s. case r of Inl e \<Rightarrow> E e s | Inr x \<Rightarrow> Q x s)"
  by (rule ext) (simp add: lift_def wp_ret wp_fail split: sum.splits)

lemma wp_the_row [wp_simps]:
  "wp (the_row r e) Q E = (\<lambda>s. case r of None \<Rightarrow> E e s | Some x \<Rightarrow> Q x s)"
  by (rule ext) (simp add: the_row_def wp_ret wp_fail split: option.splits)

lemma wp_attempt [wp_simps]:
  "wp (attempt m) Q E = wp m (\<lambda>x. Q (Inr x)) (\<lambda>e. Q (Inl e))"
  by (rule ext) (auto simp: wp_def attempt_def split: prod.splits sum.splits)

lemma wp_tx [wp_simps]: "wp (tx m) Q E = (\<lambda>s. wp m Q (\<lambda>e _. E e s) s)"
  by (rule ext) (auto simp: wp_def tx_def split: prod.splits sum.splits)

lemma wp_if [wp_simps]:
  "wp (if b then m else n) Q E = (\<lambda>s. (b \<longrightarrow> wp m Q E s) \<and> (\<not> b \<longrightarrow> wp n Q E s))"
  by (rule ext) simp

lemma wp_case_option [wp_simps]:
  "wp (case x of None \<Rightarrow> m | Some y \<Rightarrow> f y) Q E =
    (\<lambda>s. case x of None \<Rightarrow> wp m Q E s | Some y \<Rightarrow> wp (f y) Q E s)"
  by (cases x) auto

lemma wp_case_sum [wp_simps]:
  "wp (case x of Inl e \<Rightarrow> m e | Inr y \<Rightarrow> f y) Q E =
    (\<lambda>s. case x of Inl e \<Rightarrow> wp (m e) Q E s | Inr y \<Rightarrow> wp (f y) Q E s)"
  by (cases x) auto

lemma wp_case_prod [wp_simps]:
  "wp (case x of (a, b) \<Rightarrow> f a b) Q E = (\<lambda>s. case x of (a, b) \<Rightarrow> wp (f a b) Q E s)"
  by (cases x) auto

lemma wp_mono:
  assumes "wp m Q E s" and "\<And>x t. Q x t \<Longrightarrow> Q' x t" and "\<And>e t. E e t \<Longrightarrow> E' e t"
  shows "wp m Q' E' s"
  using assms by (auto simp: wp_def split: prod.splits sum.splits)

lemma wp_conj:
  "wp m (\<lambda>x t. Q x t \<and> Q' x t) (\<lambda>e t. E e t \<and> E' e t) s \<longleftrightarrow> wp m Q E s \<and> wp m Q' E' s"
  by (auto simp: wp_def split: prod.splits sum.splits)

lemma wp_both:
  assumes "wp m Q E s" and "wp m Q' E' s"
    and "\<And>x t. Q x t \<Longrightarrow> Q' x t \<Longrightarrow> P x t" and "\<And>e t. E e t \<Longrightarrow> E' e t \<Longrightarrow> F e t"
  shows "wp m P F s"
  using assms by (auto simp: wp_def split: prod.splits sum.splits)

lemma wp_result: "wp m Q E s \<Longrightarrow> m s = (Inr x, t) \<Longrightarrow> Q x t"
  by (simp add: wp_def)

lemma wp_error: "wp m Q E s \<Longrightarrow> m s = (Inl e, t) \<Longrightarrow> E e t"
  by (simp add: wp_def)

lemma wp_of_result:
  assumes "\<And>x t. m s = (Inr x, t) \<Longrightarrow> Q x t" and "\<And>e t. m s = (Inl e, t) \<Longrightarrow> E e t"
  shows "wp m Q E s"
  using assms by (auto simp: wp_def split: prod.splits sum.splits)

lemma wp_trivial [simp]: "wp m (\<lambda>_ _. True) (\<lambda>_ _. True) s"
  by (auto simp: wp_def split: prod.splits sum.splits)

section \<open>Invariants of actions\<close>

text \<open>\<open>keeps I m\<close>: the action \<open>m\<close> preserves \<open>I\<close> whether it returns a result or an error.\<close>

definition keeps :: "('s \<Rightarrow> bool) \<Rightarrow> ('s, 'a) act \<Rightarrow> bool" where
  "keeps I m \<longleftrightarrow> (\<forall>s. I s \<longrightarrow> wp m (\<lambda>_. I) (\<lambda>_. I) s)"

named_theorems keeps_intros \<open>invariant preservation by composition\<close>

lemma keepsI: "(\<And>s. I s \<Longrightarrow> wp m (\<lambda>_. I) (\<lambda>_. I) s) \<Longrightarrow> keeps I m"
  by (simp add: keeps_def)

lemma keepsD: "keeps I m \<Longrightarrow> I s \<Longrightarrow> wp m (\<lambda>_. I) (\<lambda>_. I) s"
  by (simp add: keeps_def)

lemma keeps_snd: "keeps I m \<Longrightarrow> I s \<Longrightarrow> I (snd (m s))"
  by (cases "m s") (auto simp: keeps_def wp_def split: sum.splits)

lemma keeps_run: "keeps I m \<Longrightarrow> I s \<Longrightarrow> m s = (r, t) \<Longrightarrow> I t"
  using keeps_snd by fastforce

lemma keeps_ret [keeps_intros]: "keeps I (ret x)"
  by (simp add: keeps_def wp_ret)

lemma keeps_fail [keeps_intros]: "keeps I (fail e)"
  by (simp add: keeps_def wp_fail)

lemma keeps_bnd [keeps_intros]:
  assumes "keeps I m" and "\<And>x. keeps I (f x)"
  shows "keeps I (bnd m f)"
proof (rule keepsI)
  fix s assume "I s"
  with assms(1) have "wp m (\<lambda>_. I) (\<lambda>_. I) s" by (rule keepsD)
  then have "wp m (\<lambda>x. wp (f x) (\<lambda>_. I) (\<lambda>_. I)) (\<lambda>_. I) s"
    by (rule wp_mono) (auto intro: keepsD [OF assms(2)])
  then show "wp (bnd m f) (\<lambda>_. I) (\<lambda>_. I) s" by (simp add: wp_bnd)
qed

lemma keeps_seq [keeps_intros]: "keeps I m \<Longrightarrow> keeps I n \<Longrightarrow> keeps I (seq m n)"
  by (simp add: seq_def keeps_bnd)

lemma keeps_require [keeps_intros]: "keeps I (require b e)"
  by (simp add: keeps_def wp_require)

lemma keeps_gets [keeps_intros]: "keeps I (gets f)"
  by (simp add: keeps_def wp_gets)

lemma keeps_modify: "(\<And>s. I s \<Longrightarrow> I (f s)) \<Longrightarrow> keeps I (modify f)"
  by (simp add: keeps_def wp_modify)

lemma keeps_lift [keeps_intros]: "keeps I (lift r)"
  by (simp add: keeps_def wp_lift split: sum.splits)

lemma keeps_the_row [keeps_intros]: "keeps I (the_row r e)"
  by (simp add: keeps_def wp_the_row split: option.splits)

lemma keeps_attempt [keeps_intros]: "keeps I m \<Longrightarrow> keeps I (attempt m)"
  by (simp add: keeps_def wp_attempt)

lemma keeps_tx [keeps_intros]: "keeps I m \<Longrightarrow> keeps I (tx m)"
  by (auto simp: keeps_def wp_tx intro: wp_mono)

lemma keeps_if [keeps_intros]: "keeps I m \<Longrightarrow> keeps I n \<Longrightarrow> keeps I (if b then m else n)"
  by simp

lemma keeps_case_option [keeps_intros]:
  "keeps I m \<Longrightarrow> (\<And>y. keeps I (f y)) \<Longrightarrow> keeps I (case x of None \<Rightarrow> m | Some y \<Rightarrow> f y)"
  by (cases x) auto

lemma keeps_case_sum [keeps_intros]:
  "(\<And>e. keeps I (m e)) \<Longrightarrow> (\<And>y. keeps I (f y)) \<Longrightarrow>
    keeps I (case x of Inl e \<Rightarrow> m e | Inr y \<Rightarrow> f y)"
  by (cases x) auto

lemma keeps_case_prod [keeps_intros]:
  "(\<And>a b. keeps I (f a b)) \<Longrightarrow> keeps I (case x of (a, b) \<Rightarrow> f a b)"
  by (cases x) auto

lemma keeps_for_each [keeps_intros]: "(\<And>x. keeps I (f x)) \<Longrightarrow> keeps I (for_each xs f)"
  by (induction xs) (auto intro: keeps_intros)

lemma bnd_assoc: "bnd (bnd m f) g = bnd m (\<lambda>x. bnd (f x) g)"
  by (rule ext) (auto simp: bnd_def split: prod.split sum.split)

lemma tx_error_unchanged: "tx m s = (Inl e, t) \<Longrightarrow> t = s"
  by (auto simp: tx_def split: prod.splits sum.splits)

section \<open>Generic facts\<close>

lemma filter_length_le_one:
  "distinct (map k xs) \<Longrightarrow> length (filter (\<lambda>x. k x = a \<and> P x) xs) \<le> 1"
proof (induction xs)
  case Nil
  then show ?case by simp
next
  case (Cons x xs)
  show ?case
  proof (cases "k x = a")
    case True
    from Cons.prems have "k x \<notin> k ` set xs" by simp
    then have "\<forall>y \<in> set xs. k y \<noteq> a" using True by (metis imageI)
    then have "filter (\<lambda>x. k x = a \<and> P x) xs = []" by (simp add: filter_empty_conv)
    then show ?thesis by simp
  next
    case False
    with Cons show ?thesis by simp
  qed
qed

end
