(* ===== verification/Go_Strings.thy ===== *)
theory Go_Strings
  imports Dorf_Prelude "HOL-Library.Char_ord"
begin

text \<open>
  The parts of Go's standard library on strings that the code uses. A Go string is a byte
  string, here a \<open>char list\<close> with one \<open>char\<close> per byte: \<open>length\<close> is Go's \<open>len\<close>.
  UTF-8 decoding, white space trimming, \<open>path.Clean\<close> and decimal formatting are
  written out, so that every definition that uses them computes.
\<close>

abbreviation byte :: "char \<Rightarrow> nat" where
  "byte \<equiv> of_char"

section \<open>Searching and cutting\<close>

definition has_prefix :: "string \<Rightarrow> string \<Rightarrow> bool" where
  "has_prefix s p = (take (length p) s = p)"

definition has_suffix :: "string \<Rightarrow> string \<Rightarrow> bool" where
  "has_suffix s p = has_prefix (rev s) (rev p)"

definition trim_prefix :: "string \<Rightarrow> string \<Rightarrow> string" where
  "trim_prefix s p = (if has_prefix s p then drop (length p) s else s)"

definition trim_suffix :: "string \<Rightarrow> string \<Rightarrow> string" where
  "trim_suffix s p = (if has_suffix s p then take (length s - length p) s else s)"

definition contains_nul :: "string \<Rightarrow> bool" where
  "contains_nul s = (CHR 0x00 \<in> set s)"

definition contains_any :: "string \<Rightarrow> char list \<Rightarrow> bool" where
  "contains_any s cs = list_ex (\<lambda>c. c \<in> set cs) s"

fun split_on :: "char \<Rightarrow> string \<Rightarrow> string list" where
  "split_on c [] = [[]]"
| "split_on c (x # xs) =
     (if x = c then [] # split_on c xs
      else case split_on c xs of [] \<Rightarrow> [[x]] | p # ps \<Rightarrow> (x # p) # ps)"

definition join_with :: "string \<Rightarrow> string list \<Rightarrow> string" where
  "join_with sep xs = (case xs of [] \<Rightarrow> [] | y # ys \<Rightarrow> y @ concat (map (\<lambda>z. sep @ z) ys))"

fun cut_on :: "char \<Rightarrow> string \<Rightarrow> string \<times> string \<times> bool" where
  \<comment> \<open>strings.Cut with a one-byte separator\<close>
  "cut_on c [] = ([], [], False)"
| "cut_on c (x # xs) =
     (if x = c then ([], xs, True)
      else case cut_on c xs of (a, b, ok) \<Rightarrow> (x # a, b, ok))"

lemma split_on_ne [simp]: "split_on c s \<noteq> []"
  by (induction s) (auto split: list.splits)

lemma join_split_on: "join_with [c] (split_on c s) = s"
proof (induction s)
  case Nil
  then show ?case by (simp add: join_with_def)
next
  case (Cons x xs)
  then show ?case
    by (cases "split_on c xs") (auto simp: join_with_def)
qed

lemma split_on_no_sep: "p \<in> set (split_on c s) \<Longrightarrow> c \<notin> set p"
  by (induction s arbitrary: p) (auto split: list.splits if_splits)

lemma split_on_append:
  "c \<notin> set p \<Longrightarrow> split_on c (p @ c # s) = p # split_on c s"
  by (induction p) auto

lemma split_on_none: "c \<notin> set p \<Longrightarrow> split_on c p = [p]"
  by (induction p) auto

lemma cut_on_append: "c \<notin> set p \<Longrightarrow> cut_on c (p @ c # s) = (p, s, True)"
  by (induction p) auto

section \<open>UTF-8\<close>

definition in_range :: "nat \<Rightarrow> nat \<Rightarrow> char \<Rightarrow> bool" where
  "in_range lo hi c = (lo \<le> byte c \<and> byte c \<le> hi)"

definition cont :: "char \<Rightarrow> bool" where
  "cont c = in_range 128 191 c"

definition rune_size :: "string \<Rightarrow> nat" where
  \<comment> \<open>the length of the valid encoding a string starts with, 0 where there is none\<close>
  "rune_size s =
    (case s of
       [] \<Rightarrow> 0
     | a # s1 \<Rightarrow>
       if byte a < 128 then 1
       else case s1 of
         [] \<Rightarrow> 0
       | b # s2 \<Rightarrow>
         if in_range 194 223 a then (if cont b then 2 else 0)
         else case s2 of
           [] \<Rightarrow> 0
         | c # s3 \<Rightarrow>
           if in_range 224 239 a then
             (if cont c \<and> (if byte a = 224 then in_range 160 191 b
                            else if byte a = 237 then in_range 128 159 b else cont b)
              then 3 else 0)
           else case s3 of
             [] \<Rightarrow> 0
           | d # _ \<Rightarrow>
             if in_range 240 244 a \<and> cont c \<and> cont d \<and>
                (if byte a = 240 then in_range 144 191 b
                 else if byte a = 244 then in_range 128 143 b else cont b)
             then 4 else 0)"

function valid_utf8 :: "string \<Rightarrow> bool" where
  "valid_utf8 s =
    (if s = [] then True else if rune_size s = 0 then False
     else valid_utf8 (drop (rune_size s) s))"
  by pat_completeness auto
termination
  by (relation "measure length") auto

function rune_count :: "string \<Rightarrow> nat" where
  "rune_count s = (if s = [] then 0 else Suc (rune_count (drop (max 1 (rune_size s)) s)))"
  by pat_completeness auto
termination
  by (relation "measure length") auto

declare valid_utf8.simps [simp del] rune_count.simps [simp del]

lemma rune_count_le: "rune_count s \<le> length s"
proof (induction s rule: rune_count.induct)
  case (1 s)
  show ?case
  proof (cases "s = []")
    case True
    then show ?thesis by (simp add: rune_count.simps)
  next
    case False
    define k where "k = max 1 (rune_size s)"
    from False 1 have "rune_count (drop k s) \<le> length s - k"
      by (simp add: k_def)
    moreover from False have "length s > 0" and "k \<ge> 1" by (simp_all add: k_def)
    ultimately have "Suc (rune_count (drop k s)) \<le> length s" by linarith
    with False show ?thesis
      by (simp add: rune_count.simps [of s] k_def)
  qed
qed

fun has_control :: "string \<Rightarrow> bool" where
  \<comment> \<open>strings.IndexFunc(s, unicode.IsControl) >= 0, for a valid UTF-8 string\<close>
  "has_control [] = False"
| "has_control [a] = (byte a < 32 \<or> byte a = 127)"
| "has_control (a # b # s) =
     (byte a < 32 \<or> byte a = 127 \<or> (byte a = 194 \<and> in_range 128 159 b) \<or> has_control (b # s))"

section \<open>White space\<close>

definition space_size :: "string \<Rightarrow> nat" where
  \<comment> \<open>the length of the Unicode white space rune a string starts with, 0 where there is none\<close>
  "space_size s =
    (case map byte (take 3 s) of
       [] \<Rightarrow> 0
     | a # r \<Rightarrow>
       if a = 32 \<or> (9 \<le> a \<and> a \<le> 13) then 1
       else case r of
         [] \<Rightarrow> 0
       | b # r2 \<Rightarrow>
         if a = 194 \<and> (b = 133 \<or> b = 160) then 2
         else case r2 of
           [] \<Rightarrow> 0
         | c # _ \<Rightarrow>
           if (a = 225 \<and> b = 154 \<and> c = 128) \<or>
              (a = 226 \<and> b = 128 \<and> ((128 \<le> c \<and> c \<le> 138) \<or> c = 168 \<or> c = 169 \<or> c = 175)) \<or>
              (a = 226 \<and> b = 129 \<and> c = 159) \<or>
              (a = 227 \<and> b = 128 \<and> c = 128)
           then 3 else 0)"

definition space_suffix_size :: "string \<Rightarrow> nat" where
  "space_suffix_size s =
    (if length s \<ge> 1 \<and> space_size (drop (length s - 1) s) = 1 then 1
     else if length s \<ge> 2 \<and> space_size (drop (length s - 2) s) = 2 then 2
     else if length s \<ge> 3 \<and> space_size (drop (length s - 3) s) = 3 then 3
     else 0)"

function trim_left_space :: "string \<Rightarrow> string" where
  "trim_left_space s =
    (if s = [] \<or> space_size s = 0 then s else trim_left_space (drop (space_size s) s))"
  by pat_completeness auto
termination
  by (relation "measure length") auto

function trim_right_space :: "string \<Rightarrow> string" where
  "trim_right_space s =
    (if s = [] \<or> space_suffix_size s = 0 then s
     else trim_right_space (take (length s - space_suffix_size s) s))"
  by pat_completeness auto
termination
  by (relation "measure length") (auto simp: neq_Nil_conv)

declare trim_left_space.simps [simp del] trim_right_space.simps [simp del]

definition trim_space :: "string \<Rightarrow> string" where
  "trim_space s = trim_right_space (trim_left_space s)"

lemma trim_left_length: "length (trim_left_space s) \<le> length s"
proof (induction s rule: trim_left_space.induct)
  case (1 s)
  then show ?case
    by (cases "s = [] \<or> space_size s = 0") (auto simp: trim_left_space.simps [of s])
qed

lemma trim_right_length: "length (trim_right_space s) \<le> length s"
proof (induction s rule: trim_right_space.induct)
  case (1 s)
  then show ?case
    by (cases "s = [] \<or> space_suffix_size s = 0") (auto simp: trim_right_space.simps [of s])
qed

lemma space_size_take: "space_size s = 0 \<Longrightarrow> space_size (take n s) = 0"
proof -
  assume z: "space_size s = 0"
  show ?thesis
  proof (cases s)
    case (Cons a s1)
    note a = Cons
    show ?thesis
    proof (cases s1)
      case Nil
      with a z show ?thesis by (cases n) (simp_all add: space_size_def)
    next
      case (Cons b s2)
      with a z show ?thesis
        by (cases n; cases s2; cases "n - 1"; cases "n - 2") (auto simp: space_size_def split: if_splits)
    qed
  qed (simp add: space_size_def)
qed

lemma trim_left_end: "space_size (trim_left_space s) = 0"
proof (induction s rule: trim_left_space.induct)
  case (1 s)
  then show ?case
    by (cases "s = [] \<or> space_size s = 0") (auto simp: trim_left_space.simps [of s] space_size_def)
qed

lemma trim_right_take: "\<exists>n. trim_right_space s = take n s"
proof (induction s rule: trim_right_space.induct)
  case (1 s)
  show ?case
  proof (cases "s = [] \<or> space_suffix_size s = 0")
    case True
    then show ?thesis by (intro exI [of _ "length s"]) (simp add: trim_right_space.simps [of s])
  next
    case False
    then obtain n where "trim_right_space (take (length s - space_suffix_size s) s) = take n (take (length s - space_suffix_size s) s)"
      using 1 [OF False] by (elim exE)
    with False show ?thesis by (auto simp: trim_right_space.simps [of s])
  qed
qed

lemma trim_right_end: "trim_right_space s = [] \<or> space_suffix_size (trim_right_space s) = 0"
proof (induction s rule: trim_right_space.induct)
  case (1 s)
  then show ?case by (cases "s = [] \<or> space_suffix_size s = 0") (auto simp: trim_right_space.simps [of s])
qed

lemma trim_trim: "trim_space (trim_space s) = trim_space s"
proof -
  obtain n where "trim_space s = take n (trim_left_space s)" using trim_right_take unfolding trim_space_def by blast
  then have "space_size (trim_space s) = 0" using space_size_take [OF trim_left_end] by metis
  then have "trim_left_space (trim_space s) = trim_space s" by (simp add: trim_left_space.simps [of "trim_space s"])
  moreover have "trim_right_space (trim_space s) = trim_space s"
    using trim_right_end [of "trim_left_space s"] unfolding trim_space_def [symmetric]
    by (subst trim_right_space.simps) auto
  ultimately show ?thesis by (simp add: trim_space_def [of "trim_space s"])
qed

lemma trim_space_length: "length (trim_space s) \<le> length s"
  unfolding trim_space_def using trim_left_length trim_right_length le_trans by blast

lemma trim_space_Nil [simp]: "trim_space [] = []"
  by (simp add: trim_space_def trim_left_space.simps trim_right_space.simps)

definition exact :: "string \<Rightarrow> bool" where
  \<comment> \<open>the recurring check \<open>value == strings.TrimSpace(value)\<close>\<close>
  "exact s = (trim_space s = s)"

section \<open>Decimal numbers\<close>

fun itoa :: "nat \<Rightarrow> string" where
  "itoa n = (if n < 10 then [char_of (48 + n)] else itoa (n div 10) @ [char_of (48 + n mod 10)])"

declare itoa.simps [simp del]

definition format_int :: "int \<Rightarrow> string" where
  "format_int i = (if i < 0 then CHR ''-'' # itoa (nat (- i)) else itoa (nat i))"

definition pad20 :: "nat \<Rightarrow> string" where
  \<comment> \<open>the verb \<open>%020d\<close> for a non-negative integer\<close>
  "pad20 n = replicate (20 - length (itoa n)) (CHR ''0'') @ itoa n"

definition digit_val :: "char \<Rightarrow> nat" where
  "digit_val c = byte c - 48"

definition is_digit :: "char \<Rightarrow> bool" where
  "is_digit c = in_range 48 57 c"

fun atoi_acc :: "nat \<Rightarrow> string \<Rightarrow> nat" where
  "atoi_acc acc [] = acc"
| "atoi_acc acc (c # s) = atoi_acc (10 * acc + digit_val c) s"

definition atoi :: "string \<Rightarrow> nat" where
  "atoi s = atoi_acc 0 s"

lemma byte_digit [simp]: "n < 10 \<Longrightarrow> byte (char_of (48 + n) :: char) = 48 + n"
  by simp

lemma atoi_acc_append: "atoi_acc a (s @ t) = atoi_acc (atoi_acc a s) t"
  by (induction s arbitrary: a) auto

lemma atoi_itoa: "atoi (itoa n) = n"
proof (induction n rule: itoa.induct)
  case (1 n)
  show ?case
  proof (cases "n < 10")
    case True
    then show ?thesis by (simp add: itoa.simps [of n] atoi_def digit_val_def)
  next
    case False
    with 1 have "atoi (itoa (n div 10)) = n div 10" by simp
    with False show ?thesis
      by (simp add: itoa.simps [of n] atoi_def atoi_acc_append digit_val_def)
  qed
qed

lemma itoa_inject: "itoa m = itoa n \<Longrightarrow> m = n"
  by (metis atoi_itoa)

lemma itoa_digits: "c \<in> set (itoa n) \<Longrightarrow> is_digit c"
proof (induction n rule: itoa.induct)
  case (1 n)
  then show ?case
    by (cases "n < 10") (auto simp: itoa.simps [of n] is_digit_def in_range_def)
qed

lemma itoa_ne [simp]: "itoa n \<noteq> []"
  by (subst itoa.simps) simp

lemma atoi_acc_zeros: "atoi_acc 0 (replicate k (CHR ''0'') @ s) = atoi_acc 0 s"
  by (induction k) (auto simp: digit_val_def)

lemma pad20_inject: "pad20 m = pad20 n \<Longrightarrow> m = n"
  unfolding pad20_def by (metis atoi_acc_zeros atoi_def atoi_itoa)

section \<open>Character classes of the regular expressions\<close>

definition lower_hex :: "char \<Rightarrow> bool" where
  "lower_hex c = (is_digit c \<or> in_range 97 102 c)"

definition is_lower :: "char \<Rightarrow> bool" where
  "is_lower c = in_range 97 122 c"

definition is_upper :: "char \<Rightarrow> bool" where
  "is_upper c = in_range 65 90 c"

definition url_char :: "char \<Rightarrow> bool" where
  \<comment> \<open>\<open>[A-Za-z0-9_-]\<close>\<close>
  "url_char c = (is_lower c \<or> is_upper c \<or> is_digit c \<or> c = CHR ''_'' \<or> c = CHR ''-'')"

definition hex64 :: "string \<Rightarrow> bool" where
  \<comment> \<open>\<open>^[0-9a-f]{64}$\<close>\<close>
  "hex64 s = (length s = 64 \<and> list_all lower_hex s)"

fun to_lower :: "string \<Rightarrow> string" where
  \<comment> \<open>strings.ToLower as far as an ASCII result can tell: ASCII letters, and the two
      other runes whose lower case is ASCII (U+0130 and U+212A); every other rune maps to
      non-ASCII runes and is left alone\<close>
  "to_lower [] = []"
| "to_lower (a # s) =
     (if is_upper a then char_of (byte a + 32) # to_lower s
      else case s of
        b # s2 \<Rightarrow>
          if byte a = 196 \<and> byte b = 176 then CHR ''i'' # to_lower s2
          else (case s2 of
            c # s3 \<Rightarrow>
              if byte a = 226 \<and> byte b = 132 \<and> byte c = 170 then CHR ''k'' # to_lower s3
              else a # to_lower s
          | [] \<Rightarrow> a # to_lower s)
      | [] \<Rightarrow> [a])"

section \<open>Paths\<close>

fun clean_step :: "bool \<Rightarrow> string \<Rightarrow> string list \<Rightarrow> string list" where
  \<comment> \<open>one path element over the elements kept so far, last one first\<close>
  "clean_step rooted p stack =
    (if p = [] \<or> p = ''.'' then stack
     else if p = ''..'' then
       (case stack of
          [] \<Rightarrow> if rooted then [] else [''..'']
        | q # qs \<Rightarrow> if q = ''..'' then ''..'' # stack else qs)
     else p # stack)"

definition path_clean :: "string \<Rightarrow> string" where
  "path_clean s =
    (let rooted = has_prefix s ''/'';
         out = rev (fold (clean_step rooted) (split_on (CHR ''/'') s) []);
         body = join_with ''/'' out
     in if rooted then CHR ''/'' # body else if body = [] then ''.'' else body)"

definition path_is_abs :: "string \<Rightarrow> bool" where
  "path_is_abs s = has_prefix s ''/''"

definition path_base :: "string \<Rightarrow> string" where
  "path_base s =
    (if s = [] then ''.''
     else let t = rev (dropWhile (\<lambda>c. c = CHR ''/'') (rev s)) in
       if t = [] then ''/'' else last (split_on (CHR ''/'') t))"

lemma base_no_slash:
  assumes "path_base i = i" and "i \<noteq> []" and "i \<noteq> ''/''"
  shows "CHR ''/'' \<notin> set i"
proof -
  let ?t = "rev (dropWhile (\<lambda>c. c = CHR ''/'') (rev i))"
  have "?t \<noteq> []" using assms by (auto simp: path_base_def Let_def split: if_splits)
  then have "path_base i = last (split_on (CHR ''/'') ?t)"
    using assms(2) by (simp only: path_base_def Let_def if_False)
  then have "i = last (split_on (CHR ''/'') ?t)" using assms(1) by simp
  then have "i \<in> set (split_on (CHR ''/'') ?t)" by (metis last_in_set split_on_ne)
  then show ?thesis by (rule split_on_no_sep)
qed

lemma valid_ascii_prefix: "list_all (\<lambda>c. byte c < 128) s \<Longrightarrow> valid_utf8 (s @ t) = valid_utf8 t"
  by (induction s) (simp_all add: valid_utf8.simps [of "_ # _"] rune_size_def)

end
