(* ===== verification/Go_Sha256.thy ===== *)
theory Go_Sha256
  imports Go_Strings "HOL-Library.Word"
begin

text \<open>
  \<open>crypto/sha256\<close> and \<open>encoding/hex\<close>, written out (FIPS 180-4): Dorf derives the identities
  of Sessions, Sandboxes, routes and Actions, the definition hash of a profile and the stored
  form of every credential from SHA-256 digests. No theorem of the development assumes that
  the function is injective.
\<close>

unbundle bit_operations_syntax

type_synonym u32 = "32 word"

definition rotr :: "nat \<Rightarrow> u32 \<Rightarrow> u32" where
  "rotr n x = (drop_bit n x) OR (push_bit (32 - n) x)"

definition sha_k :: "u32 list" where
  "sha_k =
    map of_nat
      [1116352408, 1899447441, 3049323471, 3921009573, 961987163, 1508970993,
       2453635748, 2870763221, 3624381080, 310598401, 607225278, 1426881987,
       1925078388, 2162078206, 2614888103, 3248222580, 3835390401, 4022224774,
       264347078, 604807628, 770255983, 1249150122, 1555081692, 1996064986,
       2554220882, 2821834349, 2952996808, 3210313671, 3336571891, 3584528711,
       113926993, 338241895, 666307205, 773529912, 1294757372, 1396182291,
       1695183700, 1986661051, 2177026350, 2456956037, 2730485921, 2820302411,
       3259730800, 3345764771, 3516065817, 3600352804, 4094571909, 275423344,
       430227734, 506948616, 659060556, 883997877, 958139571, 1322822218,
       1537002063, 1747873779, 1955562222, 2024104815, 2227730452, 2361852424,
       2428436474, 2756734187, 3204031479, 3329325298]"

definition sha_init :: "u32 list" where
  "sha_init =
    map of_nat
      [1779033703, 3144134277, 1013904242, 2773480762, 1359893119, 2600822924,
       528734635, 1541459225]"

definition sha_pad :: "nat list \<Rightarrow> nat list" where
  "sha_pad bs =
    (let n = length bs; z = (119 - n mod 64) mod 64
     in bs @ [128] @ replicate z 0 @ map (\<lambda>i. (8 * n) div 256 ^ (7 - i) mod 256) [0..<8])"

fun be_words :: "nat list \<Rightarrow> u32 list" where
  "be_words (a # b # c # d # r) =
     of_nat (((a * 256 + b) * 256 + c) * 256 + d) # be_words r"
| "be_words _ = []"

fun schedule :: "nat \<Rightarrow> u32 list \<Rightarrow> u32 list" where
  \<comment> \<open>extends the message schedule, newest word first, by \<open>n\<close> words\<close>
  "schedule 0 w = w"
| "schedule (Suc n) w =
     (let a = w ! 14; e = w ! 1;
          s0 = rotr 7 a XOR rotr 18 a XOR drop_bit 3 a;
          s1 = rotr 17 e XOR rotr 19 e XOR drop_bit 10 e
      in schedule n ((w ! 15 + s0 + w ! 6 + s1) # w))"

fun sha_round :: "u32 \<times> u32 \<Rightarrow> u32 list \<Rightarrow> u32 list" where
  "sha_round (k, w) [a, b, c, d, e, f, g, h] =
     (let s1 = rotr 6 e XOR rotr 11 e XOR rotr 25 e;
          ch = (e AND f) XOR (NOT e AND g);
          t1 = h + s1 + ch + k + w;
          s0 = rotr 2 a XOR rotr 13 a XOR rotr 22 a;
          mj = (a AND b) XOR (a AND c) XOR (b AND c)
      in [t1 + (s0 + mj), a, b, c, d + t1, e, f, g])"
| "sha_round _ v = v"

definition sha_block :: "u32 list \<Rightarrow> u32 list \<Rightarrow> u32 list" where
  "sha_block v block =
     map2 (+) v (fold sha_round (zip sha_k (rev (schedule 48 (rev block)))) v)"

function sha_blocks :: "u32 list \<Rightarrow> u32 list \<Rightarrow> u32 list" where
  "sha_blocks v ws = (if ws = [] then v else sha_blocks (sha_block v (take 16 ws)) (drop 16 ws))"
  by pat_completeness auto
termination
  by (relation "measure (\<lambda>(v, ws). length ws)") auto

declare sha_blocks.simps [simp del]

definition hex_digit :: "nat \<Rightarrow> char" where
  "hex_digit n = (if n < 10 then char_of (48 + n) else char_of (87 + n))"

definition hex_word :: "u32 \<Rightarrow> string" where
  "hex_word w = map (\<lambda>i. hex_digit (unat w div 16 ^ (7 - i) mod 16)) [0..<8]"

definition sha256_words :: "string \<Rightarrow> u32 list" where
  "sha256_words s = sha_blocks sha_init (be_words (sha_pad (map of_char s)))"

definition sha256_hex :: "string \<Rightarrow> string" where
  "sha256_hex s = concat (map hex_word (sha256_words s))"

lemma sha_round_length: "length v = 8 \<Longrightarrow> length (sha_round kw v) = 8"
  by (cases "(kw, v)" rule: sha_round.cases) (auto simp: Let_def)

lemma fold_sha_round_length: "length v = 8 \<Longrightarrow> length (fold sha_round kws v) = 8"
  by (induction kws arbitrary: v) (auto simp: sha_round_length)

lemma sha_blocks_length: "length v = 8 \<Longrightarrow> length (sha_blocks v ws) = 8"
proof (induction v ws rule: sha_blocks.induct)
  case (1 v ws)
  show ?case
  proof (cases "ws = []")
    case True
    with 1 show ?thesis by (simp add: sha_blocks.simps)
  next
    case False
    with 1 show ?thesis
      by (simp add: sha_blocks.simps [of v ws] sha_block_def fold_sha_round_length)
  qed
qed

lemma sha256_words_length [simp]: "length (sha256_words s) = 8"
  by (simp add: sha256_words_def sha_blocks_length sha_init_def)

lemma hex_digit_lower: "n < 16 \<Longrightarrow> lower_hex (hex_digit n)"
  by (auto simp: hex_digit_def lower_hex_def is_digit_def in_range_def)

lemma hex_word_props: "length (hex_word w) = 8 \<and> list_all lower_hex (hex_word w)"
  by (auto simp: hex_word_def list_all_iff intro!: hex_digit_lower)

lemma concat_hex_length: "length (concat (map hex_word ws)) = 8 * length ws"
  by (induction ws) (auto simp: hex_word_props)

lemma concat_hex_lower: "list_all lower_hex (concat (map hex_word ws))"
  by (induction ws) (auto simp: hex_word_props)

lemma sha256_hex_length [simp]: "length (sha256_hex s) = 64"
  by (simp add: sha256_hex_def concat_hex_length)

lemma sha256_hex_lower: "list_all lower_hex (sha256_hex s)"
  by (simp add: sha256_hex_def concat_hex_lower)

lemma sha256_hex64 [simp]: "hex64 (sha256_hex s)"
  by (simp add: hex64_def sha256_hex_lower)

end
