(* ===== verification/Core_Domain.thy ===== *)
theory Core_Domain
  imports Go_Sha256
begin

text \<open>
  The data model of \<open>internal/core\<close>: Sessions, Sandboxes, Actions, profiles and native
  execution facts (\<open>domain.go\<close>, \<open>native.go\<close>), the identities derived from them, and the
  validation of client input (\<open>admission.go\<close>, \<open>native.go\<close>). Times are natural numbers of
  the database clock; a zero \<open>time.Time\<close> or a SQL null is \<open>None\<close>.
\<close>

type_synonym time = nat

text \<open>Readings of the database clock are in microseconds, Go durations in nanoseconds.\<close>

definition millisecond :: int where
  "millisecond = 1000000"

definition second :: int where
  "second = 1000000000"

section \<open>Lifecycle states\<close>

datatype cleanup_state = CleanupPending | CleanupRequested | CleanupScheduled | CleanupComplete

fun cleanup_rank :: "cleanup_state \<Rightarrow> nat" where
  "cleanup_rank CleanupPending = 0"
| "cleanup_rank CleanupRequested = 1"
| "cleanup_rank CleanupScheduled = 2"
| "cleanup_rank CleanupComplete = 3"

datatype action_kind =
  ActionSandboxCreate | ActionRouteCreate | ActionRouteRevoke | ActionSandboxDelete
  | OtherAction string

fun kind_name :: "action_kind \<Rightarrow> string" where
  "kind_name ActionSandboxCreate = ''sandbox-create''"
| "kind_name ActionRouteCreate = ''provider-route-create''"
| "kind_name ActionRouteRevoke = ''provider-route-revoke''"
| "kind_name ActionSandboxDelete = ''sandbox-delete''"
| "kind_name (OtherAction s) = s"

datatype action_state = ActionUnsettled | ActionSucceeded | ActionFailed

section \<open>Records\<close>

record profile_ref =
  pr_name :: string
  pr_revision :: string

record profile_verification =
  pv_profile_name :: string
  pv_contract_version :: string
  pv_definition_hash :: string
  pv_sandbox_id :: string
  pv_ownership_nonce :: string
  pv_harness_version :: string
  pv_attempted_at :: time
  pv_probe_completed_at :: "time option"
  pv_cleaned_at :: "time option"
  pv_last_error :: string

record sandbox_profile =
  p_active_revision :: string
  p_name :: string
  p_provider :: string
  p_harness :: string
  p_artifact :: string
  p_definition_hash :: string
  p_incus_endpoint_authority_hash :: string
  p_incus_project :: string
  p_incus_storage_pool :: string
  p_incus_network :: string
  p_incus_disk_size :: string
  p_incus_gateway_url :: string
  p_e2b_gateway_url :: string
  p_e2b_sandbox_timeout :: int
  p_e2b_allow_internet :: bool
  p_default :: bool
  p_verification :: "profile_verification option"

record session =
  keep_running :: bool
  created_by_client_id :: string
  client_reference :: string
  sess_id :: string
  admission_key :: string
  agents_md :: string
  sess_harness :: string
  thread_id :: string
  sess_profile :: string
  sess_profile_revision :: string
  provider_connection :: string
  model :: string
  reasoning_effort :: string
  admission_open :: bool
  cleanup_state :: cleanup_state
  current_task_id :: string
  current_task_name :: string
  execution_attention :: string
  execution_attention_source :: string
  cleanup_attention :: string

record sandbox =
  sb_id :: string
  sb_session_id :: string
  sb_name :: string
  sb_ownership_nonce :: string
  sb_resource_id :: string
  sb_provider_id :: string

record sandbox_resource =
  res_id :: string
  res_sandbox_id :: string
  res_ownership_nonce :: string
  res_provider_id :: string
  res_reserved_at :: time
  res_observed_at :: "time option"
  res_deleted_at :: "time option"

record route =
  route_id :: string
  route_sandbox_id :: string

record action =
  act_id :: string
  act_session_id :: string
  act_kind :: action_kind
  act_state :: action_state
  act_scope :: string

record delivery_hold =
  hold_id :: string
  hold_sandbox_id :: string
  hold_reason :: string
  hold_requested_at :: time
  hold_released_at :: "time option"

record sandbox_action_authorization =
  auth_session :: session
  auth_sandbox :: sandbox
  auth_action :: action
  auth_task_id :: string
  auth_task_name :: string

record harness_turn =
  turn_id :: string
  turn_status :: string
  turn_client_ids :: "string list"

record harness_history =
  hist_harness :: string
  hist_thread_id :: string
  hist_turns :: "harness_turn list"

record native_state =
  ns_revision :: int
  ns_pending_input :: string
  ns_pending_turn :: string

record native_attachment =
  att_filename :: string
  att_contents :: "8 word list"
  att_kind :: string

record native_event =
  ev_type :: string
  ev_client_id :: string
  ev_text :: string
  ev_developer_instructions :: "string option"
  ev_refresh_skills :: bool
  ev_refresh_mcp_servers :: bool
  ev_attachments :: "native_attachment list"

section \<open>Projections of the records\<close>

definition profile_ref_of :: "session \<Rightarrow> profile_ref" where
  "profile_ref_of j = \<lparr>pr_name = sess_profile j, pr_revision = sess_profile_revision j\<rparr>"

definition ref_of_profile :: "sandbox_profile \<Rightarrow> profile_ref" where
  "ref_of_profile p = \<lparr>pr_name = p_name p, pr_revision = p_definition_hash p\<rparr>"

definition turn_terminal :: "harness_turn \<Rightarrow> bool" where
  "turn_terminal t =
    (turn_status t = ''completed'' \<or> turn_status t = ''failed'' \<or> turn_status t = ''interrupted'')"

fun has_succeeded_action :: "action list \<Rightarrow> action_kind \<Rightarrow> string \<Rightarrow> bool" where
  "has_succeeded_action [] kind scope = False"
| "has_succeeded_action (a # as) kind scope =
     (if act_kind a = kind \<and> act_scope a = scope \<and> act_state a = ActionSucceeded then True
      else has_succeeded_action as kind scope)"

definition can_pause :: "session \<Rightarrow> bool" where
  "can_pause s = (\<not> keep_running s \<and> admission_open s \<and> cleanup_state s = CleanupPending)"

definition native_pending :: "native_state \<Rightarrow> bool" where
  "native_pending s = (ns_pending_input s \<noteq> [] \<or> ns_pending_turn s \<noteq> [])"

lemma has_succeeded_action_iff:
  "has_succeeded_action as kind scope \<longleftrightarrow>
    (\<exists>a \<in> set as. act_kind a = kind \<and> act_scope a = scope \<and> act_state a = ActionSucceeded)"
  by (induction as) auto

section \<open>Derived identities\<close>

definition digest :: "string \<Rightarrow> nat \<Rightarrow> string" where
  "digest value n = take n (sha256_hex value)"

definition session_id :: "string \<Rightarrow> string" where
  "session_id key = ''session-'' @ digest key 20"

definition main_sandbox_name :: "string \<Rightarrow> string" where
  "main_sandbox_name sid = ''dorf-'' @ digest sid 20"

definition default_sandbox :: string where
  "default_sandbox = ''default''"

definition provider_route_id :: "string \<Rightarrow> string" where
  "provider_route_id action_id = ''route-'' @ digest action_id 16"

definition nul :: char where
  "nul = CHR 0x00"

definition action_id :: "string \<Rightarrow> action_kind \<Rightarrow> string" where
  "action_id sid kind = ''action-'' @ digest (sid @ [nul] @ kind_name kind) 24"

definition scoped_action_preimage :: "string \<Rightarrow> action_kind \<Rightarrow> string \<Rightarrow> string" where
  "scoped_action_preimage sid kind scope = sid @ [nul] @ kind_name kind @ [nul] @ scope"

definition scoped_action_id :: "string \<Rightarrow> action_kind \<Rightarrow> string \<Rightarrow> string" where
  "scoped_action_id sid kind scope = ''action-'' @ digest (scoped_action_preimage sid kind scope) 24"

definition route_for_sandbox :: "sandbox \<Rightarrow> route" where
  "route_for_sandbox b =
    \<lparr>route_id = provider_route_id (scoped_action_id (sb_session_id b) ActionRouteCreate (sb_id b)),
     route_sandbox_id = sb_id b\<rparr>"

lemma digest_length [simp]: "n \<le> 64 \<Longrightarrow> length (digest v n) = n"
  by (simp add: digest_def)

lemma digest_lower_hex: "list_all lower_hex (digest v n)"
  using sha256_hex_lower [of v] by (auto simp: digest_def list_all_iff dest: in_set_takeD)

lemma session_id_shape: "length (session_id key) = 28"
  by (simp add: session_id_def)

lemma main_sandbox_name_ne [simp]: "main_sandbox_name sid \<noteq> []"
  by (simp add: main_sandbox_name_def)

lemma session_id_ne [simp]: "session_id key \<noteq> []"
  by (simp add: session_id_def)

text \<open>
  The preimage of a scoped Action identity determines the Session, the kind and the Sandbox,
  as long as none of them contains the separator.
\<close>

lemma nul_cut_unique:
  assumes "a @ [nul] @ s = b @ [nul] @ t" and "nul \<notin> set a" and "nul \<notin> set b"
  shows "a = b \<and> s = t"
proof -
  from assms(1) have "cut_on nul (a @ nul # s) = cut_on nul (b @ nul # t)" by simp
  then show ?thesis
    by (simp add: cut_on_append [OF assms(2)] cut_on_append [OF assms(3)])
qed

lemma kind_name_inject:
  assumes "kind_name k = kind_name l" and "\<And>s. k \<noteq> OtherAction s" and "\<And>s. l \<noteq> OtherAction s"
  shows "k = l"
  using assms by (cases k; cases l) auto

section \<open>Profile definitions\<close>

definition format_bool :: "bool \<Rightarrow> string" where
  "format_bool b = (if b then ''true'' else ''false'')"

definition definition_fields :: "sandbox_profile \<Rightarrow> string list" where
  "definition_fields p =
    [''dorf-sandbox-profile-v1'', p_provider p, p_harness p, p_artifact p,
     p_incus_endpoint_authority_hash p, p_incus_project p, p_incus_storage_pool p,
     p_incus_network p, p_incus_disk_size p, p_incus_gateway_url p, p_e2b_gateway_url p,
     format_int (p_e2b_sandbox_timeout p), format_bool (p_e2b_allow_internet p)]"

definition canonical_fields :: "string list \<Rightarrow> string" where
  "canonical_fields fs = concat (map (\<lambda>f. itoa (length f) @ '':'' @ f) fs)"

definition current_definition_hash :: "sandbox_profile \<Rightarrow> string" where
  "current_definition_hash p = sha256_hex (canonical_fields (definition_fields p))"

definition base_profile_contract :: string where
  "base_profile_contract = ''base-2''"

definition base_verified :: "sandbox_profile \<Rightarrow> bool" where
  "base_verified p =
    (p_definition_hash p \<noteq> [] \<and> p_definition_hash p = current_definition_hash p \<and>
     (case p_verification p of
        None \<Rightarrow> False
      | Some v \<Rightarrow>
          pv_definition_hash v = current_definition_hash p \<and>
          pv_contract_version v = base_profile_contract \<and>
          pv_probe_completed_at v \<noteq> None \<and> pv_cleaned_at v \<noteq> None \<and> pv_last_error v = []))"

text \<open>The length-prefixed encoding is uniquely decodable.\<close>

lemma itoa_prefix_unique:
  assumes "itoa m @ '':'' @ s = itoa n @ '':'' @ t"
  shows "m = n \<and> s = t"
proof -
  have d: "CHR '':'' \<notin> set (itoa k)" for k
    using itoa_digits [of "CHR '':''" k] by (auto simp: is_digit_def in_range_def)
  from assms have
    "cut_on (CHR '':'') (itoa m @ CHR '':'' # s) = cut_on (CHR '':'') (itoa n @ CHR '':'' # t)"
    by simp
  then have "itoa m = itoa n" and "s = t"
    by (simp_all only: cut_on_append [OF d] prod.inject)
  then show ?thesis using itoa_inject by blast
qed

lemma canonical_fields_Cons:
  "canonical_fields (f # fs) = itoa (length f) @ '':'' @ f @ canonical_fields fs"
  by (simp add: canonical_fields_def)

lemma canonical_fields_inject: "canonical_fields fs = canonical_fields gs \<Longrightarrow> fs = gs"
proof (induction fs arbitrary: gs)
  case Nil
  then show ?case by (cases gs) (auto simp: canonical_fields_def)
next
  case (Cons f fs)
  then obtain g gs' where gs: "gs = g # gs'"
    by (cases gs) (auto simp: canonical_fields_def)
  from Cons.prems have
    "itoa (length f) @ '':'' @ (f @ canonical_fields fs) =
     itoa (length g) @ '':'' @ (g @ canonical_fields gs')"
    by (simp add: gs canonical_fields_Cons)
  then have "length f = length g" and "f @ canonical_fields fs = g @ canonical_fields gs'"
    using itoa_prefix_unique by blast+
  then have "f = g" and "canonical_fields fs = canonical_fields gs'" by simp_all
  with Cons.IH gs show ?case by blast
qed

lemma format_int_inject: "format_int a = format_int b \<Longrightarrow> a = b"
proof -
  assume eq: "format_int a = format_int b"
  have d: "CHR ''-'' \<notin> set (itoa n)" for n
    using itoa_digits [of "CHR ''-''" n] by (auto simp: is_digit_def in_range_def)
  have h: "itoa n \<noteq> CHR ''-'' # t" for n t
    using d [of n] by (metis list.set_intros(1))
  from eq show "a = b"
    by (auto simp: format_int_def h h [symmetric] dest!: itoa_inject split: if_splits)
qed

section \<open>Validation of client input\<close>

definition max_client_reference_length :: nat where "max_client_reference_length = 255"
definition max_input_bytes :: nat where "max_input_bytes = 1048576"
definition max_attachments :: nat where "max_attachments = 10"
definition max_attachment_filename_length :: nat where "max_attachment_filename_length = 255"
definition max_file_write_bytes :: nat where "max_file_write_bytes = 8388608"

definition valid_client_reference :: "string \<Rightarrow> bool" where
  "valid_client_reference v =
    (valid_utf8 v \<and> rune_count v \<le> max_client_reference_length \<and> \<not> contains_nul v)"

definition valid_attachment_filename :: "string \<Rightarrow> bool" where
  "valid_attachment_filename v =
    (valid_utf8 v \<and> trim_space v \<noteq> [] \<and> \<not> contains_any v [CHR ''/'', CHR 0x5C] \<and>
     rune_count v \<le> max_attachment_filename_length \<and> \<not> has_control v)"

definition valid_developer_instructions :: "string option \<Rightarrow> bool" where
  "valid_developer_instructions v =
    (case v of None \<Rightarrow> True
     | Some t \<Rightarrow> valid_utf8 t \<and> \<not> contains_nul t \<and> length t \<le> max_input_bytes)"

definition valid_input_identity :: "string \<Rightarrow> bool" where
  "valid_input_identity i =
    (i \<noteq> [] \<and> length i \<le> 256 \<and> path_base i = i \<and> i \<noteq> ''.'' \<and> i \<noteq> ''..'' \<and>
     \<not> contains_any i [CHR 0x5C, CHR 0x00] \<and> valid_utf8 i)"

definition valid_input_text :: "native_event \<Rightarrow> bool" where
  "valid_input_text e =
    (valid_utf8 (ev_text e) \<and> \<not> contains_nul (ev_text e) \<and> length (ev_text e) \<le> max_input_bytes \<and>
     (trim_space (ev_text e) \<noteq> [] \<or> ev_attachments e \<noteq> []) \<and>
     valid_developer_instructions (ev_developer_instructions e))"

definition has_input :: "native_event \<Rightarrow> bool" where
  "has_input e =
    (ev_client_id e \<noteq> [] \<or> ev_text e \<noteq> [] \<or> ev_developer_instructions e \<noteq> None \<or>
     ev_refresh_skills e \<or> ev_refresh_mcp_servers e \<or> ev_attachments e \<noteq> [])"

definition valid_attachment :: "native_attachment \<Rightarrow> bool" where
  "valid_attachment a =
    (valid_attachment_filename (att_filename a) \<and>
     length (att_contents a) \<le> max_file_write_bytes \<and>
     (att_kind a = [] \<or> att_kind a = ''audio''))"

fun validate_attachments :: "native_attachment list \<Rightarrow> err option" where
  "validate_attachments [] = None"
| "validate_attachments (a # as) =
     (if \<not> valid_attachment a then Some (Sentinel ErrInvalidEvent) else validate_attachments as)"

definition validate_event :: "native_event \<Rightarrow> err option" where
  "validate_event e =
    (if ev_type e = ''input.cancel'' then
       (if has_input e then Some (Sentinel ErrInvalidEvent) else None)
     else if ev_type e \<noteq> ''input.message'' \<and> ev_type e \<noteq> ''input.tool_output'' then
       Some (Sentinel ErrInvalidEvent)
     else if \<not> valid_input_identity (ev_client_id e) \<or> \<not> valid_input_text e then
       Some (Sentinel ErrInvalidEvent)
     else if length (ev_attachments e) > max_attachments \<or>
             (ev_type e = ''input.tool_output'' \<and> length (ev_attachments e) \<noteq> 0) then
       Some (Sentinel ErrInvalidEvent)
     else validate_attachments (ev_attachments e))"

lemma validate_attachments_None:
  "validate_attachments as = None \<longleftrightarrow> list_all valid_attachment as"
  by (induction as) auto

section \<open>Native settlement\<close>

definition turn_proves :: "native_state \<Rightarrow> harness_turn \<Rightarrow> bool" where
  "turn_proves st t =
    ((ns_pending_input st \<noteq> [] \<and> ns_pending_input st \<in> set (turn_client_ids t)) \<or>
     (ns_pending_turn st \<noteq> [] \<and> turn_id t = ns_pending_turn st \<and> turn_terminal t))"

definition native_mutation_proven :: "native_state \<Rightarrow> harness_history \<Rightarrow> bool" where
  "native_mutation_proven st h = list_ex (turn_proves st) (hist_turns h)"

end
