(* ===== verification/Sql_Tables.thy ===== *)
theory Sql_Tables
  imports Dorf_Prelude "HOL-Library.Product_Lexorder" "HOL-Library.List_Lexorder" "HOL-Library.Char_ord"
begin

text \<open>
  Database tables as lists of rows, in insertion order, and the statements the store
  executes on them: \<open>UPDATE ... WHERE\<close> with its affected-row count, \<open>INSERT\<close> with its
  constraint checks, \<open>SELECT\<close> by key, by predicate, and with \<open>ORDER BY\<close> and
  \<open>LIMIT 1\<close>. The locale \<open>row_store\<close> is the contract of a keyed table; it is
  interpreted on the list tables below.
\<close>

section \<open>Statements on one table\<close>

definition row_of :: "('r \<Rightarrow> 'k) \<Rightarrow> 'k \<Rightarrow> 'r list \<Rightarrow> 'r option" where
  "row_of key k t = find (\<lambda>r. key r = k) t"

definition upd_where :: "('r \<Rightarrow> bool) \<Rightarrow> ('r \<Rightarrow> 'r) \<Rightarrow> 'r list \<Rightarrow> 'r list" where
  "upd_where p f t = map (\<lambda>r. if p r then f r else r) t"

definition count_where :: "('r \<Rightarrow> bool) \<Rightarrow> 'r list \<Rightarrow> nat" where
  "count_where p t = length (filter p t)"

definition add_row :: "'r \<Rightarrow> 'r list \<Rightarrow> 'r list" where
  "add_row r t = t @ [r]"

primrec latest_by :: "('r \<Rightarrow> 'k::linorder) \<Rightarrow> 'r list \<Rightarrow> 'r option" where
  \<comment> \<open>\<open>ORDER BY k DESC LIMIT 1\<close>\<close>
  "latest_by k [] = None"
| "latest_by k (r # t) =
     (case latest_by k t of None \<Rightarrow> Some r | Some q \<Rightarrow> if k q < k r then Some r else Some q)"

definition coalesce :: "'a option \<Rightarrow> 'a option \<Rightarrow> 'a option" where
  "coalesce x y = (case x of None \<Rightarrow> y | Some v \<Rightarrow> Some v)"

definition nullif_empty :: "string \<Rightarrow> string option" where
  "nullif_empty s = (if s = [] then None else Some s)"

definition text_of :: "string option \<Rightarrow> string" where
  \<comment> \<open>\<open>coalesce(x,'')\<close>\<close>
  "text_of x = (case x of None \<Rightarrow> [] | Some s \<Rightarrow> s)"

definition blank_text :: "string \<Rightarrow> bool" where
  \<comment> \<open>\<open>length(trim(x)) = 0\<close>\<close>
  "blank_text s = list_all (\<lambda>c. c = CHR '' '') s"

section \<open>Statements as actions on a database\<close>

definition update_tbl ::
  "('s \<Rightarrow> 'r list) \<Rightarrow> (('r list \<Rightarrow> 'r list) \<Rightarrow> 's \<Rightarrow> 's) \<Rightarrow> ('r \<Rightarrow> bool) \<Rightarrow> ('r \<Rightarrow> 'r) \<Rightarrow> ('s, nat) act" where
  "update_tbl get put p f = (\<lambda>s. (Inr (count_where p (get s)), put (upd_where p f) s))"

definition insert_tbl ::
  "(('r list \<Rightarrow> 'r list) \<Rightarrow> 's \<Rightarrow> 's) \<Rightarrow> ('s \<Rightarrow> err option) \<Rightarrow> 'r \<Rightarrow> ('s, unit) act" where
  "insert_tbl put violation r =
    (\<lambda>s. case violation s of Some e \<Rightarrow> (Inl e, s) | None \<Rightarrow> (Inr (), put (add_row r) s))"

definition insert_or_ignore ::
  "(('r list \<Rightarrow> 'r list) \<Rightarrow> 's \<Rightarrow> 's) \<Rightarrow> ('s \<Rightarrow> bool) \<Rightarrow> 'r \<Rightarrow> ('s, nat) act" where
  \<comment> \<open>\<open>ON CONFLICT DO NOTHING\<close>, with the affected-row count\<close>
  "insert_or_ignore put conflict r =
    (\<lambda>s. if conflict s then (Inr 0, s) else (Inr 1, put (add_row r) s))"

definition expect_one_rows :: "('s, nat) act \<Rightarrow> ('s, unit) act" where
  "expect_one_rows m = bnd m (\<lambda>n. require (n = 1) (Sentinel ErrNotFound))"

definition unique_violation :: "string \<Rightarrow> err" where
  "unique_violation c = PgError ''23505'' c"

definition foreign_key_violation :: "string \<Rightarrow> err" where
  "foreign_key_violation c = PgError ''23503'' c"

definition check_violation :: "string \<Rightarrow> err" where
  "check_violation c = PgError ''23514'' c"

fun first_violation :: "(bool \<times> err) list \<Rightarrow> err option" where
  "first_violation [] = None"
| "first_violation ((bad, e) # r) = (if bad then Some e else first_violation r)"

lemma wp_update_tbl [wp_simps]:
  "wp (update_tbl get put p f) Q E = (\<lambda>s. Q (count_where p (get s)) (put (upd_where p f) s))"
  by (rule ext) (simp add: wp_def update_tbl_def)

lemma wp_insert_tbl [wp_simps]:
  "wp (insert_tbl put v r) Q E =
    (\<lambda>s. case v s of None \<Rightarrow> Q () (put (add_row r) s) | Some e \<Rightarrow> E e s)"
  by (rule ext) (auto simp: wp_def insert_tbl_def split: option.splits)

text \<open>Statements that read the clock or another table of the state they run in.\<close>

lemma wp_update_tbl_at [wp_simps]:
  "wp (\<lambda>s. update_tbl get put (p s) (f s) s) Q E =
    (\<lambda>s. Q (count_where (p s) (get s)) (put (upd_where (p s) (f s)) s))"
  by (rule ext) (simp add: wp_def update_tbl_def)

lemma wp_insert_tbl_at [wp_simps]:
  "wp (\<lambda>s. insert_tbl put v (r s) s) Q E =
    (\<lambda>s. case v s of None \<Rightarrow> Q () (put (add_row (r s)) s) | Some e \<Rightarrow> E e s)"
  by (rule ext) (auto simp: wp_def insert_tbl_def split: option.splits)

lemma wp_insert_or_ignore [wp_simps]:
  "wp (insert_or_ignore put c r) Q E =
    (\<lambda>s. (c s \<longrightarrow> Q 0 s) \<and> (\<not> c s \<longrightarrow> Q 1 (put (add_row r) s)))"
  by (rule ext) (simp add: wp_def insert_or_ignore_def)

lemma wp_expect_one_rows [wp_simps]:
  "wp (expect_one_rows m) Q E =
    wp m (\<lambda>n t. (n = 1 \<longrightarrow> Q () t) \<and> (n \<noteq> 1 \<longrightarrow> E (Sentinel ErrNotFound) t)) E"
  by (simp add: expect_one_rows_def wp_simps)

lemma keeps_expect_one [keeps_intros]: "keeps I m \<Longrightarrow> keeps I (expect_one_rows m)"
  by (simp add: expect_one_rows_def keeps_intros)

section \<open>The contract of a keyed table\<close>

locale row_store =
  fixes get :: "'k \<Rightarrow> 't \<Rightarrow> 'r option"
    and put :: "'k \<Rightarrow> ('r \<Rightarrow> 'r) \<Rightarrow> 't \<Rightarrow> 't"
    and add :: "'r \<Rightarrow> 't \<Rightarrow> 't"
    and key :: "'r \<Rightarrow> 'k"
  assumes get_key: "get k t = Some r \<Longrightarrow> key r = k"
    and get_put: "(\<And>r. key (f r) = key r) \<Longrightarrow>
      get k (put j f t) = (if k = j then map_option f (get k t) else get k t)"
    and get_add: "get k (add r t) = (case get k t of Some q \<Rightarrow> Some q
      | None \<Rightarrow> if k = key r then Some r else None)"
begin

lemma get_put_same: "(\<And>r. key (f r) = key r) \<Longrightarrow> get k t = Some r \<Longrightarrow> get k (put k f t) = Some (f r)"
  by (simp add: get_put)

lemma get_put_other: "(\<And>r. key (f r) = key r) \<Longrightarrow> k \<noteq> j \<Longrightarrow> get k (put j f t) = get k t"
  by (simp add: get_put)

lemma put_keeps_presence:
  "(\<And>r. key (f r) = key r) \<Longrightarrow> (get k (put j f t) = None) = (get k t = None)"
  by (simp add: get_put)

lemma put_stamp_once:
  assumes "\<And>r. key (f r) = key r" and "\<And>r. f (f r) = f r"
  shows "get k (put j f (put j f t)) = get k (put j f t)"
proof -
  note g = get_put [OF assms(1)]
  show ?thesis
    by (cases "get k t") (simp_all only: g assms(2) option.map if_True if_False split: if_splits, auto)
qed

lemma add_keeps_rows: "get k t = Some q \<Longrightarrow> get k (add r t) = Some q"
  by (simp add: get_add)

lemma add_new: "get (key r) t = None \<Longrightarrow> get (key r) (add r t) = Some r"
  by (simp add: get_add)

end

lemma row_of_key: "row_of key k t = Some r \<Longrightarrow> key r = k"
  by (auto simp: row_of_def find_Some_iff)

lemma row_of_in: "row_of key k t = Some r \<Longrightarrow> r \<in> set t"
  by (auto simp: row_of_def find_Some_iff)

lemma row_of_None: "row_of key k t = None \<longleftrightarrow> k \<notin> key ` set t"
  by (auto simp: row_of_def find_None_iff)

lemma row_of_upd:
  assumes "\<And>r. key (f r) = key r"
  shows "row_of key k (upd_where (\<lambda>r. key r = j) f t) =
    (if k = j then map_option f (row_of key k t) else row_of key k t)"
  by (induction t) (auto simp: row_of_def upd_where_def assms)

lemma row_of_upd_where:
  assumes "\<And>r. key (f r) = key r"
  shows "row_of key k (upd_where p f t) = map_option (\<lambda>r. if p r then f r else r) (row_of key k t)"
  by (induction t) (auto simp: row_of_def upd_where_def assms)

lemma row_of_add:
  "row_of key k (add_row r t) =
    (case row_of key k t of Some q \<Rightarrow> Some q | None \<Rightarrow> if k = key r then Some r else None)"
  by (induction t) (auto simp: row_of_def add_row_def split: option.splits)

interpretation keyed: row_store "row_of key" "\<lambda>j. upd_where (\<lambda>r. key r = j)" add_row key for key
  by unfold_locales (erule row_of_key, simp_all add: row_of_upd row_of_add)

lemma row_of_distinct:
  assumes "distinct (map key t)" and "r \<in> set t"
  shows "row_of key (key r) t = Some r"
proof -
  obtain q where q: "row_of key (key r) t = Some q"
    using assms(2) by (cases "row_of key (key r) t") (auto simp: row_of_None)
  then have "q \<in> set t" and "key q = key r"
    by (auto dest: row_of_in row_of_key)
  with assms have "q = r" by (auto simp: distinct_map dest: inj_onD)
  with q show ?thesis by simp
qed

section \<open>Facts about updates and counts\<close>

lemma set_upd_where: "set (upd_where p f t) = (\<lambda>r. if p r then f r else r) ` set t"
  by (simp add: upd_where_def)

lemma ball_upd_where [simp]:
  "(\<forall>r \<in> set (upd_where p f t). P r) \<longleftrightarrow> (\<forall>r \<in> set t. (p r \<longrightarrow> P (f r)) \<and> (\<not> p r \<longrightarrow> P r))"
  by (auto simp: set_upd_where)

lemma bex_upd_where [simp]:
  "(\<exists>r \<in> set (upd_where p f t). P r) \<longleftrightarrow> (\<exists>r \<in> set t. (p r \<and> P (f r)) \<or> (\<not> p r \<and> P r))"
  by (auto simp: set_upd_where)

lemma set_add_row [simp]: "set (add_row r t) = insert r (set t)"
  by (simp add: add_row_def)

lemma map_add_row [simp]: "map k (add_row r t) = map k t @ [k r]"
  by (simp add: add_row_def)

lemma filter_add_row [simp]: "filter p (add_row r t) = (if p r then add_row r (filter p t) else filter p t)"
  by (simp add: add_row_def)

lemma map_upd_where: "(\<And>r. k (f r) = k r) \<Longrightarrow> map k (upd_where p f t) = map k t"
  by (auto simp: upd_where_def)

lemma length_upd_where [simp]: "length (upd_where p f t) = length t"
  by (simp add: upd_where_def)

lemma count_where_zero: "count_where p t = 0 \<longleftrightarrow> (\<forall>r \<in> set t. \<not> p r)"
  by (auto simp: count_where_def filter_empty_conv)

lemma count_where_pos: "count_where p t = Suc 0 \<Longrightarrow> \<exists>r \<in> set t. p r"
  by (metis count_where_zero nat.distinct(1))

lemma count_where_one_unique:
  assumes "distinct (map key t)" and "count_where (\<lambda>r. key r = k \<and> p r) t = Suc 0"
  shows "\<exists>r. row_of key k t = Some r \<and> p r"
proof -
  obtain r where "r \<in> set t" "key r = k" "p r"
    using count_where_pos [OF assms(2)] by blast
  with row_of_distinct [OF assms(1)] show ?thesis by blast
qed

lemma stamped_by_key:
  assumes "distinct (map key t)" and "count_where (\<lambda>r. key r = k \<and> p r) t = 1"
    and "\<And>r. key (f r) = key r" and "\<And>r. P (f r)"
  shows "\<forall>r \<in> set (upd_where (\<lambda>r. key r = k \<and> p r) f t). key r = k \<longrightarrow> P r"
proof -
  have "p r" if "r \<in> set t" "key r = k" for r
    using count_where_one_unique [OF assms(1), of k p] assms(2) row_of_distinct [OF assms(1) that(1)] that(2) by simp
  with assms(3,4) show ?thesis by simp
qed

lemma count_where_key:
  assumes "distinct (map key t)"
  shows "count_where (\<lambda>r. key r = k \<and> p r) t =
    (case row_of key k t of None \<Rightarrow> 0 | Some r \<Rightarrow> if p r then 1 else 0)"
  using assms
proof (induction t)
  case Nil
  then show ?case by (simp add: count_where_def row_of_def)
next
  case (Cons q t)
  show ?case
  proof (cases "key q = k")
    case True
    with Cons.prems have "row_of key k t = None" by (simp add: row_of_None)
    with Cons have "count_where (\<lambda>r. key r = k \<and> p r) t = 0" by simp
    with True show ?thesis by (auto simp: count_where_def row_of_def)
  next
    case False
    with Cons show ?thesis by (auto simp: count_where_def row_of_def)
  qed
qed

lemma upd_where_none: "(\<forall>r \<in> set t. \<not> p r) \<Longrightarrow> upd_where p f t = t"
  by (induction t) (auto simp: upd_where_def)

lemma count_where_key0:
  assumes "distinct (map key t)"
  shows "count_where (\<lambda>r. key r = k) t = (case row_of key k t of None \<Rightarrow> 0 | Some r \<Rightarrow> 1)"
  using count_where_key [OF assms, of k "\<lambda>_. True"] by simp

lemma latest_by_None [simp]: "latest_by k t = None \<longleftrightarrow> t = []"
  by (induction t) (auto split: option.splits)

lemma latest_by_in: "latest_by k t = Some r \<Longrightarrow> r \<in> set t"
  by (induction t arbitrary: r) (auto split: option.splits if_splits)

lemma latest_by_max: "latest_by k t = Some r \<Longrightarrow> q \<in> set t \<Longrightarrow> k q \<le> k r"
  by (induction t arbitrary: r q) (fastforce split: option.splits if_splits)+

lemma latest_by_add:
  assumes "\<forall>q \<in> set t. k q < k r"
  shows "latest_by k (add_row r t) = Some r"
  using assms by (induction t) (auto simp: add_row_def split: option.splits)

lemma coalesce_None [simp]: "coalesce x (Some v) \<noteq> None"
  by (simp add: coalesce_def split: option.splits)

lemma coalesce_Some [simp]: "coalesce (Some v) y = Some v"
  by (simp add: coalesce_def)

lemma coalesce_idem: "coalesce (coalesce x y) y' = coalesce x (coalesce y y')"
  by (simp add: coalesce_def split: option.splits)

lemma text_of_simps [simp]: "text_of None = []" "text_of (Some s) = s"
  by (simp_all add: text_of_def)

lemma nullif_text [simp]: "text_of (nullif_empty s) = s"
  by (simp add: nullif_empty_def)

end
