(* ===== verification/Postgres_State.thy ===== *)
theory Postgres_State
  imports Core_Domain Sql_Tables
begin

text \<open>
  The durable state: one record per table of the \<open>dorf\<close> schema
  (\<open>internal/postgres/migrations\<close>, read through \<open>internal/postgres/dbsql\<close>), the database
  that holds the tables, the clock and the trace of calls committed to the Absurd queue, and
  the schema's well-formedness invariants, one predicate per table or pair of tables.
\<close>

section \<open>Rows\<close>

record session_row =
  s_id :: string
  s_admission_key :: string
  s_agents_md :: string
  s_created_by :: "string option"
  s_client_reference :: string
  s_profile :: string
  s_profile_revision :: string
  s_connection :: string
  s_model :: string
  s_effort :: string
  s_keep_running :: bool
  s_open :: bool
  s_cleanup :: cleanup_state
  s_attention :: "string option"
  s_attention_source :: "string option"
  s_attention_at :: "time option"
  s_cleanup_attention :: "string option"
  s_admitted_at :: time
  s_cleaned_at :: "time option"
  s_last_active :: "time option"
  s_thread :: "string option"
  s_revision :: int
  s_pending_input :: "string option"
  s_pending_turn :: "string option"

record task_row =
  t_session :: string
  t_sequence :: int
  t_id :: string
  t_name :: string

record sandbox_row =
  b_id :: string
  b_session :: string
  b_name :: string
  b_active :: string

record resource_row =
  r_id :: string
  r_sandbox :: string
  r_nonce :: string
  r_provider :: "string option"
  r_reserved :: time
  r_observed :: "time option"
  r_deleted :: "time option"

record action_row =
  a_id :: string
  a_session :: string
  a_kind :: action_kind
  a_state :: action_state
  a_scope :: string
  a_created :: time
  a_settled :: "time option"

record hold_row =
  h_id :: string
  h_sandbox :: string
  h_reason :: string
  h_requested :: time
  h_released :: "time option"

record upgrade_row =
  u_id :: string
  u_sandbox :: string
  u_source :: string
  u_destination :: "string option"
  u_path :: string
  u_version :: string
  u_requested :: time
  u_previous :: "string option"
  u_quiesced :: "time option"
  u_cp_key :: "string option"
  u_cp_ref :: "string option"
  u_cp_source :: "string option"
  u_activated :: "time option"
  u_rollback :: "time option"
  u_failure :: "string option"
  u_restored :: "time option"
  u_verified :: "time option"
  u_cp_deleted :: "time option"
  u_finished :: "time option"

record checkpoint_row =
  c_id :: string
  c_repository :: string
  c_snapshot :: string
  c_sandbox :: string
  c_resource :: string
  c_profile :: string
  c_profile_revision :: string
  c_upgrade :: "string option"
  c_last_activity :: time
  c_revision :: int
  c_holds :: int
  c_cleanup :: bool
  c_published :: time
  c_sequence :: nat

record recovery_row =
  v_id :: string
  v_sandbox :: string
  v_repository :: string
  v_snapshot :: string
  v_source :: string
  v_destination :: string
  v_requested :: time
  v_verified :: "time option"
  v_finished :: "time option"

record branch_row =
  n_id :: string
  n_source_session :: string
  n_destination_session :: string
  n_destination_sandbox :: string
  n_repository :: string
  n_snapshot :: string
  n_thread :: string
  n_requested :: time
  n_restored :: "time option"
  n_release :: "time option"
  n_ready :: "time option"

record wake_row =
  w_session :: string
  w_revision :: int

record cause_row =
  k_session :: string
  k_cause :: string
  k_revision :: int

record retry_row =
  q_key :: string
  q_session :: string
  q_task :: string
  q_run :: string
  q_attempt :: int

record client_row =
  cl_id :: string
  cl_name :: string
  cl_digest :: string
  cl_expires :: "time option"
  cl_revoked :: "time option"
  cl_created :: time

record enrollment_row =
  e_id :: string
  e_digest :: string
  e_expires :: time
  e_consumed :: "time option"
  e_client :: "string option"

record profile_name_row =
  pn_name :: string
  pn_candidate :: string
  pn_active :: "string option"
  pn_default :: bool

record verification_row =
  vr_profile :: string
  vr_contract :: string
  vr_hash :: string
  vr_sandbox :: string
  vr_nonce :: string
  vr_harness_version :: "string option"
  vr_attempted :: time
  vr_probed :: "time option"
  vr_cleaned :: "time option"
  vr_error :: "string option"

text \<open>What a transaction commits to the Absurd queue, in order.\<close>

datatype queue_call =
  SpawnTask string string string string \<comment> \<open>queue, task name, Session, idempotency key\<close>
| CancelTask string string \<comment> \<open>queue, task\<close>
| EmitWake string string int string \<comment> \<open>queue, Session, revision, cause key\<close>
| RetryTask string string \<comment> \<open>queue, task\<close>

record db =
  now :: time
  sessions :: "session_row list"
  tasks :: "task_row list"
  sandboxes :: "sandbox_row list"
  resources :: "resource_row list"
  actions :: "action_row list"
  holds :: "hold_row list"
  upgrades :: "upgrade_row list"
  checkpoints :: "checkpoint_row list"
  recoveries :: "recovery_row list"
  branches :: "branch_row list"
  wakes :: "wake_row list"
  causes :: "cause_row list"
  retries :: "retry_row list"
  clients :: "client_row list"
  enrollments :: "enrollment_row list"
  profile_names :: "profile_name_row list"
  revisions :: "sandbox_profile list"
  verifications :: "verification_row list"
  queue :: "queue_call list"

definition empty_db :: db where
  "empty_db =
    \<lparr>now = 1, sessions = [], tasks = [], sandboxes = [], resources = [], actions = [], holds = [],
     upgrades = [], checkpoints = [], recoveries = [], branches = [], wakes = [], causes = [],
     retries = [], clients = [], enrollments = [], profile_names = [], revisions = [],
     verifications = [], queue = []\<rparr>"

definition max_int64 :: int where
  "max_int64 = 9223372036854775807"

definition clock :: "(db, time) act" where
  "clock = gets now"

definition log_call :: "queue_call \<Rightarrow> (db, unit) act" where
  "log_call c = modify (queue_update (\<lambda>q. q @ [c]))"

lemma wp_clock [wp_simps]: "wp clock Q E = (\<lambda>s. Q (now s) s)"
  by (simp add: clock_def wp_simps)

lemma wp_log_call [wp_simps]: "wp (log_call c) Q E = (\<lambda>s. Q () (queue_update (\<lambda>q. q @ [c]) s))"
  by (simp add: log_call_def wp_simps)

section \<open>Lookups every module uses\<close>

definition session_of :: "db \<Rightarrow> string \<Rightarrow> session_row option" where
  "session_of d sid = row_of s_id sid (sessions d)"

definition sandbox_of :: "db \<Rightarrow> string \<Rightarrow> sandbox_row option" where
  "sandbox_of d bid = row_of b_id bid (sandboxes d)"

definition resource_of :: "db \<Rightarrow> string \<Rightarrow> resource_row option" where
  "resource_of d rid = row_of r_id rid (resources d)"

definition revision_of :: "db \<Rightarrow> string \<Rightarrow> string \<Rightarrow> sandbox_profile option" where
  "revision_of d name hash = find (\<lambda>p. p_name p = name \<and> p_definition_hash p = hash) (revisions d)"

definition session_tasks :: "db \<Rightarrow> string \<Rightarrow> task_row list" where
  "session_tasks d sid = filter (\<lambda>t. t_session t = sid) (tasks d)"

definition current_task :: "db \<Rightarrow> string \<Rightarrow> task_row option" where
  "current_task d sid = latest_by t_sequence (session_tasks d sid)"

definition open_holds :: "hold_row list \<Rightarrow> hold_row list" where
  "open_holds hs = filter (\<lambda>h. h_released h = None) hs"

definition session_held :: "db \<Rightarrow> string \<Rightarrow> bool" where
  \<comment> \<open>a hold of one of the Session's Sandboxes is unreleased\<close>
  "session_held d sid =
    list_ex (\<lambda>h. h_released h = None \<and>
      list_ex (\<lambda>b. b_id b = h_sandbox h \<and> b_session b = sid) (sandboxes d)) (holds d)"

section \<open>Invariants\<close>

definition thread_ok :: "string option \<Rightarrow> bool" where
  \<comment> \<open>the constraint \<open>session_thread\<close>\<close>
  "thread_ok th = (case th of None \<Rightarrow> True | Some x \<Rightarrow> \<not> blank_text x)"

lemma thread_ok_simps [simp]: "thread_ok None" "thread_ok (Some x) \<longleftrightarrow> \<not> blank_text x"
  by (simp_all add: thread_ok_def)

definition sessions_ok :: "session_row list \<Rightarrow> bool" where
  "sessions_ok ss =
    (distinct (map s_id ss) \<and> distinct (map s_admission_key ss) \<and>
     (\<forall>s \<in> set ss.
        (s_open s \<longleftrightarrow> s_cleanup s = CleanupPending) \<and>
        (s_pending_input s = None \<or> s_pending_turn s = None) \<and>
        0 \<le> s_revision s \<and> s_revision s \<le> max_int64 \<and> thread_ok (s_thread s) \<and>
        (s_cleaned_at s \<noteq> None \<longleftrightarrow> s_cleanup s = CleanupComplete)))"

definition tasks_ok :: "task_row list \<Rightarrow> bool" where
  "tasks_ok ts =
    (distinct (map t_id ts) \<and> distinct (map (\<lambda>t. (t_session t, t_sequence t)) ts) \<and>
     (\<forall>t \<in> set ts. 0 < t_sequence t \<and> \<not> blank_text (t_id t) \<and> \<not> blank_text (t_name t)))"

definition actions_ok :: "action_row list \<Rightarrow> bool" where
  "actions_ok as =
    (distinct (map a_id as) \<and>
     (\<forall>a \<in> set as.
        a_id a = scoped_action_id (a_session a) (a_kind a) (a_scope a) \<and>
        (a_state a = ActionUnsettled \<longleftrightarrow> a_settled a = None) \<and>
        (a_kind a = ActionSandboxDelete \<and> a_state a = ActionSucceeded \<longrightarrow>
          (\<exists>b \<in> set as. a_kind b = ActionRouteRevoke \<and> a_session b = a_session a \<and>
             a_scope b = a_scope a \<and> a_state b = ActionSucceeded))))"

definition resources_ok :: "sandbox_row list \<Rightarrow> resource_row list \<Rightarrow> bool" where
  "resources_ok bs rs =
    (distinct (map b_id bs) \<and> distinct (map r_id rs) \<and>
     (\<forall>r \<in> set rs. r_id r \<noteq> [] \<and> (r_provider r = None \<longleftrightarrow> r_observed r = None) \<and>
        (\<exists>b \<in> set bs. b_id b = r_sandbox r)) \<and>
     (\<forall>b \<in> set bs. \<exists>r \<in> set rs. r_id r = b_active b \<and> r_sandbox r = b_id b))"

definition holds_ok :: "hold_row list \<Rightarrow> bool" where
  "holds_ok hs = (distinct (map h_id hs) \<and> distinct (map h_sandbox (open_holds hs)))"

definition upgrade_ok :: "upgrade_row \<Rightarrow> bool" where
  "upgrade_ok u =
    ((u_quiesced u \<noteq> None \<longrightarrow> u_previous u \<noteq> None) \<and>
     (u_cp_ref u \<noteq> None \<longrightarrow> u_quiesced u \<noteq> None) \<and>
     (u_cp_key u = None \<longleftrightarrow> u_cp_ref u = None) \<and> (u_cp_key u = None \<longleftrightarrow> u_cp_source u = None) \<and>
     (u_activated u \<noteq> None \<longrightarrow> u_cp_ref u \<noteq> None) \<and>
     (u_rollback u \<noteq> None \<longrightarrow> u_cp_ref u \<noteq> None) \<and>
     (u_rollback u = None \<longleftrightarrow> u_failure u = None) \<and>
     (u_destination u \<noteq> None \<longrightarrow> u_rollback u \<noteq> None) \<and>
     (u_restored u \<noteq> None \<longrightarrow> u_rollback u \<noteq> None \<and> u_destination u \<noteq> None) \<and>
     (u_verified u \<noteq> None \<longrightarrow> u_activated u \<noteq> None \<or> u_restored u \<noteq> None) \<and>
     (u_verified u \<noteq> None \<longrightarrow> u_rollback u \<noteq> None \<longrightarrow> u_restored u \<noteq> None) \<and>
     (u_cp_deleted u \<noteq> None \<longrightarrow> u_cp_ref u \<noteq> None) \<and>
     (u_finished u \<noteq> None \<longrightarrow> u_verified u \<noteq> None) \<and>
     u_source u \<noteq> [] \<and> u_destination u \<noteq> Some [])"

definition upgrades_ok :: "upgrade_row list \<Rightarrow> bool" where
  "upgrades_ok us = (distinct (map u_id us) \<and> (\<forall>u \<in> set us. upgrade_ok u))"

definition recoveries_ok :: "recovery_row list \<Rightarrow> bool" where
  "recoveries_ok vs =
    (distinct (map v_id vs) \<and>
     (\<forall>v \<in> set vs. v_source v \<noteq> v_destination v \<and> (v_finished v \<noteq> None \<longrightarrow> v_verified v \<noteq> None)))"

definition branch_ok :: "branch_row \<Rightarrow> bool" where
  "branch_ok n =
    ((n_release n \<noteq> None \<longrightarrow> n_restored n \<noteq> None) \<and> (n_ready n \<noteq> None \<longrightarrow> n_release n \<noteq> None))"

definition branches_ok :: "branch_row list \<Rightarrow> bool" where
  "branches_ok ns =
    (distinct (map n_id ns) \<and> distinct (map n_destination_session ns) \<and> (\<forall>n \<in> set ns. branch_ok n))"

definition wakes_ok :: "wake_row list \<Rightarrow> cause_row list \<Rightarrow> bool" where
  "wakes_ok ws ks =
    (distinct (map w_session ws) \<and>
     distinct (map (\<lambda>k. (k_session k, k_cause k)) ks) \<and>
     distinct (map (\<lambda>k. (k_session k, k_revision k)) ks) \<and>
     (\<forall>w \<in> set ws. 0 \<le> w_revision w \<and> w_revision w \<le> max_int64) \<and>
     (\<forall>k \<in> set ks. 0 < k_revision k \<and>
        (\<exists>w \<in> set ws. w_session w = k_session k \<and> k_revision k \<le> w_revision w)))"

definition retries_ok :: "retry_row list \<Rightarrow> bool" where
  "retries_ok qs = (distinct (map q_key qs) \<and> distinct (map q_run qs) \<and> (\<forall>q \<in> set qs. 0 < q_attempt q))"

definition checkpoints_ok :: "checkpoint_row list \<Rightarrow> bool" where
  "checkpoints_ok cs =
    (distinct (map (\<lambda>c. (c_repository c, c_snapshot c)) cs) \<and> distinct (map c_id cs) \<and>
     distinct (map c_sequence cs) \<and> (\<forall>c \<in> set cs. 0 \<le> c_revision c \<and> c_revision c \<le> max_int64))"

definition sole_clients :: "enrollment_row list \<Rightarrow> bool" where
  \<comment> \<open>no Client was admitted by two enrollments\<close>
  "sole_clients es =
    (\<forall>e \<in> set es. \<forall>f \<in> set es. e_client e = e_client f \<longrightarrow> e_client e = None \<or> e_id e = e_id f)"

definition clients_ok :: "client_row list \<Rightarrow> enrollment_row list \<Rightarrow> bool" where
  "clients_ok cs es =
    (distinct (map cl_id cs) \<and> distinct (map cl_digest cs) \<and> distinct (map e_id es) \<and>
     distinct (map e_digest es) \<and> (\<forall>e \<in> set es. e_consumed e = None \<longleftrightarrow> e_client e = None) \<and>
     (\<forall>e \<in> set es. \<forall>i. e_client e = Some i \<longrightarrow> i \<in> cl_id ` set cs) \<and> sole_clients es)"

definition revision_keys :: "sandbox_profile list \<Rightarrow> (string \<times> string) set" where
  "revision_keys ps = (\<lambda>p. (p_name p, p_definition_hash p)) ` set ps"

definition profiles_ok :: "profile_name_row list \<Rightarrow> sandbox_profile list \<Rightarrow> verification_row list \<Rightarrow> bool" where
  \<comment> \<open>names and verifications refer to stored revisions, and at most one name is the default\<close>
  "profiles_ok ns ps vs =
    (distinct (map (\<lambda>p. (p_name p, p_definition_hash p)) ps) \<and> distinct (map pn_name ns) \<and>
     length (filter pn_default ns) \<le> 1 \<and>
     (\<forall>n \<in> set ns. (pn_name n, pn_candidate n) \<in> revision_keys ps \<and>
        (\<forall>h. pn_active n = Some h \<longrightarrow> (pn_name n, h) \<in> revision_keys ps)) \<and>
     distinct (map (\<lambda>v. (vr_profile v, vr_hash v)) vs) \<and>
     (\<forall>v \<in> set vs. (vr_profile v, vr_hash v) \<in> revision_keys ps))"

text \<open>
  Delivery is held for as long as a package upgrade is unfinished and its Session has not
  completed cleanup.
\<close>

definition cleanup_over :: "session_row list \<Rightarrow> sandbox_row list \<Rightarrow> string \<Rightarrow> bool" where
  "cleanup_over ss bs bid =
    (\<exists>b \<in> set bs. b_id b = bid \<and>
       (\<exists>s \<in> set ss. s_id s = b_session b \<and> s_cleanup s = CleanupComplete))"

definition upgrade_held :: "session_row list \<Rightarrow> sandbox_row list \<Rightarrow> hold_row list \<Rightarrow> upgrade_row \<Rightarrow> bool" where
  "upgrade_held ss bs hs u =
    (\<exists>h \<in> set hs. h_id h = u_id u \<and> h_sandbox h = u_sandbox u \<and> h_reason h = ''workspace_upgrade'' \<and>
       (u_finished u = None \<longrightarrow> h_released h = None \<or> cleanup_over ss bs (u_sandbox u)))"

definition upgrades_held ::
  "session_row list \<Rightarrow> sandbox_row list \<Rightarrow> hold_row list \<Rightarrow> upgrade_row list \<Rightarrow> bool" where
  "upgrades_held ss bs hs us = (\<forall>u \<in> set us. upgrade_held ss bs hs u)"

text \<open>
  Likewise for a recovery that is unfinished and a branch that is not ready, until their Session
  is closed. An operation is its identity, its Sandbox, the reason of its hold and whether it
  is still pending.
\<close>

definition session_closed :: "session_row list \<Rightarrow> sandbox_row list \<Rightarrow> string \<Rightarrow> bool" where
  "session_closed ss bs bid =
    (\<exists>b \<in> set bs. b_id b = bid \<and> (\<exists>s \<in> set ss. s_id s = b_session b \<and> \<not> s_open s))"

definition pending_ops :: "recovery_row list \<Rightarrow> branch_row list \<Rightarrow> (string \<times> string \<times> string \<times> bool) list" where
  "pending_ops vs ns =
    map (\<lambda>v. (v_id v, v_sandbox v, ''checkpoint_recovery'', v_finished v = None)) vs @
    map (\<lambda>n. (n_id n, n_destination_sandbox n, ''checkpoint_branch'', n_ready n = None)) ns"

definition op_held ::
  "session_row list \<Rightarrow> sandbox_row list \<Rightarrow> hold_row list \<Rightarrow> string \<times> string \<times> string \<times> bool \<Rightarrow> bool" where
  "op_held ss bs hs =
    (\<lambda>(i, bid, why, pending). \<exists>h \<in> set hs. h_id h = i \<and> h_sandbox h = bid \<and> h_reason h = why \<and>
       (pending \<longrightarrow> h_released h = None \<or> session_closed ss bs bid))"

definition ops_held ::
  "session_row list \<Rightarrow> sandbox_row list \<Rightarrow> hold_row list \<Rightarrow> (string \<times> string \<times> string \<times> bool) list \<Rightarrow> bool" where
  "ops_held ss bs hs ops = (\<forall>x \<in> set ops. op_held ss bs hs x)"

definition cleanup_owned :: "session_row list \<Rightarrow> task_row list \<Rightarrow> bool" where
  \<comment> \<open>scheduled cleanup is owned by an attached cleanup task\<close>
  "cleanup_owned ss ts =
    (\<forall>s \<in> set ss. s_cleanup s = CleanupScheduled \<or> s_cleanup s = CleanupComplete \<longrightarrow>
       (\<exists>t. latest_by t_sequence (filter (\<lambda>t. t_session t = s_id s) ts) = Some t \<and>
            t_name t = ''dorf-session-cleanup-v3''))"

definition db_inv :: "db \<Rightarrow> bool" where
  "db_inv d =
    (sessions_ok (sessions d) \<and> tasks_ok (tasks d) \<and> actions_ok (actions d) \<and>
     resources_ok (sandboxes d) (resources d) \<and> holds_ok (holds d) \<and>
     upgrades_ok (upgrades d) \<and> recoveries_ok (recoveries d) \<and> branches_ok (branches d) \<and>
     wakes_ok (wakes d) (causes d) \<and> retries_ok (retries d) \<and> checkpoints_ok (checkpoints d) \<and>
     clients_ok (clients d) (enrollments d) \<and> profiles_ok (profile_names d) (revisions d) (verifications d) \<and>
     upgrades_held (sessions d) (sandboxes d) (holds d) (upgrades d) \<and>
     ops_held (sessions d) (sandboxes d) (holds d) (pending_ops (recoveries d) (branches d)) \<and>
     cleanup_owned (sessions d) (tasks d))"

lemmas table_inv_defs =
  sessions_ok_def tasks_ok_def actions_ok_def resources_ok_def holds_ok_def upgrades_ok_def
  recoveries_ok_def branches_ok_def wakes_ok_def retries_ok_def checkpoints_ok_def clients_ok_def sole_clients_def
  profiles_ok_def revision_keys_def

lemma db_inv_empty: "db_inv empty_db"
  by (simp add: db_inv_def empty_db_def table_inv_defs open_holds_def upgrades_held_def ops_held_def
      pending_ops_def cleanup_owned_def)

section \<open>How the invariants react to a statement\<close>

text \<open>
  One lemma per table for an update of some of its rows: the caller shows what the update does
  to a single row.
\<close>

lemma sessions_ok_upd:
  assumes "sessions_ok ss"
    and "\<And>s. s_id (f s) = s_id s" and "\<And>s. s_admission_key (f s) = s_admission_key s"
    and "\<And>s. p s \<Longrightarrow> sessions_ok [s] \<Longrightarrow> sessions_ok [f s]"
  shows "sessions_ok (upd_where p f ss)"
  using assms by (auto simp: sessions_ok_def map_upd_where)

lemma upgrades_ok_upd:
  assumes "upgrades_ok us" and "\<And>u. u_id (f u) = u_id u"
    and "\<And>u. p u \<Longrightarrow> upgrade_ok u \<Longrightarrow> upgrade_ok (f u)"
  shows "upgrades_ok (upd_where p f us)"
  using assms by (auto simp: upgrades_ok_def map_upd_where)

lemma upgrades_held_upd_upgrade:
  assumes "upgrades_held ss bs hs us"
    and "\<And>u. u_id (f u) = u_id u" and "\<And>u. u_sandbox (f u) = u_sandbox u"
    and "\<And>u. u_finished (f u) = None \<Longrightarrow> u_finished u = None"
  shows "upgrades_held ss bs hs (upd_where p f us)"
  using assms by (force simp: upgrades_held_def upgrade_held_def)

lemma cleanup_over_upd:
  assumes "cleanup_over ss bs bid" and "\<And>s. s_id (f s) = s_id s"
    and "\<And>s. p s \<Longrightarrow> s_cleanup s = CleanupComplete \<Longrightarrow> s_cleanup (f s) = CleanupComplete"
  shows "cleanup_over (upd_where p f ss) bs bid"
  using assms by (force simp: cleanup_over_def)

lemma upgrades_held_upd_session:
  assumes "upgrades_held ss bs hs us" and "\<And>s. s_id (f s) = s_id s"
    and "\<And>s. p s \<Longrightarrow> s_cleanup s = CleanupComplete \<Longrightarrow> s_cleanup (f s) = CleanupComplete"
  shows "upgrades_held (upd_where p f ss) bs hs us"
  using assms cleanup_over_upd [of ss bs _ f p, OF _ assms(2,3)] unfolding upgrades_held_def upgrade_held_def by blast

lemma upgrades_held_mono:
  assumes "upgrades_held ss bs hs us"
    and "set ss \<subseteq> set ss'" and "set bs \<subseteq> set bs'" and "set hs \<subseteq> set hs'"
  shows "upgrades_held ss' bs' hs' us"
proof -
  have "cleanup_over ss bs i \<Longrightarrow> cleanup_over ss' bs' i" for i
    using assms(2,3) unfolding cleanup_over_def by blast
  with assms(1,4) show ?thesis
    unfolding upgrades_held_def upgrade_held_def by blast
qed

lemma upgrade_heldI:
  assumes "h \<in> set hs" and "h_id h = u_id u" and "h_sandbox h = u_sandbox u"
    and "h_reason h = ''workspace_upgrade''"
    and "u_finished u = None \<Longrightarrow> h_released h = None \<or> cleanup_over ss bs (u_sandbox u)"
  shows "upgrade_held ss bs hs u"
proof -
  have "h_id h = u_id u \<and> h_sandbox h = u_sandbox u \<and> h_reason h = ''workspace_upgrade'' \<and>
      (u_finished u = None \<longrightarrow> h_released h = None \<or> cleanup_over ss bs (u_sandbox u))"
    by (intro conjI impI assms)
  then show ?thesis unfolding upgrade_held_def using assms(1) by (rule bexI)
qed

lemma upgrade_heldE:
  assumes "upgrade_held ss bs hs u"
  obtains h where "h \<in> set hs" "h_id h = u_id u" "h_sandbox h = u_sandbox u"
    "h_reason h = ''workspace_upgrade''"
    "u_finished u = None \<longrightarrow> h_released h = None \<or> cleanup_over ss bs (u_sandbox u)"
proof -
  obtain h where h: "h_id h = u_id u \<and> h_sandbox h = u_sandbox u \<and> h_reason h = ''workspace_upgrade'' \<and>
      (u_finished u = None \<longrightarrow> h_released h = None \<or> cleanup_over ss bs (u_sandbox u))" and hs: "h \<in> set hs"
    using assms unfolding upgrade_held_def by (rule bexE)
  show thesis
    by (rule that [OF hs h [THEN conjunct1] h [THEN conjunct2, THEN conjunct1]
        h [THEN conjunct2, THEN conjunct2, THEN conjunct1]
        h [THEN conjunct2, THEN conjunct2, THEN conjunct2]])
qed

lemma upgrades_held_holds:
  assumes "upgrades_held ss bs hs us"
    and "\<And>h. h_id (g h) = h_id h" and "\<And>h. h_sandbox (g h) = h_sandbox h" and "\<And>h. h_reason (g h) = h_reason h"
    and over: "\<And>h u. q h \<Longrightarrow> u \<in> set us \<Longrightarrow> h_id h = u_id u \<Longrightarrow> u_finished u = None \<Longrightarrow> cleanup_over ss bs (h_sandbox h)"
  shows "upgrades_held ss bs (upd_where q g hs) us"
  unfolding upgrades_held_def
proof
  fix u assume u: "u \<in> set us"
  with assms(1) have "upgrade_held ss bs hs u" by (simp add: upgrades_held_def)
  then obtain h where h: "h \<in> set hs" "h_id h = u_id u" "h_sandbox h = u_sandbox u"
    "h_reason h = ''workspace_upgrade''"
    "u_finished u = None \<longrightarrow> h_released h = None \<or> cleanup_over ss bs (u_sandbox u)"
    by (rule upgrade_heldE)
  show "upgrade_held ss bs (upd_where q g hs) u"
  proof (rule upgrade_heldI)
    show "(if q h then g h else h) \<in> set (upd_where q g hs)"
      unfolding set_upd_where using h(1) by (rule imageI)
    assume fin: "u_finished u = None"
    show "h_released (if q h then g h else h) = None \<or> cleanup_over ss bs (u_sandbox u)"
    proof (cases "q h")
      case True
      from over [OF this u h(2) fin] h(3) show ?thesis by simp
    qed (use h(5) fin in simp)
  qed (simp_all add: assms h)
qed

lemma upgrades_held_cong:
  assumes "upgrades_held ss bs hs us" and "\<And>i. cleanup_over ss bs i \<Longrightarrow> cleanup_over ss' bs' i"
  shows "upgrades_held ss' bs' hs us"
  unfolding upgrades_held_def
proof
  fix u assume "u \<in> set us"
  with assms(1) have "upgrade_held ss bs hs u" by (simp add: upgrades_held_def)
  then obtain h where h: "h \<in> set hs" "h_id h = u_id u" "h_sandbox h = u_sandbox u"
    "h_reason h = ''workspace_upgrade''"
    "u_finished u = None \<longrightarrow> h_released h = None \<or> cleanup_over ss bs (u_sandbox u)"
    by (rule upgrade_heldE)
  then show "upgrade_held ss' bs' hs u"
    by (intro upgrade_heldI [of h]) (auto dest: assms(2))
qed

lemma op_heldI:
  assumes "h \<in> set hs" and "h_id h = i" and "h_sandbox h = bid" and "h_reason h = why"
    and "pending \<Longrightarrow> h_released h = None \<or> session_closed ss bs bid"
  shows "op_held ss bs hs (i, bid, why, pending)"
  unfolding op_held_def case_prod_conv by (rule bexI [OF _ assms(1)]) (intro conjI impI assms)

lemma op_heldE:
  assumes "op_held ss bs hs (i, bid, why, pending)"
  obtains h where "h \<in> set hs" "h_id h = i" "h_sandbox h = bid" "h_reason h = why"
    "pending \<longrightarrow> h_released h = None \<or> session_closed ss bs bid"
  using assms unfolding op_held_def case_prod_conv by blast

text \<open>A Session is not reopened, a Sandbox keeps its Session, holds are added or released.\<close>

lemma ops_held_keep:
  assumes "ops_held ss bs hs ops"
    and "\<And>bid. session_closed ss bs bid \<Longrightarrow> session_closed ss' bs' bid"
    and "\<And>h i bid why. h \<in> set hs \<Longrightarrow> (i, bid, why, True) \<in> set ops \<or> (i, bid, why, False) \<in> set ops \<Longrightarrow>
      h_id h = i \<Longrightarrow> h_sandbox h = bid \<Longrightarrow> h_reason h = why \<Longrightarrow>
      \<exists>g \<in> set hs'. h_id g = i \<and> h_sandbox g = bid \<and> h_reason g = why \<and>
        (h_released h = None \<longrightarrow> (i, bid, why, True) \<in> set ops \<longrightarrow> h_released g = None \<or> session_closed ss' bs' bid)"
  shows "ops_held ss' bs' hs' ops"
  unfolding ops_held_def
proof
  fix x assume x: "x \<in> set ops"
  obtain i bid why pending where xe: "x = (i, bid, why, pending)" by (cases x)
  have "op_held ss bs hs (i, bid, why, pending)" using assms(1) x by (simp add: ops_held_def xe)
  then obtain h where h: "h \<in> set hs" "h_id h = i" "h_sandbox h = bid" "h_reason h = why"
    "pending \<longrightarrow> h_released h = None \<or> session_closed ss bs bid"
    by (rule op_heldE)
  obtain g where g: "g \<in> set hs'" "h_id g = i" "h_sandbox g = bid" "h_reason g = why"
    "h_released h = None \<longrightarrow> (i, bid, why, True) \<in> set ops \<longrightarrow> h_released g = None \<or> session_closed ss' bs' bid"
    using assms(3) [OF h(1) _ h(2,3,4)] x by (cases pending) (auto simp: xe)
  show "op_held ss' bs' hs' x"
    unfolding xe using g(1-4)
    by (rule op_heldI) (use g(5) h(5) assms(2) x in \<open>auto simp: xe\<close>)
qed

lemma ops_held_cong:
  assumes "ops_held ss bs hs ops" and "\<And>bid. session_closed ss bs bid \<Longrightarrow> session_closed ss' bs' bid"
    and "set hs \<subseteq> set hs'"
  shows "ops_held ss' bs' hs' ops"
  using assms(1,2)
proof (rule ops_held_keep)
  fix h i bid why
  assume "h \<in> set hs" and h: "h_id h = i" "h_sandbox h = bid" "h_reason h = why"
  then have "h \<in> set hs'" using assms(3) by blast
  then show "\<exists>g \<in> set hs'. h_id g = i \<and> h_sandbox g = bid \<and> h_reason g = why \<and>
      (h_released h = None \<longrightarrow> (i, bid, why, True) \<in> set ops \<longrightarrow> h_released g = None \<or> session_closed ss' bs' bid)"
    by (rule rev_bexI) (simp add: h)
qed

lemma ops_held_mono:
  assumes "ops_held ss bs hs ops" and "set ss \<subseteq> set ss'" and "set bs \<subseteq> set bs'" and "set hs \<subseteq> set hs'"
  shows "ops_held ss' bs' hs' ops"
  using assms(1) by (rule ops_held_cong) (use assms(2-4) in \<open>auto simp: session_closed_def\<close>)

lemma session_closed_upd:
  assumes "session_closed ss bs bid" and "\<And>s. s_id (f s) = s_id s"
    and "\<And>s. p s \<Longrightarrow> \<not> s_open s \<Longrightarrow> \<not> s_open (f s)"
  shows "session_closed (upd_where p f ss) bs bid"
  using assms by (force simp: session_closed_def)

lemma ops_held_upd_session:
  assumes "ops_held ss bs hs ops" and "\<And>s. s_id (f s) = s_id s"
    and "\<And>s. p s \<Longrightarrow> \<not> s_open s \<Longrightarrow> \<not> s_open (f s)"
  shows "ops_held (upd_where p f ss) bs hs ops"
  using assms(1) by (rule ops_held_cong) (use session_closed_upd [OF _ assms(2,3)] in auto)

lemma ops_held_holds:
  assumes "ops_held ss bs hs ops"
    and "\<And>h. h_id (g h) = h_id h" and "\<And>h. h_sandbox (g h) = h_sandbox h" and "\<And>h. h_reason (g h) = h_reason h"
    and over: "\<And>h. q h \<Longrightarrow> (h_id h, h_sandbox h, h_reason h, True) \<in> set ops \<Longrightarrow> session_closed ss bs (h_sandbox h)"
  shows "ops_held ss bs (upd_where q g hs) ops"
  using assms(1)
proof (rule ops_held_keep)
  fix h i bid why assume h: "h \<in> set hs" "h_id h = i" "h_sandbox h = bid" "h_reason h = why"
  have "(if q h then g h else h) \<in> set (upd_where q g hs)" unfolding set_upd_where using h(1) by (rule imageI)
  then show "\<exists>g \<in> set (upd_where q g hs). h_id g = i \<and> h_sandbox g = bid \<and> h_reason g = why \<and>
      (h_released h = None \<longrightarrow> (i, bid, why, True) \<in> set ops \<longrightarrow> h_released g = None \<or> session_closed ss bs bid)"
    by (rule rev_bexI) (use h over assms(2-4) in auto)
qed simp

lemma cleanup_owned_upd:
  assumes "cleanup_owned ss ts" and "\<And>s. s_id (f s) = s_id s"
    and "\<And>s. p s \<Longrightarrow> s_cleanup (f s) = CleanupScheduled \<or> s_cleanup (f s) = CleanupComplete \<Longrightarrow>
      s_cleanup s = CleanupScheduled \<or> s_cleanup s = CleanupComplete"
  shows "cleanup_owned (upd_where p f ss) ts"
  using assms by (auto simp: cleanup_owned_def)

lemma holds_ok_release:
  assumes "holds_ok hs" and "\<And>h. h_id (f h) = h_id h" and "\<And>h. h_sandbox (f h) = h_sandbox h"
    and "\<And>h. h_released (f h) \<noteq> None"
  shows "holds_ok (upd_where p f hs)"
proof -
  have "map h_sandbox (open_holds (upd_where p f hs)) = map h_sandbox (filter (\<lambda>h. \<not> p h) (open_holds hs))"
    using assms(4) by (induction hs) (auto simp: open_holds_def upd_where_def)
  with assms show ?thesis
    by (simp add: holds_ok_def map_upd_where distinct_map_filter)
qed

end
