(* ===== verification/Postgres_Sessions.thy ===== *)
theory Postgres_Sessions
  imports Postgres_State
begin

text \<open>
  Session custody in PostgreSQL: reading a Session, attaching Absurd tasks, execution wakes,
  operator retries, attention and the scheduling of cleanup (\<open>store.go\<close>, \<open>tasks.go\<close>,
  \<open>wakes.go\<close>, \<open>retry.go\<close>, and the statements of \<open>dbsql/sessions.sql.go\<close>,
  \<open>wakes.sql.go\<close>, \<open>retries.sql.go\<close>, \<open>cleanup.sql.go\<close>). The Absurd functions that a
  transaction calls are parameters: their results are the fields of \<open>absurd_env\<close>, and the
  calls themselves are logged in \<open>queue\<close> and committed or rolled back with the transaction.
\<close>

record absurd_env =
  spawn_task :: "string \<Rightarrow> string \<Rightarrow> string \<Rightarrow> string \<Rightarrow> err + string"
  cancel_task :: "string \<Rightarrow> string \<Rightarrow> err + unit"
  emit_event :: "string \<Rightarrow> string \<Rightarrow> string \<Rightarrow> err + unit"
  retry_task :: "string \<Rightarrow> string \<Rightarrow> err + (string \<times> string \<times> int \<times> bool)"

definition cleanup_task_name :: string where
  "cleanup_task_name = ''dorf-session-cleanup-v3''"

definition no_rows_as :: "err \<Rightarrow> ('s, 'a) act \<Rightarrow> ('s, 'a) act" where
  \<comment> \<open>\<open>if errors.Is(err, sql.ErrNoRows) { return e }\<close>\<close>
  "no_rows_as e m =
    bnd (attempt m) (\<lambda>r. case r of
        Inl d \<Rightarrow> fail (if err_is d ErrNoRows then e else d)
      | Inr x \<Rightarrow> ret x)"

lemma wp_no_rows_as [wp_simps]:
  "wp (no_rows_as e m) Q E = wp m Q (\<lambda>d. E (if err_is d ErrNoRows then e else d))"
  by (simp add: no_rows_as_def wp_simps)

lemma keeps_no_rows_as [keeps_intros]: "keeps I m \<Longrightarrow> keeps I (no_rows_as e m)"
  by (auto simp: no_rows_as_def intro!: keeps_intros)

section \<open>Reading a Session\<close>

definition session_value :: "db \<Rightarrow> session_row \<Rightarrow> sandbox_profile \<Rightarrow> session" where
  "session_value d s p =
    \<lparr>keep_running = s_keep_running s,
     created_by_client_id = text_of (s_created_by s),
     client_reference = s_client_reference s,
     sess_id = s_id s,
     admission_key = s_admission_key s,
     agents_md = s_agents_md s,
     sess_harness = p_harness p,
     thread_id = text_of (s_thread s),
     sess_profile = s_profile s,
     sess_profile_revision = s_profile_revision s,
     provider_connection = s_connection s,
     model = s_model s,
     reasoning_effort = s_effort s,
     admission_open = s_open s,
     cleanup_state = s_cleanup s,
     current_task_id = (case current_task d (s_id s) of None \<Rightarrow> [] | Some t \<Rightarrow> t_id t),
     current_task_name = (case current_task d (s_id s) of None \<Rightarrow> [] | Some t \<Rightarrow> t_name t),
     execution_attention = text_of (s_attention s),
     execution_attention_source = text_of (s_attention_source s),
     cleanup_attention = text_of (s_cleanup_attention s)\<rparr>"

definition find_session :: "db \<Rightarrow> string \<Rightarrow> session option" where
  "find_session d sid =
    (case session_of d sid of
       None \<Rightarrow> None
     | Some s \<Rightarrow> map_option (session_value d s) (revision_of d (s_profile s) (s_profile_revision s)))"

definition q_get_session :: "string \<Rightarrow> (db, session) act" where
  "q_get_session sid = bnd (gets (\<lambda>d. find_session d sid)) (\<lambda>r. the_row r (Sentinel ErrNoRows))"

definition store_session :: "string \<Rightarrow> (db, session) act" where
  "store_session sid = no_rows_as (Sentinel ErrNotFound) (q_get_session sid)"

definition session_exists :: "string \<Rightarrow> (db, bool) act" where
  "session_exists sid =
    bnd (attempt (store_session sid)) (\<lambda>r. case r of
        Inl e \<Rightarrow> if err_is e ErrNotFound then ret False else fail e
      | Inr _ \<Rightarrow> ret True)"

definition q_list_session_tasks :: "string \<Rightarrow> (db, task_row list) act" where
  "q_list_session_tasks sid = gets (\<lambda>d. sort_key t_sequence (session_tasks d sid))"

section \<open>The current task\<close>

record task_state =
  ct_id :: string
  ct_name :: string
  ct_sequence :: int
  ct_open :: bool
  ct_cleanup :: cleanup_state

definition find_task_state :: "db \<Rightarrow> string \<Rightarrow> task_state option" where
  "find_task_state d sid =
    map_option (\<lambda>s.
      (case current_task d sid of
         None \<Rightarrow> \<lparr>ct_id = [], ct_name = [], ct_sequence = 0, ct_open = s_open s, ct_cleanup = s_cleanup s\<rparr>
       | Some t \<Rightarrow> \<lparr>ct_id = t_id t, ct_name = t_name t, ct_sequence = t_sequence t,
                    ct_open = s_open s, ct_cleanup = s_cleanup s\<rparr>))
      (session_of d sid)"

definition q_current_task_for_update :: "string \<Rightarrow> (db, task_state) act" where
  "q_current_task_for_update sid =
    bnd (gets (\<lambda>d. find_task_state d sid)) (\<lambda>r. the_row r (Sentinel ErrNoRows))"

definition q_insert_session_task :: "string \<Rightarrow> int \<Rightarrow> string \<Rightarrow> string \<Rightarrow> (db, nat) act" where
  "q_insert_session_task sid seq_no tid name = (\<lambda>d.
    if seq_no \<le> 0 \<or> blank_text tid \<or> blank_text name then
      (Inl (check_violation ''session_tasks_check''), d)
    else if list_ex (\<lambda>t. t_id t = tid) (tasks d) then (Inr 0, d)
    else if list_ex (\<lambda>t. t_session t = sid \<and> t_sequence t = seq_no) (tasks d) then
      (Inl (unique_violation ''session_tasks_pkey''), d)
    else (Inr 1, tasks_update (add_row
      \<lparr>t_session = sid, t_sequence = seq_no, t_id = tid, t_name = name\<rparr>) d))"

definition q_mark_cleanup_scheduled :: "string \<Rightarrow> (db, nat) act" where
  "q_mark_cleanup_scheduled sid =
    update_tbl sessions sessions_update
      (\<lambda>s. s_id s = sid \<and> (\<not> s_open s \<and> s_cleanup s = CleanupRequested))
      (\<lambda>s. s\<lparr>s_cleanup := CleanupScheduled\<rparr>)"

definition validate_task_attachment_state :: "task_state \<Rightarrow> string \<Rightarrow> string \<Rightarrow> bool \<Rightarrow> err option" where
  "validate_task_attachment_state c sid tid cleanup =
    (if cleanup then
       (if ct_open c \<or> (ct_cleanup c \<noteq> CleanupRequested \<and> ct_cleanup c \<noteq> CleanupScheduled) then
          Some (Errorf ''cannot attach cleanup'')
        else if ct_cleanup c = CleanupScheduled \<and> ct_id c \<noteq> tid then
          Some (Errorf ''already has cleanup task'')
        else None)
     else if \<not> ct_open c \<or> ct_cleanup c \<noteq> CleanupPending then
       Some (Errorf ''cannot attach ordinary task after cleanup begins'')
     else None)"

definition attach_session_task :: "string \<Rightarrow> string \<Rightarrow> string \<Rightarrow> string \<Rightarrow> bool \<Rightarrow> (db, unit) act" where
  "attach_session_task sid expected tid name cleanup =
    bnd (q_current_task_for_update sid) (\<lambda>c.
    case validate_task_attachment_state c sid tid cleanup of Some e \<Rightarrow> fail e | None \<Rightarrow>
    seq
      (if ct_id c = tid then
         require (ct_name c = name) (Errorf ''task is already attached under another name'')
       else
         seq (require (ct_id c = expected) (Errorf ''current task is not the expected predecessor''))
        (bnd (q_insert_session_task sid (ct_sequence c + 1) tid name) (\<lambda>n.
         require (n = 1) (Errorf ''task is already attached to another Session''))))
      (if cleanup \<and> ct_cleanup c = CleanupRequested then
         bnd (q_mark_cleanup_scheduled sid) (\<lambda>n.
         require (n = 1) (Errorf ''cleanup scheduling did not settle''))
       else ret ()))"

section \<open>Scheduling tasks\<close>

definition spawn_session_task :: "absurd_env \<Rightarrow> string \<Rightarrow> string \<Rightarrow> string \<Rightarrow> string \<Rightarrow> (db, string) act" where
  "spawn_session_task env qn sid name key =
    seq (log_call (SpawnTask qn name sid key)) (lift (spawn_task env qn name sid key))"

definition schedule_session_task ::
  "absurd_env \<Rightarrow> string \<Rightarrow> string \<Rightarrow> string \<Rightarrow> string \<Rightarrow> (db, unit) act" where
  "schedule_session_task env qn sid name key =
    bnd (q_current_task_for_update sid) (\<lambda>c.
    if ct_id c \<noteq> [] \<or> \<not> ct_open c then ret ()
    else seq (require (ct_open c \<and> ct_cleanup c = CleanupPending)
                (Errorf ''cannot schedule ordinary work after cleanup begins''))
        (bnd (spawn_session_task env qn sid name key) (\<lambda>tid.
         attach_session_task sid (ct_id c) tid name False)))"

definition q_request_cleanup :: "string \<Rightarrow> (db, nat) act" where
  "q_request_cleanup sid =
    update_tbl sessions sessions_update
      (\<lambda>s. s_id s = sid \<and> (s_cleanup s = CleanupPending \<or> s_cleanup s = CleanupRequested))
      (\<lambda>s. s\<lparr>s_open := False,
             s_cleanup := (if s_cleanup s = CleanupPending then CleanupRequested else s_cleanup s)\<rparr>)"

definition cleanup_task_key :: "string \<Rightarrow> string" where
  "cleanup_task_key sid = ''cleanup:v3:'' @ sid"

definition schedule_cleanup :: "absurd_env \<Rightarrow> string \<Rightarrow> string \<Rightarrow> string \<Rightarrow> (db, unit) act" where
  "schedule_cleanup env qn sid caller =
    tx (bnd (q_current_task_for_update sid) (\<lambda>c.
      if ct_cleanup c = CleanupScheduled \<or> ct_cleanup c = CleanupComplete then ret ()
      else
        seq (expect_one_rows (q_request_cleanup sid))
       (seq (if ct_id c \<noteq> [] \<and> ct_id c \<noteq> caller then
               seq (log_call (CancelTask qn (ct_id c))) (lift (cancel_task env qn (ct_id c)))
             else ret ())
       (bnd (spawn_session_task env qn sid cleanup_task_name (cleanup_task_key sid)) (\<lambda>tid.
        attach_session_task sid (ct_id c) tid cleanup_task_name True)))))"

section \<open>Execution wakes\<close>

definition session_execution_wake_event :: "string \<Rightarrow> int \<Rightarrow> string" where
  "session_execution_wake_event sid rev_no = ''dorf.session-execution:v1:'' @ sid @ '':'' @ pad20 (nat rev_no)"

definition q_wake_revision :: "string \<Rightarrow> (db, int) act" where
  "q_wake_revision sid =
    bnd (gets (\<lambda>d. map_option (\<lambda>_. case row_of w_session sid (wakes d) of None \<Rightarrow> 0 | Some w \<Rightarrow> w_revision w)
      (session_of d sid))) (\<lambda>r. the_row r (Sentinel ErrNoRows))"

definition store_wake_revision :: "string \<Rightarrow> (db, int) act" where
  "store_wake_revision sid = no_rows_as (Sentinel ErrNotFound) (q_wake_revision sid)"

definition q_ensure_wake :: "string \<Rightarrow> (db, unit) act" where
  "q_ensure_wake sid = (\<lambda>d.
    if list_ex (\<lambda>w. w_session w = sid) (wakes d) then (Inr (), d)
    else if session_of d sid = None then (Inl (foreign_key_violation ''session_execution_wakes''), d)
    else (Inr (), wakes_update (add_row \<lparr>w_session = sid, w_revision = 0\<rparr>) d))"

definition q_lock_wake :: "string \<Rightarrow> (db, int) act" where
  "q_lock_wake sid =
    bnd (gets (\<lambda>d. row_of w_session sid (wakes d))) (\<lambda>r.
    bnd (the_row r (Sentinel ErrNoRows)) (\<lambda>w. ret (w_revision w)))"

definition q_wake_cause :: "string \<Rightarrow> string \<Rightarrow> (db, int) act" where
  "q_wake_cause sid cause =
    bnd (gets (\<lambda>d. row_of (\<lambda>k. (k_session k, k_cause k)) (sid, cause) (causes d))) (\<lambda>r.
    bnd (the_row r (Sentinel ErrNoRows)) (\<lambda>k. ret (k_revision k)))"

definition q_set_wake_revision :: "string \<Rightarrow> int \<Rightarrow> (db, nat) act" where
  "q_set_wake_revision sid rev_no =
    update_tbl wakes wakes_update (\<lambda>w. w_session w = sid) (\<lambda>w. w\<lparr>w_revision := rev_no\<rparr>)"

definition cause_key_ok :: "string \<Rightarrow> bool" where
  \<comment> \<open>the table's check: 1 to 512 characters, no blank at either end\<close>
  "cause_key_ok c =
    (1 \<le> rune_count c \<and> rune_count c \<le> 512 \<and>
     \<not> has_prefix c '' '' \<and> \<not> has_suffix c '' '')"

definition q_insert_wake_cause :: "string \<Rightarrow> string \<Rightarrow> int \<Rightarrow> (db, unit) act" where
  "q_insert_wake_cause sid cause rev_no =
    insert_tbl causes_update
      (\<lambda>d. first_violation
        [(\<not> cause_key_ok cause, check_violation ''cause_key''),
         (\<not> 0 < rev_no, check_violation ''revision''),
         (list_ex (\<lambda>k. k_session k = sid \<and> k_cause k = cause) (causes d), unique_violation ''cause_pkey''),
         (list_ex (\<lambda>k. k_session k = sid \<and> k_revision k = rev_no) (causes d), unique_violation ''cause_revision''),
         (\<not> list_ex (\<lambda>w. w_session w = sid) (wakes d), foreign_key_violation ''cause_session'')])
      \<lparr>k_session = sid, k_cause = cause, k_revision = rev_no\<rparr>"

definition wake_advance :: "string \<Rightarrow> string \<Rightarrow> int \<Rightarrow> (db, int) act" where
  "wake_advance sid cause cur =
    seq (require (cur \<noteq> max_int64) (Errorf ''wake revision is exhausted''))
   (seq (expect_one_rows (q_set_wake_revision sid (cur + 1)))
   (seq (q_insert_wake_cause sid cause (cur + 1))
   (ret (cur + 1))))"

definition signal_session_wake :: "absurd_env \<Rightarrow> string \<Rightarrow> string \<Rightarrow> string \<Rightarrow> (db, int) act" where
  "signal_session_wake env qn sid cause =
    seq (q_ensure_wake sid)
   (bnd (q_lock_wake sid) (\<lambda>cur.
    bnd (bnd (attempt (q_wake_cause sid cause)) (\<lambda>r. case r of
          Inr old \<Rightarrow> ret old
        | Inl e \<Rightarrow>
            if err_is e ErrNoRows then wake_advance sid cause cur else fail e)) (\<lambda>rev_no.
    seq (log_call (EmitWake qn sid rev_no cause))
   (seq (lift (emit_event env qn (session_execution_wake_event sid rev_no) cause))
   (ret rev_no)))))"

record native_wake_target =
  tg_session :: string
  tg_sandbox :: string
  tg_thread :: string
  tg_turn :: string

definition valid_wake_identity :: "string \<Rightarrow> bool" where
  "valid_wake_identity v = (v \<noteq> [] \<and> exact v \<and> length v \<le> 256)"

definition valid_native_terminal_wake_target :: "native_wake_target \<Rightarrow> err option" where
  "valid_native_terminal_wake_target g =
    (if list_all valid_wake_identity [tg_session g, tg_sandbox g, tg_thread g, tg_turn g] then None
     else Some (Errorf ''native terminal wake requires bounded exact IDs''))"

definition q_native_wake_binding :: "string \<Rightarrow> string \<Rightarrow> (db, session_row \<times> sandbox_row) act" where
  "q_native_wake_binding sid bid =
    bnd (gets (\<lambda>d. case (session_of d sid, sandbox_of d bid) of
        (Some s, Some b) \<Rightarrow> if b_session b = sid then Some (s, b) else None
      | _ \<Rightarrow> None)) (\<lambda>r. the_row r (Sentinel ErrNoRows))"

definition native_terminal_cause :: "native_wake_target \<Rightarrow> string" where
  "native_terminal_cause g = ''native-terminal:'' @ tg_thread g @ '':'' @ tg_turn g"

definition signal_native_terminal_wake :: "absurd_env \<Rightarrow> string \<Rightarrow> native_wake_target \<Rightarrow> (db, bool) act" where
  "signal_native_terminal_wake env qn g =
    (case valid_native_terminal_wake_target g of Some e \<Rightarrow> fail e | None \<Rightarrow>
     tx (bnd (no_rows_as (Errorf ''native terminal wake Thread was not found'')
                (q_native_wake_binding (tg_session g) (tg_sandbox g))) (\<lambda>(s, b).
       seq (require (s_id s = tg_session g \<and> b_id b = tg_sandbox g)
              (Errorf ''native terminal wake has a foreign Session or Sandbox binding''))
      (seq (require (text_of (s_thread s) = [] \<or> text_of (s_thread s) = tg_thread g)
              (Errorf ''native terminal wake conflicts with the durable Thread binding''))
      (if \<not> s_open s \<or> s_cleanup s \<noteq> CleanupPending then ret False
       else bnd (signal_session_wake env qn (tg_session g) (native_terminal_cause g)) (\<lambda>_. ret True))))))"

section \<open>Operator retry\<close>

record retry_receipt =
  rr_key :: string
  rr_session :: string
  rr_task :: string
  rr_run :: string
  rr_attempt :: int
  rr_created :: bool

definition q_get_retry :: "string \<Rightarrow> (db, retry_row) act" where
  "q_get_retry key = bnd (gets (\<lambda>d. row_of q_key key (retries d))) (\<lambda>r. the_row r (Sentinel ErrNoRows))"

definition q_insert_retry :: "string \<Rightarrow> string \<Rightarrow> string \<Rightarrow> string \<Rightarrow> int \<Rightarrow> (db, unit) act" where
  "q_insert_retry key sid tid run attempt_no =
    insert_tbl retries_update
      (\<lambda>d. first_violation
        [(\<not> 0 < attempt_no, check_violation ''attempt''),
         (list_ex (\<lambda>q. q_key q = key) (retries d), unique_violation ''retry_pkey''),
         (list_ex (\<lambda>q. q_run q = run) (retries d), unique_violation ''retry_run''),
         (session_of d sid = None, foreign_key_violation ''retry_session'')])
      \<lparr>q_key = key, q_session = sid, q_task = tid, q_run = run, q_attempt = attempt_no\<rparr>"

definition retry_receipt_of :: "string \<Rightarrow> string \<Rightarrow> string \<Rightarrow> string \<Rightarrow> int \<Rightarrow> bool \<Rightarrow> retry_receipt" where
  "retry_receipt_of key sid tid run attempt_no created =
    \<lparr>rr_key = key, rr_session = sid, rr_task = tid, rr_run = run, rr_attempt = attempt_no, rr_created = created\<rparr>"

definition retry_error :: "err \<Rightarrow> err" where
  "retry_error e =
    (case e of
       PgError code _ \<Rightarrow>
         if code = ''P0001'' then Wrapf ''attached task'' (Sentinel ErrRetryNotEligible)
         else Wrapf ''retry Session attached task'' e
     | _ \<Rightarrow> Wrapf ''retry Session attached task'' e)"

definition to_int32 :: "int \<Rightarrow> int" where
  \<comment> \<open>the conversion \<open>int32(n)\<close>, which wraps\<close>
  "to_int32 n = signed_take_bit 31 n"

lemma to_int32_id: "0 \<le> n \<Longrightarrow> n < 2 ^ 31 \<Longrightarrow> to_int32 n = n"
  by (simp add: to_int32_def signed_take_bit_int_eq_self)

definition retry_failed_session :: "absurd_env \<Rightarrow> string \<Rightarrow> string \<Rightarrow> string \<Rightarrow> (db, retry_receipt) act" where
  "retry_failed_session env qn0 sid0 key0 =
    (let qn = trim_space qn0; sid = trim_space sid0; key = trim_space key0 in
     if qn = [] \<or> length qn > 57 \<or> sid = [] \<or> key = [] \<or> length key > 255 then
       fail (Errorf ''retry requires a valid queue, Session ID, and request key'')
     else tx (bnd (attempt (q_get_retry key)) (\<lambda>r. case r of
         Inr q \<Rightarrow>
           seq (require (q_session q = sid) (Wrapf ''request key'' (Sentinel ErrRetryReplayConflict)))
          (ret (retry_receipt_of (q_key q) (q_session q) (q_task q) (q_run q) (q_attempt q) False))
       | Inl e \<Rightarrow>
           if \<not> err_is e ErrNoRows then fail e else
           bnd (no_rows_as (Sentinel ErrNotFound) (q_current_task_for_update sid)) (\<lambda>c.
           seq (require (ct_id c \<noteq> []) (Wrapf ''no attached execution task'' (Sentinel ErrRetryNotEligible)))
          (seq (log_call (RetryTask qn (ct_id c)))
          (case retry_task env qn (ct_id c) of
             Inl x \<Rightarrow> fail (retry_error x)
           | Inr (tid, run, attempt_no, created) \<Rightarrow>
               seq (require (\<not> (tid \<noteq> ct_id c \<or> run = [] \<or> attempt_no \<le> 0 \<or> created))
                      (Errorf ''Absurd retry returned a conflicting receipt''))
              (seq (q_insert_retry key sid tid run (to_int32 attempt_no))
              (ret (retry_receipt_of key sid tid run attempt_no True)))))))))"

section \<open>Attention\<close>

definition max_attention_bytes :: nat where
  "max_attention_bytes = 4096"

definition bounded_detail :: "string \<Rightarrow> string" where
  "bounded_detail detail =
    (if length detail > max_attention_bytes then take max_attention_bytes detail else detail)"

definition text_error :: err where
  \<comment> \<open>PostgreSQL refuses a text parameter that is not valid UTF-8 or contains NUL\<close>
  "text_error = PgError ''22021'' ''''"

definition valid_text :: "string \<Rightarrow> bool" where
  "valid_text s = (valid_utf8 s \<and> \<not> contains_nul s)"

definition q_set_execution_attention :: "string \<Rightarrow> string \<Rightarrow> string \<Rightarrow> (db, nat) act" where
  "q_set_execution_attention sid source detail =
    seq (require (valid_text source \<and> valid_text detail) text_error)
   (bnd clock (\<lambda>t.
    update_tbl sessions sessions_update
      (\<lambda>s. s_id s = sid \<and> (s_attention_source s = None \<or> s_attention_source s = Some source))
      (\<lambda>s. s\<lparr>s_attention := Some detail, s_attention_source := Some source, s_attention_at := Some t\<rparr>)))"

definition q_clear_execution_attention :: "string \<Rightarrow> string \<Rightarrow> (db, nat) act" where
  "q_clear_execution_attention sid source =
    update_tbl sessions sessions_update
      (\<lambda>s. s_id s = sid \<and> s_attention_source s = Some source)
      (\<lambda>s. s\<lparr>s_attention := None, s_attention_source := None, s_attention_at := None\<rparr>)"

definition q_set_cleanup_attention :: "string \<Rightarrow> string \<Rightarrow> (db, nat) act" where
  "q_set_cleanup_attention sid detail =
    seq (require (valid_text detail) text_error)
   (update_tbl sessions sessions_update
      (\<lambda>s. s_id s = sid \<and> s_cleanup s \<noteq> CleanupComplete)
      (\<lambda>s. s\<lparr>s_cleanup_attention := nullif_empty detail\<rparr>))"

definition set_execution_attention :: "string \<Rightarrow> string \<Rightarrow> string \<Rightarrow> (db, unit) act" where
  "set_execution_attention sid source0 detail0 =
    (let source = trim_space source0; detail = trim_space detail0 in
     if sid = [] \<or> source = [] \<or> detail = [] then
       fail (Errorf ''execution attention requires Session ID, exact source, and detail'')
     else expect_one_rows (q_set_execution_attention sid source (bounded_detail detail)))"

definition clear_execution_attention :: "string \<Rightarrow> string \<Rightarrow> (db, unit) act" where
  "clear_execution_attention sid source0 =
    (let source = trim_space source0 in
     if sid = [] \<or> source = [] then
       fail (Errorf ''execution attention clearing requires Session ID and exact source'')
     else bnd (q_clear_execution_attention sid source) (\<lambda>n.
       require (n \<le> 1) (Errorf ''execution attention source changed several Sessions'')))"

definition set_cleanup_attention :: "string \<Rightarrow> string \<Rightarrow> (db, unit) act" where
  "set_cleanup_attention sid detail =
    expect_one_rows (q_set_cleanup_attention sid (bounded_detail (trim_space detail)))"

section \<open>The statements preserve the invariants\<close>

text \<open>The facts a Session row keeps under an update that is not a lifecycle transition.\<close>

definition row_ok :: "session_row \<Rightarrow> bool" where
  "row_ok s = sessions_ok [s]"

lemma row_ok_iff:
  "row_ok s \<longleftrightarrow>
    (s_open s \<longleftrightarrow> s_cleanup s = CleanupPending) \<and>
    (s_pending_input s = None \<or> s_pending_turn s = None) \<and>
    0 \<le> s_revision s \<and> s_revision s \<le> max_int64 \<and> thread_ok (s_thread s) \<and>
    (s_cleaned_at s \<noteq> None \<longleftrightarrow> s_cleanup s = CleanupComplete)"
  by (simp add: row_ok_def sessions_ok_def)

lemma db_inv_session_update:
  assumes "db_inv d"
    and "\<And>s. s_id (f s) = s_id s" and "\<And>s. s_admission_key (f s) = s_admission_key s"
    and "\<And>s. p s \<Longrightarrow> row_ok s \<Longrightarrow> row_ok (f s)"
    and "\<And>s. p s \<Longrightarrow> s_cleanup s = CleanupComplete \<Longrightarrow> s_cleanup (f s) = CleanupComplete"
    and "\<And>s. p s \<Longrightarrow> s_cleanup (f s) = CleanupScheduled \<or> s_cleanup (f s) = CleanupComplete \<Longrightarrow>
      s_cleanup s = CleanupScheduled \<or> s_cleanup s = CleanupComplete"
    and "\<And>s. p s \<Longrightarrow> \<not> s_open s \<Longrightarrow> \<not> s_open (f s)"
  shows "db_inv (sessions_update (upd_where p f) d)"
proof -
  have "sessions_ok (upd_where p f (sessions d))"
    by (rule sessions_ok_upd) (use assms in \<open>auto simp: db_inv_def row_ok_def\<close>)
  moreover have "upgrades_held (upd_where p f (sessions d)) (sandboxes d) (holds d) (upgrades d)"
    by (rule upgrades_held_upd_session) (use assms in \<open>auto simp: db_inv_def\<close>)
  moreover have "ops_held (upd_where p f (sessions d)) (sandboxes d) (holds d) (pending_ops (recoveries d) (branches d))"
    by (rule ops_held_upd_session) (use assms in \<open>auto simp: db_inv_def\<close>)
  moreover have "cleanup_owned (upd_where p f (sessions d)) (tasks d)"
    by (rule cleanup_owned_upd) (use assms in \<open>auto simp: db_inv_def\<close>)
  ultimately show ?thesis using assms(1) by (simp add: db_inv_def)
qed

lemma keeps_session_update:
  assumes "\<And>s. s_id (f s) = s_id s" and "\<And>s. s_admission_key (f s) = s_admission_key s"
    and "\<And>s. p s \<Longrightarrow> row_ok s \<Longrightarrow> row_ok (f s)"
    and "\<And>s. p s \<Longrightarrow> s_cleanup s = CleanupComplete \<Longrightarrow> s_cleanup (f s) = CleanupComplete"
    and "\<And>s. p s \<Longrightarrow> s_cleanup (f s) = CleanupScheduled \<or> s_cleanup (f s) = CleanupComplete \<Longrightarrow>
      s_cleanup s = CleanupScheduled \<or> s_cleanup s = CleanupComplete"
    and "\<And>s. p s \<Longrightarrow> \<not> s_open s \<Longrightarrow> \<not> s_open (f s)"
  shows "keeps db_inv (update_tbl sessions sessions_update p f)"
proof (rule keepsI)
  fix d assume "db_inv d"
  then have "db_inv (sessions_update (upd_where p f) d)"
    by (rule db_inv_session_update) (fact assms)+
  then show "wp (update_tbl sessions sessions_update p f) (\<lambda>_. db_inv) (\<lambda>_. db_inv) d"
    by (simp add: wp_simps)
qed

lemma keeps_log_call [keeps_intros]: "keeps db_inv (log_call c)"
  by (rule keepsI) (simp add: wp_simps db_inv_def)

lemma keeps_clock [keeps_intros]: "keeps I clock"
  by (rule keepsI) (simp add: wp_simps)

lemma keeps_request_cleanup [keeps_intros]: "keeps db_inv (q_request_cleanup sid)"
  unfolding q_request_cleanup_def
  by (rule keeps_session_update) (auto simp: row_ok_iff split: if_splits)

lemma keeps_set_attention [keeps_intros]: "keeps db_inv (set_execution_attention sid src det)"
  unfolding set_execution_attention_def q_set_execution_attention_def Let_def
  by (intro keeps_intros keeps_session_update) (auto simp: row_ok_iff)

lemma keeps_clear_attention [keeps_intros]: "keeps db_inv (clear_execution_attention sid src)"
  unfolding clear_execution_attention_def q_clear_execution_attention_def Let_def
  by (intro keeps_intros keeps_session_update) (auto simp: row_ok_iff)

lemma keeps_set_cleanup_attention [keeps_intros]: "keeps db_inv (set_cleanup_attention sid det)"
  unfolding set_cleanup_attention_def q_set_cleanup_attention_def
  by (intro keeps_intros keeps_session_update) (auto simp: row_ok_iff)

lemma keeps_q_get_session [keeps_intros]: "keeps I (q_get_session sid)"
  by (simp add: q_get_session_def keeps_intros)

lemma keeps_store_session [keeps_intros]: "keeps I (store_session sid)"
  by (simp add: store_session_def keeps_intros)

lemma keeps_session_exists [keeps_intros]: "keeps I (session_exists sid)"
  unfolding session_exists_def by (intro keeps_intros)

lemma keeps_current_task [keeps_intros]: "keeps I (q_current_task_for_update sid)"
  by (simp add: q_current_task_for_update_def keeps_intros)

subsection \<open>Attaching a task\<close>

lemma find_task_state_cases:
  assumes "find_task_state d sid = Some c"
  obtains s where "session_of d sid = Some s" "ct_open c = s_open s" "ct_cleanup c = s_cleanup s"
    "ct_sequence c = (case current_task d sid of None \<Rightarrow> 0 | Some t \<Rightarrow> t_sequence t)"
    "ct_id c = (case current_task d sid of None \<Rightarrow> [] | Some t \<Rightarrow> t_id t)"
    "ct_name c = (case current_task d sid of None \<Rightarrow> [] | Some t \<Rightarrow> t_name t)"
  using assms by (auto simp: find_task_state_def split: option.splits)

lemma session_of_row:
  assumes "sessions_ok (sessions d)" and "session_of d sid = Some s" and "q \<in> set (sessions d)"
    and "s_id q = sid"
  shows "q = s"
proof -
  from assms have "row_of s_id (s_id q) (sessions d) = Some q"
    by (auto simp: sessions_ok_def intro: row_of_distinct)
  with assms show ?thesis by (simp add: session_of_def)
qed

lemma session_of_ok: "sessions_ok (sessions d) \<Longrightarrow> session_of d sid = Some s \<Longrightarrow> row_ok s \<and> s_id s = sid"
  by (auto simp: sessions_ok_def row_ok_iff session_of_def dest: row_of_in row_of_key)

lemma new_sequence_above:
  assumes "find_task_state d sid = Some c" and "q \<in> set (tasks d)" and "t_session q = sid"
  shows "t_sequence q < ct_sequence c + 1"
proof -
  from assms(2,3) have q: "q \<in> set (session_tasks d sid)" by (simp add: session_tasks_def)
  then obtain t where t: "current_task d sid = Some t"
    by (cases "current_task d sid") (auto simp: current_task_def)
  with q have "t_sequence q \<le> t_sequence t"
    by (auto simp: current_task_def dest: latest_by_max)
  with t assms(1) show ?thesis by (auto simp: find_task_state_def split: option.splits)
qed

lemma latest_task_add:
  assumes "\<forall>q \<in> set ts. t_session q = t_session r \<longrightarrow> t_sequence q < t_sequence r"
  shows "latest_by t_sequence (filter (\<lambda>t. t_session t = sid) (add_row r ts)) =
    (if sid = t_session r then Some r else latest_by t_sequence (filter (\<lambda>t. t_session t = sid) ts))"
  using assms by (auto simp: add_row_def latest_by_add [unfolded add_row_def])

lemma db_inv_insert_task:
  assumes inv: "db_inv d" and new: "\<not> list_ex (\<lambda>t. t_id t = t_id r) (tasks d)"
    and above: "\<forall>q \<in> set (tasks d). t_session q = t_session r \<longrightarrow> t_sequence q < t_sequence r"
    and pos: "0 < t_sequence r" "\<not> blank_text (t_id r)" "\<not> blank_text (t_name r)"
    and owner: "t_name r = cleanup_task_name \<or>
      (\<forall>s \<in> set (sessions d). s_id s = t_session r \<longrightarrow>
        s_cleanup s \<noteq> CleanupScheduled \<and> s_cleanup s \<noteq> CleanupComplete)"
  shows "db_inv (tasks_update (add_row r) d)"
proof -
  from inv have ts: "tasks_ok (tasks d)" and own: "cleanup_owned (sessions d) (tasks d)"
    by (simp_all add: db_inv_def)
  have "(t_session r, t_sequence r) \<notin> (\<lambda>t. (t_session t, t_sequence t)) ` set (tasks d)"
    using above by auto
  moreover have "t_id r \<notin> t_id ` set (tasks d)"
    using new by (auto simp: list_ex_iff)
  ultimately have "tasks_ok (add_row r (tasks d))"
    using ts pos by (simp add: tasks_ok_def)
  moreover have "cleanup_owned (sessions d) (add_row r (tasks d))"
    using own owner
    by (auto simp: cleanup_owned_def latest_task_add [OF above] cleanup_task_name_def simp del: filter_add_row)
  ultimately show ?thesis using inv by (simp add: db_inv_def)
qed

lemma db_inv_mark_scheduled:
  assumes inv: "db_inv d"
    and cur: "\<exists>t. current_task d sid = Some t \<and> t_name t = cleanup_task_name"
  shows "db_inv (sessions_update (upd_where
      (\<lambda>s. s_id s = sid \<and> (\<not> s_open s \<and> s_cleanup s = CleanupRequested))
      (\<lambda>s. s\<lparr>s_cleanup := CleanupScheduled\<rparr>)) d)"
proof -
  let ?p = "\<lambda>s. s_id s = sid \<and> (\<not> s_open s \<and> s_cleanup s = CleanupRequested)"
  let ?f = "\<lambda>s. s\<lparr>s_cleanup := CleanupScheduled\<rparr>"
  have "sessions_ok (upd_where ?p ?f (sessions d))"
    by (rule sessions_ok_upd) (use inv in \<open>auto simp: db_inv_def sessions_ok_def\<close>)
  moreover have "upgrades_held (upd_where ?p ?f (sessions d)) (sandboxes d) (holds d) (upgrades d)"
    by (rule upgrades_held_upd_session) (use inv in \<open>auto simp: db_inv_def\<close>)
  moreover have "ops_held (upd_where ?p ?f (sessions d)) (sandboxes d) (holds d) (pending_ops (recoveries d) (branches d))"
    by (rule ops_held_upd_session) (use inv in \<open>auto simp: db_inv_def\<close>)
  moreover have "cleanup_owned (upd_where ?p ?f (sessions d)) (tasks d)"
    using inv cur
    by (auto simp: db_inv_def cleanup_owned_def current_task_def session_tasks_def cleanup_task_name_def)
  ultimately show ?thesis using inv by (simp add: db_inv_def)
qed

lemma current_task_add:
  assumes "\<forall>q \<in> set (tasks d). t_session q = t_session r \<longrightarrow> t_sequence q < t_sequence r"
  shows "current_task (tasks_update (add_row r) d) (t_session r) = Some r"
  using latest_task_add [OF assms, of "t_session r"]
  by (simp add: current_task_def session_tasks_def del: filter_add_row)

lemma current_task_sessions [simp]: "current_task (sessions_update f d) sid = current_task d sid"
  by (simp add: current_task_def session_tasks_def)

definition attach_post :: "db \<Rightarrow> string \<Rightarrow> task_state \<Rightarrow> string \<Rightarrow> string \<Rightarrow> bool \<Rightarrow> db \<Rightarrow> bool" where
  \<comment> \<open>the state between the insertion of the task row and the scheduling of cleanup\<close>
  "attach_post d sid c tid name cleanup e =
    (db_inv e \<and> sessions e = sessions d \<and> (cleanup \<longrightarrow> name = cleanup_task_name) \<and>
     (tid \<noteq> [] \<or> cleanup \<longrightarrow> (\<exists>t. current_task e sid = Some t \<and> t_id t = tid \<and> t_name t = name)))"

lemma attach_inserts:
  assumes inv: "db_inv d" and c: "find_task_state d sid = Some c"
    and nm: "cleanup \<longrightarrow> name = cleanup_task_name"
    and v: "validate_task_attachment_state c sid tid cleanup = None"
  shows "wp (if ct_id c = tid then
         require (ct_name c = name) (Errorf ''task is already attached under another name'')
       else
         seq (require (ct_id c = expected) (Errorf ''current task is not the expected predecessor''))
        (bnd (q_insert_session_task sid (ct_sequence c + 1) tid name) (\<lambda>n.
         require (n = 1) (Errorf ''task is already attached to another Session''))))
    (\<lambda>_. attach_post d sid c tid name cleanup) (\<lambda>_. db_inv) d"
proof (cases "ct_id c = tid")
  case True
  have "ct_name c = name \<Longrightarrow> attach_post d sid c tid name cleanup d"
    using inv nm True c
    by (auto simp: attach_post_def find_task_state_def cleanup_task_name_def split: option.splits)
  with True inv show ?thesis by (simp add: wp_simps)
next
  case False
  let ?r = "\<lparr>t_session = sid, t_sequence = ct_sequence c + 1, t_id = tid, t_name = name\<rparr>"
  have above: "\<forall>q \<in> set (tasks d). t_session q = t_session ?r \<longrightarrow> t_sequence q < t_sequence ?r"
    using new_sequence_above [OF c] by simp
  have owner: "t_name ?r = cleanup_task_name \<or>
      (\<forall>s \<in> set (sessions d). s_id s = t_session ?r \<longrightarrow>
        s_cleanup s \<noteq> CleanupScheduled \<and> s_cleanup s \<noteq> CleanupComplete)"
  proof (cases cleanup)
    case True with nm show ?thesis by simp
  next
    case no: False
    obtain s where s: "session_of d sid = Some s" "ct_cleanup c = s_cleanup s"
      using c by (rule find_task_state_cases)
    from no v have pend: "ct_cleanup c = CleanupPending"
      by (simp add: validate_task_attachment_state_def split: if_splits)
    have "sessions_ok (sessions d)" using inv by (simp add: db_inv_def)
    then have "q = s" if "q \<in> set (sessions d)" "s_id q = sid" for q
      using s(1) that by (rule session_of_row)
    with s(2) pend show ?thesis by auto
  qed
  have post: "attach_post d sid c tid name cleanup (tasks_update (add_row ?r) d)"
    if "\<not> list_ex (\<lambda>t. t_id t = tid) (tasks d)" "0 < ct_sequence c + 1" "\<not> blank_text tid" "\<not> blank_text name"
  proof -
    have "db_inv (tasks_update (add_row ?r) d)"
      by (rule db_inv_insert_task [OF inv _ above _ _ _ owner]) (use that in simp_all)
    moreover have "current_task (tasks_update (add_row ?r) d) sid = Some ?r"
      using current_task_add [OF above] by simp
    ultimately show ?thesis using nm by (simp add: attach_post_def)
  qed
  have ins: "wp (q_insert_session_task sid (ct_sequence c + 1) tid name)
      (\<lambda>n e. n = 1 \<longrightarrow> attach_post d sid c tid name cleanup e) (\<lambda>_. db_inv) d"
    using inv post by (simp add: wp_def q_insert_session_task_def)
  have any: "wp (q_insert_session_task sid (ct_sequence c + 1) tid name)
      (\<lambda>n e. n \<noteq> 1 \<longrightarrow> db_inv e) (\<lambda>_. db_inv) d"
    using inv by (simp add: wp_def q_insert_session_task_def)
  have "wp (q_insert_session_task sid (ct_sequence c + 1) tid name)
      (\<lambda>n e. (n = 1 \<longrightarrow> attach_post d sid c tid name cleanup e) \<and> (n \<noteq> 1 \<longrightarrow> db_inv e))
      (\<lambda>_ e. db_inv e \<and> db_inv e) d"
    unfolding wp_conj using ins any by blast
  with False inv show ?thesis
    by (simp add: wp_if wp_seq wp_require wp_bnd)
qed

lemma keeps_attach_session_task:
  assumes nm: "cleanup \<longrightarrow> name = cleanup_task_name"
  shows "keeps db_inv (attach_session_task sid expected tid name cleanup)"
proof (rule keepsI)
  fix d assume inv: "db_inv d"
  show "wp (attach_session_task sid expected tid name cleanup) (\<lambda>_. db_inv) (\<lambda>_. db_inv) d"
  proof (cases "find_task_state d sid")
    case None
    with inv show ?thesis by (simp add: attach_session_task_def q_current_task_for_update_def wp_simps)
  next
    case (Some c)
    show ?thesis
    proof (cases "validate_task_attachment_state c sid tid cleanup")
      case v: None
      have mark: "wp (if cleanup \<and> ct_cleanup c = CleanupRequested then
         bnd (q_mark_cleanup_scheduled sid) (\<lambda>n.
         require (n = 1) (Errorf ''cleanup scheduling did not settle''))
       else ret ()) (\<lambda>_. db_inv) (\<lambda>_. db_inv) e"
        if "attach_post d sid c tid name cleanup e" for e
        using that db_inv_mark_scheduled [of e sid]
        by (auto simp: wp_simps q_mark_cleanup_scheduled_def attach_post_def)
      show ?thesis using Some v
        by (simp add: attach_session_task_def q_current_task_for_update_def wp_gets wp_bnd wp_the_row wp_seq
              split del: if_split)
           (rule wp_mono [OF attach_inserts [OF inv Some nm v]], erule mark, assumption)
    qed (use Some inv in \<open>simp add: attach_session_task_def q_current_task_for_update_def wp_simps\<close>)
  qed
qed

lemma keeps_attach_ordinary [keeps_intros]: "keeps db_inv (attach_session_task sid expected tid name False)"
  by (rule keeps_attach_session_task) simp

lemma keeps_attach_cleanup [keeps_intros]:
  "keeps db_inv (attach_session_task sid expected tid cleanup_task_name True)"
  by (rule keeps_attach_session_task) simp

lemma keeps_spawn [keeps_intros]: "keeps db_inv (spawn_session_task env qn sid name key)"
  unfolding spawn_session_task_def by (intro keeps_intros)

lemma keeps_schedule_session_task [keeps_intros]: "keeps db_inv (schedule_session_task env qn sid name key)"
  unfolding schedule_session_task_def by (intro keeps_intros)

lemma keeps_schedule_cleanup [keeps_intros]: "keeps db_inv (schedule_cleanup env qn sid caller)"
  unfolding schedule_cleanup_def by (intro keeps_intros)

subsection \<open>Wakes and retries\<close>

lemma db_inv_wakes_iff:
  "db_inv d \<Longrightarrow> wakes_ok (f (wakes d)) (g (causes d)) \<Longrightarrow> db_inv (causes_update g (wakes_update f d))"
  by (simp add: db_inv_def)

lemma keeps_ensure_wake [keeps_intros]: "keeps db_inv (q_ensure_wake sid)"
proof (rule keepsI)
  fix d assume inv: "db_inv d"
  have "wakes_ok (add_row \<lparr>w_session = sid, w_revision = 0\<rparr> (wakes d)) (causes d)"
    if "\<not> list_ex (\<lambda>w. w_session w = sid) (wakes d)"
    using inv that by (auto simp: db_inv_def wakes_ok_def list_ex_iff max_int64_def)
  then show "wp (q_ensure_wake sid) (\<lambda>_. db_inv) (\<lambda>_. db_inv) d"
    using inv by (simp add: wp_def q_ensure_wake_def db_inv_def)
qed

text \<open>The statements of a new wake revision: the revision advances, the cause is recorded.\<close>

lemma wakes_ok_advance:
  assumes ok: "wakes_ok ws ks" and cur: "row_of w_session sid ws = Some w"
    and room: "w_revision w \<noteq> max_int64"
  shows "wakes_ok (upd_where (\<lambda>w. w_session w = sid) (\<lambda>v. v\<lparr>w_revision := w_revision w + 1\<rparr>) ws) ks"
proof -
  have w: "w \<in> set ws" "w_session w = sid" using cur by (auto dest: row_of_in row_of_key)
  have one: "v = w" if "v \<in> set ws" "w_session v = sid" for v
    using ok cur that row_of_distinct [of w_session ws v] by (auto simp: wakes_ok_def)
  have "0 \<le> w_revision w + 1 \<and> w_revision w + 1 \<le> max_int64"
    using ok w room by (force simp: wakes_ok_def)
  then show ?thesis
    using ok one by (fastforce simp: wakes_ok_def map_upd_where)
qed

lemma wakes_ok_record:
  assumes ok: "wakes_ok ws ks" and w: "w \<in> set ws" "w_session w = k_session k" "k_revision k \<le> w_revision w"
    and new: "\<not> list_ex (\<lambda>q. k_session q = k_session k \<and> k_cause q = k_cause k) ks"
      "\<not> list_ex (\<lambda>q. k_session q = k_session k \<and> k_revision q = k_revision k) ks"
    and pos: "0 < k_revision k"
  shows "wakes_ok ws (add_row k ks)"
  using assms by (auto simp: wakes_ok_def list_ex_iff)

lemma first_violation_None:
  "first_violation xs = None \<longleftrightarrow> (\<forall>(b, e) \<in> set xs. \<not> b)"
  by (induction xs rule: first_violation.induct) auto

lemma wake_advance_keeps:
  assumes inv: "db_inv d" and cur: "row_of w_session sid (wakes d) = Some w"
  shows "wp (wake_advance sid cause (w_revision w)) (\<lambda>_. db_inv) (\<lambda>_. db_inv) d"
proof (cases "w_revision w = max_int64")
  case True
  with inv show ?thesis by (simp add: wake_advance_def wp_simps)
next
  case False
  let ?f = "\<lambda>v. v\<lparr>w_revision := w_revision w + 1\<rparr>"
  let ?ws = "upd_where (\<lambda>w. w_session w = sid) ?f (wakes d)"
  let ?k = "\<lparr>k_session = sid, k_cause = cause, k_revision = w_revision w + 1\<rparr>"
  have ok: "wakes_ok ?ws (causes d)"
    using inv cur False by (auto simp: db_inv_def intro: wakes_ok_advance)
  then have inv': "db_inv (wakes_update (upd_where (\<lambda>w. w_session w = sid) ?f) d)"
    using inv by (simp add: db_inv_def)
  have w: "?f w \<in> set ?ws" using cur by (auto simp: set_upd_where dest: row_of_in row_of_key)
  have "wakes_ok ?ws (add_row ?k (causes d))"
    if "\<not> list_ex (\<lambda>k. k_session k = sid \<and> k_cause k = cause) (causes d)"
       "\<not> list_ex (\<lambda>k. k_session k = sid \<and> k_revision k = w_revision w + 1) (causes d)"
       "0 < w_revision w + 1"
    by (rule wakes_ok_record [OF ok w]) (use that cur row_of_key [OF cur] in simp_all)
  then have "db_inv (causes_update (add_row ?k) (wakes_update (upd_where (\<lambda>w. w_session w = sid) ?f) d))"
    if "\<not> list_ex (\<lambda>k. k_session k = sid \<and> k_cause k = cause) (causes d)"
       "\<not> list_ex (\<lambda>k. k_session k = sid \<and> k_revision k = w_revision w + 1) (causes d)"
       "0 < w_revision w + 1"
    using inv' that by (simp add: db_inv_def)
  with inv' False show ?thesis
    by (simp add: wake_advance_def wp_simps q_set_wake_revision_def q_insert_wake_cause_def
        first_violation_None split: option.split)
qed

text \<open>The revision of a signal is chosen under the row lock of the Session's wake.\<close>

lemma signal_wake_locked:
  "signal_session_wake env qn sid cause =
    seq (q_ensure_wake sid) (bnd (bnd (q_lock_wake sid) (\<lambda>cur.
     bnd (attempt (q_wake_cause sid cause)) (\<lambda>r. case r of
          Inr old \<Rightarrow> ret old
        | Inl e \<Rightarrow> if err_is e ErrNoRows then wake_advance sid cause cur else fail e))) (\<lambda>rev_no.
    seq (log_call (EmitWake qn sid rev_no cause))
   (seq (lift (emit_event env qn (session_execution_wake_event sid rev_no) cause))
   (ret rev_no))))"
  by (simp add: signal_session_wake_def bnd_assoc)

lemma keeps_signal_session_wake [keeps_intros]: "keeps db_inv (signal_session_wake env qn sid cause)"
proof -
  have step: "keeps db_inv (bnd (q_lock_wake sid) (\<lambda>cur.
     bnd (attempt (q_wake_cause sid cause)) (\<lambda>r. case r of
          Inr old \<Rightarrow> ret old
        | Inl e \<Rightarrow> if err_is e ErrNoRows then wake_advance sid cause cur else fail e)))"
    by (rule keepsI)
      (auto simp: wp_simps q_lock_wake_def q_wake_cause_def wake_advance_keeps split: option.split)
  show ?thesis unfolding signal_wake_locked by (intro keeps_intros step)
qed

lemma keeps_signal_native_terminal_wake [keeps_intros]: "keeps db_inv (signal_native_terminal_wake env qn g)"
  unfolding signal_native_terminal_wake_def q_native_wake_binding_def by (intro keeps_intros)

lemma keeps_retry_failed_session [keeps_intros]: "keeps db_inv (retry_failed_session env qn sid key)"
proof -
  have "keeps db_inv (q_insert_retry k s t r n)" for k s t r n
  proof (rule keepsI)
    fix d assume "db_inv d"
    then show "wp (q_insert_retry k s t r n) (\<lambda>_. db_inv) (\<lambda>_. db_inv) d"
      by (auto simp: q_insert_retry_def wp_simps first_violation_None db_inv_def retries_ok_def list_ex_iff
          split: option.split)
  qed
  then show ?thesis
    unfolding retry_failed_session_def q_get_retry_def Let_def
    by (intro keeps_intros)
qed

end
