(* ===== verification/Postgres_Admission.thy ===== *)
theory Postgres_Admission
  imports Postgres_Sessions
begin

text \<open>
  Session admission (\<open>session_admission.go\<close>, \<open>direct.go\<close>, \<open>session_list.go\<close>): normalising
  the input, locking the verified profile revision, inserting the Session with its reserved
  Sandbox and first task in one transaction, and replaying an admission key.
\<close>

record session_admission =
  ad_keep_running :: bool
  ad_created_by :: string
  ad_client_reference :: string
  ad_key :: string
  ad_agents_md :: string
  ad_profile :: string
  ad_connection :: string
  ad_model :: string
  ad_effort :: string

definition valid_effort :: "string \<Rightarrow> bool" where
  "valid_effort e = (e = ''low'' \<or> e = ''medium'' \<or> e = ''high'' \<or> e = ''xhigh'')"

definition normalize_core_admission :: "session_admission \<Rightarrow> err + session_admission" where
  "normalize_core_admission i =
    (let n = i\<lparr>ad_key := trim_space (ad_key i), ad_profile := trim_space (ad_profile i),
               ad_connection := trim_space (ad_connection i), ad_model := trim_space (ad_model i),
               ad_effort := trim_space (ad_effort i)\<rparr> in
     if \<not> valid_client_reference (ad_client_reference n) then Inl (Errorf ''invalid client reference'')
     else if ad_key n = [] \<or> ad_profile n = [] \<or> ad_connection n = [] \<or> ad_model n = [] then
       Inl (Errorf ''admission requires key, Sandbox profile, AI connection, model'')
     else if \<not> valid_effort (ad_effort n) then
       Inl (Errorf ''reasoning effort must be low, medium, high, or xhigh'')
     else Inr n)"

section \<open>Statements\<close>

definition q_get_admitted :: "string \<Rightarrow> (db, session_row) act" where
  "q_get_admitted key =
    bnd (gets (\<lambda>d. row_of s_admission_key key (sessions d))) (\<lambda>r. the_row r (Sentinel ErrNoRows))"

definition q_insert_admitted_session :: "string \<Rightarrow> string \<Rightarrow> session_admission \<Rightarrow> (db, nat) act" where
  "q_insert_admitted_session sid revision i = (\<lambda>d.
    if \<not> list_all valid_text [sid, ad_key i, ad_agents_md i, ad_created_by i, ad_client_reference i,
          ad_connection i, ad_model i] then (Inl text_error, d)
    else if blank_text (ad_connection i) \<or> blank_text (ad_model i) \<or> \<not> valid_effort (ad_effort i) then
      (Inl (check_violation ''sessions_check''), d)
    else if list_ex (\<lambda>s. s_id s = sid \<or> s_admission_key s = ad_key i) (sessions d) then (Inr 0, d)
    else if revision_of d (ad_profile i) revision = None then
      (Inl (foreign_key_violation ''sessions_sandbox_profile''), d)
    else if ad_created_by i \<noteq> [] \<and> row_of cl_id (ad_created_by i) (clients d) = None then
      (Inl (foreign_key_violation ''sessions_created_by_client''), d)
    else (Inr 1, sessions_update (add_row
      \<lparr>s_id = sid, s_admission_key = ad_key i, s_agents_md = ad_agents_md i,
       s_created_by = nullif_empty (ad_created_by i), s_client_reference = ad_client_reference i,
       s_profile = ad_profile i, s_profile_revision = revision, s_connection = ad_connection i,
       s_model = ad_model i, s_effort = ad_effort i, s_keep_running = ad_keep_running i,
       s_open = True, s_cleanup = CleanupPending, s_attention = None, s_attention_source = None,
       s_attention_at = None, s_cleanup_attention = None, s_admitted_at = now d, s_cleaned_at = None,
       s_last_active = Some (now d), s_thread = None, s_revision = 0, s_pending_input = None,
       s_pending_turn = None\<rparr>) d))"

definition initial_resource_id :: "string \<Rightarrow> string" where
  "initial_resource_id bid = bid @ '':initial''"

definition q_reserve_sandbox :: "string \<Rightarrow> string \<Rightarrow> string \<Rightarrow> string \<Rightarrow> (db, nat) act" where
  "q_reserve_sandbox bid sid name nonce = (\<lambda>d.
    if list_ex (\<lambda>b. b_id b = bid \<or> (b_session b = sid \<and> b_name b = name)) (sandboxes d) then (Inr 0, d)
    else if \<not> hex64 nonce then (Inl (check_violation ''ownership_nonce''), d)
    else if list_ex (\<lambda>r. r_id r = initial_resource_id bid \<or> r_nonce r = nonce) (resources d) then
      (Inl (unique_violation ''sandbox_resources''), d)
    else if session_of d sid = None then (Inl (foreign_key_violation ''sandboxes_session''), d)
    else (Inr 1,
      resources_update (add_row \<lparr>r_id = initial_resource_id bid, r_sandbox = bid, r_nonce = nonce,
        r_provider = None, r_reserved = now d, r_observed = None, r_deleted = None\<rparr>)
     (sandboxes_update (add_row \<lparr>b_id = bid, b_session = sid, b_name = name,
        b_active = initial_resource_id bid\<rparr>) d)))"

definition sandbox_value :: "sandbox_row \<Rightarrow> resource_row \<Rightarrow> sandbox" where
  "sandbox_value b r =
    \<lparr>sb_id = b_id b, sb_session_id = b_session b, sb_name = b_name b,
     sb_ownership_nonce = r_nonce r, sb_resource_id = r_id r, sb_provider_id = text_of (r_provider r)\<rparr>"

definition find_sandbox :: "db \<Rightarrow> string \<Rightarrow> sandbox option" where
  "find_sandbox d bid =
    (case sandbox_of d bid of None \<Rightarrow> None
     | Some b \<Rightarrow> map_option (sandbox_value b) (resource_of d (b_active b)))"

lemma find_sandbox_cong:
  "sandboxes e = sandboxes d \<Longrightarrow> resources e = resources d \<Longrightarrow> find_sandbox e = find_sandbox d"
  by (rule ext) (simp add: find_sandbox_def sandbox_of_def resource_of_def split: option.split)

definition q_get_sandbox :: "string \<Rightarrow> (db, sandbox) act" where
  "q_get_sandbox bid = bnd (gets (\<lambda>d. find_sandbox d bid)) (\<lambda>r. the_row r (Sentinel ErrNoRows))"

definition q_lock_profile_name :: "string \<Rightarrow> (db, string) act" where
  "q_lock_profile_name name =
    bnd (gets (\<lambda>d. row_of pn_name name (profile_names d))) (\<lambda>r.
    bnd (the_row r (Sentinel ErrNoRows)) (\<lambda>p. ret (pn_name p)))"

definition verification_settled :: "string \<Rightarrow> verification_row \<Rightarrow> bool" where
  "verification_settled contract v =
    (vr_contract v = contract \<and> vr_probed v \<noteq> None \<and> vr_cleaned v \<noteq> None \<and> vr_error v = None)"

definition q_lock_verified_profile :: "string \<Rightarrow> string \<Rightarrow> (db, string) act" where
  "q_lock_verified_profile name contract =
    bnd (gets (\<lambda>d. case row_of pn_name name (profile_names d) of None \<Rightarrow> None
      | Some p \<Rightarrow> find (\<lambda>v. vr_profile v = name \<and> pn_active p = Some (vr_hash v) \<and>
                          verification_settled contract v) (verifications d))) (\<lambda>r.
    bnd (the_row r (Sentinel ErrNoRows)) (\<lambda>v. ret (vr_hash v)))"

section \<open>Admission\<close>

definition lock_admission_profile_revision :: "string \<Rightarrow> (db, string) act" where
  "lock_admission_profile_revision name =
    no_rows_as (Errorf ''Sandbox profile has not completed verification and cleanup'')
     (seq (q_lock_profile_name name) (q_lock_verified_profile name base_profile_contract))"

definition reserve_admitted_sandbox :: "err + string \<Rightarrow> string \<Rightarrow> string \<Rightarrow> (db, unit) act" where
  "reserve_admitted_sandbox nonce sid bid =
    bnd (lift nonce) (\<lambda>owner.
    bnd (attempt (expect_one_rows (q_reserve_sandbox bid sid default_sandbox owner))) (\<lambda>r. case r of
        Inr _ \<Rightarrow> ret ()
      | Inl e \<Rightarrow>
          bnd (attempt (q_get_sandbox bid)) (\<lambda>g. case g of
              Inl _ \<Rightarrow> fail e
            | Inr b \<Rightarrow>
                require (sb_id b = bid \<and> sb_session_id b = sid \<and> sb_name b = default_sandbox \<and>
                         hex64 (sb_ownership_nonce b))
                  (Errorf ''default Sandbox conflicts with its exact owned identity''))))"

definition stored_admission :: "session_row \<Rightarrow> session_admission" where
  "stored_admission s =
    \<lparr>ad_keep_running = s_keep_running s, ad_created_by = [], ad_client_reference = s_client_reference s,
     ad_key = s_admission_key s, ad_agents_md = s_agents_md s, ad_profile = s_profile s,
     ad_connection = s_connection s, ad_model = s_model s, ad_effort = s_effort s\<rparr>"

definition find_or_insert_admission :: "session_admission \<Rightarrow> (db, session_row \<times> nat) act" where
  "find_or_insert_admission i =
    bnd (attempt (q_get_admitted (ad_key i))) (\<lambda>r. case r of
        Inr s \<Rightarrow> ret (s, 0)
      | Inl e \<Rightarrow>
          if err_is e ErrNoRows then
            bnd (lock_admission_profile_revision (ad_profile i)) (\<lambda>revision.
            bnd (q_insert_admitted_session (session_id (ad_key i)) revision i) (\<lambda>n.
            bnd (q_get_admitted (ad_key i)) (\<lambda>s. ret (s, n))))
          else fail e)"

definition admission_tx ::
  "absurd_env \<Rightarrow> err + string \<Rightarrow> string \<Rightarrow> string \<Rightarrow> (string \<Rightarrow> string) \<Rightarrow> session_admission \<Rightarrow> (db, string \<times> nat) act" where
  "admission_tx env nonce qn task_name task_key i =
    tx (bnd (find_or_insert_admission i) (\<lambda>(s, n).
         seq (require (stored_admission s = i\<lparr>ad_created_by := []\<rparr>) (Wrapf (ad_key i) (Sentinel ErrAdmissionConflict)))
        (seq (reserve_admitted_sandbox nonce (s_id s) (main_sandbox_name (s_id s)))
        (seq (schedule_session_task env qn (s_id s) task_name (task_key (s_id s)))
        (ret (s_id s, n))))))"

definition admit_session ::
  "absurd_env \<Rightarrow> err + string \<Rightarrow> string \<Rightarrow> string \<Rightarrow> (string \<Rightarrow> string) \<Rightarrow> session_admission \<Rightarrow> (db, session \<times> bool) act" where
  "admit_session env nonce qn task_name task_key i =
    bnd (admission_tx env nonce qn task_name task_key i) (\<lambda>(sid, n).
    bnd (store_session sid) (\<lambda>j. ret (j, n = 1)))"

definition direct_task_name :: string where
  "direct_task_name = ''dorf-direct-session-v1''"

definition direct_task_key :: "string \<Rightarrow> string" where
  "direct_task_key sid = ''direct-session:v1:'' @ sid"

definition admit_direct ::
  "absurd_env \<Rightarrow> err + string \<Rightarrow> string \<Rightarrow> session_admission \<Rightarrow> (db, session \<times> bool) act" where
  "admit_direct env nonce qn input =
    bnd (lift (normalize_core_admission input)) (\<lambda>i.
    bnd (attempt (admit_session env nonce qn direct_task_name direct_task_key i)) (\<lambda>r. case r of
        Inr x \<Rightarrow> ret x
      | Inl e \<Rightarrow> fail (if err_is e ErrAdmissionConflict then Join (Sentinel ErrDirectAdmissionConflict) e else e)))"

section \<open>Listing Sessions\<close>

record listed_session =
  ls_created_by :: string
  ls_client_reference :: string
  ls_id :: string
  ls_admitted_at :: time

definition session_position :: "session_row \<Rightarrow> nat \<times> string" where
  "session_position s = (s_admitted_at s, s_id s)"

definition q_list_sessions :: "(nat \<times> string) option \<Rightarrow> nat \<Rightarrow> (db, session_row list) act" where
  \<comment> \<open>the timestamps of the rows are compared first, then the identities\<close>
  "q_list_sessions cursor limit = gets (\<lambda>d.
    take limit (rev (sort_key session_position
      (filter (\<lambda>s. revision_of d (s_profile s) (s_profile_revision s) \<noteq> None \<and>
                (case cursor of None \<Rightarrow> True | Some c \<Rightarrow> session_position s < c)) (sessions d)))))"

definition list_sessions :: "int \<Rightarrow> time option \<Rightarrow> string \<Rightarrow> (db, listed_session list) act" where
  "list_sessions limit cursor_at cursor_id =
    seq (require (1 \<le> limit \<and> limit \<le> 101) (Errorf ''Session list limit must be between 1 and 101''))
   (seq (require ((cursor_id = []) = (cursor_at = None))
          (Errorf ''Session list cursor requires both admitted time and Session ID''))
   (bnd (q_list_sessions (map_option (\<lambda>t. (t, cursor_id)) cursor_at) (nat limit)) (\<lambda>rows.
    ret (map (\<lambda>s. \<lparr>ls_created_by = text_of (s_created_by s), ls_client_reference = s_client_reference s,
                    ls_id = s_id s, ls_admitted_at = s_admitted_at s\<rparr>) rows))))"

section \<open>Admission preserves the invariants\<close>

lemma sessions_ok_add:
  assumes "sessions_ok ss" and "\<not> list_ex (\<lambda>s. s_id s = s_id r \<or> s_admission_key s = s_admission_key r) ss"
    and "row_ok r"
  shows "sessions_ok (add_row r ss)"
  using assms by (auto simp: sessions_ok_def row_ok_iff list_ex_iff)

lemma db_inv_add_session:
  assumes inv: "db_inv d" and new: "\<not> list_ex (\<lambda>s. s_id s = s_id r \<or> s_admission_key s = s_admission_key r) (sessions d)"
    and r: "row_ok r" "s_cleanup r = CleanupPending"
  shows "db_inv (sessions_update (add_row r) d)"
proof -
  have "upgrades_held (sessions d) (sandboxes d) (holds d) (upgrades d)"
    using inv by (simp add: db_inv_def)
  then have "upgrades_held (add_row r (sessions d)) (sandboxes d) (holds d) (upgrades d)"
    by (rule upgrades_held_mono) auto
  moreover have "ops_held (add_row r (sessions d)) (sandboxes d) (holds d) (pending_ops (recoveries d) (branches d))"
    by (rule ops_held_mono [where ss = "sessions d" and bs = "sandboxes d" and hs = "holds d"])
      (use inv in \<open>auto simp: db_inv_def\<close>)
  moreover have "cleanup_owned (add_row r (sessions d)) (tasks d)"
    using inv r by (simp add: db_inv_def cleanup_owned_def)
  ultimately show ?thesis
    using inv sessions_ok_add [OF _ new r(1)] by (simp add: db_inv_def)
qed

lemma keeps_insert_admitted_session [keeps_intros]: "keeps db_inv (q_insert_admitted_session sid revision i)"
  by (rule keepsI) (auto simp: wp_def q_insert_admitted_session_def row_ok_iff max_int64_def
      intro!: db_inv_add_session)

lemma resources_ok_add:
  assumes "resources_ok bs rs"
    and "\<not> list_ex (\<lambda>x. b_id x = b_id b) bs" and "\<not> list_ex (\<lambda>x. r_id x = r_id r) rs"
    and "r_sandbox r = b_id b" and "b_active b = r_id r" and "r_provider r = None" and "r_observed r = None"
    and "r_id r \<noteq> []"
  shows "resources_ok (add_row b bs) (add_row r rs)"
  using assms by (auto simp: resources_ok_def list_ex_iff)

lemma db_inv_add_sandbox:
  assumes inv: "db_inv d"
    and new: "\<not> list_ex (\<lambda>x. b_id x = b_id b) (sandboxes d)" "\<not> list_ex (\<lambda>x. r_id x = r_id r) (resources d)"
    and r: "r_sandbox r = b_id b" "b_active b = r_id r" "r_provider r = None" "r_observed r = None" "r_id r \<noteq> []"
  shows "db_inv (resources_update (add_row r) (sandboxes_update (add_row b) d))"
proof -
  have "upgrades_held (sessions d) (sandboxes d) (holds d) (upgrades d)" and
    res: "resources_ok (sandboxes d) (resources d)"
    using inv by (simp_all add: db_inv_def)
  from this(1) have "upgrades_held (sessions d) (add_row b (sandboxes d)) (holds d) (upgrades d)"
    by (rule upgrades_held_mono) auto
  moreover have "ops_held (sessions d) (add_row b (sandboxes d)) (holds d) (pending_ops (recoveries d) (branches d))"
    by (rule ops_held_mono [where ss = "sessions d" and bs = "sandboxes d" and hs = "holds d"])
      (use inv in \<open>auto simp: db_inv_def\<close>)
  moreover have "resources_ok (add_row b (sandboxes d)) (add_row r (resources d))"
    by (rule resources_ok_add [OF res new r])
  ultimately show ?thesis using inv by (simp add: db_inv_def)
qed

lemma keeps_reserve_sandbox [keeps_intros]: "keeps db_inv (q_reserve_sandbox bid sid name nonce)"
  by (rule keepsI)
    (auto simp: wp_def q_reserve_sandbox_def list_ex_iff initial_resource_id_def intro!: db_inv_add_sandbox)

lemma keeps_get_sandbox [keeps_intros]: "keeps I (q_get_sandbox bid)"
  by (simp add: q_get_sandbox_def keeps_intros)

lemma keeps_admit_session [keeps_intros]: "keeps db_inv (admit_session env nonce qn tn tk i)"
  unfolding admit_session_def admission_tx_def find_or_insert_admission_def q_get_admitted_def
    lock_admission_profile_revision_def q_lock_profile_name_def q_lock_verified_profile_def
    reserve_admitted_sandbox_def
  by (intro keeps_intros)

lemma keeps_admit_direct [keeps_intros]: "keeps db_inv (admit_direct env nonce qn i)"
  unfolding admit_direct_def by (intro keeps_intros)

section \<open>What an admission leaves behind\<close>

lemma wp_reserve_frame:
  "wp (q_reserve_sandbox bid sid name nonce)
    (\<lambda>n e. sessions e = sessions d \<and> tasks e = tasks d \<and> revisions e = revisions d \<and> queue e = queue d \<and>
      (n = 0 \<longrightarrow> e = d) \<and>
      (n \<noteq> 0 \<longrightarrow> (\<exists>b. find_sandbox e bid = Some b \<and> sb_id b = bid \<and> sb_session_id b = sid \<and> sb_name b = name \<and>
        hex64 (sb_ownership_nonce b))))
    (\<lambda>_ e. e = d) d"
proof -
  let ?b = "\<lparr>b_id = bid, b_session = sid, b_name = name, b_active = initial_resource_id bid\<rparr>"
  let ?r = "\<lparr>r_id = initial_resource_id bid, r_sandbox = bid, r_nonce = nonce, r_provider = None,
    r_reserved = now d, r_observed = None, r_deleted = None\<rparr>"
  let ?e = "resources_update (add_row ?r) (sandboxes_update (add_row ?b) d)"
  have "find_sandbox ?e bid = Some (sandbox_value ?b ?r)"
    if "\<not> list_ex (\<lambda>b. b_id b = bid \<or> (b_session b = sid \<and> b_name b = name)) (sandboxes d)"
       "\<not> list_ex (\<lambda>r. r_id r = initial_resource_id bid \<or> r_nonce r = nonce) (resources d)"
  proof -
    have "row_of b_id bid (sandboxes d) = None" and "row_of r_id (initial_resource_id bid) (resources d) = None"
      using that by (auto simp: row_of_None list_ex_iff)
    then show ?thesis by (simp add: find_sandbox_def sandbox_of_def resource_of_def row_of_add)
  qed
  then show ?thesis
    by (simp add: wp_def q_reserve_sandbox_def sandbox_value_def)
qed

definition owned_default :: "db \<Rightarrow> string \<Rightarrow> string \<Rightarrow> bool" where
  "owned_default d bid sid =
    (\<exists>b. find_sandbox d bid = Some b \<and> sb_id b = bid \<and> sb_session_id b = sid \<and> sb_name b = default_sandbox \<and>
       hex64 (sb_ownership_nonce b))"

lemma reserve_post:
  "wp (reserve_admitted_sandbox nonce sid bid)
    (\<lambda>_ e. sessions e = sessions d \<and> tasks e = tasks d \<and> revisions e = revisions d \<and> queue e = queue d \<and>
       owned_default e bid sid) (\<lambda>_ _. True) d"
proof (cases nonce)
  case (Inr owner)
  show ?thesis
    unfolding reserve_admitted_sandbox_def Inr
    apply (simp add: wp_simps)
    apply (rule wp_mono [OF wp_reserve_frame [of bid sid default_sandbox owner d]])
     apply (auto simp: q_get_sandbox_def wp_simps owned_default_def split: option.split)
    done
qed (simp add: reserve_admitted_sandbox_def wp_simps)

lemma reserve_replay:
  assumes "owned_default d bid sid"
  shows "reserve_admitted_sandbox (Inr owner) sid bid d = (Inr (), d)"
proof -
  obtain b where b: "find_sandbox d bid = Some b" "sb_id b = bid" "sb_session_id b = sid"
    "sb_name b = default_sandbox" "hex64 (sb_ownership_nonce b)"
    using assms by (auto simp: owned_default_def)
  then obtain r where "r \<in> set (sandboxes d)" "b_id r = bid"
    by (auto simp: find_sandbox_def sandbox_of_def split: option.splits dest: row_of_in row_of_key)
  then have "list_ex (\<lambda>b. b_id b = bid \<or> (b_session b = sid \<and> b_name b = default_sandbox)) (sandboxes d)"
    by (auto simp: list_ex_iff)
  with b show ?thesis
    by (simp add: reserve_admitted_sandbox_def lift_def bnd_def ret_def attempt_def expect_one_rows_def
        q_reserve_sandbox_def q_get_sandbox_def require_def fail_def gets_def the_row_def)
qed

definition handed_off :: "db \<Rightarrow> string \<Rightarrow> bool" where
  "handed_off d sid = (\<exists>c. find_task_state d sid = Some c \<and> (ct_id c \<noteq> [] \<or> \<not> ct_open c))"

lemma blank_Nil [simp]: "blank_text []"
  by (simp add: blank_text_def)

lemma attach_ordinary_post:
  assumes c: "find_task_state d sid = Some c"
  shows "wp (attach_session_task sid (ct_id c) tid name False)
    (\<lambda>_ e. sessions e = sessions d \<and> sandboxes e = sandboxes d \<and> resources e = resources d \<and>
      revisions e = revisions d \<and> (tid \<noteq> [] \<longrightarrow> handed_off e sid) \<and> (ct_id c = [] \<longrightarrow> e = d \<or> tid \<noteq> []))
    (\<lambda>_ _. True) d"
proof -
  let ?r = "\<lparr>t_session = sid, t_sequence = ct_sequence c + 1, t_id = tid, t_name = name\<rparr>"
  let ?e = "tasks_update (add_row ?r) d"
  have "current_task ?e (t_session ?r) = Some ?r"
    by (rule current_task_add) (use new_sequence_above [OF c] in simp)
  then have "find_task_state ?e sid = Some (c\<lparr>ct_id := tid, ct_name := name, ct_sequence := ct_sequence c + 1\<rparr>)"
    using c by (auto simp: find_task_state_def session_of_def split: option.splits)
  then have post: "tid \<noteq> [] \<Longrightarrow> handed_off ?e sid"
    by (simp add: handed_off_def)
  have ins: "wp (q_insert_session_task sid (ct_sequence c + 1) tid name)
      (\<lambda>n e. n = 1 \<longrightarrow> e = ?e \<and> tid \<noteq> []) (\<lambda>_ _. True) d"
    by (auto simp: wp_def q_insert_session_task_def)
  show ?thesis
  proof (cases "ct_id c = tid")
    case True
    with c show ?thesis
      by (auto simp: attach_session_task_def q_current_task_for_update_def wp_simps handed_off_def
          split: option.split)
  next
    case False
    have "wp (q_insert_session_task sid (ct_sequence c + 1) tid name)
      (\<lambda>n. wp (require (n = 1) (Errorf ''task is already attached to another Session''))
        (\<lambda>_ e. sessions e = sessions d \<and> sandboxes e = sandboxes d \<and> resources e = resources d \<and>
          revisions e = revisions d \<and> (tid \<noteq> [] \<longrightarrow> handed_off e sid) \<and> (ct_id c = [] \<longrightarrow> e = d \<or> tid \<noteq> []))
        (\<lambda>_ _. True)) (\<lambda>_ _. True) d"
      by (rule wp_mono [OF ins]) (auto simp: wp_simps post)
    with False c show ?thesis
      by (simp add: attach_session_task_def q_current_task_for_update_def wp_simps split: option.split)
  qed
qed

lemma schedule_post:
  "wp (schedule_session_task env qn sid name key)
    (\<lambda>_ e. sessions e = sessions d \<and> sandboxes e = sandboxes d \<and> resources e = resources d \<and>
      revisions e = revisions d \<and> (spawn_task env qn name sid key \<noteq> Inr [] \<longrightarrow> handed_off e sid))
    (\<lambda>_ _. True) d"
proof (cases "find_task_state d sid")
  case (Some c)
  show ?thesis
  proof (cases "spawn_task env qn name sid key")
    case (Inr tid)
    let ?d = "queue_update (\<lambda>q. q @ [SpawnTask qn name sid key]) d"
    have "find_task_state ?d sid = Some c"
      using Some by (simp add: find_task_state_def session_of_def current_task_def session_tasks_def)
    from attach_ordinary_post [OF this, of tid name]
    have "wp (attach_session_task sid (ct_id c) tid name False)
      (\<lambda>_ e. sessions e = sessions d \<and> sandboxes e = sandboxes d \<and> resources e = resources d \<and>
      revisions e = revisions d \<and> (tid \<noteq> [] \<longrightarrow> handed_off e sid)) (\<lambda>_ _. True) ?d"
      by (rule wp_mono) auto
    with Some Inr show ?thesis
      by (cases "ct_id c = []") (simp_all add: schedule_session_task_def spawn_session_task_def
          q_current_task_for_update_def wp_simps handed_off_def)
  next
    case (Inl e)
    with Some show ?thesis
      by (simp add: schedule_session_task_def spawn_session_task_def q_current_task_for_update_def
          wp_simps handed_off_def)
  qed
qed (simp add: schedule_session_task_def q_current_task_for_update_def wp_simps)

lemma schedule_replay: "handed_off d sid \<Longrightarrow> schedule_session_task env qn sid name key d = (Inr (), d)"
  by (auto simp: handed_off_def schedule_session_task_def q_current_task_for_update_def bnd_def gets_def
      the_row_def ret_def)

text \<open>The admission of \<open>i\<close> is recorded: its Session, its Sandbox and its handoff.\<close>

definition admitted :: "db \<Rightarrow> session_admission \<Rightarrow> session_row \<Rightarrow> bool" where
  "admitted d i s =
    (row_of s_admission_key (ad_key i) (sessions d) = Some s \<and>
     stored_admission s = i\<lparr>ad_created_by := []\<rparr> \<and>
     owned_default d (main_sandbox_name (s_id s)) (s_id s) \<and> handed_off d (s_id s))"

lemma find_or_insert_post:
  "wp (find_or_insert_admission i)
    (\<lambda>(s, n) e. row_of s_admission_key (ad_key i) (sessions e) = Some s) (\<lambda>_ _. True) d"
  by (auto simp: find_or_insert_admission_def q_get_admitted_def wp_simps
      intro: wp_mono [OF wp_trivial] split: option.split)

lemma admission_tx_post:
  assumes "\<And>sid. spawn_task env qn tn sid (tk sid) \<noteq> Inr []"
  shows "wp (admission_tx env nonce qn tn tk i)
    (\<lambda>(sid, n) e. \<exists>s. admitted e i s \<and> s_id s = sid) (\<lambda>_ _. True) d"
proof -
  have reserve: "wp (reserve_admitted_sandbox nonce (s_id s) (main_sandbox_name (s_id s)))
      (\<lambda>_. wp (schedule_session_task env qn (s_id s) tn (tk (s_id s))) (\<lambda>_ e. \<exists>s'. admitted e i s' \<and> s_id s' = s_id s) (\<lambda>_ _. True))
      (\<lambda>_ _. True) e"
    if "row_of s_admission_key (ad_key i) (sessions e) = Some s" "stored_admission s = i\<lparr>ad_created_by := []\<rparr>" for s e
  proof (rule wp_mono [OF reserve_post])
    fix x f assume f: "sessions f = sessions e \<and> tasks f = tasks e \<and> revisions f = revisions e \<and> queue f = queue e \<and>
       owned_default f (main_sandbox_name (s_id s)) (s_id s)"
    show "wp (schedule_session_task env qn (s_id s) tn (tk (s_id s))) (\<lambda>_ e. \<exists>s'. admitted e i s' \<and> s_id s' = s_id s) (\<lambda>_ _. True) f"
    proof (rule wp_mono [OF schedule_post])
      fix y g assume g: "sessions g = sessions f \<and> sandboxes g = sandboxes f \<and> resources g = resources f \<and>
        revisions g = revisions f \<and> (spawn_task env qn tn (s_id s) (tk (s_id s)) \<noteq> Inr [] \<longrightarrow> handed_off g (s_id s))"
      have "owned_default g (main_sandbox_name (s_id s)) (s_id s)"
        using f g find_sandbox_cong [of g f] by (simp add: owned_default_def)
      then show "\<exists>s'. admitted g i s' \<and> s_id s' = s_id s"
        using f g that assms [of "s_id s"] by (intro exI [of _ s]) (simp add: admitted_def)
    qed simp
  qed simp
  have "wp (find_or_insert_admission i)
    (\<lambda>(s, n). wp (seq (require (stored_admission s = i\<lparr>ad_created_by := []\<rparr>) (Wrapf (ad_key i) (Sentinel ErrAdmissionConflict)))
        (seq (reserve_admitted_sandbox nonce (s_id s) (main_sandbox_name (s_id s)))
        (seq (schedule_session_task env qn (s_id s) tn (tk (s_id s)))
        (ret (s_id s, n))))) (\<lambda>(sid, n) e. \<exists>s. admitted e i s \<and> s_id s = sid) (\<lambda>_ _. True)) (\<lambda>_ _. True) d"
    by (rule wp_mono [OF find_or_insert_post]) (auto simp: wp_seq wp_require wp_ret dest: reserve)
  then show ?thesis
    by (simp add: admission_tx_def wp_tx wp_bnd case_prod_unfold)
qed

lemma admission_tx_replay:
  assumes "admitted d i s" and "i'\<lparr>ad_created_by := []\<rparr> = i\<lparr>ad_created_by := []\<rparr>"
  shows "admission_tx env (Inr owner) qn tn tk i' d = (Inr (s_id s, 0), d)"
proof -
  have key: "ad_key i' = ad_key i"
    using assms(2) by (metis session_admission.select_convs(4) session_admission.surjective session_admission.update_convs(2))
  have "find_or_insert_admission i' d = (Inr (s, 0), d)"
    using assms(1) key
    by (simp add: admitted_def find_or_insert_admission_def q_get_admitted_def bnd_def attempt_def gets_def the_row_def ret_def)
  then show ?thesis
    using assms by (simp add: admission_tx_def admitted_def tx_def bnd_def seq_def require_def ret_def
        reserve_replay schedule_replay)
qed

lemma core_key_eq: "i'\<lparr>ad_created_by := []\<rparr> = i\<lparr>ad_created_by := []\<rparr> \<Longrightarrow> ad_key i' = ad_key i"
  by (metis session_admission.select_convs(4) session_admission.surjective session_admission.update_convs(2))

lemma admit_session_replay:
  assumes run: "admit_session env nonce qn tn tk i d = (Inr (j, created), d')"
    and spawn: "\<And>sid. spawn_task env qn tn sid (tk sid) \<noteq> Inr []"
    and same: "i'\<lparr>ad_created_by := []\<rparr> = i\<lparr>ad_created_by := []\<rparr>"
  shows "admit_session env' (Inr owner) qn' tn' tk' i' d' = (Inr (j, False), d')"
proof -
  obtain sid n e where t: "admission_tx env nonce qn tn tk i d = (Inr (sid, n), e)"
    and g: "bnd (store_session sid) (\<lambda>j. ret (j, n = 1)) e = (Inr (j, created), d')"
    using run by (auto simp: admit_session_def bnd_def split: prod.splits sum.splits)
  have e: "e = d'" "store_session sid d' = (Inr j, d')"
    using g by (auto simp: bnd_def ret_def store_session_def q_get_session_def no_rows_as_def attempt_def
        gets_def the_row_def fail_def split: prod.splits sum.splits option.splits if_splits)
  obtain s where s: "admitted d' i s" "s_id s = sid"
    using wp_result [OF admission_tx_post [OF spawn] t] e by auto
  show ?thesis
    using admission_tx_replay [OF s(1) same] e s(2) by (simp add: admit_session_def bnd_def ret_def)
qed

lemma admit_session_conflict:
  assumes "row_of s_admission_key (ad_key i) (sessions d) = Some s"
    and "stored_admission s \<noteq> i\<lparr>ad_created_by := []\<rparr>"
  shows "admit_session env nonce qn tn tk i d = (Inl (Wrapf (ad_key i) (Sentinel ErrAdmissionConflict)), d)"
  using assms
  by (simp add: admit_session_def admission_tx_def find_or_insert_admission_def q_get_admitted_def
      bnd_def seq_def attempt_def gets_def the_row_def ret_def require_def fail_def tx_def)

end
