(* ===== verification/Postgres_Actions.thy ===== *)
theory Postgres_Actions
  imports Postgres_Admission
begin

text \<open>
  Sandbox Actions and their authorisation, Sandbox resources, cleanup completion, idle
  bookkeeping and delivery holds (\<open>store.go\<close>, \<open>resources.go\<close>, \<open>idle.go\<close>, \<open>holds.go\<close> and
  their statements). An Action is recorded before its provider effect and settled after it.
\<close>

section \<open>Sandboxes and resources\<close>

definition store_sandbox :: "string \<Rightarrow> (db, sandbox) act" where
  "store_sandbox bid = no_rows_as (Sentinel ErrNotFound) (q_get_sandbox bid)"

definition q_list_session_sandboxes :: "string \<Rightarrow> (db, sandbox list) act" where
  "q_list_session_sandboxes sid = gets (\<lambda>d.
    sort_key sb_id (List.map_filter (\<lambda>b. find_sandbox d (b_id b))
      (filter (\<lambda>b. b_session b = sid) (sandboxes d))))"

definition q_bind_sandbox_resource :: "sandbox \<Rightarrow> string \<Rightarrow> (db, nat) act" where
  "q_bind_sandbox_resource ow pid = (\<lambda>d.
    update_tbl resources resources_update
      (\<lambda>r. r_id r = sb_resource_id ow \<and>
        ((case sandbox_of d (r_sandbox r) of None \<Rightarrow> False
          | Some b \<Rightarrow> b_id b = sb_id ow \<and> b_session b = sb_session_id ow \<and> b_active b = r_id r) \<and>
         r_nonce r = sb_ownership_nonce ow \<and> r_deleted r = None \<and>
         (r_provider r = None \<or> r_provider r = Some pid)))
      (\<lambda>r. r\<lparr>r_provider := Some pid, r_observed := coalesce (r_observed r) (Some (now d))\<rparr>) d)"

definition bind_sandbox_resource :: "sandbox \<Rightarrow> string \<Rightarrow> (db, unit) act" where
  "bind_sandbox_resource ow pid =
    seq (require (\<not> (sb_session_id ow = [] \<or> sb_id ow = [] \<or> sb_resource_id ow = [] \<or>
                     trim_space pid = [] \<or> pid \<noteq> trim_space pid))
          (Errorf ''resource binding requires exact ownership and provider identity''))
   (expect_one_rows (q_bind_sandbox_resource ow pid))"

definition resource_value :: "resource_row \<Rightarrow> sandbox_resource" where
  "resource_value r =
    \<lparr>res_id = r_id r, res_sandbox_id = r_sandbox r, res_ownership_nonce = r_nonce r,
     res_provider_id = text_of (r_provider r), res_reserved_at = r_reserved r,
     res_observed_at = r_observed r, res_deleted_at = r_deleted r\<rparr>"

definition store_sandbox_resources :: "string \<Rightarrow> (db, sandbox_resource list) act" where
  "store_sandbox_resources sid = gets (\<lambda>d.
    map resource_value (sort_key (\<lambda>r. (r_reserved r, r_id r))
      (filter (\<lambda>r. case sandbox_of d (r_sandbox r) of None \<Rightarrow> False | Some b \<Rightarrow> b_session b = sid)
        (resources d))))"

definition store_sandbox_resource :: "string \<Rightarrow> string \<Rightarrow> string \<Rightarrow> (db, sandbox) act" where
  "store_sandbox_resource sid bid rid =
    bnd (gets (\<lambda>d. case (sandbox_of d bid, resource_of d rid) of
        (Some b, Some r) \<Rightarrow> if b_session b = sid \<and> r_sandbox r = bid then Some (sandbox_value b r) else None
      | _ \<Rightarrow> None)) (\<lambda>x. the_row x (Sentinel ErrNotFound))"

definition q_record_resource_deleted :: "string \<Rightarrow> string \<Rightarrow> (db, nat) act" where
  "q_record_resource_deleted rid bid = (\<lambda>d.
    update_tbl resources resources_update (\<lambda>r. r_id r = rid \<and> r_sandbox r = bid)
      (\<lambda>r. r\<lparr>r_deleted := coalesce (r_deleted r) (Some (now d))\<rparr>) d)"

definition record_sandbox_resource_deleted :: "sandbox \<Rightarrow> (db, unit) act" where
  "record_sandbox_resource_deleted ow = expect_one_rows (q_record_resource_deleted (sb_resource_id ow) (sb_id ow))"

section \<open>Actions\<close>

definition action_value :: "action_row \<Rightarrow> action" where
  "action_value a =
    \<lparr>act_id = a_id a, act_session_id = a_session a, act_kind = a_kind a, act_state = a_state a, act_scope = a_scope a\<rparr>"

definition exact_scoped_action :: "action_row \<Rightarrow> string \<Rightarrow> action_kind \<Rightarrow> string \<Rightarrow> err + action" where
  "exact_scoped_action row sid kind scope =
    (if a_id row \<noteq> scoped_action_id sid kind scope \<or> a_session row \<noteq> sid \<or> a_kind row \<noteq> kind \<or> a_scope row \<noteq> scope
     then Inl (Errorf ''Action conflicts with its exact Session, kind, and scope'')
     else Inr (action_value row))"

definition kind_ok :: "string \<Rightarrow> bool" where
  \<comment> \<open>the table's check \<open>kind ~ '^[a-z][a-z0-9-]{0,62}$'\<close>\<close>
  "kind_ok k = (case k of [] \<Rightarrow> False
    | c # r \<Rightarrow> is_lower c \<and> length r \<le> 62 \<and> list_all (\<lambda>c. is_lower c \<or> is_digit c \<or> c = CHR ''-'') r)"

definition q_insert_scoped_action :: "string \<Rightarrow> string \<Rightarrow> action_kind \<Rightarrow> string \<Rightarrow> (db, nat) act" where
  "q_insert_scoped_action aid sid kind scope = (\<lambda>d.
    if \<not> kind_ok (kind_name kind) then (Inl (check_violation ''actions_kind''), d)
    else if list_ex (\<lambda>a. a_id a = aid \<or> (a_session a = sid \<and> a_kind a = kind \<and> a_scope a = scope)) (actions d)
      then (Inr 0, d)
    else if session_of d sid = None then (Inl (foreign_key_violation ''actions_session''), d)
    else (Inr 1, actions_update (add_row
      \<lparr>a_id = aid, a_session = sid, a_kind = kind, a_state = ActionUnsettled, a_scope = scope,
       a_created = now d, a_settled = None\<rparr>) d))"

definition find_scoped_action :: "db \<Rightarrow> string \<Rightarrow> action_kind \<Rightarrow> string \<Rightarrow> action_row option" where
  "find_scoped_action d sid kind scope =
    find (\<lambda>a. a_session a = sid \<and> a_kind a = kind \<and> a_scope a = scope) (actions d)"

definition q_get_scoped_action :: "string \<Rightarrow> action_kind \<Rightarrow> string \<Rightarrow> (db, action_row) act" where
  "q_get_scoped_action sid kind scope =
    bnd (gets (\<lambda>d. find_scoped_action d sid kind scope)) (\<lambda>r. the_row r (Sentinel ErrNoRows))"

definition q_get_action :: "string \<Rightarrow> (db, action_row) act" where
  "q_get_action aid = bnd (gets (\<lambda>d. row_of a_id aid (actions d))) (\<lambda>r. the_row r (Sentinel ErrNoRows))"

definition get_or_create_sandbox_action :: "string \<Rightarrow> action_kind \<Rightarrow> (db, action) act" where
  "get_or_create_sandbox_action bid kind =
    bnd (q_get_sandbox bid) (\<lambda>b.
    bnd (attempt (expect_one_rows (q_insert_scoped_action
          (scoped_action_id (sb_session_id b) kind bid) (sb_session_id b) kind bid))) (\<lambda>ins.
    bnd (attempt (q_get_scoped_action (sb_session_id b) kind bid)) (\<lambda>got. case got of
        Inl e \<Rightarrow> fail (case ins of Inl i \<Rightarrow> i | Inr _ \<Rightarrow> e)
      | Inr row \<Rightarrow> lift (exact_scoped_action row (sb_session_id b) kind bid))))"

definition list_actions :: "string \<Rightarrow> (db, action list) act" where
  "list_actions sid = gets (\<lambda>d.
    map action_value (sort_key (\<lambda>a. (a_created a, a_id a)) (filter (\<lambda>a. a_session a = sid) (actions d))))"

section \<open>Authorisation\<close>

definition cleanup_kind :: "action_kind \<Rightarrow> bool" where
  "cleanup_kind k = (k = ActionRouteRevoke \<or> k = ActionSandboxDelete)"

lemma cleanup_kind_simps [simp]:
  "cleanup_kind ActionRouteRevoke" "cleanup_kind ActionSandboxDelete"
  "\<not> cleanup_kind ActionSandboxCreate" "\<not> cleanup_kind ActionRouteCreate" "\<not> cleanup_kind (OtherAction k)"
  by (simp_all add: cleanup_kind_def)

definition authorize_sandbox_action_tx ::
  "string \<Rightarrow> string \<Rightarrow> string \<Rightarrow> bool \<Rightarrow> (db, sandbox_action_authorization) act" where
  "authorize_sandbox_action_tx aid tid tname require_task =
    bnd (q_get_action aid) (\<lambda>row.
    seq (require (a_state row = ActionUnsettled \<or> a_state row = ActionSucceeded)
          (Errorf ''Sandbox Action is not unsettled or succeeded''))
   (seq (require (\<not> (a_scope row = [] \<or> a_id row \<noteq> scoped_action_id (a_session row) (a_kind row) (a_scope row)))
          (Errorf ''Sandbox Action conflicts with its exact Session and Sandbox''))
   (bnd (q_get_sandbox (a_scope row)) (\<lambda>owned.
    seq (require (sb_session_id owned = a_session row)
          (Errorf ''Sandbox Action conflicts with its exact Session and Sandbox''))
   (bnd (q_get_session (a_session row)) (\<lambda>j.
    seq (require (\<not> (require_task \<and>
            (tid = [] \<or> tname = [] \<or> current_task_id j \<noteq> tid \<or> current_task_name j \<noteq> tname)))
          (Errorf ''Sandbox Action requires the exact current attached task''))
   (seq (if cleanup_kind (a_kind row) then
           require (\<not> (admission_open j \<or> cleanup_state j \<noteq> CleanupScheduled \<or>
                       require_task \<and> tname \<noteq> cleanup_task_name))
             (Errorf ''Sandbox cleanup Action requires a durably scheduled cleanup'')
         else
           require (\<not> (\<not> admission_open j \<or> cleanup_state j \<noteq> CleanupPending))
             (Errorf ''Sandbox Action cannot mutate provider after cleanup begins''))
   (seq (if a_kind row = ActionSandboxDelete then
           bnd (no_rows_as (Errorf ''Sandbox cleanup cannot delete before its route revoke succeeds'')
                 (q_get_scoped_action (a_session row) ActionRouteRevoke (a_scope row))) (\<lambda>revoked.
           require (a_state revoked = ActionSucceeded)
             (Errorf ''Sandbox cleanup cannot delete before its route revoke succeeds''))
         else ret ())
   (ret \<lparr>auth_session = j\<lparr>current_task_name := []\<rparr>, auth_sandbox = owned, auth_action = action_value row,
         auth_task_id = current_task_id j, auth_task_name = current_task_name j\<rparr>)))))))))"

definition authorize_sandbox_action :: "string \<Rightarrow> string \<Rightarrow> string \<Rightarrow> (db, sandbox_action_authorization) act" where
  "authorize_sandbox_action aid tid tname =
    tx (authorize_sandbox_action_tx aid (trim_space tid) (trim_space tname) True)"

definition q_record_action_success :: "string \<Rightarrow> (db, nat) act" where
  "q_record_action_success aid = (\<lambda>d.
    update_tbl actions actions_update (\<lambda>a. a_id a = aid \<and> a_state a \<noteq> ActionSucceeded)
      (\<lambda>a. a\<lparr>a_state := ActionSucceeded, a_settled := coalesce (a_settled a) (Some (now d))\<rparr>) d)"

definition record_sandbox_action_success :: "string \<Rightarrow> (db, unit) act" where
  "record_sandbox_action_success aid =
    tx (bnd (authorize_sandbox_action_tx aid [] [] False) (\<lambda>done.
      if act_state (auth_action done) = ActionSucceeded then ret ()
      else seq (expect_one_rows (q_record_action_success aid))
        (if act_kind (auth_action done) = ActionSandboxDelete then
           expect_one_rows (q_record_resource_deleted (sb_resource_id (auth_sandbox done)) (sb_id (auth_sandbox done)))
         else ret ())))"

section \<open>Completing cleanup\<close>

definition succeeded_for :: "db \<Rightarrow> string \<Rightarrow> action_kind \<Rightarrow> string \<Rightarrow> bool" where
  "succeeded_for d sid kind bid =
    list_ex (\<lambda>a. a_session a = sid \<and> a_kind a = kind \<and> a_scope a = bid \<and> a_state a = ActionSucceeded) (actions d)"

definition sandbox_settled :: "db \<Rightarrow> sandbox_row \<Rightarrow> bool" where
  "sandbox_settled d b =
    (succeeded_for d (b_session b) ActionRouteRevoke (b_id b) \<and>
     succeeded_for d (b_session b) ActionSandboxDelete (b_id b) \<and>
     \<not> list_ex (\<lambda>r. r_sandbox r = b_id b \<and> r_deleted r = None) (resources d) \<and>
     \<not> list_ex (\<lambda>u. u_sandbox u = b_id b \<and> u_cp_ref u \<noteq> None \<and> u_cp_deleted u = None) (upgrades d))"

definition q_count_unsettled :: "string \<Rightarrow> (db, nat) act" where
  "q_count_unsettled sid = gets (\<lambda>d.
    count_where (\<lambda>b. b_session b = sid \<and> \<not> sandbox_settled d b) (sandboxes d))"

definition q_complete_cleanup :: "string \<Rightarrow> (db, nat) act" where
  "q_complete_cleanup sid = (\<lambda>d.
    let hit = (\<lambda>s. s_id s = sid \<and> s_cleanup s = CleanupScheduled);
        n = count_where hit (sessions d) in
    (Inr n, holds_update (upd_where
        (\<lambda>h. 0 < n \<and> h_released h = None \<and>
          list_ex (\<lambda>b. b_id b = h_sandbox h \<and> b_session b = sid) (sandboxes d))
        (\<lambda>h. h\<lparr>h_released := Some (now d)\<rparr>))
      (sessions_update (upd_where hit
        (\<lambda>s. s\<lparr>s_cleanup := CleanupComplete, s_cleanup_attention := None, s_attention := None,
               s_attention_source := None, s_attention_at := None,
               s_cleaned_at := coalesce (s_cleaned_at s) (Some (now d))\<rparr>)) d)))"

definition complete_cleanup :: "string \<Rightarrow> string \<Rightarrow> (db, unit) act" where
  "complete_cleanup sid tid =
    tx (bnd (q_current_task_for_update sid) (\<lambda>c.
      seq (require (\<not> (ct_id c = [] \<or> ct_id c \<noteq> trim_space tid))
            (Errorf ''cleanup cannot complete without ownership by the current cleanup task''))
     (bnd (q_list_session_tasks sid) (\<lambda>ts.
      seq (require (ts \<noteq> [] \<and> t_id (last ts) = tid \<and> t_name (last ts) = cleanup_task_name)
            (Errorf ''cleanup cannot complete without the exact Core cleanup task attachment''))
     (if \<not> ct_open c \<and> ct_cleanup c = CleanupComplete then ret ()
      else
        seq (require (\<not> (ct_open c \<or> ct_cleanup c \<noteq> CleanupScheduled))
              (Errorf ''cleanup cannot complete while admission or scheduling remains unsettled''))
       (bnd (q_count_unsettled sid) (\<lambda>n.
        seq (require (n = 0) (Errorf ''cleanup cannot complete with unsettled Session resources''))
       (expect_one_rows (q_complete_cleanup sid)))))))))"

section \<open>Idle bookkeeping\<close>

definition q_begin_sandbox_activity :: "string \<Rightarrow> (db, nat) act" where
  "q_begin_sandbox_activity sid =
    update_tbl sessions sessions_update (\<lambda>s. s_id s = sid) (\<lambda>s. s\<lparr>s_last_active := None\<rparr>)"

definition q_finish_sandbox_activity :: "string \<Rightarrow> (db, nat) act" where
  "q_finish_sandbox_activity sid = (\<lambda>d.
    update_tbl sessions sessions_update (\<lambda>s. s_id s = sid) (\<lambda>s. s\<lparr>s_last_active := Some (now d)\<rparr>) d)"

definition begin_sandbox_activity :: "string \<Rightarrow> (db, unit) act" where
  "begin_sandbox_activity sid = expect_one_rows (q_begin_sandbox_activity sid)"

definition finish_sandbox_activity :: "string \<Rightarrow> (db, unit) act" where
  "finish_sandbox_activity sid = expect_one_rows (q_finish_sandbox_activity sid)"

definition row_idle :: "db \<Rightarrow> nat \<Rightarrow> session_row \<Rightarrow> bool" where
  \<comment> \<open>\<open>grace\<close> in units of the database clock\<close>
  "row_idle d grace s =
    ((case s_last_active s of None \<Rightarrow> False | Some t \<Rightarrow> t + grace \<le> now d) \<and>
     s_pending_input s = None \<and> s_pending_turn s = None \<and> \<not> session_held d (s_id s))"

definition sandbox_idle_for :: "string \<Rightarrow> nat \<Rightarrow> (db, bool) act" where
  "sandbox_idle_for sid grace = (\<lambda>d.
    let e = sessions_update (upd_where (\<lambda>s. s_id s = sid)
              (\<lambda>s. s\<lparr>s_last_active := coalesce (s_last_active s) (Some (now d))\<rparr>)) d in
    (case session_of e sid of None \<Rightarrow> (Inl (Sentinel ErrNoRows), d)
     | Some s \<Rightarrow> (Inr (row_idle e grace s), e)))"

section \<open>Delivery holds\<close>

definition bounded_identity :: "string \<Rightarrow> bool" where
  "bounded_identity i = (\<not> (i = [] \<or> i \<noteq> trim_space i \<or> length i > 256))"

record session_admission_state =
  sa_open :: bool
  sa_cleanup :: cleanup_state
  sa_harness :: string
  sa_thread :: string

definition q_session_admission :: "string \<Rightarrow> (db, session_admission_state) act" where
  "q_session_admission sid =
    bnd (q_get_session sid) (\<lambda>j.
    ret \<lparr>sa_open = admission_open j, sa_cleanup = cleanup_state j, sa_harness = sess_harness j,
         sa_thread = thread_id j\<rparr>)"

definition with_delivery_hold ::
  "string \<Rightarrow> string \<Rightarrow> string \<Rightarrow> (session_admission_state \<Rightarrow> (db, 'a) act) \<Rightarrow> (db, 'a) act" where
  "with_delivery_hold sid bid oid fn =
    seq (require (list_all bounded_identity [sid, bid, oid]) (Errorf ''delivery hold requires exact bounded identities''))
   (tx (bnd (q_session_admission sid) (\<lambda>j.
    bnd (q_get_sandbox bid) (\<lambda>b.
    seq (require (sb_session_id b = sid) (Errorf ''delivery hold belongs to a different Session''))
   (fn j)))))"

definition sandbox_delivery_held :: "string \<Rightarrow> (db, bool) act" where
  "sandbox_delivery_held bid = gets (\<lambda>d. list_ex (\<lambda>h. h_sandbox h = bid \<and> h_released h = None) (holds d))"

definition require_sandbox_unheld :: "string \<Rightarrow> (db, unit) act" where
  "require_sandbox_unheld bid =
    bnd (sandbox_delivery_held bid) (\<lambda>held.
    require (\<not> held) (Errorf ''Sandbox already has an unfinished maintenance operation''))"

definition delivery_hold_value :: "hold_row \<Rightarrow> delivery_hold" where
  "delivery_hold_value h =
    \<lparr>hold_id = h_id h, hold_sandbox_id = h_sandbox h, hold_reason = h_reason h,
     hold_requested_at = h_requested h, hold_released_at = h_released h\<rparr>"

definition session_delivery_holds :: "string \<Rightarrow> (db, delivery_hold list) act" where
  "session_delivery_holds sid = gets (\<lambda>d.
    map delivery_hold_value (sort_key (\<lambda>h. (h_requested h, h_id h))
      (filter (\<lambda>h. h_released h = None \<and>
         (case sandbox_of d (h_sandbox h) of None \<Rightarrow> False | Some b \<Rightarrow> b_session b = sid)) (holds d))))"

definition q_insert_delivery_hold :: "string \<Rightarrow> string \<Rightarrow> string \<Rightarrow> (db, unit) act" where
  "q_insert_delivery_hold hid bid reason = (\<lambda>d.
    insert_tbl holds_update
      (\<lambda>d. first_violation
        [(list_ex (\<lambda>h. h_id h = hid) (holds d), unique_violation ''holds_pkey''),
         (list_ex (\<lambda>h. h_sandbox h = bid \<and> h_released h = None) (holds d), unique_violation ''sandbox_one_delivery_hold''),
         (sandbox_of d bid = None, foreign_key_violation ''holds_sandbox'')])
      \<lparr>h_id = hid, h_sandbox = bid, h_reason = reason, h_requested = now d, h_released = None\<rparr> d)"

definition q_get_delivery_hold :: "string \<Rightarrow> (db, hold_row) act" where
  "q_get_delivery_hold hid = bnd (gets (\<lambda>d. row_of h_id hid (holds d))) (\<lambda>r. the_row r (Sentinel ErrNoRows))"

definition q_release_delivery_hold :: "string \<Rightarrow> string \<Rightarrow> (db, nat) act" where
  "q_release_delivery_hold hid bid = (\<lambda>d.
    update_tbl holds holds_update (\<lambda>h. h_id h = hid \<and> h_sandbox h = bid)
      (\<lambda>h. h\<lparr>h_released := coalesce (h_released h) (Some (now d))\<rparr>) d)"

section \<open>The operations preserve the invariants\<close>

lemma resources_ok_upd:
  assumes "resources_ok bs rs" and "\<And>r. r_id (f r) = r_id r" and "\<And>r. r_sandbox (f r) = r_sandbox r"
    and "\<And>r. (r_provider r = None \<longleftrightarrow> r_observed r = None) \<Longrightarrow> (r_provider (f r) = None \<longleftrightarrow> r_observed (f r) = None)"
  shows "resources_ok bs (upd_where p f rs)"
  using assms by (auto simp: resources_ok_def map_upd_where)

lemma db_inv_resources: "db_inv d \<Longrightarrow> resources_ok (sandboxes d) (g (resources d)) \<Longrightarrow> db_inv (resources_update g d)"
  by (simp add: db_inv_def)

lemma keeps_bind_sandbox_resource [keeps_intros]: "keeps db_inv (bind_sandbox_resource ow pid)"
proof -
  have "keeps db_inv (q_bind_sandbox_resource ow pid)"
    by (rule keepsI) (auto simp: wp_def q_bind_sandbox_resource_def update_tbl_def db_inv_def
        intro!: db_inv_resources resources_ok_upd)
  then show ?thesis unfolding bind_sandbox_resource_def by (intro keeps_intros)
qed

lemma keeps_record_resource_deleted [keeps_intros]: "keeps db_inv (q_record_resource_deleted rid bid)"
  by (rule keepsI) (auto simp: wp_def q_record_resource_deleted_def update_tbl_def db_inv_def
        intro!: db_inv_resources resources_ok_upd)

lemma keeps_record_sandbox_resource_deleted [keeps_intros]: "keeps db_inv (record_sandbox_resource_deleted ow)"
  unfolding record_sandbox_resource_deleted_def by (intro keeps_intros)

lemma keeps_get_or_create [keeps_intros]: "keeps db_inv (get_or_create_sandbox_action bid kind)"
proof -
  have ins: "keeps db_inv (q_insert_scoped_action (scoped_action_id sid kind scope) sid kind scope)" for sid scope
  proof (rule keepsI)
    fix d assume inv: "db_inv d"
    then show "wp (q_insert_scoped_action (scoped_action_id sid kind scope) sid kind scope)
        (\<lambda>_. db_inv) (\<lambda>_. db_inv) d"
      by (auto simp: wp_def q_insert_scoped_action_def db_inv_def actions_ok_def list_ex_iff)
  qed
  show ?thesis
    unfolding get_or_create_sandbox_action_def q_get_scoped_action_def
    by (intro keeps_intros ins)
qed

lemma keeps_authorize_tx [keeps_intros]: "keeps db_inv (authorize_sandbox_action_tx aid tid tname req)"
  unfolding authorize_sandbox_action_tx_def q_get_action_def q_get_scoped_action_def
  by (intro keeps_intros)

lemma keeps_authorize [keeps_intros]: "keeps db_inv (authorize_sandbox_action aid tid tname)"
  unfolding authorize_sandbox_action_def by (intro keeps_intros)

text \<open>
  What an authorisation certifies. It reads, so the state is unchanged; the Session admits the
  kind of Action; a delete has its route revoked.
\<close>

definition auth_certifies :: "db \<Rightarrow> string \<Rightarrow> string \<Rightarrow> string \<Rightarrow> bool \<Rightarrow> sandbox_action_authorization \<Rightarrow> bool" where
  "auth_certifies d aid tid tname req z =
    (\<exists>a b s. row_of a_id aid (actions d) = Some a \<and> auth_action z = action_value a \<and>
       (a_state a = ActionUnsettled \<or> a_state a = ActionSucceeded) \<and>
       a_scope a \<noteq> [] \<and> a_id a = scoped_action_id (a_session a) (a_kind a) (a_scope a) \<and>
       find_sandbox d (a_scope a) = Some b \<and> auth_sandbox z = b \<and> sb_session_id b = a_session a \<and>
       find_session d (a_session a) = Some s \<and> auth_session z = s\<lparr>current_task_name := []\<rparr> \<and>
       (req \<longrightarrow> tid \<noteq> [] \<and> current_task_id s = tid \<and> current_task_name s = tname) \<and>
       (if cleanup_kind (a_kind a) then \<not> admission_open s \<and> cleanup_state s = CleanupScheduled \<and>
          (req \<longrightarrow> tname = cleanup_task_name)
        else admission_open s \<and> cleanup_state s = CleanupPending) \<and>
       (a_kind a = ActionSandboxDelete \<longrightarrow>
          (\<exists>v. find_scoped_action d (a_session a) ActionRouteRevoke (a_scope a) = Some v \<and> a_state v = ActionSucceeded)))"

lemma certified_task:
  assumes "auth_certifies d aid tid tname True z"
  shows "\<exists>t. current_task d (act_session_id (auth_action z)) = Some t \<and> t_id t = tid \<and> t_name t = tname"
proof -
  obtain a s where a: "auth_action z = action_value a" "find_session d (a_session a) = Some s"
    "tid \<noteq> []" "current_task_id s = tid" "current_task_name s = tname"
    using assms by (auto simp: auth_certifies_def)
  then obtain q p where q: "session_of d (a_session a) = Some q" "s = session_value d q p"
    by (auto simp: find_session_def split: option.splits)
  have "s_id q = a_session a" using q(1) unfolding session_of_def by (rule row_of_key)
  with a q show ?thesis by (auto simp: session_value_def action_value_def split: option.splits)
qed

lemma wp_authorize_tx:
  "wp (authorize_sandbox_action_tx aid tid tname req)
    (\<lambda>z e. e = d \<and> auth_certifies d aid tid tname req z) (\<lambda>_ e. e = d) d"
proof (cases "row_of a_id aid (actions d)")
  case None
  then show ?thesis by (simp add: authorize_sandbox_action_tx_def q_get_action_def wp_simps)
next
  case a: (Some a)
  show ?thesis
  proof (cases "find_sandbox d (a_scope a)")
    case None
    with a show ?thesis
      by (simp add: authorize_sandbox_action_tx_def q_get_action_def q_get_sandbox_def wp_simps)
  next
    case b: (Some b)
    show ?thesis
    proof (cases "find_session d (a_session a)")
      case None
      with a b show ?thesis
        by (simp add: authorize_sandbox_action_tx_def q_get_action_def q_get_sandbox_def q_get_session_def wp_simps)
    next
      case s: (Some s)
      then show ?thesis using a b
        by (cases "a_kind a"; cases "find_scoped_action d (a_session a) ActionRouteRevoke (a_scope a)")
          (simp_all add: authorize_sandbox_action_tx_def q_get_action_def q_get_sandbox_def q_get_session_def
            q_get_scoped_action_def wp_simps auth_certifies_def)
    qed
  qed
qed

lemma keeps_record_success [keeps_intros]: "keeps db_inv (record_sandbox_action_success aid)"
proof (rule keepsI)
  fix d assume inv: "db_inv d"
  let ?f = "\<lambda>a. a\<lparr>a_state := ActionSucceeded, a_settled := coalesce (a_settled a) (Some (now d))\<rparr>"
  let ?p = "\<lambda>a. a_id a = aid \<and> a_state a \<noteq> ActionSucceeded"
  let ?e = "actions_update (upd_where ?p ?f) d"
  have step: "db_inv ?e" if z: "auth_certifies d aid [] [] False z" for z
  proof -
    obtain a where a: "row_of a_id aid (actions d) = Some a"
      "a_kind a = ActionSandboxDelete \<Longrightarrow>
        \<exists>v. find_scoped_action d (a_session a) ActionRouteRevoke (a_scope a) = Some v \<and> a_state v = ActionSucceeded"
      using z by (auto simp: auth_certifies_def)
    have ok: "actions_ok (actions d)" using inv by (simp add: db_inv_def)
    have one: "q = a" if "q \<in> set (actions d)" "a_id q = aid" for q
      using ok a(1) row_of_distinct [of a_id "actions d" q] that by (auto simp: actions_ok_def)
    have rev: "\<exists>b \<in> set (actions d). a_kind b = ActionRouteRevoke \<and> a_session b = a_session a \<and>
        a_scope b = a_scope a \<and> a_state b = ActionSucceeded" if "a_kind a = ActionSandboxDelete"
      using a(2) [OF that] by (auto simp: find_scoped_action_def find_Some_iff)
    have "actions_ok (upd_where ?p ?f (actions d))"
      unfolding actions_ok_def
    proof (intro conjI)
      show "distinct (map a_id (upd_where ?p ?f (actions d)))"
        using ok by (simp add: actions_ok_def map_upd_where)
      show "\<forall>a \<in> set (upd_where ?p ?f (actions d)).
        a_id a = scoped_action_id (a_session a) (a_kind a) (a_scope a) \<and>
        (a_state a = ActionUnsettled \<longleftrightarrow> a_settled a = None) \<and>
        (a_kind a = ActionSandboxDelete \<and> a_state a = ActionSucceeded \<longrightarrow>
          (\<exists>b \<in> set (upd_where ?p ?f (actions d)). a_kind b = ActionRouteRevoke \<and> a_session b = a_session a \<and>
             a_scope b = a_scope a \<and> a_state b = ActionSucceeded))"
      proof -
        have mono: "(\<exists>b \<in> set (actions d). a_kind b = ActionRouteRevoke \<and> a_session b = x \<and>
             a_scope b = y \<and> a_state b = ActionSucceeded) \<Longrightarrow>
          (\<exists>b \<in> set (upd_where ?p ?f (actions d)). a_kind b = ActionRouteRevoke \<and> a_session b = x \<and>
             a_scope b = y \<and> a_state b = ActionSucceeded)" for x y
          by auto
        show ?thesis
        proof (intro ballI conjI impI)
          fix q assume q: "q \<in> set (upd_where ?p ?f (actions d))"
          then obtain r where r: "r \<in> set (actions d)" "q = (if ?p r then ?f r else r)"
            by (auto simp: set_upd_where)
          then show "a_id q = scoped_action_id (a_session q) (a_kind q) (a_scope q)"
            using ok by (simp add: actions_ok_def)
          show "a_state q = ActionUnsettled \<longleftrightarrow> a_settled q = None"
            using ok r by (simp add: actions_ok_def)
          assume del: "a_kind q = ActionSandboxDelete \<and> a_state q = ActionSucceeded"
          have "\<exists>b \<in> set (actions d). a_kind b = ActionRouteRevoke \<and> a_session b = a_session q \<and>
             a_scope b = a_scope q \<and> a_state b = ActionSucceeded"
          proof (cases "?p r")
            case True
            with r one have "r = a" by blast
            with r True del rev show ?thesis by simp
          next
            case False
            with r del ok show ?thesis by (simp add: actions_ok_def)
          qed
          then show "\<exists>b \<in> set (upd_where ?p ?f (actions d)). a_kind b = ActionRouteRevoke \<and>
             a_session b = a_session q \<and> a_scope b = a_scope q \<and> a_state b = ActionSucceeded"
            by (rule mono)
        qed
      qed
    qed
    then show ?thesis using inv by (simp add: db_inv_def)
  qed
  have rest: "db_inv e \<Longrightarrow> wp (q_record_resource_deleted x y) (\<lambda>_. db_inv) (\<lambda>_ _. True) e" for e x y
    using keepsD [OF keeps_record_resource_deleted, of e x y] by (rule wp_mono) simp_all
  show "wp (record_sandbox_action_success aid) (\<lambda>_. db_inv) (\<lambda>_. db_inv) d"
    unfolding record_sandbox_action_success_def wp_tx wp_bnd
    apply (rule wp_mono [OF wp_authorize_tx [of aid "[]" "[]" False d]])
    subgoal for z e
      using inv step [of z] rest
      by (auto simp: wp_simps q_record_action_success_def intro!: wp_mono [OF rest])
    using inv by simp
qed

subsection \<open>Cleanup completion\<close>

lemma cleanup_over_complete:
  assumes "0 < count_where p ss" and "\<And>s. p s \<Longrightarrow> s_id s = sid"
    and "\<And>s. s_id (f s) = s_id s" and "\<And>s. s_cleanup (f s) = CleanupComplete"
    and "list_ex (\<lambda>b. b_id b = bid \<and> b_session b = sid) bs"
  shows "cleanup_over (upd_where p f ss) bs bid"
proof -
  obtain s where s: "s \<in> set ss" "p s"
    using assms(1) count_where_zero [of p ss] by auto
  then have "f s \<in> set (upd_where p f ss)" by (auto simp: set_upd_where)
  moreover obtain b where "b \<in> set bs" "b_id b = bid" "b_session b = sid"
    using assms(5) by (auto simp: list_ex_iff)
  moreover have "s_id (f s) = sid" "s_cleanup (f s) = CleanupComplete"
    using s(2) assms(2-4) by simp_all
  ultimately show ?thesis unfolding cleanup_over_def by blast
qed

lemma db_inv_complete:
  assumes inv: "db_inv d"
  shows "db_inv (snd (q_complete_cleanup sid d))"
proof -
  let ?p = "\<lambda>s. s_id s = sid \<and> s_cleanup s = CleanupScheduled"
  let ?f = "\<lambda>s. s\<lparr>s_cleanup := CleanupComplete, s_cleanup_attention := None, s_attention := None,
      s_attention_source := None, s_attention_at := None,
      s_cleaned_at := coalesce (s_cleaned_at s) (Some (now d))\<rparr>"
  let ?n = "count_where ?p (sessions d)"
  let ?q = "\<lambda>h. 0 < ?n \<and> h_released h = None \<and>
      list_ex (\<lambda>b. b_id b = h_sandbox h \<and> b_session b = sid) (sandboxes d)"
  let ?g = "\<lambda>h. h\<lparr>h_released := Some (now d)\<rparr>"
  let ?ss = "upd_where ?p ?f (sessions d)" and ?hs = "upd_where ?q ?g (holds d)"
  have ss: "sessions_ok ?ss"
    by (rule sessions_ok_upd) (use inv in \<open>auto simp: db_inv_def sessions_ok_def\<close>)
  have hs: "holds_ok ?hs"
    by (rule holds_ok_release) (use inv in \<open>simp_all add: db_inv_def\<close>)
  have "upgrades_held ?ss (sandboxes d) (holds d) (upgrades d)"
    by (rule upgrades_held_upd_session) (use inv in \<open>simp_all add: db_inv_def\<close>)
  then have up: "upgrades_held ?ss (sandboxes d) ?hs (upgrades d)"
    by (rule upgrades_held_holds) (auto intro!: cleanup_over_complete [where sid = sid])
  have ops: "ops_held ?ss (sandboxes d) ?hs (pending_ops (recoveries d) (branches d))"
  proof (rule ops_held_holds)
    show "ops_held ?ss (sandboxes d) (holds d) (pending_ops (recoveries d) (branches d))"
      by (rule ops_held_upd_session) (use inv in \<open>simp_all add: db_inv_def\<close>)
    fix h assume q: "?q h"
    then have "?n \<noteq> 0" by blast
    then obtain s where s: "s \<in> set (sessions d)" "?p s" unfolding count_where_zero by blast
    obtain b where b: "b \<in> set (sandboxes d)" "b_id b = h_sandbox h" "b_session b = sid"
      using q unfolding list_ex_iff by blast
    have "\<not> s_open s" using inv s by (auto simp: db_inv_def sessions_ok_def)
    moreover have "?f s \<in> set ?ss" using s by (auto simp: set_upd_where)
    ultimately show "session_closed ?ss (sandboxes d) (h_sandbox h)"
      unfolding session_closed_def using b s(2) by (intro bexI [of _ b] conjI bexI [of _ "?f s"]) simp_all
  qed simp_all
  have "cleanup_owned ?ss (tasks d)"
    by (rule cleanup_owned_upd) (use inv in \<open>simp_all add: db_inv_def\<close>)
  with ss hs up ops inv show ?thesis
    by (simp add: q_complete_cleanup_def Let_def db_inv_def)
qed

lemma keeps_q_complete [keeps_intros]: "keeps db_inv (q_complete_cleanup sid)"
  using db_inv_complete by (intro keepsI) (simp add: wp_def q_complete_cleanup_def Let_def)

lemma keeps_complete_cleanup [keeps_intros]: "keeps db_inv (complete_cleanup sid tid)"
  unfolding complete_cleanup_def q_list_session_tasks_def q_count_unsettled_def
  by (intro keeps_intros)

text \<open>Everything a completed cleanup has settled.\<close>

definition cleanup_settled :: "db \<Rightarrow> string \<Rightarrow> bool" where
  "cleanup_settled d sid =
    (\<forall>b \<in> set (sandboxes d). b_session b = sid \<longrightarrow>
       sandbox_settled d b \<and>
       (\<forall>h \<in> set (holds d). h_sandbox h = b_id b \<longrightarrow> h_released h \<noteq> None))"

lemma complete_cleanup_settles:
  assumes inv: "db_inv d" and st: "session_of d sid = Some s" "s_cleanup s \<noteq> CleanupComplete"
    and run: "complete_cleanup sid tid d = (Inr (), e)"
  shows "cleanup_settled e sid \<and>
    (\<exists>t. session_of e sid = Some t \<and> s_cleanup t = CleanupComplete \<and> \<not> s_open t \<and> s_cleaned_at t \<noteq> None)"
proof -
  have "wp (complete_cleanup sid tid) (\<lambda>_ e. count_where (\<lambda>b. b_session b = sid \<and> \<not> sandbox_settled d b) (sandboxes d) = 0 \<and>
      count_where (\<lambda>s. s_id s = sid \<and> s_cleanup s = CleanupScheduled) (sessions d) = Suc 0 \<and> \<not> s_open s \<and>
      e = snd (q_complete_cleanup sid d)) (\<lambda>_ _. True) d"
    using st
    by (auto simp: complete_cleanup_def wp_simps q_current_task_for_update_def find_task_state_def
        q_list_session_tasks_def q_count_unsettled_def
        q_complete_cleanup_def Let_def split: option.splits)
  from wp_result [OF this run] have
    un: "\<forall>b \<in> set (sandboxes d). b_session b = sid \<longrightarrow> sandbox_settled d b" and
    n: "count_where (\<lambda>s. s_id s = sid \<and> s_cleanup s = CleanupScheduled) (sessions d) = Suc 0" and
    op: "\<not> s_open s" and e: "e = snd (q_complete_cleanup sid d)"
    by (auto simp: count_where_zero)
  have sch: "s_cleanup s = CleanupScheduled"
    using n inv st(1) count_where_one_unique [of s_id "sessions d" sid "\<lambda>s. s_cleanup s = CleanupScheduled"]
    by (simp add: db_inv_def sessions_ok_def session_of_def)
  have tabs: "sandboxes e = sandboxes d" "resources e = resources d" "upgrades e = upgrades d" "actions e = actions d"
    by (simp_all add: e q_complete_cleanup_def Let_def)
  have hs: "holds e = upd_where (\<lambda>h. h_released h = None \<and>
      list_ex (\<lambda>b. b_id b = h_sandbox h \<and> b_session b = sid) (sandboxes d)) (\<lambda>h. h\<lparr>h_released := Some (now d)\<rparr>) (holds d)"
    using n by (simp add: e q_complete_cleanup_def Let_def)
  have rel: "\<forall>b \<in> set (sandboxes d). b_session b = sid \<longrightarrow> (\<forall>h \<in> set (holds e). h_sandbox h = b_id b \<longrightarrow> h_released h \<noteq> None)"
    unfolding hs by (auto simp: list_ex_iff)
  have "sandbox_settled e b = sandbox_settled d b" for b
    by (simp add: sandbox_settled_def succeeded_for_def tabs)
  with un rel have "cleanup_settled e sid"
    by (simp add: cleanup_settled_def tabs)
  moreover have "\<exists>t. session_of e sid = Some t \<and> s_cleanup t = CleanupComplete \<and> \<not> s_open t \<and> s_cleaned_at t \<noteq> None"
    using st sch op row_of_key [OF st(1) [unfolded session_of_def]]
    by (simp add: e q_complete_cleanup_def Let_def session_of_def row_of_upd_where coalesce_def split: option.split)
  ultimately show ?thesis ..
qed

subsection \<open>Activity and holds\<close>

lemma keeps_begin_activity [keeps_intros]: "keeps db_inv (begin_sandbox_activity sid)"
  unfolding begin_sandbox_activity_def q_begin_sandbox_activity_def
  by (intro keeps_intros keeps_session_update) (auto simp: row_ok_iff)

lemma keeps_finish_activity [keeps_intros]: "keeps db_inv (finish_sandbox_activity sid)"
proof -
  have "keeps db_inv (q_finish_sandbox_activity sid)"
    by (rule keepsI) (auto simp: q_finish_sandbox_activity_def wp_simps row_ok_iff intro!: db_inv_session_update)
  then show ?thesis unfolding finish_sandbox_activity_def by (intro keeps_intros)
qed

lemma keeps_idle_for [keeps_intros]: "keeps db_inv (sandbox_idle_for sid secs)"
  by (rule keepsI)
    (auto simp: sandbox_idle_for_def wp_def Let_def row_ok_iff intro!: db_inv_session_update split: option.split)

lemma keeps_q_session_admission [keeps_intros]: "keeps I (q_session_admission sid)"
  by (simp add: q_session_admission_def keeps_intros)

lemma keeps_with_delivery_hold [keeps_intros]:
  "(\<And>j. keeps I (fn j)) \<Longrightarrow> keeps I (with_delivery_hold sid bid oid fn)"
  unfolding with_delivery_hold_def by (intro keeps_intros)

lemma keeps_require_unheld [keeps_intros]: "keeps I (require_sandbox_unheld bid)"
  unfolding require_sandbox_unheld_def sandbox_delivery_held_def by (intro keeps_intros)

lemma keeps_get_hold [keeps_intros]: "keeps I (q_get_delivery_hold hid)"
  unfolding q_get_delivery_hold_def by (intro keeps_intros)

lemma db_inv_add_hold:
  assumes inv: "db_inv d" and new: "\<not> list_ex (\<lambda>h. h_id h = h_id x) (holds d)"
    "\<not> list_ex (\<lambda>h. h_sandbox h = h_sandbox x \<and> h_released h = None) (holds d)"
  shows "db_inv (holds_update (add_row x) d)"
proof -
  have "upgrades_held (sessions d) (sandboxes d) (holds d) (upgrades d)"
    using inv by (simp add: db_inv_def)
  then have "upgrades_held (sessions d) (sandboxes d) (add_row x (holds d)) (upgrades d)"
    by (rule upgrades_held_mono) auto
  moreover have "ops_held (sessions d) (sandboxes d) (add_row x (holds d)) (pending_ops (recoveries d) (branches d))"
    by (rule ops_held_mono [where ss = "sessions d" and bs = "sandboxes d" and hs = "holds d"])
      (use inv in \<open>auto simp: db_inv_def\<close>)
  moreover have "holds_ok (add_row x (holds d))"
    using inv new by (auto simp: db_inv_def holds_ok_def open_holds_def list_ex_iff)
  ultimately show ?thesis using inv by (simp add: db_inv_def)
qed

lemma keeps_insert_hold [keeps_intros]: "keeps db_inv (q_insert_delivery_hold hid bid reason)"
  by (rule keepsI)
    (auto simp: q_insert_delivery_hold_def wp_simps first_violation_None intro!: db_inv_add_hold split: option.split)

end
