(* ===== verification/Postgres_Native.thy ===== *)
theory Postgres_Native
  imports Postgres_Actions
begin

text \<open>
  Native mutation custody (\<open>native.go\<close> and \<open>dbsql/native.sql.go\<close>): the Thread binding of a
  Session, and the pending marker with its revision that is written before an input or a
  cancellation is sent to the harness and cleared when it is settled.
\<close>

definition thread_bindable :: "string \<Rightarrow> string option \<Rightarrow> session_row \<Rightarrow> bool" where
  "thread_bindable sid th s =
    (s_id s = sid \<and> (s_open s \<and> s_cleanup s = CleanupPending \<and>
      ((th \<noteq> None \<and> s_thread s = th) \<or>
       (s_revision s = 0 \<and> s_pending_input s = None \<and> s_pending_turn s = None))))"

definition q_bind_native_thread :: "string \<Rightarrow> string option \<Rightarrow> (db, nat) act" where
  \<comment> \<open>a null Thread compares with nothing, so only the second disjunct can match it\<close>
  "q_bind_native_thread sid th = (\<lambda>d.
    if thread_ok th then
      update_tbl sessions sessions_update (thread_bindable sid th) (\<lambda>s. s\<lparr>s_thread := th\<rparr>) d
    else if list_ex (thread_bindable sid th) (sessions d) then (Inl (check_violation ''session_thread''), d)
    else (Inr 0, d))"

definition can_begin_mutation :: "db \<Rightarrow> string option \<Rightarrow> session_row \<Rightarrow> bool" where
  "can_begin_mutation d th s =
    (s_open s \<and> s_cleanup s = CleanupPending \<and> th \<noteq> None \<and> s_thread s = th \<and>
     s_pending_input s = None \<and> s_pending_turn s = None \<and> \<not> session_held d (s_id s))"

definition numeric_out_of_range :: err where
  "numeric_out_of_range = PgError ''22003'' ''''"

definition q_begin_native_mutation :: "string \<Rightarrow> string option \<Rightarrow> string \<Rightarrow> string \<Rightarrow> (db, int) act" where
  "q_begin_native_mutation sid th input turn = (\<lambda>d.
    case session_of d sid of
      None \<Rightarrow> (Inl (Sentinel ErrNoRows), d)
    | Some s \<Rightarrow>
        if \<not> can_begin_mutation d th s then (Inl (Sentinel ErrNoRows), d)
        else if s_revision s = max_int64 then (Inl numeric_out_of_range, d)
        else if input \<noteq> [] \<and> turn \<noteq> [] then (Inl (check_violation ''native_pending_one_kind''), d)
        else (Inr (s_revision s + 1), sessions_update (upd_where (\<lambda>q. s_id q = sid)
          (\<lambda>q. q\<lparr>s_revision := s_revision s + 1, s_pending_input := nullif_empty input,
                 s_pending_turn := nullif_empty turn\<rparr>)) d))"

definition q_finish_native_mutation :: "string \<Rightarrow> int \<Rightarrow> (db, nat) act" where
  "q_finish_native_mutation sid rev_no =
    update_tbl sessions sessions_update (\<lambda>s. s_id s = sid \<and> s_revision s = rev_no)
      (\<lambda>s. s\<lparr>s_pending_input := None, s_pending_turn := None\<rparr>)"

definition native_state_value :: "session_row \<Rightarrow> native_state" where
  "native_state_value s =
    \<lparr>ns_revision = s_revision s, ns_pending_input = text_of (s_pending_input s),
     ns_pending_turn = text_of (s_pending_turn s)\<rparr>"

definition store_native_state :: "string \<Rightarrow> (db, native_state) act" where
  "store_native_state sid =
    bnd (gets (\<lambda>d. session_of d sid)) (\<lambda>r.
    bnd (the_row r (Sentinel ErrNoRows)) (\<lambda>s. ret (native_state_value s)))"

definition bind_native_thread :: "string \<Rightarrow> string \<Rightarrow> (db, unit) act" where
  "bind_native_thread sid th = expect_one_rows (q_bind_native_thread sid (nullif_empty th))"

definition begin_native_mutation :: "string \<Rightarrow> string \<Rightarrow> string \<Rightarrow> string \<Rightarrow> (db, int) act" where
  "begin_native_mutation sid th input turn = q_begin_native_mutation sid (nullif_empty th) input turn"

definition finish_native_mutation :: "string \<Rightarrow> int \<Rightarrow> (db, unit) act" where
  "finish_native_mutation sid rev_no = expect_one_rows (q_finish_native_mutation sid rev_no)"

section \<open>Preservation\<close>

lemma keeps_bind_native_thread [keeps_intros]: "keeps db_inv (bind_native_thread sid th)"
proof -
  have "keeps db_inv (q_bind_native_thread sid t)" for t
  proof (rule keepsI)
    fix d assume inv: "db_inv d"
    have "wp (update_tbl sessions sessions_update (thread_bindable sid t) (\<lambda>s. s\<lparr>s_thread := t\<rparr>)) (\<lambda>_. db_inv) (\<lambda>_. db_inv) d"
      if "thread_ok t"
      using inv that by (intro keepsD keeps_session_update) (auto simp: row_ok_iff)
    with inv show "wp (q_bind_native_thread sid t) (\<lambda>_. db_inv) (\<lambda>_. db_inv) d"
      by (auto simp: q_bind_native_thread_def wp_def)
  qed
  then show ?thesis unfolding bind_native_thread_def by (intro keeps_intros)
qed

lemma keeps_finish_native_mutation [keeps_intros]: "keeps db_inv (finish_native_mutation sid rev_no)"
  unfolding finish_native_mutation_def q_finish_native_mutation_def
  by (intro keeps_intros keeps_session_update) (auto simp: row_ok_iff)

lemma keeps_store_native_state [keeps_intros]: "keeps I (store_native_state sid)"
  unfolding store_native_state_def by (intro keeps_intros)

lemma keeps_begin_native_mutation [keeps_intros]: "keeps db_inv (begin_native_mutation sid th i t)"
proof (rule keepsI)
  fix d assume inv: "db_inv d"
  have "db_inv (sessions_update (upd_where (\<lambda>q. s_id q = sid)
          (\<lambda>q. q\<lparr>s_revision := s_revision s + 1, s_pending_input := nullif_empty i,
                 s_pending_turn := nullif_empty t\<rparr>)) d)"
    if "session_of d sid = Some s" "s_revision s \<noteq> max_int64" "i = [] \<or> t = []" for s
  proof (rule db_inv_session_update [OF inv])
    have "0 \<le> s_revision s + 1 \<and> s_revision s + 1 \<le> max_int64"
      using session_of_ok [OF _ that(1)] inv that(2) by (auto simp: db_inv_def row_ok_iff)
    then show "\<And>q. s_id q = sid \<Longrightarrow> row_ok q \<Longrightarrow> row_ok (q\<lparr>s_revision := s_revision s + 1,
        s_pending_input := nullif_empty i, s_pending_turn := nullif_empty t\<rparr>)"
      using that(3) by (auto simp: row_ok_iff nullif_empty_def)
  qed simp_all
  with inv show "wp (begin_native_mutation sid th i t) (\<lambda>_. db_inv) (\<lambda>_. db_inv) d"
    by (auto simp: wp_def begin_native_mutation_def q_begin_native_mutation_def split: option.split)
qed

section \<open>The pending marker\<close>

lemma begin_result:
  assumes "begin_native_mutation sid th i t d = (Inr n, e)"
  obtains s where "session_of d sid = Some s" "can_begin_mutation d (nullif_empty th) s"
    "n = s_revision s + 1" "i = [] \<or> t = []"
    "e = sessions_update (upd_where (\<lambda>q. s_id q = sid)
          (\<lambda>q. q\<lparr>s_revision := n, s_pending_input := nullif_empty i, s_pending_turn := nullif_empty t\<rparr>)) d"
  using assms by (auto simp: begin_native_mutation_def q_begin_native_mutation_def split: option.splits if_splits)

lemma session_of_upd:
  assumes "\<And>s. s_id (f s) = s_id s"
  shows "session_of (sessions_update (upd_where (\<lambda>s. s_id s = sid) f) d) sid = map_option f (session_of d sid)"
  by (simp add: session_of_def row_of_upd assms)

end
