(* ===== verification/Postgres_Upgrades.thy ===== *)
theory Postgres_Upgrades
  imports Postgres_Native
begin

text \<open>
  Receipts of package upgrades (\<open>internal/upgrade/upgrade.go\<close>) and their statements
  (\<open>internal/postgres/upgrades.go\<close>, \<open>dbsql/upgrades.sql.go\<close>): requesting an upgrade under a
  delivery hold, recording each effect once, and adopting the verified resource.
\<close>

section \<open>Requests and receipts\<close>

record upgrade_request =
  up_id :: string
  up_session :: string
  up_sandbox :: string
  up_path :: string
  up_version :: string

definition checkpoint_key_ok :: "string \<Rightarrow> bool" where
  \<comment> \<open>the regular expression \<open>^[a-z][a-z0-9-]{0,62}$\<close>\<close>
  "checkpoint_key_ok k = kind_ok k"

definition validate_checkpoint_key :: "string \<Rightarrow> err option" where
  "validate_checkpoint_key k =
    (if \<not> checkpoint_key_ok k then Some (Errorf ''checkpoint requires a stable lowercase operation key'') else None)"

definition nix_store :: string where
  "nix_store = ''/nix/store/''"

definition nix_name_char :: "char \<Rightarrow> bool" where
  "nix_name_char c = (is_lower c \<or> is_upper c \<or> is_digit c \<or> c \<in> set ''+._?-'')"

definition package_path_ok :: "string \<Rightarrow> bool" where
  \<comment> \<open>the regular expression \<open>^/nix/store/[a-z0-9]{32}-[a-zA-Z0-9+._?-]+$\<close>\<close>
  "package_path_ok p =
    (has_prefix p nix_store \<and>
     (let rest = drop (length nix_store) p in
       length rest > 33 \<and> list_all (\<lambda>c. is_lower c \<or> is_digit c) (take 32 rest) \<and>
       rest ! 32 = CHR ''-'' \<and> list_all nix_name_char (drop 33 rest)))"

definition package_version_ok :: "string \<Rightarrow> bool" where
  \<comment> \<open>the regular expression \<open>^[0-9]+.[0-9]+.[0-9]+$\<close>, its dots literal\<close>
  "package_version_ok v =
    (let parts = split_on (CHR ''.'') v in
     length parts = 3 \<and> list_all (\<lambda>q. q \<noteq> [] \<and> list_all is_digit q) parts)"

definition validate_upgrade_request :: "upgrade_request \<Rightarrow> err option" where
  "validate_upgrade_request r =
    (case validate_checkpoint_key (up_id r) of
       Some e \<Rightarrow> Some e
     | None \<Rightarrow>
         if up_session r = [] \<or> up_sandbox r = [] \<or> \<not> package_path_ok (up_path r) \<or> \<not> package_version_ok (up_version r)
         then Some (Errorf ''upgrade requires exact Session, Sandbox, staged Nix path, and package version'')
         else None)"

record checkpoint =
  cp_key :: string
  cp_reference :: string
  cp_source :: string

record upgrade_receipt =
  rc_request :: upgrade_request
  rc_source :: string
  rc_source_provider :: string
  rc_destination_provider :: string
  rc_destination :: string
  rc_requested :: time
  rc_previous :: string
  rc_quiesced :: "time option"
  rc_checkpoint :: checkpoint
  rc_activated :: "time option"
  rc_rollback :: "time option"
  rc_failure :: string
  rc_restored :: "time option"
  rc_verified :: "time option"
  rc_cp_deleted :: "time option"
  rc_finished :: "time option"

definition upgrade_outcome :: "upgrade_receipt \<Rightarrow> string" where
  "upgrade_outcome r =
    (if rc_finished r = None then []
     else if rc_rollback r \<noteq> None then ''rolled_back''
     else ''upgraded'')"

definition upgrade_status :: "upgrade_receipt \<Rightarrow> string" where
  "upgrade_status r =
    (if rc_finished r \<noteq> None then ''ready''
     else if rc_rollback r \<noteq> None \<and> rc_restored r = None then ''rolling_back''
     else if rc_activated r \<noteq> None \<or> rc_restored r \<noteq> None then ''verifying''
     else ''upgrading'')"

definition provider_of :: "db \<Rightarrow> string \<Rightarrow> string" where
  "provider_of d rid = (case resource_of d rid of None \<Rightarrow> [] | Some r \<Rightarrow> text_of (r_provider r))"

definition receipt_of :: "db \<Rightarrow> upgrade_row \<Rightarrow> upgrade_receipt" where
  "receipt_of d u =
    \<lparr>rc_request = \<lparr>up_id = u_id u,
        up_session = (case sandbox_of d (u_sandbox u) of None \<Rightarrow> [] | Some b \<Rightarrow> b_session b),
        up_sandbox = u_sandbox u, up_path = u_path u, up_version = u_version u\<rparr>,
     rc_source = u_source u, rc_source_provider = provider_of d (u_source u),
     rc_destination_provider = (case u_destination u of None \<Rightarrow> [] | Some i \<Rightarrow> provider_of d i),
     rc_destination = text_of (u_destination u), rc_requested = u_requested u,
     rc_previous = text_of (u_previous u), rc_quiesced = u_quiesced u,
     rc_checkpoint = \<lparr>cp_key = text_of (u_cp_key u), cp_reference = text_of (u_cp_ref u), cp_source = text_of (u_cp_source u)\<rparr>,
     rc_activated = u_activated u, rc_rollback = u_rollback u, rc_failure = text_of (u_failure u),
     rc_restored = u_restored u, rc_verified = u_verified u, rc_cp_deleted = u_cp_deleted u,
     rc_finished = u_finished u\<rparr>"

definition upgrade_joined :: "db \<Rightarrow> upgrade_row \<Rightarrow> bool" where
  \<comment> \<open>the inner joins of the receipt's query\<close>
  "upgrade_joined d u = (sandbox_of d (u_sandbox u) \<noteq> None \<and> resource_of d (u_source u) \<noteq> None)"

definition find_upgrade :: "db \<Rightarrow> string \<Rightarrow> upgrade_row option" where
  "find_upgrade d uid =
    (case row_of u_id uid (upgrades d) of
       None \<Rightarrow> None
     | Some u \<Rightarrow> if upgrade_joined d u then Some u else None)"

definition q_get_upgrade :: "string \<Rightarrow> (db, upgrade_receipt) act" where
  "q_get_upgrade uid =
    bnd (gets (\<lambda>d. map_option (receipt_of d) (find_upgrade d uid))) (\<lambda>r. the_row r (Sentinel ErrNoRows))"

definition session_upgrades :: "string \<Rightarrow> (db, upgrade_receipt list) act" where
  "session_upgrades sid = gets (\<lambda>d.
    map (receipt_of d) (sort_key (\<lambda>u. (u_requested u, u_id u))
      (filter (\<lambda>u. upgrade_joined d u \<and>
         (case sandbox_of d (u_sandbox u) of None \<Rightarrow> False | Some b \<Rightarrow> b_session b = sid)) (upgrades d))))"

section \<open>Statements\<close>

definition owns_resource :: "db \<Rightarrow> string \<Rightarrow> string \<Rightarrow> bool" where
  "owns_resource d bid rid = list_ex (\<lambda>r. r_id r = rid \<and> r_sandbox r = bid) (resources d)"

definition q_insert_upgrade :: "upgrade_request \<Rightarrow> string \<Rightarrow> (db, unit) act" where
  "q_insert_upgrade r source = (\<lambda>d.
    insert_tbl upgrades_update
      (\<lambda>d. first_violation
        [(list_ex (\<lambda>u. u_id u = up_id r) (upgrades d), unique_violation ''sandbox_upgrades_pkey''),
         (\<not> list_ex (\<lambda>h. h_id h = up_id r) (holds d), foreign_key_violation ''upgrades_hold''),
         (\<not> owns_resource d (up_sandbox r) source, foreign_key_violation ''upgrades_source'')])
      \<lparr>u_id = up_id r, u_sandbox = up_sandbox r, u_source = source, u_destination = None, u_path = up_path r,
       u_version = up_version r, u_requested = now d, u_previous = None, u_quiesced = None, u_cp_key = None,
       u_cp_ref = None, u_cp_source = None, u_activated = None, u_rollback = None, u_failure = None,
       u_restored = None, u_verified = None, u_cp_deleted = None, u_finished = None\<rparr> d)"

definition stamp :: "time option \<Rightarrow> db \<Rightarrow> time option" where
  \<comment> \<open>\<open>coalesce(x,clock_timestamp())\<close>\<close>
  "stamp x d = coalesce x (Some (now d))"

definition upd_upgrade :: "string \<Rightarrow> (upgrade_row \<Rightarrow> bool) \<Rightarrow> (db \<Rightarrow> upgrade_row \<Rightarrow> upgrade_row) \<Rightarrow> (db, nat) act" where
  "upd_upgrade uid p f = (\<lambda>d. update_tbl upgrades upgrades_update (\<lambda>u. u_id u = uid \<and> p u) (f d) d)"

definition q_upgrade_preparation :: "string \<Rightarrow> string \<Rightarrow> (db, nat) act" where
  "q_upgrade_preparation uid version =
    upd_upgrade uid (\<lambda>u. u_previous u = None \<or> u_previous u = Some version)
      (\<lambda>d u. u\<lparr>u_previous := Some version\<rparr>)"

definition q_upgrade_quiesced :: "string \<Rightarrow> (db, nat) act" where
  "q_upgrade_quiesced uid =
    upd_upgrade uid (\<lambda>u. u_previous u \<noteq> None) (\<lambda>d u. u\<lparr>u_quiesced := stamp (u_quiesced u) d\<rparr>)"

definition q_upgrade_checkpoint :: "string \<Rightarrow> checkpoint \<Rightarrow> (db, nat) act" where
  "q_upgrade_checkpoint uid c =
    upd_upgrade uid (\<lambda>u. u_quiesced u \<noteq> None \<and>
        (u_cp_ref u = None \<or> (u_cp_key u = Some (cp_key c) \<and> u_cp_ref u = Some (cp_reference c) \<and>
           u_cp_source u = Some (cp_source c))))
      (\<lambda>d u. u\<lparr>u_cp_key := Some (cp_key c), u_cp_ref := Some (cp_reference c), u_cp_source := Some (cp_source c)\<rparr>)"

definition q_upgrade_activated :: "string \<Rightarrow> (db, nat) act" where
  "q_upgrade_activated uid =
    upd_upgrade uid (\<lambda>u. u_cp_ref u \<noteq> None \<and> u_rollback u = None) (\<lambda>d u. u\<lparr>u_activated := stamp (u_activated u) d\<rparr>)"

definition q_upgrade_rollback :: "string \<Rightarrow> string \<Rightarrow> (db, nat) act" where
  "q_upgrade_rollback uid code =
    upd_upgrade uid (\<lambda>u. u_cp_ref u \<noteq> None \<and> u_verified u = None)
      (\<lambda>d u. u\<lparr>u_rollback := stamp (u_rollback u) d, u_failure := coalesce (u_failure u) (Some code)\<rparr>)"

definition q_bind_upgrade_destination :: "string \<Rightarrow> string \<Rightarrow> (db, nat) act" where
  "q_bind_upgrade_destination uid rid = (\<lambda>d.
    if list_ex (\<lambda>u. u_id u = uid \<and> \<not> owns_resource d (u_sandbox u) rid) (upgrades d)
    then (Inl (foreign_key_violation ''upgrades_destination''), d)
    else upd_upgrade uid (\<lambda>u. u_rollback u \<noteq> None \<and> (u_destination u = None \<or> u_destination u = Some rid))
      (\<lambda>d u. u\<lparr>u_destination := Some rid\<rparr>) d)"

definition q_upgrade_restored :: "string \<Rightarrow> (db, nat) act" where
  "q_upgrade_restored uid =
    upd_upgrade uid (\<lambda>u. u_destination u \<noteq> None \<and> u_rollback u \<noteq> None) (\<lambda>d u. u\<lparr>u_restored := stamp (u_restored u) d\<rparr>)"

definition q_upgrade_verified :: "string \<Rightarrow> (db, nat) act" where
  "q_upgrade_verified uid =
    upd_upgrade uid (\<lambda>u. (u_activated u \<noteq> None \<or> u_restored u \<noteq> None) \<and> (u_rollback u = None \<or> u_restored u \<noteq> None))
      (\<lambda>d u. u\<lparr>u_verified := stamp (u_verified u) d\<rparr>)"

definition q_upgrade_checkpoint_deleted :: "string \<Rightarrow> (db, nat) act" where
  "q_upgrade_checkpoint_deleted uid =
    upd_upgrade uid (\<lambda>u. u_cp_ref u \<noteq> None) (\<lambda>d u. u\<lparr>u_cp_deleted := stamp (u_cp_deleted u) d\<rparr>)"

definition q_upgrade_finished :: "string \<Rightarrow> (db, nat) act" where
  "q_upgrade_finished uid =
    upd_upgrade uid (\<lambda>u. u_verified u \<noteq> None) (\<lambda>d u. u\<lparr>u_finished := stamp (u_finished u) d\<rparr>)"

definition q_reserve_resource :: "string \<Rightarrow> string \<Rightarrow> string \<Rightarrow> (db, unit) act" where
  "q_reserve_resource rid bid nonce = (\<lambda>d.
    insert_tbl resources_update
      (\<lambda>d. first_violation
        [(\<not> hex64 nonce, check_violation ''ownership_nonce''),
         (list_ex (\<lambda>r. r_id r = rid \<or> r_nonce r = nonce) (resources d), unique_violation ''sandbox_resources''),
         (sandbox_of d bid = None, foreign_key_violation ''sandbox_resources_sandbox'')])
      \<lparr>r_id = rid, r_sandbox = bid, r_nonce = nonce, r_provider = None, r_reserved = now d,
       r_observed = None, r_deleted = None\<rparr> d)"

definition q_bind_recovered_resource :: "string \<Rightarrow> string \<Rightarrow> (db, nat) act" where
  "q_bind_recovered_resource rid pid = (\<lambda>d.
    update_tbl resources resources_update
      (\<lambda>r. r_id r = rid \<and> (r_deleted r = None \<and> (r_provider r = None \<or> r_provider r = Some pid)))
      (\<lambda>r. r\<lparr>r_provider := Some pid, r_observed := coalesce (r_observed r) (Some (now d))\<rparr>) d)"

definition q_switch_sandbox_resource :: "string \<Rightarrow> string \<Rightarrow> string \<Rightarrow> (db, nat) act" where
  \<comment> \<open>the foreign key on the active resource is checked when the transaction commits\<close>
  "q_switch_sandbox_resource bid source destination = (\<lambda>d.
    if list_ex (\<lambda>b. b_id b = bid \<and> b_active b = source) (sandboxes d) \<and> \<not> owns_resource d bid destination
    then (Inl (foreign_key_violation ''sandboxes_active_owned_resource''), d)
    else update_tbl sandboxes sandboxes_update (\<lambda>b. b_id b = bid \<and> b_active b = source)
           (\<lambda>b. b\<lparr>b_active := destination\<rparr>) d)"

definition q_quiescent :: "string \<Rightarrow> (db, bool) act" where
  "q_quiescent bid =
    bnd (gets (\<lambda>d. case sandbox_of d bid of None \<Rightarrow> None
      | Some b \<Rightarrow> map_option (\<lambda>s. s_pending_input s = None \<and> s_pending_turn s = None) (session_of d (b_session b))))
    (\<lambda>r. the_row r (Sentinel ErrNoRows))"

section \<open>The receipt writers\<close>

definition upgrade_wake_cause :: "string \<Rightarrow> string" where
  "upgrade_wake_cause uid = ''upgrade:'' @ uid"

definition request_sandbox_upgrade :: "absurd_env \<Rightarrow> string \<Rightarrow> upgrade_request \<Rightarrow> (db, upgrade_receipt) act" where
  "request_sandbox_upgrade env qn r =
    (case validate_upgrade_request r of Some e \<Rightarrow> fail e | None \<Rightarrow>
     with_delivery_hold (up_session r) (up_sandbox r) (up_id r) (\<lambda>j.
       bnd (attempt (q_get_upgrade (up_id r))) (\<lambda>got. case got of
         Inr old \<Rightarrow>
           seq (require (rc_request old = r) (Errorf ''upgrade identity already has different input'')) (ret old)
       | Inl e \<Rightarrow>
           if \<not> err_is e ErrNoRows then fail e else
           seq (require (sa_open j \<and> sa_cleanup j = CleanupPending) (Errorf ''upgrade requires an open direct Session''))
          (seq (require_sandbox_unheld (up_sandbox r))
          (bnd (q_get_sandbox (up_sandbox r)) (\<lambda>owned.
           seq (require (sb_provider_id owned \<noteq> []) (Errorf ''upgrade requires an attested existing resource''))
          (seq (q_insert_delivery_hold (up_id r) (up_sandbox r) ''workspace_upgrade'')
          (seq (q_insert_upgrade r (sb_resource_id owned))
          (bnd (signal_session_wake env qn (up_session r) (upgrade_wake_cause (up_id r))) (\<lambda>_.
           q_get_upgrade (up_id r)))))))))))"

definition record_upgrade_preparation :: "string \<Rightarrow> string \<Rightarrow> (db, unit) act" where
  "record_upgrade_preparation uid version = expect_one_rows (q_upgrade_preparation uid version)"

definition record_upgrade_quiesced :: "string \<Rightarrow> (db, unit) act" where
  "record_upgrade_quiesced uid = expect_one_rows (q_upgrade_quiesced uid)"

definition record_upgrade_checkpoint :: "string \<Rightarrow> checkpoint \<Rightarrow> (db, unit) act" where
  "record_upgrade_checkpoint uid c =
    seq (require (\<not> (cp_key c \<noteq> uid \<or> cp_reference c = [] \<or> cp_source c = []))
          (Errorf ''checkpoint omitted exact upgrade identity''))
   (expect_one_rows (q_upgrade_checkpoint uid c))"

definition record_upgrade_activated :: "string \<Rightarrow> (db, unit) act" where
  "record_upgrade_activated uid = expect_one_rows (q_upgrade_activated uid)"

definition request_upgrade_rollback :: "string \<Rightarrow> string \<Rightarrow> (db, unit) act" where
  "request_upgrade_rollback uid code = expect_one_rows (q_upgrade_rollback uid code)"

definition replacement_resource_id :: "string \<Rightarrow> string" where
  "replacement_resource_id uid = uid @ '':replacement''"

definition reserve_upgrade_destination :: "err + string \<Rightarrow> upgrade_receipt \<Rightarrow> bool \<Rightarrow> (db, unit) act" where
  "reserve_upgrade_destination nonce r replace =
    (let uid = up_id (rc_request r); bid = up_sandbox (rc_request r) in
     tx (bnd (gets (\<lambda>d. find_upgrade d uid)) (\<lambda>q.
         bnd (the_row q (Sentinel ErrNoRows)) (\<lambda>u.
         if u_destination u \<noteq> None then ret ()
         else if replace then
           bnd (lift nonce) (\<lambda>n.
           seq (q_reserve_resource (replacement_resource_id uid) bid n)
          (expect_one_rows (q_bind_upgrade_destination uid (replacement_resource_id uid))))
         else expect_one_rows (q_bind_upgrade_destination uid (u_source u))))))"

definition record_upgrade_restored :: "upgrade_receipt \<Rightarrow> string \<Rightarrow> (db, unit) act" where
  "record_upgrade_restored r pid =
    seq (require (pid \<noteq> []) (Errorf ''recovery omitted provider resource identity''))
   (tx (seq (expect_one_rows (q_bind_recovered_resource (rc_destination r) pid))
            (expect_one_rows (q_upgrade_restored (up_id (rc_request r))))))"

definition record_upgrade_verified :: "string \<Rightarrow> (db, unit) act" where
  "record_upgrade_verified uid = expect_one_rows (q_upgrade_verified uid)"

definition record_upgrade_checkpoint_deleted :: "string \<Rightarrow> (db, unit) act" where
  "record_upgrade_checkpoint_deleted uid = expect_one_rows (q_upgrade_checkpoint_deleted uid)"

section \<open>Adopting the verified resource\<close>

definition release_target :: "upgrade_receipt \<Rightarrow> string" where
  "release_target r = (if rc_destination r \<noteq> [] then rc_destination r else rc_source r)"

fun resources_releasable :: "upgrade_receipt \<Rightarrow> sandbox_resource list \<Rightarrow> err option" where
  "resources_releasable r [] =
    (if release_target r = rc_source r \<and> rc_cp_deleted r = None then Some (Errorf ''unused checkpoint cleanup is not verified'')
     else None)"
| "resources_releasable r (x # xs) =
    (if res_id x = release_target r \<and> (res_provider_id x = [] \<or> res_deleted_at x \<noteq> None) then
       Some (Errorf ''verified destination is absent'')
     else if res_id x = rc_source r \<and> release_target r \<noteq> rc_source r \<and> res_deleted_at x = None then
       Some (Errorf ''old resource cleanup is not verified'')
     else resources_releasable r xs)"

definition authorize_upgrade_release :: "upgrade_receipt \<Rightarrow> (db, unit) act" where
  "authorize_upgrade_release r =
    bnd (q_get_delivery_hold (up_id (rc_request r))) (\<lambda>h.
    seq (require (\<not> (h_sandbox h \<noteq> up_sandbox (rc_request r) \<or> h_released h \<noteq> None \<or> rc_verified r = None))
          (Errorf ''upgrade requires its held verified recovery receipt''))
   (bnd (q_quiescent (up_sandbox (rc_request r))) (\<lambda>quiet.
    seq (require quiet (Errorf ''native delivery is not quiescent''))
   (bnd (store_sandbox_resources (up_session (rc_request r))) (\<lambda>rs.
    case resources_releasable r rs of Some e \<Rightarrow> fail e | None \<Rightarrow> ret ())))))"

definition upgrade_finished_cause :: "string \<Rightarrow> string" where
  "upgrade_finished_cause uid = ''upgrade-finished:'' @ uid"

definition switch_and_release_upgrade :: "absurd_env \<Rightarrow> string \<Rightarrow> upgrade_receipt \<Rightarrow> (db, unit) act" where
  "switch_and_release_upgrade env qn r =
    (let uid = up_id (rc_request r); bid = up_sandbox (rc_request r) in
     seq (expect_one_rows (q_switch_sandbox_resource bid (rc_source r) (release_target r)))
    (seq (expect_one_rows (q_upgrade_finished uid))
    (seq (expect_one_rows (q_release_delivery_hold uid bid))
    (bnd (signal_session_wake env qn (up_session (rc_request r)) (upgrade_finished_cause uid)) (\<lambda>_. ret ())))))"

definition finish_sandbox_upgrade :: "absurd_env \<Rightarrow> string \<Rightarrow> upgrade_receipt \<Rightarrow> (db, unit) act" where
  "finish_sandbox_upgrade env qn expected =
    tx (bnd (q_session_admission (up_session (rc_request expected))) (\<lambda>j.
        seq (require (sa_open j \<and> sa_cleanup j = CleanupPending) (Errorf ''upgrade release requires open admission''))
       (bnd (q_get_upgrade (up_id (rc_request expected))) (\<lambda>r.
        seq (require (rc_request r = rc_request expected \<and> rc_source r = rc_source expected \<and>
                      rc_destination r = rc_destination expected) (Errorf ''upgrade custody changed''))
       (if rc_finished r \<noteq> None then ret ()
        else seq (authorize_upgrade_release r) (switch_and_release_upgrade env qn r))))))"

section \<open>The statements preserve the invariants\<close>

lemma wp_upd_upgrade [wp_simps]:
  "wp (upd_upgrade uid p f) Q E =
    (\<lambda>d. Q (count_where (\<lambda>u. u_id u = uid \<and> p u) (upgrades d))
           (upgrades_update (upd_where (\<lambda>u. u_id u = uid \<and> p u) (f d)) d))"
  by (simp add: upd_upgrade_def wp_simps)

lemma db_inv_upd_upgrade:
  assumes inv: "db_inv d"
    and id: "\<And>u. u_id (f u) = u_id u" and sb: "\<And>u. u_sandbox (f u) = u_sandbox u"
    and ok: "\<And>u. p u \<Longrightarrow> upgrade_ok u \<Longrightarrow> upgrade_ok (f u)"
    and fin: "\<And>u. u_finished (f u) = None \<Longrightarrow> u_finished u = None"
  shows "db_inv (upgrades_update (upd_where p f) d)"
proof -
  have us: "upgrades_ok (upgrades d)" and held: "upgrades_held (sessions d) (sandboxes d) (holds d) (upgrades d)"
    using inv by (simp_all add: db_inv_def)
  have "upgrades_ok (upd_where p f (upgrades d))"
    using us id ok by (rule upgrades_ok_upd)
  moreover have "upgrades_held (sessions d) (sandboxes d) (holds d) (upd_where p f (upgrades d))"
    using held id sb fin by (rule upgrades_held_upd_upgrade)
  ultimately show ?thesis using inv by (simp add: db_inv_def)
qed

lemma keeps_upd_upgrade:
  assumes "\<And>d u. u_id (f d u) = u_id u" and "\<And>d u. u_sandbox (f d u) = u_sandbox u"
    and "\<And>d u. p u \<Longrightarrow> upgrade_ok u \<Longrightarrow> upgrade_ok (f d u)"
    and "\<And>d u. u_finished (f d u) = None \<Longrightarrow> u_finished u = None"
  shows "keeps db_inv (upd_upgrade uid p f)"
proof (rule keepsI)
  fix d assume "db_inv d"
  then have "db_inv (upgrades_update (upd_where (\<lambda>u. u_id u = uid \<and> p u) (f d)) d)"
    by (rule db_inv_upd_upgrade) (use assms in auto)
  then show "wp (upd_upgrade uid p f) (\<lambda>_. db_inv) (\<lambda>_. db_inv) d" by (simp add: wp_simps)
qed

lemma stamp_Some [simp]: "stamp x d \<noteq> None" "(\<exists>t. stamp x d = Some t)" "(stamp x d = None) = False"
  by (simp_all add: stamp_def coalesce_def split: option.split)

lemma coalesce_ex [simp]: "\<exists>y. coalesce x (Some v) = Some y"
  by (simp add: coalesce_def split: option.split)

text \<open>The receipt's well-formedness depends only on which of its columns are set.\<close>

definition upgrade_flags ::
  "bool \<Rightarrow> bool \<Rightarrow> bool \<Rightarrow> bool \<Rightarrow> bool \<Rightarrow> bool \<Rightarrow> bool \<Rightarrow> bool \<Rightarrow> bool \<Rightarrow> bool \<Rightarrow> bool \<Rightarrow> bool \<Rightarrow> bool \<Rightarrow> bool" where
  "upgrade_flags prev quiet key rf src act roll fl dst rest ver del fin =
    ((quiet \<longrightarrow> prev) \<and> (rf \<longrightarrow> quiet) \<and> (key = rf) \<and> (key = src) \<and> (act \<longrightarrow> rf) \<and> (roll \<longrightarrow> rf) \<and>
     (roll = fl) \<and> (dst \<longrightarrow> roll) \<and> (rest \<longrightarrow> roll \<and> dst) \<and> (ver \<longrightarrow> act \<or> rest) \<and>
     (ver \<longrightarrow> roll \<longrightarrow> rest) \<and> (del \<longrightarrow> rf) \<and> (fin \<longrightarrow> ver))"

definition set_col :: "'a option \<Rightarrow> bool" where
  "set_col x = (x \<noteq> None)"

lemma set_col_simps [simp]: "set_col (Some x)" "\<not> set_col None" "set_col (stamp y d)"
  by (simp_all add: set_col_def)

lemma set_col_coalesce [simp]: "set_col (coalesce x (Some v))"
  by (simp add: set_col_def)

lemma upgrade_ok_flags:
  "upgrade_ok u = (upgrade_flags (set_col (u_previous u)) (set_col (u_quiesced u)) (set_col (u_cp_key u))
    (set_col (u_cp_ref u)) (set_col (u_cp_source u)) (set_col (u_activated u)) (set_col (u_rollback u))
    (set_col (u_failure u)) (set_col (u_destination u)) (set_col (u_restored u)) (set_col (u_verified u))
    (set_col (u_cp_deleted u)) (set_col (u_finished u)) \<and> u_source u \<noteq> [] \<and> u_destination u \<noteq> Some [])"
  unfolding upgrade_ok_def upgrade_flags_def set_col_def by argo

lemma keeps_upgrade_preparation [keeps_intros]: "keeps db_inv (record_upgrade_preparation uid v)"
  unfolding record_upgrade_preparation_def q_upgrade_preparation_def
  by (intro keeps_intros keeps_upd_upgrade)
    (simp_all add: upgrade_ok_flags set_col_def [symmetric] del: not_None_eq, (auto simp: upgrade_flags_def)?)

lemma keeps_upgrade_quiesced [keeps_intros]: "keeps db_inv (record_upgrade_quiesced uid)"
  unfolding record_upgrade_quiesced_def q_upgrade_quiesced_def
  by (intro keeps_intros keeps_upd_upgrade)
    (simp_all add: upgrade_ok_flags set_col_def [symmetric] del: not_None_eq, (auto simp: upgrade_flags_def)?)

lemma flags_checkpoint:
  "upgrade_flags prev quiet key rf src act roll fl dst rest ver del fin \<Longrightarrow> quiet \<Longrightarrow>
    upgrade_flags prev quiet True True True act roll fl dst rest ver del fin"
  by (auto simp: upgrade_flags_def)

lemma keeps_upgrade_checkpoint [keeps_intros]: "keeps db_inv (record_upgrade_checkpoint uid c)"
proof -
  have "keeps db_inv (q_upgrade_checkpoint uid c)"
    unfolding q_upgrade_checkpoint_def
  proof (rule keeps_upd_upgrade)
    fix d :: db and u :: upgrade_row
    assume "u_quiesced u \<noteq> None \<and> (u_cp_ref u = None \<or> (u_cp_key u = Some (cp_key c) \<and>
      u_cp_ref u = Some (cp_reference c) \<and> u_cp_source u = Some (cp_source c)))"
    then have "set_col (u_quiesced u)" by (simp add: set_col_def)
    then show "upgrade_ok (u\<lparr>u_cp_key := Some (cp_key c), u_cp_ref := Some (cp_reference c),
        u_cp_source := Some (cp_source c)\<rparr>)" if "upgrade_ok u"
      using flags_checkpoint [OF that [unfolded upgrade_ok_flags, THEN conjunct1]] that
      by (simp add: upgrade_ok_flags)
  qed simp_all
  then show ?thesis unfolding record_upgrade_checkpoint_def by (intro keeps_intros)
qed

lemma keeps_upgrade_activated [keeps_intros]: "keeps db_inv (record_upgrade_activated uid)"
  unfolding record_upgrade_activated_def q_upgrade_activated_def
  by (intro keeps_intros keeps_upd_upgrade)
    (simp_all add: upgrade_ok_flags set_col_def [symmetric] del: not_None_eq, (auto simp: upgrade_flags_def)?)

lemma keeps_upgrade_rollback [keeps_intros]: "keeps db_inv (request_upgrade_rollback uid code)"
  unfolding request_upgrade_rollback_def q_upgrade_rollback_def
  by (intro keeps_intros keeps_upd_upgrade)
    (simp_all add: upgrade_ok_flags set_col_def [symmetric] del: not_None_eq, (auto simp: upgrade_flags_def)?)

lemma keeps_upgrade_verified [keeps_intros]: "keeps db_inv (record_upgrade_verified uid)"
  unfolding record_upgrade_verified_def q_upgrade_verified_def
  by (intro keeps_intros keeps_upd_upgrade)
    (simp_all add: upgrade_ok_flags set_col_def [symmetric] del: not_None_eq, (auto simp: upgrade_flags_def)?)

lemma keeps_upgrade_cp_deleted [keeps_intros]: "keeps db_inv (record_upgrade_checkpoint_deleted uid)"
  unfolding record_upgrade_checkpoint_deleted_def q_upgrade_checkpoint_deleted_def
  by (intro keeps_intros keeps_upd_upgrade)
    (simp_all add: upgrade_ok_flags set_col_def [symmetric] del: not_None_eq, (auto simp: upgrade_flags_def)?)

lemma keeps_upgrade_restored [keeps_intros]: "keeps db_inv (q_upgrade_restored uid)"
  unfolding q_upgrade_restored_def
  by (intro keeps_intros keeps_upd_upgrade)
    (simp_all add: upgrade_ok_flags set_col_def [symmetric] del: not_None_eq, (auto simp: upgrade_flags_def)?)

lemma keeps_upgrade_finished [keeps_intros]: "keeps db_inv (q_upgrade_finished uid)"
  unfolding q_upgrade_finished_def
  by (intro keeps_intros keeps_upd_upgrade)
    (simp_all add: upgrade_ok_flags set_col_def [symmetric] del: not_None_eq, (auto simp: upgrade_flags_def)?)

lemma owns_resource_ne: "resources_ok bs (resources d) \<Longrightarrow> owns_resource d bid rid \<Longrightarrow> rid \<noteq> []"
  by (auto simp: owns_resource_def list_ex_iff resources_ok_def)

lemma flags_destination:
  "upgrade_flags prev quiet key rf src act roll fl dst rest ver del fin \<Longrightarrow> roll \<Longrightarrow>
    upgrade_flags prev quiet key rf src act roll fl True rest ver del fin"
  by (auto simp: upgrade_flags_def)

lemma keeps_bind_destination [keeps_intros]: "keeps db_inv (q_bind_upgrade_destination uid rid)"
proof (rule keepsI)
  fix d assume inv: "db_inv d"
  let ?p = "\<lambda>u. u_rollback u \<noteq> None \<and> (u_destination u = None \<or> u_destination u = Some rid)"
  show "wp (q_bind_upgrade_destination uid rid) (\<lambda>_. db_inv) (\<lambda>_. db_inv) d"
  proof (cases "list_ex (\<lambda>u. u_id u = uid \<and> \<not> owns_resource d (u_sandbox u) rid) (upgrades d)")
    case False
    have "db_inv (upgrades_update (upd_where (\<lambda>u. u_id u = uid \<and> ?p u) (\<lambda>u. u\<lparr>u_destination := Some rid\<rparr>)) d)"
    proof (cases "rid = []")
      case True
      then have "\<forall>u \<in> set (upgrades d). u_id u \<noteq> uid"
        using False inv owns_resource_ne [of "sandboxes d" d] by (auto simp: db_inv_def list_ex_iff)
      then have "upd_where (\<lambda>u. u_id u = uid \<and> ?p u) (\<lambda>u. u\<lparr>u_destination := Some rid\<rparr>) (upgrades d) = upgrades d"
        by (intro upd_where_none) simp
      with inv show ?thesis by (simp add: db_inv_def)
    next
      case ne: False
      show ?thesis
      proof (rule db_inv_upd_upgrade [OF inv])
        fix u assume p: "u_id u = uid \<and> ?p u" and ok: "upgrade_ok u"
        from p have "set_col (u_rollback u)" by (simp add: set_col_def)
        from flags_destination [OF ok [unfolded upgrade_ok_flags, THEN conjunct1] this] ok ne
        show "upgrade_ok (u\<lparr>u_destination := Some rid\<rparr>)" by (simp add: upgrade_ok_flags)
      qed simp_all
    qed
    with False show ?thesis by (simp add: q_bind_upgrade_destination_def wp_def upd_upgrade_def update_tbl_def)
  qed (use inv in \<open>simp add: q_bind_upgrade_destination_def wp_def\<close>)
qed

lemma keeps_get_upgrade [keeps_intros]: "keeps I (q_get_upgrade uid)"
  by (simp add: q_get_upgrade_def keeps_intros)

lemma keeps_quiescent [keeps_intros]: "keeps I (q_quiescent bid)"
  by (simp add: q_quiescent_def keeps_intros)

lemma keeps_session_upgrades [keeps_intros]: "keeps I (session_upgrades sid)"
  by (simp add: session_upgrades_def keeps_intros)

lemma keeps_sandbox_resources [keeps_intros]: "keeps I (store_sandbox_resources sid)"
  by (simp add: store_sandbox_resources_def keeps_intros)

lemma keeps_sandbox_resource [keeps_intros]: "keeps I (store_sandbox_resource sid bid rid)"
  by (simp add: store_sandbox_resource_def keeps_intros)

lemma keeps_reserve_resource [keeps_intros]:
  assumes rid: "rid \<noteq> []"
  shows "keeps db_inv (q_reserve_resource rid bid nonce)"
proof (rule keepsI)
  fix d assume inv: "db_inv d"
  let ?r = "\<lparr>r_id = rid, r_sandbox = bid, r_nonce = nonce, r_provider = None, r_reserved = now d,
       r_observed = None, r_deleted = None\<rparr>"
  have "resources_ok (sandboxes d) (add_row ?r (resources d))"
    if "\<not> list_ex (\<lambda>r. r_id r = rid \<or> r_nonce r = nonce) (resources d)" "sandbox_of d bid \<noteq> None"
  proof -
    have "\<exists>b \<in> set (sandboxes d). b_id b = bid"
      using that(2) by (auto simp: sandbox_of_def dest: row_of_in row_of_key)
    with that(1) inv rid show ?thesis by (auto simp: db_inv_def resources_ok_def list_ex_iff)
  qed
  then have "db_inv (resources_update (add_row ?r) d)"
    if "\<not> list_ex (\<lambda>r. r_id r = rid \<or> r_nonce r = nonce) (resources d)" "sandbox_of d bid \<noteq> None"
    using inv that by (intro db_inv_resources) simp_all
  with inv show "wp (q_reserve_resource rid bid nonce) (\<lambda>_. db_inv) (\<lambda>_. db_inv) d"
    by (auto simp: q_reserve_resource_def wp_simps first_violation_None split: option.split)
qed

lemma keeps_bind_recovered [keeps_intros]: "keeps db_inv (q_bind_recovered_resource rid pid)"
proof (rule keepsI)
  fix d assume inv: "db_inv d"
  have "db_inv (resources_update (upd_where p (\<lambda>r. r\<lparr>r_provider := Some pid,
      r_observed := coalesce (r_observed r) (Some (now d))\<rparr>)) d)" for p
    by (rule db_inv_resources [OF inv], rule resources_ok_upd) (use inv in \<open>simp_all add: db_inv_def\<close>)
  then show "wp (q_bind_recovered_resource rid pid) (\<lambda>_. db_inv) (\<lambda>_. db_inv) d"
    by (simp add: q_bind_recovered_resource_def wp_simps)
qed

lemma keeps_switch_resource [keeps_intros]: "keeps db_inv (q_switch_sandbox_resource bid source destination)"
proof (rule keepsI)
  fix d assume inv: "db_inv d"
  let ?p = "\<lambda>b. b_id b = bid \<and> b_active b = source" and ?f = "\<lambda>b. b\<lparr>b_active := destination\<rparr>"
  have ok: "db_inv (sandboxes_update (upd_where ?p ?f) d)"
    if own: "\<not> list_ex ?p (sandboxes d) \<or> owns_resource d bid destination"
  proof -
    have "\<forall>b \<in> set (sandboxes d). ?p b \<longrightarrow> (\<exists>r \<in> set (resources d). r_id r = destination \<and> r_sandbox r = b_id b)"
      using own by (auto simp: owns_resource_def list_ex_iff)
    then have "resources_ok (upd_where ?p ?f (sandboxes d)) (resources d)"
      using inv by (auto simp: db_inv_def resources_ok_def map_upd_where)
    moreover have "cleanup_over (sessions d) (upd_where ?p ?f (sandboxes d)) i" if "cleanup_over (sessions d) (sandboxes d) i" for i
      using that by (auto simp: cleanup_over_def)
    then have "upgrades_held (sessions d) (upd_where ?p ?f (sandboxes d)) (holds d) (upgrades d)"
      using inv upgrades_held_cong [of "sessions d" "sandboxes d" "holds d" "upgrades d" "sessions d" "upd_where ?p ?f (sandboxes d)"]
      by (simp add: db_inv_def)
    moreover have "ops_held (sessions d) (upd_where ?p ?f (sandboxes d)) (holds d) (pending_ops (recoveries d) (branches d))"
      by (rule ops_held_cong [where ss = "sessions d" and bs = "sandboxes d" and hs = "holds d"])
        (use inv in \<open>auto simp: db_inv_def session_closed_def\<close>)
    ultimately show ?thesis using inv by (simp add: db_inv_def)
  qed
  with inv show "wp (q_switch_sandbox_resource bid source destination) (\<lambda>_. db_inv) (\<lambda>_. db_inv) d"
    by (simp add: q_switch_sandbox_resource_def wp_def update_tbl_def)
qed

lemma keeps_reserve_destination [keeps_intros]: "keeps db_inv (reserve_upgrade_destination nonce r replace)"
  unfolding reserve_upgrade_destination_def Let_def
  by (intro keeps_intros) (simp_all add: replacement_resource_id_def)

lemma keeps_record_restored [keeps_intros]: "keeps db_inv (record_upgrade_restored r pid)"
  unfolding record_upgrade_restored_def by (intro keeps_intros)

text \<open>
  A hold is released together with the operation that owns it. An identity names the hold of
  one operation only.
\<close>

lemma hold_of_id:
  assumes "db_inv d" and "h \<in> set (holds d)" and "g \<in> set (holds d)" and "h_id h = h_id g"
  shows "h = g"
  using assms by (auto simp: db_inv_def holds_ok_def distinct_map dest: inj_onD)

lemma pending_ops_reason:
  "(i, bid, why, x) \<in> set (pending_ops vs ns) \<Longrightarrow> why = ''checkpoint_recovery'' \<or> why = ''checkpoint_branch''"
  by (auto simp: pending_ops_def)

lemma upgrade_id_not_op:
  assumes inv: "db_inv d" and u: "u \<in> set (upgrades d)"
  shows "(u_id u, bid, why, x) \<notin> set (pending_ops (recoveries d) (branches d))"
proof
  assume op: "(u_id u, bid, why, x) \<in> set (pending_ops (recoveries d) (branches d))"
  then have "op_held (sessions d) (sandboxes d) (holds d) (u_id u, bid, why, x)"
    using inv by (simp add: db_inv_def ops_held_def)
  then obtain g where g: "g \<in> set (holds d)" "h_id g = u_id u" "h_reason g = why" by (rule op_heldE)
  have "upgrade_held (sessions d) (sandboxes d) (holds d) u"
    using inv u by (simp add: db_inv_def upgrades_held_def)
  then obtain h where h: "h \<in> set (holds d)" "h_id h = u_id u" "h_reason h = ''workspace_upgrade''"
    by (rule upgrade_heldE)
  have "why = ''workspace_upgrade''" using hold_of_id [OF inv g(1) h(1)] g h by simp
  with pending_ops_reason [OF op] show False by auto
qed

lemma db_inv_release_finished:
  assumes inv: "db_inv d"
    and fin: "\<forall>u \<in> set (upgrades d). u_id u = uid \<longrightarrow> u_finished u \<noteq> None"
    and ops: "\<And>i why. (uid, i, why, True) \<notin> set (pending_ops (recoveries d) (branches d))"
    and q: "\<And>h. q h \<Longrightarrow> h_id h = uid"
  shows "db_inv (holds_update (upd_where q (\<lambda>h. h\<lparr>h_released := coalesce (h_released h) (Some t)\<rparr>)) d)"
proof -
  let ?g = "\<lambda>h. h\<lparr>h_released := coalesce (h_released h) (Some t)\<rparr>"
  have "holds_ok (upd_where q ?g (holds d))"
    by (rule holds_ok_release) (use inv in \<open>simp_all add: db_inv_def\<close>)
  moreover have "upgrades_held (sessions d) (sandboxes d) (upd_where q ?g (holds d)) (upgrades d)"
    by (rule upgrades_held_holds) (use inv fin q in \<open>auto simp: db_inv_def\<close>)
  moreover have "ops_held (sessions d) (sandboxes d) (upd_where q ?g (holds d)) (pending_ops (recoveries d) (branches d))"
    by (rule ops_held_holds) (use inv ops q in \<open>auto simp: db_inv_def\<close>)
  ultimately show ?thesis using inv by (simp add: db_inv_def)
qed

lemma keeps_switch_and_release [keeps_intros]: "keeps db_inv (switch_and_release_upgrade env qn r)"
proof -
  let ?uid = "up_id (rc_request r)" and ?bid = "up_sandbox (rc_request r)"
  have tail: "keeps db_inv (bnd (signal_session_wake env qn sid cause) (\<lambda>_. ret ()))" for sid cause
    by (intro keeps_intros)
  have "keeps db_inv (seq (expect_one_rows (q_upgrade_finished ?uid))
     (seq (expect_one_rows (q_release_delivery_hold ?uid ?bid))
       (bnd (signal_session_wake env qn sid cause) (\<lambda>_. ret ()))))" for sid cause
  proof (rule keepsI)
    fix d assume inv: "db_inv d"
    let ?p = "\<lambda>u. u_id u = ?uid \<and> u_verified u \<noteq> None" and ?f = "\<lambda>u. u\<lparr>u_finished := stamp (u_finished u) d\<rparr>"
    let ?e = "upgrades_update (upd_where ?p ?f) d"
    let ?t = "\<lambda>e. holds_update (upd_where (\<lambda>h. h_id h = ?uid \<and> h_sandbox h = ?bid)
      (\<lambda>h. h\<lparr>h_released := coalesce (h_released h) (Some (now e))\<rparr>)) e"
    have e: "db_inv ?e"
      using keepsD [OF keeps_upgrade_finished inv, of ?uid] by (simp add: q_upgrade_finished_def wp_simps)
    have t: "db_inv (?t ?e)" if "count_where ?p (upgrades d) = 1"
    proof (rule db_inv_release_finished [OF e])
      have "distinct (map u_id (upgrades d))" using inv by (simp add: db_inv_def upgrades_ok_def)
      from stamped_by_key [OF this that, of ?f "\<lambda>u. u_finished u \<noteq> None"]
      show "\<forall>u \<in> set (upgrades ?e). u_id u = ?uid \<longrightarrow> u_finished u \<noteq> None" by simp
      obtain u where "u \<in> set (upgrades d)" "u_id u = ?uid"
        using count_where_pos [of ?p "upgrades d"] \<open>count_where ?p (upgrades d) = 1\<close> by auto
      then show "(?uid, i, why, True) \<notin> set (pending_ops (recoveries ?e) (branches ?e))" for i why
        using upgrade_id_not_op [OF inv \<open>u \<in> set (upgrades d)\<close>, of i why True] by simp
    qed simp
    show "wp (seq (expect_one_rows (q_upgrade_finished ?uid))
     (seq (expect_one_rows (q_release_delivery_hold ?uid ?bid))
       (bnd (signal_session_wake env qn sid cause) (\<lambda>_. ret ())))) (\<lambda>_. db_inv) (\<lambda>_. db_inv) d"
      using e t keepsD [OF tail, of "?t ?e" sid cause]
      by (simp add: wp_seq wp_expect_one_rows q_upgrade_finished_def q_release_delivery_hold_def wp_upd_upgrade
          wp_update_tbl_at)
  qed
  then show ?thesis
    unfolding switch_and_release_upgrade_def Let_def
    by (intro keeps_seq [where m = "expect_one_rows (q_switch_sandbox_resource b x y)" for b x y] keeps_expect_one keeps_switch_resource)
qed

lemma keeps_authorize_release [keeps_intros]: "keeps db_inv (authorize_upgrade_release r)"
  unfolding authorize_upgrade_release_def by (intro keeps_intros)

lemma keeps_finish_upgrade [keeps_intros]: "keeps db_inv (finish_sandbox_upgrade env qn r)"
  unfolding finish_sandbox_upgrade_def by (intro keeps_intros)

text \<open>A hold and its upgrade are inserted together.\<close>

lemma keeps_insert_upgrade_held [keeps_intros]:
  assumes "keeps db_inv rest"
  shows "keeps db_inv (seq (q_insert_delivery_hold (up_id r) (up_sandbox r) ''workspace_upgrade'')
    (seq (q_insert_upgrade r source) rest))"
proof (rule keepsI)
  fix d assume inv: "db_inv d"
  let ?h = "\<lparr>h_id = up_id r, h_sandbox = up_sandbox r, h_reason = ''workspace_upgrade'', h_requested = now d, h_released = None\<rparr>"
  let ?u = "\<lparr>u_id = up_id r, u_sandbox = up_sandbox r, u_source = source, u_destination = None, u_path = up_path r,
       u_version = up_version r, u_requested = now d, u_previous = None, u_quiesced = None, u_cp_key = None,
       u_cp_ref = None, u_cp_source = None, u_activated = None, u_rollback = None, u_failure = None,
       u_restored = None, u_verified = None, u_cp_deleted = None, u_finished = None\<rparr>"
  let ?e = "holds_update (add_row ?h) d"
  have e: "db_inv ?e" if "\<not> list_ex (\<lambda>h. h_id h = up_id r) (holds d)"
      "\<not> list_ex (\<lambda>h. h_sandbox h = up_sandbox r \<and> h_released h = None) (holds d)"
    by (rule db_inv_add_hold [OF inv]) (use that in simp_all)
  have held: "upgrade_held (sessions d) (sandboxes d) (add_row ?h (holds d)) ?u"
    by (rule upgrade_heldI [of ?h]) simp_all
  have fresh: "upgrade_ok ?u" if "source \<noteq> []" using that by (simp add: upgrade_ok_def)
  have f: "db_inv (upgrades_update (add_row ?u) ?e)" if inve: "db_inv ?e"
      and new: "\<not> list_ex (\<lambda>u. u_id u = up_id r) (upgrades d)" and src: "owns_resource d (up_sandbox r) source"
  proof -
    have "source \<noteq> []" using inv src owns_resource_ne [of "sandboxes d" d] by (simp add: db_inv_def)
    note fresh = fresh [OF this]
    have "up_id r \<notin> u_id ` set (upgrades d)" using new by (auto simp: list_ex_iff)
    moreover have "upgrades_ok (upgrades d)" using inv by (simp add: db_inv_def)
    ultimately have "upgrades_ok (add_row ?u (upgrades d))"
      using fresh by (simp add: upgrades_ok_def)
    with inve held show ?thesis by (simp add: db_inv_def upgrades_held_def)
  qed
  have hold: "wp (q_insert_delivery_hold (up_id r) (up_sandbox r) ''workspace_upgrade'')
      (\<lambda>_ t. t = ?e \<and> db_inv ?e) (\<lambda>_. db_inv) d"
    unfolding q_insert_delivery_hold_def wp_insert_tbl_at first_violation.simps
    using inv e by (simp split: if_split)
  have ins: "wp (q_insert_upgrade r source) (\<lambda>_. db_inv) (\<lambda>_. db_inv) ?e" if "db_inv ?e"
    unfolding q_insert_upgrade_def wp_insert_tbl_at first_violation.simps
    using f [OF that] that by (simp add: owns_resource_def split: if_split)
  have "wp (seq (q_insert_upgrade r source) rest) (\<lambda>_. db_inv) (\<lambda>_. db_inv) ?e" if "db_inv ?e"
    unfolding wp_seq using ins [OF that] by (rule wp_mono) (simp_all add: keepsD [OF assms])
  then show "wp (seq (q_insert_delivery_hold (up_id r) (up_sandbox r) ''workspace_upgrade'')
    (seq (q_insert_upgrade r source) rest)) (\<lambda>_. db_inv) (\<lambda>_. db_inv) d"
    by (subst wp_seq) (rule wp_mono [OF hold], auto)
qed

lemma keeps_request_upgrade [keeps_intros]: "keeps db_inv (request_sandbox_upgrade env qn r)"
  unfolding request_sandbox_upgrade_def
  by (intro keeps_intros)

end
