(* ===== verification/Dorf_World.thy ===== *)
theory Dorf_World
  imports Postgres_Upgrades
begin

text \<open>
  The services of Dorf act on the database and on the outside world: providers, harnesses and
  the task queue's claims. A world pairs the two; what an external call does to its part is a
  parameter of the services. The task that runs a service is the context value
  \<open>absurd.TaskFromContext\<close> returns: the task's identity and name, or nothing.
\<close>

record 'w world =
  w_db :: db
  w_ext :: 'w

type_synonym ('w, 'a) eff = "('w world, 'a) act"

type_synonym task_context = "(string \<times> string) option"

definition on_db :: "(db, 'a) act \<Rightarrow> ('w, 'a) eff" where
  "on_db m = (\<lambda>w. case m (w_db w) of (r, d) \<Rightarrow> (r, w\<lparr>w_db := d\<rparr>))"

definition on_ext :: "('w, 'a) act \<Rightarrow> ('w, 'a) eff" where
  "on_ext m = (\<lambda>w. case m (w_ext w) of (r, e) \<Rightarrow> (r, w\<lparr>w_ext := e\<rparr>))"

definition db_ok :: "'w world \<Rightarrow> bool" where
  "db_ok w = db_inv (w_db w)"

lemma wp_on_db [wp_simps]:
  "wp (on_db m) Q E = (\<lambda>w. wp m (\<lambda>x d. Q x (w\<lparr>w_db := d\<rparr>)) (\<lambda>e d. E e (w\<lparr>w_db := d\<rparr>)) (w_db w))"
  by (rule ext) (auto simp: wp_def on_db_def split: prod.splits sum.splits)

lemma wp_on_ext [wp_simps]:
  "wp (on_ext m) Q E = (\<lambda>w. wp m (\<lambda>x e. Q x (w\<lparr>w_ext := e\<rparr>)) (\<lambda>x e. E x (w\<lparr>w_ext := e\<rparr>)) (w_ext w))"
  by (rule ext) (auto simp: wp_def on_ext_def split: prod.splits sum.splits)

lemma keeps_on_db [keeps_intros]: "keeps db_inv m \<Longrightarrow> keeps db_ok (on_db m)"
  by (rule keepsI) (auto simp: wp_simps db_ok_def dest!: keepsD elim!: wp_mono)

lemma keeps_on_ext [keeps_intros]: "keeps db_ok (on_ext m)"
  by (rule keepsI) (auto simp: wp_simps db_ok_def intro: wp_mono [OF wp_trivial])

text \<open>An external call leaves the database alone.\<close>

lemma wp_ext_db: "wp (on_ext m) (\<lambda>_ v. w_db v = w_db w) (\<lambda>_ v. w_db v = w_db w) w"
  by (simp add: wp_simps)

definition only_reads :: "('s, 'a) act \<Rightarrow> bool" where
  "only_reads m = (\<forall>s. snd (m s) = s)"

lemma only_reads_wp: "only_reads m \<Longrightarrow> wp m (\<lambda>_ t. t = s) (\<lambda>_ t. t = s) s"
  by (cases "m s") (auto simp: only_reads_def wp_def split: sum.split dest: spec [of _ s])

lemma only_readsI: "(\<And>s. keeps (\<lambda>t. t = s) m) \<Longrightarrow> only_reads m"
  unfolding only_reads_def by (intro allI keeps_snd [of "\<lambda>t. t = _"]) (assumption, rule refl)

lemma wp_reader: "keeps (\<lambda>t. t = s) m \<Longrightarrow> wp m (\<lambda>_ t. t = s) (\<lambda>_ t. t = s) s"
  by (auto simp: keeps_def)

lemma keeps_total:
  assumes "\<And>s. I s \<Longrightarrow> I (snd (m s))"
  shows "keeps I m"
proof (rule keepsI)
  fix s assume "I s"
  then have "I (snd (m s))" by (rule assms)
  then show "wp m (\<lambda>_. I) (\<lambda>_. I) s"
    by (cases "m s") (simp add: wp_def split: sum.split)
qed

text \<open>A wake writes the wake tables and the queue only.\<close>

lemma keeps_signal_frame:
  assumes "\<And>f d. I d \<Longrightarrow> I (wakes_update f d)" and "\<And>f d. I d \<Longrightarrow> I (causes_update f d)"
    and "\<And>f d. I d \<Longrightarrow> I (queue_update f d)"
  shows "keeps I (signal_session_wake env qn sid cause)"
  unfolding signal_session_wake_def wake_advance_def q_lock_wake_def q_wake_cause_def q_set_wake_revision_def
    q_insert_wake_cause_def log_call_def
  by (intro keeps_intros keeps_modify keeps_total)
    (auto simp: q_ensure_wake_def update_tbl_def insert_tbl_def assms split: option.split)

section \<open>What a successful effect leaves in the database\<close>

text \<open>\<open>ensures m P w\<close>: if \<open>m\<close> succeeds from \<open>w\<close>, the database it leaves satisfies \<open>P\<close>.\<close>

definition ensures :: "('w, 'a) eff \<Rightarrow> (db \<Rightarrow> bool) \<Rightarrow> 'w world \<Rightarrow> bool" where
  "ensures m P w = wp m (\<lambda>_ v. P (w_db v)) (\<lambda>_ _. True) w"

lemma ensures_ext:
  assumes "\<And>x v. w_db v = w_db w \<Longrightarrow> ensures (f x) P v"
  shows "ensures (bnd (on_ext m) f) P w"
  unfolding ensures_def wp_bnd
  by (rule wp_mono [OF wp_ext_db]) (use assms in \<open>auto simp: ensures_def\<close>)

lemma ensures_attempt_ext:
  assumes "\<And>x v. w_db v = w_db w \<Longrightarrow> ensures (f x) P v"
  shows "ensures (bnd (attempt (on_ext m)) f) P w"
  unfolding ensures_def wp_bnd wp_attempt
  by (rule wp_mono [OF wp_ext_db]) (use assms in \<open>auto simp: ensures_def\<close>)

lemma ensures_ext_seq: "(\<And>v. w_db v = w_db w \<Longrightarrow> ensures n P v) \<Longrightarrow> ensures (seq (on_ext m) n) P w"
  by (simp add: seq_def ensures_ext)

lemma ensures_read:
  assumes "only_reads m" and "\<And>x. m (w_db w) = (Inr x, w_db w) \<Longrightarrow> ensures (f x) P w"
  shows "ensures (bnd (on_db m) f) P w"
proof (cases "m (w_db w)")
  case (Pair r d)
  moreover have "d = w_db w" using assms(1) Pair by (auto simp: only_reads_def dest: spec [of _ "w_db w"])
  ultimately show ?thesis
    using assms(2) by (auto simp: ensures_def wp_def bnd_def on_db_def split: sum.splits)
qed

lemma ensures_require: "(b \<Longrightarrow> ensures n P w) \<Longrightarrow> ensures (seq (require b e) n) P w"
  by (simp add: ensures_def wp_simps)

lemma ensures_fail: "ensures (fail e) P w"
  by (simp add: ensures_def wp_simps)

lemma ensures_db: "wp m (\<lambda>_ d. P d) (\<lambda>_ _. True) (w_db w) \<Longrightarrow> ensures (on_db m) P w"
  by (simp add: ensures_def wp_simps)

section \<open>Reconcilers\<close>

text \<open>
  A reconciler performs at most one effect per call and reports whether it made progress. When
  every reported progress lowers a backlog computed from the database, consecutive reports are
  bounded by the backlog.
\<close>

lemma sum_list_less:
  fixes f g :: "'a \<Rightarrow> nat"
  assumes "\<And>x. x \<in> set xs \<Longrightarrow> f x \<le> g x" and "y \<in> set xs" and "f y < g y"
  shows "sum_list (map f xs) < sum_list (map g xs)"
  using assms
proof (induction xs)
  case (Cons x xs)
  have le: "f x \<le> g x" "sum_list (map f xs) \<le> sum_list (map g xs)"
    using Cons.prems(1) by (auto intro: sum_list_mono)
  show ?case
  proof (cases "y \<in> set xs")
    case True
    with Cons have "sum_list (map f xs) < sum_list (map g xs)" by simp
    with le show ?thesis by simp
  next
    case False
    with Cons.prems have "f x < g x" by simp
    with le show ?thesis by simp
  qed
qed simp

fun progress_run :: "('w, bool) eff \<Rightarrow> nat \<Rightarrow> 'w world \<Rightarrow> 'w world option" where
  \<comment> \<open>\<open>n\<close> consecutive calls that all report progress\<close>
  "progress_run m 0 w = Some w"
| "progress_run m (Suc n) w = (case m w of (Inr True, v) \<Rightarrow> progress_run m n v | _ \<Rightarrow> None)"

locale reconciler =
  fixes m :: "('w, bool) eff" and backlog :: "db \<Rightarrow> nat"
  assumes keeps_db: "keeps db_ok m"
    and lowers: "db_ok w \<Longrightarrow> wp m (\<lambda>b v. b \<longrightarrow> backlog (w_db v) < backlog (w_db w)) (\<lambda>_ _. True) w"
begin

lemma run_bound:
  assumes "db_ok w" and "progress_run m n w = Some v"
  shows "n + backlog (w_db v) \<le> backlog (w_db w) \<and> db_ok v"
  using assms
proof (induction n arbitrary: w)
  case (Suc n)
  obtain x where x: "m w = (Inr True, x)" "progress_run m n x = Some v"
    using Suc.prems(2) by (auto split: prod.splits sum.splits bool.splits)
  have "backlog (w_db x) < backlog (w_db w)"
    using wp_result [OF lowers [OF Suc.prems(1)] x(1)] by simp
  moreover have "db_ok x"
    using keeps_run [OF keeps_db Suc.prems(1) x(1)] .
  ultimately show ?case using Suc.IH [OF _ x(2)] by simp
qed simp

lemma run_length: "db_ok w \<Longrightarrow> progress_run m n w = Some v \<Longrightarrow> n \<le> backlog (w_db w)"
  using run_bound by fastforce

end

end
