(* ===== verification/Upgrade_Service.thy ===== *)
theory Upgrade_Service
  imports Dorf_World
begin

text \<open>
  The upgrade executor (\<open>internal/upgrade/service.go\<close>, \<open>cleanup.go\<close>): each call of
  \<open>Reconcile\<close> performs the one effect the durable receipt asks for, under the claim of the
  task, and records it. The driver is a parameter; \<open>us_nonce\<close> draws a fresh random value,
  an effect outside the database, for a replacement resource. Telemetry is not modelled.
\<close>

record 'w upgrade_driver =
  inspect_package :: "sandbox \<Rightarrow> upgrade_request \<Rightarrow> ('w, string) act"
  quiesce :: "sandbox \<Rightarrow> string \<Rightarrow> ('w, unit) act"
  capture :: "sandbox \<Rightarrow> string \<Rightarrow> ('w, checkpoint) act"
  activate :: "sandbox \<Rightarrow> upgrade_request \<Rightarrow> ('w, unit) act"
  replaces_resource :: bool
  restore :: "sandbox \<Rightarrow> sandbox \<Rightarrow> checkpoint \<Rightarrow> ('w, string) act"
  verify_package :: "sandbox \<Rightarrow> string \<Rightarrow> string \<Rightarrow> ('w, unit) act"
  delete_resource :: "sandbox \<Rightarrow> ('w, unit) act"
  delete_checkpoint :: "sandbox \<Rightarrow> checkpoint \<Rightarrow> ('w, unit) act"

record 'w upgrade_service =
  us_driver :: "'w upgrade_driver"
  us_queue :: string
  us_env :: absurd_env
  us_claim :: "('w, unit) act option"
  us_nonce :: "('w, string) act"

section \<open>Claims, receipts and attention\<close>

definition us_require_claim :: "'w upgrade_service \<Rightarrow> ('w, unit) eff" where
  "us_require_claim svc =
    (case us_claim svc of None \<Rightarrow> fail (Errorf ''upgrade executor claim is not configured'') | Some c \<Rightarrow> on_ext c)"

definition us_record :: "'w upgrade_service \<Rightarrow> (db, unit) act \<Rightarrow> ('w, unit) eff" where
  "us_record svc m = seq (us_require_claim svc) (on_db m)"

definition upgrade_attention_source :: "upgrade_receipt \<Rightarrow> string" where
  "upgrade_attention_source r = ''upgrade:'' @ up_id (rc_request r)"

definition us_perform :: "'w upgrade_service \<Rightarrow> upgrade_receipt \<Rightarrow> string \<Rightarrow> ('w, unit) eff \<Rightarrow> ('w, unit) eff" where
  "us_perform svc r step fn =
    bnd (attempt fn) (\<lambda>res. case res of
        Inl e \<Rightarrow>
          seq (us_require_claim svc)
         (seq (on_db (set_execution_attention (up_session (rc_request r)) (upgrade_attention_source r)
                 (''workspace upgrade '' @ step @ '' failed'')))
         (fail (Errorf (''workspace upgrade '' @ step @ '' failed; delivery remains held''))))
      | Inr _ \<Rightarrow> on_db (clear_execution_attention (up_session (rc_request r)) (upgrade_attention_source r)))"

section \<open>One step\<close>

definition us_prepare :: "'w upgrade_service \<Rightarrow> upgrade_receipt \<Rightarrow> sandbox \<Rightarrow> ('w, unit) eff" where
  "us_prepare svc r source =
    us_perform svc r ''prepare''
     (bnd (on_ext (inspect_package (us_driver svc) source (rc_request r))) (\<lambda>version.
      seq (require (version \<noteq> []) (Errorf ''package inspection omitted previous version''))
     (us_record svc (record_upgrade_preparation (up_id (rc_request r)) version))))"

definition us_quiesce :: "'w upgrade_service \<Rightarrow> upgrade_receipt \<Rightarrow> sandbox \<Rightarrow> ('w, unit) eff" where
  "us_quiesce svc r source =
    us_perform svc r ''quiesce''
     (bnd (on_db (store_session (up_session (rc_request r)))) (\<lambda>j.
      seq (on_ext (quiesce (us_driver svc) source (thread_id j)))
     (us_record svc (record_upgrade_quiesced (up_id (rc_request r))))))"

definition us_checkpoint :: "'w upgrade_service \<Rightarrow> upgrade_receipt \<Rightarrow> sandbox \<Rightarrow> ('w, unit) eff" where
  "us_checkpoint svc r source =
    us_perform svc r ''checkpoint''
     (bnd (on_ext (capture (us_driver svc) source (up_id (rc_request r)))) (\<lambda>c.
      seq (require (cp_source c = sb_provider_id source) (Errorf ''checkpoint source differs from attested resource''))
     (us_record svc (record_upgrade_checkpoint (up_id (rc_request r)) c))))"

definition us_activate :: "'w upgrade_service \<Rightarrow> upgrade_receipt \<Rightarrow> sandbox \<Rightarrow> ('w, unit) eff" where
  "us_activate svc r source =
    us_perform svc r ''activate''
     (bnd (attempt (on_ext (activate (us_driver svc) source (rc_request r)))) (\<lambda>res. case res of
          Inl e \<Rightarrow> us_record svc (request_upgrade_rollback (up_id (rc_request r)) ''activation_failed'')
        | Inr _ \<Rightarrow> us_record svc (record_upgrade_activated (up_id (rc_request r)))))"

definition us_restore :: "'w upgrade_service \<Rightarrow> upgrade_receipt \<Rightarrow> sandbox \<Rightarrow> ('w, unit) eff" where
  "us_restore svc r source =
    (if rc_destination r = [] then
       us_perform svc r ''reserve-recovery''
         (seq (us_require_claim svc)
         (bnd (if replaces_resource (us_driver svc) then attempt (on_ext (us_nonce svc)) else ret (Inr [])) (\<lambda>nonce.
          on_db (reserve_upgrade_destination nonce r (replaces_resource (us_driver svc))))))
     else
       bnd (on_db (store_sandbox_resource (up_session (rc_request r)) (up_sandbox (rc_request r)) (rc_destination r)))
         (\<lambda>destination.
       us_perform svc r ''restore''
         (bnd (on_ext (restore (us_driver svc) source destination (rc_checkpoint r))) (\<lambda>i.
          us_record svc (record_upgrade_restored r i)))))"

definition us_verify :: "'w upgrade_service \<Rightarrow> upgrade_receipt \<Rightarrow> sandbox \<Rightarrow> ('w, unit) eff" where
  "us_verify svc r source =
    bnd (if rc_rollback r \<noteq> None then
           bnd (on_db (store_sandbox_resource (up_session (rc_request r)) (up_sandbox (rc_request r)) (rc_destination r)))
             (\<lambda>b. ret (b, rc_previous r))
         else ret (source, up_version (rc_request r))) (\<lambda>(destination, version).
    us_perform svc r ''verify''
     (bnd (on_db (store_session (up_session (rc_request r)))) (\<lambda>j.
      bnd (attempt (on_ext (verify_package (us_driver svc) destination version (thread_id j)))) (\<lambda>res. case res of
          Inl e \<Rightarrow>
            if rc_rollback r \<noteq> None then fail e
            else us_record svc (request_upgrade_rollback (up_id (rc_request r)) ''verification_failed'')
        | Inr _ \<Rightarrow> us_record svc (record_upgrade_verified (up_id (rc_request r)))))))"

fun find_deleted :: "sandbox_resource list \<Rightarrow> string \<Rightarrow> err + bool" where
  "find_deleted [] rid = Inl (Errorf ''upgrade resource not retained'')"
| "find_deleted (x # xs) rid = (if res_id x = rid then Inr (res_deleted_at x \<noteq> None) else find_deleted xs rid)"

definition us_resource_deleted :: "string \<Rightarrow> string \<Rightarrow> ('w, bool) eff" where
  "us_resource_deleted sid rid =
    bnd (on_db (store_sandbox_resources sid)) (\<lambda>rs. lift (find_deleted rs rid))"

definition us_delete_resource :: "'w upgrade_service \<Rightarrow> upgrade_receipt \<Rightarrow> sandbox \<Rightarrow> ('w, unit) eff" where
  "us_delete_resource svc r owned =
    us_perform svc r ''resource-cleanup''
     (seq (on_ext (delete_resource (us_driver svc) owned))
          (us_record svc (record_sandbox_resource_deleted owned)))"

definition us_delete_checkpoint :: "'w upgrade_service \<Rightarrow> upgrade_receipt \<Rightarrow> sandbox \<Rightarrow> ('w, unit) eff" where
  "us_delete_checkpoint svc r source =
    us_perform svc r ''checkpoint-cleanup''
     (seq (on_ext (delete_checkpoint (us_driver svc) source (rc_checkpoint r)))
          (us_record svc (record_upgrade_checkpoint_deleted (up_id (rc_request r)))))"

definition us_resume :: "'w upgrade_service \<Rightarrow> upgrade_receipt \<Rightarrow> ('w, unit) eff" where
  "us_resume svc r =
    us_perform svc r ''resume'' (us_record svc (finish_sandbox_upgrade (us_env svc) (us_queue svc) r))"

definition us_finish :: "'w upgrade_service \<Rightarrow> upgrade_receipt \<Rightarrow> sandbox \<Rightarrow> ('w, unit) eff" where
  "us_finish svc r source =
    (if rc_destination r \<noteq> [] \<and> rc_destination r \<noteq> rc_source r then
       bnd (us_resource_deleted (up_session (rc_request r)) (rc_source r)) (\<lambda>deleted.
       if \<not> deleted then us_delete_resource svc r source else us_resume svc r)
     else if rc_cp_deleted r = None then us_delete_checkpoint svc r source
     else us_resume svc r)"

definition us_step :: "'w upgrade_service \<Rightarrow> upgrade_receipt \<Rightarrow> ('w, unit) eff" where
  "us_step svc r =
    bnd (on_db (store_sandbox_resource (up_session (rc_request r)) (up_sandbox (rc_request r)) (rc_source r))) (\<lambda>source.
    if rc_previous r = [] then us_prepare svc r source
    else if rc_quiesced r = None then us_quiesce svc r source
    else if cp_reference (rc_checkpoint r) = [] then us_checkpoint svc r source
    else if rc_rollback r \<noteq> None \<and> rc_restored r = None then us_restore svc r source
    else if rc_activated r = None \<and> rc_rollback r = None then us_activate svc r source
    else if rc_verified r = None then us_verify svc r source
    else us_finish svc r source)"

section \<open>Reconciliation\<close>

definition us_authorize :: "upgrade_receipt \<Rightarrow> (db, unit) act" where
  "us_authorize r =
    bnd (store_sandbox (up_sandbox (rc_request r))) (\<lambda>owned.
    seq (require (\<not> (sb_session_id owned \<noteq> up_session (rc_request r) \<or> sb_resource_id owned \<noteq> rc_source r))
          (Errorf ''upgrade source binding was superseded''))
   (bnd (session_delivery_holds (up_session (rc_request r))) (\<lambda>hs.
    require (list_ex (\<lambda>h. hold_id h = up_id (rc_request r) \<and> hold_sandbox_id h = up_sandbox (rc_request r)) hs)
      (Errorf ''upgrade lost its exact delivery hold''))))"

fun us_first :: "'w upgrade_service \<Rightarrow> upgrade_receipt list \<Rightarrow> ('w, bool) eff" where
  "us_first svc [] = ret False"
| "us_first svc (r # rs) =
    (if rc_finished r \<noteq> None then us_first svc rs
     else
       seq (on_db (us_authorize r))
      (bnd (on_db (q_quiescent (up_sandbox (rc_request r)))) (\<lambda>quiet.
       if \<not> quiet then ret False
       else seq (us_require_claim svc) (seq (us_step svc r) (ret True)))))"

definition us_reconcile :: "'w upgrade_service \<Rightarrow> task_context \<Rightarrow> string \<Rightarrow> ('w, bool) eff" where
  "us_reconcile svc task sid =
    bnd (on_db (store_session sid)) (\<lambda>j.
    seq (require (case task of None \<Rightarrow> True | Some (tid, _) \<Rightarrow> tid = current_task_id j)
          (Errorf ''upgrade executor no longer owns the Session task''))
   (if \<not> admission_open j \<or> cleanup_state j \<noteq> CleanupPending then ret False
    else bnd (on_db (session_upgrades sid)) (us_first svc)))"

section \<open>Cleanup of unfinished upgrades\<close>

fun us_cleanup_receipts ::
  "string \<Rightarrow> (upgrade_receipt \<Rightarrow> sandbox \<Rightarrow> ('w, unit) eff) \<Rightarrow> upgrade_receipt list \<Rightarrow> ('w, unit) eff" where
  "us_cleanup_receipts sid fn [] = ret ()"
| "us_cleanup_receipts sid fn (r # rs) =
    bnd (on_db (store_sandbox_resource sid (up_sandbox (rc_request r)) (rc_source r))) (\<lambda>source.
    seq (fn r source) (us_cleanup_receipts sid fn rs))"

definition us_cleanup ::
  "'w upgrade_service \<Rightarrow> task_context \<Rightarrow> string \<Rightarrow> (upgrade_receipt \<Rightarrow> sandbox \<Rightarrow> ('w, unit) eff) \<Rightarrow> ('w, unit) eff" where
  "us_cleanup svc task sid fn =
    bnd (on_db (store_session sid)) (\<lambda>j.
    seq (require (case task of None \<Rightarrow> True | Some (tid, _) \<Rightarrow> tid = current_task_id j)
          (Errorf ''upgrade cleanup no longer owns the Session task''))
   (seq (require (\<not> (admission_open j \<or> cleanup_state j \<noteq> CleanupScheduled))
          (Errorf ''upgrade cleanup requires the scheduled Session cleanup owner''))
   (seq (us_require_claim svc)
   (bnd (on_db (session_upgrades sid)) (us_cleanup_receipts sid fn)))))"

fun us_delete_inactive ::
  "'w upgrade_service \<Rightarrow> string \<Rightarrow> upgrade_receipt \<Rightarrow> string \<Rightarrow> string list \<Rightarrow> ('w, unit) eff" where
  "us_delete_inactive svc sid r active [] = ret ()"
| "us_delete_inactive svc sid r active (i # is) =
    (if i = [] \<or> i = active then us_delete_inactive svc sid r active is
     else bnd (us_resource_deleted sid i) (\<lambda>deleted.
       if deleted then us_delete_inactive svc sid r active is
       else bnd (on_db (store_sandbox_resource sid (up_sandbox (rc_request r)) i)) (\<lambda>owned.
         seq (us_delete_resource svc r owned) (us_delete_inactive svc sid r active is))))"

definition us_prepare_cleanup :: "'w upgrade_service \<Rightarrow> task_context \<Rightarrow> string \<Rightarrow> ('w, unit) eff" where
  "us_prepare_cleanup svc task sid =
    us_cleanup svc task sid (\<lambda>r source.
      seq (if rc_quiesced r \<noteq> None \<and> cp_reference (rc_checkpoint r) = [] then
             us_perform svc r ''checkpoint-reconcile''
              (bnd (on_ext (capture (us_driver svc) source (up_id (rc_request r)))) (\<lambda>c.
               us_record svc (record_upgrade_checkpoint (up_id (rc_request r)) c)))
           else ret ())
     (bnd (on_db (store_sandbox (up_sandbox (rc_request r)))) (\<lambda>active.
      us_delete_inactive svc sid r (sb_resource_id active) [rc_source r, rc_destination r])))"

definition us_complete_cleanup :: "'w upgrade_service \<Rightarrow> task_context \<Rightarrow> string \<Rightarrow> ('w, unit) eff" where
  "us_complete_cleanup svc task sid =
    us_cleanup svc task sid (\<lambda>r source.
      if cp_reference (rc_checkpoint r) = [] \<or> rc_cp_deleted r \<noteq> None then ret ()
      else us_delete_checkpoint svc r source)"

section \<open>Preservation of the invariants\<close>

lemma keeps_us_require_claim [keeps_intros]: "keeps db_ok (us_require_claim svc)"
  unfolding us_require_claim_def by (intro keeps_intros)

lemma keeps_us_record [keeps_intros]: "keeps db_inv m \<Longrightarrow> keeps db_ok (us_record svc m)"
  unfolding us_record_def by (intro keeps_intros)

lemma keeps_us_perform [keeps_intros]: "keeps db_ok fn \<Longrightarrow> keeps db_ok (us_perform svc r step fn)"
  unfolding us_perform_def by (intro keeps_intros)

lemma keeps_us_delete_resource [keeps_intros]: "keeps db_ok (us_delete_resource svc r owned)"
  unfolding us_delete_resource_def by (intro keeps_intros)

lemma keeps_us_delete_checkpoint [keeps_intros]: "keeps db_ok (us_delete_checkpoint svc r owned)"
  unfolding us_delete_checkpoint_def by (intro keeps_intros)

lemma keeps_us_resource_deleted [keeps_intros]: "keeps db_ok (us_resource_deleted sid rid)"
  unfolding us_resource_deleted_def by (intro keeps_intros)

lemma keeps_store_sandbox [keeps_intros]: "keeps I (store_sandbox bid)"
  unfolding store_sandbox_def by (intro keeps_intros)

lemma keeps_us_step [keeps_intros]: "keeps db_ok (us_step svc r)"
  unfolding us_step_def us_prepare_def us_quiesce_def us_checkpoint_def us_activate_def us_restore_def
    us_verify_def us_finish_def us_resume_def
  by (intro keeps_intros)

lemma keeps_us_authorize [keeps_intros]: "keeps I (us_authorize r)"
  unfolding us_authorize_def session_delivery_holds_def by (intro keeps_intros)

lemma keeps_us_first [keeps_intros]: "keeps db_ok (us_first svc rs)"
  by (induction rs) (auto intro!: keeps_intros)

lemma keeps_us_reconcile: "keeps db_ok (us_reconcile svc task sid)"
  unfolding us_reconcile_def by (intro keeps_intros)

lemma keeps_us_cleanup_receipts [keeps_intros]:
  "(\<And>r b. keeps db_ok (fn r b)) \<Longrightarrow> keeps db_ok (us_cleanup_receipts sid fn rs)"
  by (induction rs) (auto intro!: keeps_intros)

lemma keeps_us_cleanup [keeps_intros]: "(\<And>r b. keeps db_ok (fn r b)) \<Longrightarrow> keeps db_ok (us_cleanup svc task sid fn)"
  unfolding us_cleanup_def by (intro keeps_intros)

lemma keeps_us_delete_inactive [keeps_intros]: "keeps db_ok (us_delete_inactive svc sid r active is)"
  by (induction "is") (auto intro!: keeps_intros)

lemma keeps_us_prepare_cleanup: "keeps db_ok (us_prepare_cleanup svc task sid)"
  unfolding us_prepare_cleanup_def by (intro keeps_intros)

lemma keeps_us_complete_cleanup: "keeps db_ok (us_complete_cleanup svc task sid)"
  unfolding us_complete_cleanup_def by (intro keeps_intros)

end
