(* ===== verification/Upgrade_Progress.thy ===== *)
theory Upgrade_Progress
  imports Upgrade_Service
begin

text \<open>
  Termination of the upgrade executor. The backlog of the database is the number of effects its
  receipts still ask for; a reconciliation that reports progress lowers it, whatever the driver
  answered, so no schedule reports progress for ever.
\<close>

section \<open>What a recorded effect leaves\<close>

lemma ensures_claim:
  assumes "\<And>v. w_db v = w_db w \<Longrightarrow> ensures n P v"
  shows "ensures (seq (us_require_claim svc) n) P w"
proof (cases "us_claim svc")
  case None
  then show ?thesis by (simp add: us_require_claim_def ensures_def wp_simps)
next
  case (Some c)
  then show ?thesis using assms by (simp add: us_require_claim_def ensures_ext_seq)
qed

lemma ensures_draw:
  assumes "\<And>x v. w_db v = w_db w \<Longrightarrow> ensures (f x) P v"
  shows "ensures (bnd (if b then attempt (on_ext m) else ret x) f) P w"
  using assms by (cases b) (auto intro!: ensures_attempt_ext, simp add: ensures_def wp_simps)

lemma ensures_record:
  assumes "wp m (\<lambda>_ d. P d) (\<lambda>_ _. True) (w_db w)"
  shows "ensures (us_record svc m) P w"
  using assms unfolding us_record_def us_require_claim_def
  by (cases "us_claim svc") (auto simp: ensures_db ensures_fail seq_def intro!: ensures_ext, simp add: ensures_def wp_simps)

lemma ensures_perform:
  fixes w :: "'b world"
  assumes "ensures fn P w" and "\<And>f d. P d \<Longrightarrow> P (sessions_update f d)"
  shows "ensures (us_perform svc r step fn) P w"
proof -
  have clear: "wp (clear_execution_attention sid src) (\<lambda>_. P) (\<lambda>_ _. True) d" if "P d" for d sid src
    using that assms(2) by (simp add: clear_execution_attention_def q_clear_execution_attention_def wp_simps Let_def)
  have failing: "wp (seq m (seq n (fail x))) Q (\<lambda>_ _. True) v" for m n x Q v
    unfolding wp_seq wp_fail by (rule wp_mono [OF wp_trivial]) (auto intro: wp_mono [OF wp_trivial])
  show ?thesis
    unfolding us_perform_def ensures_def wp_bnd wp_attempt sum.case
  proof (rule wp_mono [OF assms(1) [unfolded ensures_def]])
    fix v :: "'b world" assume "P (w_db v)"
    then show "wp (on_db (clear_execution_attention (up_session (rc_request r)) (upgrade_attention_source r)))
        (\<lambda>_ v. P (w_db v)) (\<lambda>_ _. True) v"
      using clear by (simp add: wp_on_db)
  qed (rule failing)
qed

section \<open>The backlog of an upgrade\<close>

definition source_deleted :: "resource_row list \<Rightarrow> upgrade_row \<Rightarrow> bool" where
  "source_deleted rs u = list_ex (\<lambda>r. r_id r = u_source u \<and> r_deleted r \<noteq> None) rs"

definition upgrade_cleaned :: "resource_row list \<Rightarrow> upgrade_row \<Rightarrow> bool" where
  "upgrade_cleaned rs u =
    (if text_of (u_destination u) \<noteq> [] \<and> text_of (u_destination u) \<noteq> u_source u then source_deleted rs u
     else u_cp_deleted u \<noteq> None)"

definition upgrade_rank :: "resource_row list \<Rightarrow> upgrade_row \<Rightarrow> nat" where
  "upgrade_rank rs u =
    (if u_finished u \<noteq> None then 0
     else if u_verified u \<noteq> None then (if upgrade_cleaned rs u then 1 else 2)
     else if u_restored u \<noteq> None then 3
     else if u_rollback u \<noteq> None then (if u_destination u \<noteq> None then 4 else 5)
     else if u_activated u \<noteq> None then 6
     else if u_cp_ref u \<noteq> None then 7
     else if u_quiesced u \<noteq> None then 8
     else if u_previous u \<noteq> None then 9
     else 10)"

definition upgrade_backlog :: "db \<Rightarrow> nat" where
  "upgrade_backlog d = sum_list (map (upgrade_rank (resources d)) (upgrades d))"

lemma backlog_sessions [simp]: "upgrade_backlog (sessions_update f d) = upgrade_backlog d"
  by (simp add: upgrade_backlog_def)


lemma rank_bound: "upgrade_rank rs u \<le> 10"
  by (simp add: upgrade_rank_def)

lemma backlog_bound: "upgrade_backlog d \<le> 10 * length (upgrades d)"
proof -
  have "sum_list (map (upgrade_rank rs) us) \<le> 10 * length us" for rs us
    by (induction us) (simp_all, meson add_mono rank_bound)
  then show ?thesis by (simp add: upgrade_backlog_def)
qed

text \<open>Setting columns of one receipt.\<close>

lemma backlog_upd:
  assumes inv: "db_inv d" and u: "u \<in> set (upgrades d)"
    and less: "p u \<Longrightarrow> upgrade_rank (resources d) (f u) < upgrade_rank (resources d) u"
    and id: "\<And>v. u_id (f v) = u_id v"
    and one: "count_where (\<lambda>v. u_id v = u_id u \<and> p v) (upgrades d) = 1"
  shows "upgrade_backlog (upgrades_update (upd_where (\<lambda>v. u_id v = u_id u \<and> p v) f) d) < upgrade_backlog d"
proof -
  have dist: "distinct (map u_id (upgrades d))" using inv by (simp add: db_inv_def upgrades_ok_def)
  have row: "row_of u_id (u_id u) (upgrades d) = Some u" using dist u by (rule row_of_distinct)
  with count_where_one_unique [OF dist, of "u_id u" p] one have p: "p u" by simp
  let ?g = "\<lambda>v. if u_id v = u_id u \<and> p v then f v else v"
  have uniq: "v = u" if "v \<in> set (upgrades d)" "u_id v = u_id u" for v
    using row_of_distinct [OF dist that(1)] that(2) row by simp
  have le: "upgrade_rank (resources d) (?g v) \<le> upgrade_rank (resources d) v" if "v \<in> set (upgrades d)" for v
  proof (cases "u_id v = u_id u \<and> p v")
    case True
    with uniq [OF that] less [OF p] show ?thesis by simp
  next
    case False
    then show ?thesis by (simp only: if_False)
  qed
  have "sum_list (map (\<lambda>v. upgrade_rank (resources d) (?g v)) (upgrades d)) < sum_list (map (upgrade_rank (resources d)) (upgrades d))"
    by (rule sum_list_less [OF le u]) (use less [OF p] p in auto)
  then show ?thesis by (simp add: upgrade_backlog_def upd_where_def comp_def)
qed

lemma wp_upd_backlog:
  assumes "db_inv d" and "u \<in> set (upgrades d)"
    and "p u \<Longrightarrow> upgrade_rank (resources d) (f d u) < upgrade_rank (resources d) u"
    and "\<And>v. u_id (f d v) = u_id v"
  shows "wp (expect_one_rows (upd_upgrade (u_id u) p f)) (\<lambda>_ e. upgrade_backlog e < upgrade_backlog d) (\<lambda>_ _. True) d"
  using backlog_upd [OF assms(1,2), of p "f d"] assms(3,4) by (simp add: wp_expect_one_rows wp_upd_upgrade)

text \<open>The order in which the columns of a receipt are set.\<close>

lemma upgrade_order:
  assumes "upgrade_ok u"
  shows "u_previous u = None \<Longrightarrow> u_quiesced u = None"
    and "u_quiesced u = None \<Longrightarrow> u_cp_ref u = None"
    and "u_cp_ref u = None \<Longrightarrow> u_activated u = None"
    and "u_cp_ref u = None \<Longrightarrow> u_rollback u = None"
    and "u_rollback u = None \<Longrightarrow> u_destination u = None"
    and "u_rollback u = None \<Longrightarrow> u_restored u = None"
    and "u_destination u = None \<Longrightarrow> u_restored u = None"
    and "u_activated u = None \<Longrightarrow> u_restored u = None \<Longrightarrow> u_verified u = None"
    and "u_rollback u \<noteq> None \<Longrightarrow> u_restored u = None \<Longrightarrow> u_verified u = None"
    and "u_verified u = None \<Longrightarrow> u_finished u = None"
  using assms unfolding upgrade_ok_def by argo+

text \<open>Each receipt writer, where the executor calls it.\<close>

lemma preparation_backlog:
  assumes "db_inv d" "u \<in> set (upgrades d)" "u_finished u = None" "text_of (u_previous u) = []" "version \<noteq> []"
  shows "wp (record_upgrade_preparation (u_id u) version) (\<lambda>_ e. upgrade_backlog e < upgrade_backlog d) (\<lambda>_ _. True) d"
  unfolding record_upgrade_preparation_def q_upgrade_preparation_def
proof (rule wp_upd_backlog [OF assms(1,2)])
  have ok: "upgrade_ok u" using assms(1,2) by (auto simp: db_inv_def upgrades_ok_def)
  assume "u_previous u = None \<or> u_previous u = Some version"
  then have "u_previous u = None" using assms(4,5) by auto
  then show "upgrade_rank (resources d) (u\<lparr>u_previous := Some version\<rparr>) < upgrade_rank (resources d) u"
    using assms(3) by (simp add: upgrade_rank_def upgrade_order [OF ok])
qed simp

lemma quiesced_backlog:
  assumes "db_inv d" "u \<in> set (upgrades d)" "u_finished u = None" "u_quiesced u = None"
  shows "wp (record_upgrade_quiesced (u_id u)) (\<lambda>_ e. upgrade_backlog e < upgrade_backlog d) (\<lambda>_ _. True) d"
  unfolding record_upgrade_quiesced_def q_upgrade_quiesced_def
proof (rule wp_upd_backlog [OF assms(1,2)])
  have ok: "upgrade_ok u" using assms(1,2) by (auto simp: db_inv_def upgrades_ok_def)
  assume "u_previous u \<noteq> None"
  then show "upgrade_rank (resources d) (u\<lparr>u_quiesced := stamp (u_quiesced u) d\<rparr>) < upgrade_rank (resources d) u"
    using assms(3,4) by (simp add: upgrade_rank_def upgrade_order [OF ok])
qed simp

lemma checkpoint_backlog:
  assumes "db_inv d" "u \<in> set (upgrades d)" "u_finished u = None" "text_of (u_cp_ref u) = []"
  shows "wp (record_upgrade_checkpoint (u_id u) c) (\<lambda>_ e. upgrade_backlog e < upgrade_backlog d) (\<lambda>_ _. True) d"
proof (cases "cp_key c \<noteq> u_id u \<or> cp_reference c = [] \<or> cp_source c = []")
  case False
  have "wp (expect_one_rows (q_upgrade_checkpoint (u_id u) c)) (\<lambda>_ e. upgrade_backlog e < upgrade_backlog d) (\<lambda>_ _. True) d"
    unfolding q_upgrade_checkpoint_def
  proof (rule wp_upd_backlog [OF assms(1,2)])
    have ok: "upgrade_ok u" using assms(1,2) by (auto simp: db_inv_def upgrades_ok_def)
    assume p: "u_quiesced u \<noteq> None \<and> (u_cp_ref u = None \<or> (u_cp_key u = Some (cp_key c) \<and>
      u_cp_ref u = Some (cp_reference c) \<and> u_cp_source u = Some (cp_source c)))"
    with assms(4) False have "u_cp_ref u = None" by auto
    with p show "upgrade_rank (resources d) (u\<lparr>u_cp_key := Some (cp_key c), u_cp_ref := Some (cp_reference c),
        u_cp_source := Some (cp_source c)\<rparr>) < upgrade_rank (resources d) u"
      using assms(3) by (simp add: upgrade_rank_def upgrade_order [OF ok])
  qed simp
  with False show ?thesis by (simp add: record_upgrade_checkpoint_def wp_seq wp_require)
next
  case True
  then show ?thesis by (simp add: record_upgrade_checkpoint_def wp_seq wp_require)
qed

lemma activated_backlog:
  assumes "db_inv d" "u \<in> set (upgrades d)" "u_finished u = None" "u_activated u = None"
  shows "wp (record_upgrade_activated (u_id u)) (\<lambda>_ e. upgrade_backlog e < upgrade_backlog d) (\<lambda>_ _. True) d"
  unfolding record_upgrade_activated_def q_upgrade_activated_def
proof (rule wp_upd_backlog [OF assms(1,2)])
  have ok: "upgrade_ok u" using assms(1,2) by (auto simp: db_inv_def upgrades_ok_def)
  assume "u_cp_ref u \<noteq> None \<and> u_rollback u = None"
  then show "upgrade_rank (resources d) (u\<lparr>u_activated := stamp (u_activated u) d\<rparr>) < upgrade_rank (resources d) u"
    using assms(3,4) by (simp add: upgrade_rank_def upgrade_order [OF ok])
qed simp

lemma rollback_backlog:
  assumes "db_inv d" "u \<in> set (upgrades d)" "u_finished u = None" "u_rollback u = None"
  shows "wp (request_upgrade_rollback (u_id u) code) (\<lambda>_ e. upgrade_backlog e < upgrade_backlog d) (\<lambda>_ _. True) d"
  unfolding request_upgrade_rollback_def q_upgrade_rollback_def
proof (rule wp_upd_backlog [OF assms(1,2)])
  have ok: "upgrade_ok u" using assms(1,2) by (auto simp: db_inv_def upgrades_ok_def)
  assume "u_cp_ref u \<noteq> None \<and> u_verified u = None"
  then show "upgrade_rank (resources d) (u\<lparr>u_rollback := stamp (u_rollback u) d, u_failure := coalesce (u_failure u) (Some code)\<rparr>)
      < upgrade_rank (resources d) u"
    using assms(3,4) by (simp add: upgrade_rank_def upgrade_order [OF ok])
qed simp

lemma restored_backlog:
  assumes "db_inv d" "u \<in> set (upgrades d)" "u_finished u = None" "u_restored u = None"
  shows "wp (expect_one_rows (q_upgrade_restored (u_id u))) (\<lambda>_ e. upgrade_backlog e < upgrade_backlog d) (\<lambda>_ _. True) d"
  unfolding q_upgrade_restored_def
proof (rule wp_upd_backlog [OF assms(1,2)])
  have ok: "upgrade_ok u" using assms(1,2) by (auto simp: db_inv_def upgrades_ok_def)
  assume p: "u_destination u \<noteq> None \<and> u_rollback u \<noteq> None"
  then have "u_verified u = None" using upgrade_order(9) [OF ok] assms(4) by simp
  with p show "upgrade_rank (resources d) (u\<lparr>u_restored := stamp (u_restored u) d\<rparr>) < upgrade_rank (resources d) u"
    using assms(3,4) by (simp add: upgrade_rank_def)
qed simp

lemma verified_backlog:
  assumes "db_inv d" "u \<in> set (upgrades d)" "u_finished u = None" "u_verified u = None"
  shows "wp (record_upgrade_verified (u_id u)) (\<lambda>_ e. upgrade_backlog e < upgrade_backlog d) (\<lambda>_ _. True) d"
  unfolding record_upgrade_verified_def q_upgrade_verified_def
proof (rule wp_upd_backlog [OF assms(1,2)])
  have ok: "upgrade_ok u" using assms(1,2) by (auto simp: db_inv_def upgrades_ok_def)
  show "upgrade_rank (resources d) (u\<lparr>u_verified := stamp (u_verified u) d\<rparr>) < upgrade_rank (resources d) u"
    using assms(3,4) by (simp add: upgrade_rank_def)
qed simp

lemma cp_deleted_backlog:
  assumes "db_inv d" "u \<in> set (upgrades d)" "u_finished u = None" "u_verified u \<noteq> None" "u_cp_deleted u = None"
    and "text_of (u_destination u) = [] \<or> text_of (u_destination u) = u_source u"
  shows "wp (record_upgrade_checkpoint_deleted (u_id u)) (\<lambda>_ e. upgrade_backlog e < upgrade_backlog d) (\<lambda>_ _. True) d"
  unfolding record_upgrade_checkpoint_deleted_def q_upgrade_checkpoint_deleted_def
proof (rule wp_upd_backlog [OF assms(1,2)])
  show "upgrade_rank (resources d) (u\<lparr>u_cp_deleted := stamp (u_cp_deleted u) d\<rparr>) < upgrade_rank (resources d) u"
    using assms(3-6) by (auto simp: upgrade_rank_def upgrade_cleaned_def)
qed simp

lemma finished_backlog:
  assumes "db_inv d" "u \<in> set (upgrades d)" "u_finished u = None"
  shows "wp (expect_one_rows (q_upgrade_finished (u_id u))) (\<lambda>_ e. upgrade_backlog e < upgrade_backlog d) (\<lambda>_ _. True) d"
  unfolding q_upgrade_finished_def
  by (rule wp_upd_backlog [OF assms(1,2)]) (use assms(3) in \<open>simp_all add: upgrade_rank_def\<close>)

text \<open>Resource rows matter to the backlog only through the deletion of sources.\<close>

lemma backlog_resources:
  assumes "\<And>u. source_deleted (g (resources d)) u = source_deleted (resources d) u"
  shows "upgrade_backlog (resources_update g d) = upgrade_backlog d"
proof -
  have "upgrade_rank (g (resources d)) = upgrade_rank (resources d)"
    by (rule ext) (simp add: upgrade_rank_def upgrade_cleaned_def assms)
  then show ?thesis by (simp add: upgrade_backlog_def)
qed

lemma source_deleted_upd:
  assumes "\<And>r. r_id (f r) = r_id r" and "\<And>r. r_deleted (f r) = r_deleted r"
  shows "source_deleted (upd_where p f rs) u = source_deleted rs u"
  by (auto simp: source_deleted_def list_ex_iff assms)

lemma resource_deleted_backlog:
  assumes inv: "db_inv d" and u: "u \<in> set (upgrades d)" and fin: "u_finished u = None" and ver: "u_verified u \<noteq> None"
    and dest: "text_of (u_destination u) \<noteq> []" "text_of (u_destination u) \<noteq> u_source u"
    and live: "\<not> source_deleted (resources d) u" and own: "sb_resource_id ow = u_source u"
  shows "wp (record_sandbox_resource_deleted ow) (\<lambda>_ e. upgrade_backlog e < upgrade_backlog d) (\<lambda>_ _. True) d"
proof -
  let ?f = "\<lambda>r. r\<lparr>r_deleted := coalesce (r_deleted r) (Some (now d))\<rparr>"
  let ?p = "\<lambda>r. r_id r = sb_resource_id ow \<and> r_sandbox r = sb_id ow"
  let ?rs = "upd_where ?p ?f (resources d)"
  have del: "source_deleted (resources d) v \<Longrightarrow> source_deleted ?rs v" for v
    by (force simp: source_deleted_def list_ex_iff coalesce_def split: option.splits)
  have le: "upgrade_rank ?rs v \<le> upgrade_rank (resources d) v" for v
    using del [of v] by (simp add: upgrade_rank_def upgrade_cleaned_def)
  have "upgrade_backlog (resources_update (upd_where ?p ?f) d) < upgrade_backlog d"
    if one: "count_where ?p (resources d) = 1"
  proof -
    have "\<exists>r \<in> set (resources d). ?p r" by (rule count_where_pos) (use one in simp)
    then have "source_deleted ?rs u"
      by (auto simp: source_deleted_def list_ex_iff own)
    then have "upgrade_rank ?rs u < upgrade_rank (resources d) u"
      using fin ver dest live by (simp add: upgrade_rank_def upgrade_cleaned_def)
    have "sum_list (map (upgrade_rank ?rs) (upgrades d)) < sum_list (map (upgrade_rank (resources d)) (upgrades d))"
    proof (rule sum_list_less [where y = u])
      show "upgrade_rank ?rs u < upgrade_rank (resources d) u" by fact
    qed (rule le, fact u)
    then show ?thesis by (simp add: upgrade_backlog_def)
  qed
  then show ?thesis
    by (simp add: record_sandbox_resource_deleted_def q_record_resource_deleted_def wp_expect_one_rows wp_update_tbl_at)
qed

lemma record_restored_backlog:
  assumes inv: "db_inv d" and u: "u \<in> set (upgrades d)" "u_finished u = None" "u_restored u = None" "up_id (rc_request r) = u_id u"
  shows "wp (record_upgrade_restored r pid) (\<lambda>_ e. upgrade_backlog e < upgrade_backlog d) (\<lambda>_ _. True) d"
proof -
  let ?e = "\<lambda>p. resources_update (upd_where p (\<lambda>r. r\<lparr>r_provider := Some pid,
      r_observed := coalesce (r_observed r) (Some (now d))\<rparr>)) d"
  have eq: "upgrade_backlog (?e p) = upgrade_backlog d" for p
    by (rule backlog_resources) (simp add: source_deleted_upd)
  have inv': "db_inv (?e p)" for p
    by (rule db_inv_resources [OF inv], rule resources_ok_upd) (use inv in \<open>simp_all add: db_inv_def\<close>)
  have "wp (expect_one_rows (q_upgrade_restored (up_id (rc_request r)))) (\<lambda>_ e. upgrade_backlog e < upgrade_backlog d) (\<lambda>_ _. True) (?e p)" for p
    using restored_backlog [OF inv', of u p] u eq by simp
  then show ?thesis
    by (simp add: record_upgrade_restored_def wp_seq wp_require wp_tx wp_expect_one_rows q_bind_recovered_resource_def
        wp_update_tbl_at)
qed

lemma bind_destination_backlog:
  assumes inv: "db_inv d" and u: "u \<in> set (upgrades d)" "u_finished u = None" "u_destination u = None"
  shows "wp (expect_one_rows (q_bind_upgrade_destination (u_id u) rid)) (\<lambda>_ e. upgrade_backlog e < upgrade_backlog d) (\<lambda>_ _. True) d"
proof -
  have ok: "upgrade_ok u" using inv u(1) by (auto simp: db_inv_def upgrades_ok_def)
  have "wp (expect_one_rows (upd_upgrade (u_id u) (\<lambda>u. u_rollback u \<noteq> None \<and> (u_destination u = None \<or> u_destination u = Some rid))
      (\<lambda>d u. u\<lparr>u_destination := Some rid\<rparr>))) (\<lambda>_ e. upgrade_backlog e < upgrade_backlog d) (\<lambda>_ _. True) d"
  proof (rule wp_upd_backlog [OF inv u(1)])
    assume p: "u_rollback u \<noteq> None \<and> (u_destination u = None \<or> u_destination u = Some rid)"
    have "u_restored u = None" using upgrade_order(7) [OF ok] u(3) by simp
    moreover have "u_verified u = None" using upgrade_order(9) [OF ok] p calculation by simp
    ultimately show "upgrade_rank (resources d) (u\<lparr>u_destination := Some rid\<rparr>) < upgrade_rank (resources d) u"
      using p u by (simp add: upgrade_rank_def)
  qed simp
  then show ?thesis
    by (simp add: wp_def expect_one_rows_def bnd_def q_bind_upgrade_destination_def)
qed

lemma reserve_destination_backlog:
  assumes inv: "db_inv d" and u: "u \<in> set (upgrades d)" "u_finished u = None" "u_destination u = None"
    and id: "up_id (rc_request r) = u_id u"
  shows "wp (reserve_upgrade_destination nonce r replace) (\<lambda>_ e. upgrade_backlog e < upgrade_backlog d) (\<lambda>_ _. True) d"
proof -
  have dist: "distinct (map u_id (upgrades d))" using inv by (simp add: db_inv_def upgrades_ok_def)
  have row: "row_of u_id (u_id u) (upgrades d) = Some u" using dist u(1) by (rule row_of_distinct)
  have reserve: "wp (q_reserve_resource (replacement_resource_id (u_id u)) bid n)
      (\<lambda>_ e. db_inv e \<and> upgrades e = upgrades d \<and> upgrade_backlog e = upgrade_backlog d) (\<lambda>_ _. True) d" for bid n
  proof -
    have k: "wp (q_reserve_resource (replacement_resource_id (u_id u)) bid n) (\<lambda>_. db_inv) (\<lambda>_ _. True) d"
      by (rule wp_mono [OF keepsD [OF keeps_reserve_resource inv]]) (simp_all add: replacement_resource_id_def)
    have "upgrade_backlog (resources_update (add_row \<lparr>r_id = rid, r_sandbox = bid, r_nonce = n, r_provider = None,
       r_reserved = now d, r_observed = None, r_deleted = None\<rparr>) d) = upgrade_backlog d" for rid
      by (rule backlog_resources) (simp add: source_deleted_def list_ex_iff)
    then have f: "wp (q_reserve_resource (replacement_resource_id (u_id u)) bid n)
      (\<lambda>_ e. upgrades e = upgrades d \<and> upgrade_backlog e = upgrade_backlog d) (\<lambda>_ _. True) d"
      by (simp add: q_reserve_resource_def wp_insert_tbl_at split: option.split)
    have "wp (q_reserve_resource (replacement_resource_id (u_id u)) bid n)
      (\<lambda>_ e. db_inv e \<and> (upgrades e = upgrades d \<and> upgrade_backlog e = upgrade_backlog d)) (\<lambda>_ e. True \<and> True) d"
      unfolding wp_conj using k f by blast
    then show ?thesis by simp
  qed
  have bind: "wp (expect_one_rows (q_bind_upgrade_destination (u_id u) rid)) (\<lambda>_ x. upgrade_backlog x < upgrade_backlog d) (\<lambda>_ _. True) e"
    if "db_inv e \<and> upgrades e = upgrades d \<and> upgrade_backlog e = upgrade_backlog d" for e rid
    using bind_destination_backlog [of e u rid] that u by simp
  show ?thesis
  proof (cases "upgrade_joined d u")
    case True
    have self: "wp (expect_one_rows (q_bind_upgrade_destination (u_id u) rid)) (\<lambda>_ x. upgrade_backlog x < upgrade_backlog d) (\<lambda>_ _. True) d" for rid
      by (rule bind) (simp add: inv)
    have chain: "wp (seq (q_reserve_resource (replacement_resource_id (u_id u)) bid n)
        (expect_one_rows (q_bind_upgrade_destination (u_id u) (replacement_resource_id (u_id u)))))
        (\<lambda>_ x. upgrade_backlog x < upgrade_backlog d) (\<lambda>_ _. True) d" for bid n
      unfolding wp_seq by (rule wp_mono [OF reserve]) (simp_all add: bind)
    show ?thesis
      unfolding reserve_upgrade_destination_def Let_def id wp_tx
      using True row u(3) self chain
      by (simp add: find_upgrade_def wp_bnd wp_gets wp_the_row wp_if wp_lift split: sum.split)
  next
    case False
    then show ?thesis
      unfolding reserve_upgrade_destination_def Let_def id wp_tx
      using row by (simp add: find_upgrade_def wp_bnd wp_gets wp_the_row)
  qed
qed

text \<open>Adoption: everything but the receipt itself is outside the backlog.\<close>

definition same_backlog_tables :: "db \<Rightarrow> db \<Rightarrow> bool" where
  "same_backlog_tables d e = (upgrades e = upgrades d \<and> resources e = resources d)"

lemma same_backlog: "same_backlog_tables d e \<Longrightarrow> upgrade_backlog e = upgrade_backlog d"
  by (simp add: same_backlog_tables_def upgrade_backlog_def)

lemma keeps_same_signal: "keeps (same_backlog_tables d) (signal_session_wake env qn sid cause)"
  by (rule keeps_signal_frame) (simp_all add: same_backlog_tables_def)

lemma finish_backlog:
  assumes inv: "db_inv d" and u: "u \<in> set (upgrades d)" "u_finished u = None"
    and id: "up_id (rc_request r) = u_id u"
  shows "wp (finish_sandbox_upgrade env qn r) (\<lambda>_ e. upgrade_backlog e < upgrade_backlog d) (\<lambda>_ _. True) d"
proof -
  have dist: "distinct (map u_id (upgrades d))" using inv by (simp add: db_inv_def upgrades_ok_def)
  have row: "row_of u_id (u_id u) (upgrades d) = Some u" using dist u(1) by (rule row_of_distinct)
  have tail: "wp (seq (expect_one_rows (q_release_delivery_hold uid bid))
      (bnd (signal_session_wake env qn sid cause) (\<lambda>_. ret ()))) (\<lambda>_ e. upgrade_backlog e < n) (\<lambda>_ _. True) e"
    if n: "upgrade_backlog e < n" for uid bid sid cause n e
  proof -
    have "same_backlog_tables e (holds_update f e)" for f by (simp add: same_backlog_tables_def)
    from keepsD [OF keeps_same_signal this] have
      "wp (signal_session_wake env qn sid cause) (\<lambda>_ x. upgrade_backlog x < n) (\<lambda>_ _. True) (holds_update f e)" for f
      by (rule wp_mono) (use n in \<open>auto dest: same_backlog\<close>)
    then show ?thesis
      by (simp add: wp_seq wp_bnd wp_ret wp_expect_one_rows q_release_delivery_hold_def wp_update_tbl_at)
  qed
  have release: "wp (switch_and_release_upgrade env qn (receipt_of d u)) (\<lambda>_ e. upgrade_backlog e < upgrade_backlog d) (\<lambda>_ _. True) d"
  proof -
    have sw: "wp (q_switch_sandbox_resource bid x y) (\<lambda>_ e. db_inv e \<and> (same_backlog_tables d e)) (\<lambda>_ e. True \<and> True) d" for bid x y
      unfolding wp_conj
    proof
      show "wp (q_switch_sandbox_resource bid x y) (\<lambda>_. db_inv) (\<lambda>_ _. True) d"
        by (rule wp_mono [OF keepsD [OF keeps_switch_resource inv]]) simp_all
      show "wp (q_switch_sandbox_resource bid x y) (\<lambda>_. same_backlog_tables d) (\<lambda>_ _. True) d"
        by (simp add: wp_def q_switch_sandbox_resource_def update_tbl_def same_backlog_tables_def)
    qed
    have fin: "wp (expect_one_rows (q_upgrade_finished (u_id u))) (\<lambda>_ x. upgrade_backlog x < upgrade_backlog d) (\<lambda>_ _. True) e"
      if "db_inv e \<and> same_backlog_tables d e" for e
      using finished_backlog [of e u] that u same_backlog [of d e] by (simp add: same_backlog_tables_def)
    have rest: "wp (seq (expect_one_rows (q_upgrade_finished (u_id u)))
        (seq (expect_one_rows (q_release_delivery_hold uid bid))
          (bnd (signal_session_wake env qn sid cause) (\<lambda>_. ret ())))) (\<lambda>_ e. upgrade_backlog e < upgrade_backlog d) (\<lambda>_ _. True) e"
      if "db_inv e \<and> same_backlog_tables d e" for e uid bid sid cause
      unfolding wp_seq [of "expect_one_rows (q_upgrade_finished (u_id u))"]
      by (rule wp_mono [OF fin [OF that]]) (rule tail, simp_all)
    have "wp (expect_one_rows (q_switch_sandbox_resource bid x y))
      (\<lambda>_. wp (seq (expect_one_rows (q_upgrade_finished (u_id u)))
        (seq (expect_one_rows (q_release_delivery_hold uid bid))
          (bnd (signal_session_wake env qn sid cause) (\<lambda>_. ret ())))) (\<lambda>_ e. upgrade_backlog e < upgrade_backlog d) (\<lambda>_ _. True))
      (\<lambda>_ _. True) d" for bid x y uid sid cause
      unfolding wp_expect_one_rows [of "q_switch_sandbox_resource bid x y"]
      by (rule wp_mono [OF sw]) (use rest in auto)
    then show ?thesis
      by (simp add: switch_and_release_upgrade_def Let_def wp_seq [of "expect_one_rows (q_switch_sandbox_resource _ _ _)"] receipt_of_def)
  qed
  have auth: "keeps (\<lambda>e. e = d) (authorize_upgrade_release x)" for x
    unfolding authorize_upgrade_release_def by (intro keeps_intros)
  have "wp (seq (authorize_upgrade_release (receipt_of d u)) (switch_and_release_upgrade env qn (receipt_of d u)))
      (\<lambda>_ e. upgrade_backlog e < upgrade_backlog d) (\<lambda>_ _. True) d"
    unfolding wp_seq by (rule wp_mono [OF wp_reader [OF auth]]) (use release in simp_all)
  moreover have "rc_finished (receipt_of d u) = None" using u by (simp add: receipt_of_def)
  moreover have adm: "wp (q_session_admission sid) (\<lambda>_ e. e = d) (\<lambda>_ e. e = d) d" for sid
    by (rule wp_reader) (intro keeps_intros)
  ultimately show ?thesis
    unfolding finish_sandbox_upgrade_def wp_tx wp_bnd [of "q_session_admission _"] id
    by (intro wp_mono [OF adm])
      (use row in \<open>auto simp: wp_seq wp_require wp_bnd q_get_upgrade_def wp_gets wp_the_row find_upgrade_def\<close>)
qed

section \<open>Every successful step lowers the backlog\<close>

lemma ensures_progress:
  assumes "ensures fn (\<lambda>d. upgrade_backlog d < n) w"
  shows "ensures (us_perform svc r step fn) (\<lambda>d. upgrade_backlog d < n) w"
  by (rule ensures_perform [OF assms]) simp

definition pending_receipt :: "'w world \<Rightarrow> upgrade_row \<Rightarrow> upgrade_receipt \<Rightarrow> bool" where
  "pending_receipt w u r =
    (db_ok w \<and> u \<in> set (upgrades (w_db w)) \<and> u_finished u = None \<and> r = receipt_of (w_db w) u)"

lemma receipt_columns [simp]:
  "up_id (rc_request (receipt_of d u)) = u_id u" "rc_previous (receipt_of d u) = text_of (u_previous u)"
  "rc_quiesced (receipt_of d u) = u_quiesced u" "cp_reference (rc_checkpoint (receipt_of d u)) = text_of (u_cp_ref u)"
  "rc_activated (receipt_of d u) = u_activated u" "rc_rollback (receipt_of d u) = u_rollback u"
  "rc_restored (receipt_of d u) = u_restored u" "rc_verified (receipt_of d u) = u_verified u"
  "rc_destination (receipt_of d u) = text_of (u_destination u)" "rc_source (receipt_of d u) = u_source u"
  "rc_cp_deleted (receipt_of d u) = u_cp_deleted u" "rc_finished (receipt_of d u) = u_finished u"
  by (simp_all add: receipt_of_def)

lemma step_parts:
  assumes "pending_receipt w u r"
  shows "text_of (u_previous u) = [] \<Longrightarrow> ensures (us_prepare svc r src) (\<lambda>d. upgrade_backlog d < upgrade_backlog (w_db w)) w"
    and "u_quiesced u = None \<Longrightarrow> ensures (us_quiesce svc r src) (\<lambda>d. upgrade_backlog d < upgrade_backlog (w_db w)) w"
    and "text_of (u_cp_ref u) = [] \<Longrightarrow> ensures (us_checkpoint svc r src) (\<lambda>d. upgrade_backlog d < upgrade_backlog (w_db w)) w"
    and "u_activated u = None \<Longrightarrow> u_rollback u = None \<Longrightarrow>
      ensures (us_activate svc r src) (\<lambda>d. upgrade_backlog d < upgrade_backlog (w_db w)) w"
proof -
  have u: "db_inv (w_db w)" "u \<in> set (upgrades (w_db w))" "u_finished u = None" "r = receipt_of (w_db w) u"
    using assms by (auto simp: pending_receipt_def db_ok_def)
  show "text_of (u_previous u) = [] \<Longrightarrow> ensures (us_prepare svc r src) (\<lambda>d. upgrade_backlog d < upgrade_backlog (w_db w)) w"
    unfolding us_prepare_def
    by (intro ensures_progress ensures_ext ensures_require ensures_record) (use u preparation_backlog in auto)
  have read: "only_reads (store_session sid)" for sid
    by (rule only_readsI) (intro keeps_intros)
  show "u_quiesced u = None \<Longrightarrow> ensures (us_quiesce svc r src) (\<lambda>d. upgrade_backlog d < upgrade_backlog (w_db w)) w"
    unfolding us_quiesce_def
    by (intro ensures_progress ensures_read read ensures_ext_seq ensures_record) (use u quiesced_backlog in auto)
  show "text_of (u_cp_ref u) = [] \<Longrightarrow> ensures (us_checkpoint svc r src) (\<lambda>d. upgrade_backlog d < upgrade_backlog (w_db w)) w"
    unfolding us_checkpoint_def
    by (intro ensures_progress ensures_ext ensures_require ensures_record) (use u checkpoint_backlog in auto)
  show "u_activated u = None \<Longrightarrow> u_rollback u = None \<Longrightarrow>
      ensures (us_activate svc r src) (\<lambda>d. upgrade_backlog d < upgrade_backlog (w_db w)) w"
    unfolding us_activate_def
    by (intro ensures_progress ensures_attempt_ext)
      (use u activated_backlog rollback_backlog in \<open>auto intro!: ensures_record split: sum.split\<close>)
qed

lemma step_parts2:
  assumes "pending_receipt w u r"
  shows "u_rollback u \<noteq> None \<Longrightarrow> u_restored u = None \<Longrightarrow>
      ensures (us_restore svc r src) (\<lambda>d. upgrade_backlog d < upgrade_backlog (w_db w)) w"
    and "u_verified u = None \<Longrightarrow> ensures (us_verify svc r src) (\<lambda>d. upgrade_backlog d < upgrade_backlog (w_db w)) w"
proof -
  have u: "db_inv (w_db w)" "u \<in> set (upgrades (w_db w))" "u_finished u = None" "r = receipt_of (w_db w) u"
    using assms by (auto simp: pending_receipt_def db_ok_def)
  have ok: "upgrade_ok u" using u by (auto simp: db_inv_def upgrades_ok_def)
  have read: "only_reads (store_sandbox_resource s b i)" "only_reads (store_session s)" for s b i
    by (rule only_readsI, intro keeps_intros)+
  have dest: "text_of (u_destination u) = [] \<Longrightarrow> u_destination u = None"
    using ok by (cases "u_destination u") (auto simp: upgrade_ok_def)
  show "u_rollback u \<noteq> None \<Longrightarrow> u_restored u = None \<Longrightarrow>
      ensures (us_restore svc r src) (\<lambda>d. upgrade_backlog d < upgrade_backlog (w_db w)) w"
  proof (cases "rc_destination r = []")
    case True
    then have "u_destination u = None" using dest u(4) by simp
    with True show ?thesis
      unfolding us_restore_def if_P [OF True]
      by (intro ensures_progress ensures_claim ensures_draw ensures_db) (use u reserve_destination_backlog in auto)
  next
    case False
    assume "u_restored u = None"
    with False show ?thesis
      unfolding us_restore_def if_not_P [OF False]
      by (intro ensures_read read ensures_progress ensures_ext ensures_record)
        (use u record_restored_backlog in auto)
  qed
  have tail: "ensures (us_perform svc r ''verify''
     (bnd (on_db (store_session (up_session (rc_request r)))) (\<lambda>j.
      bnd (attempt (on_ext (verify_package (us_driver svc) destination version (thread_id j)))) (\<lambda>res. case res of
          Inl e \<Rightarrow>
            if rc_rollback r \<noteq> None then fail e
            else us_record svc (request_upgrade_rollback (up_id (rc_request r)) ''verification_failed'')
        | Inr _ \<Rightarrow> us_record svc (record_upgrade_verified (up_id (rc_request r)))))))
      (\<lambda>d. upgrade_backlog d < upgrade_backlog (w_db w)) w" if "u_verified u = None" for destination version
    by (intro ensures_progress ensures_read read ensures_attempt_ext)
      (use u that verified_backlog rollback_backlog in \<open>auto intro!: ensures_record ensures_fail split: sum.split\<close>)
  show "u_verified u = None \<Longrightarrow> ensures (us_verify svc r src) (\<lambda>d. upgrade_backlog d < upgrade_backlog (w_db w)) w"
  proof (cases "rc_rollback r \<noteq> None")
    case True
    assume "u_verified u = None"
    with True tail show ?thesis
      unfolding us_verify_def if_P [OF True] bnd_assoc
      by (intro ensures_read read) (simp add: bnd_def ret_def)
  next
    case False
    assume "u_verified u = None"
    with False tail show ?thesis
      unfolding us_verify_def if_not_P [OF False] by (simp add: bnd_def ret_def)
  qed
qed

lemma find_deleted_live:
  assumes "find_deleted xs rid = Inr False"
  shows "\<exists>x \<in> set xs. res_id x = rid \<and> res_deleted_at x = None"
  using assms by (induction xs) (auto split: if_splits)

lemma live_source:
  assumes inv: "db_inv d" and res: "store_sandbox_resources sid d = (Inr xs, d)"
    and live: "find_deleted xs (u_source u) = Inr False"
  shows "\<not> source_deleted (resources d) u"
proof -
  obtain x where x: "x \<in> set xs" "res_id x = u_source u" "res_deleted_at x = None"
    using find_deleted_live [OF live] by blast
  then obtain r where r: "r \<in> set (resources d)" "r_id r = u_source u" "r_deleted r = None"
    using res by (auto simp: store_sandbox_resources_def gets_def resource_value_def)
  have dist: "distinct (map r_id (resources d))" using inv by (simp add: db_inv_def resources_ok_def)
  have "q = r" if "q \<in> set (resources d)" "r_id q = u_source u" for q
    using row_of_distinct [OF dist that(1)] row_of_distinct [OF dist r(1)] that(2) r(2) by simp
  with r(3) show ?thesis by (auto simp: source_deleted_def list_ex_iff)
qed

lemma step_finish:
  assumes "pending_receipt w u r" and ver: "u_verified u \<noteq> None" and src: "sb_resource_id src = u_source u"
  shows "ensures (us_finish svc r src) (\<lambda>d. upgrade_backlog d < upgrade_backlog (w_db w)) w"
proof -
  have u: "db_inv (w_db w)" "u \<in> set (upgrades (w_db w))" "u_finished u = None" "r = receipt_of (w_db w) u"
    using assms by (auto simp: pending_receipt_def db_ok_def)
  have resume: "ensures (us_resume svc r) (\<lambda>d. upgrade_backlog d < upgrade_backlog (w_db w)) w"
    unfolding us_resume_def by (intro ensures_progress ensures_record finish_backlog) (use u in auto)
  have read: "only_reads (store_sandbox_resources s)" for s
    by (rule only_readsI) (intro keeps_intros)
  show ?thesis
  proof (cases "rc_destination r \<noteq> [] \<and> rc_destination r \<noteq> rc_source r")
    case True
    have delete: "ensures (us_delete_resource svc r src) (\<lambda>d. upgrade_backlog d < upgrade_backlog (w_db w)) w"
      if "\<not> source_deleted (resources (w_db w)) u"
      unfolding us_delete_resource_def
      by (intro ensures_progress ensures_ext_seq ensures_record)
        (use u ver src that True resource_deleted_backlog [of "w_db w" u src] in simp)
    have "ensures (bnd (lift (find_deleted xs (rc_source r)))
        (\<lambda>deleted. if \<not> deleted then us_delete_resource svc r src else us_resume svc r))
        (\<lambda>d. upgrade_backlog d < upgrade_backlog (w_db w)) w"
      if xs: "store_sandbox_resources (up_session (rc_request r)) (w_db w) = (Inr xs, w_db w)" for xs
    proof (cases "find_deleted xs (rc_source r)")
      case (Inl e)
      then show ?thesis by (simp add: ensures_def wp_simps)
    next
      case (Inr deleted)
      then show ?thesis
        using resume delete live_source [OF u(1) xs, of u] u(4)
        by (cases deleted) (simp_all add: lift_def bnd_def ret_def)
    qed
    then show ?thesis
      unfolding us_finish_def if_P [OF True] us_resource_deleted_def bnd_assoc
      by (intro ensures_read read)
  next
    case False
    then show ?thesis
      unfolding us_finish_def if_not_P [OF False]
    proof (cases "rc_cp_deleted r = None")
      case none: True
      have "ensures (us_delete_checkpoint svc r src) (\<lambda>d. upgrade_backlog d < upgrade_backlog (w_db w)) w"
        unfolding us_delete_checkpoint_def
        by (intro ensures_progress ensures_ext_seq ensures_record)
          (use u ver False none cp_deleted_backlog [of "w_db w" u] in auto)
      with none show "ensures (if rc_cp_deleted r = None then us_delete_checkpoint svc r src else us_resume svc r)
          (\<lambda>d. upgrade_backlog d < upgrade_backlog (w_db w)) w" by simp
    next
      case some: False
      show "ensures (if rc_cp_deleted r = None then us_delete_checkpoint svc r src else us_resume svc r)
          (\<lambda>d. upgrade_backlog d < upgrade_backlog (w_db w)) w"
        unfolding if_not_P [OF some] by (rule resume)
    qed
  qed
qed

lemma step_progress:
  assumes p: "pending_receipt w u r"
  shows "ensures (us_step svc r) (\<lambda>d. upgrade_backlog d < upgrade_backlog (w_db w)) w"
  unfolding us_step_def
proof (rule ensures_read)
  show "only_reads (store_sandbox_resource (up_session (rc_request r)) (up_sandbox (rc_request r)) (rc_source r))"
    by (rule only_readsI) (intro keeps_intros)
  fix src assume src: "store_sandbox_resource (up_session (rc_request r)) (up_sandbox (rc_request r)) (rc_source r) (w_db w)
    = (Inr src, w_db w)"
  have r: "r = receipt_of (w_db w) u" using p by (simp add: pending_receipt_def)
  have "resource_of (w_db w) (rc_source r) = Some x \<Longrightarrow> r_id x = rc_source r" for x
    by (auto simp: resource_of_def dest: row_of_key)
  then have id: "sb_resource_id src = u_source u"
    using src r by (auto simp: store_sandbox_resource_def bnd_def gets_def the_row_def ret_def fail_def sandbox_value_def
        split: option.splits if_splits)
  show "ensures (if rc_previous r = [] then us_prepare svc r src
    else if rc_quiesced r = None then us_quiesce svc r src
    else if cp_reference (rc_checkpoint r) = [] then us_checkpoint svc r src
    else if rc_rollback r \<noteq> None \<and> rc_restored r = None then us_restore svc r src
    else if rc_activated r = None \<and> rc_rollback r = None then us_activate svc r src
    else if rc_verified r = None then us_verify svc r src
    else us_finish svc r src) (\<lambda>d. upgrade_backlog d < upgrade_backlog (w_db w)) w"
    using step_parts [OF p, of svc src] step_parts2 [OF p, of svc src] step_finish [OF p _ id, of svc] r
    by simp
qed

text \<open>Progress of a reconciliation, and a bound on consecutive ones.\<close>

lemma us_first_progress:
  assumes "db_ok w" and "\<And>r. r \<in> set rs \<Longrightarrow> \<exists>u. u \<in> set (upgrades (w_db w)) \<and> r = receipt_of (w_db w) u"
  shows "wp (us_first svc rs) (\<lambda>b v. b \<longrightarrow> upgrade_backlog (w_db v) < upgrade_backlog (w_db w)) (\<lambda>_ _. True) w"
  using assms(2)
proof (induction rs)
  case Nil
  then show ?case by (simp add: wp_simps)
next
  case (Cons r rs)
  show ?case
  proof (cases "rc_finished r = None")
    case True
    obtain u where u: "u \<in> set (upgrades (w_db w))" "r = receipt_of (w_db w) u" using Cons.prems by auto
    have step: "wp (us_step svc r) (\<lambda>_ v. upgrade_backlog (w_db v) < upgrade_backlog (w_db w)) (\<lambda>_ _. True) v"
      if "w_db v = w_db w" for v :: "'a world"
    proof -
      have "pending_receipt v u r" using that u True assms(1) by (simp add: pending_receipt_def db_ok_def)
      from step_progress [OF this, of svc] that show ?thesis by (simp add: ensures_def)
    qed
    have claim: "wp (us_require_claim svc) (\<lambda>_ v. w_db v = w_db w) (\<lambda>_ _. True) v" if "w_db v = w_db w" for v
    proof (cases "us_claim svc")
      case (Some c)
      have "wp (on_ext c) (\<lambda>_ v. w_db v = w_db w) (\<lambda>_ _. True) v"
        by (rule wp_mono [OF wp_ext_db]) (simp_all add: that)
      with Some show ?thesis by (simp add: us_require_claim_def)
    qed (simp add: us_require_claim_def wp_fail)
    have auth: "wp (on_db (us_authorize r)) (\<lambda>_ v. w_db v = w_db w) (\<lambda>_ _. True) w"
      unfolding wp_on_db by (rule wp_mono [OF wp_reader [where s = "w_db w"]]) (auto intro: keeps_intros)
    have quiet: "wp (on_db (q_quiescent b)) (\<lambda>_ v. w_db v = w_db w) (\<lambda>_ _. True) v" if "w_db v = w_db w" for b v
      unfolding wp_on_db by (rule wp_mono [OF wp_reader [where s = "w_db v"]]) (auto intro: keeps_intros simp: that)
    have go: "wp (seq (us_require_claim svc) (seq (us_step svc r) (ret True)))
        (\<lambda>b v. b \<longrightarrow> upgrade_backlog (w_db v) < upgrade_backlog (w_db w)) (\<lambda>_ _. True) v" if "w_db v = w_db w" for v
      unfolding wp_seq wp_ret by (rule wp_mono [OF claim [OF that]]) (simp_all add: step)
    have go2: "wp (if \<not> q then ret False else seq (us_require_claim svc) (seq (us_step svc r) (ret True)))
        (\<lambda>b v. b \<longrightarrow> upgrade_backlog (w_db v) < upgrade_backlog (w_db w)) (\<lambda>_ _. True) v" if "w_db v = w_db w" for v q
      using go [OF that] by (cases q) (simp_all add: wp_ret)
    have "wp (bnd (on_db (q_quiescent (up_sandbox (rc_request r)))) (\<lambda>quiet.
       if \<not> quiet then ret False else seq (us_require_claim svc) (seq (us_step svc r) (ret True))))
        (\<lambda>b v. b \<longrightarrow> upgrade_backlog (w_db v) < upgrade_backlog (w_db w)) (\<lambda>_ _. True) v" if "w_db v = w_db w" for v
      unfolding wp_bnd by (rule wp_mono [OF quiet [OF that]]) (simp_all add: go2)
    with True show ?thesis
      by (simp add: wp_seq [of "on_db (us_authorize r)"]) (rule wp_mono [OF auth], simp_all)
  qed (use Cons in simp)
qed

lemma us_reconcile_progress:
  assumes "db_ok w"
  shows "wp (us_reconcile svc task sid) (\<lambda>b v. b \<longrightarrow> upgrade_backlog (w_db v) < upgrade_backlog (w_db w)) (\<lambda>_ _. True) w"
proof -
  let ?Q = "\<lambda>b v. b \<longrightarrow> upgrade_backlog (w_db v) < upgrade_backlog (w_db w)"
  have list: "wp (bnd (on_db (session_upgrades sid)) (us_first svc)) ?Q (\<lambda>_ _. True) w"
    unfolding wp_bnd wp_on_db session_upgrades_def wp_gets
    by simp (rule us_first_progress [OF assms], auto)
  have "wp (on_db (store_session sid)) (\<lambda>_ v. v = w) (\<lambda>_ _. True) w"
    unfolding wp_on_db by (rule wp_mono [OF wp_reader [where s = "w_db w"]]) (auto intro: keeps_intros)
  then show ?thesis
    unfolding us_reconcile_def wp_bnd [of "on_db (store_session sid)"]
    by (rule wp_mono) (auto simp: wp_seq wp_require wp_if wp_ret list)
qed

interpretation upgrade_loop: reconciler "us_reconcile svc task sid" upgrade_backlog for svc task sid
  by unfold_locales (rule keeps_us_reconcile, erule us_reconcile_progress)

end
