(* ===== verification/Core_Execution.thy ===== *)
theory Core_Execution
  imports Dorf_World Postgres_Native
begin

text \<open>
  The execution service of Core (\<open>internal/core/service.go\<close>, \<open>native_lifecycle.go\<close>,
  \<open>idle.go\<close>, \<open>application.go\<close>) and the step policy it binds to the Absurd runtime
  (\<open>internal/absurdruntime\<close>). A provider effect runs inside an Absurd step, under the Session
  fence and the claim of the task, after the store has authorised the Action; it is recorded
  only after the claim was checked again. The external operations, the locks and the Absurd
  runtime act on the outside part of a world and are parameters.
\<close>

section \<open>Errors that stop for an operator\<close>

primrec attention_needed :: "err \<Rightarrow> bool" where
  "attention_needed (Sentinel s) = False"
| "attention_needed (Errorf m) = False"
| "attention_needed (Wrapf m e) = attention_needed e"
| "attention_needed (Join d e) = (attention_needed d \<or> attention_needed e)"
| "attention_needed (OwnershipError m) = True"
| "attention_needed (UnsupportedError m) = True"
| "attention_needed (ArtifactUnavailableError m) = True"
| "attention_needed (AttentionError m) = True"
| "attention_needed (PgError c k) = False"
| "attention_needed AbsurdTimeout = False"
| "attention_needed (External m) = False"

primrec artifact_unavailable :: "err \<Rightarrow> bool" where
  "artifact_unavailable (Sentinel s) = False"
| "artifact_unavailable (Errorf m) = False"
| "artifact_unavailable (Wrapf m e) = artifact_unavailable e"
| "artifact_unavailable (Join d e) = (artifact_unavailable d \<or> artifact_unavailable e)"
| "artifact_unavailable (OwnershipError m) = False"
| "artifact_unavailable (UnsupportedError m) = False"
| "artifact_unavailable (ArtifactUnavailableError m) = True"
| "artifact_unavailable (AttentionError m) = False"
| "artifact_unavailable (PgError c k) = False"
| "artifact_unavailable AbsurdTimeout = False"
| "artifact_unavailable (External m) = False"

lemma artifact_needs_attention: "artifact_unavailable e \<Longrightarrow> attention_needed e"
  by (induction e) auto

section \<open>The runtime of a task\<close>

text \<open>
  \<open>rt_task\<close> is the task of the context; \<open>rt_lost\<close> reports a heartbeat that failed while opaque
  work ran. The step store maps the name of a completed step to its result. \<open>rt_fence\<close> and
  \<open>rt_power\<close> take the advisory locks of a Session; committing may fail, rolling back releases
  the lock silently.
\<close>

record 'w task_runtime =
  rt_task :: task_context
  rt_heartbeat :: "('w, unit) act"
  rt_lost :: "('w, unit) act"
  rt_load_step :: "string \<Rightarrow> ('w, string option) act"
  rt_save_step :: "string \<Rightarrow> string \<Rightarrow> ('w, unit) act"
  rt_fence :: "string \<Rightarrow> ('w, unit) act"
  rt_power :: "string \<Rightarrow> ('w, bool) act"
  rt_commit :: "string \<Rightarrow> ('w, unit) act"
  rt_rollback :: "string \<Rightarrow> 'w \<Rightarrow> 'w"

definition fence_release :: "'w task_runtime \<Rightarrow> string \<Rightarrow> err + 'a \<Rightarrow> ('w, 'a) eff" where
  "fence_release rt sid r =
    (case r of
       Inl e \<Rightarrow> seq (on_ext (modify (rt_rollback rt sid))) (fail e)
     | Inr x \<Rightarrow> seq (on_ext (rt_commit rt sid)) (ret x))"

definition with_session_fence :: "'w task_runtime \<Rightarrow> string \<Rightarrow> ('w, 'a) eff \<Rightarrow> ('w, 'a) eff" where
  "with_session_fence rt sid m =
    seq (on_ext (rt_fence rt sid)) (bnd (attempt m) (fence_release rt sid))"

definition with_pause_fence :: "'w task_runtime \<Rightarrow> string \<Rightarrow> ('w, unit) eff \<Rightarrow> ('w, unit) eff" where
  \<comment> \<open>nothing to do while the guest is in use\<close>
  "with_pause_fence rt sid m =
    bnd (on_ext (rt_power rt sid)) (\<lambda>acquired.
    if \<not> acquired then on_ext (modify (rt_rollback rt sid))
    else bnd (attempt m) (fence_release rt sid))"

definition with_heartbeat :: "'w task_runtime \<Rightarrow> ('w, 'a) eff \<Rightarrow> ('w, 'a) eff" where
  "with_heartbeat rt m =
    bnd (attempt (on_ext (rt_heartbeat rt))) (\<lambda>before. case before of
      Inl e \<Rightarrow> fail (Wrapf ''heartbeat before opaque work'' e)
    | Inr _ \<Rightarrow>
        bnd (attempt m) (\<lambda>r.
        bnd (case r of Inl _ \<Rightarrow> ret (Inr ()) | Inr _ \<Rightarrow> attempt (on_ext (rt_heartbeat rt))) (\<lambda>after.
        bnd (attempt (on_ext (rt_lost rt))) (\<lambda>lost. case lost of
          Inl e \<Rightarrow> fail (Wrapf ''heartbeat during opaque work'' e)
        | Inr _ \<Rightarrow> (case after of
              Inl e \<Rightarrow> fail (Wrapf ''heartbeat after opaque work'' e)
            | Inr _ \<Rightarrow> lift r)))))"

definition action_step_name :: "string \<Rightarrow> string" where
  "action_step_name aid = ''dorf/action/v1/'' @ aid"

definition run_action_step :: "'w task_runtime \<Rightarrow> string \<Rightarrow> ('w, unit) eff \<Rightarrow> ('w, unit) eff" where
  \<comment> \<open>a completed step answers from the step store, without running\<close>
  "run_action_step rt aid work =
    bnd (on_ext (rt_load_step rt (action_step_name aid))) (\<lambda>stored.
    bnd (case stored of
        Some r \<Rightarrow> ret r
      | None \<Rightarrow>
          bnd (with_heartbeat rt (seq work (ret aid))) (\<lambda>r.
          seq (on_ext (rt_save_step rt (action_step_name aid) r)) (ret r))) (\<lambda>r.
    require (r = aid) (Errorf ''Step returned another Action'')))"

section \<open>The service\<close>

record 'w native_adapter =
  na_idle :: "session \<Rightarrow> sandbox \<Rightarrow> ('w, bool) act"
  na_turns :: "session \<Rightarrow> sandbox \<Rightarrow> ('w, harness_history) act"

record 'w execution =
  es_runtime :: "'w task_runtime"
  es_claim :: "('w, unit) act option"
  es_barrier :: "(string \<Rightarrow> string \<Rightarrow> string \<Rightarrow> ('w, unit) act) option"
  es_create :: "session \<Rightarrow> sandbox \<Rightarrow> ('w, string) act"
  es_route_create :: "session \<Rightarrow> sandbox \<Rightarrow> route \<Rightarrow> ('w, unit) act"
  es_route_revoke :: "session \<Rightarrow> sandbox \<Rightarrow> route \<Rightarrow> ('w, unit) act"
  es_delete :: "session \<Rightarrow> sandbox \<Rightarrow> ('w, unit) act"
  es_pause :: "(session \<Rightarrow> sandbox \<Rightarrow> ('w, unit) act) option"
  es_native :: "'w native_adapter option"
  es_error_text :: "err \<Rightarrow> string"

definition es_require_claim :: "'w execution \<Rightarrow> ('w, unit) eff" where
  "es_require_claim ex =
    (case es_claim ex of None \<Rightarrow> fail (Errorf ''durable executor claim check is not configured'') | Some c \<Rightarrow> on_ext c)"

definition es_reach_operation :: "'w execution \<Rightarrow> string \<Rightarrow> string \<Rightarrow> string \<Rightarrow> ('w, unit) eff" where
  "es_reach_operation ex point sid i =
    (case es_barrier ex of None \<Rightarrow> ret () | Some b \<Rightarrow> on_ext (b point sid i))"

definition exact_current_attached_task :: "'w task_runtime \<Rightarrow> string \<Rightarrow> string \<Rightarrow> ('w, session) eff" where
  "exact_current_attached_task rt sid tname0 =
    (case rt_task rt of None \<Rightarrow> fail (Sentinel ErrNoTaskContext)
     | Some (tid, name) \<Rightarrow>
         let tname = (if tname0 = [] then name else tname0) in
         bnd (on_db (store_session sid)) (\<lambda>j.
         seq (require (\<not> (name \<noteq> tname \<or> current_task_id j \<noteq> tid \<or> current_task_name j \<noteq> tname))
               (Errorf ''task is not the exact current attachment of the Session''))
             (ret j)))"

definition es_require_cleanup_task :: "'w execution \<Rightarrow> string \<Rightarrow> ('w, unit) eff" where
  "es_require_cleanup_task ex sid =
    seq (es_require_claim ex)
   (bnd (exact_current_attached_task (es_runtime ex) sid cleanup_task_name) (\<lambda>j.
    require (\<not> (admission_open j \<or> (cleanup_state j \<noteq> CleanupRequested \<and> cleanup_state j \<noteq> CleanupScheduled)))
      (Errorf ''cleanup task cannot act before cleanup is requested'')))"

definition es_prepare_cleanup :: "'w execution \<Rightarrow> string \<Rightarrow> ('w, session \<times> sandbox list) eff" where
  "es_prepare_cleanup ex sid =
    with_session_fence (es_runtime ex) sid
     (seq (es_require_cleanup_task ex sid)
     (bnd (on_db (store_session sid)) (\<lambda>j.
      bnd (on_db (q_list_session_sandboxes sid)) (\<lambda>bs. ret (j, bs)))))"

definition with_sandbox_activity :: "string \<Rightarrow> ('w, 'a) eff \<Rightarrow> ('w, 'a) eff" where
  "with_sandbox_activity sid m =
    seq (on_db (begin_sandbox_activity sid))
   (bnd (attempt m) (\<lambda>r.
    bnd (attempt (on_db (finish_sandbox_activity sid))) (\<lambda>fin. case (r, fin) of
        (Inr x, Inr _) \<Rightarrow> ret x
      | (Inl e, Inr _) \<Rightarrow> fail e
      | (Inr _, Inl f) \<Rightarrow> fail f
      | (Inl e, Inl f) \<Rightarrow> fail (Join e f))))"

section \<open>Sandbox Actions\<close>

definition es_effect :: "'w execution \<Rightarrow> sandbox_action_authorization \<Rightarrow> ('w, unit) eff" where
  "es_effect ex a =
    (case act_kind (auth_action a) of
       ActionSandboxCreate \<Rightarrow>
         bnd (on_ext (es_create ex (auth_session a) (auth_sandbox a))) (\<lambda>pid.
         seq (es_require_claim ex)
             (on_db (bind_sandbox_resource (auth_sandbox a) pid)))
     | ActionRouteCreate \<Rightarrow>
         on_ext (es_route_create ex (auth_session a) (auth_sandbox a) (route_for_sandbox (auth_sandbox a)))
     | ActionRouteRevoke \<Rightarrow>
         on_ext (es_route_revoke ex (auth_session a) (auth_sandbox a) (route_for_sandbox (auth_sandbox a)))
     | ActionSandboxDelete \<Rightarrow> on_ext (es_delete ex (auth_session a) (auth_sandbox a))
     | OtherAction _ \<Rightarrow> fail (Errorf ''unsupported Sandbox Action kind''))"

definition es_effect_failed :: "'w execution \<Rightarrow> string \<Rightarrow> string \<Rightarrow> err \<Rightarrow> ('w, unit) eff" where
  "es_effect_failed ex sid aid e =
    (if attention_needed e then
       bnd (attempt (es_require_claim ex)) (\<lambda>c. case c of
         Inl ce \<Rightarrow> fail (Join e ce)
       | Inr _ \<Rightarrow>
           bnd (attempt (on_db (set_execution_attention sid aid (es_error_text ex e)))) (\<lambda>s. case s of
             Inl ae \<Rightarrow> fail (Join e (Wrapf ''record Sandbox Action attention'' ae))
           | Inr _ \<Rightarrow> fail e))
     else fail e)"

definition barrier_point :: "action_kind \<Rightarrow> string" where
  "barrier_point kind =
    (case kind of
       ActionSandboxCreate \<Rightarrow> ''sandbox-created-before-record''
     | ActionRouteRevoke \<Rightarrow> ''route-revoked-before-record''
     | ActionSandboxDelete \<Rightarrow> ''sandbox-deleted-before-record''
     | _ \<Rightarrow> [])"

definition es_settle_action :: "'w execution \<Rightarrow> string \<Rightarrow> string \<Rightarrow> sandbox_action_authorization \<Rightarrow> ('w, unit) eff" where
  "es_settle_action ex sid aid a =
    (let point = barrier_point (act_kind (auth_action a)) in
     seq (if point \<noteq> [] then es_reach_operation ex point (sess_id (auth_session a)) (act_id (auth_action a)) else ret ())
    (seq (es_require_claim ex)
    (seq (on_db (clear_execution_attention sid aid))
         (on_db (record_sandbox_action_success (act_id (auth_action a)))))))"

definition matches_authorization :: "string \<Rightarrow> string \<Rightarrow> string \<Rightarrow> string \<Rightarrow> sandbox_action_authorization \<Rightarrow> bool" where
  "matches_authorization sid aid tid tname a =
    (\<not> (sess_id (auth_session a) \<noteq> sid \<or> act_id (auth_action a) \<noteq> aid \<or> act_session_id (auth_action a) \<noteq> sid \<or>
        sb_session_id (auth_sandbox a) \<noteq> sid \<or> act_scope (auth_action a) \<noteq> sb_id (auth_sandbox a) \<or>
        auth_task_id a \<noteq> tid \<or> auth_task_name a \<noteq> tname))"

definition es_perform_action ::
  "'w execution \<Rightarrow> string \<Rightarrow> string \<Rightarrow> action_kind \<Rightarrow> (sandbox_action_authorization \<Rightarrow> ('w, unit) eff) \<Rightarrow> ('w, unit) eff" where
  \<comment> \<open>\<open>executeSandboxAction\<close>\<close>
  "es_perform_action ex sid aid kind effect =
    with_session_fence (es_runtime ex) sid
     (seq (es_require_claim ex)
     (case rt_task (es_runtime ex) of None \<Rightarrow> fail (Sentinel ErrNoTaskContext)
      | Some (tid, tname) \<Rightarrow>
          bnd (on_db (authorize_sandbox_action aid tid tname)) (\<lambda>a.
          seq (require (matches_authorization sid aid tid tname a)
                (Errorf ''Sandbox Action does not match its authoritative Session, Sandbox, and task''))
         (seq (require (\<not> (kind_name kind \<noteq> [] \<and> act_kind (auth_action a) \<noteq> kind))
                (Errorf ''Sandbox Action has another kind than expected''))
         (if act_state (auth_action a) = ActionSucceeded then ret ()
          else bnd (attempt (with_sandbox_activity sid (effect a))) (\<lambda>r. case r of
              Inl e \<Rightarrow> es_effect_failed ex sid aid e
            | Inr _ \<Rightarrow> es_settle_action ex sid aid a))))))"

definition es_run_action ::
  "'w execution \<Rightarrow> string \<Rightarrow> string \<Rightarrow> action_kind \<Rightarrow> (sandbox_action_authorization \<Rightarrow> ('w, unit) eff) \<Rightarrow> ('w, unit) eff" where
  \<comment> \<open>\<open>runSandboxAction\<close>\<close>
  "es_run_action ex sid bid kind effect =
    (let aid = scoped_action_id sid kind bid in
     seq (require (\<not> (sid = [] \<or> bid = [] \<or> kind_name kind = []))
           (Errorf ''Sandbox Action requires durable Session, Sandbox, and kind identities''))
    (bnd (on_db (get_or_create_sandbox_action bid kind)) (\<lambda>a.
     seq (require (\<not> (act_id a \<noteq> aid \<or> act_session_id a \<noteq> sid \<or> act_kind a \<noteq> kind \<or> act_scope a \<noteq> bid))
           (Errorf ''Sandbox Action changed authoritative identity''))
    (if act_state a = ActionSucceeded then ret ()
     else run_action_step (es_runtime ex) aid (es_perform_action ex sid aid kind effect)))))"

definition es_execute_action :: "'w execution \<Rightarrow> string \<Rightarrow> string \<Rightarrow> action_kind \<Rightarrow> ('w, unit) eff" where
  \<comment> \<open>\<open>ExecuteSandboxAction\<close>\<close>
  "es_execute_action ex sid bid kind = es_run_action ex sid bid kind (es_effect ex)"

definition es_complete_cleanup :: "'w execution \<Rightarrow> string \<Rightarrow> ('w, unit) eff" where
  "es_complete_cleanup ex sid =
    with_session_fence (es_runtime ex) sid
     (seq (es_require_cleanup_task ex sid)
     (case rt_task (es_runtime ex) of None \<Rightarrow> fail (Sentinel ErrNoTaskContext)
      | Some (tid, _) \<Rightarrow> on_db (complete_cleanup sid tid)))"

section \<open>Native work\<close>

datatype reconciliation_progress = ReconciliationIdle | ReconciliationPending | ReconciliationReady

definition es_settle_native :: "session \<Rightarrow> native_state \<Rightarrow> harness_history \<Rightarrow> ('w, bool) eff" where
  "es_settle_native j st h =
    (if native_pending st then
       if \<not> native_mutation_proven st h then ret False
       else seq (on_db (finish_native_mutation (sess_id j) (ns_revision st)))
                (ret (list_all turn_terminal (hist_turns h)))
     else ret (list_all turn_terminal (hist_turns h)))"

definition es_native_idle :: "'w execution \<Rightarrow> session \<Rightarrow> sandbox \<Rightarrow> ('w, bool) eff" where
  "es_native_idle ex j owned =
    bnd (on_db (store_native_state (sess_id j))) (\<lambda>st.
    if thread_id j = [] then ret (\<not> native_pending st)
    else case es_native ex of None \<Rightarrow> fail (Sentinel ErrNativeUnavailable)
    | Some native \<Rightarrow>
        if \<not> native_pending st then on_ext (na_idle native j owned)
        else bnd (on_ext (na_turns native j owned)) (es_settle_native j st))"

fun es_observe :: "'w execution \<Rightarrow> session \<Rightarrow> sandbox list \<Rightarrow> reconciliation_progress \<Rightarrow> ('w, reconciliation_progress) eff" where
  "es_observe ex j [] progress = ret progress"
| "es_observe ex j (b # bs) progress =
    (if sb_name b \<noteq> default_sandbox then es_observe ex j bs progress
     else bnd (es_native_idle ex j b) (\<lambda>idle.
       es_observe ex j bs (if \<not> idle then ReconciliationPending else progress)))"

definition es_reconcile_session :: "'w execution \<Rightarrow> string \<Rightarrow> ('w, reconciliation_progress) eff" where
  "es_reconcile_session ex sid =
    with_session_fence (es_runtime ex) sid
     (seq (es_require_claim ex)
     (bnd (exact_current_attached_task (es_runtime ex) sid []) (\<lambda>j.
      seq (require (admission_open j \<and> cleanup_state j = CleanupPending) (Sentinel ErrNativeUnavailable))
     (bnd (on_db (q_list_session_sandboxes sid)) (\<lambda>bs.
      es_observe ex j bs ReconciliationIdle)))))"

section \<open>Idle Sandboxes\<close>

definition idle_grace :: nat where
  \<comment> \<open>one minute of the database clock\<close>
  "idle_grace = 60000000"

fun es_pause_each ::
  "'w execution \<Rightarrow> (session \<Rightarrow> sandbox \<Rightarrow> ('w, unit) eff) \<Rightarrow> string \<Rightarrow> session \<Rightarrow> sandbox list \<Rightarrow> ('w, unit) eff" where
  "es_pause_each ex pause sid j [] = ret ()"
| "es_pause_each ex pause sid j (b # bs) =
    seq (require (sb_session_id b = sid) (Errorf ''idle Sandbox has a different Session owner''))
   (bnd (es_native_idle ex j b) (\<lambda>idle.
    if \<not> idle then ret ()
    else seq (pause j b) (es_pause_each ex pause sid j bs)))"

definition es_pause_idle ::
  "'w execution \<Rightarrow> (session \<Rightarrow> sandbox \<Rightarrow> ('w, unit) eff) \<Rightarrow> string \<Rightarrow> ('w, unit) eff" where
  "es_pause_idle ex pause sid =
    bnd (on_db (store_session sid)) (\<lambda>j.
    seq (require (sess_id j = sid) (Errorf ''idle reconciliation changed Session identity''))
   (if \<not> can_pause j then ret ()
    else bnd (on_db (sandbox_idle_for sid idle_grace)) (\<lambda>idle.
      if \<not> idle then ret ()
      else bnd (on_db (q_list_session_sandboxes sid)) (es_pause_each ex pause sid j))))"

definition es_reconcile_idle :: "'w execution \<Rightarrow> string \<Rightarrow> ('w, unit) eff" where
  \<comment> \<open>\<open>ReconcileIdleSandboxes\<close>\<close>
  "es_reconcile_idle ex sid =
    (case es_pause ex of None \<Rightarrow> ret ()
     | Some pause \<Rightarrow>
         if sid = [] then fail (Errorf ''idle reconciliation requires a Session identity'')
         else with_session_fence (es_runtime ex) sid
                (with_pause_fence (es_runtime ex) sid (es_pause_idle ex (\<lambda>j b. on_ext (pause j b)) sid)))"

end
