(* ===== verification/Postgres_Profiles.thy ===== *)
theory Postgres_Profiles
  imports Postgres_Sessions
begin

text \<open>
  Sandbox profiles (\<open>internal/postgres/profiles.go\<close> and \<open>dbsql/profiles.sql.go\<close>). A name selects
  a candidate revision and an active one; revisions are immutable definitions under their hash;
  a verification records the functional probe of one revision and the deletion of the Sandbox it
  ran in, and only a settled one makes its revision active.
\<close>

section \<open>Validation of a definition\<close>

text \<open>
  What the code reads from \<open>url.Parse\<close> and from \<open>net.ParseIP\<close> followed by \<open>To4\<close>; the parsers
  themselves are parameters.
\<close>

record url =
  ur_scheme :: string
  ur_host :: string
  ur_hostname :: string
  ur_has_user :: bool
  ur_path :: string
  ur_raw_path :: string
  ur_raw_query :: string
  ur_force_query :: bool
  ur_fragment :: string
  ur_opaque :: string

record net_lib =
  parse_url :: "string \<Rightarrow> url option"
  parse_ip4 :: "string \<Rightarrow> (nat \<times> nat \<times> nat \<times> nat) option"

definition identifier_tail :: "char \<Rightarrow> bool" where
  "identifier_tail c = (is_lower c \<or> is_digit c \<or> c = CHR ''-'')"

definition profile_identifier :: "string \<Rightarrow> bool" where
  \<comment> \<open>\<open>^[a-z][a-z0-9-]{0,62}$\<close>\<close>
  "profile_identifier s =
    (case s of [] \<Rightarrow> False | c # t \<Rightarrow> is_lower c \<and> length t \<le> 62 \<and> list_all identifier_tail t)"

definition disk_size_ok :: "string \<Rightarrow> bool" where
  \<comment> \<open>\<open>^[1-9][0-9]*(MiB|GiB|TiB)$\<close>\<close>
  "disk_size_ok s =
    (let n = length s - 3; digits = take n s in
     3 < length s \<and> drop n s \<in> set [''MiB'', ''GiB'', ''TiB''] \<and> list_all is_digit digits \<and> hd digits \<noteq> CHR ''0'')"

definition validate_profile_identity :: "string \<Rightarrow> string \<Rightarrow> err option" where
  "validate_profile_identity name harness =
    (if \<not> profile_identifier (trim_space name) then Some (Errorf ''Sandbox profile name'')
     else if trim_space harness \<noteq> ''codex'' \<and> trim_space harness \<noteq> ''pi'' then
       Some (Errorf ''Sandbox profile Harness must be codex or pi'')
     else None)"

definition private_gateway_ip :: "nat \<times> nat \<times> nat \<times> nat \<Rightarrow> bool" where
  \<comment> \<open>\<open>IsPrivate\<close> on four bytes, and RFC 6598\<close>
  "private_gateway_ip ip =
    (case ip of (a, b, c, e) \<Rightarrow>
       a = 10 \<or> (a = 172 \<and> b div 16 = 1) \<or> (a = 192 \<and> b = 168) \<or> (a = 100 \<and> b div 64 = 1))"

definition validate_incus_gateway :: "net_lib \<Rightarrow> string \<Rightarrow> err option" where
  "validate_incus_gateway net value =
    (let bad = Some (Errorf ''Incus profile Gateway URL must be exact HTTPS /v1 or HTTP /v1 on a private non-loopback IP'') in
     case parse_url net value of None \<Rightarrow> bad
     | Some u \<Rightarrow>
         if ur_host u = [] \<or> ur_has_user u \<or> ur_path u \<noteq> ''/v1'' \<or> ur_raw_path u \<noteq> [] \<or> ur_raw_query u \<noteq> [] \<or>
            ur_force_query u \<or> ur_fragment u \<noteq> [] \<or> ur_opaque u \<noteq> [] then bad
         else if ur_scheme u = ''https'' then None
         else if ur_scheme u = ''http'' then
           (case parse_ip4 net (ur_hostname u) of
              None \<Rightarrow> Some (Errorf ''Incus profile HTTP Gateway URL must use a private non-loopback IP and exact /v1 path'')
            | Some ip \<Rightarrow>
                if \<not> private_gateway_ip ip \<or> fst ip = 127 then
                  Some (Errorf ''Incus profile HTTP Gateway URL must use a private non-loopback IP and exact /v1 path'')
                else None)
         else bad)"

definition validate_incus_settings ::
  "net_lib \<Rightarrow> string \<Rightarrow> string \<Rightarrow> string \<Rightarrow> string \<Rightarrow> string \<Rightarrow> string \<Rightarrow> err option" where
  "validate_incus_settings net authority project pool network disk gateway =
    (if \<not> hex64 (trim_space authority) then
       Some (Errorf ''Incus profile requires the exact Deployment endpoint authority hash'')
     else if \<not> list_all (\<lambda>f. profile_identifier (trim_space f)) [project, pool, network] then
       Some (Errorf ''Incus profile identifiers'')
     else if \<not> disk_size_ok (trim_space disk) then
       Some (Errorf ''Incus profile disk size must use canonical MiB, GiB, or TiB units'')
     else validate_incus_gateway net (trim_space gateway))"

definition validate_e2b_settings :: "net_lib \<Rightarrow> sandbox_profile \<Rightarrow> err option" where
  "validate_e2b_settings net p =
    (if CHR '':'' \<notin> set (p_artifact p) then
       Some (Errorf ''E2B profile artifact must pin an exact template build reference'')
     else if p_e2b_gateway_url p = [] \<or> p_e2b_sandbox_timeout p \<le> 0 \<or> p_e2b_sandbox_timeout p mod second \<noteq> 0 then
       Some (Errorf ''E2B profile requires an exact Gateway URL and positive whole-second Sandbox timeout'')
     else
       (let bad = Some (Errorf ''E2B profile Gateway URL must be an exact HTTPS /v1 endpoint'') in
        case parse_url net (p_e2b_gateway_url p) of None \<Rightarrow> bad
        | Some u \<Rightarrow>
            if ur_scheme u \<noteq> ''https'' \<or> ur_host u = [] \<or> ur_has_user u \<or> ur_raw_query u \<noteq> [] \<or>
               ur_fragment u \<noteq> [] \<or> ur_path u \<noteq> ''/v1'' then bad
            else None))"

definition trimmed_profile :: "sandbox_profile \<Rightarrow> sandbox_profile" where
  "trimmed_profile p = p\<lparr>
     p_name := trim_space (p_name p), p_harness := trim_space (p_harness p), p_artifact := trim_space (p_artifact p),
     p_incus_endpoint_authority_hash := trim_space (p_incus_endpoint_authority_hash p),
     p_incus_project := trim_space (p_incus_project p), p_incus_storage_pool := trim_space (p_incus_storage_pool p),
     p_incus_network := trim_space (p_incus_network p), p_incus_disk_size := trim_space (p_incus_disk_size p),
     p_incus_gateway_url := trim_space (p_incus_gateway_url p), p_e2b_gateway_url := trim_space (p_e2b_gateway_url p),
     p_definition_hash := [], p_active_revision := [], p_default := False, p_verification := None\<rparr>"

definition hashed_profile :: "sandbox_profile \<Rightarrow> sandbox_profile" where
  "hashed_profile p = p\<lparr>p_definition_hash := current_definition_hash p\<rparr>"

definition normal_incus :: "net_lib \<Rightarrow> sandbox_profile \<Rightarrow> err + sandbox_profile" where
  "normal_incus net p =
    (if \<not> hex64 (p_artifact p) then
       Inl (Errorf ''Incus profile artifact must be an exact lowercase 64-hex image fingerprint'')
     else case validate_incus_settings net (p_incus_endpoint_authority_hash p) (p_incus_project p)
            (p_incus_storage_pool p) (p_incus_network p) (p_incus_disk_size p) (p_incus_gateway_url p) of
         Some e \<Rightarrow> Inl e
       | None \<Rightarrow> Inr (p\<lparr>p_e2b_gateway_url := [], p_e2b_sandbox_timeout := 0, p_e2b_allow_internet := False\<rparr>))"

definition normal_e2b :: "net_lib \<Rightarrow> sandbox_profile \<Rightarrow> err + sandbox_profile" where
  "normal_e2b net p =
    (case validate_e2b_settings net p of
       Some e \<Rightarrow> Inl e
     | None \<Rightarrow> Inr (p\<lparr>p_incus_endpoint_authority_hash := [], p_incus_project := [], p_incus_storage_pool := [],
                 p_incus_network := [], p_incus_disk_size := [], p_incus_gateway_url := []\<rparr>))"

definition normal_settings :: "net_lib \<Rightarrow> sandbox_profile \<Rightarrow> err + sandbox_profile" where
  "normal_settings net p =
    (case validate_profile_identity (p_name p) (p_harness p) of Some e \<Rightarrow> Inl e | None \<Rightarrow>
     if p_artifact p = [] then Inl (Errorf ''Sandbox profile requires an exact provider artifact'')
     else if p_provider p = ''incus'' then normal_incus net p
     else if p_provider p = ''e2b'' then normal_e2b net p
     else Inl (Errorf ''unsupported Sandbox provider''))"

definition normalize_profile :: "net_lib \<Rightarrow> sandbox_profile \<Rightarrow> err + sandbox_profile" where
  "normalize_profile net p =
    (case normal_settings net (trimmed_profile p) of Inl e \<Rightarrow> Inl e | Inr q \<Rightarrow> Inr (hashed_profile q))"

record profile_patch =
  pp_harness :: "string option"
  pp_incus_artifact :: "string option"
  pp_incus_endpoint_authority_hash :: "string option"
  pp_incus_project :: "string option"
  pp_incus_storage_pool :: "string option"
  pp_incus_network :: "string option"
  pp_incus_disk_size :: "string option"
  pp_incus_gateway_url :: "string option"
  pp_e2b_artifact :: "string option"
  pp_e2b_gateway_url :: "string option"
  pp_e2b_sandbox_timeout :: "int option"
  pp_e2b_allow_internet :: "bool option"

definition patched :: "'a option \<Rightarrow> 'a \<Rightarrow> 'a" where
  "patched x old = (case x of None \<Rightarrow> old | Some y \<Rightarrow> y)"

definition patches_e2b :: "profile_patch \<Rightarrow> bool" where
  "patches_e2b q =
    (pp_e2b_artifact q \<noteq> None \<or> pp_e2b_gateway_url q \<noteq> None \<or> pp_e2b_sandbox_timeout q \<noteq> None \<or>
     pp_e2b_allow_internet q \<noteq> None)"

definition patches_incus :: "profile_patch \<Rightarrow> bool" where
  "patches_incus q =
    (pp_incus_artifact q \<noteq> None \<or> pp_incus_endpoint_authority_hash q \<noteq> None \<or> pp_incus_project q \<noteq> None \<or>
     pp_incus_storage_pool q \<noteq> None \<or> pp_incus_network q \<noteq> None \<or> pp_incus_disk_size q \<noteq> None \<or>
     pp_incus_gateway_url q \<noteq> None)"

definition apply_profile_patch :: "sandbox_profile \<Rightarrow> profile_patch \<Rightarrow> err + sandbox_profile" where
  "apply_profile_patch p0 q =
    (let p = p0\<lparr>p_harness := patched (pp_harness q) (p_harness p0)\<rparr> in
     if p_provider p = ''incus'' then
       if patches_e2b q then Inl (Errorf ''Incus profile update does not accept E2B fields'')
       else Inr (p\<lparr>p_artifact := patched (pp_incus_artifact q) (p_artifact p),
         p_incus_endpoint_authority_hash := patched (pp_incus_endpoint_authority_hash q) (p_incus_endpoint_authority_hash p),
         p_incus_project := patched (pp_incus_project q) (p_incus_project p),
         p_incus_storage_pool := patched (pp_incus_storage_pool q) (p_incus_storage_pool p),
         p_incus_network := patched (pp_incus_network q) (p_incus_network p),
         p_incus_disk_size := patched (pp_incus_disk_size q) (p_incus_disk_size p),
         p_incus_gateway_url := patched (pp_incus_gateway_url q) (p_incus_gateway_url p)\<rparr>)
     else if p_provider p = ''e2b'' then
       if patches_incus q then Inl (Errorf ''E2B profile update does not accept Incus fields'')
       else Inr (p\<lparr>p_artifact := patched (pp_e2b_artifact q) (p_artifact p),
         p_e2b_gateway_url := patched (pp_e2b_gateway_url q) (p_e2b_gateway_url p),
         p_e2b_sandbox_timeout := patched (pp_e2b_sandbox_timeout q) (p_e2b_sandbox_timeout p),
         p_e2b_allow_internet := patched (pp_e2b_allow_internet q) (p_e2b_allow_internet p)\<rparr>)
     else Inl (Errorf ''unsupported Sandbox provider''))"

definition same_profile_definition :: "sandbox_profile \<Rightarrow> sandbox_profile \<Rightarrow> bool" where
  "same_profile_definition p q =
    (p\<lparr>p_default := False, p_active_revision := [], p_verification := None\<rparr> =
     q\<lparr>p_default := False, p_active_revision := [], p_verification := None\<rparr>)"

section \<open>Reading a profile\<close>

definition find_verification :: "db \<Rightarrow> string \<Rightarrow> string \<Rightarrow> verification_row option" where
  "find_verification d name hash = find (\<lambda>v. vr_profile v = name \<and> vr_hash v = hash) (verifications d)"

definition verification_value :: "verification_row \<Rightarrow> profile_verification" where
  "verification_value v =
    \<lparr>pv_profile_name = vr_profile v, pv_contract_version = vr_contract v, pv_definition_hash = vr_hash v,
     pv_sandbox_id = vr_sandbox v, pv_ownership_nonce = vr_nonce v, pv_harness_version = text_of (vr_harness_version v),
     pv_attempted_at = vr_attempted v, pv_probe_completed_at = vr_probed v, pv_cleaned_at = vr_cleaned v,
     pv_last_error = text_of (vr_error v)\<rparr>"

definition profile_value :: "db \<Rightarrow> profile_name_row \<Rightarrow> sandbox_profile \<Rightarrow> sandbox_profile" where
  \<comment> \<open>a revision joined with its name and its verification\<close>
  "profile_value d n p = p\<lparr>p_default := pn_default n, p_active_revision := text_of (pn_active n),
     p_verification := (case find_verification d (p_name p) (p_definition_hash p) of
         None \<Rightarrow> None
       | Some v \<Rightarrow> if vr_contract v = [] then None else Some (verification_value v))\<rparr>"

definition profile_at :: "db \<Rightarrow> string \<Rightarrow> (profile_name_row \<Rightarrow> string option) \<Rightarrow> sandbox_profile option" where
  "profile_at d name pick =
    (case row_of pn_name name (profile_names d) of None \<Rightarrow> None | Some n \<Rightarrow>
     case pick n of None \<Rightarrow> None | Some hash \<Rightarrow> map_option (profile_value d n) (revision_of d name hash))"

definition q_get_profile :: "string \<Rightarrow> (db, sandbox_profile) act" where
  "q_get_profile name =
    bnd (gets (\<lambda>d. profile_at d name (\<lambda>n. Some (pn_candidate n)))) (\<lambda>r. the_row r (Sentinel ErrNoRows))"

definition q_get_active_profile :: "string \<Rightarrow> (db, sandbox_profile) act" where
  "q_get_active_profile name =
    bnd (gets (\<lambda>d. profile_at d name pn_active)) (\<lambda>r. the_row r (Sentinel ErrNoRows))"

definition q_get_profile_revision :: "string \<Rightarrow> string \<Rightarrow> (db, sandbox_profile) act" where
  "q_get_profile_revision name hash =
    bnd (gets (\<lambda>d. profile_at d name (\<lambda>_. Some hash))) (\<lambda>r. the_row r (Sentinel ErrNoRows))"

definition q_list_profiles :: "(db, sandbox_profile list) act" where
  "q_list_profiles = gets (\<lambda>d.
    List.map_filter (\<lambda>n. map_option (profile_value d n)
        (revision_of d (pn_name n) (case pn_active n of Some h \<Rightarrow> h | None \<Rightarrow> pn_candidate n)))
      (sort_key pn_name (profile_names d)))"

definition q_get_default_profile :: "(db, string) act" where
  "q_get_default_profile =
    bnd (gets (\<lambda>d. map_option pn_name (find pn_default (profile_names d)))) (\<lambda>r. the_row r (Sentinel ErrNoRows))"

definition q_lock_profile :: "string \<Rightarrow> (db, string) act" where
  "q_lock_profile name =
    bnd (gets (\<lambda>d. map_option pn_name (row_of pn_name name (profile_names d)))) (\<lambda>r. the_row r (Sentinel ErrNoRows))"

definition profile_not_found :: err where
  "profile_not_found = Sentinel ErrProfileNotFound"

definition store_profile :: "string \<Rightarrow> (db, sandbox_profile) act" where
  "store_profile name = no_rows_as profile_not_found (q_get_profile (trim_space name))"

definition active_profile :: "string \<Rightarrow> (db, sandbox_profile) act" where
  "active_profile name =
    bnd (attempt (q_get_active_profile (trim_space name))) (\<lambda>r. case r of
        Inr p \<Rightarrow> ret p
      | Inl e \<Rightarrow>
          if \<not> err_is e ErrNoRows then fail e
          else seq (store_profile name) (fail (Errorf ''Sandbox profile has no active verified revision'')))"

definition profile_revision :: "profile_ref \<Rightarrow> (db, sandbox_profile) act" where
  "profile_revision r =
    seq (require (\<not> (pr_name r = [] \<or> pr_revision r = [])) (Errorf ''Session requires an exact Sandbox profile revision''))
        (no_rows_as profile_not_found (q_get_profile_revision (pr_name r) (pr_revision r)))"

definition default_profile :: "(db, sandbox_profile) act" where
  "default_profile =
    bnd (no_rows_as (Errorf ''no default Sandbox profile is configured'') q_get_default_profile) active_profile"

definition lock_candidate_profile :: "string \<Rightarrow> (db, sandbox_profile) act" where
  "lock_candidate_profile name = seq (no_rows_as profile_not_found (q_lock_profile name)) (q_get_profile name)"

section \<open>Statements\<close>

definition stored_profile :: "sandbox_profile \<Rightarrow> sandbox_profile" where
  \<comment> \<open>what the columns of the revisions table hold: whole seconds, and a null switch outside E2B\<close>
  "stored_profile p = p\<lparr>p_default := False, p_active_revision := [], p_verification := None,
     p_e2b_sandbox_timeout := p_e2b_sandbox_timeout p div second * second,
     p_e2b_allow_internet := (p_provider p = ''e2b'' \<and> p_e2b_allow_internet p)\<rparr>"

definition sql_blank :: "string \<Rightarrow> bool" where
  \<comment> \<open>\<open>length(trim(x)) = 0\<close>: PostgreSQL trims blanks only\<close>
  "sql_blank s = list_all (\<lambda>c. c = CHR '' '') s"

definition revision_check :: "sandbox_profile \<Rightarrow> bool" where
  \<comment> \<open>the check constraints of the revisions table\<close>
  "revision_check p =
    (profile_identifier (p_name p) \<and> (p_harness p = ''codex'' \<or> p_harness p = ''pi'') \<and> \<not> sql_blank (p_artifact p) \<and>
     hex64 (p_definition_hash p) \<and>
     ((p_provider p = ''incus'' \<and> hex64 (p_incus_endpoint_authority_hash p) \<and> \<not> sql_blank (p_incus_project p) \<and>
       \<not> sql_blank (p_incus_storage_pool p) \<and> \<not> sql_blank (p_incus_network p) \<and> \<not> sql_blank (p_incus_disk_size p) \<and>
       \<not> sql_blank (p_incus_gateway_url p) \<and> p_e2b_gateway_url p = [] \<and> p_e2b_sandbox_timeout p = 0 \<and>
       \<not> p_e2b_allow_internet p) \<or>
      (p_provider p = ''e2b'' \<and> p_incus_endpoint_authority_hash p = [] \<and> p_incus_project p = [] \<and>
       p_incus_storage_pool p = [] \<and> p_incus_network p = [] \<and> p_incus_disk_size p = [] \<and> p_incus_gateway_url p = [] \<and>
       \<not> sql_blank (p_e2b_gateway_url p) \<and> 0 < p_e2b_sandbox_timeout p)))"

definition profile_texts :: "sandbox_profile \<Rightarrow> string list" where
  \<comment> \<open>the text columns of a revision\<close>
  "profile_texts p =
    [p_name p, p_provider p, p_harness p, p_artifact p, p_definition_hash p, p_incus_endpoint_authority_hash p,
     p_incus_project p, p_incus_storage_pool p, p_incus_network p, p_incus_disk_size p, p_incus_gateway_url p,
     p_e2b_gateway_url p]"

definition q_insert_profile :: "sandbox_profile \<Rightarrow> (db, nat) act" where
  \<comment> \<open>the immutable revision; nothing where the hash is already known\<close>
  "q_insert_profile p = (\<lambda>d.
    if \<not> list_all valid_text (profile_texts (stored_profile p)) then (Inl text_error, d)
    else if \<not> revision_check (stored_profile p) then (Inl (check_violation ''sandbox_profile_revisions_check''), d)
    else if revision_of d (p_name p) (p_definition_hash p) \<noteq> None then (Inr 0, d)
    else (Inr 1, revisions_update (add_row (stored_profile p)) d))"

definition q_insert_profile_name :: "string \<Rightarrow> string \<Rightarrow> (db, nat) act" where
  "q_insert_profile_name name hash = (\<lambda>d.
    if row_of pn_name name (profile_names d) \<noteq> None then (Inr 0, d)
    else if revision_of d name hash = None then (Inl (foreign_key_violation ''sandbox_profiles_candidate_revision_fkey''), d)
    else (Inr 1, profile_names_update (add_row
      \<lparr>pn_name = name, pn_candidate = hash, pn_active = None, pn_default = False\<rparr>) d))"

definition q_update_profile :: "string \<Rightarrow> string \<Rightarrow> (db, nat) act" where
  "q_update_profile name hash = (\<lambda>d.
    if row_of pn_name name (profile_names d) \<noteq> None \<and> revision_of d name hash = None then
      (Inl (foreign_key_violation ''sandbox_profiles_candidate_revision_fkey''), d)
    else update_tbl profile_names profile_names_update (\<lambda>n. pn_name n = name) (\<lambda>n. n\<lparr>pn_candidate := hash\<rparr>) d)"

definition q_verification_needs_cleanup :: "string \<Rightarrow> (db, bool) act" where
  "q_verification_needs_cleanup name =
    gets (\<lambda>d. list_ex (\<lambda>v. vr_profile v = name \<and> vr_cleaned v = None) (verifications d))"

definition q_clear_default :: "(db, nat) act" where
  "q_clear_default = update_tbl profile_names profile_names_update pn_default (\<lambda>n. n\<lparr>pn_default := False\<rparr>)"

definition q_set_default :: "string \<Rightarrow> (db, nat) act" where
  "q_set_default name = (\<lambda>d.
    if row_of pn_name name (profile_names d) \<noteq> None \<and> list_ex (\<lambda>n. pn_default n \<and> pn_name n \<noteq> name) (profile_names d) then
      (Inl (unique_violation ''sandbox_profiles_one_default''), d)
    else update_tbl profile_names profile_names_update (\<lambda>n. pn_name n = name) (\<lambda>n. n\<lparr>pn_default := True\<rparr>) d)"

definition q_delete_verification :: "string \<Rightarrow> string \<Rightarrow> (db, unit) act" where
  "q_delete_verification name hash =
    modify (verifications_update (filter (\<lambda>v. \<not> (vr_profile v = name \<and> vr_hash v = hash))))"

definition q_begin_verification ::
  "string \<Rightarrow> string \<Rightarrow> string \<Rightarrow> string \<Rightarrow> string \<Rightarrow> (db, verification_row) act" where
  \<comment> \<open>an attempt that is not probed yet is restarted under its own Sandbox and nonce\<close>
  "q_begin_verification name contract hash bid nonce = (\<lambda>d.
    case find_verification d name hash of
      Some v \<Rightarrow>
        if vr_probed v \<noteq> None then (Inl (Sentinel ErrNoRows), d)
        else (Inr (v\<lparr>vr_attempted := now d, vr_cleaned := None, vr_error := None\<rparr>),
          verifications_update (upd_where (\<lambda>v. vr_profile v = name \<and> vr_hash v = hash)
            (\<lambda>v. v\<lparr>vr_attempted := now d, vr_cleaned := None, vr_error := None\<rparr>)) d)
    | None \<Rightarrow>
        let v = \<lparr>vr_profile = name, vr_contract = contract, vr_hash = hash, vr_sandbox = bid, vr_nonce = nonce,
          vr_harness_version = None, vr_attempted = now d, vr_probed = None, vr_cleaned = None, vr_error = None\<rparr>
        in (case first_violation
              [(sql_blank contract \<or> sql_blank bid \<or> \<not> hex64 nonce, check_violation ''sandbox_profile_verifications_check''),
               (list_ex (\<lambda>v. vr_sandbox v = bid \<or> vr_nonce v = nonce) (verifications d),
                  unique_violation ''sandbox_profile_verifications''),
               (revision_of d name hash = None, foreign_key_violation ''sandbox_profile_verifications'')] of
              Some e \<Rightarrow> (Inl e, d)
            | None \<Rightarrow> (Inr v, verifications_update (add_row v) d)))"

definition same_attempt :: "profile_verification \<Rightarrow> verification_row \<Rightarrow> bool" where
  "same_attempt x v =
    (vr_profile v = pv_profile_name x \<and> vr_contract v = pv_contract_version x \<and> vr_hash v = pv_definition_hash x \<and>
     vr_sandbox v = pv_sandbox_id x \<and> vr_nonce v = pv_ownership_nonce x)"

definition q_record_probe :: "profile_verification \<Rightarrow> string \<Rightarrow> (db, nat) act" where
  "q_record_probe x version =
    seq (require (valid_text version) text_error)
   (bnd clock (\<lambda>t.
    update_tbl verifications verifications_update (\<lambda>v. same_attempt x v \<and> vr_cleaned v = None)
      (\<lambda>v. v\<lparr>vr_harness_version := Some version, vr_probed := coalesce (vr_probed v) (Some t), vr_error := None\<rparr>)))"

definition q_record_verification_cleanup :: "profile_verification \<Rightarrow> (db, nat) act" where
  "q_record_verification_cleanup x =
    bnd clock (\<lambda>t.
    update_tbl verifications verifications_update (same_attempt x)
      (\<lambda>v. v\<lparr>vr_cleaned := coalesce (vr_cleaned v) (Some t),
             vr_error := (if vr_cleaned v = None \<and> vr_probed v \<noteq> None then None else vr_error v)\<rparr>))"

definition settled_revision :: "db \<Rightarrow> string \<Rightarrow> string \<Rightarrow> string \<Rightarrow> bool" where
  \<comment> \<open>the revision was probed under the contract, cleaned up, and has no error\<close>
  "settled_revision d name hash contract =
    list_ex (\<lambda>v. vr_profile v = name \<and> vr_hash v = hash \<and> vr_contract v = contract \<and> vr_probed v \<noteq> None \<and>
      vr_cleaned v \<noteq> None \<and> vr_error v = None) (verifications d)"

definition q_promote_profile :: "string \<Rightarrow> string \<Rightarrow> string \<Rightarrow> (db, nat) act" where
  "q_promote_profile name hash contract = (\<lambda>d.
    update_tbl profile_names profile_names_update
      (\<lambda>n. pn_name n = name \<and> pn_candidate n = hash \<and> settled_revision d name (pn_candidate n) contract)
      (\<lambda>n. n\<lparr>pn_active := nullif_empty hash\<rparr>) d)"

definition q_record_verification_error :: "profile_verification \<Rightarrow> string \<Rightarrow> (db, nat) act" where
  "q_record_verification_error x detail =
    seq (require (valid_text detail) text_error)
        (update_tbl verifications verifications_update (same_attempt x) (\<lambda>v. v\<lparr>vr_error := nullif_empty detail\<rparr>))"

definition q_session_profile :: "string \<Rightarrow> (db, string) act" where
  "q_session_profile sid =
    bnd (gets (\<lambda>d. map_option s_profile (session_of d sid))) (\<lambda>r. the_row r (Sentinel ErrNoRows))"

definition q_mark_unavailable :: "string \<Rightarrow> string \<Rightarrow> string \<Rightarrow> string \<Rightarrow> (db, nat) act" where
  "q_mark_unavailable detail name contract sid = (\<lambda>d.
    if \<not> valid_text detail then (Inl text_error, d)
    else update_tbl verifications verifications_update
      (\<lambda>v. vr_profile v = name \<and> vr_contract v = contract \<and>
           map_option s_profile_revision (session_of d sid) = Some (vr_hash v) \<and> vr_probed v \<noteq> None \<and> vr_cleaned v \<noteq> None)
      (\<lambda>v. v\<lparr>vr_error := nullif_empty detail\<rparr>) d)"

section \<open>Candidates\<close>

definition create_profile :: "net_lib \<Rightarrow> sandbox_profile \<Rightarrow> (db, sandbox_profile \<times> bool) act" where
  "create_profile net p0 =
    bnd (lift (normalize_profile net p0)) (\<lambda>p.
    tx (bnd (q_insert_profile p) (\<lambda>_.
        bnd (q_insert_profile_name (p_name p) (p_definition_hash p)) (\<lambda>rows.
        bnd (q_get_profile (p_name p)) (\<lambda>stored.
        seq (require (same_profile_definition stored p)
              (Errorf ''Sandbox profile already exists with a different candidate definition; use profile update''))
            (ret (stored, rows = 1)))))))"

definition update_profile :: "net_lib \<Rightarrow> string \<Rightarrow> profile_patch \<Rightarrow> (db, sandbox_profile \<times> bool) act" where
  "update_profile net name0 patch =
    (let name = trim_space name0 in
     tx (bnd (lock_candidate_profile name) (\<lambda>current.
         bnd (lift (apply_profile_patch current patch)) (\<lambda>q.
         bnd (lift (normalize_profile net q)) (\<lambda>p.
         if same_profile_definition current p then bnd (q_get_profile name) (\<lambda>stored. ret (stored, False))
         else
           bnd (q_verification_needs_cleanup name) (\<lambda>needs.
           seq (require (\<not> needs)
                 (Errorf ''Sandbox profile cannot be updated while its verification Sandbox cleanup is incomplete''))
          (bnd (q_insert_profile p) (\<lambda>_.
           bnd (q_update_profile (p_name p) (p_definition_hash p)) (\<lambda>rows.
           seq (require (rows = 1) (Errorf ''update Sandbox profile affected rows''))
          (bnd (q_get_profile name) (\<lambda>stored. ret (stored, True))))))))))))"

definition set_default_profile :: "string \<Rightarrow> (db, sandbox_profile) act" where
  "set_default_profile name0 =
    (let name = trim_space name0 in
     seq (tx (bnd (no_rows_as profile_not_found (q_lock_profile name)) (\<lambda>_.
              bnd (no_rows_as (Errorf ''Sandbox profile has not completed verification and cleanup'')
                    (q_get_active_profile name)) (\<lambda>p.
              seq (require (p_definition_hash p = current_definition_hash p)
                    (Errorf ''Sandbox profile definition does not match its retained hash''))
             (seq (require (base_verified p) (Errorf ''Sandbox profile has not completed verification and cleanup''))
             (seq q_clear_default
             (bnd (q_set_default name) (\<lambda>rows.
              require (rows = 1) (Errorf ''set default Sandbox profile affected rows'')))))))))
         (active_profile name))"

section \<open>Verification\<close>

definition with_profile_verification :: "bool \<Rightarrow> string \<Rightarrow> ('s, 'a) act \<Rightarrow> ('s, 'a) act" where
  \<comment> \<open>\<open>acquired\<close>: the advisory lock of the name was free\<close>
  "with_profile_verification acquired name work =
    seq (require (trim_space name \<noteq> []) (Errorf ''Sandbox profile verification requires a profile name and operation''))
   (seq (require acquired (Errorf ''Sandbox profile verification is already running'')) work)"

definition verification_sandbox :: "string \<Rightarrow> string \<Rightarrow> string" where
  "verification_sandbox name hash = ''dorf-profile-'' @ digest (name @ '':'' @ hash) 20"

definition begin_profile_verification ::
  "err + string \<Rightarrow> string \<Rightarrow> (db, sandbox_profile \<times> profile_verification) act" where
  "begin_profile_verification nonce0 name0 =
    bnd (lift nonce0) (\<lambda>nonce.
    let name = trim_space name0 in
    tx (bnd (lock_candidate_profile name) (\<lambda>p.
        seq (require (p_definition_hash p = current_definition_hash p)
              (Errorf ''Sandbox profile definition does not match its retained hash''))
       (case p_verification p of
          Some v \<Rightarrow>
            if pv_probe_completed_at v \<noteq> None \<and> pv_cleaned_at v = None then ret (p, v)
            else seq (if pv_probe_completed_at v \<noteq> None then q_delete_verification name (p_definition_hash p) else ret ())
                (bnd (q_begin_verification (p_name p) base_profile_contract (p_definition_hash p)
                      (verification_sandbox name (p_definition_hash p)) nonce) (\<lambda>row.
                 ret (if pv_probe_completed_at v \<noteq> None then p\<lparr>p_verification := None\<rparr> else p, verification_value row)))
        | None \<Rightarrow>
            bnd (q_begin_verification (p_name p) base_profile_contract (p_definition_hash p)
                  (verification_sandbox name (p_definition_hash p)) nonce) (\<lambda>row. ret (p, verification_value row))))))"

definition record_profile_probe :: "profile_verification \<Rightarrow> string \<Rightarrow> (db, unit) act" where
  "record_profile_probe x version =
    seq (require (trim_space version \<noteq> []) (Errorf ''profile verification requires an observed Harness version''))
        (expect_one_rows (q_record_probe x (trim_space version)))"

definition record_verification_cleanup :: "profile_verification \<Rightarrow> (db, unit) act" where
  "record_verification_cleanup x =
    tx (seq (q_lock_profile (pv_profile_name x))
       (seq (expect_one_rows (q_record_verification_cleanup x))
       (bnd (q_promote_profile (pv_profile_name x) (pv_definition_hash x) base_profile_contract) (\<lambda>_. ret ()))))"

definition bounded_failure :: "string \<Rightarrow> string" where
  "bounded_failure detail = (if 2048 < length detail then take 2048 detail else detail)"

definition record_verification_error :: "profile_verification \<Rightarrow> string option \<Rightarrow> (db, unit) act" where
  \<comment> \<open>the text of the failure; \<open>None\<close> where there is none\<close>
  "record_verification_error x failure =
    (case failure of None \<Rightarrow> ret ()
     | Some text \<Rightarrow> expect_one_rows (q_record_verification_error x (bounded_failure (trim_space text))))"

definition record_profile_unavailable :: "string \<Rightarrow> string \<Rightarrow> string \<Rightarrow> string option \<Rightarrow> (db, unit) act" where
  "record_profile_unavailable sid0 name0 source0 failure =
    (let sid = trim_space sid0; name = trim_space name0; source = trim_space source0 in
     if sid = [] \<or> name = [] \<or> source = [] \<or> failure = None then
       fail (Errorf ''unavailable Sandbox profile requires Session ID, profile, exact source, and failure'')
     else let text = trim_space (the failure); detail = bounded_failure text in
       if text = [] then fail (Errorf ''unavailable Sandbox profile requires failure detail'')
       else tx (seq (no_rows_as profile_not_found (q_lock_profile name))
               (bnd (q_session_profile sid) (\<lambda>pinned.
                seq (require (pinned = name) (Errorf ''Session pins another Sandbox profile''))
               (bnd (q_mark_unavailable detail name base_profile_contract sid) (\<lambda>rows.
                seq (require (rows = 1) (Errorf ''Sandbox profile has no settled verification to invalidate''))
               (bnd (q_set_execution_attention sid source detail) (\<lambda>marked.
                require (marked = 1) (Errorf ''Session already has attention owned by a different fact'')))))))))"

section \<open>Profiles preserve the invariants\<close>

lemma keeps_profile_reads [keeps_intros]:
  "keeps I (q_get_profile name)" "keeps I (q_get_active_profile name)" "keeps I (q_get_profile_revision name hash)"
  "keeps I (q_lock_profile name)" "keeps I (store_profile name)" "keeps I (lock_candidate_profile name)"
  "keeps I (q_verification_needs_cleanup name)" "keeps I (q_session_profile sid)" "keeps I q_get_default_profile"
  unfolding q_get_profile_def q_get_active_profile_def q_get_profile_revision_def q_lock_profile_def store_profile_def
    lock_candidate_profile_def q_verification_needs_cleanup_def q_session_profile_def q_get_default_profile_def
  by (intro keeps_intros)+

lemma keeps_active_profile [keeps_intros]: "keeps I (active_profile name)"
  unfolding active_profile_def by (intro keeps_intros)

lemma revision_of_key: "revision_of d name hash \<noteq> None \<longleftrightarrow> (name, hash) \<in> revision_keys (revisions d)"
  by (auto simp: revision_of_def revision_keys_def find_None_iff)

lemma revision_of_stored: "revision_of d name hash = Some p \<Longrightarrow> (name, hash) \<in> revision_keys (revisions d)"
  using revision_of_key by blast

lemma db_inv_profiles:
  "db_inv d \<Longrightarrow> profiles_ok (f (profile_names d)) (revisions d) (verifications d) \<Longrightarrow> db_inv (profile_names_update f d)"
  "db_inv d \<Longrightarrow> profiles_ok (profile_names d) (g (revisions d)) (verifications d) \<Longrightarrow> db_inv (revisions_update g d)"
  "db_inv d \<Longrightarrow> profiles_ok (profile_names d) (revisions d) (h (verifications d)) \<Longrightarrow> db_inv (verifications_update h d)"
  by (simp_all add: db_inv_def)

lemma db_inv_names:
  assumes inv: "db_inv d" and one: "length (filter pn_default (upd_where p f (profile_names d))) \<le> 1"
    and row: "\<And>n. n \<in> set (profile_names d) \<Longrightarrow> p n \<Longrightarrow> pn_name (f n) = pn_name n \<and>
      (pn_name n, pn_candidate (f n)) \<in> revision_keys (revisions d) \<and>
      (\<forall>h. pn_active (f n) = Some h \<longrightarrow> (pn_name n, h) \<in> revision_keys (revisions d))"
  shows "db_inv (profile_names_update (upd_where p f) d)"
proof (rule db_inv_profiles(1) [OF inv])
  have "map pn_name (upd_where p f (profile_names d)) = map pn_name (profile_names d)"
    using row by (simp add: upd_where_def)
  moreover have "profiles_ok (profile_names d) (revisions d) (verifications d)" using inv by (simp add: db_inv_def)
  ultimately show "profiles_ok (upd_where p f (profile_names d)) (revisions d) (verifications d)"
    using one row by (auto simp: profiles_ok_def set_upd_where)
qed

lemma db_inv_verifications:
  assumes inv: "db_inv d"
    and row: "\<And>v. v \<in> set (verifications d) \<Longrightarrow> p v \<Longrightarrow> vr_profile (f v) = vr_profile v \<and> vr_hash (f v) = vr_hash v"
  shows "db_inv (verifications_update (upd_where p f) d)"
proof (rule db_inv_profiles(3) [OF inv])
  have "map (\<lambda>v. (vr_profile v, vr_hash v)) (upd_where p f (verifications d)) =
      map (\<lambda>v. (vr_profile v, vr_hash v)) (verifications d)"
    using row by (simp add: upd_where_def)
  moreover have "profiles_ok (profile_names d) (revisions d) (verifications d)" using inv by (simp add: db_inv_def)
  ultimately show "profiles_ok (profile_names d) (revisions d) (upd_where p f (verifications d))"
    using row by (auto simp: profiles_ok_def set_upd_where)
qed

lemma same_defaults:
  assumes "\<And>n. pn_default (f n) = pn_default n"
  shows "length (filter pn_default (upd_where p f ns)) = length (filter pn_default ns)"
  by (induction ns) (auto simp: upd_where_def assms)

lemma db_inv_names_keep:
  assumes inv: "db_inv d" and "\<And>n. pn_default (f n) = pn_default n"
    and "\<And>n. n \<in> set (profile_names d) \<Longrightarrow> p n \<Longrightarrow> pn_name (f n) = pn_name n \<and>
      (pn_name n, pn_candidate (f n)) \<in> revision_keys (revisions d) \<and>
      (\<forall>h. pn_active (f n) = Some h \<longrightarrow> (pn_name n, h) \<in> revision_keys (revisions d))"
  shows "db_inv (profile_names_update (upd_where p f) d)"
  by (rule db_inv_names [OF inv _ assms(3)])
    (use inv in \<open>simp_all add: same_defaults assms(2) db_inv_def profiles_ok_def\<close>)

lemma keeps_insert_profile [keeps_intros]: "keeps db_inv (q_insert_profile p)"
proof (rule keepsI)
  fix d assume inv: "db_inv d"
  have "db_inv (revisions_update (add_row (stored_profile p)) d)" if "revision_of d (p_name p) (p_definition_hash p) = None"
  proof (rule db_inv_profiles(2) [OF inv])
    have "(p_name p, p_definition_hash p) \<notin> revision_keys (revisions d)" using that revision_of_key by blast
    then show "profiles_ok (profile_names d) (add_row (stored_profile p) (revisions d)) (verifications d)"
      using inv by (auto simp: db_inv_def profiles_ok_def revision_keys_def stored_profile_def)
  qed
  with inv show "wp (q_insert_profile p) (\<lambda>_. db_inv) (\<lambda>_. db_inv) d" by (simp add: wp_def q_insert_profile_def)
qed

lemma keeps_insert_profile_name [keeps_intros]: "keeps db_inv (q_insert_profile_name name hash)"
proof (rule keepsI)
  fix d assume inv: "db_inv d"
  let ?n = "\<lparr>pn_name = name, pn_candidate = hash, pn_active = None, pn_default = False\<rparr>"
  have "db_inv (profile_names_update (add_row ?n) d)"
    if "row_of pn_name name (profile_names d) = None" "revision_of d name hash \<noteq> None"
    using inv that by (intro db_inv_profiles(1)) (auto simp: row_of_None db_inv_def profiles_ok_def add_row_def dest!: revision_of_stored)
  with inv show "wp (q_insert_profile_name name hash) (\<lambda>_. db_inv) (\<lambda>_. db_inv) d"
    by (simp add: wp_def q_insert_profile_name_def)
qed

lemma keeps_update_profile_name [keeps_intros]: "keeps db_inv (q_update_profile name hash)"
proof (rule keepsI)
  fix d assume inv: "db_inv d"
  have "db_inv (profile_names_update (upd_where (\<lambda>n. pn_name n = name) (\<lambda>n. n\<lparr>pn_candidate := hash\<rparr>)) d)"
    if "row_of pn_name name (profile_names d) \<noteq> None \<longrightarrow> revision_of d name hash \<noteq> None"
    using inv that
    by (intro db_inv_names_keep) (auto simp: row_of_None db_inv_def profiles_ok_def dest!: revision_of_stored)
  with inv show "wp (q_update_profile name hash) (\<lambda>_. db_inv) (\<lambda>_. db_inv) d"
    by (simp add: wp_def q_update_profile_def update_tbl_def)
qed

lemma keeps_clear_default [keeps_intros]: "keeps db_inv q_clear_default"
proof (rule keepsI)
  fix d assume inv: "db_inv d"
  have "filter pn_default (upd_where pn_default (\<lambda>n. n\<lparr>pn_default := False\<rparr>) ns) = []" for ns
    by (auto simp: filter_empty_conv set_upd_where)
  then have "db_inv (profile_names_update (upd_where pn_default (\<lambda>n. n\<lparr>pn_default := False\<rparr>)) d)"
    using inv by (intro db_inv_names) (auto simp: db_inv_def profiles_ok_def)
  then show "wp q_clear_default (\<lambda>_. db_inv) (\<lambda>_. db_inv) d" by (simp add: q_clear_default_def wp_simps)
qed

lemma one_default:
  assumes keys: "distinct (map pn_name ns)" and one: "length (filter pn_default ns) \<le> 1"
    and only: "\<And>n. n \<in> set ns \<Longrightarrow> pn_default n \<Longrightarrow> name \<in> pn_name ` set ns \<Longrightarrow> pn_name n = name"
  shows "length (filter pn_default (upd_where (\<lambda>n. pn_name n = name) (\<lambda>n. n\<lparr>pn_default := True\<rparr>) ns)) \<le> 1"
proof (cases "name \<in> pn_name ` set ns")
  case True
  let ?u = "upd_where (\<lambda>n. pn_name n = name) (\<lambda>n. n\<lparr>pn_default := True\<rparr>) ns"
  have "pn_default n \<longleftrightarrow> pn_name n = name" if n: "n \<in> set ?u" for n
  proof -
    obtain m where m: "m \<in> set ns" "n = (if pn_name m = name then m\<lparr>pn_default := True\<rparr> else m)"
      using n by (simp only: set_upd_where) blast
    with only [OF m(1) _ True] show ?thesis by auto
  qed
  then have "filter pn_default ?u = filter (\<lambda>n. pn_name n = name \<and> True) ?u" by (intro filter_cong) simp_all
  moreover have "map pn_name ?u = map pn_name ns" by (simp add: upd_where_def)
  ultimately show ?thesis using filter_length_le_one [of pn_name ?u name "\<lambda>_. True"] keys by simp
next
  case False
  then have "upd_where (\<lambda>n. pn_name n = name) (\<lambda>n. n\<lparr>pn_default := True\<rparr>) ns = ns" by (intro upd_where_none) auto
  with one show ?thesis by simp
qed

lemma keeps_set_default [keeps_intros]: "keeps db_inv (q_set_default name)"
proof (rule keepsI)
  fix d assume inv: "db_inv d"
  then have ok: "profiles_ok (profile_names d) (revisions d) (verifications d)" by (simp add: db_inv_def)
  have "db_inv (profile_names_update (upd_where (\<lambda>n. pn_name n = name) (\<lambda>n. n\<lparr>pn_default := True\<rparr>)) d)"
    if only: "row_of pn_name name (profile_names d) \<noteq> None \<longrightarrow> \<not> list_ex (\<lambda>n. pn_default n \<and> pn_name n \<noteq> name) (profile_names d)"
  proof (rule db_inv_names [OF inv one_default])
    fix n assume "n \<in> set (profile_names d)" "pn_default n" "name \<in> pn_name ` set (profile_names d)"
    with only show "pn_name n = name" by (auto simp: row_of_None list_ex_iff)
  qed (use ok in \<open>auto simp: profiles_ok_def\<close>)
  with inv show "wp (q_set_default name) (\<lambda>_. db_inv) (\<lambda>_. db_inv) d"
    by (simp add: wp_def q_set_default_def update_tbl_def)
qed

lemma keeps_delete_verification [keeps_intros]: "keeps db_inv (q_delete_verification name hash)"
  unfolding q_delete_verification_def
proof (rule keeps_modify)
  fix d assume inv: "db_inv d"
  have "distinct (map g (filter q vs))" if "distinct (map g vs)" for g :: "verification_row \<Rightarrow> string \<times> string" and q vs
    using that by (induction vs) auto
  then show "db_inv (verifications_update (filter (\<lambda>v. \<not> (vr_profile v = name \<and> vr_hash v = hash))) d)"
    using inv by (intro db_inv_profiles(3)) (auto simp: db_inv_def profiles_ok_def)
qed

lemma keeps_begin_verification [keeps_intros]: "keeps db_inv (q_begin_verification name contract hash bid nonce)"
proof (rule keepsI)
  fix d assume inv: "db_inv d"
  have "db_inv (verifications_update (upd_where (\<lambda>v. vr_profile v = name \<and> vr_hash v = hash)
      (\<lambda>v. v\<lparr>vr_attempted := now d, vr_cleaned := None, vr_error := None\<rparr>)) d)"
    by (rule db_inv_verifications [OF inv]) simp
  moreover have "db_inv (verifications_update (add_row v) d)"
    if "find_verification d name hash = None" "revision_of d name hash \<noteq> None" "vr_profile v = name" "vr_hash v = hash" for v
    using inv that
    by (intro db_inv_profiles(3))
      (auto simp: db_inv_def profiles_ok_def find_verification_def find_None_iff add_row_def dest!: revision_of_stored)
  ultimately show "wp (q_begin_verification name contract hash bid nonce) (\<lambda>_. db_inv) (\<lambda>_. db_inv) d"
    using inv by (auto simp: wp_def q_begin_verification_def Let_def split: option.split)
qed

lemma keeps_promote [keeps_intros]: "keeps db_inv (q_promote_profile name hash contract)"
proof (rule keepsI)
  fix d assume inv: "db_inv d"
  have "db_inv (profile_names_update (upd_where (\<lambda>n. pn_name n = name \<and> pn_candidate n = hash \<and>
      settled_revision d name (pn_candidate n) contract) (\<lambda>n. n\<lparr>pn_active := nullif_empty hash\<rparr>)) d)"
    using inv by (intro db_inv_names_keep) (auto simp: db_inv_def profiles_ok_def nullif_empty_def split: if_splits)
  then show "wp (q_promote_profile name hash contract) (\<lambda>_. db_inv) (\<lambda>_. db_inv) d"
    by (simp add: wp_def q_promote_profile_def update_tbl_def)
qed

lemma keeps_verification_updates [keeps_intros]:
  "keeps db_inv (q_record_probe x version)" "keeps db_inv (q_record_verification_cleanup x)"
  "keeps db_inv (q_record_verification_error x detail)"
  by (rule keepsI, simp add: q_record_probe_def q_record_verification_cleanup_def q_record_verification_error_def wp_simps
      db_inv_verifications)+

lemma keeps_mark_unavailable [keeps_intros]: "keeps db_inv (q_mark_unavailable detail name contract sid)"
  by (rule keepsI) (simp add: wp_def q_mark_unavailable_def update_tbl_def db_inv_verifications)

lemma keeps_set_attention_row [keeps_intros]: "keeps db_inv (q_set_execution_attention sid source detail)"
  unfolding q_set_execution_attention_def clock_def by (intro keeps_intros keeps_session_update) (auto simp: row_ok_iff)

lemma keeps_profile_ops [keeps_intros]:
  "keeps db_inv (create_profile net p)" "keeps db_inv (update_profile net name patch)"
  "keeps db_inv (set_default_profile name)" "keeps db_inv (begin_profile_verification nonce name)"
  "keeps db_inv (record_profile_probe x version)" "keeps db_inv (record_verification_cleanup x)"
  "keeps db_inv (record_verification_error x failure)" "keeps db_inv (record_profile_unavailable sid name source failure)"
  unfolding create_profile_def update_profile_def set_default_profile_def begin_profile_verification_def
    record_profile_probe_def record_verification_cleanup_def record_verification_error_def record_profile_unavailable_def
    Let_def
  by (intro keeps_intros)+

section \<open>What normalisation guarantees\<close>

lemma hash_of_hashed: "current_definition_hash (hashed_profile p) = current_definition_hash p"
  by (simp add: hashed_profile_def current_definition_hash_def definition_fields_def)

definition definition_columns :: "sandbox_profile \<Rightarrow> bool" where
  "definition_columns p =
    (p_definition_hash p = current_definition_hash p \<and> \<not> p_default p \<and> p_active_revision p = [] \<and>
     p_verification p = None \<and> validate_profile_identity (p_name p) (p_harness p) = None \<and> p_artifact p \<noteq> [])"

definition incus_columns :: "net_lib \<Rightarrow> sandbox_profile \<Rightarrow> bool" where
  "incus_columns net p =
    (p_provider p = ''incus'' \<and> hex64 (p_artifact p) \<and>
     validate_incus_settings net (p_incus_endpoint_authority_hash p) (p_incus_project p) (p_incus_storage_pool p)
       (p_incus_network p) (p_incus_disk_size p) (p_incus_gateway_url p) = None \<and>
     p_e2b_gateway_url p = [] \<and> p_e2b_sandbox_timeout p = 0 \<and> \<not> p_e2b_allow_internet p)"

definition e2b_columns :: "net_lib \<Rightarrow> sandbox_profile \<Rightarrow> bool" where
  "e2b_columns net p =
    (p_provider p = ''e2b'' \<and> validate_e2b_settings net p = None \<and>
     p_incus_endpoint_authority_hash p = [] \<and> p_incus_project p = [] \<and> p_incus_storage_pool p = [] \<and>
     p_incus_network p = [] \<and> p_incus_disk_size p = [] \<and> p_incus_gateway_url p = [])"

lemma normal_settings_cases:
  assumes "normal_settings net t = Inr p"
  obtains "validate_profile_identity (p_name t) (p_harness t) = None" "p_artifact t \<noteq> []" "p_provider t = ''incus''"
      "normal_incus net t = Inr p"
  | "validate_profile_identity (p_name t) (p_harness t) = None" "p_artifact t \<noteq> []" "p_provider t = ''e2b''"
      "normal_e2b net t = Inr p"
  using assms by (auto simp: normal_settings_def split: option.splits if_splits)

lemma normalized_cases:
  assumes "normalize_profile net q = Inr p"
  shows "definition_columns p \<and> (incus_columns net p \<or> e2b_columns net p)"
proof -
  define t where "t = trimmed_profile q"
  have t: "\<not> p_default t" "p_active_revision t = []" "p_verification t = None"
    by (simp_all add: t_def trimmed_profile_def)
  obtain r where r: "normal_settings net t = Inr r" "p = hashed_profile r"
    using assms by (auto simp: normalize_profile_def t_def split: sum.splits)
  have e2b: "validate_e2b_settings net (hashed_profile r) = validate_e2b_settings net r" for r
    by (simp add: validate_e2b_settings_def hashed_profile_def)
  from r(1) show ?thesis
  proof (cases rule: normal_settings_cases)
    case 1
    from 1(4) have "definition_columns (hashed_profile r) \<and> incus_columns net (hashed_profile r)"
      using 1(1,2,3) t hash_of_hashed [of r]
      by (auto simp: normal_incus_def definition_columns_def incus_columns_def split: option.splits if_splits)
        (simp_all add: hashed_profile_def)
    with r(2) show ?thesis by simp
  next
    case 2
    then have "validate_e2b_settings net r = None"
      by (auto simp: normal_e2b_def validate_e2b_settings_def split: option.splits if_splits)
    with 2 have "definition_columns (hashed_profile r) \<and> e2b_columns net (hashed_profile r)"
      using t hash_of_hashed [of r] e2b [of r]
      by (auto simp: normal_e2b_def definition_columns_def e2b_columns_def split: option.splits)
        (simp_all add: hashed_profile_def)
    with r(2) show ?thesis by simp
  qed
qed

lemma normalized_stored:
  assumes "normalize_profile net q = Inr p"
  shows "stored_profile p = p \<and> p_definition_hash p = current_definition_hash p"
proof -
  have c: "definition_columns p" and w: "incus_columns net p \<or> e2b_columns net p" using normalized_cases [OF assms] by auto
  from w have "p_e2b_sandbox_timeout p div second * second = p_e2b_sandbox_timeout p"
  proof
    assume "e2b_columns net p"
    then have "p_e2b_sandbox_timeout p mod second = 0"
      by (auto simp: e2b_columns_def validate_e2b_settings_def split: if_splits)
    then show ?thesis by (metis add.right_neutral div_mult_mod_eq)
  qed (simp add: incus_columns_def)
  moreover from w have "(p_provider p = ''e2b'' \<and> p_e2b_allow_internet p) = p_e2b_allow_internet p"
    by (auto simp: incus_columns_def e2b_columns_def)
  ultimately show ?thesis using c by (simp add: stored_profile_def definition_columns_def)
qed

end
