(* ===== verification/Core_Application.thy ===== *)
theory Core_Application
  imports Core_Execution Postgres_Profiles
begin

text \<open>
  The application boundary of Core (\<open>application.go\<close>, \<open>cleanup.go\<close>, \<open>task.go\<close>,
  \<open>handles.go\<close>): task authority, the cleanup task, Session handles and the operations that
  wake or retry a Session. The resolvers turn a pinned profile into an execution service, which
  for cleanup is an interface: the upgrade and checkpoint executions extend it; \<open>ap_queue\<close>
  is the queue of the task client, absent where none is configured. A handle is the identity of
  the Session or Sandbox it is bound to.
\<close>

record 'w cleanup_execution =
  ce_prepare :: "string \<Rightarrow> ('w, session \<times> sandbox list) eff"
  ce_action :: "string \<Rightarrow> string \<Rightarrow> action_kind \<Rightarrow> ('w, unit) eff"
  ce_complete :: "string \<Rightarrow> ('w, unit) eff"

definition core_cleanup :: "'w execution \<Rightarrow> 'w cleanup_execution" where
  "core_cleanup ex =
    \<lparr>ce_prepare = es_prepare_cleanup ex, ce_action = es_execute_action ex, ce_complete = es_complete_cleanup ex\<rparr>"

record 'w application =
  ap_runtime :: "'w task_runtime"
  ap_env :: absurd_env
  ap_queue :: "string option"
  ap_resolve_sandbox :: "(profile_ref \<Rightarrow> ('w, 'w execution \<times> profile_ref) act) option"
  ap_resolve_cleanup :: "(profile_ref \<Rightarrow> ('w, 'w cleanup_execution \<times> profile_ref) act) option"
  ap_error_text :: "err \<Rightarrow> string"

record task_result =
  tr_session :: string
  tr_outcome :: string

section \<open>Task authority\<close>

definition current_caller :: "'w task_runtime \<Rightarrow> string" where
  "current_caller rt = (case rt_task rt of None \<Rightarrow> [] | Some (tid, _) \<Rightarrow> tid)"

definition verify_attached_task :: "'w application \<Rightarrow> string \<Rightarrow> string \<Rightarrow> ('w, unit) eff" where
  "verify_attached_task ap sid tname =
    with_session_fence (ap_runtime ap) sid
     (bnd (exact_current_attached_task (ap_runtime ap) sid tname) (\<lambda>j.
      if tname = cleanup_task_name then
        require (\<not> (admission_open j \<or> cleanup_state j \<noteq> CleanupScheduled))
          (Errorf ''cleanup task cannot act before cleanup is scheduled'')
      else require (\<not> (\<not> admission_open j \<or> cleanup_state j \<noteq> CleanupPending))
          (Errorf ''ordinary task cannot act after cleanup begins'')))"

definition verify_current_task :: "'w application \<Rightarrow> string \<Rightarrow> string \<Rightarrow> ('w, unit) eff" where
  "verify_current_task ap sid tname =
    with_session_fence (ap_runtime ap) sid
     (bnd (exact_current_attached_task (ap_runtime ap) sid tname) (\<lambda>j.
      require (\<not> (\<not> admission_open j \<or> cleanup_state j \<noteq> CleanupPending))
        (Errorf ''task is not the exact current open Session attachment'')))"

definition stop_for_unavailable_profile ::
  "'w application \<Rightarrow> string \<Rightarrow> string \<Rightarrow> err \<Rightarrow> ('w, task_result option) eff" where
  \<comment> \<open>\<open>None\<close>: the cause is not a missing artifact and is not handled here\<close>
  "stop_for_unavailable_profile ap sid source cause =
    (if \<not> artifact_unavailable cause then ret None
     else bnd (on_db (store_session sid)) (\<lambda>j.
       bnd (attempt (on_db (record_profile_unavailable (sess_id j) (sess_profile j) source
              (Some (ap_error_text ap cause))))) (\<lambda>r. case r of
         Inl e \<Rightarrow> fail (Join cause (Wrapf ''record unavailable Sandbox profile'' e))
       | Inr _ \<Rightarrow> ret (Some \<lparr>tr_session = sess_id j, tr_outcome = ''sandbox-profile-unavailable''\<rparr>))))"

definition request_cleanup :: "'w application \<Rightarrow> string \<Rightarrow> ('w, session) eff" where
  "request_cleanup ap sid =
    (case ap_queue ap of None \<Rightarrow> fail (Errorf ''cleanup scheduling is not configured'')
     | Some qn \<Rightarrow>
         seq (on_db (schedule_cleanup (ap_env ap) qn sid (current_caller (ap_runtime ap))))
             (on_db (store_session sid)))"

section \<open>Cleanup\<close>

definition cleanup_targets :: "sandbox list \<Rightarrow> (sandbox \<times> action_kind) list" where
  "cleanup_targets bs =
    concat (map (\<lambda>b. [(b, ActionRouteRevoke), (b, ActionSandboxDelete)]) (sort_key sb_id bs))"

fun first_unsettled :: "(sandbox \<times> action_kind) list \<Rightarrow> action list \<Rightarrow> (action_kind \<times> string) option" where
  "first_unsettled [] as = None"
| "first_unsettled ((b, kind) # ts) as =
    (if \<not> has_succeeded_action as kind (sb_id b) then Some (kind, sb_id b) else first_unsettled ts as)"

definition current_cleanup_action :: "sandbox list \<Rightarrow> action list \<Rightarrow> (action_kind \<times> string) option" where
  "current_cleanup_action bs as = first_unsettled (cleanup_targets bs) as"

definition cleanup_detail :: "action_kind \<Rightarrow> string \<Rightarrow> string" where
  "cleanup_detail kind bid = ''reconciling '' @ kind_name kind @ '' for Sandbox '' @ bid"

definition cleanup_failed :: "'w application \<Rightarrow> string \<Rightarrow> string \<Rightarrow> err \<Rightarrow> err \<Rightarrow> ('w, unit) eff" where
  \<comment> \<open>the attention is best effort; its error is dropped\<close>
  "cleanup_failed ap sid detail e result =
    bnd (attempt (on_db (set_cleanup_attention sid (detail @ '': '' @ ap_error_text ap e)))) (\<lambda>_. fail result)"

fun run_targets :: "'w application \<Rightarrow> 'w cleanup_execution \<Rightarrow> string \<Rightarrow> (sandbox \<times> action_kind) list \<Rightarrow> ('w, unit) eff" where
  "run_targets ap ex sid [] = ret ()"
| "run_targets ap ex sid ((b, kind) # ts) =
    bnd (attempt (ce_action ex sid (sb_id b) kind)) (\<lambda>r. case r of
      Inl e \<Rightarrow> cleanup_failed ap sid (cleanup_detail kind (sb_id b)) e (Wrapf (cleanup_detail kind (sb_id b)) e)
    | Inr _ \<Rightarrow> run_targets ap ex sid ts)"

definition finish_cleanup :: "'w application \<Rightarrow> 'w cleanup_execution \<Rightarrow> string \<Rightarrow> ('w, unit) eff" where
  "finish_cleanup ap ex sid =
    bnd (attempt (ce_complete ex sid)) (\<lambda>r. case r of
      Inl e \<Rightarrow> cleanup_failed ap sid ''verifying no owned resource or non-cleanup Session claim remains unsettled'' e e
    | Inr _ \<Rightarrow> ret ())"

definition run_cleanup :: "'w application \<Rightarrow> 'w cleanup_execution \<Rightarrow> string \<Rightarrow> ('w, unit) eff" where
  "run_cleanup ap ex sid =
    bnd (ce_prepare ex sid) (\<lambda>(j, bs).
    if cleanup_state j = CleanupComplete then ret ()
    else
      seq (if cleanup_attention j \<noteq> [] then on_db (set_cleanup_attention sid []) else ret ())
     (seq (run_targets ap ex (sess_id j) (cleanup_targets bs))
          (finish_cleanup ap ex sid)))"

definition cleanup_mismatch :: "'w application \<Rightarrow> session \<Rightarrow> string \<Rightarrow> ('w, task_result) eff" where
  "cleanup_mismatch ap j detail =
    bnd (attempt (on_db (set_cleanup_attention (sess_id j) detail))) (\<lambda>r. case r of
      Inl e \<Rightarrow> fail (Wrapf ''record profile mismatch attention'' e)
    | Inr _ \<Rightarrow> fail (Errorf ''worker resolved another Sandbox profile''))"

definition cleanup_task :: "'w application \<Rightarrow> (string \<Rightarrow> profile_ref \<Rightarrow> string) \<Rightarrow> string \<Rightarrow> ('w, task_result) eff" where
  \<comment> \<open>the handler \<open>RegisterCleanup\<close> installs; \<open>mismatch\<close> formats the pinned and the resolved profile\<close>
  "cleanup_task ap mismatch sid =
    seq (verify_attached_task ap sid cleanup_task_name)
   (bnd (on_db (store_session sid)) (\<lambda>j.
    case ap_resolve_cleanup ap of None \<Rightarrow> fail (Errorf ''Sandbox runtime resolution is not configured'')
    | Some resolve \<Rightarrow>
        bnd (attempt (on_ext (resolve (profile_ref_of j)))) (\<lambda>r. case r of
          Inl e \<Rightarrow> fail (Wrapf ''resolve Sandbox profile'' e)
        | Inr (ex, ref) \<Rightarrow>
            if ref \<noteq> profile_ref_of j then
              cleanup_mismatch ap j (mismatch (sess_profile j) ref)
            else with_heartbeat (ap_runtime ap)
              (seq (run_cleanup ap ex sid) (ret \<lparr>tr_session = sid, tr_outcome = ''cleanup-complete''\<rparr>)))))"

section \<open>Handles\<close>

definition open_session :: "string \<Rightarrow> ('w, string) eff" where
  "open_session sid = bnd (on_db (store_session (trim_space sid))) (\<lambda>j. ret (sess_id j))"

definition handle_sandbox :: "string \<Rightarrow> string \<Rightarrow> ('w, string) eff" where
  "handle_sandbox h bid =
    (if h = [] \<or> trim_space bid = [] then fail (Errorf ''Session handle is not bound to Core'')
     else bnd (on_db (store_sandbox bid)) (\<lambda>owned.
       seq (require (sb_session_id owned = h) (Errorf ''Sandbox does not belong to Session'')) (ret (sb_id owned))))"

definition handle_default_sandbox :: "string \<Rightarrow> ('w, string) eff" where
  "handle_default_sandbox h = handle_sandbox h (main_sandbox_name h)"

definition execute_sandbox_ensure :: "'w application \<Rightarrow> session \<Rightarrow> sandbox \<Rightarrow> ('w, unit) eff" where
  "execute_sandbox_ensure ap j owned =
    (case ap_resolve_sandbox ap of None \<Rightarrow> fail (Errorf ''Sandbox runtime resolution is not configured'')
     | Some resolve \<Rightarrow>
         bnd (attempt (on_ext (resolve (profile_ref_of j)))) (\<lambda>r. case r of
           Inl e \<Rightarrow> fail (Wrapf ''resolve Sandbox profile'' e)
         | Inr (ex, ref) \<Rightarrow>
             seq (require (ref = profile_ref_of j) (Errorf ''Sandbox runtime does not match Session profile''))
            (bnd (attempt (es_execute_action ex (sess_id j) (sb_id owned) ActionSandboxCreate)) (\<lambda>res. case res of
               Inr _ \<Rightarrow> ret ()
             | Inl e \<Rightarrow>
                 if \<not> artifact_unavailable e then fail e
                 else bnd (attempt (on_db (record_profile_unavailable (sess_id j) (sess_profile j)
                        (scoped_action_id (sess_id j) ActionSandboxCreate (sb_id owned)) (Some (ap_error_text ap e))))) (\<lambda>s.
                   case s of
                     Inl ae \<Rightarrow> fail (Join e (Wrapf ''record unavailable Sandbox profile'' ae))
                   | Inr _ \<Rightarrow> fail e)))))"

definition owned_reservation :: "string \<Rightarrow> ('w, session \<times> sandbox) eff" where
  "owned_reservation h =
    bnd (on_db (store_session h)) (\<lambda>j.
    seq (require (\<not> (\<not> admission_open j \<or> cleanup_state j \<noteq> CleanupPending))
          (Errorf ''Session cannot ensure Sandbox after cleanup begins''))
   (bnd (on_db (store_sandbox (main_sandbox_name h))) (\<lambda>owned.
    seq (require (\<not> (sb_id owned \<noteq> main_sandbox_name h \<or> sb_session_id owned \<noteq> h \<or> sb_name owned \<noteq> default_sandbox))
          (Errorf ''Session has a foreign default Sandbox reservation''))
        (ret (j, owned)))))"

definition ensure_default_sandbox :: "'w application \<Rightarrow> string \<Rightarrow> ('w, string) eff" where
  "ensure_default_sandbox ap h =
    (if h = [] then fail (Errorf ''Session handle is not bound to Core'')
     else case rt_task (ap_runtime ap) of None \<Rightarrow> fail (Sentinel ErrNoTaskContext)
     | Some (tid, tname) \<Rightarrow>
         bnd (attempt (verify_current_task ap h tname)) (\<lambda>v. case v of
           Inl e \<Rightarrow> fail (Wrapf ''verify attached task before ensuring Sandbox'' e)
         | Inr _ \<Rightarrow>
             bnd (with_session_fence (ap_runtime ap) h (owned_reservation h)) (\<lambda>(j, owned).
             seq (execute_sandbox_ensure ap j owned) (ret (sb_id owned)))))"

definition handle_request_cleanup :: "'w application \<Rightarrow> string \<Rightarrow> ('w, unit) eff" where
  "handle_request_cleanup ap h =
    (if h = [] then fail (Errorf ''Session handle is not bound to Core'')
     else bnd (request_cleanup ap h) (\<lambda>_. ret ()))"

section \<open>Wakes and retries\<close>

record execution_wake =
  ew_session :: string
  ew_revision :: int
  ew_cause :: string

definition app_wake_revision :: "string \<Rightarrow> ('w, int) eff" where
  "app_wake_revision sid =
    bnd (on_db (store_wake_revision sid)) (\<lambda>n.
    seq (require (\<not> (n < 0 \<or> n = max_int64)) (Errorf ''Session execution wake revision cannot advance'')) (ret n))"

definition app_signal_native_terminal_wake :: "'w application \<Rightarrow> native_wake_target \<Rightarrow> ('w, unit) eff" where
  "app_signal_native_terminal_wake ap g =
    (case ap_queue ap of None \<Rightarrow> fail (Errorf ''native terminal wake is not configured'')
     | Some qn \<Rightarrow> bnd (on_db (signal_native_terminal_wake (ap_env ap) qn g)) (\<lambda>_. ret ()))"

primrec is_timeout :: "err \<Rightarrow> bool" where
  "is_timeout (Sentinel s) = False"
| "is_timeout (Errorf m) = False"
| "is_timeout (Wrapf m e) = is_timeout e"
| "is_timeout (Join d e) = (is_timeout d \<or> is_timeout e)"
| "is_timeout (OwnershipError m) = False"
| "is_timeout (UnsupportedError m) = False"
| "is_timeout (ArtifactUnavailableError m) = False"
| "is_timeout (AttentionError m) = False"
| "is_timeout (PgError c k) = False"
| "is_timeout AbsurdTimeout = True"
| "is_timeout (External m) = False"

definition resolve_execution_wake :: "string \<Rightarrow> int \<Rightarrow> err + execution_wake \<Rightarrow> err option" where
  "resolve_execution_wake sid rev_no wake =
    (case wake of
       Inl e \<Rightarrow> if is_timeout e then None else Some e
     | Inr w \<Rightarrow>
         if ew_session w \<noteq> sid \<or> ew_revision w \<noteq> rev_no \<or> ew_cause w = [] then
           Some (Errorf ''execution wake payload conflicts with the awaited revision'')
         else None)"

definition await_execution_wake ::
  "(string \<Rightarrow> ('w, execution_wake) act) \<Rightarrow> string \<Rightarrow> int \<Rightarrow> ('w, unit) eff" where
  \<comment> \<open>\<open>await\<close> waits for one event; the step name and timeout are its own\<close>
  "await_execution_wake await sid rev_no =
    bnd (attempt (on_ext (await (session_execution_wake_event sid rev_no)))) (\<lambda>wake.
    case resolve_execution_wake sid rev_no wake of None \<Rightarrow> ret () | Some e \<Rightarrow> fail e)"

definition app_retry_failed_session :: "'w application \<Rightarrow> string \<Rightarrow> string \<Rightarrow> ('w, retry_receipt) eff" where
  "app_retry_failed_session ap sid0 key0 =
    (let sid = trim_space sid0; key = trim_space key0 in
     if sid = [] \<or> key = [] then fail (Errorf ''retry requires one Session ID and caller-retained request key'')
     else if 255 < length key then fail (Errorf ''retry request key must be at most 255 characters'')
     else case ap_queue ap of None \<Rightarrow> fail (Errorf ''atomic Session retry is not configured'')
     | Some qn \<Rightarrow> on_db (retry_failed_session (ap_env ap) qn sid key))"

end
