(* ===== verification/Direct_Admission.thy ===== *)
theory Direct_Admission
  imports Core_Application
begin

text \<open>
  Direct admission (\<open>internal/direct/admission.go\<close>, \<open>snapshot.go\<close>), the selection of a verified
  profile (\<open>internal/profile/selection.go\<close>) and of a model (\<open>internal/gateway/defaults.go\<close>).
  Deployment defaults are resolved for a new Session only and kept in its durable admission; a
  later request under the same key is compared with what was kept. The AI connections are a
  parameter.
\<close>

section \<open>Selection\<close>

definition select_verified :: "string \<Rightarrow> (db, sandbox_profile) act" where
  "select_verified name =
    bnd (if name = [] then default_profile else active_profile name) (\<lambda>p.
    seq (require (base_verified p) (Errorf ''Sandbox profile has not completed verification and cleanup''))
        (ret p))"

record 'w admission_provider =
  pv_default_connection :: "('w, string) act"
  pv_default_model :: "string \<Rightarrow> ('w, string) act"
  pv_check :: "string \<Rightarrow> ('w, unit) act"

definition resolve_model :: "'w admission_provider option \<Rightarrow> string \<Rightarrow> string \<Rightarrow> ('w, string \<times> string) act" where
  "resolve_model provider connection wanted =
    (case provider of None \<Rightarrow> fail (Errorf ''provider readiness is not configured'')
     | Some pv \<Rightarrow>
         bnd (if connection = [] then pv_default_connection pv else ret connection) (\<lambda>c.
         bnd (if wanted = [] then pv_default_model pv c else ret wanted) (\<lambda>m.
         ret (c, m))))"

section \<open>Admission\<close>

type_synonym admission_request = session_admission

definition direct_admission_key :: "string \<Rightarrow> err + string" where
  "direct_admission_key v =
    (let t = trim_space v in
     if t = [] \<or> v \<noteq> t \<or> 255 < length t \<or> contains_nul t then Inl (Sentinel ErrInvalidAdmission) else Inr t)"

definition invalid_admission_text :: "string \<Rightarrow> nat \<Rightarrow> bool \<Rightarrow> bool" where
  "invalid_admission_text v limit required =
    (limit < length v \<or> contains_nul v \<or> (required \<and> trim_space v = []))"

definition normalize_admission_request :: "admission_request \<Rightarrow> err + session_admission" where
  "normalize_admission_request r =
    (let effort = trim_space (ad_effort r);
         n = r\<lparr>ad_profile := trim_space (ad_profile r), ad_connection := trim_space (ad_connection r),
               ad_model := trim_space (ad_model r), ad_effort := if effort = [] then ''high'' else effort\<rparr> in
     if invalid_admission_text (ad_agents_md n) 1048576 False \<or> invalid_admission_text (ad_model n) 1024 False \<or>
        invalid_admission_text (ad_profile n) 255 False \<or> invalid_admission_text (ad_connection n) 255 False \<or>
        \<not> valid_effort (ad_effort n) then Inl (Sentinel ErrInvalidAdmission)
     else Inr n)"

record 'w admission_service =
  ds_store :: "absurd_env option" \<comment> \<open>the store, with the queue it spawns tasks in\<close>
  ds_queue :: string
  ds_provider :: "'w admission_provider option"

definition pinned_request :: "session_admission \<Rightarrow> session \<Rightarrow> session_admission" where
  \<comment> \<open>what a replay leaves open is what the Session keeps\<close>
  "pinned_request i j =
    i\<lparr>ad_profile := sess_profile j, ad_connection := provider_connection j,
      ad_model := if ad_model i = [] then model j else ad_model i\<rparr>"

definition replay_direct ::
  "'w admission_service \<Rightarrow> absurd_env \<Rightarrow> err + string \<Rightarrow> admission_request \<Rightarrow> ('w, session \<times> bool) eff" where
  "replay_direct svc env nonce r =
    bnd (on_db (store_session (session_id (ad_key r)))) (\<lambda>j.
    case normalize_admission_request r of
      Inl e \<Rightarrow> fail (Wrapf ''invalid replay'' (Sentinel ErrDirectAdmissionConflict))
    | Inr i \<Rightarrow>
        if (ad_profile i \<noteq> [] \<and> ad_profile i \<noteq> sess_profile j) \<or>
           (ad_connection i \<noteq> [] \<and> ad_connection i \<noteq> provider_connection j) then
          fail (Sentinel ErrDirectAdmissionConflict)
        else on_db (admit_direct env nonce (ds_queue svc) (pinned_request i j)))"

definition selected_profile :: "session_admission \<Rightarrow> (db, sandbox_profile) act" where
  "selected_profile i =
    bnd (attempt (select_verified (ad_profile i))) (\<lambda>r. case r of
      Inl e \<Rightarrow> fail (if ad_profile i \<noteq> [] then Join (Sentinel ErrInvalidAdmission) e else e)
    | Inr p \<Rightarrow> ret p)"

definition admit_new_direct ::
  "'w admission_service \<Rightarrow> absurd_env \<Rightarrow> err + string \<Rightarrow> admission_request \<Rightarrow> ('w, session \<times> bool) eff" where
  "admit_new_direct svc env nonce r =
    bnd (lift (normalize_admission_request r)) (\<lambda>i.
    bnd (on_db (selected_profile i)) (\<lambda>p.
    seq (require (p_harness p = ''codex'')
          (Wrapf ''profile Harness does not support native Session events'' (Sentinel ErrInvalidAdmission)))
   (bnd (on_ext (resolve_model (ds_provider svc) (ad_connection i) (ad_model i))) (\<lambda>(c, m).
    seq (require (\<not> invalid_admission_text (trim_space m) 1024 True)
          (Wrapf ''AI connection returned invalid default model'' (Sentinel ErrInvalidAdmission)))
   (case ds_provider svc of None \<Rightarrow> fail (Errorf ''provider readiness is not configured'') | Some pv \<Rightarrow>
    bnd (attempt (on_ext (pv_check pv c))) (\<lambda>ready. case ready of
      Inl e \<Rightarrow> fail (Wrapf ''AI connection is not ready'' e)
    | Inr _ \<Rightarrow>
        on_db (admit_direct env nonce (ds_queue svc)
          (i\<lparr>ad_profile := p_name p, ad_connection := c, ad_model := trim_space m\<rparr>))))))))"

definition admit_request ::
  "'w admission_service \<Rightarrow> err + string \<Rightarrow> admission_request \<Rightarrow> ('w, session \<times> bool) eff" where
  \<comment> \<open>\<open>AdmissionService.Admit\<close>; \<open>nonce\<close> is the ownership nonce drawn for a new Sandbox\<close>
  "admit_request svc nonce r0 =
    seq (require (valid_client_reference (ad_client_reference r0)) (Sentinel ErrInvalidAdmission))
   (bnd (lift (direct_admission_key (ad_key r0))) (\<lambda>key.
    let r = r0\<lparr>ad_key := key\<rparr> in
    case ds_store svc of None \<Rightarrow> fail (Errorf ''direct admission store is not configured'') | Some env \<Rightarrow>
      bnd (on_db (session_exists (session_id key))) (\<lambda>exists.
      if exists then replay_direct svc env nonce r
      else bnd (attempt (admit_new_direct svc env nonce r)) (\<lambda>res. case res of
          Inr x \<Rightarrow> ret x
        | Inl e \<Rightarrow>
            if err_is e ErrDirectAdmissionConflict then
              bnd (replay_direct svc env nonce r) (\<lambda>(j, _). ret (j, False))
            else fail e))))"

section \<open>Snapshots\<close>

record snapshot =
  sn_session :: session
  sn_main :: sandbox
  sn_sandboxes :: "sandbox list"
  sn_actions :: "action list"

definition main_sandbox_of :: "string \<Rightarrow> sandbox list \<Rightarrow> sandbox option" where
  \<comment> \<open>the last one of the loop\<close>
  "main_sandbox_of sid bs = find (\<lambda>b. sb_id b = main_sandbox_name sid \<and> sb_name b = default_sandbox) (rev bs)"

definition load_snapshot :: "session \<Rightarrow> (db, snapshot) act" where
  "load_snapshot j =
    seq (require (sess_id j \<noteq> []) (Errorf ''direct Session identity is empty''))
   (bnd (q_list_session_sandboxes (sess_id j)) (\<lambda>bs.
    seq (require (list_all (\<lambda>b. sb_session_id b = sess_id j) bs) (Errorf ''Sandbox does not belong to direct Session''))
   (bnd (the_row (main_sandbox_of (sess_id j) bs)
          (Errorf ''direct Session has no exact default Sandbox reservation'')) (\<lambda>main.
    bnd (list_actions (sess_id j)) (\<lambda>as.
    seq (require (list_all (\<lambda>a. act_session_id a = sess_id j) as) (Errorf ''Action does not belong to direct Session''))
        (ret \<lparr>sn_session = j, sn_main = main, sn_sandboxes = bs, sn_actions = as\<rparr>))))))"

datatype execution_state = ProvisioningSandbox | ConnectingRoute | ExecutionAttention | ExecutionIdle

definition project_snapshot :: "snapshot \<Rightarrow> execution_state \<times> string" where
  "project_snapshot s =
    (if execution_attention (sn_session s) \<noteq> [] then (ExecutionAttention, execution_attention (sn_session s))
     else if \<not> has_succeeded_action (sn_actions s) ActionSandboxCreate (sb_id (sn_main s)) then (ProvisioningSandbox, [])
     else if \<not> has_succeeded_action (sn_actions s) ActionRouteCreate (sb_id (sn_main s)) then (ConnectingRoute, [])
     else (ExecutionIdle, []))"

end
