(* ===== verification/Admission_Laws.thy ===== *)
theory Admission_Laws
  imports Direct_Admission
begin

text \<open>
  Direct admission resolves what a request leaves open once: what it chose is kept by the
  Session, and the same request is answered from there whatever the deployment's defaults have
  become.
\<close>

section \<open>The Session of a new admission\<close>

lemma find_or_insert_id:
  "wp (find_or_insert_admission i) (\<lambda>(s, n) e. 0 < n \<longrightarrow> s_id s = session_id (ad_key i)) (\<lambda>_ _. True) d"
proof (cases "row_of s_admission_key (ad_key i) (sessions d)")
  case None
  let ?Q = "\<lambda>(s, n) (e::db). 0 < n \<longrightarrow> s_id s = session_id (ad_key i)"
  have ins: "wp (q_insert_admitted_session (session_id (ad_key i)) rid i)
      (\<lambda>n. wp (bnd (q_get_admitted (ad_key i)) (\<lambda>s. ret (s, n))) ?Q (\<lambda>_ _. True)) (\<lambda>_ _. True) e" for rid e
  proof (rule wp_of_result)
    fix n f assume run: "q_insert_admitted_session (session_id (ad_key i)) rid i e = (Inr n, f)"
    show "wp (bnd (q_get_admitted (ad_key i)) (\<lambda>s. ret (s, n))) ?Q (\<lambda>_ _. True) f"
    proof (cases "n = 0")
      case False
      with run obtain s where "f = sessions_update (add_row s) e" "s_id s = session_id (ad_key i)"
        "s_admission_key s = ad_key i" "\<not> list_ex (\<lambda>s. s_id s = session_id (ad_key i) \<or> s_admission_key s = ad_key i) (sessions e)"
        by (auto simp: q_insert_admitted_session_def split: if_splits)
      moreover from this have "row_of s_admission_key (ad_key i) (sessions e) = None"
        by (auto simp: row_of_None list_ex_iff)
      ultimately show ?thesis by (simp add: q_get_admitted_def wp_simps row_of_add)
    qed (auto simp: q_get_admitted_def wp_simps split: option.split)
  qed simp
  have "wp (lock_admission_profile_revision (ad_profile i))
      (\<lambda>rid. wp (bnd (q_insert_admitted_session (session_id (ad_key i)) rid i)
         (\<lambda>n. bnd (q_get_admitted (ad_key i)) (\<lambda>s. ret (s, n)))) ?Q (\<lambda>_ _. True)) (\<lambda>_ _. True) d"
    by (rule wp_mono [OF wp_trivial]) (simp_all add: wp_bnd [of "q_insert_admitted_session _ _ _"] ins)
  then show ?thesis
    using None by (simp add: find_or_insert_admission_def q_get_admitted_def wp_simps)
qed (simp add: find_or_insert_admission_def q_get_admitted_def wp_simps)

lemma admission_tx_id:
  "wp (admission_tx env nonce qn tn tk i) (\<lambda>(sid, n) e. 0 < n \<longrightarrow> sid = session_id (ad_key i)) (\<lambda>_ _. True) d"
proof -
  have rest: "wp (seq (require (stored_admission s = i\<lparr>ad_created_by := []\<rparr>) (Wrapf (ad_key i) (Sentinel ErrAdmissionConflict)))
        (seq (reserve_admitted_sandbox nonce (s_id s) (main_sandbox_name (s_id s)))
        (seq (schedule_session_task env qn (s_id s) tn (tk (s_id s)))
        (ret (s_id s, n))))) (\<lambda>(sid, n) e. 0 < n \<longrightarrow> sid = session_id (ad_key i)) (\<lambda>_ _. True) e"
    if "0 < n \<longrightarrow> s_id s = session_id (ad_key i)" for s n e
    using that by (auto simp: wp_seq wp_require wp_ret intro!: wp_mono [OF wp_trivial])
  have "wp (find_or_insert_admission i)
    (\<lambda>(s, n). wp (seq (require (stored_admission s = i\<lparr>ad_created_by := []\<rparr>) (Wrapf (ad_key i) (Sentinel ErrAdmissionConflict)))
        (seq (reserve_admitted_sandbox nonce (s_id s) (main_sandbox_name (s_id s)))
        (seq (schedule_session_task env qn (s_id s) tn (tk (s_id s)))
        (ret (s_id s, n))))) (\<lambda>(sid, n) e. 0 < n \<longrightarrow> sid = session_id (ad_key i)) (\<lambda>_ _. True)) (\<lambda>_ _. True) d"
    by (rule wp_mono [OF find_or_insert_id]) (auto intro!: rest)
  then show ?thesis
    by (simp add: admission_tx_def wp_tx wp_bnd case_prod_unfold)
qed

text \<open>The admission of \<open>n\<close> is what the Session under its key keeps, and any repetition returns it.\<close>

definition answers :: "db \<Rightarrow> session_admission \<Rightarrow> session \<Rightarrow> bool" where
  "answers d n j =
    (find_session d (session_id (ad_key n)) = Some j \<and> sess_profile j = ad_profile n \<and>
     provider_connection j = ad_connection n \<and> model j = ad_model n \<and>
     (\<exists>s. admitted d n s \<and> s_id s = session_id (ad_key n)))"

lemma answers_store: "answers d n j \<Longrightarrow> store_session (session_id (ad_key n)) d = (Inr j, d)"
  by (simp add: answers_def store_session_def q_get_session_def no_rows_as_def attempt_def bnd_def gets_def the_row_def ret_def)

lemma answers_replay:
  assumes "answers d n j" and "normalize_core_admission i = Inr n'" and "n'\<lparr>ad_created_by := []\<rparr> = n\<lparr>ad_created_by := []\<rparr>"
  shows "admit_direct env (Inr owner) qn i d = (Inr (j, False), d)"
proof -
  obtain s where s: "admitted d n s" "s_id s = session_id (ad_key n)" using assms(1) by (auto simp: answers_def)
  have "admit_session env (Inr owner) qn direct_task_name direct_task_key n' d = (Inr (j, False), d)"
    using admission_tx_replay [OF s(1) assms(3)] s(2) answers_store [OF assms(1)] by (simp add: admit_session_def bnd_def ret_def)
  then show ?thesis using assms(2) by (simp add: admit_direct_def bnd_def lift_def ret_def attempt_def)
qed

text \<open>
  Whatever happens to the profile store, its defaults, candidates and verifications, the Sessions
  and their Sandboxes are as they were; stored revisions are only added to.
\<close>

definition sessions_kept :: "db \<Rightarrow> db \<Rightarrow> bool" where
  "sessions_kept d e =
    (sessions e = sessions d \<and> tasks e = tasks d \<and> sandboxes e = sandboxes d \<and> resources e = resources d \<and>
     (\<forall>name h p. revision_of d name h = Some p \<longrightarrow> revision_of e name h = Some p))"

lemma kept_session:
  assumes "sessions_kept d e" and "find_session d sid = Some j"
  shows "find_session e sid = Some j"
proof -
  obtain s p where s: "session_of d sid = Some s" "revision_of d (s_profile s) (s_profile_revision s) = Some p"
    "j = session_value d s p"
    using assms(2) by (auto simp: find_session_def split: option.splits)
  have "session_of e sid = Some s" "revision_of e (s_profile s) (s_profile_revision s) = Some p"
    using assms(1) s by (auto simp: sessions_kept_def session_of_def)
  moreover have "session_value e s p = session_value d s p"
    using assms(1) by (simp add: sessions_kept_def session_value_def current_task_def session_tasks_def)
  ultimately show ?thesis using s(3) by (simp add: find_session_def)
qed

lemma kept_answers:
  assumes "sessions_kept d e" and "answers d n j"
  shows "answers e n j"
proof -
  have "admitted e n s" if "admitted d n s" for s
    using that assms(1) find_sandbox_cong [of e d]
    by (simp add: admitted_def owned_default_def handed_off_def find_task_state_def sessions_kept_def session_of_def
        current_task_def session_tasks_def)
  then show ?thesis using assms kept_session [OF assms(1)] by (auto simp: answers_def)
qed

lemma admit_direct_new:
  assumes inv: "db_inv d" and run: "admit_direct env nonce qn i d = (Inr (j, True), d')"
    and spawn: "\<And>sid. spawn_task env qn direct_task_name sid (direct_task_key sid) \<noteq> Inr []"
  obtains n where "normalize_core_admission i = Inr n" and "answers d' n j"
proof -
  obtain n where n: "normalize_core_admission i = Inr n"
    and a: "admit_session env nonce qn direct_task_name direct_task_key n d = (Inr (j, True), d')"
    using run by (auto simp: admit_direct_def bnd_def lift_def attempt_def ret_def fail_def split: sum.splits prod.splits)
  obtain sid e where t: "admission_tx env nonce qn direct_task_name direct_task_key n d = (Inr (sid, 1), e)"
    and g: "bnd (store_session sid) (\<lambda>j. ret (j, True)) e = (Inr (j, True), d')"
    using a by (auto simp: admit_session_def bnd_def ret_def split: prod.splits sum.splits)
  have e: "e = d'" "store_session sid d' = (Inr j, d')"
    using g by (auto simp: bnd_def ret_def store_session_def q_get_session_def no_rows_as_def attempt_def
        gets_def the_row_def fail_def split: prod.splits sum.splits option.splits if_splits)
  have sid: "sid = session_id (ad_key n)"
    using wp_result [OF admission_tx_id t] by simp
  obtain s where s: "admitted d' n s" "s_id s = sid"
    using wp_result [OF admission_tx_post [OF spawn] t] e by auto
  have found: "find_session d' sid = Some j"
    using e(2) by (auto simp: store_session_def q_get_session_def no_rows_as_def attempt_def bnd_def
        gets_def the_row_def fail_def ret_def split: prod.splits sum.splits option.splits if_splits)
  from found obtain s' p where s': "session_of d' sid = Some s'" "j = session_value d' s' p"
    by (auto simp: find_session_def split: option.splits)
  have "db_inv d'"
    by (rule wp_result [OF keepsD [OF keeps_admit_direct inv] run])
  moreover have "s \<in> set (sessions d')" "s' \<in> set (sessions d')" "s_id s' = sid"
    using s s' by (auto simp: admitted_def session_of_def dest: row_of_in row_of_key)
  ultimately have "s' = s"
    using s(2) by (auto simp: db_inv_def sessions_ok_def distinct_map inj_on_def)
  then have "sess_profile j = ad_profile n \<and> provider_connection j = ad_connection n \<and> model j = ad_model n"
    using s(1) s'(2) by (cases n) (auto simp: admitted_def stored_admission_def session_value_def)
  with found s sid have "answers d' n j" by (auto simp: answers_def)
  with n show ?thesis by (rule that)
qed

section \<open>What a request left open is chosen once\<close>

lemma profile_at_name: "profile_at d name pick = Some p \<Longrightarrow> p_name p = name"
  by (auto simp: profile_at_def profile_value_def revision_of_def find_Some_iff split: option.splits)

lemma active_profile_name:
  assumes run: "active_profile name d = (Inr p, e)"
  shows "p_name p = trim_space name"
proof -
  have "wp (q_get_active_profile (trim_space name)) (\<lambda>p _. p_name p = trim_space name) (\<lambda>_ _. True) d"
    by (auto simp: q_get_active_profile_def wp_bnd wp_gets wp_the_row dest: profile_at_name split: option.split)
  then have "wp (active_profile name) (\<lambda>p _. p_name p = trim_space name) (\<lambda>_ _. True) d"
    unfolding active_profile_def wp_bnd wp_attempt
    by (rule wp_mono) (simp_all add: wp_ret wp_if wp_fail wp_seq)
  from wp_result [OF this run] show ?thesis by simp
qed

lemma selected_profile_name:
  assumes "selected_profile i d = (Inr p, e)" and "ad_profile i \<noteq> []"
  shows "p_name p = trim_space (ad_profile i)"
  using assms
  by (auto simp: selected_profile_def select_verified_def bnd_def seq_def attempt_def require_def ret_def fail_def
      split: prod.splits sum.splits if_splits dest: active_profile_name)

lemma resolved_model:
  assumes "resolve_model pv c m w = (Inr (c', m'), v)"
  shows "(c \<noteq> [] \<longrightarrow> c' = c) \<and> (m \<noteq> [] \<longrightarrow> m' = m)"
  using assms
  by (auto simp: resolve_model_def bnd_def ret_def fail_def split: prod.splits sum.splits option.splits if_splits)

definition completes :: "session_admission \<Rightarrow> session_admission \<Rightarrow> bool" where
  \<comment> \<open>\<open>c\<close> fills in what \<open>i\<close> leaves open and keeps the rest\<close>
  "completes i c =
    (\<exists>p k m. c = i\<lparr>ad_profile := p, ad_connection := k, ad_model := m\<rparr> \<and> (ad_profile i \<noteq> [] \<longrightarrow> p = ad_profile i) \<and>
       (ad_connection i \<noteq> [] \<longrightarrow> k = ad_connection i) \<and> (ad_model i \<noteq> [] \<longrightarrow> m = ad_model i))"

lemma completesI:
  assumes "ad_profile i \<noteq> [] \<longrightarrow> p = ad_profile i" and "ad_connection i \<noteq> [] \<longrightarrow> k = ad_connection i"
    and "ad_model i \<noteq> [] \<longrightarrow> m = ad_model i"
  shows "completes i (i\<lparr>ad_profile := p, ad_connection := k, ad_model := m\<rparr>)"
  unfolding completes_def using assms by blast

lemma normalized_trims:
  assumes "normalize_admission_request r = Inr i"
  shows "trim_space (ad_profile i) = ad_profile i" "trim_space (ad_connection i) = ad_connection i"
    "trim_space (ad_model i) = ad_model i" "trim_space (ad_effort i) = ad_effort i" "ad_key i = ad_key r"
proof -
  have high: "trim_space ''high'' = ''high''" by code_simp
  have "i = r\<lparr>ad_profile := trim_space (ad_profile r), ad_connection := trim_space (ad_connection r), ad_model := trim_space (ad_model r),
      ad_effort := if trim_space (ad_effort r) = [] then ''high'' else trim_space (ad_effort r)\<rparr>"
    using assms unfolding normalize_admission_request_def Let_def by (simp split: if_split_asm)
  then show "trim_space (ad_profile i) = ad_profile i" "trim_space (ad_connection i) = ad_connection i"
    "trim_space (ad_model i) = ad_model i" "trim_space (ad_effort i) = ad_effort i" "ad_key i = ad_key r"
    by (simp_all add: trim_trim high)
qed

lemma bndD: "bnd m f w = (Inr x, w') \<Longrightarrow> \<exists>y v. m w = (Inr y, v) \<and> f y v = (Inr x, w')"
  by (auto simp: bnd_def split: prod.splits sum.splits)

lemma require_run: "seq (require b e) m w = (Inr x, w') \<longleftrightarrow> b \<and> m w = (Inr x, w')"
  by (simp add: seq_def bnd_def require_def ret_def fail_def)

lemma bnd_lift: "bnd (lift (Inr x)) f = f x"
  by (rule ext) (simp add: bnd_def lift_def ret_def)

lemma replay_admits:
  assumes "replay_direct svc env nonce r w = (Inr x, w')"
  obtains i c d where "normalize_admission_request r = Inr i" and "completes i c" and "d = w_db w"
    and "admit_direct env nonce (ds_queue svc) c d = (Inr x, w_db w')"
proof -
  obtain j v i where j: "on_db (store_session (session_id (ad_key r))) w = (Inr j, v)"
    and i: "normalize_admission_request r = Inr i"
    and ok: "\<not> ((ad_profile i \<noteq> [] \<and> ad_profile i \<noteq> sess_profile j) \<or> (ad_connection i \<noteq> [] \<and> ad_connection i \<noteq> provider_connection j))"
    and a: "on_db (admit_direct env nonce (ds_queue svc) (pinned_request i j)) v = (Inr x, w')"
    using assms by (auto simp: replay_direct_def bnd_def fail_def split: prod.splits sum.splits if_splits)
  have "w_db v = w_db w"
    using j wp_result [of "store_session (session_id (ad_key r))" "\<lambda>_ e. e = w_db w" "\<lambda>_ _. True" "w_db w"]
    by (auto simp: on_db_def store_session_def q_get_session_def wp_simps split: prod.splits option.splits)
  moreover have "completes i (pinned_request i j)"
    unfolding pinned_request_def using ok by (intro completesI) auto
  moreover have "admit_direct env nonce (ds_queue svc) (pinned_request i j) (w_db v) = (Inr x, w_db w')"
    using a by (auto simp: on_db_def split: prod.splits)
  ultimately show ?thesis using i by (intro that [of i "pinned_request i j" "w_db w"]) simp_all
qed

lemma new_admits:
  assumes inv: "db_ok w" and run: "admit_new_direct svc env nonce r w = (Inr x, w')"
  obtains i c d where "normalize_admission_request r = Inr i" and "completes i c" and "db_inv d"
    and "admit_direct env nonce (ds_queue svc) c d = (Inr x, w_db w')"
proof -
  obtain i where i: "normalize_admission_request r = Inr i"
    using bndD [OF run [unfolded admit_new_direct_def]] by (auto simp: lift_def fail_def split: sum.splits)
  have run1: "bnd (on_db (selected_profile i)) (\<lambda>p.
    seq (require (p_harness p = ''codex'')
          (Wrapf ''profile Harness does not support native Session events'' (Sentinel ErrInvalidAdmission)))
   (bnd (on_ext (resolve_model (ds_provider svc) (ad_connection i) (ad_model i))) (\<lambda>(c, m).
    seq (require (\<not> invalid_admission_text (trim_space m) 1024 True)
          (Wrapf ''AI connection returned invalid default model'' (Sentinel ErrInvalidAdmission)))
   (case ds_provider svc of None \<Rightarrow> fail (Errorf ''provider readiness is not configured'') | Some pv \<Rightarrow>
    bnd (attempt (on_ext (pv_check pv c))) (\<lambda>ready. case ready of
      Inl e \<Rightarrow> fail (Wrapf ''AI connection is not ready'' e)
    | Inr _ \<Rightarrow>
        on_db (admit_direct env nonce (ds_queue svc)
          (i\<lparr>ad_profile := p_name p, ad_connection := c, ad_model := trim_space m\<rparr>))))))) w = (Inr x, w')"
    using run i by (simp add: admit_new_direct_def bnd_lift)
  obtain p v1 where p: "on_db (selected_profile i) w = (Inr p, v1)" and run2:
   "bnd (on_ext (resolve_model (ds_provider svc) (ad_connection i) (ad_model i))) (\<lambda>(c, m).
    seq (require (\<not> invalid_admission_text (trim_space m) 1024 True)
          (Wrapf ''AI connection returned invalid default model'' (Sentinel ErrInvalidAdmission)))
   (case ds_provider svc of None \<Rightarrow> fail (Errorf ''provider readiness is not configured'') | Some pv \<Rightarrow>
    bnd (attempt (on_ext (pv_check pv c))) (\<lambda>ready. case ready of
      Inl e \<Rightarrow> fail (Wrapf ''AI connection is not ready'' e)
    | Inr _ \<Rightarrow>
        on_db (admit_direct env nonce (ds_queue svc)
          (i\<lparr>ad_profile := p_name p, ad_connection := c, ad_model := trim_space m\<rparr>))))) v1 = (Inr x, w')"
    using bndD [OF run1] by (auto simp: require_run)
  obtain pv where pv: "ds_provider svc = Some pv"
    using bndD [OF run2] by (auto simp: require_run fail_def split: option.splits)
  obtain c m v3 where m: "on_ext (resolve_model (ds_provider svc) (ad_connection i) (ad_model i)) v1 = (Inr (c, m), v3)"
    and run3: "bnd (attempt (on_ext (pv_check pv c))) (\<lambda>ready. case ready of
      Inl e \<Rightarrow> fail (Wrapf ''AI connection is not ready'' e)
    | Inr _ \<Rightarrow>
        on_db (admit_direct env nonce (ds_queue svc)
          (i\<lparr>ad_profile := p_name p, ad_connection := c, ad_model := trim_space m\<rparr>))) v3 = (Inr x, w')"
    using bndD [OF run2] by (auto simp: require_run pv)
  let ?c = "i\<lparr>ad_profile := p_name p, ad_connection := c, ad_model := trim_space m\<rparr>"
  obtain ready v4 where r: "attempt (on_ext (pv_check pv c)) v3 = (Inr ready, v4)"
    and a: "(case ready of Inl e \<Rightarrow> fail (Wrapf ''AI connection is not ready'' e)
      | Inr _ \<Rightarrow> on_db (admit_direct env nonce (ds_queue svc) ?c)) v4 = (Inr x, w')"
    using bndD [OF run3] by blast
  have "w_db v4 = w_db v1"
    using r m by (auto simp: attempt_def on_ext_def split: prod.splits sum.splits)
  moreover have "db_inv (w_db v1)"
  proof -
    have "keeps db_inv (selected_profile i)"
      unfolding selected_profile_def select_verified_def active_profile_def default_profile_def by (intro keeps_intros)
    from wp_result [OF keepsD [OF this]] p inv show ?thesis
      by (auto simp: on_db_def db_ok_def split: prod.splits)
  qed
  moreover have "completes i (i\<lparr>ad_profile := p_name p, ad_connection := c, ad_model := trim_space m\<rparr>)"
  proof -
    have "ad_profile i \<noteq> [] \<Longrightarrow> p_name p = ad_profile i"
      using p selected_profile_name [of i "w_db w" p] normalized_trims(1) [OF i] by (auto simp: on_db_def split: prod.splits)
    moreover have "(ad_connection i \<noteq> [] \<longrightarrow> c = ad_connection i) \<and> (ad_model i \<noteq> [] \<longrightarrow> m = ad_model i)"
      using m by (auto simp: on_ext_def split: prod.splits dest: resolved_model)
    ultimately show ?thesis using normalized_trims(3) [OF i] by (intro completesI) auto
  qed
  moreover have "admit_direct env nonce (ds_queue svc) (i\<lparr>ad_profile := p_name p, ad_connection := c, ad_model := trim_space m\<rparr>) (w_db v4) = (Inr x, w_db w')"
    using a by (cases ready) (auto simp: on_db_def fail_def split: prod.splits)
  ultimately show ?thesis using i by (intro that) simp_all
qed

lemma admit_request_created:
  assumes inv: "db_ok w" and run: "admit_request svc nonce r w = (Inr (j, True), w')"
  obtains env key i c d where "ds_store svc = Some env" and "direct_admission_key (ad_key r) = Inr key"
    and "valid_client_reference (ad_client_reference r)" and "normalize_admission_request (r\<lparr>ad_key := key\<rparr>) = Inr i"
    and "completes i c" and "db_inv d" and "admit_direct env nonce (ds_queue svc) c d = (Inr (j, True), w_db w')"
proof -
  have ref: "valid_client_reference (ad_client_reference r)"
    using run by (auto simp: admit_request_def seq_def require_def ret_def fail_def bnd_def split: if_splits)
  obtain key where key: "direct_admission_key (ad_key r) = Inr key"
    using run ref by (cases "direct_admission_key (ad_key r)")
      (auto simp: admit_request_def seq_def require_def ret_def fail_def bnd_def lift_def)
  obtain env where env: "ds_store svc = Some env"
    using run ref key by (cases "ds_store svc")
      (auto simp: admit_request_def seq_def require_def ret_def fail_def bnd_def lift_def)
  let ?r = "r\<lparr>ad_key := key\<rparr>"
  have "bnd (on_db (session_exists (session_id key))) (\<lambda>exists.
      if exists then replay_direct svc env nonce ?r
      else bnd (attempt (admit_new_direct svc env nonce ?r)) (\<lambda>res. case res of
          Inr x \<Rightarrow> ret x
        | Inl e \<Rightarrow>
            if err_is e ErrDirectAdmissionConflict then
              bnd (replay_direct svc env nonce ?r) (\<lambda>(j, _). ret (j, False))
            else fail e)) w = (Inr (j, True), w')"
    using run ref key env by (simp add: admit_request_def require_run bnd_lift Let_def)
  from bndD [OF this] obtain ex v where ex: "on_db (session_exists (session_id key)) w = (Inr ex, v)"
    and rest: "(if ex then replay_direct svc env nonce ?r
      else bnd (attempt (admit_new_direct svc env nonce ?r)) (\<lambda>res. case res of
          Inr x \<Rightarrow> ret x
        | Inl e \<Rightarrow>
            if err_is e ErrDirectAdmissionConflict then
              bnd (replay_direct svc env nonce ?r) (\<lambda>(j, _). ret (j, False))
            else fail e)) v = (Inr (j, True), w')"
    by blast
  have v: "db_ok v"
  proof -
    have "keeps db_ok (on_db (session_exists (session_id key)))" unfolding session_exists_def by (intro keeps_intros)
    from wp_result [OF keepsD [OF this inv] ex] show ?thesis .
  qed
  show ?thesis
  proof (cases ex)
    case True
    then have "replay_direct svc env nonce ?r v = (Inr (j, True), w')" using rest by simp
    then show ?thesis
      by (rule replay_admits) (rule that [OF env key ref], use v in \<open>simp_all add: db_ok_def\<close>)
  next
    case False
    from bndD [OF rest [unfolded if_not_P [OF False]]] have "admit_new_direct svc env nonce ?r v = (Inr (j, True), w')"
      by (auto simp: attempt_def ret_def fail_def split: prod.splits sum.splits if_splits dest!: bndD)
    from new_admits [OF v this] show ?thesis
      using that [OF env key ref] by blast
  qed
qed

lemma admit_request_pins:
  assumes inv: "db_ok w" and run: "admit_request svc nonce r w = (Inr (j, True), w')"
    and spawn: "\<And>env sid. ds_store svc = Some env \<Longrightarrow>
      spawn_task env (ds_queue svc) direct_task_name sid (direct_task_key sid) \<noteq> Inr []"
    and kept: "sessions_kept (w_db w') (w_db v)"
  shows "admit_request (svc\<lparr>ds_provider := pv\<rparr>) (Inr owner) r v = (Inr (j, False), v)"
proof -
  obtain env key i c d where env: "ds_store svc = Some env" and key: "direct_admission_key (ad_key r) = Inr key"
    and ref: "valid_client_reference (ad_client_reference r)" and i: "normalize_admission_request (r\<lparr>ad_key := key\<rparr>) = Inr i"
    and c: "completes i c" and d: "db_inv d" and a: "admit_direct env nonce (ds_queue svc) c d = (Inr (j, True), w_db w')"
    using admit_request_created [OF inv run] by blast
  obtain n where n: "normalize_core_admission c = Inr n" and "answers (w_db w') n j"
    using admit_direct_new [OF d a spawn [OF env]] by blast
  then have ans: "answers (w_db v) n j" using kept_answers [OF kept] by blast
  note t = normalized_trims [OF i]
  have k: "trim_space key = key" using key by (auto simp: direct_admission_key_def Let_def trim_trim split: if_splits)
  obtain p k m where pkm: "c = i\<lparr>ad_profile := p, ad_connection := k, ad_model := m\<rparr>" "ad_profile i \<noteq> [] \<longrightarrow> p = ad_profile i"
    "ad_connection i \<noteq> [] \<longrightarrow> k = ad_connection i" "ad_model i \<noteq> [] \<longrightarrow> m = ad_model i"
    using c by (auto simp: completes_def)
  have n': "n = c\<lparr>ad_key := key, ad_profile := trim_space p, ad_connection := trim_space k, ad_model := trim_space m\<rparr>"
    using n t k by (auto simp: normalize_core_admission_def Let_def pkm(1) split: if_split_asm)
  have keep: "sess_profile j = trim_space p" "provider_connection j = trim_space k" "model j = trim_space m"
    using ans by (simp_all add: answers_def n')
  have at: "store_session (session_id key) (w_db v) = (Inr j, w_db v)"
    using answers_store [OF ans] by (simp add: n')
  have norm: "normalize_core_admission (pinned_request i j) = Inr n"
    using n t k keep pkm n' by (auto simp: normalize_core_admission_def Let_def pinned_request_def trim_trim split: if_split_asm)
  have again: "admit_direct env (Inr owner) (ds_queue svc) (pinned_request i j) (w_db v) = (Inr (j, False), w_db v)"
    by (rule answers_replay [OF ans norm refl])
  have ok: "\<not> ((ad_profile i \<noteq> [] \<and> ad_profile i \<noteq> sess_profile j) \<or> (ad_connection i \<noteq> [] \<and> ad_connection i \<noteq> provider_connection j))"
    using keep t pkm by auto
  let ?r = "r\<lparr>ad_key := key\<rparr>"
  have "replay_direct (svc\<lparr>ds_provider := pv\<rparr>) env (Inr owner) ?r v = (Inr (j, False), v)"
    using at again ok i by (auto simp: replay_direct_def on_db_def bnd_def)
  moreover have "session_exists (session_id key) (w_db v) = (Inr True, w_db v)"
    using at by (simp add: session_exists_def bnd_def attempt_def ret_def)
  ultimately show ?thesis
    using env key ref by (simp add: admit_request_def require_run bnd_lift Let_def bnd_def on_db_def lift_def ret_def)
qed

end
