(* ===== verification/Go_Base64.thy ===== *)
theory Go_Base64
  imports Go_Strings
begin

text \<open>
  \<open>encoding/base64\<close>: the raw URL encoding Dorf writes random identities, credentials and tokens
  with, and the padded standard encoding with its strict decoder, which file transfers use. The
  decoder skips carriage returns and line feeds, as Go's does.
\<close>

section \<open>Sextets\<close>

fun sextets :: "nat list \<Rightarrow> nat list" where
  "sextets (a # b # c # r) =
     [a div 4, a mod 4 * 16 + b div 16, b mod 16 * 4 + c div 64, c mod 64] @ sextets r"
| "sextets [a, b] = [a div 4, a mod 4 * 16 + b div 16, b mod 16 * 4]"
| "sextets [a] = [a div 4, a mod 4 * 16]"
| "sextets [] = []"

fun octets :: "nat list \<Rightarrow> nat list option" where
  \<comment> \<open>\<open>None\<close> where a strict decoder refuses: a lone sextet, or trailing bits that are not zero\<close>
  "octets (a # b # c # d # r) =
     map_option (\<lambda>bs. [a * 4 + b div 16, b mod 16 * 16 + c div 4, c mod 4 * 64 + d] @ bs) (octets r)"
| "octets [a, b, c] =
     (if c mod 4 = 0 then Some [a * 4 + b div 16, b mod 16 * 16 + c div 4] else None)"
| "octets [a, b] = (if b mod 16 = 0 then Some [a * 4 + b div 16] else None)"
| "octets [a] = None"
| "octets [] = Some []"

lemma sextets_length: "length (sextets bs) = (4 * length bs + 2) div 3"
  by (induction bs rule: sextets.induct) auto

lemma sextets_bound: "list_all (\<lambda>b. b < 256) bs \<Longrightarrow> n \<in> set (sextets bs) \<Longrightarrow> n < 64"
proof (induction bs rule: sextets.induct)
  case (1 a b c r)
  have "a mod 4 * 16 + b div 16 < 64"
  proof -
    have "a mod 4 \<le> 3" "b div 16 < 16" using 1 by auto
    then show ?thesis by linarith
  qed
  moreover have "b mod 16 * 4 + c div 64 < 64"
  proof -
    have "b mod 16 \<le> 15" "c div 64 < 4" using 1 by auto
    then show ?thesis by linarith
  qed
  ultimately show ?case using 1 by auto
next
  case (2 a b)
  have "a mod 4 \<le> 3" "b div 16 < 16" "b mod 16 \<le> 15" using 2 by auto
  then have "a mod 4 * 16 + b div 16 < 64" "b mod 16 * 4 < 64" by linarith+
  then show ?case using 2 by auto
next
  case (3 a)
  have "a mod 4 \<le> 3" by auto
  then have "a mod 4 * 16 < 64" by linarith
  then show ?case using 3 by auto
qed auto

lemma split_high: "(q::nat) < m \<Longrightarrow> (p * m + q) div m = p \<and> (p * m + q) mod m = q"
  by auto

lemma octets_sextets: "list_all (\<lambda>b. b < 256) bs \<Longrightarrow> octets (sextets bs) = Some bs"
proof (induction bs rule: sextets.induct)
  case (1 a b c r)
  then have b: "b div 16 < 16" and c: "c div 64 < 4" by auto
  from 1 split_high [OF b, of "a mod 4"] split_high [OF c, of "b mod 16"] show ?case by simp
next
  case (2 a b)
  then have "b div 16 < 16" by auto
  from split_high [OF this, of "a mod 4"] show ?case by simp
qed auto

section \<open>Alphabets\<close>

definition b64_char :: "char \<Rightarrow> char \<Rightarrow> nat \<Rightarrow> char" where
  "b64_char x y n =
    (if n < 26 then char_of (65 + n) else if n < 52 then char_of (71 + n)
     else if n < 62 then char_of (n - 4) else if n = 62 then x else y)"

definition b64_value :: "char \<Rightarrow> char \<Rightarrow> char \<Rightarrow> nat option" where
  "b64_value x y c =
    (if is_upper c then Some (byte c - 65) else if is_lower c then Some (byte c - 71)
     else if is_digit c then Some (byte c + 4) else if c = x then Some 62 else if c = y then Some 63
     else None)"

lemma byte_char_of: "n < 256 \<Longrightarrow> byte (char_of n :: char) = n"
  by (simp add: of_char_of)

lemma b64_round:
  assumes "n < 64"
  shows "b64_value (CHR ''+'') (CHR ''/'') (b64_char (CHR ''+'') (CHR ''/'') n) = Some n"
  using assms
  by (auto simp: b64_value_def b64_char_def is_upper_def is_lower_def is_digit_def in_range_def byte_char_of)

lemma b64_url: "n < 64 \<Longrightarrow> url_char (b64_char (CHR ''-'') (CHR ''_'') n)"
  by (auto simp: b64_char_def url_char_def is_upper_def is_lower_def is_digit_def in_range_def byte_char_of)

section \<open>Encodings\<close>

definition raw_url_encode :: "string \<Rightarrow> string" where
  "raw_url_encode s = map (b64_char (CHR ''-'') (CHR ''_'')) (sextets (map byte s))"

definition std_padding :: "nat \<Rightarrow> string" where
  "std_padding n = (if n mod 3 = 1 then ''=='' else if n mod 3 = 2 then ''='' else [])"

definition std_encode :: "string \<Rightarrow> string" where
  "std_encode s = map (b64_char (CHR ''+'') (CHR ''/'')) (sextets (map byte s)) @ std_padding (length s)"

definition std_encoded_len :: "nat \<Rightarrow> nat" where
  "std_encoded_len n = (n + 2) div 3 * 4"

fun values_of :: "string \<Rightarrow> nat list option" where
  "values_of [] = Some []"
| "values_of (c # s) =
     (case b64_value (CHR ''+'') (CHR ''/'') c of None \<Rightarrow> None | Some n \<Rightarrow> map_option ((#) n) (values_of s))"

definition std_unpad :: "string \<Rightarrow> string option" where
  \<comment> \<open>the text before its padding, which fills the last group of four\<close>
  "std_unpad s =
    (if length s mod 4 \<noteq> 0 then None
     else if has_suffix s ''=='' then Some (take (length s - 2) s)
     else if has_suffix s ''='' then Some (take (length s - 1) s) else Some s)"

definition std_decode_strict :: "string \<Rightarrow> string option" where
  "std_decode_strict s =
    (case std_unpad (filter (\<lambda>c. c \<noteq> CHR 0x0A \<and> c \<noteq> CHR 0x0D) s) of None \<Rightarrow> None
     | Some t \<Rightarrow>
         (case values_of t of None \<Rightarrow> None
          | Some ns \<Rightarrow> map_option (map char_of) (octets ns)))"

lemma byte_lt [simp]: "byte c < 256"
  by (rule nat_of_char_less_256)

lemma byte_list: "list_all (\<lambda>b. b < 256) (map byte s)"
  by (simp add: list_all_iff)

lemma raw_url_length: "length (raw_url_encode s) = (4 * length s + 2) div 3"
  by (simp add: raw_url_encode_def sextets_length)

lemma raw_url_chars: "list_all url_char (raw_url_encode s)"
  using sextets_bound [OF byte_list, of _ s] by (auto simp: raw_url_encode_def list_all_iff b64_url)

lemma std_encode_length: "length (std_encode s) = std_encoded_len (length s)"
proof -
  have "(4 * (3 * q + r) + 2) div 3 + length (std_padding (3 * q + r)) = (3 * q + r + 2) div 3 * 4" if r: "r < 3" for q r
  proof -
    consider "r = 0" | "r = 1" | "r = 2" using r by linarith
    then show ?thesis
    proof cases
      case 1
      have "(4 * (3 * q) + 2) div 3 = 4 * q" "(3 * q + 2) div 3 = q" by presburger+
      with 1 show ?thesis by (simp add: std_padding_def)
    next
      case 2
      have "(4 * (3 * q + 1) + 2) div 3 = 4 * q + 2" "(3 * q + 1 + 2) div 3 = q + 1" "(3 * q + 1) mod 3 = 1" by presburger+
      with 2 show ?thesis by (simp add: std_padding_def)
    next
      case 3
      have "(4 * (3 * q + 2) + 2) div 3 = 4 * q + 3" "(3 * q + 2 + 2) div 3 = q + 1" "(3 * q + 2) mod 3 = 2" by presburger+
      with 3 show ?thesis by (simp add: std_padding_def)
    qed
  qed
  from this [of "length s mod 3" "length s div 3"]
  have "(4 * length s + 2) div 3 + length (std_padding (length s)) = (length s + 2) div 3 * 4" by simp
  then show ?thesis by (simp add: std_encode_def sextets_length std_encoded_len_def)
qed

lemma values_encode:
  "list_all (\<lambda>n. n < 64) ns \<Longrightarrow> values_of (map (b64_char (CHR ''+'') (CHR ''/'')) ns) = Some ns"
  by (induction ns) (simp_all add: b64_round)

lemma std_char:
  assumes "n < 64"
  shows "b64_char (CHR ''+'') (CHR ''/'') n \<noteq> CHR ''='' \<and> b64_char (CHR ''+'') (CHR ''/'') n \<noteq> CHR 0x0A \<and>
    b64_char (CHR ''+'') (CHR ''/'') n \<noteq> CHR 0x0D"
proof -
  have "b64_value (CHR ''+'') (CHR ''/'') (CHR ''='') = None" "b64_value (CHR ''+'') (CHR ''/'') (CHR 0x0A) = None"
    "b64_value (CHR ''+'') (CHR ''/'') (CHR 0x0D) = None"
    by (simp_all add: b64_value_def is_upper_def is_lower_def is_digit_def in_range_def)
  with b64_round [OF assms] show ?thesis by (metis option.distinct(1))
qed

lemma has_suffix_end: "has_suffix (s @ t) t"
  by (simp add: has_suffix_def has_prefix_def)

lemma no_pad_suffix: "CHR ''='' \<notin> set s \<Longrightarrow> \<not> has_suffix s ''='' \<and> \<not> has_suffix s ''==''"
  by (cases "rev s") (auto simp: has_suffix_def has_prefix_def)

lemma std_unpad_pad:
  assumes "CHR ''='' \<notin> set t" and "length (t @ std_padding n) mod 4 = 0"
  shows "std_unpad (t @ std_padding n) = Some t"
proof -
  consider "n mod 3 = 1" | "n mod 3 = 2" | "n mod 3 = 0" by linarith
  then show ?thesis
  proof cases
    case 1
    then have "std_padding n = ''==''" by (simp add: std_padding_def)
    with assms(2) has_suffix_end [of t "''==''"] show ?thesis by (simp add: std_unpad_def)
  next
    case 2
    then have p: "std_padding n = ''=''" by (simp add: std_padding_def)
    have "\<not> has_suffix (t @ ''='') ''==''"
      using assms(1) by (cases "rev t") (auto simp: has_suffix_def has_prefix_def)
    with p assms(2) has_suffix_end [of t "''=''"] show ?thesis by (simp add: std_unpad_def)
  next
    case 3
    then have "std_padding n = []" by (simp add: std_padding_def)
    with assms(2) no_pad_suffix [OF assms(1)] show ?thesis by (simp add: std_unpad_def)
  qed
qed

lemma std_decode_encode: "std_decode_strict (std_encode s) = Some s"
proof -
  let ?ns = "sextets (map byte s)" and ?enc = "map (b64_char (CHR ''+'') (CHR ''/''))"
  have small: "list_all (\<lambda>n. n < 64) ?ns" using sextets_bound [OF byte_list] by (auto simp: list_all_iff)
  then have chars: "c \<noteq> CHR ''='' \<and> c \<noteq> CHR 0x0A \<and> c \<noteq> CHR 0x0D" if "c \<in> set (?enc ?ns)" for c
    using that std_char by (auto simp: list_all_iff)
  have "filter (\<lambda>c. c \<noteq> CHR 0x0A \<and> c \<noteq> CHR 0x0D) (std_encode s) = std_encode s"
    unfolding std_encode_def using chars by (auto simp: filter_id_conv std_padding_def)
  moreover have "std_unpad (std_encode s) = Some (?enc ?ns)"
    unfolding std_encode_def
  proof (rule std_unpad_pad)
    show "CHR ''='' \<notin> set (?enc ?ns)" using chars by blast
    show "length (?enc ?ns @ std_padding (length s)) mod 4 = 0"
      using std_encode_length [of s] by (simp add: std_encode_def std_encoded_len_def)
  qed
  moreover have "octets ?ns = Some (map byte s)" by (rule octets_sextets [OF byte_list])
  ultimately show ?thesis
    using values_encode [OF small] by (simp add: std_decode_strict_def comp_def)
qed

end
