(* ===== verification/Go_Json.thy ===== *)
theory Go_Json
  imports Go_Strings
begin

text \<open>
  The part of \<open>encoding/json\<close> the program derives identities from: \<open>json.Marshal\<close> of a fixed
  array of strings, with HTML escaping, as bytes.
\<close>

definition hex_digit :: "nat \<Rightarrow> char" where
  "hex_digit n = (if n < 10 then char_of (48 + n) else char_of (87 + n))"

definition backslash :: char where
  "backslash = CHR 0x5C"

definition json_u00 :: "nat \<Rightarrow> string" where
  "json_u00 b = backslash # ''u00'' @ [hex_digit (b div 16), hex_digit (b mod 16)]"

definition json_ascii :: "char \<Rightarrow> string" where
  "json_ascii c =
    (let b = byte c in
     if b = 34 \<or> b = 92 then [backslash, c]
     else if b = 8 then backslash # ''b''
     else if b = 12 then backslash # ''f''
     else if b = 10 then backslash # ''n''
     else if b = 13 then backslash # ''r''
     else if b = 9 then backslash # ''t''
     else if b < 32 \<or> b = 60 \<or> b = 62 \<or> b = 38 then json_u00 b
     else [c])"

function json_body :: "string \<Rightarrow> string" where
  "json_body s =
    (if s = [] then []
     else if byte (hd s) < 128 then json_ascii (hd s) @ json_body (tl s)
     else let n = rune_size s in
       if n = 0 then backslash # ''ufffd'' @ json_body (tl s)
       else if map byte (take 3 s) = [226, 128, 168] then backslash # ''u2028'' @ json_body (drop (max 1 n) s)
       else if map byte (take 3 s) = [226, 128, 169] then backslash # ''u2029'' @ json_body (drop (max 1 n) s)
       else take n s @ json_body (drop (max 1 n) s))"
  by pat_completeness auto
termination
  by (relation "measure length") auto

declare json_body.simps [simp del]

definition json_string :: "string \<Rightarrow> string" where
  "json_string s = [CHR 0x22] @ json_body s @ [CHR 0x22]"

definition json_strings :: "string list \<Rightarrow> string" where
  "json_strings ss = ''['' @ join_with '','' (map json_string ss) @ '']''"

end
