(* ===== verification/Sandbox_Contract.thy ===== *)
theory Sandbox_Contract
  imports Go_Base64 Go_Json Postgres_Upgrades
begin

text \<open>
  The provider-neutral Sandbox boundary (\<open>internal/sandbox\<close>): exact file reads and writes over a
  bounded command transport (\<open>file.go\<close>), commands (\<open>command.go\<close>), output capture
  (\<open>output.go\<close>) and checkpoint names (\<open>checkpoint.go\<close>). The transport is a parameter; the shell
  scripts are texts handed to it. File contents are strings of bytes.
\<close>

record ownership =
  ow_session :: string
  ow_sandbox :: string
  ow_nonce :: string

record exec_result =
  xr_stdout :: string
  xr_stderr :: string
  xr_exit :: int
  xr_truncated :: bool

type_synonym 'w transport = "ownership \<Rightarrow> string \<Rightarrow> string list \<Rightarrow> ('w, exec_result) act"

text \<open>A fresh observation of the provider, and what a provider implements. What an adapter may lack is an option.\<close>

record provider_status =
  pst_provider :: string
  pst_state :: string
  pst_id :: string

record run_request =
  rr_args :: "string list"
  rr_stdin :: string
  rr_timeout :: int
  rr_max_output :: nat

record run_result =
  rn_result :: exec_result
  rn_stopped :: bool

record 'w checkpointer =
  ck_capture :: "ownership \<Rightarrow> string \<Rightarrow> ('w, checkpoint) act"
  ck_restore :: "ownership \<Rightarrow> ownership \<Rightarrow> checkpoint \<Rightarrow> ('w, string) act"
  ck_delete :: "ownership \<Rightarrow> checkpoint \<Rightarrow> ('w, unit) act"

record 'w sandbox_provider =
  box_workspace :: string
  box_run :: "ownership \<Rightarrow> run_request \<Rightarrow> 'w \<Rightarrow> (err option \<times> run_result) \<times> 'w" \<comment> \<open>a result may come with an error\<close>
  box_create :: "ownership \<Rightarrow> ('w, unit) act"
  box_attest :: "ownership \<Rightarrow> ('w, unit) act"
  box_present :: "ownership \<Rightarrow> ('w, bool) act"
  box_delete :: "ownership \<Rightarrow> ('w, unit) act"
  box_put_file :: "ownership \<Rightarrow> string \<Rightarrow> string \<Rightarrow> ('w, unit) act"
  box_read_file :: "ownership \<Rightarrow> string \<Rightarrow> ('w, string) act"
  box_exec :: "'w transport"
  box_route_url :: "('w, string) act"
  box_observe :: "(ownership \<Rightarrow> ('w, provider_status) act) option"
  box_pause :: "(ownership \<Rightarrow> ('w, unit) act) option"
  box_checkpointer :: "'w checkpointer option"

section \<open>Paths and files\<close>

definition max_file_read_bytes :: int where
  "max_file_read_bytes = 8388608"

definition validate_file_path :: "string \<Rightarrow> err option" where
  "validate_file_path name =
    (if name = [] \<or> contains_nul name \<or> path_clean name \<noteq> name \<or> name = ''/'' \<or> name = ''.'' \<or> name = ''~'' \<or>
        name = ''..'' \<or> has_prefix name ''../''
     then Some (Wrapf ''path must name a clean Sandbox file'' (Sentinel ErrInvalidFilePath)) else None)"

fun first_bad_path :: "string list \<Rightarrow> err option" where
  "first_bad_path [] = None"
| "first_bad_path (n # ns) = (case validate_file_path n of Some e \<Rightarrow> Some e | None \<Rightarrow> first_bad_path ns)"

definition newline :: char where
  "newline = CHR 0x0A"

fun decode_entries :: "nat \<Rightarrow> (string \<times> string) list \<Rightarrow> (string \<rightharpoonup> string) \<Rightarrow> err + (string \<rightharpoonup> string)" where
  \<comment> \<open>the lines of a batch with the names they answer\<close>
  "decode_entries limit [] files = Inr files"
| "decode_entries limit ((name, line) # es) files =
    (if line = ''M'' then decode_entries limit es files
     else if \<not> has_prefix line ''D'' then Inl (Errorf ''invalid Sandbox file batch entry'')
     else let encoded = drop 1 line in
       if std_encoded_len (limit + 1) < length encoded then Inl (Errorf ''Sandbox file response exceeds encoded limit'')
       else case std_decode_strict encoded of
           None \<Rightarrow> Inl (Wrapf ''decode exact Sandbox file'' (External ''base64''))
         | Some contents \<Rightarrow>
             if limit < length contents then Inl (Wrapf name (Sentinel ErrFileTooLarge))
             else decode_entries limit es (files(name \<mapsto> contents)))"

definition decode_file_batch :: "string \<Rightarrow> string list \<Rightarrow> nat \<Rightarrow> err + (string \<rightharpoonup> string)" where
  "decode_file_batch output names limit =
    (if length names * (std_encoded_len (limit + 1) + 2) < length output then
       Inl (Errorf ''Sandbox file batch response exceeds limit'')
     else let lines = split_on newline (trim_suffix output [newline]) in
       if length lines \<noteq> length names \<or> \<not> has_suffix output [newline] then
         Inl (Errorf ''incomplete Sandbox file batch response'')
       else decode_entries limit (zip names lines) Map.empty)"

definition read_files_via_exec ::
  "string \<Rightarrow> 'w transport option \<Rightarrow> ownership \<Rightarrow> string \<Rightarrow> string list \<Rightarrow> int \<Rightarrow> ('w, string \<rightharpoonup> string) act" where
  \<comment> \<open>\<open>script\<close> is the text of the reading script\<close>
  "read_files_via_exec script transport owner workspace names limit =
    (if names = [] \<or> 32 < length names \<or> limit \<le> 0 \<or> int max_file_write_bytes div int (length names) < limit then
       fail (Errorf ''invalid Sandbox file batch bounds'')
     else if workspace = [] \<or> \<not> path_is_abs workspace \<or> path_clean workspace \<noteq> workspace \<or> workspace = ''/'' then
       fail (Errorf ''Sandbox workspace must be a clean absolute path'')
     else case first_bad_path names of Some e \<Rightarrow> fail e | None \<Rightarrow>
       case transport of None \<Rightarrow> fail (Errorf ''Sandbox file transport is not configured'') | Some exec \<Rightarrow>
         bnd (exec owner [] ([''bash'', ''-c'', script, ''dorf-read-files'', workspace, format_int (limit + 1)] @ names)) (\<lambda>r.
         seq (require (xr_exit r = 0) (Wrapf ''read regular Sandbox file batch'' (Sentinel ErrFileUnavailable)))
             (lift (decode_file_batch (xr_stdout r) names (nat limit)))))"

definition read_file_via_exec ::
  "string \<Rightarrow> 'w transport option \<Rightarrow> ownership \<Rightarrow> string \<Rightarrow> string \<Rightarrow> ('w, string) act" where
  "read_file_via_exec script transport owner workspace name =
    bnd (read_files_via_exec script transport owner (trim_space workspace) [name] max_file_read_bytes) (\<lambda>files.
    case files name of
      None \<Rightarrow> fail (Join (Sentinel ErrFileUnavailable) (Sentinel ErrFileNotExist))
    | Some contents \<Rightarrow> ret contents)"

definition write_exec ::
  "string \<Rightarrow> 'w transport option \<Rightarrow> ownership \<Rightarrow> string \<Rightarrow> string \<Rightarrow> string \<Rightarrow> bool \<Rightarrow> ('w, unit) act" where
  \<comment> \<open>\<open>writeFileViaExec\<close>\<close>
  "write_exec script transport owner workspace name contents if_absent =
    (case validate_file_path name of Some e \<Rightarrow> fail e | None \<Rightarrow>
     case transport of None \<Rightarrow> fail (Errorf ''Sandbox file transport is not configured'') | Some exec \<Rightarrow>
       if \<not> path_is_abs name \<and> \<not> has_prefix name ''~/'' \<and>
          (\<not> path_is_abs workspace \<or> path_clean workspace \<noteq> workspace \<or> workspace = ''/'') then
         fail (Errorf ''invalid Sandbox workspace'')
       else
         bnd (exec owner contents [''bash'', ''-c'', script, ''dorf-write-file'', workspace, name, itoa (length contents),
                sha256_hex contents, format_bool if_absent]) (\<lambda>r.
         require (xr_exit r = 0) (Wrapf ''Sandbox file write failed'' (Sentinel ErrFileUnavailable))))"

definition put_file_via_exec :: "string \<Rightarrow> 'w transport option \<Rightarrow> ownership \<Rightarrow> string \<Rightarrow> string \<Rightarrow> ('w, unit) act" where
  "put_file_via_exec script transport owner destination contents =
    (if \<not> path_is_abs destination then fail (Errorf ''Sandbox file destination must be absolute'')
     else write_exec script transport owner [] destination contents False)"

definition write_file_via_exec ::
  "string \<Rightarrow> 'w transport option \<Rightarrow> ownership \<Rightarrow> string \<Rightarrow> string \<Rightarrow> string \<Rightarrow> bool \<Rightarrow> ('w, unit) act" where
  "write_file_via_exec script transport owner workspace name contents if_absent =
    (if max_file_write_bytes < length contents then fail (Errorf ''Sandbox file exceeds write limit'')
     else write_exec script transport owner workspace name contents if_absent)"

section \<open>Commands\<close>

definition max_command_bytes :: nat where "max_command_bytes = 1048576"
definition max_command_output_bytes :: nat where "max_command_output_bytes = 65536"
definition max_command_seconds :: int where "max_command_seconds = 120"
definition default_command_timeout :: int where "default_command_timeout = 30 * second"

record command =
  cm_argv :: "string list"
  cm_stdin :: string
  cm_timeout_seconds :: int

definition validate_command :: "command \<Rightarrow> err option" where
  "validate_command c =
    (if cm_argv c = [] \<or> 256 < length (cm_argv c) \<or> hd (cm_argv c) = [] \<or> cm_timeout_seconds c < 0 \<or>
        max_command_seconds < cm_timeout_seconds c then Some (Errorf ''invalid Sandbox command'')
     else if list_ex contains_nul (cm_argv c) then Some (Errorf ''Sandbox command argument contains NUL'')
     else if max_command_bytes < length (cm_stdin c) + sum_list (map length (cm_argv c)) then
       Some (Errorf ''Sandbox command exceeds input limit'')
     else None)"

definition command_timeout :: "command \<Rightarrow> int" where
  "command_timeout c =
    (if cm_timeout_seconds c = 0 then default_command_timeout else cm_timeout_seconds c * second)"

section \<open>Captured output\<close>

record output_buffer =
  ob_limit :: int
  ob_truncated :: bool
  ob_data :: string

definition buffer_write :: "output_buffer \<Rightarrow> string \<Rightarrow> output_buffer option" where
  \<comment> \<open>\<open>None\<close>: the slice expression panics on a negative bound\<close>
  "buffer_write b p =
    (if 0 < ob_limit b then
       let n = min (int (length p)) (ob_limit b - int (length (ob_data b))) in
       if n < 0 then None
       else Some (b\<lparr>ob_data := ob_data b @ take (nat n) p, ob_truncated := ob_truncated b \<or> n < int (length p)\<rparr>)
     else Some (b\<lparr>ob_data := ob_data b @ p\<rparr>))"

fun buffer_writes :: "output_buffer \<Rightarrow> string list \<Rightarrow> output_buffer option" where
  "buffer_writes b [] = Some b"
| "buffer_writes b (p # ps) = (case buffer_write b p of None \<Rightarrow> None | Some c \<Rightarrow> buffer_writes c ps)"

section \<open>Checkpoint names\<close>

text \<open>\<open>validate_checkpoint_key\<close> is in \<open>Postgres_Upgrades\<close>, the receipts of which carry the key.\<close>

definition owned_checkpoint_name :: "ownership \<Rightarrow> string \<Rightarrow> err + string" where
  "owned_checkpoint_name owner key =
    (case validate_checkpoint_key key of Some e \<Rightarrow> Inl e | None \<Rightarrow>
     if ow_session owner = [] \<or> ow_sandbox owner = [] \<or> \<not> hex64 (ow_nonce owner) then
       Inl (OwnershipError ''checkpoint requires complete resource ownership'')
     else Inr (take 63 (''dorf-cp-'' @ sha256_hex (json_strings [ow_session owner, ow_sandbox owner, ow_nonce owner, key]))))"

section \<open>A file batch is exact or refused\<close>

text \<open>What the reading script prints: \<open>M\<close> for a missing file, or \<open>D\<close> and the encoding of its first bytes.\<close>

definition batch_line :: "nat \<Rightarrow> string option \<Rightarrow> string" where
  "batch_line n f = (case f of None \<Rightarrow> ''M'' | Some c \<Rightarrow> CHR ''D'' # std_encode (take n c))"

definition batch_output :: "nat \<Rightarrow> string option list \<Rightarrow> string" where
  "batch_output n fs = concat (map (\<lambda>f. batch_line n f @ [newline]) fs)"

lemma split_join:
  assumes "ls \<noteq> []" and "\<forall>p \<in> set ls. c \<notin> set p"
  shows "split_on c (join_with [c] ls) = ls"
  using assms
proof (induction ls rule: induct_list012)
  case (2 p)
  then show ?case by (simp add: join_with_def split_on_none)
next
  case (3 p q ls)
  have "join_with [c] (p # q # ls) = p @ c # join_with [c] (q # ls)" by (simp add: join_with_def)
  with 3 show ?case by (simp add: split_on_append)
qed simp

lemma join_lines: "ls \<noteq> [] \<Longrightarrow> concat (map (\<lambda>l. l @ [c]) ls) = join_with [c] ls @ [c]"
proof (induction ls rule: induct_list012)
  case (3 p q ls)
  have "join_with [c] (p # q # ls) = p @ c # join_with [c] (q # ls)" by (simp add: join_with_def)
  with 3 show ?case by simp
qed (simp_all add: join_with_def)

lemma trim_suffix_end: "trim_suffix (s @ t) t = s"
  by (simp add: trim_suffix_def has_suffix_end)

lemma encode_no_newline: "newline \<notin> set (std_encode s)"
proof -
  have "newline \<notin> set (map (b64_char (CHR ''+'') (CHR ''/'')) (sextets (map byte s)))"
    using std_char [OF sextets_bound [OF byte_list]] unfolding newline_def by fastforce
  then show ?thesis by (auto simp: std_encode_def std_padding_def newline_def)
qed

lemma batch_line_no_newline: "newline \<notin> set (batch_line n f)"
  using encode_no_newline by (auto simp: batch_line_def newline_def split: option.splits)

lemma encoded_mono: "length c \<le> n \<Longrightarrow> length (std_encode c) \<le> std_encoded_len n"
  by (simp add: std_encode_length std_encoded_len_def div_le_mono)

lemma batch_line_length: "length (batch_line n f) \<le> std_encoded_len n + 1"
proof (cases f)
  case (Some c)
  then show ?thesis using encoded_mono [of "take n c" n] by (simp add: batch_line_def)
qed (simp add: batch_line_def)

lemma batch_output_length: "length (batch_output n fs) \<le> length fs * (std_encoded_len n + 2)"
proof (induction fs)
  case (Cons f fs)
  then show ?case using batch_line_length [of n f] by (simp add: batch_output_def)
qed (simp add: batch_output_def)

definition fits :: "nat \<Rightarrow> string option \<Rightarrow> bool" where
  "fits limit f = (case f of None \<Rightarrow> True | Some c \<Rightarrow> length c \<le> limit)"

fun exact_files :: "(string \<times> string option) list \<Rightarrow> (string \<rightharpoonup> string) \<Rightarrow> (string \<rightharpoonup> string)" where
  "exact_files [] files = files"
| "exact_files ((name, f) # es) files =
    exact_files es (case f of None \<Rightarrow> files | Some c \<Rightarrow> files(name \<mapsto> c))"

lemma decode_batch_entries:
  "decode_entries limit (map (\<lambda>(n, f). (n, batch_line (limit + 1) f)) es) files =
    (case find (\<lambda>(n, f). \<not> fits limit f) es of
       None \<Rightarrow> Inr (exact_files es files)
     | Some (n, f) \<Rightarrow> Inl (Wrapf n (Sentinel ErrFileTooLarge)))"
proof (induction es arbitrary: files)
  case (Cons e es)
  obtain n f where e: "e = (n, f)" by (cases e)
  show ?case
  proof (cases f)
    case None
    show ?thesis unfolding e None using Cons.IH by (simp add: batch_line_def fits_def split: option.split)
  next
    case (Some c)
    have enc: "length (std_encode (take (limit + 1) c)) \<le> std_encoded_len (limit + 1)" by (rule encoded_mono) simp
    have d: "has_prefix (CHR ''D'' # t) ''D''" for t by (simp add: has_prefix_def)
    show ?thesis unfolding e Some using Cons.IH enc d
      by (cases "length c \<le> limit") (simp_all add: batch_line_def fits_def std_decode_encode Let_def not_less split: option.split)
  qed
qed simp

lemma decode_batch:
  assumes "length fs = length names" and "names \<noteq> []"
  shows "decode_file_batch (batch_output (limit + 1) fs) names limit =
    (case find (\<lambda>(n, f). \<not> fits limit f) (zip names fs) of
       None \<Rightarrow> Inr (exact_files (zip names fs) Map.empty)
     | Some (n, f) \<Rightarrow> Inl (Wrapf n (Sentinel ErrFileTooLarge)))"
proof -
  let ?out = "batch_output (limit + 1) fs" and ?ls = "map (batch_line (limit + 1)) fs"
  have ne: "fs \<noteq> []" using assms by auto
  have out: "?out = join_with [newline] ?ls @ [newline]"
    using join_lines [of ?ls newline] ne by (simp add: batch_output_def comp_def)
  have "split_on newline (trim_suffix ?out [newline]) = ?ls"
    unfolding out trim_suffix_end using assms batch_line_no_newline by (intro split_join) auto
  moreover have "has_suffix ?out [newline]" unfolding out by (rule has_suffix_end)
  moreover have "length ?out \<le> length names * (std_encoded_len (limit + 1) + 2)"
    using batch_output_length [of "limit + 1" fs] assms by simp
  moreover have "zip names ?ls = map (\<lambda>(n, f). (n, batch_line (limit + 1) f)) (zip names fs)"
    by (simp add: zip_map2)
  ultimately show ?thesis
    using assms decode_batch_entries by (simp add: decode_file_batch_def Let_def not_less)
qed

section \<open>A captured stream is a prefix\<close>

definition fresh_buffer :: "int \<Rightarrow> output_buffer" where
  "fresh_buffer limit = \<lparr>ob_limit = limit, ob_truncated = False, ob_data = []\<rparr>"

definition captured :: "int \<Rightarrow> string \<Rightarrow> output_buffer" where
  \<comment> \<open>the specification: a prefix of everything written, and whether anything was cut off\<close>
  "captured limit s = \<lparr>ob_limit = limit, ob_truncated = (0 < limit \<and> limit < int (length s)),
     ob_data = (if 0 < limit then take (nat limit) s else s)\<rparr>"

lemma buffer_write_captured: "buffer_write (captured limit s) p = Some (captured limit (s @ p))"
proof (cases "0 < limit")
  case True
  let ?l = "nat limit"
  define n where "n = min (length p) (?l - length s)"
  have l: "limit = int ?l" using True by simp
  have "min (int (length p)) (limit - int (length (ob_data (captured limit s)))) = int n"
    using True by (auto simp: captured_def n_def)
  moreover have "take ?l s @ take n p = take ?l (s @ p)" by (simp add: n_def min_def)
  moreover have "ob_truncated (captured limit s) \<or> int n < int (length p) \<longleftrightarrow> ?l < length (s @ p)"
    using True by (auto simp: captured_def n_def)
  moreover have "ob_limit (captured limit s) = limit" "ob_data (captured limit s) = take ?l s"
    using True by (simp_all add: captured_def)
  moreover have "captured limit (s @ p) = (captured limit s)\<lparr>ob_data := take ?l (s @ p), ob_truncated := ?l < length (s @ p)\<rparr>"
    using True by (auto simp: captured_def)
  ultimately show ?thesis
    using True by (simp add: buffer_write_def Let_def)
qed (simp add: buffer_write_def captured_def)

lemma buffer_writes_captured: "buffer_writes (captured limit s) ps = Some (captured limit (s @ concat ps))"
  by (induction ps arbitrary: s) (simp_all add: buffer_write_captured)

end
