(* ===== verification/Terminal_Externals.thy ===== *)
theory Terminal_Externals
  imports Sandbox_Contract Core_Execution
begin

text \<open>
  The externals of Core (\<open>internal/terminal\<close>): each operation of the execution service is
  composed of calls of one Sandbox provider, one AI gateway and one Harness, guarded by the
  exact Session owner. Provider, gateway and Harness are parameters. A capability the provider
  or the Harness may lack is an option.
\<close>

section \<open>Media types of attachments\<close>

text \<open>
  \<open>http.DetectContentType\<close> as far as the program asks: the answers it distinguishes, \<open>None\<close> for
  any other. Only the first 512 bytes count. The signatures of other types that come earlier in
  the sniffing table begin with other bytes, except the two icon formats.
\<close>

type_synonym octets = "8 word list"

definition octets_at :: "nat \<Rightarrow> octets \<Rightarrow> octets \<Rightarrow> bool" where
  "octets_at n s d = (take (length s) (drop n d) = s)"

definition box_size :: "octets \<Rightarrow> nat" where
  "box_size d = foldl (\<lambda>n b. n * 256 + unat b) 0 (take 4 d)"

definition mp4_brand :: "octets \<Rightarrow> nat \<Rightarrow> bool" where
  "mp4_brand d n = octets_at n [0x6D, 0x70, 0x34] d"

definition is_mp4 :: "octets \<Rightarrow> bool" where
  \<comment> \<open>the brands of the file type box, from offset 8, without the version at offset 12\<close>
  "is_mp4 d =
    (12 \<le> length d \<and> box_size d \<le> length d \<and> box_size d mod 4 = 0 \<and> octets_at 4 [0x66, 0x74, 0x79, 0x70] d \<and>
     list_ex (\<lambda>k. 8 + 4 * k < box_size d \<and> k \<noteq> 1 \<and> mp4_brand d (8 + 4 * k)) [0..<128])"

definition sniff :: "octets \<Rightarrow> string option" where
  "sniff contents =
    (let d = take 512 contents in
     if octets_at 0 [0, 0, 1, 0] d \<or> octets_at 0 [0, 0, 2, 0] d then None
     else if octets_at 0 [0x52, 0x49, 0x46, 0x46] d \<and> octets_at 8 [0x57, 0x45, 0x42, 0x50, 0x56, 0x50] d then Some ''image/webp''
     else if octets_at 0 [0x89, 0x50, 0x4E, 0x47, 0x0D, 0x0A, 0x1A, 0x0A] d then Some ''image/png''
     else if octets_at 0 [0xFF, 0xD8, 0xFF] d then Some ''image/jpeg''
     else if octets_at 0 [0x49, 0x44, 0x33] d then Some ''audio/mpeg''
     else if octets_at 0 [0x4F, 0x67, 0x67, 0x53, 0] d then Some ''application/ogg''
     else if octets_at 0 [0x52, 0x49, 0x46, 0x46] d \<and> octets_at 8 [0x57, 0x41, 0x56, 0x45] d then Some ''audio/wave''
     else if is_mp4 d then Some ''video/mp4''
     else if octets_at 0 [0x1A, 0x45, 0xDF, 0xA3] d then Some ''video/webm''
     else None)"

definition is_m4a :: "octets \<Rightarrow> bool" where
  "is_m4a d = (12 \<le> length d \<and> octets_at 4 [0x66, 0x74, 0x79, 0x70] d \<and> octets_at 8 [0x4D, 0x34, 0x41, 0x20] d)"

definition is_mpeg_frame :: "octets \<Rightarrow> bool" where
  "is_mpeg_frame d =
    (4 \<le> length d \<and> d ! 0 = 0xff \<and> and (d ! 1) 0xe6 = 0xe2 \<and> and (d ! 2) 0xf0 \<noteq> 0xf0 \<and> and (d ! 2) 0x0c \<noteq> 0x0c)"

definition audio_media_type :: "octets \<Rightarrow> string" where
  "audio_media_type contents =
    (if is_m4a contents then ''audio/mp4''
     else if is_mpeg_frame contents then ''audio/mpeg''
     else case sniff contents of
         None \<Rightarrow> []
       | Some m \<Rightarrow>
           if m = ''audio/wave'' then ''audio/wav''
           else if m = ''audio/mpeg'' then m
           else if m = ''application/ogg'' then ''audio/ogg''
           else if m = ''video/mp4'' then ''audio/mp4''
           else if m = ''video/webm'' then ''audio/webm''
           else [])"

definition native_image :: "octets \<Rightarrow> string option" where
  "native_image contents =
    (case sniff contents of None \<Rightarrow> None
     | Some m \<Rightarrow> if m = ''image/png'' \<or> m = ''image/jpeg'' \<or> m = ''image/webp'' then Some m else None)"

section \<open>Names of attachments\<close>

definition replacement_rune :: string where
  "replacement_rune = map char_of [239, 191, 189 :: nat]"

definition name_rune :: "string \<Rightarrow> string" where
  \<comment> \<open>separators and control characters become underscores; a broken byte is decoded to U+FFFD\<close>
  "name_rune s =
    (if rune_size s = 0 then replacement_rune
     else let r = take (rune_size s) s in
       if r = ''/'' \<or> r = [CHR 0x5C] \<or> has_control r then ''_'' else r)"

function base_runes :: "string \<Rightarrow> string \<Rightarrow> string" where
  \<comment> \<open>appends runes while the name fits 255 bytes\<close>
  "base_runes name s =
    (if s = [] \<or> 255 < length name + length (name_rune s) then name
     else base_runes (name @ name_rune s) (drop (max 1 (rune_size s)) s))"
  by pat_completeness auto
termination
  by (relation "measure (length \<circ> snd)") auto

declare base_runes.simps [simp del]

definition attachment_basename :: "string \<Rightarrow> string" where
  "attachment_basename filename =
    (let name = base_runes [] filename in
     if name = [] \<or> name = ''.'' \<or> name = ''..'' then ''attachment'' else name)"

section \<open>The externals\<close>

record gateway_route =
  gr_id :: string
  gr_api_key :: string

record 'w gateway =
  gw_create :: "string \<Rightarrow> string \<Rightarrow> string \<Rightarrow> ('w, gateway_route) act"
  gw_require_model :: "string \<Rightarrow> string \<Rightarrow> string \<Rightarrow> ('w, unit) act"
  gw_revoke :: "string \<Rightarrow> string \<Rightarrow> ('w, unit) act"

record harness_input =
  hi_observation :: bool
  hi_developer :: "string option"
  hi_text :: string
  hi_images :: "(string \<times> octets) list"
  hi_audio :: "(string \<times> octets) list"

record input_capabilities =
  ic_model :: string
  ic_media_types :: "string list"
  ic_max_audio :: int

record native_acknowledgement =
  ack_harness :: string
  ack_type :: string
  ack_client_id :: string
  ack_thread_id :: string
  ack_turn_id :: string

text \<open>
  A submission acts on the outside and uses two callbacks of its caller, which bind a Thread and
  begin a mutation in the durable store. It is a program over these steps: its caller decides
  what the callbacks do, and nothing else of the store is in its reach.
\<close>

datatype ('w, 'a) native_mutation =
    Finished "err + 'a"
  | Outside "'w \<Rightarrow> 'w" "'w \<Rightarrow> ('w, 'a) native_mutation" \<comment> \<open>the step, and what follows, of the state before it\<close>
  | BindThread string "err + unit \<Rightarrow> ('w, 'a) native_mutation"
  | BeginMutation string "err + string \<Rightarrow> ('w, 'a) native_mutation"

definition outside :: "('w, 'a) act \<Rightarrow> ('a \<Rightarrow> ('w, 'b) native_mutation) \<Rightarrow> ('w, 'b) native_mutation" where
  \<comment> \<open>an action on the outside, whose error ends the submission\<close>
  "outside m f = Outside (\<lambda>w. snd (m w)) (\<lambda>w. case fst (m w) of Inl e \<Rightarrow> Finished (Inl e) | Inr x \<Rightarrow> f x)"

record 'w native_harness =
  nh_capabilities :: "ownership \<Rightarrow> string \<Rightarrow> ('w, input_capabilities) act"
  nh_submit :: "ownership \<Rightarrow> session \<Rightarrow> native_event \<Rightarrow> harness_input \<Rightarrow> bool \<Rightarrow>
      ('w, native_acknowledgement) native_mutation" \<comment> \<open>the flag: no input was ever authorised\<close>
  nh_turns :: "ownership \<Rightarrow> string \<Rightarrow> ('w, harness_history) act"
  nh_idle :: "ownership \<Rightarrow> string \<Rightarrow> ('w, bool) act"

record 'w harness =
  ha_name :: string
  ha_install :: "ownership \<Rightarrow> string \<Rightarrow> string \<Rightarrow> string \<Rightarrow> ('w, unit) act"
  ha_remove :: "ownership \<Rightarrow> ('w, unit) act"
  ha_native :: "'w native_harness option"

text \<open>\<open>ex_quote\<close> is \<open>strconv.Quote\<close>, \<open>ex_script\<close> the writing script, \<open>ex_owner\<close> the ownership resolver.\<close>

record 'w externals =
  ex_sandbox :: "'w sandbox_provider"
  ex_gateway :: "'w gateway"
  ex_agent :: "'w harness"
  ex_owner :: "(string \<Rightarrow> ('w, ownership) act) option"
  ex_quote :: "string \<Rightarrow> string"
  ex_script :: string

definition ownership_metadata :: "sandbox \<Rightarrow> ownership" where
  "ownership_metadata b =
    \<lparr>ow_session = sb_session_id b, ow_sandbox = sb_id b, ow_nonce = sb_ownership_nonce b\<rparr>"

definition route_consumer :: "sandbox \<Rightarrow> string" where
  "route_consumer b = ''sandbox:'' @ sb_id b"

definition path_join :: "string list \<Rightarrow> string" where
  "path_join ps =
    (case filter (\<lambda>p. p \<noteq> []) ps of [] \<Rightarrow> [] | qs \<Rightarrow> path_clean (join_with ''/'' qs))"

definition read_sandbox_status :: "'w externals \<Rightarrow> session \<Rightarrow> sandbox \<Rightarrow> ('w, provider_status) act" where
  "read_sandbox_status e j b =
    seq (require (\<not> (sb_session_id b \<noteq> sess_id j \<or> sb_id b = [])) (Errorf ''Sandbox observation requires its exact Session owner''))
   (case box_observe (ex_sandbox e) of None \<Rightarrow> fail (Errorf ''Sandbox observation is unsupported'')
    | Some observe \<Rightarrow> observe (ownership_metadata b))"

definition read_sandbox_file :: "'w externals \<Rightarrow> session \<Rightarrow> sandbox \<Rightarrow> string \<Rightarrow> ('w, string) act" where
  "read_sandbox_file e j b name =
    seq (require (sb_session_id b = sess_id j) (Errorf ''Sandbox file read requires the exact Session owner''))
        (box_read_file (ex_sandbox e) (ownership_metadata b) name)"

definition write_sandbox_file ::
  "'w externals \<Rightarrow> session \<Rightarrow> sandbox \<Rightarrow> string \<Rightarrow> string \<Rightarrow> bool \<Rightarrow> ('w, unit) act" where
  "write_sandbox_file e j b name contents if_absent =
    seq (require (sb_session_id b = sess_id j) (Errorf ''Sandbox file write requires the exact Session owner''))
        (write_file_via_exec (ex_script e) (Some (box_exec (ex_sandbox e))) (ownership_metadata b)
          (box_workspace (ex_sandbox e)) name contents if_absent)"

definition sandbox_create :: "'w externals \<Rightarrow> session \<Rightarrow> sandbox \<Rightarrow> ('w, string) act" where
  "sandbox_create e j b =
    (let owner = ownership_metadata b in
     seq (require (sb_session_id b = sess_id j) (Errorf ''Sandbox does not belong to exact Session''))
    (seq (box_create (ex_sandbox e) owner)
    (seq (if agents_md j \<noteq> [] then
            box_put_file (ex_sandbox e) owner (path_join [box_workspace (ex_sandbox e), ''AGENTS.md'']) (agents_md j)
          else ret ())
    (bnd (read_sandbox_status e j b) (\<lambda>st.
     seq (require (pst_id st \<noteq> []) (Errorf ''created Sandbox has no attested provider identity''))
         (ret (pst_id st)))))))"

definition route_create :: "'w externals \<Rightarrow> session \<Rightarrow> sandbox \<Rightarrow> route \<Rightarrow> ('w, unit) act" where
  "route_create e j b expected =
    (let owner = ownership_metadata b in
     seq (require (\<not> (sb_session_id b \<noteq> sess_id j \<or> route_sandbox_id expected \<noteq> sb_id b \<or> route_id expected = []))
           (Errorf ''provider Route does not belong to exact Session Sandbox''))
    (seq (box_attest (ex_sandbox e) owner)
    (bnd (box_route_url (ex_sandbox e)) (\<lambda>url.
     bnd (gw_create (ex_gateway e) (provider_connection j) (route_consumer b) (route_id expected)) (\<lambda>r.
     seq (require (gr_id r = route_id expected) (Errorf ''provider Gateway returned a foreign Route identity''))
    (seq (gw_require_model (ex_gateway e) url (gr_api_key r) (model j))
         (ha_install (ex_agent e) owner url (gr_api_key r) (model j))))))))"

definition route_revoke :: "'w externals \<Rightarrow> session \<Rightarrow> sandbox \<Rightarrow> route \<Rightarrow> ('w, unit) act" where
  "route_revoke e j b r =
    seq (require (\<not> (sb_session_id b \<noteq> sess_id j \<or> route_sandbox_id r \<noteq> sb_id b \<or> route_id r = []))
          (Errorf ''Route cleanup has no exact Session-owned identity''))
   (seq (gw_revoke (ex_gateway e) (route_consumer b) (route_id r))
   (bnd (box_present (ex_sandbox e) (ownership_metadata b)) (\<lambda>present.
    if present then ha_remove (ex_agent e) (ownership_metadata b) else ret ())))"

definition sandbox_delete :: "'w externals \<Rightarrow> session \<Rightarrow> sandbox \<Rightarrow> ('w, unit) act" where
  "sandbox_delete e j b =
    seq (require (\<not> (sb_session_id b \<noteq> sess_id j \<or> sb_id b = [])) (Errorf ''Sandbox cleanup has no exact Session-owned identity''))
        (box_delete (ex_sandbox e) (ownership_metadata b))"

definition sandbox_pause :: "'w externals \<Rightarrow> session \<Rightarrow> sandbox \<Rightarrow> ('w, unit) act" where
  "sandbox_pause e j b =
    seq (require (\<not> (sb_session_id b \<noteq> sess_id j \<or> sb_id b = [])) (Errorf ''Sandbox pause requires its exact Session owner''))
   (case box_pause (ex_sandbox e) of None \<Rightarrow> ret () | Some pause \<Rightarrow> pause (ownership_metadata b))"

section \<open>Commands\<close>

record command_result =
  cr_exit :: int
  cr_stdout :: string
  cr_stderr :: string
  cr_truncated :: bool

definition command_result_of :: "exec_result \<Rightarrow> command_result" where
  "command_result_of r =
    \<lparr>cr_exit = xr_exit r, cr_stdout = xr_stdout r, cr_stderr = xr_stderr r, cr_truncated = xr_truncated r\<rparr>"

definition exec_sandbox ::
  "'w externals \<Rightarrow> ('w \<Rightarrow> bool) \<Rightarrow> session \<Rightarrow> sandbox \<Rightarrow> command \<Rightarrow> ('w, command_result) act" where
  \<comment> \<open>\<open>alive\<close>: the context of the caller has not ended when the command returned\<close>
  "exec_sandbox e alive j b c =
    seq (require (sb_session_id b = sess_id j) (Errorf ''Sandbox command requires the exact Session owner''))
   (case validate_command c of Some er \<Rightarrow> fail er | None \<Rightarrow> (\<lambda>w.
      case box_run (ex_sandbox e) (ownership_metadata b)
             \<lparr>rr_args = cm_argv c, rr_stdin = cm_stdin c, rr_timeout = command_timeout c,
              rr_max_output = max_command_output_bytes\<rparr> w of
        ((er, r), v) \<Rightarrow>
          (case er of
             None \<Rightarrow> (Inr (command_result_of (rn_result r)), v)
           | Some x \<Rightarrow>
               if err_is x ErrCommandTimeout \<and> rn_stopped r \<and> alive v then
                 (Inr (command_result_of (rn_result r\<lparr>xr_exit := 124\<rparr>)), v)
               else (Inl x, v))))"

section \<open>Native events\<close>

definition externals_owner :: "'w externals \<Rightarrow> string \<Rightarrow> ('w, ownership) act" where
  "externals_owner e bid =
    (case ex_owner e of None \<Rightarrow> fail (Errorf ''Sandbox ownership resolver is not configured'') | Some f \<Rightarrow> f bid)"

definition native_of :: "'w externals \<Rightarrow> session \<Rightarrow> sandbox \<Rightarrow> 'w native_harness option" where
  "native_of e j b = (if sb_session_id b \<noteq> sess_id j then None else ha_native (ex_agent e))"

definition audio_supported :: "input_capabilities \<Rightarrow> native_attachment \<Rightarrow> bool" where
  "audio_supported caps a =
    (\<not> (att_contents a = [] \<or> ic_max_audio caps < int (length (att_contents a)) \<or>
        audio_media_type (att_contents a) \<notin> set (ic_media_types caps)))"

definition validate_native_audio ::
  "'w native_harness \<Rightarrow> ownership \<Rightarrow> string \<Rightarrow> native_event \<Rightarrow> ('w, unit) act" where
  "validate_native_audio nh owner wanted ev =
    (if \<not> list_ex (\<lambda>a. att_kind a = ''audio'') (ev_attachments ev) then ret ()
     else bnd (nh_capabilities nh owner wanted) (\<lambda>caps.
       seq (require (ic_model caps = wanted)
             (Wrapf ''input capabilities do not match the selected model'' (Sentinel ErrInvalidEvent)))
           (require (list_all (\<lambda>a. att_kind a = ''audio'' \<longrightarrow> audio_supported caps a) (ev_attachments ev))
             (Wrapf ''native audio is not supported for this model or recording'' (Sentinel ErrInvalidEvent)))))"

definition pad2 :: "nat \<Rightarrow> string" where
  "pad2 n = replicate (2 - length (itoa n)) (CHR ''0'') @ itoa n"

definition attachment_path :: "'w externals \<Rightarrow> string \<Rightarrow> nat \<Rightarrow> native_attachment \<Rightarrow> string" where
  "attachment_path e dir i a =
    path_join [box_workspace (ex_sandbox e), ''attachments'', dir, pad2 (Suc i), attachment_basename (att_filename a)]"

definition text_of_octets :: "octets \<Rightarrow> string" where
  "text_of_octets d = map (\<lambda>b. char_of (unat b)) d"

definition index_entry :: "'w externals \<Rightarrow> string \<Rightarrow> nat \<Rightarrow> native_attachment \<Rightarrow> string" where
  "index_entry e dir i a =
    ''- '' @ ex_quote e (att_filename a) @ '': '' @ ex_quote e (attachment_path e dir i a) @ [newline]"

definition add_media :: "native_attachment \<Rightarrow> harness_input \<Rightarrow> harness_input" where
  "add_media a input =
    (if att_kind a = ''audio'' then
       input\<lparr>hi_audio := hi_audio input @ [(audio_media_type (att_contents a), att_contents a)]\<rparr>
     else case native_image (att_contents a) of None \<Rightarrow> input
       | Some m \<Rightarrow> input\<lparr>hi_images := hi_images input @ [(m, att_contents a)]\<rparr>)"

fun attach_files ::
  "'w externals \<Rightarrow> ownership \<Rightarrow> string \<Rightarrow> nat \<Rightarrow> native_attachment list \<Rightarrow> string \<Rightarrow> harness_input \<Rightarrow> ('w, harness_input) act" where
  "attach_files e owner dir i [] index input = ret (input\<lparr>hi_text := hi_text input @ index\<rparr>)"
| "attach_files e owner dir i (a # as) index input =
    seq (write_file_via_exec (ex_script e) (Some (box_exec (ex_sandbox e))) owner (box_workspace (ex_sandbox e))
          (attachment_path e dir i a) (text_of_octets (att_contents a)) False)
        (attach_files e owner dir (Suc i) as (index @ index_entry e dir i a) (add_media a input))"

definition index_heading :: string where
  "index_heading = [newline, newline] @ ''Attached files (original name and local path):'' @ [newline]"

definition native_input ::
  "'w externals \<Rightarrow> err + string \<Rightarrow> ownership \<Rightarrow> native_event \<Rightarrow> ('w, harness_input) act" where
  \<comment> \<open>\<open>nonce\<close>: the hexadecimal name of the directory drawn for the attachments\<close>
  "native_input e nonce owner ev =
    (let input = \<lparr>hi_observation = (ev_type ev = ''input.tool_output''), hi_developer = ev_developer_instructions ev,
                  hi_text = ev_text ev, hi_images = [], hi_audio = []\<rparr> in
     if ev_attachments ev = [] then ret input
     else bnd (lift nonce) (\<lambda>dir. attach_files e owner dir 0 (ev_attachments ev) index_heading input))"

definition submit_event ::
  "'w externals \<Rightarrow> err + string \<Rightarrow> session \<Rightarrow> sandbox \<Rightarrow> native_event \<Rightarrow> bool \<Rightarrow>
    ('w, native_acknowledgement) native_mutation" where
  "submit_event e nonce j b ev unused =
    (case native_of e j b of None \<Rightarrow> Finished (Inl (Sentinel ErrNativeUnavailable))
     | Some nh \<Rightarrow>
         outside (externals_owner e (sb_id b)) (\<lambda>owner.
         outside (validate_native_audio nh owner (model j) ev) (\<lambda>_.
         outside (native_input e nonce owner ev) (\<lambda>input. nh_submit nh owner j ev input unused))))"

definition read_native_turns :: "'w externals \<Rightarrow> session \<Rightarrow> sandbox \<Rightarrow> ('w, harness_history) act" where
  "read_native_turns e j b =
    (case native_of e j b of None \<Rightarrow> fail (Sentinel ErrNativeUnavailable)
     | Some nh \<Rightarrow>
         if thread_id j = [] then ret \<lparr>hist_harness = sess_harness j, hist_thread_id = [], hist_turns = []\<rparr>
         else bnd (externals_owner e (sb_id b)) (\<lambda>owner. nh_turns nh owner (thread_id j)))"

definition externals_idle :: "'w externals \<Rightarrow> session \<Rightarrow> sandbox \<Rightarrow> ('w, bool) act" where
  "externals_idle e j b =
    (case native_of e j b of None \<Rightarrow> fail (Sentinel ErrNativeUnavailable)
     | Some nh \<Rightarrow>
         if thread_id j = [] then ret True
         else bnd (externals_owner e (sb_id b)) (\<lambda>owner.
           bnd (case box_observe (ex_sandbox e) of None \<Rightarrow> ret True
                | Some observe \<Rightarrow> bnd (observe owner) (\<lambda>st. ret (pst_state st = ''running''))) (\<lambda>running.
           if \<not> running then ret False else nh_idle nh owner (thread_id j))))"

definition externals_capabilities :: "'w externals \<Rightarrow> session \<Rightarrow> sandbox \<Rightarrow> ('w, input_capabilities) act" where
  "externals_capabilities e j b =
    (case native_of e j b of None \<Rightarrow> ret \<lparr>ic_model = model j, ic_media_types = [], ic_max_audio = 0\<rparr>
     | Some nh \<Rightarrow> bnd (externals_owner e (sb_id b)) (\<lambda>owner. nh_capabilities nh owner (model j)))"

end
