(* ===== verification/Postgres_Checkpoints.thy ===== *)
theory Postgres_Checkpoints
  imports Postgres_Upgrades
begin

text \<open>
  The checkpoint catalogue (\<open>internal/postgres/checkpoints.go\<close> and \<open>dbsql/checkpoints.sql.go\<close>):
  the execution boundary of a Sandbox, and the publication of a checkpoint only for the boundary
  it was copied at.
\<close>

section \<open>Boundaries and checkpoints\<close>

record capture_boundary =
  cb_session :: string
  cb_sandbox :: string
  cb_resource :: string
  cb_profile :: string
  cb_profile_revision :: string
  cb_upgrade :: string
  cb_last_activity :: "time option"
  cb_revision :: int
  cb_holds :: int
  cb_cleanup :: bool
  cb_eligible :: bool

record snapshot_reference =
  ref_repository :: string
  ref_snapshot :: string

record persisted_checkpoint =
  pc_id :: string
  pc_boundary :: capture_boundary
  pc_reference :: snapshot_reference
  pc_published :: time

definition exact_checkpoint_identity :: "string \<Rightarrow> bool" where
  "exact_checkpoint_identity v = (v \<noteq> [] \<and> length v \<le> 256 \<and> v = trim_space v)"

definition validate_checkpoint :: "capture_boundary \<Rightarrow> snapshot_reference \<Rightarrow> err option" where
  "validate_checkpoint b r =
    (if \<not> list_all exact_checkpoint_identity
          [cb_session b, cb_sandbox b, cb_resource b, cb_profile b, cb_profile_revision b] then
       Some (Errorf ''checkpoint publication requires exact bounded custody identities'')
     else if cb_upgrade b \<noteq> [] \<and> \<not> exact_checkpoint_identity (cb_upgrade b) then
       Some (Errorf ''checkpoint publication has an invalid package generation reference'')
     else if cb_last_activity b = None \<or> cb_revision b < 0 \<or> cb_holds b < 0 \<or> \<not> cb_eligible b then
       Some (Sentinel ErrCheckpointIneligible)
     else if \<not> exact_checkpoint_identity (ref_repository r) \<or> \<not> hex64 (ref_snapshot r) then
       Some (Errorf ''checkpoint publication requires a logical repository and full snapshot identity'')
     else None)"

text \<open>The package generation in effect: the Sandbox's last upgrade that finished without rollback.\<close>

definition finished_at :: "upgrade_row \<Rightarrow> nat \<times> string" where
  "finished_at u = (case u_finished u of None \<Rightarrow> 0 | Some t \<Rightarrow> t, u_id u)"

definition effective_upgrade :: "db \<Rightarrow> string \<Rightarrow> string option" where
  "effective_upgrade d bid =
    map_option u_id (latest_by finished_at
      (filter (\<lambda>u. u_sandbox u = bid \<and> u_finished u \<noteq> None \<and> u_rollback u = None) (upgrades d)))"

definition hold_count :: "db \<Rightarrow> string \<Rightarrow> int" where
  "hold_count d bid = int (count_where (\<lambda>h. h_sandbox h = bid) (holds d))"

definition sandbox_held :: "db \<Rightarrow> string \<Rightarrow> bool" where
  "sandbox_held d bid = list_ex (\<lambda>h. h_sandbox h = bid \<and> h_released h = None) (holds d)"

definition boundary_eligible :: "db \<Rightarrow> bool \<Rightarrow> session_row \<Rightarrow> sandbox_row \<Rightarrow> resource_row \<Rightarrow> bool" where
  "boundary_eligible d cleanup s b r =
    ((s_last_active s \<noteq> None \<or> cleanup) \<and> r_provider r \<noteq> None \<and> r_deleted r = None \<and>
     s_pending_input s = None \<and> s_pending_turn s = None \<and> \<not> sandbox_held d (b_id b) \<and>
     ((\<not> cleanup \<and> s_open s \<and> s_cleanup s = CleanupPending) \<or>
      (cleanup \<and> \<not> s_open s \<and> (s_cleanup s = CleanupRequested \<or> s_cleanup s = CleanupScheduled))))"

definition boundary_row :: "db \<Rightarrow> bool \<Rightarrow> session_row \<Rightarrow> sandbox_row \<Rightarrow> resource_row \<Rightarrow> capture_boundary" where
  "boundary_row d cleanup s b r =
    \<lparr>cb_session = s_id s, cb_sandbox = b_id b, cb_resource = b_active b, cb_profile = s_profile s,
     cb_profile_revision = s_profile_revision s, cb_upgrade = text_of (effective_upgrade d (b_id b)),
     cb_last_activity = Some (case s_last_active s of Some t \<Rightarrow> t | None \<Rightarrow> s_admitted_at s),
     cb_revision = s_revision s, cb_holds = hold_count d (b_id b), cb_cleanup = cleanup,
     cb_eligible = boundary_eligible d cleanup s b r\<rparr>"

definition find_boundary :: "db \<Rightarrow> bool \<Rightarrow> string \<Rightarrow> capture_boundary option" where
  "find_boundary d cleanup bid =
    (case sandbox_of d bid of None \<Rightarrow> None | Some b \<Rightarrow>
     case session_of d (b_session b) of None \<Rightarrow> None | Some s \<Rightarrow>
     case resource_of d (b_active b) of None \<Rightarrow> None | Some r \<Rightarrow>
       if r_sandbox r = bid then Some (boundary_row d cleanup s b r) else None)"

definition q_get_boundary :: "string \<Rightarrow> bool \<Rightarrow> (db, capture_boundary) act" where
  "q_get_boundary bid cleanup =
    bnd (gets (\<lambda>d. find_boundary d cleanup bid)) (\<lambda>r. the_row r (Sentinel ErrNoRows))"

definition store_boundary :: "string \<Rightarrow> bool \<Rightarrow> (db, capture_boundary) act" where
  "store_boundary bid cleanup =
    seq (require (exact_checkpoint_identity bid) (Errorf ''checkpoint boundary requires an exact bounded Sandbox ID''))
        (no_rows_as (Sentinel ErrNotFound) (q_get_boundary bid cleanup))"

definition checkpoint_value :: "string \<Rightarrow> checkpoint_row \<Rightarrow> persisted_checkpoint" where
  "checkpoint_value sid c =
    \<lparr>pc_id = c_id c,
     pc_boundary = \<lparr>cb_session = sid, cb_sandbox = c_sandbox c, cb_resource = c_resource c, cb_profile = c_profile c,
       cb_profile_revision = c_profile_revision c, cb_upgrade = text_of (c_upgrade c),
       cb_last_activity = Some (c_last_activity c), cb_revision = c_revision c, cb_holds = c_holds c,
       cb_cleanup = c_cleanup c, cb_eligible = True\<rparr>,
     pc_reference = \<lparr>ref_repository = c_repository c, ref_snapshot = c_snapshot c\<rparr>,
     pc_published = c_published c\<rparr>"

definition checkpoint_joined :: "db \<Rightarrow> checkpoint_row \<Rightarrow> persisted_checkpoint option" where
  \<comment> \<open>the inner join with the Sandbox\<close>
  "checkpoint_joined d c = map_option (\<lambda>b. checkpoint_value (b_session b) c) (sandbox_of d (c_sandbox c))"

definition checkpoint_at :: "db \<Rightarrow> snapshot_reference \<Rightarrow> checkpoint_row option" where
  "checkpoint_at d r =
    row_of (\<lambda>c. (c_repository c, c_snapshot c)) (ref_repository r, ref_snapshot r) (checkpoints d)"

definition find_checkpoint :: "db \<Rightarrow> snapshot_reference \<Rightarrow> persisted_checkpoint option" where
  "find_checkpoint d r = (case checkpoint_at d r of None \<Rightarrow> None | Some c \<Rightarrow> checkpoint_joined d c)"

definition q_checkpoint_by_reference :: "snapshot_reference \<Rightarrow> (db, persisted_checkpoint) act" where
  "q_checkpoint_by_reference r = bnd (gets (\<lambda>d. find_checkpoint d r)) (\<lambda>x. the_row x (Sentinel ErrNoRows))"

definition next_sequence :: "checkpoint_row list \<Rightarrow> nat" where
  \<comment> \<open>a value of the identity column above every one in use\<close>
  "next_sequence cs = Suc (fold max (map c_sequence cs) 0)"

definition upgrade_of :: "db \<Rightarrow> string \<Rightarrow> string \<Rightarrow> bool" where
  "upgrade_of d bid uid = list_ex (\<lambda>u. u_id u = uid \<and> u_sandbox u = bid) (upgrades d)"

definition q_insert_checkpoint :: "string \<Rightarrow> string \<Rightarrow> capture_boundary \<Rightarrow> snapshot_reference \<Rightarrow> (db, nat) act" where
  \<comment> \<open>\<open>uuid\<close> is the identity the database generates when the caller names none\<close>
  "q_insert_checkpoint uuid cid b r = (\<lambda>d.
    if \<not> (1 \<le> rune_count (ref_repository r) \<and> rune_count (ref_repository r) \<le> 256 \<and>
          \<not> has_prefix (ref_repository r) '' '' \<and> \<not> has_suffix (ref_repository r) '' '' \<and> hex64 (ref_snapshot r) \<and>
          0 \<le> cb_revision b \<and> cb_revision b \<le> max_int64 \<and> 0 \<le> cb_holds b) then
      (Inl (check_violation ''sandbox_checkpoints_check''), d)
    else if list_ex (\<lambda>c. c_id c = (if cid = [] then uuid else cid) \<or>
          (c_repository c = ref_repository r \<and> c_snapshot c = ref_snapshot r)) (checkpoints d) then (Inr 0, d)
    else if \<not> owns_resource d (cb_sandbox b) (cb_resource b) \<or>
          revision_of d (cb_profile b) (cb_profile_revision b) = None \<or>
          (cb_upgrade b \<noteq> [] \<and> \<not> upgrade_of d (cb_sandbox b) (cb_upgrade b)) then
      (Inl (foreign_key_violation ''sandbox_checkpoints''), d)
    else (Inr 1, checkpoints_update (add_row
      \<lparr>c_id = (if cid = [] then uuid else cid), c_repository = ref_repository r, c_snapshot = ref_snapshot r,
       c_sandbox = cb_sandbox b, c_resource = cb_resource b, c_profile = cb_profile b,
       c_profile_revision = cb_profile_revision b, c_upgrade = nullif_empty (cb_upgrade b),
       c_last_activity = (case cb_last_activity b of None \<Rightarrow> 0 | Some t \<Rightarrow> t), c_revision = cb_revision b,
       c_holds = cb_holds b, c_cleanup = cb_cleanup b, c_published = now d,
       c_sequence = next_sequence (checkpoints d)\<rparr>) d))"

definition check_current_boundary :: "capture_boundary \<Rightarrow> (db, unit) act" where
  "check_current_boundary expected =
    bnd (q_get_boundary (cb_sandbox expected) (cb_cleanup expected)) (\<lambda>current.
    seq (require (current = expected) (Sentinel ErrCheckpointSuperseded))
        (require (cb_eligible current) (Sentinel ErrCheckpointIneligible)))"

definition same_checkpoint :: "capture_boundary \<Rightarrow> snapshot_reference \<Rightarrow> persisted_checkpoint \<Rightarrow> bool" where
  "same_checkpoint b r c = (pc_boundary c = b \<and> pc_reference c = r)"

definition publish_checkpoint ::
  "string \<Rightarrow> capture_boundary \<Rightarrow> snapshot_reference \<Rightarrow> string \<Rightarrow> bool \<Rightarrow> (db, persisted_checkpoint) act" where
  "publish_checkpoint uuid expected r cid require_current =
    (case validate_checkpoint expected r of Some e \<Rightarrow> fail e | None \<Rightarrow>
     tx (bnd (q_session_admission (cb_session expected)) (\<lambda>_.
         bnd (attempt (q_checkpoint_by_reference r)) (\<lambda>stored. case stored of
           Inr c \<Rightarrow>
             seq (require (same_checkpoint expected r c)
                   (Errorf ''checkpoint reference already records a different execution boundary''))
            (ret c)
         | Inl e \<Rightarrow>
             if \<not> err_is e ErrNoRows then fail e else
             seq (if require_current then check_current_boundary expected else ret ())
            (bnd (q_insert_checkpoint uuid cid expected r) (\<lambda>_.
             bnd (q_checkpoint_by_reference r) (\<lambda>c.
             seq (require (same_checkpoint expected r c)
                   (Errorf ''checkpoint reference already records a different execution boundary''))
            (ret c))))))))"

definition checkpoint_position :: "checkpoint_row \<Rightarrow> int \<times> nat" where
  "checkpoint_position c = (c_revision c, c_sequence c)"

definition last_checkpoint :: "string \<Rightarrow> (db, persisted_checkpoint) act" where
  "last_checkpoint bid =
    seq (require (exact_checkpoint_identity bid) (Errorf ''last checkpoint requires an exact bounded Sandbox ID''))
   (bnd (gets (\<lambda>d. case latest_by checkpoint_position (filter (\<lambda>c. c_sandbox c = bid) (checkpoints d)) of
       None \<Rightarrow> None | Some c \<Rightarrow> checkpoint_joined d c)) (\<lambda>x.
    the_row x (Sentinel ErrCheckpointNotFound)))"

definition list_checkpoints :: "string \<Rightarrow> (db, persisted_checkpoint list) act" where
  "list_checkpoints bid =
    seq (require (exact_checkpoint_identity bid) (Errorf ''checkpoint history requires an exact bounded Sandbox ID''))
        (gets (\<lambda>d. List.map_filter (checkpoint_joined d)
          (rev (sort_key checkpoint_position (filter (\<lambda>c. c_sandbox c = bid) (checkpoints d))))))"

definition checkpoint_by_id :: "string \<Rightarrow> (db, persisted_checkpoint) act" where
  "checkpoint_by_id cid =
    bnd (gets (\<lambda>d. case row_of c_id cid (checkpoints d) of None \<Rightarrow> None | Some c \<Rightarrow> checkpoint_joined d c)) (\<lambda>x.
    the_row x (Sentinel ErrCheckpointNotFound))"

text \<open>Idle Sandboxes whose present boundary is not their last checkpoint.\<close>

definition already_published :: "db \<Rightarrow> session_row \<Rightarrow> sandbox_row \<Rightarrow> bool" where
  "already_published d s b =
    (case latest_by checkpoint_position (filter (\<lambda>c. c_sandbox c = b_id b) (checkpoints d)) of
       None \<Rightarrow> False
     | Some c \<Rightarrow>
         c_resource c = b_active b \<and> c_profile c = s_profile s \<and> c_profile_revision c = s_profile_revision s \<and>
         c_upgrade c = effective_upgrade d (b_id b) \<and> Some (c_last_activity c) = s_last_active s \<and>
         c_revision c = s_revision s \<and> c_holds c = hold_count d (b_id b) \<and> \<not> c_cleanup c)"

definition idle_candidate :: "db \<Rightarrow> int \<Rightarrow> sandbox_row \<Rightarrow> (nat \<times> string) option" where
  "idle_candidate d secs b =
    (case (session_of d (b_session b), resource_of d (b_active b)) of
       (Some s, Some r) \<Rightarrow>
         (case s_last_active s of None \<Rightarrow> None
          | Some t \<Rightarrow>
              if r_sandbox r = b_id b \<and> s_open s \<and> s_cleanup s = CleanupPending \<and> int t \<le> int (now d) - secs \<and>
                 r_provider r \<noteq> None \<and> r_deleted r = None \<and> 0 < s_revision s \<and> s_pending_input s = None \<and>
                 s_pending_turn s = None \<and> \<not> sandbox_held d (b_id b) \<and> \<not> already_published d s b
              then Some (t, b_id b) else None)
     | _ \<Rightarrow> None)"

definition q_idle_checkpoint_sandboxes :: "int \<Rightarrow> (db, string list) act" where
  "q_idle_checkpoint_sandboxes secs = gets (\<lambda>d.
    take 100 (map snd (sort (List.map_filter (idle_candidate d secs) (sandboxes d)))))"

fun candidates_of :: "int \<Rightarrow> string list \<Rightarrow> (db, capture_boundary list) act" where
  \<comment> \<open>\<open>since\<close> is the worker's clock less the idle duration\<close>
  "candidates_of since [] = ret []"
| "candidates_of since (i # is) =
     bnd (store_boundary i False) (\<lambda>b.
     if \<not> cb_eligible b \<or> cb_revision b = 0 \<or> since < int (case cb_last_activity b of None \<Rightarrow> 0 | Some t \<Rightarrow> t)
     then candidates_of since is
     else bnd (attempt (last_checkpoint i)) (\<lambda>l. case l of
         Inl e \<Rightarrow>
           if err_is e ErrCheckpointNotFound then bnd (candidates_of since is) (\<lambda>bs. ret (b # bs)) else fail e
       | Inr c \<Rightarrow>
           bnd (candidates_of since is) (\<lambda>bs. ret (if pc_boundary c \<noteq> b then b # bs else bs))))"

definition list_checkpoint_candidates :: "int \<Rightarrow> int \<Rightarrow> (db, capture_boundary list) act" where
  "list_checkpoint_candidates clock_now idle_for =
    seq (require (0 \<le> idle_for) (Errorf ''checkpoint idle duration cannot be negative''))
   (bnd (q_idle_checkpoint_sandboxes idle_for) (candidates_of (clock_now - idle_for)))"

section \<open>The catalogue keeps the invariants\<close>

lemma keeps_get_boundary [keeps_intros]: "keeps I (q_get_boundary bid c)"
  unfolding q_get_boundary_def by (intro keeps_intros)

lemma keeps_store_boundary [keeps_intros]: "keeps I (store_boundary bid c)"
  unfolding store_boundary_def by (intro keeps_intros)

lemma keeps_checkpoint_by_reference [keeps_intros]: "keeps I (q_checkpoint_by_reference r)"
  unfolding q_checkpoint_by_reference_def by (intro keeps_intros)

lemma keeps_last_checkpoint [keeps_intros]: "keeps I (last_checkpoint bid)"
  unfolding last_checkpoint_def by (intro keeps_intros)

lemma keeps_candidates [keeps_intros]: "keeps I (candidates_of since is)"
  by (induction "is") (auto intro!: keeps_intros)

lemma keeps_list_candidates [keeps_intros]: "keeps I (list_checkpoint_candidates n k)"
  unfolding list_checkpoint_candidates_def q_idle_checkpoint_sandboxes_def by (intro keeps_intros)

lemma fold_max_ge: "(m::nat) \<le> fold max xs m"
  by (induction xs arbitrary: m) (auto intro: le_trans [OF max.cobounded2])

lemma fold_max_upper: "x \<in> set xs \<Longrightarrow> (x::nat) \<le> fold max xs m"
proof (induction xs arbitrary: m)
  case (Cons y ys)
  show ?case
  proof (cases "x = y")
    case True
    have "y \<le> max y m" by simp
    also have "\<dots> \<le> fold max ys (max y m)" by (rule fold_max_ge)
    finally show ?thesis using True by simp
  qed (use Cons in simp)
qed simp

lemma next_sequence_new: "c \<in> set cs \<Longrightarrow> c_sequence c < next_sequence cs"
  using fold_max_upper [of "c_sequence c" "map c_sequence cs" 0] by (simp add: next_sequence_def)

lemma keeps_insert_checkpoint [keeps_intros]: "keeps db_inv (q_insert_checkpoint uuid cid b r)"
proof (rule keepsI)
  fix d assume inv: "db_inv d"
  have new: "c \<in> set (checkpoints d) \<Longrightarrow> c_sequence c \<noteq> next_sequence (checkpoints d)" for c
    using next_sequence_new [of c "checkpoints d"] by simp
  show "wp (q_insert_checkpoint uuid cid b r) (\<lambda>_. db_inv) (\<lambda>_. db_inv) d"
    using inv by (auto simp: wp_def q_insert_checkpoint_def db_inv_def checkpoints_ok_def list_ex_iff dest: new)
qed

lemma keeps_publish_checkpoint [keeps_intros]: "keeps db_inv (publish_checkpoint uuid b r cid cur)"
  unfolding publish_checkpoint_def check_current_boundary_def by (intro keeps_intros)

section \<open>What a publication certifies\<close>

lemma wp_session_admission:
  "wp (q_session_admission sid) Q E d =
    (case find_session d sid of None \<Rightarrow> E (Sentinel ErrNoRows) d
     | Some j \<Rightarrow> Q \<lparr>sa_open = admission_open j, sa_cleanup = cleanup_state j, sa_harness = sess_harness j,
         sa_thread = thread_id j\<rparr> d)"
  by (simp add: q_session_admission_def q_get_session_def wp_simps split: option.split)

definition published :: "db \<Rightarrow> capture_boundary \<Rightarrow> snapshot_reference \<Rightarrow> bool \<Rightarrow> persisted_checkpoint \<Rightarrow> db \<Rightarrow> bool" where
  \<comment> \<open>the catalogue holds the checkpoint; a new one was current when that was required\<close>
  "published d b r cur c e =
    (same_checkpoint b r c \<and> find_checkpoint e r = Some c \<and>
     (find_checkpoint d r = None \<and> cur \<longrightarrow> find_boundary d (cb_cleanup b) (cb_sandbox b) = Some b))"

lemma publish_result: "wp (publish_checkpoint uuid b r cid cur) (published d b r cur) (\<lambda>_ _. True) d"
proof -
  have add: "wp (bnd (q_insert_checkpoint uuid cid b r) (\<lambda>_. bnd (q_checkpoint_by_reference r) (\<lambda>c.
       seq (require (same_checkpoint b r c) (Errorf ''checkpoint reference already records a different execution boundary''))
      (ret c)))) (published d b r cur) (\<lambda>_ _. True) d"
    if "cur \<Longrightarrow> find_boundary d (cb_cleanup b) (cb_sandbox b) = Some b"
    unfolding wp_bnd
    by (rule wp_of_result) (auto simp: q_checkpoint_by_reference_def wp_simps published_def that split: option.split)
  show ?thesis
  proof (cases "find_checkpoint d r")
    case None
    with add show ?thesis
      by (cases "validate_checkpoint b r"; cases "find_session d (cb_session b)";
          cases "find_boundary d (cb_cleanup b) (cb_sandbox b)"; cases cur)
        (auto simp: publish_checkpoint_def wp_simps wp_session_admission q_checkpoint_by_reference_def
          check_current_boundary_def q_get_boundary_def)
  next
    case (Some c)
    then show ?thesis
      by (auto simp: publish_checkpoint_def wp_simps wp_session_admission q_checkpoint_by_reference_def published_def
          split: option.split)
  qed
qed

end
