(* ===== verification/Postgres_Recovery.thy ===== *)
theory Postgres_Recovery
  imports Postgres_Checkpoints
begin

text \<open>
  Custody of checkpoint recoveries and branches (\<open>internal/postgres/recovery.go\<close>,
  \<open>branches.go\<close>, \<open>dbsql/recovery.sql.go\<close>, \<open>dbsql/branches.sql.go\<close>, and the requests of
  \<open>internal/persistence\<close>). A recovery moves a Sandbox to a replacement resource restored from
  a checkpoint; a branch admits a new Session from one. Both hold delivery until verified.
\<close>

section \<open>Recovery requests and receipts\<close>

definition exact_within :: "nat \<Rightarrow> string \<Rightarrow> bool" where
  "exact_within n v = (\<not> (v = [] \<or> v \<noteq> trim_space v \<or> length v > n))"

record recovery_request =
  rq_id :: string
  rq_session :: string
  rq_sandbox :: string
  rq_repository :: string
  rq_snapshot :: string

definition validate_recovery_request :: "recovery_request \<Rightarrow> err option" where
  "validate_recovery_request r =
    (if \<not> list_all (exact_within 256) [rq_id r, rq_session r, rq_sandbox r, rq_repository r] then
       Some (Errorf ''recovery requires exact bounded identities'')
     else if length (rq_id r) > 200 then Some (Errorf ''recovery identity must be at most 200 characters'')
     else if \<not> hex64 (rq_snapshot r) then Some (Errorf ''recovery requires an exact snapshot ID'')
     else None)"

record effective_package =
  pk_upgrade :: string
  pk_path :: string
  pk_version :: string

record recovery_receipt =
  rv_request :: recovery_request
  rv_checkpoint :: persisted_checkpoint
  rv_source :: string
  rv_source_provider :: string
  rv_destination :: string
  rv_destination_provider :: string
  rv_package :: effective_package
  rv_requested :: time
  rv_verified :: "time option"
  rv_source_deleted :: "time option"
  rv_destination_deleted :: "time option"
  rv_finished :: "time option"

definition recovery_reference :: "recovery_row \<Rightarrow> snapshot_reference" where
  "recovery_reference v = \<lparr>ref_repository = v_repository v, ref_snapshot = v_snapshot v\<rparr>"

definition package_of :: "db \<Rightarrow> string option \<Rightarrow> effective_package" where
  "package_of d uid =
    (case uid of None \<Rightarrow> \<lparr>pk_upgrade = [], pk_path = [], pk_version = []\<rparr>
     | Some i \<Rightarrow> (case row_of u_id i (upgrades d) of
           None \<Rightarrow> \<lparr>pk_upgrade = i, pk_path = [], pk_version = []\<rparr>
         | Some u \<Rightarrow> \<lparr>pk_upgrade = i, pk_path = u_path u, pk_version = u_version u\<rparr>))"

definition recovery_receipt_of ::
  "db \<Rightarrow> recovery_row \<Rightarrow> sandbox_row \<Rightarrow> resource_row \<Rightarrow> checkpoint_row \<Rightarrow> recovery_receipt" where
  "recovery_receipt_of d v b src c =
    \<lparr>rv_request = \<lparr>rq_id = v_id v, rq_session = b_session b, rq_sandbox = v_sandbox v,
       rq_repository = v_repository v, rq_snapshot = v_snapshot v\<rparr>,
     rv_checkpoint = checkpoint_value (b_session b) (c\<lparr>c_id := [], c_sandbox := v_sandbox v\<rparr>),
     rv_source = v_source v, rv_source_provider = text_of (r_provider src),
     rv_destination = v_destination v, rv_destination_provider = provider_of d (v_destination v),
     rv_package = package_of d (c_upgrade c), rv_requested = v_requested v, rv_verified = v_verified v,
     rv_source_deleted = r_deleted src,
     rv_destination_deleted = (case resource_of d (v_destination v) of None \<Rightarrow> None | Some r \<Rightarrow> r_deleted r),
     rv_finished = v_finished v\<rparr>"

definition recovery_joined :: "db \<Rightarrow> recovery_row \<Rightarrow> recovery_receipt option" where
  "recovery_joined d v =
    (case (sandbox_of d (v_sandbox v), resource_of d (v_source v), checkpoint_at d (recovery_reference v)) of
       (Some b, Some src, Some c) \<Rightarrow> Some (recovery_receipt_of d v b src c)
     | _ \<Rightarrow> None)"

definition find_recovery :: "db \<Rightarrow> string \<Rightarrow> recovery_receipt option" where
  "find_recovery d i = (case row_of v_id i (recoveries d) of None \<Rightarrow> None | Some v \<Rightarrow> recovery_joined d v)"

definition q_get_recovery :: "string \<Rightarrow> (db, recovery_receipt) act" where
  "q_get_recovery i = bnd (gets (\<lambda>d. find_recovery d i)) (\<lambda>x. the_row x (Sentinel ErrNoRows))"

definition session_recoveries :: "string \<Rightarrow> (db, recovery_receipt list) act" where
  "session_recoveries sid = gets (\<lambda>d.
    filter (\<lambda>r. rq_session (rv_request r) = sid) (List.map_filter (recovery_joined d)
      (sort_key (\<lambda>v. (v_requested v, v_id v)) (recoveries d))))"

section \<open>Requesting a recovery\<close>

definition replay_recovery :: "recovery_request \<Rightarrow> (db, recovery_receipt option) act" where
  "replay_recovery r =
    bnd (attempt (q_get_recovery (rq_id r))) (\<lambda>got. case got of
       Inl e \<Rightarrow> if err_is e ErrNoRows then ret None else fail e
     | Inr old \<Rightarrow>
         seq (require (rv_request old = r) (Errorf ''recovery identity already has different input''))
             (ret (Some old)))"

definition authorize_recovery_request :: "recovery_request \<Rightarrow> (db, sandbox) act" where
  "authorize_recovery_request r =
    bnd (q_get_session (rq_session r)) (\<lambda>j.
    bnd (no_rows_as (Sentinel ErrCheckpointNotFound)
          (q_checkpoint_by_reference \<lparr>ref_repository = rq_repository r, ref_snapshot = rq_snapshot r\<rparr>)) (\<lambda>c.
    seq (require (cb_session (pc_boundary c) = rq_session r \<and> cb_sandbox (pc_boundary c) = rq_sandbox r)
          (Errorf ''checkpoint belongs to a different Session Sandbox''))
   (seq (require (cb_profile (pc_boundary c) = sess_profile j \<and>
                  cb_profile_revision (pc_boundary c) = sess_profile_revision j)
          (Errorf ''checkpoint requires a different Sandbox profile revision''))
   (bnd (q_get_sandbox (rq_sandbox r)) (\<lambda>owned.
    seq (require (sb_provider_id owned \<noteq> []) (Errorf ''checkpoint recovery requires retained source custody''))
        (ret owned))))))"

definition q_insert_recovery :: "recovery_request \<Rightarrow> string \<Rightarrow> string \<Rightarrow> (db, unit) act" where
  "q_insert_recovery r source destination = (\<lambda>d.
    insert_tbl recoveries_update
      (\<lambda>d. first_violation
        [(destination = source, check_violation ''recoveries_distinct''),
         (list_ex (\<lambda>v. v_id v = rq_id r) (recoveries d), unique_violation ''sandbox_recoveries_pkey''),
         (list_ex (\<lambda>v. v_sandbox v = rq_sandbox r \<and> v_finished v = None) (recoveries d),
            unique_violation ''sandbox_recoveries_one_unfinished''),
         (\<not> list_ex (\<lambda>h. h_id h = rq_id r) (holds d), foreign_key_violation ''recoveries_hold''),
         (checkpoint_at d \<lparr>ref_repository = rq_repository r, ref_snapshot = rq_snapshot r\<rparr> = None,
            foreign_key_violation ''recoveries_checkpoint''),
         (\<not> owns_resource d (rq_sandbox r) source \<or> \<not> owns_resource d (rq_sandbox r) destination,
            foreign_key_violation ''recoveries_resource'')])
      \<lparr>v_id = rq_id r, v_sandbox = rq_sandbox r, v_repository = rq_repository r, v_snapshot = rq_snapshot r,
       v_source = source, v_destination = destination, v_requested = now d, v_verified = None,
       v_finished = None\<rparr> d)"

definition insert_recovery_request :: "err + string \<Rightarrow> recovery_request \<Rightarrow> string \<Rightarrow> (db, unit) act" where
  "insert_recovery_request nonce r source =
    seq (q_insert_delivery_hold (rq_id r) (rq_sandbox r) ''checkpoint_recovery'')
   (bnd (lift nonce) (\<lambda>n.
    seq (q_reserve_resource (replacement_resource_id (rq_id r)) (rq_sandbox r) n)
        (q_insert_recovery r source (replacement_resource_id (rq_id r)))))"

definition recovery_cause :: "string \<Rightarrow> string" where
  "recovery_cause i = ''recovery:'' @ i"

definition request_checkpoint_recovery ::
  "absurd_env \<Rightarrow> err + string \<Rightarrow> string \<Rightarrow> recovery_request \<Rightarrow> (db, recovery_receipt) act" where
  "request_checkpoint_recovery env nonce qn r =
    (case validate_recovery_request r of Some e \<Rightarrow> fail e | None \<Rightarrow>
     with_delivery_hold (rq_session r) (rq_sandbox r) (rq_id r) (\<lambda>j.
       bnd (replay_recovery r) (\<lambda>old. case old of
         Some x \<Rightarrow> ret x
       | None \<Rightarrow>
           seq (require (sa_open j \<and> sa_cleanup j = CleanupPending) (Errorf ''checkpoint recovery requires an open direct Session''))
          (bnd (authorize_recovery_request r) (\<lambda>owned.
           seq (require_sandbox_unheld (rq_sandbox r))
          (seq (insert_recovery_request nonce r (sb_resource_id owned))
          (bnd (signal_session_wake env qn (rq_session r) (recovery_cause (rq_id r))) (\<lambda>_.
           q_get_recovery (rq_id r)))))))))"

section \<open>Recording and releasing a recovery\<close>

definition q_native_state_safe :: "string \<Rightarrow> int \<Rightarrow> (db, bool) act" where
  "q_native_state_safe bid n =
    bnd (gets (\<lambda>d. case sandbox_of d bid of None \<Rightarrow> None
      | Some b \<Rightarrow> map_option (\<lambda>s. s_revision s = n \<and> s_pending_input s = None \<and> s_pending_turn s = None)
                    (session_of d (b_session b))))
    (\<lambda>r. the_row r (Sentinel ErrNoRows))"

definition recovery_native_state_safe :: "recovery_receipt \<Rightarrow> (db, bool) act" where
  "recovery_native_state_safe r =
    seq (require (\<not> (rq_sandbox (rv_request r) = [] \<or> cb_revision (pc_boundary (rv_checkpoint r)) < 0))
          (Errorf ''recovery safety requires an exact checkpoint boundary''))
        (q_native_state_safe (rq_sandbox (rv_request r)) (cb_revision (pc_boundary (rv_checkpoint r))))"

definition record_recovery_restored :: "recovery_receipt \<Rightarrow> string \<Rightarrow> (db, unit) act" where
  "record_recovery_restored r pid =
    seq (require (\<not> (pid = [] \<or> pid \<noteq> trim_space pid)) (Errorf ''recovery omitted provider resource identity''))
        (expect_one_rows (q_bind_recovered_resource (rv_destination r) pid))"

definition q_recovery_verified :: "string \<Rightarrow> (db, nat) act" where
  "q_recovery_verified i = (\<lambda>d.
    update_tbl recoveries recoveries_update (\<lambda>v. v_id v = i) (\<lambda>v. v\<lparr>v_verified := stamp (v_verified v) d\<rparr>) d)"

definition record_recovery_verified :: "string \<Rightarrow> (db, unit) act" where
  "record_recovery_verified i = expect_one_rows (q_recovery_verified i)"

definition q_recovery_finished :: "string \<Rightarrow> (db, nat) act" where
  "q_recovery_finished i = (\<lambda>d.
    update_tbl recoveries recoveries_update (\<lambda>v. v_id v = i \<and> v_verified v \<noteq> None)
      (\<lambda>v. v\<lparr>v_finished := stamp (v_finished v) d\<rparr>) d)"

definition abandonable :: "db \<Rightarrow> string \<Rightarrow> hold_row \<Rightarrow> bool" where
  "abandonable d i h =
    (h_id h = i \<and> h_reason h = ''checkpoint_recovery'' \<and>
     (case row_of v_id i (recoveries d) of None \<Rightarrow> False | Some v \<Rightarrow>
      case sandbox_of d (v_sandbox v) of None \<Rightarrow> False | Some b \<Rightarrow>
      case session_of d (b_session b) of None \<Rightarrow> False | Some s \<Rightarrow>
        h_sandbox h = b_id b \<and> v_finished v = None \<and> b_active b = v_source v \<and>
        (case resource_of d (v_destination v) of None \<Rightarrow> False | Some r \<Rightarrow> r_deleted r \<noteq> None) \<and>
        \<not> s_open s \<and> s_cleanup s = CleanupScheduled))"

definition q_abandon_recovery :: "string \<Rightarrow> (db, nat) act" where
  "q_abandon_recovery i = (\<lambda>d.
    update_tbl holds holds_update (abandonable d i)
      (\<lambda>h. h\<lparr>h_released := coalesce (h_released h) (Some (now d))\<rparr>) d)"

definition abandon_recovery_for_cleanup :: "recovery_receipt \<Rightarrow> (db, unit) act" where
  "abandon_recovery_for_cleanup r =
    bnd (q_quiescent (rq_sandbox (rv_request r))) (\<lambda>quiet.
    seq (require quiet (Errorf ''native delivery is not quiescent''))
        (expect_one_rows (q_abandon_recovery (rq_id (rv_request r)))))"

definition authorize_recovery_release :: "string \<Rightarrow> string \<Rightarrow> recovery_receipt \<Rightarrow> (db, unit) act" where
  "authorize_recovery_release profile revision r =
    bnd (q_get_delivery_hold (rq_id (rv_request r))) (\<lambda>h.
    seq (require (\<not> (h_sandbox h \<noteq> rq_sandbox (rv_request r) \<or> h_reason h \<noteq> ''checkpoint_recovery'' \<or>
                    h_released h \<noteq> None \<or> rv_verified r = None \<or> rv_source_deleted r = None))
          (Errorf ''recovery requires its held verified receipt''))
   (seq (require (cb_profile (pc_boundary (rv_checkpoint r)) = profile \<and>
                  cb_profile_revision (pc_boundary (rv_checkpoint r)) = revision)
          (Errorf ''recovery profile revision changed''))
   (bnd (q_native_state_safe (rq_sandbox (rv_request r)) (cb_revision (pc_boundary (rv_checkpoint r)))) (\<lambda>safe.
    seq (require safe (Errorf ''native work exists beyond the selected checkpoint''))
        (require (rv_destination_provider r \<noteq> [] \<and> rv_destination_deleted r = None)
          (Errorf ''recovery destination is not available''))))))"

definition recovery_finished_cause :: "string \<Rightarrow> string" where
  "recovery_finished_cause i = ''recovery-finished:'' @ i"

definition switch_and_release_recovery :: "absurd_env \<Rightarrow> string \<Rightarrow> recovery_receipt \<Rightarrow> (db, unit) act" where
  "switch_and_release_recovery env qn r =
    (let i = rq_id (rv_request r); bid = rq_sandbox (rv_request r) in
     seq (expect_one_rows (q_switch_sandbox_resource bid (rv_source r) (rv_destination r)))
    (seq (expect_one_rows (q_recovery_finished i))
    (seq (expect_one_rows (q_release_delivery_hold i bid))
    (bnd (signal_session_wake env qn (rq_session (rv_request r)) (recovery_finished_cause i)) (\<lambda>_. ret ())))))"

definition finish_checkpoint_recovery :: "absurd_env \<Rightarrow> string \<Rightarrow> recovery_receipt \<Rightarrow> (db, unit) act" where
  "finish_checkpoint_recovery env qn expected =
    tx (bnd (q_session_admission (rq_session (rv_request expected))) (\<lambda>j.
        seq (require (sa_open j \<and> sa_cleanup j = CleanupPending) (Errorf ''recovery release requires open admission''))
       (bnd (q_get_session (rq_session (rv_request expected))) (\<lambda>full.
        bnd (q_get_recovery (rq_id (rv_request expected))) (\<lambda>r.
        seq (require (rv_request r = rv_request expected \<and> rv_source r = rv_source expected \<and>
                      rv_destination r = rv_destination expected) (Errorf ''recovery custody changed''))
       (if rv_finished r \<noteq> None then ret ()
        else seq (authorize_recovery_release (sess_profile full) (sess_profile_revision full) r)
                 (switch_and_release_recovery env qn r)))))))"

section \<open>Opening and releasing a held operation\<close>

text \<open>
  The hold of an operation is inserted first and the operation's own row last, in one transaction.
\<close>

definition held_for :: "string \<Rightarrow> string \<Rightarrow> string \<Rightarrow> db \<Rightarrow> bool" where
  "held_for i bid why d =
    list_ex (\<lambda>h. h_id h = i \<and> h_sandbox h = bid \<and> h_reason h = why \<and> h_released h = None) (holds d)"

definition opened_by :: "string \<Rightarrow> string \<Rightarrow> string \<Rightarrow> db \<Rightarrow> bool" where
  "opened_by i bid why d = (db_inv d \<and> held_for i bid why d)"

lemma opening_inv: "opened_by i bid why d \<Longrightarrow> db_inv d"
  by (simp add: opened_by_def)

lemma held_op: "held_for i bid why d \<Longrightarrow> op_held ss bs (holds d) (i, bid, why, x)"
  by (auto simp: held_for_def list_ex_iff intro: op_heldI)

lemma keeps_opening:
  assumes "\<And>d. opened_by i bid why d \<Longrightarrow> wp rest (\<lambda>_. db_inv) (\<lambda>_. db_inv) d"
  shows "keeps db_inv (seq (q_insert_delivery_hold i bid why) rest)"
proof (rule keepsI)
  fix d assume inv: "db_inv d"
  have "wp (q_insert_delivery_hold i bid why) (\<lambda>_. held_for i bid why) (\<lambda>_ _. True) d"
    by (simp add: q_insert_delivery_hold_def wp_simps held_for_def list_ex_iff split: option.split)
  with keepsD [OF keeps_insert_hold inv]
  have "wp (q_insert_delivery_hold i bid why) (\<lambda>_. opened_by i bid why) (\<lambda>_. db_inv) d"
    by (rule wp_both) (simp_all add: opened_by_def)
  then show "wp (seq (q_insert_delivery_hold i bid why) rest) (\<lambda>_. db_inv) (\<lambda>_. db_inv) d"
    unfolding wp_seq by (rule wp_mono) (simp_all add: assms)
qed

lemma keeps_opening_reserve:
  assumes "rid \<noteq> []"
  shows "keeps (opened_by i bid why) (q_reserve_resource rid b n)"
proof (rule keepsI)
  fix d assume d: "opened_by i bid why d"
  have "wp (q_reserve_resource rid b n) (\<lambda>_. held_for i bid why) (\<lambda>_. held_for i bid why) d"
    using d by (simp add: q_reserve_resource_def wp_simps held_for_def opened_by_def split: option.split)
  with keepsD [OF keeps_reserve_resource [OF assms] opening_inv [OF d]]
  show "wp (q_reserve_resource rid b n) (\<lambda>_. opened_by i bid why) (\<lambda>_. opened_by i bid why) d"
    by (rule wp_both) (simp_all add: opened_by_def)
qed

lemma pending_ops_add:
  "set (pending_ops (add_row v vs) ns) =
    insert (v_id v, v_sandbox v, ''checkpoint_recovery'', v_finished v = None) (set (pending_ops vs ns))"
  "set (pending_ops vs (add_row n ns)) =
    insert (n_id n, n_destination_sandbox n, ''checkpoint_branch'', n_ready n = None) (set (pending_ops vs ns))"
  by (simp_all add: pending_ops_def)

lemma ops_held_pending:
  "ops_held ss bs hs (pending_ops vs ns) \<longleftrightarrow>
    (\<forall>v \<in> set vs. op_held ss bs hs (v_id v, v_sandbox v, ''checkpoint_recovery'', v_finished v = None)) \<and>
    (\<forall>n \<in> set ns. op_held ss bs hs (n_id n, n_destination_sandbox n, ''checkpoint_branch'', n_ready n = None))"
  unfolding ops_held_def pending_ops_def by (simp add: ball_Un)

lemma op_held_weaken:
  "op_held ss bs hs (i, b, why, x) \<Longrightarrow> (y \<Longrightarrow> x) \<Longrightarrow> op_held ss bs hs (i, b, why, y)"
  by (erule op_heldE) (rule op_heldI, auto)

lemma insert_recovery_keeps:
  assumes d: "opened_by (rq_id r) (rq_sandbox r) ''checkpoint_recovery'' d"
  shows "wp (q_insert_recovery r source destination) (\<lambda>_. db_inv) (\<lambda>_. db_inv) d"
proof -
  let ?v = "\<lparr>v_id = rq_id r, v_sandbox = rq_sandbox r, v_repository = rq_repository r, v_snapshot = rq_snapshot r,
       v_source = source, v_destination = destination, v_requested = now d, v_verified = None, v_finished = None\<rparr>"
  have "recoveries_ok (add_row ?v (recoveries d))"
    if "destination \<noteq> source" "\<not> list_ex (\<lambda>v. v_id v = rq_id r) (recoveries d)"
    using that d by (auto simp: opened_by_def db_inv_def recoveries_ok_def list_ex_iff)
  moreover have "ops_held (sessions d) (sandboxes d) (holds d) (pending_ops (add_row ?v (recoveries d)) (branches d))"
    using d held_op [of "rq_id r" "rq_sandbox r" "''checkpoint_recovery''" d]
    by (simp add: opened_by_def db_inv_def ops_held_def pending_ops_add)
  ultimately have "db_inv (recoveries_update (add_row ?v) d)"
    if "destination \<noteq> source" "\<not> list_ex (\<lambda>v. v_id v = rq_id r) (recoveries d)"
    using that d by (simp add: opened_by_def db_inv_def)
  with opening_inv [OF d] show ?thesis
    by (auto simp: q_insert_recovery_def wp_simps first_violation_None split: option.split)
qed

lemma keeps_insert_recovery_request [keeps_intros]: "keeps db_inv (insert_recovery_request nonce r source)"
  unfolding insert_recovery_request_def
proof (rule keeps_opening)
  let ?I = "opened_by (rq_id r) (rq_sandbox r) ''checkpoint_recovery''"
  let ?reserve = "q_reserve_resource (replacement_resource_id (rq_id r)) (rq_sandbox r)"
  fix d assume d: "?I d"
  have "wp (?reserve n) (\<lambda>_. ?I) (\<lambda>_. ?I) d" for n
    using d by (intro keepsD [OF keeps_opening_reserve]) (simp_all add: replacement_resource_id_def)
  then have "wp (seq (?reserve n) (q_insert_recovery r source (replacement_resource_id (rq_id r)))) (\<lambda>_. db_inv) (\<lambda>_. db_inv) d" for n
    unfolding wp_seq by (rule wp_mono) (simp_all add: insert_recovery_keeps opening_inv)
  then show "wp (bnd (lift nonce) (\<lambda>n. seq (?reserve n) (q_insert_recovery r source (replacement_resource_id (rq_id r)))))
      (\<lambda>_. db_inv) (\<lambda>_. db_inv) d"
    using opening_inv [OF d] by (simp add: wp_bnd wp_lift split: sum.split)
qed

lemma keeps_get_recovery [keeps_intros]: "keeps I (q_get_recovery i)"
  unfolding q_get_recovery_def by (intro keeps_intros)

lemma keeps_native_safe [keeps_intros]: "keeps I (q_native_state_safe bid n)"
  unfolding q_native_state_safe_def by (intro keeps_intros)

lemma keeps_request_recovery [keeps_intros]: "keeps db_inv (request_checkpoint_recovery env nonce qn r)"
  unfolding request_checkpoint_recovery_def replay_recovery_def authorize_recovery_request_def
  by (intro keeps_intros)

lemma keeps_record_recovery_restored [keeps_intros]: "keeps db_inv (record_recovery_restored r pid)"
  unfolding record_recovery_restored_def by (intro keeps_intros)

lemma db_inv_upd_recovery:
  assumes inv: "db_inv d"
    and row: "\<And>v. v_id (f v) = v_id v" "\<And>v. v_sandbox (f v) = v_sandbox v" "\<And>v. v_source (f v) = v_source v"
      "\<And>v. v_destination (f v) = v_destination v"
    and fin: "\<And>v. v_finished (f v) = None \<Longrightarrow> v_finished v = None"
    and ver: "\<And>v. p v \<Longrightarrow> v_verified (f v) = None \<Longrightarrow> v_verified v = None \<and> v_finished (f v) = v_finished v"
  shows "db_inv (recoveries_update (upd_where p f) d)"
proof -
  have ok: "v_finished v \<noteq> None \<longrightarrow> v_verified v \<noteq> None" if "v \<in> set (recoveries d)" for v
    using inv that by (simp add: db_inv_def recoveries_ok_def)
  have "v_finished (f v) \<noteq> None \<longrightarrow> v_verified (f v) \<noteq> None" if "v \<in> set (recoveries d)" "p v" for v
    using ok [OF that(1)] ver [OF that(2)] by force
  then have "recoveries_ok (upd_where p f (recoveries d))"
    using inv row by (simp add: db_inv_def recoveries_ok_def map_upd_where)
  moreover have "ops_held (sessions d) (sandboxes d) (holds d) (pending_ops (upd_where p f (recoveries d)) (branches d))"
  proof -
    have held: "ops_held (sessions d) (sandboxes d) (holds d) (pending_ops (recoveries d) (branches d))"
      using inv by (simp add: db_inv_def)
    have "op_held (sessions d) (sandboxes d) (holds d) (v_id v, v_sandbox v, ''checkpoint_recovery'', v_finished (f v) = None)"
      if "v \<in> set (recoveries d)" for v
      using held [unfolded ops_held_pending, THEN conjunct1, rule_format, OF that] fin by (rule op_held_weaken)
    with held show ?thesis by (simp add: ops_held_pending row)
  qed
  ultimately show ?thesis using inv by (simp add: db_inv_def)
qed

lemma keeps_recovery_verified [keeps_intros]: "keeps db_inv (record_recovery_verified i)"
proof -
  have "db_inv d \<Longrightarrow> db_inv (recoveries_update (upd_where (\<lambda>v. v_id v = i) (\<lambda>v. v\<lparr>v_verified := stamp (v_verified v) d\<rparr>)) d)" for d
    by (rule db_inv_upd_recovery) simp_all
  then show ?thesis
    unfolding record_recovery_verified_def q_recovery_verified_def
    by (intro keeps_intros keepsI) (simp add: wp_simps)
qed

lemma keeps_recovery_finished [keeps_intros]: "keeps db_inv (q_recovery_finished i)"
proof -
  have "db_inv d \<Longrightarrow> db_inv (recoveries_update (upd_where (\<lambda>v. v_id v = i \<and> v_verified v \<noteq> None)
      (\<lambda>v. v\<lparr>v_finished := stamp (v_finished v) d\<rparr>)) d)" for d
    by (rule db_inv_upd_recovery) auto
  then show ?thesis
    unfolding q_recovery_finished_def by (intro keepsI) (simp add: wp_simps)
qed

text \<open>An identity names one operation.\<close>

lemma op_reason_unique:
  assumes inv: "db_inv d"
    and "(i, b, why, x) \<in> set (pending_ops (recoveries d) (branches d))"
    and "(i, b', why', y) \<in> set (pending_ops (recoveries d) (branches d))"
  shows "why = why'"
proof -
  have held: "op_held (sessions d) (sandboxes d) (holds d) op"
    if "op \<in> set (pending_ops (recoveries d) (branches d))" for op
    using inv that by (simp add: db_inv_def ops_held_def)
  obtain g where g: "g \<in> set (holds d)" "h_id g = i" "h_reason g = why"
    using op_heldE [OF held [OF assms(2)]] by blast
  obtain h where h: "h \<in> set (holds d)" "h_id h = i" "h_reason h = why'"
    using op_heldE [OF held [OF assms(3)]] by blast
  show ?thesis using hold_of_id [OF inv g(1) h(1)] g h by simp
qed

lemma recovery_op: "v \<in> set (recoveries d) \<Longrightarrow>
    (v_id v, v_sandbox v, ''checkpoint_recovery'', v_finished v = None) \<in> set (pending_ops (recoveries d) (branches d))"
  by (simp add: pending_ops_def)

lemma pending_recovery:
  "(i, b, ''checkpoint_recovery'', True) \<in> set (pending_ops vs ns) \<Longrightarrow> \<exists>v \<in> set vs. v_id v = i \<and> v_finished v = None"
  by (auto simp: pending_ops_def)

lemma not_upgrade: 
  assumes "db_inv d" and "(i, b, why, x) \<in> set (pending_ops (recoveries d) (branches d))"
  shows "\<forall>u \<in> set (upgrades d). u_id u \<noteq> i"
  using upgrade_id_not_op [OF assms(1)] assms(2) by blast

lemma keeps_switch_and_release_recovery [keeps_intros]: "keeps db_inv (switch_and_release_recovery env qn r)"
proof -
  let ?i = "rq_id (rv_request r)" and ?bid = "rq_sandbox (rv_request r)"
  have tail: "keeps db_inv (bnd (signal_session_wake env qn sid cause) (\<lambda>_. ret ()))" for sid cause
    by (intro keeps_intros)
  have "keeps db_inv (seq (expect_one_rows (q_recovery_finished ?i))
     (seq (expect_one_rows (q_release_delivery_hold ?i ?bid))
       (bnd (signal_session_wake env qn sid cause) (\<lambda>_. ret ()))))" for sid cause
  proof (rule keepsI)
    fix d assume inv: "db_inv d"
    let ?p = "\<lambda>v. v_id v = ?i \<and> v_verified v \<noteq> None" and ?f = "\<lambda>v. v\<lparr>v_finished := stamp (v_finished v) d\<rparr>"
    let ?e = "recoveries_update (upd_where ?p ?f) d"
    let ?t = "\<lambda>e. holds_update (upd_where (\<lambda>h. h_id h = ?i \<and> h_sandbox h = ?bid)
      (\<lambda>h. h\<lparr>h_released := coalesce (h_released h) (Some (now e))\<rparr>)) e"
    have e: "db_inv ?e"
      using keepsD [OF keeps_recovery_finished inv, of ?i] by (simp add: q_recovery_finished_def wp_simps)
    have t: "db_inv (?t ?e)" if one: "count_where ?p (recoveries d) = 1"
    proof (rule db_inv_release_finished [OF e])
      obtain v where v: "v \<in> set (recoveries d)" "v_id v = ?i"
        using count_where_pos [of ?p "recoveries d"] one by auto
      let ?w = "if ?p v then ?f v else v"
      have "?w \<in> set (upd_where ?p ?f (recoveries d))" unfolding set_upd_where using v(1) by (rule imageI)
      then have w: "?w \<in> set (recoveries ?e)" "v_id ?w = ?i" using v(2) by simp_all
      note op = recovery_op [OF w(1), unfolded w(2)]
      show "\<forall>u \<in> set (upgrades ?e). u_id u = ?i \<longrightarrow> u_finished u \<noteq> None"
        using not_upgrade [OF e op] by simp
      show "(?i, b, why, True) \<notin> set (pending_ops (recoveries ?e) (branches ?e))" for b why
      proof
        assume pend: "(?i, b, why, True) \<in> set (pending_ops (recoveries ?e) (branches ?e))"
        with op_reason_unique [OF e op pend] have "\<exists>v \<in> set (recoveries ?e). v_id v = ?i \<and> v_finished v = None"
          by (intro pending_recovery) simp
        moreover have "distinct (map v_id (recoveries d))" using inv by (simp add: db_inv_def recoveries_ok_def)
        from stamped_by_key [OF this one, of ?f "\<lambda>v. v_finished v \<noteq> None"]
        have "\<forall>v \<in> set (recoveries ?e). v_id v = ?i \<longrightarrow> v_finished v \<noteq> None" by simp
        ultimately show False by blast
      qed
    qed simp
    show "wp (seq (expect_one_rows (q_recovery_finished ?i))
     (seq (expect_one_rows (q_release_delivery_hold ?i ?bid))
       (bnd (signal_session_wake env qn sid cause) (\<lambda>_. ret ())))) (\<lambda>_. db_inv) (\<lambda>_. db_inv) d"
      using e t keepsD [OF tail, of "?t ?e" sid cause]
      by (simp add: wp_seq wp_expect_one_rows q_recovery_finished_def q_release_delivery_hold_def wp_update_tbl_at)
  qed
  then show ?thesis
    unfolding switch_and_release_recovery_def Let_def
    by (intro keeps_seq [where m = "expect_one_rows (q_switch_sandbox_resource b x y)" for b x y] keeps_expect_one keeps_switch_resource)
qed

lemma keeps_finish_recovery [keeps_intros]: "keeps db_inv (finish_checkpoint_recovery env qn r)"
  unfolding finish_checkpoint_recovery_def authorize_recovery_release_def by (intro keeps_intros)

lemma abandonable_facts:
  assumes "abandonable d i h"
  obtains v b s where "v \<in> set (recoveries d)" "v_id v = h_id h" "b \<in> set (sandboxes d)" "b_id b = h_sandbox h"
    "s \<in> set (sessions d)" "s_id s = b_session b" "\<not> s_open s"
proof -
  obtain v b s where "row_of v_id i (recoveries d) = Some v" "sandbox_of d (v_sandbox v) = Some b"
    "session_of d (b_session b) = Some s" "h_id h = i" "h_sandbox h = b_id b" "\<not> s_open s"
    using assms by (auto simp: abandonable_def split: option.splits)
  note rows = this
  show thesis
    by (rule that [of v b s])
      (use rows row_of_in [OF rows(1)] row_of_key [OF rows(1)] row_of_in [OF rows(2) [unfolded sandbox_of_def]]
        row_of_in [OF rows(3) [unfolded session_of_def]] row_of_key [OF rows(3) [unfolded session_of_def]] in simp_all)
qed

lemma abandonable_closed:
  assumes "abandonable d i h"
  shows "session_closed (sessions d) (sandboxes d) (h_sandbox h)"
  using abandonable_facts [OF assms] unfolding session_closed_def by metis

lemma keeps_abandon [keeps_intros]: "keeps db_inv (abandon_recovery_for_cleanup r)"
proof -
  have "keeps db_inv (q_abandon_recovery i)" for i
  proof (rule keepsI)
    fix d assume inv: "db_inv d"
    let ?g = "\<lambda>h. h\<lparr>h_released := coalesce (h_released h) (Some (now d))\<rparr>"
    have op: "\<exists>b why x. (h_id h, b, why, x) \<in> set (pending_ops (recoveries d) (branches d))" if ab: "abandonable d i h" for h
    proof -
      obtain v where v: "v \<in> set (recoveries d)" "v_id v = h_id h" using abandonable_facts [OF ab] by metis
      show ?thesis using recovery_op [OF v(1)] unfolding v(2) by blast
    qed
    have "holds_ok (upd_where (abandonable d i) ?g (holds d))"
      by (rule holds_ok_release) (use inv in \<open>simp_all add: db_inv_def\<close>)
    moreover have "upgrades_held (sessions d) (sandboxes d) (upd_where (abandonable d i) ?g (holds d)) (upgrades d)"
    proof (rule upgrades_held_holds)
      fix h u assume "abandonable d i h" "u \<in> set (upgrades d)" "h_id h = u_id u"
      with op not_upgrade [OF inv] show "cleanup_over (sessions d) (sandboxes d) (h_sandbox h)" by metis
    qed (use inv in \<open>simp_all add: db_inv_def\<close>)
    moreover have "ops_held (sessions d) (sandboxes d) (upd_where (abandonable d i) ?g (holds d))
        (pending_ops (recoveries d) (branches d))"
      by (rule ops_held_holds) (use inv abandonable_closed in \<open>auto simp: db_inv_def\<close>)
    ultimately have "db_inv (holds_update (upd_where (abandonable d i) ?g) d)"
      using inv by (simp add: db_inv_def)
    then show "wp (q_abandon_recovery i) (\<lambda>_. db_inv) (\<lambda>_. db_inv) d"
      by (simp add: q_abandon_recovery_def wp_simps)
  qed
  then show ?thesis unfolding abandon_recovery_for_cleanup_def by (intro keeps_intros)
qed

end
