(* ===== verification/Postgres_Branches.thy ===== *)
theory Postgres_Branches
  imports Postgres_Recovery
begin

text \<open>
  Branches (\<open>internal/persistence/branch.go\<close>, \<open>internal/postgres/branches.go\<close>,
  \<open>dbsql/branches.sql.go\<close>): a new Session admitted from a published checkpoint of another. Its
  delivery is held from its admission until its route and its native Thread are verified.
\<close>

section \<open>Requests and receipts\<close>

record branch_request =
  br_id :: string
  br_source :: string
  br_repository :: string
  br_snapshot :: string

definition validate_branch_request :: "branch_request \<Rightarrow> err option" where
  "validate_branch_request r =
    (if \<not> list_all (exact_within 200) [br_id r, br_source r, br_repository r] then
       Some (Errorf ''branch requires exact bounded identities'')
     else if \<not> hex64 (br_snapshot r) then Some (Errorf ''branch requires an exact snapshot ID'')
     else None)"

record branch_receipt =
  bc_request :: branch_request
  bc_session :: string
  bc_sandbox :: string
  bc_checkpoint :: persisted_checkpoint
  bc_thread :: string
  bc_requested :: time
  bc_restored :: "time option"
  bc_release :: "time option"
  bc_ready :: "time option"

definition branch_held :: "db \<Rightarrow> branch_row \<Rightarrow> bool" where
  \<comment> \<open>the inner join with the hold\<close>
  "branch_held d n = (row_of h_id (n_id n) (holds d) \<noteq> None)"

definition find_branch :: "db \<Rightarrow> string \<Rightarrow> branch_row option" where
  "find_branch d i =
    (case row_of n_id i (branches d) of None \<Rightarrow> None | Some n \<Rightarrow> if branch_held d n then Some n else None)"

definition find_session_branch :: "db \<Rightarrow> string \<Rightarrow> branch_row option" where
  "find_session_branch d sid =
    (case row_of n_destination_session sid (branches d) of None \<Rightarrow> None
     | Some n \<Rightarrow> if branch_held d n then Some n else None)"

definition branch_receipt_of :: "branch_row \<Rightarrow> persisted_checkpoint \<Rightarrow> branch_receipt" where
  "branch_receipt_of n c =
    \<lparr>bc_request = \<lparr>br_id = n_id n, br_source = n_source_session n, br_repository = n_repository n,
       br_snapshot = n_snapshot n\<rparr>,
     bc_session = n_destination_session n, bc_sandbox = n_destination_sandbox n, bc_checkpoint = c,
     bc_thread = n_thread n, bc_requested = n_requested n, bc_restored = n_restored n,
     bc_release = n_release n, bc_ready = n_ready n\<rparr>"

definition branch_reference :: "branch_row \<Rightarrow> snapshot_reference" where
  "branch_reference n = \<lparr>ref_repository = n_repository n, ref_snapshot = n_snapshot n\<rparr>"

definition q_get_branch :: "string \<Rightarrow> (db, branch_row) act" where
  "q_get_branch i = bnd (gets (\<lambda>d. find_branch d i)) (\<lambda>r. the_row r (Sentinel ErrNoRows))"

definition q_get_session_branch :: "string \<Rightarrow> (db, branch_row) act" where
  "q_get_session_branch sid = bnd (gets (\<lambda>d. find_session_branch d sid)) (\<lambda>r. the_row r (Sentinel ErrNoRows))"

definition checkpoint_branch :: "string \<Rightarrow> (db, branch_receipt) act" where
  "checkpoint_branch i =
    bnd (q_get_branch i) (\<lambda>n.
    bnd (q_checkpoint_by_reference (branch_reference n)) (\<lambda>c.
    ret (branch_receipt_of n c)))"

definition session_checkpoint_branch :: "string \<Rightarrow> (db, branch_receipt option) act" where
  "session_checkpoint_branch sid =
    bnd (attempt (q_get_session_branch sid)) (\<lambda>r. case r of
        Inl e \<Rightarrow> if err_is e ErrNoRows then ret None else fail e
      | Inr n \<Rightarrow> bnd (checkpoint_branch (n_id n)) (\<lambda>x. ret (Some x)))"

definition has_checkpoint_branch :: "string \<Rightarrow> (db, bool) act" where
  "has_checkpoint_branch sid =
    bnd (attempt (q_get_session_branch sid)) (\<lambda>r. case r of
        Inl e \<Rightarrow> if err_is e ErrNoRows then ret False else fail e
      | Inr _ \<Rightarrow> ret True)"

section \<open>Statements\<close>

definition q_bind_branch_thread :: "string \<Rightarrow> string option \<Rightarrow> int \<Rightarrow> (db, nat) act" where
  "q_bind_branch_thread sid th n =
    (\<lambda>d. if \<not> (0 \<le> n \<and> n \<le> max_int64) then (Inl (check_violation ''sessions_native_revision_check''), d)
         else if \<not> thread_ok th then (Inl (check_violation ''session_thread''), d)
         else update_tbl sessions sessions_update
           (\<lambda>s. s_id s = sid \<and> s_thread s = None \<and> s_revision s = 0 \<and> s_pending_input s = None \<and>
             s_pending_turn s = None)
           (\<lambda>s. s\<lparr>s_thread := th, s_revision := n\<rparr>) d)"

definition q_insert_branch :: "branch_request \<Rightarrow> string \<Rightarrow> string \<Rightarrow> string \<Rightarrow> (db, unit) act" where
  "q_insert_branch r sid bid th = (\<lambda>d.
    insert_tbl branches_update
      (\<lambda>d. first_violation
        [(blank_text th, check_violation ''sandbox_branches_thread_id_check''),
         (list_ex (\<lambda>n. n_id n = br_id r) (branches d), unique_violation ''sandbox_branches_pkey''),
         (list_ex (\<lambda>n. n_destination_session n = sid \<or> n_destination_sandbox n = bid) (branches d),
            unique_violation ''sandbox_branches_destination''),
         (\<not> list_ex (\<lambda>h. h_id h = br_id r) (holds d), foreign_key_violation ''branches_hold''),
         (session_of d (br_source r) = None \<or> session_of d sid = None, foreign_key_violation ''branches_session''),
         (sandbox_of d bid = None, foreign_key_violation ''branches_sandbox''),
         (checkpoint_at d \<lparr>ref_repository = br_repository r, ref_snapshot = br_snapshot r\<rparr> = None,
            foreign_key_violation ''branches_checkpoint'')])
      \<lparr>n_id = br_id r, n_source_session = br_source r, n_destination_session = sid, n_destination_sandbox = bid,
       n_repository = br_repository r, n_snapshot = br_snapshot r, n_thread = th, n_requested = now d,
       n_restored = None, n_release = None, n_ready = None\<rparr> d)"

definition q_branch_restored :: "string \<Rightarrow> (db, nat) act" where
  "q_branch_restored i = (\<lambda>d.
    update_tbl branches branches_update (\<lambda>n. n_id n = i \<and> n_ready n = None)
      (\<lambda>n. n\<lparr>n_restored := stamp (n_restored n) d\<rparr>) d)"

definition q_request_branch_release :: "string \<Rightarrow> (db, nat) act" where
  "q_request_branch_release i = (\<lambda>d.
    update_tbl branches branches_update (\<lambda>n. n_id n = i \<and> n_restored n \<noteq> None)
      (\<lambda>n. n\<lparr>n_release := stamp (n_release n) d\<rparr>) d)"

definition branch_finishable :: "string \<Rightarrow> branch_row \<Rightarrow> bool" where
  "branch_finishable i n = (n_id n = i \<and> n_restored n \<noteq> None \<and> n_release n \<noteq> None)"

definition branch_hold :: "db \<Rightarrow> string \<Rightarrow> hold_row \<Rightarrow> bool" where
  \<comment> \<open>the hold of a row of the CTE\<close>
  "branch_hold d i h =
    (h_reason h = ''checkpoint_branch'' \<and>
     list_ex (\<lambda>n. branch_finishable i n \<and> h_id h = n_id n \<and> h_sandbox h = n_destination_sandbox n) (branches d))"

definition q_finish_branch :: "string \<Rightarrow> (db, nat) act" where
  "q_finish_branch i = (\<lambda>d.
    (Inr (count_where (branch_hold d i) (holds d)),
     holds_update (upd_where (branch_hold d i) (\<lambda>h. h\<lparr>h_released := stamp (h_released h) d\<rparr>))
      (branches_update (upd_where (branch_finishable i) (\<lambda>n. n\<lparr>n_ready := stamp (n_ready n) d\<rparr>)) d)))"

definition q_branch_file_preparation :: "string \<Rightarrow> (db, bool) act" where
  "q_branch_file_preparation bid = gets (\<lambda>d.
    list_ex (\<lambda>n. n_destination_sandbox n = bid \<and> n_restored n \<noteq> None \<and> n_release n = None \<and> n_ready n = None \<and>
      list_ex (\<lambda>h. h_id h = n_id n \<and> h_released h = None) (holds d) \<and>
      list_ex (\<lambda>s. s_id s = n_destination_session n \<and> s_open s \<and> s_cleanup s = CleanupPending) (sessions d))
      (branches d))"

section \<open>Admitting a branch\<close>

definition branch_key :: "string \<Rightarrow> string" where
  "branch_key i = ''checkpoint-branch:'' @ i"

definition replay_checkpoint_branch :: "branch_request \<Rightarrow> string \<Rightarrow> (db, branch_receipt) act" where
  "replay_checkpoint_branch r sid =
    bnd (attempt (checkpoint_branch (br_id r))) (\<lambda>got. case got of
        Inl e \<Rightarrow> fail (Wrapf ''branch identity already belongs to another request'' (Sentinel ErrCaptureConflict))
      | Inr x \<Rightarrow>
          seq (require (bc_request x = r \<and> bc_session x = sid)
                (Wrapf ''branch identity already belongs to another request'' (Sentinel ErrCaptureConflict)))
              (ret x))"

definition authorize_branch_source :: "branch_request \<Rightarrow> (db, session \<times> persisted_checkpoint) act" where
  "authorize_branch_source r =
    bnd (q_get_session (br_source r)) (\<lambda>j.
    bnd (no_rows_as (Sentinel ErrCheckpointNotFound)
          (q_checkpoint_by_reference \<lparr>ref_repository = br_repository r, ref_snapshot = br_snapshot r\<rparr>)) (\<lambda>c.
    seq (require (\<not> (cb_session (pc_boundary c) \<noteq> sess_id j \<or>
                    cb_sandbox (pc_boundary c) \<noteq> main_sandbox_name (sess_id j) \<or>
                    cb_profile (pc_boundary c) \<noteq> sess_profile j \<or>
                    cb_profile_revision (pc_boundary c) \<noteq> sess_profile_revision j \<or>
                    cb_revision (pc_boundary c) = 0 \<or> thread_id j = []))
          (Wrapf ''source checkpoint cannot bind a supported native Thread'' (Sentinel ErrCaptureConflict)))
   (seq (require (cb_upgrade (pc_boundary c) = [])
          (Wrapf ''branching an activated package generation is not yet supported'' (Sentinel ErrCaptureConflict)))
   (ret (j, c)))))"

definition branch_admission :: "string \<Rightarrow> session \<Rightarrow> session_admission" where
  "branch_admission key j =
    \<lparr>ad_keep_running = keep_running j, ad_created_by = [], ad_client_reference = [], ad_key = key,
     ad_agents_md = agents_md j, ad_profile = sess_profile j, ad_connection = provider_connection j,
     ad_model = model j, ad_effort = reasoning_effort j\<rparr>"

definition persist_new_branch ::
  "absurd_env \<Rightarrow> err + string \<Rightarrow> string \<Rightarrow> branch_request \<Rightarrow> string \<Rightarrow> string \<Rightarrow> int \<Rightarrow> (db, unit) act" where
  "persist_new_branch env nonce qn r sid th n =
    (let bid = main_sandbox_name sid in
     seq (reserve_admitted_sandbox nonce sid bid)
    (seq (expect_one_rows (q_bind_branch_thread sid (nullif_empty th) n))
    (seq (q_insert_delivery_hold (br_id r) bid ''checkpoint_branch'')
    (seq (q_insert_branch r sid bid th)
         (schedule_session_task env qn sid direct_task_name (direct_task_key sid))))))"

definition request_checkpoint_branch ::
  "absurd_env \<Rightarrow> err + string \<Rightarrow> string \<Rightarrow> branch_request \<Rightarrow> (db, branch_receipt) act" where
  "request_checkpoint_branch env nonce qn r =
    (case validate_branch_request r of Some e \<Rightarrow> fail e | None \<Rightarrow>
     let key = branch_key (br_id r); sid = session_id key in
     tx (bnd (attempt (q_get_admitted key)) (\<lambda>got. case got of
         Inr _ \<Rightarrow> replay_checkpoint_branch r sid
       | Inl e \<Rightarrow>
           if \<not> err_is e ErrNoRows then fail e else
           bnd (authorize_branch_source r) (\<lambda>(j, c).
           bnd (q_insert_admitted_session sid (sess_profile_revision j) (branch_admission key j)) (\<lambda>inserted.
           if inserted = 0 then replay_checkpoint_branch r sid
           else seq (persist_new_branch env nonce qn r sid (thread_id j) (cb_revision (pc_boundary c)))
                    (checkpoint_branch (br_id r)))))))"

section \<open>Preparing and releasing a branch\<close>

definition record_branch_restored :: "string \<Rightarrow> (db, unit) act" where
  "record_branch_restored i = expect_one_rows (q_branch_restored i)"

definition branch_release_cause :: "string \<Rightarrow> string" where
  "branch_release_cause i = ''branch-release:'' @ i"

definition release_checkpoint_branch :: "absurd_env \<Rightarrow> string \<Rightarrow> string \<Rightarrow> (db, branch_receipt) act" where
  "release_checkpoint_branch env qn i =
    bnd (checkpoint_branch i) (\<lambda>x.
    seq (require (bc_restored x \<noteq> None) (Wrapf ''branch has not restored its checkpoint'' (Sentinel ErrCaptureConflict)))
   (seq (tx (bnd (q_session_admission (bc_session x)) (\<lambda>j.
             seq (require (sa_open j \<and> sa_cleanup j = CleanupPending \<and> sa_thread j = bc_thread x)
                   (Wrapf ''branch Session is not open with its exact native binding'' (Sentinel ErrCaptureConflict)))
            (seq (expect_one_rows (q_request_branch_release i))
            (bnd (signal_session_wake env qn (bc_session x) (branch_release_cause i)) (\<lambda>_. ret ()))))))
        (checkpoint_branch i)))"

definition same_branch :: "branch_receipt \<Rightarrow> branch_receipt \<Rightarrow> bool" where
  "same_branch x y =
    (bc_request x = bc_request y \<and> bc_session x = bc_session y \<and> bc_sandbox x = bc_sandbox y \<and>
     bc_checkpoint x = bc_checkpoint y)"

definition finish_checkpoint_branch :: "branch_receipt \<Rightarrow> (db, unit) act" where
  "finish_checkpoint_branch expected =
    tx (bnd (checkpoint_branch (br_id (bc_request expected))) (\<lambda>x.
        seq (require (same_branch x expected) (Errorf ''branch custody changed''))
       (if bc_ready x \<noteq> None then ret ()
        else seq (require (bc_release x \<noteq> None) (Errorf ''branch release was not requested''))
            (bnd (q_get_sandbox (bc_sandbox x)) (\<lambda>owner.
             seq (require (sb_session_id owner = bc_session x \<and> sb_provider_id owner \<noteq> [])
                   (Errorf ''branch destination resource is unavailable''))
            (bnd (attempt (q_get_scoped_action (bc_session x) ActionRouteCreate (bc_sandbox x))) (\<lambda>route. case route of
                Inl e \<Rightarrow> fail (Errorf ''branch destination route is not installed'')
              | Inr a \<Rightarrow>
                  seq (require (a_state a = ActionSucceeded) (Errorf ''branch destination route is not installed''))
                      (expect_one_rows (q_finish_branch (br_id (bc_request expected)))))))))))"

section \<open>Branches preserve the invariants\<close>

lemma keeps_get_branch [keeps_intros]: "keeps I (q_get_branch i)"
  unfolding q_get_branch_def by (intro keeps_intros)

lemma keeps_checkpoint_branch [keeps_intros]: "keeps I (checkpoint_branch i)"
  unfolding checkpoint_branch_def by (intro keeps_intros)

lemma keeps_bind_branch_thread [keeps_intros]: "keeps db_inv (q_bind_branch_thread sid th n)"
proof (rule keepsI)
  fix d assume inv: "db_inv d"
  have "wp (update_tbl sessions sessions_update
      (\<lambda>s. s_id s = sid \<and> s_thread s = None \<and> s_revision s = 0 \<and> s_pending_input s = None \<and> s_pending_turn s = None)
      (\<lambda>s. s\<lparr>s_thread := th, s_revision := n\<rparr>)) (\<lambda>_. db_inv) (\<lambda>_. db_inv) d"
    if "0 \<le> n" "n \<le> max_int64" "thread_ok th"
    using inv that by (intro keepsD keeps_session_update) (auto simp: row_ok_iff)
  with inv show "wp (q_bind_branch_thread sid th n) (\<lambda>_. db_inv) (\<lambda>_. db_inv) d"
    by (auto simp: q_bind_branch_thread_def wp_def)
qed

lemma db_inv_upd_branch:
  assumes inv: "db_inv d"
    and row: "\<And>n. n_id (f n) = n_id n" "\<And>n. n_destination_sandbox (f n) = n_destination_sandbox n"
      "\<And>n. n_destination_session (f n) = n_destination_session n"
    and ready: "\<And>n. n_ready (f n) = None \<Longrightarrow> n_ready n = None"
    and ok: "\<And>n. p n \<Longrightarrow> branch_ok n \<Longrightarrow> branch_ok (f n)"
  shows "db_inv (branches_update (upd_where p f) d)"
proof -
  have held: "ops_held (sessions d) (sandboxes d) (holds d) (pending_ops (recoveries d) (branches d))"
    using inv by (simp add: db_inv_def)
  have "op_held (sessions d) (sandboxes d) (holds d) (n_id n, n_destination_sandbox n, ''checkpoint_branch'', n_ready (f n) = None)"
    if "n \<in> set (branches d)" for n
    using held [unfolded ops_held_pending, THEN conjunct2, rule_format, OF that] ready by (rule op_held_weaken)
  with held have "ops_held (sessions d) (sandboxes d) (holds d) (pending_ops (recoveries d) (upd_where p f (branches d)))"
    by (simp add: ops_held_pending row)
  moreover have "branches_ok (upd_where p f (branches d))"
    using inv by (simp add: db_inv_def branches_ok_def map_upd_where row ok)
  ultimately show ?thesis using inv by (simp add: db_inv_def)
qed

lemma keeps_branch_restored [keeps_intros]: "keeps db_inv (record_branch_restored i)"
proof -
  have "db_inv d \<Longrightarrow> db_inv (branches_update (upd_where (\<lambda>n. n_id n = i \<and> n_ready n = None)
      (\<lambda>n. n\<lparr>n_restored := stamp (n_restored n) d\<rparr>)) d)" for d
    by (rule db_inv_upd_branch) (simp_all add: branch_ok_def)
  then show ?thesis
    unfolding record_branch_restored_def q_branch_restored_def by (intro keeps_intros keepsI) (simp add: wp_simps)
qed

lemma keeps_request_branch_release [keeps_intros]: "keeps db_inv (q_request_branch_release i)"
proof -
  have "db_inv d \<Longrightarrow> db_inv (branches_update (upd_where (\<lambda>n. n_id n = i \<and> n_restored n \<noteq> None)
      (\<lambda>n. n\<lparr>n_release := stamp (n_release n) d\<rparr>)) d)" for d
    by (rule db_inv_upd_branch) (simp_all add: branch_ok_def)
  then show ?thesis
    unfolding q_request_branch_release_def by (intro keepsI) (simp add: wp_simps)
qed

lemma keeps_release_branch [keeps_intros]: "keeps db_inv (release_checkpoint_branch env qn i)"
  unfolding release_checkpoint_branch_def by (intro keeps_intros)

lemma branch_op: "n \<in> set (branches d) \<Longrightarrow>
    (n_id n, n_destination_sandbox n, ''checkpoint_branch'', n_ready n = None) \<in> set (pending_ops (recoveries d) (branches d))"
  by (simp add: pending_ops_def)

lemma pending_branch:
  "(i, b, ''checkpoint_branch'', True) \<in> set (pending_ops vs ns) \<Longrightarrow> \<exists>n \<in> set ns. n_id n = i \<and> n_ready n = None"
  by (auto simp: pending_ops_def)

lemma keeps_q_finish_branch [keeps_intros]: "keeps db_inv (q_finish_branch i)"
proof (rule keepsI)
  fix d assume inv: "db_inv d"
  let ?f = "\<lambda>n. n\<lparr>n_ready := stamp (n_ready n) d\<rparr>" and ?g = "\<lambda>h. h\<lparr>h_released := coalesce (h_released h) (Some (now d))\<rparr>"
  let ?e = "branches_update (upd_where (branch_finishable i) ?f) d"
  have e: "db_inv ?e"
    using inv by (rule db_inv_upd_branch) (simp_all add: branch_ok_def branch_finishable_def)
  have "db_inv (holds_update (upd_where (branch_hold d i) ?g) ?e)"
  proof (cases "\<exists>n \<in> set (branches d). branch_finishable i n")
    case False
    then have "upd_where (branch_hold d i) ?g (holds d) = holds d"
      by (intro upd_where_none) (auto simp: branch_hold_def list_ex_iff)
    with e show ?thesis by (simp add: db_inv_def)
  next
    case True
    then obtain n where n: "n \<in> set (branches d)" "branch_finishable i n" by blast
    have fin: "branch_finishable i m" if "m \<in> set (branches d)" "n_id m = i" for m
    proof -
      have "distinct (map n_id (branches d))" using inv by (simp add: db_inv_def branches_ok_def)
      from row_of_distinct [OF this n(1)] row_of_distinct [OF this that(1)] n(2) that(2)
      show ?thesis by (simp add: branch_finishable_def)
    qed
    have "?f n \<in> set (upd_where (branch_finishable i) ?f (branches d))"
      unfolding set_upd_where using n by (intro rev_image_eqI [OF n(1)]) simp
    then have m: "?f n \<in> set (branches ?e)" "n_id (?f n) = i" using n(2) by (simp_all add: branch_finishable_def)
    note op = branch_op [OF m(1), unfolded m(2)]
    show ?thesis
    proof (rule db_inv_release_finished [OF e])
      show "\<forall>u \<in> set (upgrades ?e). u_id u = i \<longrightarrow> u_finished u \<noteq> None"
        using not_upgrade [OF e op] by simp
      show "(i, b, why, True) \<notin> set (pending_ops (recoveries ?e) (branches ?e))" for b why
      proof
        assume pend: "(i, b, why, True) \<in> set (pending_ops (recoveries ?e) (branches ?e))"
        with op_reason_unique [OF e op pend] have "\<exists>n \<in> set (branches ?e). n_id n = i \<and> n_ready n = None"
          by (intro pending_branch) simp
        with fin show False by auto
      qed
      show "\<And>h. branch_hold d i h \<Longrightarrow> h_id h = i"
        by (auto simp: branch_hold_def branch_finishable_def list_ex_iff)
    qed
  qed
  then show "wp (q_finish_branch i) (\<lambda>_. db_inv) (\<lambda>_. db_inv) d"
    by (simp add: q_finish_branch_def wp_def stamp_def)
qed

lemma keeps_get_scoped [keeps_intros]: "keeps I (q_get_scoped_action sid k sc)"
  unfolding q_get_scoped_action_def by (intro keeps_intros)

lemma keeps_finish_branch [keeps_intros]: "keeps db_inv (finish_checkpoint_branch x)"
  unfolding finish_checkpoint_branch_def by (intro keeps_intros)

lemma insert_branch_keeps:
  assumes d: "opened_by (br_id r) bid ''checkpoint_branch'' d"
  shows "wp (q_insert_branch r sid bid th) (\<lambda>_. db_inv) (\<lambda>_. db_inv) d"
proof -
  let ?n = "\<lparr>n_id = br_id r, n_source_session = br_source r, n_destination_session = sid, n_destination_sandbox = bid,
       n_repository = br_repository r, n_snapshot = br_snapshot r, n_thread = th, n_requested = now d,
       n_restored = None, n_release = None, n_ready = None\<rparr>"
  have "db_inv (branches_update (add_row ?n) d)"
    if "\<not> list_ex (\<lambda>n. n_id n = br_id r) (branches d)"
      "\<not> list_ex (\<lambda>n. n_destination_session n = sid \<or> n_destination_sandbox n = bid) (branches d)"
  proof -
    have "branches_ok (add_row ?n (branches d))"
      using that d by (auto simp: opened_by_def db_inv_def branches_ok_def branch_ok_def list_ex_iff)
    moreover have "ops_held (sessions d) (sandboxes d) (holds d) (pending_ops (recoveries d) (add_row ?n (branches d)))"
      using d held_op [of "br_id r" bid "''checkpoint_branch''" d]
      by (simp add: opened_by_def db_inv_def ops_held_def pending_ops_add)
    ultimately show ?thesis using d by (simp add: opened_by_def db_inv_def)
  qed
  with opening_inv [OF d] show ?thesis
    by (auto simp: q_insert_branch_def wp_simps first_violation_None split: option.split)
qed

lemma keeps_open_branch [keeps_intros]:
  assumes "keeps db_inv rest"
  shows "keeps db_inv (seq (q_insert_delivery_hold (br_id r) bid ''checkpoint_branch'')
    (seq (q_insert_branch r sid bid th) rest))"
proof (rule keeps_opening)
  fix d assume d: "opened_by (br_id r) bid ''checkpoint_branch'' d"
  show "wp (seq (q_insert_branch r sid bid th) rest) (\<lambda>_. db_inv) (\<lambda>_. db_inv) d"
    unfolding wp_seq by (rule wp_mono [OF insert_branch_keeps [OF d]]) (simp_all add: keepsD [OF assms])
qed

lemma keeps_schedule_task [keeps_intros]: "keeps db_inv (schedule_session_task env qn sid name key)"
  unfolding schedule_session_task_def by (intro keeps_intros)

lemma keeps_request_branch [keeps_intros]: "keeps db_inv (request_checkpoint_branch env nonce qn r)"
  unfolding request_checkpoint_branch_def authorize_branch_source_def replay_checkpoint_branch_def persist_new_branch_def
    q_get_admitted_def reserve_admitted_sandbox_def Let_def
  by (intro keeps_intros)

end
