(* ===== verification/Recovery_Service.thy ===== *)
theory Recovery_Service
  imports Dorf_World Postgres_Branches
begin

text \<open>
  The recovery executor (\<open>internal/persistence/recovery.go\<close>): each call of \<open>Reconcile\<close> performs
  the one effect an unfinished recovery still needs - restore the replacement, verify it, delete
  the source, adopt the replacement - and records it. The driver is a parameter.
\<close>

record 'w recovery_driver =
  rd_restore :: "session \<Rightarrow> sandbox \<Rightarrow> persisted_checkpoint \<Rightarrow> ('w, string) act"
  rd_verify :: "session \<Rightarrow> sandbox \<Rightarrow> persisted_checkpoint \<Rightarrow> effective_package \<Rightarrow> ('w, unit) act"
  rd_delete :: "sandbox \<Rightarrow> ('w, unit) act"

record 'w recovery_service =
  rs_driver :: "'w recovery_driver"
  rs_queue :: string
  rs_env :: absurd_env
  rs_claim :: "('w, unit) act option"

definition rs_require_claim :: "'w recovery_service \<Rightarrow> ('w, unit) eff" where
  "rs_require_claim svc =
    (case rs_claim svc of None \<Rightarrow> fail (Errorf ''recovery executor claim is not configured'') | Some c \<Rightarrow> on_ext c)"

definition rs_record :: "'w recovery_service \<Rightarrow> (db, unit) act \<Rightarrow> ('w, unit) eff" where
  "rs_record svc m = seq (rs_require_claim svc) (on_db m)"

definition recovery_attention_source :: "recovery_receipt \<Rightarrow> string" where
  "recovery_attention_source r = ''recovery:'' @ rq_id (rv_request r)"

definition recovery_attention_detail :: string where
  "recovery_attention_detail = ''checkpoint recovery requires operator attention; delivery remains held''"

definition rs_attention :: "'w recovery_service \<Rightarrow> recovery_receipt \<Rightarrow> err \<Rightarrow> ('w, 'a) eff" where
  "rs_attention svc r cause =
    seq (rs_require_claim svc)
   (seq (on_db (set_execution_attention (rq_session (rv_request r)) (recovery_attention_source r) recovery_attention_detail))
   (fail (Wrapf recovery_attention_detail cause)))"

section \<open>One step\<close>

definition rs_resource :: "string \<Rightarrow> recovery_receipt \<Rightarrow> string \<Rightarrow> ('w, sandbox) eff" where
  "rs_resource sid r rid = on_db (store_sandbox_resource sid (rq_sandbox (rv_request r)) rid)"

definition rs_step :: "'w recovery_service \<Rightarrow> session \<Rightarrow> recovery_receipt \<Rightarrow> ('w, unit) eff" where
  "rs_step svc j r =
    (if rv_destination_provider r = [] \<or> rv_verified r = None then
       bnd (rs_resource (sess_id j) r (rv_destination r)) (\<lambda>destination.
       if rv_destination_provider r = [] then
         bnd (on_ext (rd_restore (rs_driver svc) j destination (rv_checkpoint r))) (\<lambda>pid.
         rs_record svc (record_recovery_restored r pid))
       else
         seq (on_ext (rd_verify (rs_driver svc) j destination (rv_checkpoint r) (rv_package r)))
             (rs_record svc (record_recovery_verified (rq_id (rv_request r)))))
     else if rv_source_deleted r = None then
       bnd (rs_resource (sess_id j) r (rv_source r)) (\<lambda>source.
       seq (on_ext (rd_delete (rs_driver svc) source))
           (rs_record svc (record_sandbox_resource_deleted source)))
     else on_db (finish_checkpoint_recovery (rs_env svc) (rs_queue svc) r))"

definition rs_require_safe :: "recovery_receipt \<Rightarrow> (db, unit) act" where
  "rs_require_safe r =
    bnd (recovery_native_state_safe r) (\<lambda>safe.
    require safe (Errorf ''native work exists beyond the selected checkpoint''))"

definition rs_attend :: "'w recovery_service \<Rightarrow> session \<Rightarrow> recovery_receipt \<Rightarrow> ('w, bool) eff" where
  "rs_attend svc j r =
    bnd (attempt (on_db (rs_require_safe r))) (\<lambda>safe. case safe of
        Inl e \<Rightarrow> rs_attention svc r e
      | Inr _ \<Rightarrow>
          seq (rs_require_claim svc)
         (bnd (attempt (rs_step svc j r)) (\<lambda>res. case res of
             Inl e \<Rightarrow> rs_attention svc r e
           | Inr _ \<Rightarrow>
               seq (on_db (clear_execution_attention (sess_id j) (recovery_attention_source r))) (ret True))))"

section \<open>Reconciliation\<close>

fun rs_first :: "'w recovery_service \<Rightarrow> session \<Rightarrow> recovery_receipt list \<Rightarrow> ('w, bool) eff" where
  "rs_first svc j [] = ret False"
| "rs_first svc j (r # rs) = (if rv_finished r \<noteq> None then rs_first svc j rs else rs_attend svc j r)"

definition owns_task :: "task_context \<Rightarrow> session \<Rightarrow> bool" where
  "owns_task task j = (case task of None \<Rightarrow> True | Some (tid, _) \<Rightarrow> tid = current_task_id j)"

definition rs_reconcile :: "'w recovery_service \<Rightarrow> task_context \<Rightarrow> string \<Rightarrow> ('w, bool) eff" where
  "rs_reconcile svc task sid =
    bnd (on_db (store_session sid)) (\<lambda>j.
    seq (require (owns_task task j) (Errorf ''recovery executor no longer owns the Session task''))
   (if \<not> admission_open j \<or> cleanup_state j \<noteq> CleanupPending then ret False
    else bnd (on_db (session_recoveries sid)) (rs_first svc j)))"

section \<open>Cleanup of unfinished recoveries\<close>

definition rs_prepare_receipt :: "'w recovery_service \<Rightarrow> string \<Rightarrow> recovery_receipt \<Rightarrow> ('w, unit) eff" where
  "rs_prepare_receipt svc sid r =
    bnd (on_db (store_sandbox (rq_sandbox (rv_request r)))) (\<lambda>active.
    seq (require (sb_resource_id active = rv_source r) (Errorf ''cleanup cannot abandon adopted recovery custody''))
   (seq (if rv_destination_deleted r = None then
           bnd (rs_resource sid r (rv_destination r)) (\<lambda>destination.
           seq (rs_require_claim svc)
          (seq (on_ext (rd_delete (rs_driver svc) destination))
               (rs_record svc (record_sandbox_resource_deleted destination))))
         else ret ())
        (rs_record svc (abandon_recovery_for_cleanup r))))"

definition rs_prepare_cleanup :: "'w recovery_service \<Rightarrow> task_context \<Rightarrow> string \<Rightarrow> ('w, unit) eff" where
  "rs_prepare_cleanup svc task sid =
    bnd (on_db (store_session sid)) (\<lambda>j.
    seq (require (owns_task task j) (Errorf ''recovery cleanup no longer owns the Session task''))
   (seq (require (\<not> (admission_open j \<or> cleanup_state j \<noteq> CleanupScheduled))
          (Errorf ''recovery cleanup requires the scheduled Session cleanup owner''))
   (seq (rs_require_claim svc)
   (bnd (on_db (session_recoveries sid)) (\<lambda>rs.
    for_each rs (\<lambda>r. if rv_finished r \<noteq> None then ret () else rs_prepare_receipt svc sid r))))))"

section \<open>Preservation of the invariants\<close>

lemma keeps_rs_claim [keeps_intros]: "keeps db_ok (rs_require_claim svc)"
  unfolding rs_require_claim_def by (intro keeps_intros)

lemma keeps_rs_record [keeps_intros]: "keeps db_inv m \<Longrightarrow> keeps db_ok (rs_record svc m)"
  unfolding rs_record_def by (intro keeps_intros)

lemma keeps_rs_attention [keeps_intros]: "keeps db_ok (rs_attention svc r e)"
  unfolding rs_attention_def by (intro keeps_intros)

lemma keeps_rs_safe [keeps_intros]: "keeps I (rs_require_safe r)"
  unfolding rs_require_safe_def recovery_native_state_safe_def by (intro keeps_intros)

lemma keeps_rs_resource [keeps_intros]: "keeps db_ok (rs_resource sid r rid)"
  unfolding rs_resource_def by (intro keeps_intros)

lemma keeps_rs_step [keeps_intros]: "keeps db_ok (rs_step svc j r)"
  unfolding rs_step_def by (intro keeps_intros)

lemma keeps_rs_attend [keeps_intros]: "keeps db_ok (rs_attend svc j r)"
  unfolding rs_attend_def by (intro keeps_intros)

lemma keeps_rs_first [keeps_intros]: "keeps db_ok (rs_first svc j rs)"
  by (induction rs) (auto intro!: keeps_intros)

lemma keeps_session_recoveries [keeps_intros]: "keeps I (session_recoveries sid)"
  unfolding session_recoveries_def by (intro keeps_intros)

lemma keeps_rs_reconcile: "keeps db_ok (rs_reconcile svc task sid)"
  unfolding rs_reconcile_def by (intro keeps_intros)

lemma keeps_store_sandbox' [keeps_intros]: "keeps I (store_sandbox bid)"
  unfolding store_sandbox_def by (intro keeps_intros)

lemma keeps_rs_prepare_receipt [keeps_intros]: "keeps db_ok (rs_prepare_receipt svc sid r)"
  unfolding rs_prepare_receipt_def by (intro keeps_intros)

lemma keeps_rs_prepare_cleanup: "keeps db_ok (rs_prepare_cleanup svc task sid)"
  unfolding rs_prepare_cleanup_def by (intro keeps_intros)

section \<open>The backlog of a recovery\<close>

text \<open>
  An unfinished recovery needs at most four effects, each recorded by setting one column that
  stays set.
\<close>

definition bound_resource :: "resource_row list \<Rightarrow> string \<Rightarrow> bool" where
  "bound_resource rs i = (case row_of r_id i rs of None \<Rightarrow> False | Some r \<Rightarrow> text_of (r_provider r) \<noteq> [])"

definition gone_resource :: "resource_row list \<Rightarrow> string \<Rightarrow> bool" where
  "gone_resource rs i = (case row_of r_id i rs of None \<Rightarrow> False | Some r \<Rightarrow> r_deleted r \<noteq> None)"

definition recovery_rank :: "resource_row list \<Rightarrow> recovery_row \<Rightarrow> nat" where
  "recovery_rank rs v =
    (if v_finished v \<noteq> None then 0
     else Suc ((if bound_resource rs (v_destination v) then 0 else 1) + (if v_verified v \<noteq> None then 0 else 1) +
               (if gone_resource rs (v_source v) then 0 else 1)))"

definition recovery_backlog :: "db \<Rightarrow> nat" where
  "recovery_backlog d = sum_list (map (recovery_rank (resources d)) (recoveries d))"

lemma recovery_backlog_bound: "recovery_backlog d \<le> 4 * length (recoveries d)"
proof -
  have "recovery_rank rs v \<le> 4" for rs v by (simp add: recovery_rank_def)
  then have "sum_list (map (recovery_rank rs) vs) \<le> 4 * length vs" for rs vs
    by (induction vs) (simp_all, meson add_mono)
  then show ?thesis by (simp add: recovery_backlog_def)
qed

lemma backlog_less:
  assumes v: "v \<in> set (recoveries d)" and len: "recoveries e = map g (recoveries d)"
    and le: "\<And>w. w \<in> set (recoveries d) \<Longrightarrow> recovery_rank (resources e) (g w) \<le> recovery_rank (resources d) w"
    and less: "recovery_rank (resources e) (g v) < recovery_rank (resources d) v"
  shows "recovery_backlog e < recovery_backlog d"
proof -
  have "sum_list (map (\<lambda>w. recovery_rank (resources e) (g w)) (recoveries d))
      < sum_list (map (recovery_rank (resources d)) (recoveries d))"
    by (rule sum_list_less [where y = v]) (use v le less in auto)
  then show ?thesis by (simp add: recovery_backlog_def len comp_def)
qed

lemma bound_upd:
  assumes "\<And>r. r_id (f r) = r_id r" and "\<And>r. p r \<Longrightarrow> text_of (r_provider r) \<noteq> [] \<Longrightarrow> text_of (r_provider (f r)) \<noteq> []"
  shows "bound_resource rs i \<Longrightarrow> bound_resource (upd_where p f rs) i"
  using assms(2) by (auto simp: bound_resource_def row_of_upd_where assms(1) split: option.splits)

lemma gone_upd:
  assumes "\<And>r. r_id (f r) = r_id r" and "\<And>r. r_deleted r \<noteq> None \<Longrightarrow> r_deleted (f r) \<noteq> None"
  shows "gone_resource rs i \<Longrightarrow> gone_resource (upd_where p f rs) i"
  using assms(2) by (auto simp: gone_resource_def row_of_upd_where assms(1) split: option.splits)

lemma rank_mono:
  assumes "bound_resource rs (v_destination v) \<Longrightarrow> bound_resource rs' (v_destination v)"
    and "gone_resource rs (v_source v) \<Longrightarrow> gone_resource rs' (v_source v)"
  shows "recovery_rank rs' v \<le> recovery_rank rs v"
  using assms by (auto simp: recovery_rank_def)

lemma bind_backlog:
  assumes inv: "db_inv d" and v: "v \<in> set (recoveries d)" "v_finished v = None"
    and free: "\<not> bound_resource (resources d) (v_destination v)" and pid: "pid \<noteq> []"
  shows "wp (expect_one_rows (q_bind_recovered_resource (v_destination v) pid))
    (\<lambda>_ e. recovery_backlog e < recovery_backlog d) (\<lambda>_ _. True) d"
proof -
  let ?p = "\<lambda>r. r_id r = v_destination v \<and> (r_deleted r = None \<and> (r_provider r = None \<or> r_provider r = Some pid))"
  let ?f = "\<lambda>r. r\<lparr>r_provider := Some pid, r_observed := coalesce (r_observed r) (Some (now d))\<rparr>"
  have "recovery_backlog (resources_update (upd_where ?p ?f) d) < recovery_backlog d" if one: "count_where ?p (resources d) = Suc 0"
  proof (rule backlog_less [where g = id and v = v])
    have mono: "bound_resource (resources d) i \<Longrightarrow> bound_resource (upd_where ?p ?f (resources d)) i" for i
      by (rule bound_upd) (use pid in simp_all)
    have gone: "gone_resource (resources d) i \<Longrightarrow> gone_resource (upd_where ?p ?f (resources d)) i" for i
      by (rule gone_upd) simp_all
    show "recovery_rank (resources (resources_update (upd_where ?p ?f) d)) (id w) \<le> recovery_rank (resources d) w" for w
      using rank_mono [OF mono gone] by simp
    have "distinct (map r_id (resources d))" using inv by (simp add: db_inv_def resources_ok_def)
    from count_where_one_unique [OF this one] obtain r where "row_of r_id (v_destination v) (resources d) = Some r" "?p r"
      by (auto dest: row_of_key)
    then have "bound_resource (upd_where ?p ?f (resources d)) (v_destination v)"
      using pid by (simp add: bound_resource_def row_of_upd_where)
    then show "recovery_rank (resources (resources_update (upd_where ?p ?f) d)) (id v) < recovery_rank (resources d) v"
      using free v(2) gone [of "v_source v"] by (simp add: recovery_rank_def)
  qed (use v in simp_all)
  then show ?thesis by (simp add: wp_simps q_bind_recovered_resource_def)
qed

lemma delete_backlog:
  assumes v: "v \<in> set (recoveries d)" "v_finished v = None" and inv: "db_inv d"
    and live: "\<not> gone_resource (resources d) (v_source v)" and own: "sb_resource_id ow = v_source v"
  shows "wp (record_sandbox_resource_deleted ow) (\<lambda>_ e. recovery_backlog e < recovery_backlog d) (\<lambda>_ _. True) d"
proof -
  let ?p = "\<lambda>r. r_id r = sb_resource_id ow \<and> r_sandbox r = sb_id ow"
  let ?f = "\<lambda>r. r\<lparr>r_deleted := coalesce (r_deleted r) (Some (now d))\<rparr>"
  have "recovery_backlog (resources_update (upd_where ?p ?f) d) < recovery_backlog d" if one: "count_where ?p (resources d) = Suc 0"
  proof (rule backlog_less [where g = id and v = v])
    have mono: "bound_resource (resources d) i \<Longrightarrow> bound_resource (upd_where ?p ?f (resources d)) i" for i
      by (rule bound_upd) simp_all
    have gone: "gone_resource (resources d) i \<Longrightarrow> gone_resource (upd_where ?p ?f (resources d)) i" for i
      by (rule gone_upd) simp_all
    show "recovery_rank (resources (resources_update (upd_where ?p ?f) d)) (id w) \<le> recovery_rank (resources d) w" for w
      using rank_mono [OF mono gone] by simp
    have "distinct (map r_id (resources d))" using inv by (simp add: db_inv_def resources_ok_def)
    from count_where_one_unique [OF this one] own have "gone_resource (upd_where ?p ?f (resources d)) (v_source v)"
      by (auto simp: gone_resource_def row_of_upd_where dest: row_of_key)
    then show "recovery_rank (resources (resources_update (upd_where ?p ?f) d)) (id v) < recovery_rank (resources d) v"
      using live v(2) mono [of "v_destination v"] by (simp add: recovery_rank_def)
  qed (use v in simp_all)
  then show ?thesis
    by (simp add: record_sandbox_resource_deleted_def q_record_resource_deleted_def wp_simps)
qed

lemma column_backlog:
  assumes v: "v \<in> set (recoveries d)" and same: "resources e = resources d"
    and up: "recoveries e = upd_where p f (recoveries d)" and hit: "p v"
    and le: "\<And>w. recovery_rank (resources d) (f w) \<le> recovery_rank (resources d) w"
    and less: "recovery_rank (resources d) (f v) < recovery_rank (resources d) v"
  shows "recovery_backlog e < recovery_backlog d"
  by (rule backlog_less [where g = "\<lambda>w. if p w then f w else w" and v = v])
    (use v same up hit le less in \<open>simp_all add: upd_where_def\<close>)

lemma verified_recovery_backlog:
  assumes "v \<in> set (recoveries d)" "v_finished v = None" "v_verified v = None"
  shows "wp (record_recovery_verified (v_id v)) (\<lambda>_ e. recovery_backlog e < recovery_backlog d) (\<lambda>_ _. True) d"
proof -
  let ?f = "\<lambda>v. v\<lparr>v_verified := stamp (v_verified v) d\<rparr>"
  have "recovery_backlog (recoveries_update (upd_where (\<lambda>w. v_id w = v_id v) ?f) d) < recovery_backlog d"
    by (rule column_backlog [where v = v and f = ?f and p = "\<lambda>w. v_id w = v_id v"]) (use assms in \<open>simp_all add: recovery_rank_def\<close>)
  then show ?thesis by (simp add: record_recovery_verified_def q_recovery_verified_def wp_simps)
qed

text \<open>Adoption changes no table of the backlog but the receipt.\<close>

definition recovery_tables :: "db \<Rightarrow> db \<Rightarrow> bool" where
  "recovery_tables d e = (recoveries e = recoveries d \<and> resources e = resources d)"

lemma switch_backlog:
  assumes v: "v \<in> set (recoveries d)" "v_finished v = None" and inv: "db_inv d"
    and i: "rq_id (rv_request r) = v_id v"
  shows "wp (switch_and_release_recovery env qn r) (\<lambda>_ e. recovery_backlog e < recovery_backlog d) (\<lambda>_ _. True) d"
proof -
  let ?f = "\<lambda>e v. v\<lparr>v_finished := stamp (v_finished v) e\<rparr>" and ?p = "\<lambda>w. v_id w = v_id v \<and> v_verified w \<noteq> None"
  have dist: "distinct (map v_id (recoveries d))" using inv by (simp add: db_inv_def recoveries_ok_def)
  have less: "recovery_backlog g < recovery_backlog d"
    if t: "recovery_tables d e" and one: "count_where ?p (recoveries d) = 1"
      and g: "recoveries g = upd_where ?p (?f e) (recoveries d)" "resources g = resources d" for e g
  proof (rule column_backlog [where v = v and f = "?f e" and p = ?p])
    show "?p v" using count_where_one_unique [OF dist, of "v_id v" "\<lambda>w. v_verified w \<noteq> None"] one
      row_of_distinct [OF dist v(1)] by simp
  qed (use t g v in \<open>simp_all add: recovery_tables_def recovery_rank_def\<close>)
  have frame: "wp (signal_session_wake env qn sid cause) (\<lambda>_ x. recovery_backlog x < n) (\<lambda>_ _. True) e"
    if "recovery_backlog e < n" for sid cause n e
    by (rule wp_mono [OF keepsD [OF keeps_signal_frame [where I = "\<lambda>x. recovery_backlog x < n"] that]])
      (simp_all add: recovery_backlog_def)
  have sw: "wp (q_switch_sandbox_resource bid x y) (\<lambda>_. recovery_tables d) (\<lambda>_ _. True) d" for bid x y
    by (simp add: wp_def q_switch_sandbox_resource_def update_tbl_def recovery_tables_def)
  have rest: "wp (seq (expect_one_rows (q_recovery_finished (v_id v)))
      (seq (expect_one_rows (q_release_delivery_hold (v_id v) bid))
        (bnd (signal_session_wake env qn sid cause) (\<lambda>_. ret ())))) (\<lambda>_ e. recovery_backlog e < recovery_backlog d) (\<lambda>_ _. True) e"
    if "recovery_tables d e" for bid sid cause e
    using that less [OF that] frame
    by (simp add: wp_seq wp_expect_one_rows q_recovery_finished_def q_release_delivery_hold_def wp_update_tbl_at
        wp_bnd wp_ret recovery_tables_def)
  show ?thesis
    unfolding switch_and_release_recovery_def Let_def i
    unfolding wp_seq [of "expect_one_rows (q_switch_sandbox_resource _ _ _)"]
    unfolding wp_expect_one_rows [of "q_switch_sandbox_resource _ _ _"]
    by (rule wp_mono [OF sw]) (use rest in auto)
qed

lemma find_recovery_row:
  assumes "db_inv d" and "v \<in> set (recoveries d)" and "recovery_joined d v = Some r"
  shows "find_recovery d (v_id v) = Some r"
proof -
  have "distinct (map v_id (recoveries d))" using assms(1) by (simp add: db_inv_def recoveries_ok_def)
  from row_of_distinct [OF this assms(2)] assms(3) show ?thesis by (simp add: find_recovery_def)
qed

lemma joined_columns:
  assumes "recovery_joined d v = Some r"
  shows "rq_id (rv_request r) = v_id v" "rv_verified r = v_verified v" "rv_finished r = v_finished v"
    "rv_source r = v_source v" "rv_destination r = v_destination v"
    "rv_destination_provider r = [] \<longleftrightarrow> \<not> bound_resource (resources d) (v_destination v)"
    "rv_source_deleted r = None \<longleftrightarrow> \<not> gone_resource (resources d) (v_source v)"
  using assms by (auto simp: recovery_joined_def recovery_receipt_of_def provider_of_def bound_resource_def
      gone_resource_def resource_of_def split: option.splits)

lemma finish_recovery_backlog:
  assumes inv: "db_inv d" and v: "v \<in> set (recoveries d)" "v_finished v = None"
    and j: "recovery_joined d v = Some r"
  shows "wp (finish_checkpoint_recovery env qn r) (\<lambda>_ e. recovery_backlog e < recovery_backlog d) (\<lambda>_ _. True) d"
proof -
  have read: "wp (authorize_recovery_release a b r) (\<lambda>_ e. e = d) (\<lambda>_ e. e = d) d" for a b
    unfolding authorize_recovery_release_def by (rule wp_reader) (intro keeps_intros)
  have main: "wp (seq (authorize_recovery_release a b r) (switch_and_release_recovery env qn r))
      (\<lambda>_ e. recovery_backlog e < recovery_backlog d) (\<lambda>_ _. True) d" for a b
    unfolding wp_seq by (rule wp_mono [OF read]) (simp_all add: switch_backlog [OF v inv joined_columns(1) [OF j]])
  have adm: "wp (q_session_admission sid) (\<lambda>_ e. e = d) (\<lambda>_ e. e = d) d" for sid
    by (rule wp_reader) (intro keeps_intros)
  note cols = joined_columns [OF j]
  have got: "wp (q_get_recovery (rq_id (rv_request r))) Q E d = Q r d" for Q E
    using find_recovery_row [OF inv v(1) j] cols by (simp add: q_get_recovery_def wp_simps)
  have sess: "wp (q_get_session sid) (\<lambda>_ e. e = d) (\<lambda>_ e. e = d) d" for sid
    by (rule wp_reader) (simp add: q_get_session_def keeps_intros)
  have tail: "wp (bnd (q_get_recovery (rq_id (rv_request r))) (\<lambda>x.
      seq (require (rv_request x = rv_request r \<and> rv_source x = rv_source r \<and> rv_destination x = rv_destination r)
          (Errorf ''recovery custody changed''))
       (if rv_finished x \<noteq> None then ret ()
        else seq (authorize_recovery_release a b x) (switch_and_release_recovery env qn x))))
      (\<lambda>_ e. recovery_backlog e < recovery_backlog d) (\<lambda>_ _. True) d" for a b
    unfolding wp_bnd got wp_seq wp_require using main cols(3) v(2) by (simp add: wp_seq)
  have "wp (bnd (q_get_session sid) (\<lambda>full. bnd (q_get_recovery (rq_id (rv_request r))) (\<lambda>x.
      seq (require (rv_request x = rv_request r \<and> rv_source x = rv_source r \<and> rv_destination x = rv_destination r)
          (Errorf ''recovery custody changed''))
       (if rv_finished x \<noteq> None then ret ()
        else seq (authorize_recovery_release (sess_profile full) (sess_profile_revision full) x)
          (switch_and_release_recovery env qn x)))))
      (\<lambda>_ e. recovery_backlog e < recovery_backlog d) (\<lambda>_ _. True) d" for sid
    unfolding wp_bnd [of "q_get_session sid"] by (rule wp_mono [OF sess]) (use tail in simp_all)
  then show ?thesis
    unfolding finish_checkpoint_recovery_def wp_tx wp_bnd [of "q_session_admission _"]
    by (intro wp_mono [OF adm]) (auto simp: wp_seq [of "require _ _"] wp_require)
qed

section \<open>Every successful step lowers the backlog\<close>

definition unfinished_receipt :: "'w world \<Rightarrow> recovery_row \<Rightarrow> recovery_receipt \<Rightarrow> bool" where
  "unfinished_receipt w v r =
    (db_ok w \<and> v \<in> set (recoveries (w_db w)) \<and> v_finished v = None \<and> recovery_joined (w_db w) v = Some r)"

lemma ensures_rs_record:
  assumes "wp m (\<lambda>_ d. P d) (\<lambda>_ _. True) (w_db w)"
  shows "ensures (rs_record svc m) P w"
  using assms unfolding rs_record_def rs_require_claim_def
  by (cases "rs_claim svc") (auto simp: ensures_db ensures_fail seq_def intro!: ensures_ext, simp add: ensures_def wp_simps)

lemma owned_resource:
  assumes "store_sandbox_resource sid bid rid d = (Inr ow, d)"
  shows "sb_resource_id ow = rid"
  using assms by (auto simp: store_sandbox_resource_def bnd_def gets_def the_row_def ret_def fail_def sandbox_value_def
      resource_of_def split: option.splits if_splits dest: row_of_key)

lemma rs_step_progress:
  assumes "unfinished_receipt w v r"
  shows "ensures (rs_step svc j r) (\<lambda>d. recovery_backlog d < recovery_backlog (w_db w)) w"
proof -
  have v: "db_inv (w_db w)" "v \<in> set (recoveries (w_db w))" "v_finished v = None" and j: "recovery_joined (w_db w) v = Some r"
    using assms by (auto simp: unfinished_receipt_def db_ok_def)
  note cols = joined_columns [OF j]
  have read: "only_reads (store_sandbox_resource sid bid rid)" for sid bid rid
    by (rule only_readsI) (intro keeps_intros)
  have bind: "wp (record_recovery_restored r pid) (\<lambda>_ d. recovery_backlog d < recovery_backlog (w_db w)) (\<lambda>_ _. True) (w_db w)"
    if "rv_destination_provider r = []" for pid
    using bind_backlog [OF v, of pid] that cols by (simp add: record_recovery_restored_def wp_seq wp_require)
  have verify: "wp (record_recovery_verified (rq_id (rv_request r))) (\<lambda>_ d. recovery_backlog d < recovery_backlog (w_db w))
      (\<lambda>_ _. True) (w_db w)" if "rv_verified r = None"
    using verified_recovery_backlog [OF v(2,3)] that cols by simp
  have delete: "wp (record_sandbox_resource_deleted ow) (\<lambda>_ d. recovery_backlog d < recovery_backlog (w_db w)) (\<lambda>_ _. True) (w_db w)"
    if "rv_source_deleted r = None" "sb_resource_id ow = rv_source r" for ow
    using delete_backlog [OF v(2,3,1), of ow] that cols by simp
  show ?thesis
  proof (cases "rv_destination_provider r = [] \<or> rv_verified r = None")
    case True
    have "ensures (if rv_destination_provider r = [] then
         bnd (on_ext (rd_restore (rs_driver svc) j ow (rv_checkpoint r))) (\<lambda>pid.
         rs_record svc (record_recovery_restored r pid))
       else seq (on_ext (rd_verify (rs_driver svc) j ow (rv_checkpoint r) (rv_package r)))
             (rs_record svc (record_recovery_verified (rq_id (rv_request r)))))
        (\<lambda>d. recovery_backlog d < recovery_backlog (w_db w)) w" for ow
      using True bind verify by (auto intro!: ensures_ext ensures_ext_seq ensures_rs_record)
    with True show ?thesis
      unfolding rs_step_def if_P [OF True] rs_resource_def by (intro ensures_read read)
  next
    case False
    show ?thesis
    proof (cases "rv_source_deleted r = None")
      case True
      have "ensures (bnd (on_db (store_sandbox_resource sid bid (rv_source r))) (\<lambda>source.
          seq (on_ext (rd_delete (rs_driver svc) source)) (rs_record svc (record_sandbox_resource_deleted source))))
          (\<lambda>d. recovery_backlog d < recovery_backlog (w_db w)) w" for sid bid
        by (intro ensures_read read ensures_ext_seq ensures_rs_record)
          (use delete [OF True] owned_resource in auto)
      then show ?thesis unfolding rs_step_def if_not_P [OF False] if_P [OF True] rs_resource_def .
    next
      case live: False
      show ?thesis unfolding rs_step_def if_not_P [OF False] if_not_P [OF live]
        by (rule ensures_db) (rule finish_recovery_backlog [OF v j])
    qed
  qed
qed

lemma rs_attend_progress:
  fixes w :: "'w world"
  assumes "unfinished_receipt w v r"
  shows "wp (rs_attend svc j r) (\<lambda>b x. b \<longrightarrow> recovery_backlog (w_db x) < recovery_backlog (w_db w)) (\<lambda>_ _. True) w"
proof -
  let ?Q = "\<lambda>b x. b \<longrightarrow> recovery_backlog (w_db x) < recovery_backlog (w_db w)"
  have failing: "wp (rs_attention svc r e) ?Q (\<lambda>_ _. True) x" for e x
    unfolding rs_attention_def wp_seq wp_fail by (rule wp_mono [OF wp_trivial]) (auto intro: wp_mono [OF wp_trivial])
  have clear: "wp (seq (on_db (clear_execution_attention sid src)) (ret True)) ?Q (\<lambda>_ _. True) x"
    if "recovery_backlog (w_db x) < recovery_backlog (w_db w)" for sid src and x :: "'w world"
    using that by (simp add: clear_execution_attention_def q_clear_execution_attention_def wp_simps Let_def
        recovery_backlog_def)
  have step: "wp (bnd (attempt (rs_step svc j r)) (\<lambda>res. case res of
             Inl e \<Rightarrow> rs_attention svc r e
           | Inr _ \<Rightarrow> seq (on_db (clear_execution_attention (sess_id j) (recovery_attention_source r))) (ret True)))
      ?Q (\<lambda>_ _. True) x" if "w_db x = w_db w" for x
  proof -
    have "unfinished_receipt x v r" using assms that by (simp add: unfinished_receipt_def db_ok_def)
    from rs_step_progress [OF this, of svc j] that
    have "wp (rs_step svc j r) (\<lambda>_ x. recovery_backlog (w_db x) < recovery_backlog (w_db w)) (\<lambda>_ _. True) x"
      by (simp add: ensures_def)
    then show ?thesis
      unfolding wp_bnd wp_attempt sum.case by (rule wp_mono) (simp_all add: clear failing)
  qed
  have claim: "wp (rs_require_claim svc) (\<lambda>_ x. w_db x = w_db w) (\<lambda>_ _. True) w"
  proof (cases "rs_claim svc")
    case (Some c)
    have "wp (on_ext c) (\<lambda>_ x. w_db x = w_db w) (\<lambda>_ _. True) w"
      by (rule wp_mono [OF wp_ext_db]) simp_all
    with Some show ?thesis by (simp add: rs_require_claim_def)
  qed (simp add: rs_require_claim_def wp_fail)
  have safe: "wp (on_db (rs_require_safe r)) (\<lambda>_ x. x = w) (\<lambda>_ x. x = w) w"
    unfolding wp_on_db by (rule wp_mono [OF wp_reader [where s = "w_db w"]]) (auto intro: keeps_intros)
  have go: "wp (seq (rs_require_claim svc) (bnd (attempt (rs_step svc j r)) (\<lambda>res. case res of
             Inl e \<Rightarrow> rs_attention svc r e
           | Inr _ \<Rightarrow> seq (on_db (clear_execution_attention (sess_id j) (recovery_attention_source r))) (ret True))))
      ?Q (\<lambda>_ _. True) w"
    unfolding wp_seq [of "rs_require_claim svc"] by (rule wp_mono [OF claim]) (use step in simp_all)
  show ?thesis
    unfolding rs_attend_def wp_bnd [of "attempt (on_db (rs_require_safe r))"] wp_attempt [of "on_db (rs_require_safe r)"] sum.case
    by (rule wp_mono [OF safe]) (simp_all add: go failing)
qed

lemma rs_first_progress:
  assumes "db_ok w" and "\<And>r. r \<in> set rs \<Longrightarrow> \<exists>v \<in> set (recoveries (w_db w)). recovery_joined (w_db w) v = Some r"
  shows "wp (rs_first svc j rs) (\<lambda>b x. b \<longrightarrow> recovery_backlog (w_db x) < recovery_backlog (w_db w)) (\<lambda>_ _. True) w"
  using assms(2)
proof (induction rs)
  case (Cons r rs)
  show ?case
  proof (cases "rv_finished r = None")
    case True
    obtain v where v: "v \<in> set (recoveries (w_db w))" "recovery_joined (w_db w) v = Some r" using Cons.prems by auto
    with True assms(1) have "unfinished_receipt w v r" using joined_columns(3) [OF v(2)] by (simp add: unfinished_receipt_def)
    from rs_attend_progress [OF this] True show ?thesis by simp
  qed (use Cons in simp)
qed (simp add: wp_ret)

lemma map_filter_in: "r \<in> set (List.map_filter f xs) \<Longrightarrow> \<exists>x \<in> set xs. f x = Some r"
  by (auto simp: List.map_filter_def)

lemma rs_reconcile_progress:
  assumes "db_ok w"
  shows "wp (rs_reconcile svc task sid) (\<lambda>b x. b \<longrightarrow> recovery_backlog (w_db x) < recovery_backlog (w_db w)) (\<lambda>_ _. True) w"
proof -
  let ?Q = "\<lambda>b x. b \<longrightarrow> recovery_backlog (w_db x) < recovery_backlog (w_db w)"
  have list: "wp (bnd (on_db (session_recoveries sid)) (rs_first svc j)) ?Q (\<lambda>_ _. True) w" for j
    unfolding wp_bnd wp_on_db session_recoveries_def wp_gets
    by simp (rule rs_first_progress [OF assms], auto dest!: map_filter_in)
  have "wp (on_db (store_session sid)) (\<lambda>_ x. x = w) (\<lambda>_ _. True) w"
    unfolding wp_on_db by (rule wp_mono [OF wp_reader [where s = "w_db w"]]) (auto intro: keeps_intros)
  then show ?thesis
    unfolding rs_reconcile_def wp_bnd [of "on_db (store_session sid)"]
    by (rule wp_mono) (auto simp: wp_seq wp_require wp_if wp_ret list)
qed

interpretation recovery_loop: reconciler "rs_reconcile svc task sid" recovery_backlog for svc task sid
  by unfold_locales (rule keeps_rs_reconcile, erule rs_reconcile_progress)

end
