(* ===== verification/Direct_Task.thy ===== *)
theory Direct_Task
  imports Direct_Admission Recovery_Service
begin

text \<open>
  The durable task of a direct Session (\<open>internal/direct/task.go\<close>): ensure the default Sandbox,
  wait while a checkpoint branch is held, create the route, then reconcile until the Session
  stops. The wake revision is read before each reconciliation, so a wake that is committed
  meanwhile is not lost. The two loops have no end of their own: they are given fuel, and
  \<open>None\<close> is the answer of a loop that used it up.
\<close>

record 'w direct_execution =
  de_reconcile :: "string \<Rightarrow> ('w, reconciliation_progress) eff"
  de_reconcile_idle :: "string \<Rightarrow> ('w, unit) eff"
  de_action :: "string \<Rightarrow> string \<Rightarrow> action_kind \<Rightarrow> ('w, unit) eff"
  de_branch :: "(string \<Rightarrow> ('w, bool) eff) option"

record 'w direct_task =
  dt_application :: "'w application"
  dt_resolve :: "(profile_ref \<Rightarrow> ('w, profile_ref \<times> 'w direct_execution option) act) option"
  dt_await :: "string \<Rightarrow> int \<Rightarrow> string \<Rightarrow> ('w, execution_wake) act" \<comment> \<open>step name and timeout\<close>
  dt_branch_store :: bool

definition active_poll_interval :: int where "active_poll_interval = second"
definition idle_poll_interval :: int where "idle_poll_interval = 30 * second"

definition wake_options :: "reconciliation_progress \<Rightarrow> int \<Rightarrow> string \<times> int" where
  "wake_options p rev_no =
    (if p = ReconciliationPending then (''dorf/direct-agent-wake/v2/'' @ pad20 (nat rev_no), active_poll_interval)
     else (''dorf/direct-session-wake/v2/'' @ pad20 (nat rev_no), idle_poll_interval))"

definition resolve_direct_runtime :: "'w direct_task \<Rightarrow> session \<Rightarrow> ('w, 'w direct_execution) eff" where
  "resolve_direct_runtime dt j =
    (case dt_resolve dt of None \<Rightarrow> fail (Errorf ''Sandbox runtime resolution is not configured'')
     | Some resolve \<Rightarrow>
         bnd (attempt (on_ext (resolve (profile_ref_of j)))) (\<lambda>r. case r of
           Inl e \<Rightarrow> fail (Wrapf ''resolve Sandbox profile'' e)
         | Inr (ref, ex) \<Rightarrow>
             (case ex of None \<Rightarrow> fail (Errorf ''direct Session runtime does not match its admitted profile'')
              | Some de \<Rightarrow>
                  seq (require (ref = profile_ref_of j) (Errorf ''direct Session runtime does not match its admitted profile''))
                 (if dt_branch_store dt then
                    bnd (on_db (has_checkpoint_branch (sess_id j))) (\<lambda>branched.
                    seq (require (\<not> (branched \<and> de_branch de = None)) (Errorf ''checkpoint branch runtime is unavailable''))
                        (ret de))
                  else ret de))))"

definition direct_await :: "'w direct_task \<Rightarrow> string \<Rightarrow> int \<Rightarrow> string \<Rightarrow> int \<Rightarrow> ('w, unit) eff" where
  "direct_await dt sid rev_no step timeout = await_execution_wake (dt_await dt step timeout) sid rev_no"

fun await_branch_release :: "'w direct_task \<Rightarrow> (string \<Rightarrow> ('w, bool) eff) \<Rightarrow> string \<Rightarrow> nat \<Rightarrow> ('w, unit option) eff" where
  "await_branch_release dt branch sid 0 = ret None"
| "await_branch_release dt branch sid (Suc n) =
    bnd (app_wake_revision sid) (\<lambda>rev_no.
    bnd (branch sid) (\<lambda>held.
    if \<not> held then ret (Some ())
    else seq (direct_await dt sid (rev_no + 1) (''dorf/checkpoint-branch-wake/v1/'' @ pad20 (nat (rev_no + 1))) idle_poll_interval)
             (await_branch_release dt branch sid n)))"

definition stop_or_fail :: "'w direct_task \<Rightarrow> string \<Rightarrow> string \<Rightarrow> err \<Rightarrow> ('w, task_result option) eff" where
  \<comment> \<open>a missing artifact ends the task with a result; any other cause fails it\<close>
  "stop_or_fail dt sid source e =
    bnd (stop_for_unavailable_profile (dt_application dt) sid source e) (\<lambda>stopped. case stopped of
      None \<Rightarrow> fail e
    | Some r \<Rightarrow> ret (Some r))"

definition reconcile_at_wake_revision ::
  "'w direct_execution \<Rightarrow> string \<Rightarrow> ('w, int \<times> reconciliation_progress) eff" where
  "reconcile_at_wake_revision de sid =
    bnd (app_wake_revision sid) (\<lambda>rev_no.
    bnd (de_reconcile de sid) (\<lambda>p. ret (rev_no, p)))"

fun direct_loop :: "'w direct_task \<Rightarrow> 'w direct_execution \<Rightarrow> string \<Rightarrow> nat \<Rightarrow> ('w, task_result option) eff" where
  "direct_loop dt de sid 0 = ret None"
| "direct_loop dt de sid (Suc n) =
    bnd (attempt (reconcile_at_wake_revision de sid)) (\<lambda>r. case r of
      Inl e \<Rightarrow> stop_or_fail dt sid sid e
    | Inr (rev_no, p) \<Rightarrow>
        if p = ReconciliationReady then direct_loop dt de sid n
        else
          seq (attempt (de_reconcile_idle de sid))
         (case wake_options p (rev_no + 1) of (step, timeout) \<Rightarrow>
          seq (direct_await dt sid (rev_no + 1) step timeout) (direct_loop dt de sid n)))"

definition direct_bootstrap ::
  "'w direct_task \<Rightarrow> string \<Rightarrow> string \<Rightarrow> nat \<Rightarrow> ('w, (task_result + 'w direct_execution) option) eff" where
  \<comment> \<open>the Sandbox, the branch and the route; \<open>h\<close> is the handle of the Session\<close>
  "direct_bootstrap dt h sid n =
    bnd (on_db (store_session sid)) (\<lambda>j.
    bnd (resolve_direct_runtime dt j) (\<lambda>de.
    let main = main_sandbox_name (sess_id j) in
    bnd (attempt (ensure_default_sandbox (dt_application dt) h)) (\<lambda>r. case r of
      Inl e \<Rightarrow> bnd (stop_or_fail dt sid (scoped_action_id (sess_id j) ActionSandboxCreate main) e)
                 (\<lambda>x. ret (map_option Inl x))
    | Inr bid \<Rightarrow>
        seq (require (bid = main) (Errorf ''ensured Sandbox changed selected identity''))
       (bnd (case de_branch de of None \<Rightarrow> ret (Some ()) | Some b \<Rightarrow> await_branch_release dt b (sess_id j) n) (\<lambda>released.
        case released of None \<Rightarrow> ret None | Some _ \<Rightarrow>
          bnd (attempt (de_action de (sess_id j) bid ActionRouteCreate)) (\<lambda>r. case r of
            Inl e \<Rightarrow> bnd (stop_or_fail dt sid (scoped_action_id (sess_id j) ActionRouteCreate bid) e)
                       (\<lambda>x. ret (map_option Inl x))
          | Inr _ \<Rightarrow> ret (Some (Inr de))))))))"

definition run_direct_task :: "'w direct_task \<Rightarrow> string \<Rightarrow> nat \<Rightarrow> ('w, task_result option) eff" where
  \<comment> \<open>the handler \<open>Register\<close> installs\<close>
  "run_direct_task dt sid n =
    seq (verify_attached_task (dt_application dt) sid direct_task_name)
   (bnd (open_session sid) (\<lambda>h.
    bnd (direct_bootstrap dt h sid n) (\<lambda>b. case b of
      None \<Rightarrow> ret None
    | Some (Inl r) \<Rightarrow> ret (Some r)
    | Some (Inr de) \<Rightarrow> direct_loop dt de sid n)))"

end
