(* ===== verification/Execution_Stack.thy ===== *)
theory Execution_Stack
  imports Terminal_Externals Direct_Task Upgrade_Service
begin

text \<open>
  How a worker composes the services for one profile: the driver of upgrades over a provider
  (\<open>internal/upgrade/native.go\<close>), the executions that put upgrades, recoveries and branches in
  front of the execution service of Core (\<open>internal/upgrade/execution.go\<close>,
  \<open>cmd/dorf/persistence_recovery.go\<close>, \<open>persistence_branch.go\<close>, \<open>persistence_cleanup.go\<close>), and the
  choice between them (\<open>cmd/dorf/runtime.go\<close>). The Codex agent, the restic client and the
  construction of a provider from a profile are parameters.
\<close>

section \<open>The upgrade driver\<close>

record 'w codex_agent =
  ag_quiesce :: "ownership \<Rightarrow> string \<Rightarrow> ('w, unit) act"
  ag_verify_upgrade :: "ownership \<Rightarrow> string \<Rightarrow> ('w, unit) act"
  ag_verify_retained :: "ownership \<Rightarrow> string \<Rightarrow> ('w, unit) act"

text \<open>\<open>nd_tries\<close>: how often a guest is probed before its two minutes have passed; the scripts are texts.\<close>

record 'w native_driver =
  nd_sandbox :: "'w sandbox_provider"
  nd_checkpointer :: "'w checkpointer"
  nd_agent :: "'w codex_agent"
  nd_replace :: bool
  nd_tries :: nat
  nd_inspect_script :: string
  nd_activate_script :: string

fun guest_ready :: "'w sandbox_provider \<Rightarrow> ownership \<Rightarrow> nat \<Rightarrow> ('w, unit) act" where
  "guest_ready p owner 0 = fail (Errorf ''guest did not become ready before upgrade operation'')"
| "guest_ready p owner (Suc n) =
    bnd (attempt (box_exec p owner [] [''true''])) (\<lambda>r. case r of
      Inr x \<Rightarrow> if xr_exit x = 0 then ret () else guest_ready p owner n
    | Inl _ \<Rightarrow> guest_ready p owner n)"

definition nd_ready :: "'w native_driver \<Rightarrow> sandbox \<Rightarrow> ('w, unit) act" where
  "nd_ready d b = guest_ready (nd_sandbox d) (ownership_metadata b) (nd_tries d)"

definition nd_validate :: "upgrade_request \<Rightarrow> ('w, unit) act" where
  "nd_validate r = (case validate_upgrade_request r of Some e \<Rightarrow> fail e | None \<Rightarrow> ret ())"

definition nd_inspect :: "'w native_driver \<Rightarrow> sandbox \<Rightarrow> upgrade_request \<Rightarrow> ('w, string) act" where
  "nd_inspect d b r =
    seq (nd_validate r)
   (bnd (box_exec (nd_sandbox d) (ownership_metadata b) []
          [''bash'', ''-c'', nd_inspect_script d, ''dorf-upgrade'', up_path r, up_version r]) (\<lambda>x.
    seq (require (xr_exit x = 0) (Errorf ''staged package verification failed''))
   (let version = trim_prefix (trim_space (xr_stdout x)) ''codex-cli '' in
    seq (require (package_version_ok version) (Errorf ''current runner omitted its exact version''))
        (ret version))))"

definition nd_activate :: "'w native_driver \<Rightarrow> sandbox \<Rightarrow> upgrade_request \<Rightarrow> ('w, unit) act" where
  "nd_activate d b r =
    seq (nd_ready d b)
   (seq (nd_validate r)
   (bnd (box_exec (nd_sandbox d) (ownership_metadata b) []
          [''bash'', ''-c'', nd_activate_script d, ''dorf-upgrade'', up_path r, up_version r]) (\<lambda>x.
    require (xr_exit x = 0) (Errorf ''package activation did not verify''))))"

definition nd_restore :: "'w native_driver \<Rightarrow> sandbox \<Rightarrow> sandbox \<Rightarrow> checkpoint \<Rightarrow> ('w, string) act" where
  "nd_restore d source destination c =
    bnd (ck_restore (nd_checkpointer d) (ownership_metadata source) (ownership_metadata destination) c) (\<lambda>i.
    seq (nd_ready d destination) (ret i))"

definition nd_verify :: "'w native_driver \<Rightarrow> sandbox \<Rightarrow> string \<Rightarrow> string \<Rightarrow> ('w, unit) act" where
  "nd_verify d b version th =
    bnd (box_exec (nd_sandbox d) (ownership_metadata b) [] [''codex'', ''--version'']) (\<lambda>x.
    seq (require (\<not> (xr_exit x \<noteq> 0 \<or> trim_space (xr_stdout x) \<noteq> ''codex-cli '' @ version))
          (Errorf ''restored runner version does not match''))
        (ag_verify_upgrade (nd_agent d) (ownership_metadata b) th))"

definition native_upgrade_driver :: "'w native_driver \<Rightarrow> 'w upgrade_driver" where
  "native_upgrade_driver d =
    \<lparr>inspect_package = nd_inspect d,
     quiesce = (\<lambda>b th. ag_quiesce (nd_agent d) (ownership_metadata b) th),
     capture = (\<lambda>b key. ck_capture (nd_checkpointer d) (ownership_metadata b) key),
     activate = nd_activate d,
     replaces_resource = nd_replace d,
     restore = nd_restore d,
     verify_package = nd_verify d,
     delete_resource = (\<lambda>b. box_delete (nd_sandbox d) (ownership_metadata b)),
     delete_checkpoint = (\<lambda>b c. ck_delete (nd_checkpointer d) (ownership_metadata b) c)\<rparr>"

section \<open>Upgrades before ordinary work\<close>

record 'w upgrade_execution =
  ue_core :: "'w execution"
  ue_upgrades :: "'w upgrade_service"

definition ue_runtime :: "'w upgrade_execution \<Rightarrow> 'w task_runtime" where
  "ue_runtime ue = es_runtime (ue_core ue)"

definition ue_reconcile :: "'w upgrade_execution \<Rightarrow> string \<Rightarrow> ('w, reconciliation_progress) eff" where
  "ue_reconcile ue sid =
    bnd (with_heartbeat (ue_runtime ue) (us_reconcile (ue_upgrades ue) (rt_task (ue_runtime ue)) sid)) (\<lambda>progress.
    if progress then ret ReconciliationReady else es_reconcile_session (ue_core ue) sid)"

definition ue_prepare_cleanup :: "'w upgrade_execution \<Rightarrow> string \<Rightarrow> ('w, session \<times> sandbox list) eff" where
  "ue_prepare_cleanup ue sid =
    bnd (es_prepare_cleanup (ue_core ue) sid) (\<lambda>(j, bs).
    if cleanup_state j = CleanupComplete then ret (j, bs)
    else seq (us_prepare_cleanup (ue_upgrades ue) (rt_task (ue_runtime ue)) sid) (ret (j, bs)))"

definition ue_complete_cleanup :: "'w upgrade_execution \<Rightarrow> string \<Rightarrow> ('w, unit) eff" where
  "ue_complete_cleanup ue sid =
    seq (us_complete_cleanup (ue_upgrades ue) (rt_task (ue_runtime ue)) sid) (es_complete_cleanup (ue_core ue) sid)"

definition upgrade_cleanup :: "'w upgrade_execution \<Rightarrow> 'w cleanup_execution" where
  "upgrade_cleanup ue =
    \<lparr>ce_prepare = ue_prepare_cleanup ue, ce_action = es_execute_action (ue_core ue), ce_complete = ue_complete_cleanup ue\<rparr>"

section \<open>Restoring a checkpoint\<close>

record 'w checkpoint_driver =
  cr_repository :: string \<comment> \<open>the configured repository\<close>
  cr_sandbox :: "'w sandbox_provider"
  cr_agent :: "'w codex_agent"
  cr_externals :: "'w externals"
  cr_restore_files :: "ownership \<Rightarrow> ownership \<Rightarrow> string \<Rightarrow> ('w, unit) act" \<comment> \<open>restic, from the repository of the second owner\<close>
  cr_package_script :: string

definition cr_restore_into :: "'w checkpoint_driver \<Rightarrow> sandbox \<Rightarrow> sandbox \<Rightarrow> persisted_checkpoint \<Rightarrow> ('w, string) act" where
  "cr_restore_into d source destination c =
    (let owner = ownership_metadata destination in
     seq (require (\<not> (ref_repository (pc_reference c) \<noteq> cr_repository d \<or> cb_session (pc_boundary c) \<noteq> sb_session_id source \<or>
                      cb_sandbox (pc_boundary c) \<noteq> sb_id source \<or> cb_profile (pc_boundary c) = [] \<or>
                      sb_session_id destination = [] \<or> sb_ownership_nonce source = []))
           (Errorf ''checkpoint restore custody differs''))
    (seq (box_create (cr_sandbox d) owner)
    (seq (cr_restore_files d owner (ownership_metadata source) (ref_snapshot (pc_reference c)))
    (case box_observe (cr_sandbox d) of None \<Rightarrow> fail (Errorf ''recovery requires an attested provider resource locator'')
     | Some observe \<Rightarrow>
         bnd (observe owner) (\<lambda>st.
         seq (require (\<not> (pst_id st = [] \<or> pst_state st \<noteq> ''running'')) (Errorf ''restored resource is not running''))
             (ret (pst_id st)))))))"

definition cr_restore :: "'w checkpoint_driver \<Rightarrow> session \<Rightarrow> sandbox \<Rightarrow> persisted_checkpoint \<Rightarrow> ('w, string) act" where
  "cr_restore d j destination c =
    seq (require (\<not> (ref_repository (pc_reference c) \<noteq> cr_repository d \<or> cb_session (pc_boundary c) \<noteq> sess_id j \<or>
                     cb_sandbox (pc_boundary c) \<noteq> sb_id destination))
          (Errorf ''recovery checkpoint differs from configured repository or owner''))
        (cr_restore_into d destination destination c)"

definition cr_restore_package :: "'w checkpoint_driver \<Rightarrow> ownership \<Rightarrow> effective_package \<Rightarrow> ('w, unit) act" where
  "cr_restore_package d owner p =
    (if pk_upgrade p = [] then ret ()
     else seq (require (\<not> (\<not> has_prefix (pk_path p) nix_store \<or> pk_version p = []))
                (Errorf ''checkpoint package generation is incomplete''))
         (bnd (box_exec (cr_sandbox d) owner []
                [''bash'', ''-c'', cr_package_script d, ''dorf-checkpoint-package'', pk_path p, pk_version p]) (\<lambda>x.
          require (xr_exit x = 0) (Errorf ''exact checkpoint package generation could not be rebuilt''))))"

definition cr_verify_and_renew ::
  "'w checkpoint_driver \<Rightarrow> session \<Rightarrow> sandbox \<Rightarrow> persisted_checkpoint \<Rightarrow> effective_package \<Rightarrow> ('w, unit) act" where
  "cr_verify_and_renew d j destination c p =
    (let owner = ownership_metadata destination; route = route_for_sandbox destination in
     seq (require (\<not> (ref_repository (pc_reference c) \<noteq> cr_repository d \<or> cb_session (pc_boundary c) \<noteq> sess_id j))
           (Errorf ''checkpoint recovery custody differs''))
    (seq (ag_quiesce (cr_agent d) owner (thread_id j))
    (seq (cr_restore_package d owner p)
    (seq (gw_revoke (ex_gateway (cr_externals d)) (route_consumer destination) (route_id route))
    (seq (route_create (cr_externals d) j destination route)
         (ag_verify_retained (cr_agent d) owner (thread_id j)))))))"

definition checkpoint_recovery_driver :: "'w checkpoint_driver \<Rightarrow> 'w recovery_driver" where
  "checkpoint_recovery_driver d =
    \<lparr>rd_restore = cr_restore d, rd_verify = cr_verify_and_renew d,
     rd_delete = (\<lambda>b. box_delete (cr_sandbox d) (ownership_metadata b))\<rparr>"

section \<open>Recoveries and branches before upgrades\<close>

text \<open>
  \<open>xe_driver\<close> resolves the driver of a pinned profile; \<open>xe_recovery\<close> is the recovery service
  over a driver; \<open>xe_capture\<close> saves a Sandbox before its deletion.
\<close>

record 'w checkpoint_execution =
  xe_upgrade :: "'w upgrade_execution"
  xe_driver :: "profile_ref \<Rightarrow> ('w, 'w checkpoint_driver) eff"
  xe_env :: absurd_env
  xe_queue :: string
  xe_capture :: "session \<Rightarrow> sandbox \<Rightarrow> ('w, unit) eff"

definition xe_core :: "'w checkpoint_execution \<Rightarrow> 'w execution" where
  "xe_core xe = ue_core (xe_upgrade xe)"

definition xe_runtime :: "'w checkpoint_execution \<Rightarrow> 'w task_runtime" where
  "xe_runtime xe = es_runtime (xe_core xe)"

definition xe_recovery :: "'w checkpoint_execution \<Rightarrow> profile_ref \<Rightarrow> ('w, 'w recovery_service) eff" where
  "xe_recovery xe ref =
    bnd (xe_driver xe ref) (\<lambda>d.
    ret \<lparr>rs_driver = checkpoint_recovery_driver d, rs_queue = xe_queue xe, rs_env = xe_env xe,
         rs_claim = es_claim (xe_core xe)\<rparr>)"

definition xe_reconcile :: "'w checkpoint_execution \<Rightarrow> string \<Rightarrow> ('w, reconciliation_progress) eff" where
  "xe_reconcile xe sid =
    bnd (on_db (store_session sid)) (\<lambda>j.
    bnd (xe_recovery xe (profile_ref_of j)) (\<lambda>svc.
    bnd (with_heartbeat (xe_runtime xe) (rs_reconcile svc (rt_task (xe_runtime xe)) sid)) (\<lambda>progressed.
    if progressed then ret ReconciliationReady else ue_reconcile (xe_upgrade xe) sid)))"

definition branch_hold_kept :: "branch_receipt \<Rightarrow> (db, unit) act" where
  "branch_hold_kept x =
    bnd (session_delivery_holds (bc_session x)) (\<lambda>hs.
    require (list_ex (\<lambda>h. hold_id h = br_id (bc_request x) \<and> hold_sandbox_id h = bc_sandbox x \<and>
                          hold_reason h = ''checkpoint_branch'') hs)
      (Errorf ''branch lost its exact destination hold''))"

definition branch_authority :: "'w checkpoint_execution \<Rightarrow> branch_receipt \<Rightarrow> ('w, branch_receipt) eff" where
  "branch_authority xe x =
    bnd (on_db (store_session (bc_session x))) (\<lambda>j.
    seq (require (case rt_task (xe_runtime xe) of None \<Rightarrow> False | Some (tid, _) \<Rightarrow> tid = current_task_id j)
          (Errorf ''branch executor no longer owns the Session task''))
   (seq (require (\<not> (\<not> admission_open j \<or> cleanup_state j \<noteq> CleanupPending \<or> thread_id j \<noteq> bc_thread x))
          (Errorf ''branch Session is not open with its exact native binding''))
   (bnd (on_db (session_checkpoint_branch (sess_id j))) (\<lambda>got. case got of
      None \<Rightarrow> fail (Errorf ''branch custody changed'')
    | Some y \<Rightarrow>
        seq (require (bc_request y = bc_request x \<and> bc_sandbox y = bc_sandbox x) (Errorf ''branch custody changed''))
       (seq (on_db (branch_hold_kept y))
       (seq (es_require_claim (xe_core xe)) (ret y)))))))"

definition restore_branch_snapshot :: "'w checkpoint_execution \<Rightarrow> branch_receipt \<Rightarrow> ('w, unit) eff" where
  "restore_branch_snapshot xe x =
    bnd (xe_driver xe \<lparr>pr_name = cb_profile (pc_boundary (bc_checkpoint x)),
                       pr_revision = cb_profile_revision (pc_boundary (bc_checkpoint x))\<rparr>) (\<lambda>d.
    bnd (on_db (store_sandbox (cb_sandbox (pc_boundary (bc_checkpoint x))))) (\<lambda>source.
    bnd (on_db (store_sandbox (bc_sandbox x))) (\<lambda>destination.
    seq (require (\<not> (sb_session_id source \<noteq> br_source (bc_request x) \<or> sb_session_id destination \<noteq> bc_session x \<or>
                     sb_provider_id destination = []))
          (Errorf ''branch restore has no exact source and destination custody''))
   (bnd (on_ext (cr_restore_into d source destination (bc_checkpoint x))) (\<lambda>_. ret ())))))"

definition restore_branch :: "'w checkpoint_execution \<Rightarrow> branch_receipt \<Rightarrow> ('w, unit) eff" where
  "restore_branch xe x =
    with_session_fence (xe_runtime xe) (bc_session x)
     (bnd (branch_authority xe x) (\<lambda>y.
      if bc_restored y \<noteq> None then ret ()
      else seq (restore_branch_snapshot xe y)
          (seq (es_require_claim (xe_core xe))
               (on_db (record_branch_restored (br_id (bc_request y)))))))"

definition verify_branch_thread :: "'w checkpoint_execution \<Rightarrow> branch_receipt \<Rightarrow> ('w, unit) eff" where
  "verify_branch_thread xe x =
    bnd (xe_driver xe \<lparr>pr_name = cb_profile (pc_boundary (bc_checkpoint x)),
                       pr_revision = cb_profile_revision (pc_boundary (bc_checkpoint x))\<rparr>) (\<lambda>d.
    bnd (on_db (store_sandbox (bc_sandbox x))) (\<lambda>destination.
    on_ext (ag_verify_upgrade (cr_agent d) (ownership_metadata destination) (bc_thread x))))"

definition release_branch :: "'w checkpoint_execution \<Rightarrow> branch_receipt \<Rightarrow> ('w, unit) eff" where
  "release_branch xe x =
    seq (es_execute_action (xe_core xe) (bc_session x) (bc_sandbox x) ActionRouteCreate)
   (with_session_fence (xe_runtime xe) (bc_session x)
     (bnd (branch_authority xe x) (\<lambda>y.
      if bc_ready y \<noteq> None then ret ()
      else seq (require (bc_release y \<noteq> None) (Errorf ''branch release is not requested''))
          (seq (verify_branch_thread xe y)
          (seq (es_require_claim (xe_core xe))
               (on_db (finish_checkpoint_branch y)))))))"

definition xe_reconcile_branch :: "'w checkpoint_execution \<Rightarrow> string \<Rightarrow> ('w, bool) eff" where
  "xe_reconcile_branch xe sid =
    bnd (on_db (session_checkpoint_branch sid)) (\<lambda>got. case got of
      None \<Rightarrow> ret False
    | Some x \<Rightarrow>
        if bc_ready x \<noteq> None then ret False
        else if bc_restored x \<noteq> None \<and> bc_release x = None then ret True
        else with_heartbeat (xe_runtime xe)
          (if bc_restored x = None then seq (restore_branch xe x) (ret True)
           else seq (release_branch xe x) (ret False)))"

section \<open>Cleanup with checkpoints\<close>

definition cleanup_capture_detail :: string where
  "cleanup_capture_detail = ''checkpoint before cleanup failed; source resource remains retained''"

definition xe_capture_all :: "'w checkpoint_execution \<Rightarrow> string \<Rightarrow> session \<Rightarrow> sandbox list \<Rightarrow> ('w, unit) eff" where
  "xe_capture_all xe sid j bs =
    for_each bs (\<lambda>b. bnd (attempt (xe_capture xe j b)) (\<lambda>r. case r of
      Inr _ \<Rightarrow> ret ()
    | Inl _ \<Rightarrow>
        bnd (attempt (on_db (set_cleanup_attention sid cleanup_capture_detail))) (\<lambda>_.
        fail (Errorf cleanup_capture_detail))))"

definition xe_prepare_cleanup :: "'w checkpoint_execution \<Rightarrow> string \<Rightarrow> ('w, session \<times> sandbox list) eff" where
  "xe_prepare_cleanup xe sid =
    bnd (ue_prepare_cleanup (xe_upgrade xe) sid) (\<lambda>(j, bs).
    if cleanup_state j = CleanupComplete then ret (j, bs)
    else
      bnd (xe_recovery xe (profile_ref_of j)) (\<lambda>svc.
      seq (rs_prepare_cleanup svc (rt_task (xe_runtime xe)) sid)
     (bnd (on_db (session_checkpoint_branch sid)) (\<lambda>branch.
      if (case branch of None \<Rightarrow> False | Some x \<Rightarrow> bc_ready x = None) then ret (j, bs)
      else seq (xe_capture_all xe sid j bs) (ret (j, bs))))))"

definition checkpoint_cleanup :: "'w checkpoint_execution \<Rightarrow> 'w cleanup_execution" where
  "checkpoint_cleanup xe =
    \<lparr>ce_prepare = xe_prepare_cleanup xe, ce_action = es_execute_action (xe_core xe),
     ce_complete = ue_complete_cleanup (xe_upgrade xe)\<rparr>"

section \<open>The executions of a direct Session\<close>

definition core_direct :: "'w execution \<Rightarrow> 'w direct_execution" where
  "core_direct ex =
    \<lparr>de_reconcile = es_reconcile_session ex, de_reconcile_idle = es_reconcile_idle ex,
     de_action = es_execute_action ex, de_branch = None\<rparr>"

definition upgrade_direct :: "'w upgrade_execution \<Rightarrow> 'w direct_execution" where
  "upgrade_direct ue = (core_direct (ue_core ue))\<lparr>de_reconcile := ue_reconcile ue\<rparr>"

definition checkpoint_direct :: "'w checkpoint_execution \<Rightarrow> 'w direct_execution" where
  "checkpoint_direct xe =
    (upgrade_direct (xe_upgrade xe))\<lparr>de_reconcile := xe_reconcile xe, de_branch := Some (xe_reconcile_branch xe)\<rparr>"

end
