(* ===== verification/Execution_Laws.thy ===== *)
theory Execution_Laws
  imports Core_Application
begin

text \<open>
  What the execution service guarantees about the calls it makes to the outside: a provider
  effect runs only in a state in which the store certifies its Action for the running task, a
  guest is paused only while its Session is idle, and a cleanup that reports success has settled
  everything the Session owns. A call is guarded by replacing it with one that does anything else
  where its precondition fails: the service cannot tell the difference.
\<close>

section \<open>Equal runs from one state\<close>

lemma bnd_at:
  assumes "m s = n s" and "\<And>x t. m s = (Inr x, t) \<Longrightarrow> f x t = g x t"
  shows "bnd m f s = bnd n g s"
  using assms by (auto simp: bnd_def split: prod.split sum.split)

lemma seq_at: "m s = n s \<Longrightarrow> (\<And>x t. m s = (Inr x, t) \<Longrightarrow> m' t = n' t) \<Longrightarrow> seq m m' s = seq n n' s"
  unfolding seq_def by (rule bnd_at)

lemma attempt_at: "m s = n s \<Longrightarrow> attempt m s = attempt n s"
  by (simp add: attempt_def)

lemma fence_at:
  assumes "\<And>x t. on_ext (rt_fence rt sid) w = (Inr x, t) \<Longrightarrow> m t = n t"
  shows "with_session_fence rt sid m w = with_session_fence rt sid n w"
  unfolding with_session_fence_def by (intro seq_at bnd_at attempt_at refl assms)

lemma heartbeat_at:
  assumes "\<And>t. w_db t = w_db w \<Longrightarrow> m t = n t"
  shows "with_heartbeat rt m w = with_heartbeat rt n w"
proof -
  have "w_db t = w_db w" if "attempt (on_ext (rt_heartbeat rt)) w = (r, t)" for r t
    using that by (auto simp: attempt_def on_ext_def split: prod.splits sum.splits)
  then show ?thesis
    unfolding with_heartbeat_def by (intro bnd_at refl) (auto intro!: bnd_at attempt_at assms split: sum.split)
qed

lemma on_ext_db: "on_ext m w = (r, v) \<Longrightarrow> w_db v = w_db w"
  by (auto simp: on_ext_def split: prod.splits)

lemma require_db: "require b e w = (r, v) \<Longrightarrow> v = w"
  by (auto simp: require_def ret_def fail_def split: if_splits)

lemma require_holds: "require b e w = (Inr x, v) \<Longrightarrow> b"
  by (auto simp: require_def ret_def fail_def split: if_splits)

lemma claim_db: "es_require_claim ex w = (r, v) \<Longrightarrow> w_db v = w_db w"
  by (auto simp: es_require_claim_def fail_def split: option.splits dest: on_ext_db)

section \<open>Effects need their authorisation\<close>

definition effect_authorized :: "'w execution \<Rightarrow> string \<Rightarrow> string \<Rightarrow> db \<Rightarrow> sandbox_action_authorization \<Rightarrow> bool" where
  \<comment> \<open>the store certifies the unsettled Action \<open>aid\<close> of the Session for the task that is running\<close>
  "effect_authorized ex sid aid d a =
    (\<exists>tid tname. rt_task (es_runtime ex) = Some (tid, tname) \<and>
       auth_certifies d aid (trim_space tid) (trim_space tname) True a \<and> matches_authorization sid aid tid tname a \<and>
       act_state (auth_action a) \<noteq> ActionSucceeded)"

definition guarded :: "('a \<Rightarrow> 's \<Rightarrow> bool) \<Rightarrow> ('a \<Rightarrow> ('s, 'b) act) \<Rightarrow> ('a \<Rightarrow> ('s, 'b) act) \<Rightarrow> 'a \<Rightarrow> ('s, 'b) act" where
  "guarded ok f other a = (\<lambda>s. if ok a s then f a s else other a s)"

lemma active_find_session:
  assumes "\<And>s. f s = s\<lparr>s_last_active := s_last_active (f s)\<rparr>"
  shows "find_session (sessions_update (upd_where (\<lambda>s. s_id s = sid) f) d) = find_session d"
proof (rule ext)
  fix i
  let ?e = "sessions_update (upd_where (\<lambda>s. s_id s = sid) f) d"
  have key: "s_id (f s) = s_id s" for s by (subst assms) simp
  have "session_value d (f s) = session_value d s" for s
    by (rule ext, subst assms) (simp add: session_value_def current_task_def session_tasks_def)
  moreover have "s_profile (f s) = s_profile s \<and> s_profile_revision (f s) = s_profile_revision s" for s
    by (subst (1 2) assms) simp
  moreover have "session_of ?e i = map_option (\<lambda>s. if s_id s = sid then f s else s) (session_of d i)"
    by (simp add: session_of_def row_of_upd_where key)
  moreover have "session_value ?e = session_value d"
    by (intro ext) (simp add: session_value_def current_task_def session_tasks_def)
  ultimately show "find_session ?e i = find_session d i"
    by (cases "session_of d i") (auto simp: find_session_def revision_of_def)
qed

lemma certifies_cong:
  assumes "actions e = actions d" and "find_sandbox e = find_sandbox d" and "find_session e = find_session d"
  shows "auth_certifies e aid tid tname req z = auth_certifies d aid tid tname req z"
proof -
  have "find_scoped_action e = find_scoped_action d"
    by (intro ext) (simp add: find_scoped_action_def assms(1))
  then show ?thesis by (simp add: auth_certifies_def assms)
qed

lemma begin_activity_certifies:
  assumes "begin_sandbox_activity sid d = (Inr u, e)"
  shows "auth_certifies e aid tid tname req z = auth_certifies d aid tid tname req z"
proof (rule certifies_cong)
  have e: "e = sessions_update (upd_where (\<lambda>s. s_id s = sid) (\<lambda>s. s\<lparr>s_last_active := None\<rparr>)) d"
    using assms by (auto simp: begin_sandbox_activity_def q_begin_sandbox_activity_def expect_one_rows_def
        update_tbl_def bnd_def require_def ret_def fail_def split: if_splits)
  show "find_session e = find_session d" unfolding e by (rule active_find_session) simp
  show "find_sandbox e = find_sandbox d" unfolding e by (rule find_sandbox_cong) simp_all
  show "actions e = actions d" by (simp add: e)
qed

lemma perform_guarded:
  "es_perform_action ex sid aid kind effect w =
   es_perform_action ex sid aid kind (guarded (\<lambda>a v. effect_authorized ex sid aid (w_db v) a) effect other) w"
proof -
  let ?g = "guarded (\<lambda>a v. effect_authorized ex sid aid (w_db v) a) effect other"
  have act: "with_sandbox_activity sid (effect a) v = with_sandbox_activity sid (?g a) v"
    if ok: "effect_authorized ex sid aid (w_db v) a" for a v
  proof -
    have "effect a t = ?g a t" if "on_db (begin_sandbox_activity sid) v = (Inr u, t)" for u t
      using ok begin_activity_certifies that
      by (fastforce simp: guarded_def effect_authorized_def on_db_def split: prod.splits)
    then show ?thesis unfolding with_sandbox_activity_def by (intro seq_at bnd_at attempt_at refl)
  qed
  show ?thesis
    unfolding es_perform_action_def
  proof (intro fence_at seq_at refl)
    fix x t y v
    assume "on_ext (rt_fence (es_runtime ex) sid) w = (Inr x, t)" and "es_require_claim ex t = (Inr y, v)"
    let ?body = "\<lambda>eff tid tname. bnd (on_db (authorize_sandbox_action aid tid tname)) (\<lambda>a.
          seq (require (matches_authorization sid aid tid tname a)
                (Errorf ''Sandbox Action does not match its authoritative Session, Sandbox, and task''))
         (seq (require (\<not> (kind_name kind \<noteq> [] \<and> act_kind (auth_action a) \<noteq> kind))
                (Errorf ''Sandbox Action has another kind than expected''))
         (if act_state (auth_action a) = ActionSucceeded then ret ()
          else bnd (attempt (with_sandbox_activity sid (eff a))) (\<lambda>r. case r of
              Inl e \<Rightarrow> es_effect_failed ex sid aid e
            | Inr _ \<Rightarrow> es_settle_action ex sid aid a))))"
    have body: "?body effect tid tname v = ?body ?g tid tname v" if task: "rt_task (es_runtime ex) = Some (tid, tname)" for tid tname
    proof (intro bnd_at seq_at refl)
      fix a u b1 u1 b2 u2
      assume au: "on_db (authorize_sandbox_action aid tid tname) v = (Inr a, u)"
        and m: "require (matches_authorization sid aid tid tname a)
          (Errorf ''Sandbox Action does not match its authoritative Session, Sandbox, and task'') u = (Inr b1, u1)"
        and k: "require (\<not> (kind_name kind \<noteq> [] \<and> act_kind (auth_action a) \<noteq> kind))
          (Errorf ''Sandbox Action has another kind than expected'') u1 = (Inr b2, u2)"
      have "wp (authorize_sandbox_action aid tid tname)
          (\<lambda>z e. e = w_db v \<and> auth_certifies (w_db v) aid (trim_space tid) (trim_space tname) True z) (\<lambda>_ _. True) (w_db v)"
        unfolding authorize_sandbox_action_def wp_tx by (rule wp_mono [OF wp_authorize_tx]) simp_all
      with au have "auth_certifies (w_db u) aid (trim_space tid) (trim_space tname) True a"
        by (auto simp: on_db_def split: prod.splits dest: wp_result)
      then have "act_state (auth_action a) \<noteq> ActionSucceeded \<Longrightarrow> effect_authorized ex sid aid (w_db u2) a"
        using task require_holds [OF m] require_db [OF m] require_db [OF k] by (auto simp: effect_authorized_def)
      then show "(if act_state (auth_action a) = ActionSucceeded then ret ()
          else bnd (attempt (with_sandbox_activity sid (effect a))) (\<lambda>r. case r of
              Inl e \<Rightarrow> es_effect_failed ex sid aid e
            | Inr _ \<Rightarrow> es_settle_action ex sid aid a)) u2 =
        (if act_state (auth_action a) = ActionSucceeded then ret ()
          else bnd (attempt (with_sandbox_activity sid (?g a))) (\<lambda>r. case r of
              Inl e \<Rightarrow> es_effect_failed ex sid aid e
            | Inr _ \<Rightarrow> es_settle_action ex sid aid a)) u2"
        by (auto intro!: bnd_at attempt_at act)
    qed
    then show "(case rt_task (es_runtime ex) of None \<Rightarrow> fail (Sentinel ErrNoTaskContext)
        | Some (tid, tname) \<Rightarrow> ?body effect tid tname) v =
      (case rt_task (es_runtime ex) of None \<Rightarrow> fail (Sentinel ErrNoTaskContext)
        | Some (tid, tname) \<Rightarrow> ?body ?g tid tname) v"
      by (auto split: option.split)
  qed
qed

lemma run_step_at:
  assumes "\<And>v. m v = n v"
  shows "run_action_step rt aid m w = run_action_step rt aid n w"
proof -
  have "m = n" by (rule ext) (rule assms)
  then show ?thesis by simp
qed

lemma run_guarded:
  "es_run_action ex sid bid kind effect w =
   es_run_action ex sid bid kind
     (guarded (\<lambda>a v. effect_authorized ex sid (scoped_action_id sid kind bid) (w_db v) a) effect other) w"
  unfolding es_run_action_def Let_def
  by (intro seq_at bnd_at refl) (auto intro!: run_step_at perform_guarded)

section \<open>A guest is paused only while it is idle\<close>

definition pausable :: "db \<Rightarrow> string \<Rightarrow> bool" where
  \<comment> \<open>no client wants the Session kept running, and for the grace period nothing used it, nothing is
      pending and no maintenance holds it\<close>
  "pausable d sid =
    (\<exists>s. session_of d sid = Some s \<and> row_idle d idle_grace s \<and> \<not> s_keep_running s \<and> s_open s \<and>
       s_cleanup s = CleanupPending)"

lemma store_session_result:
  assumes "on_db (store_session sid) w = (Inr j, v)"
  shows "v = w \<and> (\<exists>s p. session_of (w_db w) sid = Some s \<and> j = session_value (w_db w) s p \<and> s_id s = sid)"
proof -
  have "wp (store_session sid) (\<lambda>j e. e = w_db w \<and> find_session (w_db w) sid = Some j) (\<lambda>_ _. True) (w_db w)"
    by (simp add: store_session_def q_get_session_def wp_simps split: option.split)
  with assms have v: "v = w" "find_session (w_db w) sid = Some j"
    by (auto simp: on_db_def split: prod.splits dest: wp_result)
  then show ?thesis
    by (auto simp: find_session_def session_of_def split: option.splits dest: row_of_key)
qed

lemma idle_result:
  assumes run: "on_db (sandbox_idle_for sid idle_grace) w = (Inr True, v)" and s: "session_of (w_db w) sid = Some s"
    and p: "\<not> s_keep_running s" "s_open s" "s_cleanup s = CleanupPending"
  shows "pausable (w_db v) sid"
proof -
  let ?f = "\<lambda>s. s\<lparr>s_last_active := coalesce (s_last_active s) (Some (now (w_db w)))\<rparr>"
  let ?e = "sessions_update (upd_where (\<lambda>s. s_id s = sid) ?f) (w_db w)"
  have e: "session_of ?e sid = Some (?f s)"
    using s by (subst session_of_upd) simp_all
  with run have "w_db v = ?e \<and> row_idle ?e idle_grace (?f s)"
    by (auto simp: on_db_def sandbox_idle_for_def Let_def split: prod.splits option.splits)
  with e p show ?thesis by (simp add: pausable_def)
qed

lemma native_idle_db:
  assumes "es_native_idle ex j b v = (r, t)" and "pausable (w_db v) (sess_id j)"
  shows "w_db t = w_db v"
proof -
  obtain s where s: "session_of (w_db v) (sess_id j) = Some s" "s_pending_input s = None" "s_pending_turn s = None"
    using assms(2) by (auto simp: pausable_def row_idle_def)
  then have "on_db (store_native_state (sess_id j)) v = (Inr (native_state_value s), v)"
    by (simp add: on_db_def store_native_state_def bnd_def gets_def the_row_def ret_def)
  moreover have "\<not> native_pending (native_state_value s)"
    using s by (simp add: native_pending_def native_state_value_def)
  ultimately have "(if thread_id j = [] then ret True
      else case es_native ex of None \<Rightarrow> fail (Sentinel ErrNativeUnavailable) | Some native \<Rightarrow> on_ext (na_idle native j b)) v = (r, t)"
    using assms(1) by (auto simp: es_native_idle_def bnd_def split: if_splits option.splits)
  then show ?thesis
    by (auto simp: ret_def fail_def split: if_splits option.splits dest: on_ext_db)
qed

lemma pause_each_guarded:
  assumes "pausable (w_db w) sid" and "sess_id j = sid"
  shows "es_pause_each ex (\<lambda>j b. on_ext (pause j b)) sid j bs w =
    es_pause_each ex (\<lambda>j b. guarded (\<lambda>_ v. pausable (w_db v) sid) (\<lambda>_. on_ext (pause j b)) other ()) sid j bs w"
  using assms(1)
proof (induction bs arbitrary: w)
  case (Cons b bs)
  let ?p = "\<lambda>j b. on_ext (pause j b)"
  let ?g = "\<lambda>j b. guarded (\<lambda>_ v. pausable (w_db v) sid) (\<lambda>_. on_ext (pause j b)) other ()"
  have each: "(if \<not> idle then ret () else seq (?p j b) (es_pause_each ex ?p sid j bs)) v =
      (if \<not> idle then ret () else seq (?g j b) (es_pause_each ex ?g sid j bs)) v"
    if v: "pausable (w_db v) sid" for idle v
  proof -
    have "seq (?p j b) (es_pause_each ex ?p sid j bs) v = seq (?g j b) (es_pause_each ex ?g sid j bs) v"
    proof (rule seq_at)
      show "?p j b v = ?g j b v" using v by (simp add: guarded_def)
      fix x t assume "?p j b v = (Inr x, t)"
      then show "es_pause_each ex ?p sid j bs t = es_pause_each ex ?g sid j bs t"
        using v by (intro Cons.IH) (simp add: on_ext_db)
    qed
    then show ?thesis by simp
  qed
  show ?case
    unfolding es_pause_each.simps
  proof (intro seq_at bnd_at refl)
    fix x t idle v
    assume t: "require (sb_session_id b = sid) (Errorf ''idle Sandbox has a different Session owner'') w = (Inr x, t)"
      and v: "es_native_idle ex j b t = (Inr idle, v)"
    have "w_db v = w_db w"
      using native_idle_db [OF v] require_db [OF t] Cons.prems assms(2) by simp
    then show "(if \<not> idle then ret () else seq (?p j b) (es_pause_each ex ?p sid j bs)) v =
      (if \<not> idle then ret () else seq (?g j b) (es_pause_each ex ?g sid j bs)) v"
      using Cons.prems by (intro each) simp
  qed
qed simp

lemma pause_idle_guarded:
  "es_pause_idle ex (\<lambda>j b. on_ext (pause j b)) sid w =
   es_pause_idle ex (\<lambda>j b. guarded (\<lambda>_ v. pausable (w_db v) sid) (\<lambda>_. on_ext (pause j b)) other ()) sid w"
  unfolding es_pause_idle_def
proof (intro bnd_at seq_at refl)
  fix j t x v
  assume j: "on_db (store_session sid) w = (Inr j, t)"
    and x: "require (sess_id j = sid) (Errorf ''idle reconciliation changed Session identity'') t = (Inr x, v)"
  let ?p = "\<lambda>j b. on_ext (pause j b)"
  let ?g = "\<lambda>j b. guarded (\<lambda>_ v. pausable (w_db v) sid) (\<lambda>_. on_ext (pause j b)) other ()"
  obtain s p where s: "t = w" "session_of (w_db w) sid = Some s" "j = session_value (w_db w) s p" "s_id s = sid"
    using store_session_result [OF j] by blast
  have v: "v = w" using require_db [OF x] s(1) by simp
  have "bnd (on_db (sandbox_idle_for sid idle_grace)) (\<lambda>idle. if \<not> idle then ret ()
      else bnd (on_db (q_list_session_sandboxes sid)) (es_pause_each ex ?p sid j)) w =
    bnd (on_db (sandbox_idle_for sid idle_grace)) (\<lambda>idle. if \<not> idle then ret ()
      else bnd (on_db (q_list_session_sandboxes sid)) (es_pause_each ex ?g sid j)) w" if can: "can_pause j"
  proof (rule bnd_at [OF refl])
    fix idle u assume idle: "on_db (sandbox_idle_for sid idle_grace) w = (Inr idle, u)"
    have "bnd (on_db (q_list_session_sandboxes sid)) (es_pause_each ex ?p sid j) u =
      bnd (on_db (q_list_session_sandboxes sid)) (es_pause_each ex ?g sid j) u" if i: "idle"
    proof (rule bnd_at [OF refl])
      fix bs y assume "on_db (q_list_session_sandboxes sid) u = (Inr bs, y)"
      then have "y = u" by (simp add: on_db_def q_list_session_sandboxes_def gets_def)
      moreover have "pausable (w_db u) sid"
        using idle_result [of sid w u s] idle i s can by (simp add: can_pause_def session_value_def)
      ultimately show "es_pause_each ex ?p sid j bs y = es_pause_each ex ?g sid j bs y"
        using s by (intro pause_each_guarded) (simp_all add: session_value_def)
    qed
    then show "(if \<not> idle then ret () else bnd (on_db (q_list_session_sandboxes sid)) (es_pause_each ex ?p sid j)) u =
      (if \<not> idle then ret () else bnd (on_db (q_list_session_sandboxes sid)) (es_pause_each ex ?g sid j)) u"
      by simp
  qed
  then show "(if \<not> can_pause j then ret () else bnd (on_db (sandbox_idle_for sid idle_grace)) (\<lambda>idle. if \<not> idle then ret ()
      else bnd (on_db (q_list_session_sandboxes sid)) (es_pause_each ex ?p sid j))) v =
    (if \<not> can_pause j then ret () else bnd (on_db (sandbox_idle_for sid idle_grace)) (\<lambda>idle. if \<not> idle then ret ()
      else bnd (on_db (q_list_session_sandboxes sid)) (es_pause_each ex ?g sid j))) v"
    using v by simp
qed

section \<open>Cleanup\<close>

lemma targets_in_order:
  "current_cleanup_action bs as = Some (ActionSandboxDelete, bid) \<Longrightarrow> has_succeeded_action as ActionRouteRevoke bid"
proof -
  have "first_unsettled (concat (map (\<lambda>b. [(b, ActionRouteRevoke), (b, ActionSandboxDelete)]) cs)) as =
      Some (ActionSandboxDelete, bid) \<Longrightarrow> has_succeeded_action as ActionRouteRevoke bid" for cs
    by (induction cs) (auto split: if_splits)
  then show "current_cleanup_action bs as = Some (ActionSandboxDelete, bid) \<Longrightarrow> has_succeeded_action as ActionRouteRevoke bid"
    by (simp add: current_cleanup_action_def cleanup_targets_def)
qed

lemma targets_settled:
  "current_cleanup_action bs as = None \<longleftrightarrow>
    (\<forall>b \<in> set bs. has_succeeded_action as ActionRouteRevoke (sb_id b) \<and> has_succeeded_action as ActionSandboxDelete (sb_id b))"
proof -
  have "first_unsettled (concat (map (\<lambda>b. [(b, ActionRouteRevoke), (b, ActionSandboxDelete)]) cs)) as = None \<longleftrightarrow>
      (\<forall>b \<in> set cs. has_succeeded_action as ActionRouteRevoke (sb_id b) \<and> has_succeeded_action as ActionSandboxDelete (sb_id b))" for cs
    by (induction cs) auto
  then show ?thesis by (simp add: current_cleanup_action_def cleanup_targets_def)
qed

section \<open>The service preserves the invariants\<close>

lemma keeps_fence_release [keeps_intros]: "keeps db_ok (fence_release rt sid r)"
  unfolding fence_release_def by (intro keeps_intros)

lemma keeps_session_fence [keeps_intros]: "keeps db_ok m \<Longrightarrow> keeps db_ok (with_session_fence rt sid m)"
  unfolding with_session_fence_def by (intro keeps_intros)

lemma keeps_pause_fence [keeps_intros]: "keeps db_ok m \<Longrightarrow> keeps db_ok (with_pause_fence rt sid m)"
  unfolding with_pause_fence_def by (intro keeps_intros)

lemma keeps_heartbeat [keeps_intros]: "keeps db_ok m \<Longrightarrow> keeps db_ok (with_heartbeat rt m)"
  unfolding with_heartbeat_def by (intro keeps_intros)

lemma keeps_action_step [keeps_intros]: "keeps db_ok m \<Longrightarrow> keeps db_ok (run_action_step rt aid m)"
  unfolding run_action_step_def by (intro keeps_intros)

lemma keeps_claim [keeps_intros]: "keeps db_ok (es_require_claim ex)"
  unfolding es_require_claim_def by (intro keeps_intros)

lemma keeps_reach [keeps_intros]: "keeps db_ok (es_reach_operation ex p sid i)"
  unfolding es_reach_operation_def by (intro keeps_intros)

lemma keeps_exact_task [keeps_intros]: "keeps db_ok (exact_current_attached_task rt sid t)"
  unfolding exact_current_attached_task_def Let_def by (intro keeps_intros)

lemma keeps_list_sandboxes [keeps_intros]: "keeps I (q_list_session_sandboxes sid)"
  unfolding q_list_session_sandboxes_def by (intro keeps_intros)

lemma keeps_cleanup_steps [keeps_intros]:
  "keeps db_ok (es_require_cleanup_task ex sid)"
  "keeps db_ok (es_prepare_cleanup ex sid)"
  "keeps db_ok (es_complete_cleanup ex sid)"
  unfolding es_prepare_cleanup_def es_complete_cleanup_def es_require_cleanup_task_def by (intro keeps_intros)+

lemma keeps_activity [keeps_intros]: "keeps db_ok m \<Longrightarrow> keeps db_ok (with_sandbox_activity sid m)"
  unfolding with_sandbox_activity_def by (intro keeps_intros)

lemma keeps_effect [keeps_intros]: "keeps db_ok (es_effect ex a)"
  unfolding es_effect_def by (cases "act_kind (auth_action a)") (auto intro!: keeps_intros)

lemma keeps_perform [keeps_intros]: "(\<And>a. keeps db_ok (eff a)) \<Longrightarrow> keeps db_ok (es_perform_action ex sid aid kind eff)"
  unfolding es_perform_action_def es_effect_failed_def es_settle_action_def Let_def by (intro keeps_intros)

lemma keeps_run_action [keeps_intros]: "(\<And>a. keeps db_ok (eff a)) \<Longrightarrow> keeps db_ok (es_run_action ex sid bid kind eff)"
  unfolding es_run_action_def Let_def by (intro keeps_intros)

lemma keeps_execute_action [keeps_intros]: "keeps db_ok (es_execute_action ex sid bid kind)"
  unfolding es_execute_action_def by (intro keeps_intros)

lemma keeps_native_state [keeps_intros]: "keeps I (store_native_state sid)"
  unfolding store_native_state_def by (intro keeps_intros)

lemma keeps_native_idle [keeps_intros]: "keeps db_ok (es_native_idle ex j b)"
  unfolding es_native_idle_def es_settle_native_def by (intro keeps_intros)

lemma keeps_observe [keeps_intros]: "keeps db_ok (es_observe ex j bs p)"
  by (induction bs arbitrary: p) (auto intro!: keeps_intros)

lemma keeps_reconcile_session [keeps_intros]: "keeps db_ok (es_reconcile_session ex sid)"
  unfolding es_reconcile_session_def by (intro keeps_intros)

lemma keeps_pause_each [keeps_intros]:
  "(\<And>j b. keeps db_ok (pause j b)) \<Longrightarrow> keeps db_ok (es_pause_each ex pause sid j bs)"
  by (induction bs) (auto intro!: keeps_intros)

lemma keeps_reconcile_idle [keeps_intros]: "keeps db_ok (es_reconcile_idle ex sid)"
  unfolding es_reconcile_idle_def es_pause_idle_def by (intro keeps_intros)

section \<open>A cleanup that succeeds has settled everything\<close>

definition cleanup_finished :: "db \<Rightarrow> string \<Rightarrow> bool" where
  "cleanup_finished d sid =
    (cleanup_settled d sid \<and>
     (\<exists>t. session_of d sid = Some t \<and> s_cleanup t = CleanupComplete \<and> \<not> s_open t \<and> s_cleaned_at t \<noteq> None))"

text \<open>
  The interface the cleanup task uses. What is prepared is the Session asked for, whose cleanup
  is not complete; what completes has settled everything.
\<close>

locale cleanup_service =
  fixes ce :: "'w cleanup_execution"
  assumes prepare_keeps: "keeps db_ok (ce_prepare ce sid)"
    and action_keeps: "keeps db_ok (ce_action ce sid bid kind)"
    and prepared: "wp (ce_prepare ce sid) (\<lambda>r v. sess_id (fst r) = sid \<and> cleanup_state (fst r) \<noteq> CleanupComplete) (\<lambda>_ _. True) w"
    and completed: "db_ok w \<Longrightarrow> ensures (ce_complete ce sid) (\<lambda>d. cleanup_finished d sid) w"
begin

lemma targets_keep: "keeps db_ok (run_targets ap ce sid ts)"
  by (induction ts) (auto simp: cleanup_failed_def intro!: keeps_intros action_keeps)

lemma run_finishes:
  assumes "db_ok w"
  shows "ensures (run_cleanup ap ce sid) (\<lambda>d. cleanup_finished d sid) w"
proof -
  let ?Q = "\<lambda>_ v. cleanup_finished (w_db v) sid" and ?T = "\<lambda>_ _. True"
  have finish: "wp (finish_cleanup ap ce sid) ?Q ?T v" if "db_ok v" for v
  proof -
    have "wp (ce_complete ce sid) ?Q ?T v"
      using completed [OF that] by (simp add: ensures_def)
    then show ?thesis
      by (auto simp: finish_cleanup_def cleanup_failed_def wp_simps elim!: wp_mono intro!: wp_mono [OF wp_trivial])
  qed
  have targets: "wp (run_targets ap ce sid ts) (\<lambda>_. wp (finish_cleanup ap ce sid) ?Q ?T) ?T v" if "db_ok v" for v ts
    by (rule wp_mono [OF keepsD [OF targets_keep that]]) (simp_all add: finish)
  have clear: "wp (if b then on_db (set_cleanup_attention sid []) else ret ())
      (\<lambda>_. wp (seq (run_targets ap ce sid ts) (finish_cleanup ap ce sid)) ?Q ?T) ?T v" if "db_ok v" for v b ts
  proof -
    have "keeps db_ok (if b then on_db (set_cleanup_attention sid []) else ret ())" by (intro keeps_intros)
    from wp_mono [OF keepsD [OF this that], of "\<lambda>_. wp (seq (run_targets ap ce sid ts) (finish_cleanup ap ce sid)) ?Q ?T" ?T]
    show ?thesis by (simp add: wp_seq targets)
  qed
  have rest: "wp (if cleanup_state (fst r) = CleanupComplete then ret ()
      else seq (if cleanup_attention (fst r) \<noteq> [] then on_db (set_cleanup_attention sid []) else ret ())
          (seq (run_targets ap ce (sess_id (fst r)) (cleanup_targets (snd r))) (finish_cleanup ap ce sid))) ?Q ?T v"
    if "db_ok v" and "sess_id (fst r) = sid" and "cleanup_state (fst r) \<noteq> CleanupComplete" for r v
    using that clear by (simp only: wp_if wp_seq [of "if _ then _ else _"] simp_thms)
  show ?thesis
    unfolding ensures_def run_cleanup_def wp_bnd
  proof (rule wp_both [OF keepsD [OF prepare_keeps assms] prepared])
    fix r :: "session \<times> sandbox list" and v :: "'w world" assume "db_ok v" and "sess_id (fst r) = sid \<and> cleanup_state (fst r) \<noteq> CleanupComplete"
    then show "wp (case r of (j, bs) \<Rightarrow> if cleanup_state j = CleanupComplete then ret ()
        else seq (if cleanup_attention j \<noteq> [] then on_db (set_cleanup_attention sid []) else ret ())
            (seq (run_targets ap ce (sess_id j) (cleanup_targets bs)) (finish_cleanup ap ce sid))) ?Q ?T v"
      using rest [of v r] by (simp add: case_prod_unfold)
  qed simp
qed

end

lemma ensures_fence:
  assumes "\<And>v. w_db v = w_db w \<Longrightarrow> ensures m P v"
  shows "ensures (with_session_fence rt sid m) P w"
proof -
  have out: "wp (fence_release rt sid r) (\<lambda>_ t. P (w_db t)) (\<lambda>_ _. True) t" if "\<And>x. r = Inr x \<Longrightarrow> P (w_db t)" for r t
    using that by (cases r) (simp_all add: fence_release_def wp_simps wp_mono [OF wp_trivial])
  show ?thesis
    unfolding with_session_fence_def
  proof (rule ensures_ext_seq)
    fix v :: "'a world" assume "w_db v = w_db w"
    then have "wp m (\<lambda>_ t. P (w_db t)) (\<lambda>_ _. True) v" using assms by (simp add: ensures_def)
    then show "ensures (bnd (attempt m) (fence_release rt sid)) P v"
      unfolding ensures_def wp_bnd wp_attempt by (rule wp_mono) (rule out, simp)+
  qed
qed

lemma wp_fence:
  assumes "\<And>v. w_db v = w_db w \<Longrightarrow> wp m (\<lambda>x _. Q x) (\<lambda>_ _. True) v"
  shows "wp (with_session_fence rt sid m) (\<lambda>x _. Q x) (\<lambda>_ _. True) w"
proof -
  have out: "wp (fence_release rt sid r) (\<lambda>x _. Q x) (\<lambda>_ _. True) t" if "\<And>x. r = Inr x \<Longrightarrow> Q x" for r t
    using that by (cases r) (simp_all add: fence_release_def wp_simps wp_mono [OF wp_trivial])
  have "wp m (\<lambda>x. wp (fence_release rt sid (Inr x)) (\<lambda>x _. Q x) (\<lambda>_ _. True))
      (\<lambda>e. wp (fence_release rt sid (Inl e)) (\<lambda>x _. Q x) (\<lambda>_ _. True)) v" if "w_db v = w_db w" for v
    by (rule wp_mono [OF assms [OF that]]) (rule out, simp)+
  then show ?thesis
    unfolding with_session_fence_def wp_seq wp_bnd wp_attempt
    by (intro wp_mono [OF wp_ext_db]) simp_all
qed

lemma cleanup_task_read:
  assumes "w_db v = d" and "es_require_cleanup_task ex sid v = (Inr u, t)"
  shows "w_db t = d \<and> (\<exists>s. session_of d sid = Some s \<and> s_cleanup s \<noteq> CleanupComplete)"
proof -
  obtain v1 j x where c: "es_require_claim ex v = (Inr x, v1)"
    and j: "exact_current_attached_task (es_runtime ex) sid cleanup_task_name v1 = (Inr j, t)"
    and st: "\<not> (admission_open j \<or> (cleanup_state j \<noteq> CleanupRequested \<and> cleanup_state j \<noteq> CleanupScheduled))"
    using assms(2)
    by (auto simp: es_require_cleanup_task_def seq_def bnd_def require_def ret_def fail_def split: prod.splits sum.splits if_splits)
  have "on_db (store_session sid) v1 = (Inr j, t)"
    using j by (auto simp: exact_current_attached_task_def Let_def bnd_def seq_def require_def ret_def fail_def
        split: option.splits prod.splits sum.splits if_splits)
  from store_session_result [OF this] claim_db [OF c] assms(1) st show ?thesis
    by (auto simp: session_value_def)
qed

lemma prepare_reads:
  "wp (es_prepare_cleanup ex sid) (\<lambda>r v. sess_id (fst r) = sid \<and> cleanup_state (fst r) \<noteq> CleanupComplete) (\<lambda>_ _. True) w"
  unfolding es_prepare_cleanup_def
proof (rule wp_fence)
  fix v :: "'a world"
  show "wp (seq (es_require_cleanup_task ex sid)
     (bnd (on_db (store_session sid)) (\<lambda>j.
      bnd (on_db (q_list_session_sandboxes sid)) (\<lambda>bs. ret (j, bs)))))
     (\<lambda>r _. sess_id (fst r) = sid \<and> cleanup_state (fst r) \<noteq> CleanupComplete) (\<lambda>_ _. True) v"
  proof (rule wp_of_result)
    fix r t assume "seq (es_require_cleanup_task ex sid) (bnd (on_db (store_session sid)) (\<lambda>j.
      bnd (on_db (q_list_session_sandboxes sid)) (\<lambda>bs. ret (j, bs)))) v = (Inr r, t)"
    then obtain u v1 j v2 where c: "es_require_cleanup_task ex sid v = (Inr u, v1)"
      and j: "on_db (store_session sid) v1 = (Inr j, v2)" and r: "fst r = j"
      by (auto simp: seq_def bnd_def ret_def split: prod.splits sum.splits)
    from cleanup_task_read [OF refl c] store_session_result [OF j] r
    show "sess_id (fst r) = sid \<and> cleanup_state (fst r) \<noteq> CleanupComplete"
      by (auto simp: session_value_def)
  qed simp
qed

lemma complete_finishes:
  assumes "db_ok w"
  shows "ensures (es_complete_cleanup ex sid) (\<lambda>d. cleanup_finished d sid) w"
  unfolding es_complete_cleanup_def
proof (rule ensures_fence)
  fix v :: "'a world" assume v: "w_db v = w_db w"
  show "ensures (seq (es_require_cleanup_task ex sid)
     (case rt_task (es_runtime ex) of None \<Rightarrow> fail (Sentinel ErrNoTaskContext)
      | Some (tid, _) \<Rightarrow> on_db (complete_cleanup sid tid))) (\<lambda>d. cleanup_finished d sid) v"
    unfolding ensures_def
  proof (rule wp_of_result)
    fix r t assume "seq (es_require_cleanup_task ex sid)
     (case rt_task (es_runtime ex) of None \<Rightarrow> fail (Sentinel ErrNoTaskContext)
      | Some (tid, _) \<Rightarrow> on_db (complete_cleanup sid tid)) v = (Inr r, t)"
    then obtain u v1 tid where c: "es_require_cleanup_task ex sid v = (Inr u, v1)"
      and d: "complete_cleanup sid tid (w_db v1) = (Inr (), w_db t)"
      by (auto simp: seq_def bnd_def fail_def on_db_def split: prod.splits sum.splits option.splits)
    from cleanup_task_read [OF v c] obtain s where s: "w_db v1 = w_db w" "session_of (w_db w) sid = Some s" "s_cleanup s \<noteq> CleanupComplete"
      by blast
    show "cleanup_finished (w_db t) sid"
      using complete_cleanup_settles [OF _ s(2,3)] d s(1) assms by (simp add: cleanup_finished_def db_ok_def)
  qed simp
qed

interpretation core_cleaner: cleanup_service "core_cleanup ex" for ex
  by unfold_locales (simp_all add: core_cleanup_def keeps_intros prepare_reads complete_finishes)

end
