(* ===== verification/Stack_Laws.thy ===== *)
theory Stack_Laws
  imports Execution_Stack Execution_Laws
begin

text \<open>
  The executions of a worker keep the invariants of the store and satisfy the contract of the
  cleanup task (locale \<open>cleanup_service\<close>): the upgrade execution for any upgrade service, the
  checkpoint execution for any resolver of drivers and any capture that keep the invariants.
\<close>

section \<open>Upgrades before ordinary work\<close>

lemma keeps_ue_reconcile [keeps_intros]: "keeps db_ok (ue_reconcile ue sid)"
  unfolding ue_reconcile_def by (intro keeps_intros keeps_us_reconcile)

lemma keeps_ue_cleanup [keeps_intros]:
  "keeps db_ok (ue_prepare_cleanup ue sid)"
  "keeps db_ok (ue_complete_cleanup ue sid)"
  unfolding ue_prepare_cleanup_def ue_complete_cleanup_def
  by (intro keeps_intros keeps_us_prepare_cleanup keeps_us_complete_cleanup)+

lemma ue_prepared:
  "wp (ue_prepare_cleanup ue sid) (\<lambda>r v. sess_id (fst r) = sid \<and> cleanup_state (fst r) \<noteq> CleanupComplete) (\<lambda>_ _. True) w"
  unfolding ue_prepare_cleanup_def wp_bnd
  by (rule wp_mono [OF prepare_reads]) (auto simp: wp_seq wp_ret case_prod_unfold)

lemma ue_completed:
  assumes "db_ok w"
  shows "ensures (ue_complete_cleanup ue sid) (\<lambda>d. cleanup_finished d sid) w"
  unfolding ensures_def ue_complete_cleanup_def wp_seq
  by (rule wp_mono [OF keepsD [OF keeps_us_complete_cleanup assms]])
    (simp_all add: complete_finishes [unfolded ensures_def])

interpretation upgrade_cleaner: cleanup_service "upgrade_cleanup ue" for ue
  by unfold_locales (simp_all add: upgrade_cleanup_def keeps_intros ue_prepared ue_completed)

section \<open>Recoveries and branches before upgrades\<close>

lemma keeps_session_branch [keeps_intros]: "keeps I (session_checkpoint_branch sid)"
  unfolding session_checkpoint_branch_def checkpoint_branch_def q_get_session_branch_def q_get_branch_def
  by (intro keeps_intros)

lemma keeps_delivery_holds [keeps_intros]: "keeps I (session_delivery_holds sid)"
  by (simp add: session_delivery_holds_def keeps_intros)

locale checkpoint_stack =
  fixes xe :: "'w checkpoint_execution"
  assumes driver_keeps: "keeps db_ok (xe_driver xe ref)"
    and capture_keeps: "keeps db_ok (xe_capture xe j b)"
begin

lemma recovery_keeps: "keeps db_ok (xe_recovery xe ref)"
  unfolding xe_recovery_def by (intro keeps_intros driver_keeps)

lemma reconcile_keeps: "keeps db_ok (xe_reconcile xe sid)"
  unfolding xe_reconcile_def by (intro keeps_intros recovery_keeps keeps_rs_reconcile)

lemma prepare_keeps: "keeps db_ok (xe_prepare_cleanup xe sid)"
  unfolding xe_prepare_cleanup_def xe_capture_all_def
  by (intro keeps_intros recovery_keeps keeps_rs_prepare_cleanup capture_keeps)

lemma authority_keeps: "keeps db_ok (branch_authority xe x)"
  unfolding branch_authority_def branch_hold_kept_def by (intro keeps_intros)

lemma branch_keeps: "keeps db_ok (xe_reconcile_branch xe sid)"
  unfolding xe_reconcile_branch_def restore_branch_def release_branch_def restore_branch_snapshot_def verify_branch_thread_def
  by (intro keeps_intros authority_keeps driver_keeps)

lemma prepared:
  "wp (xe_prepare_cleanup xe sid) (\<lambda>r v. sess_id (fst r) = sid \<and> cleanup_state (fst r) \<noteq> CleanupComplete) (\<lambda>_ _. True) w"
  unfolding xe_prepare_cleanup_def wp_bnd [of "ue_prepare_cleanup _ _"]
  by (rule wp_mono [OF ue_prepared])
    (auto simp: wp_simps case_prod_unfold intro!: wp_mono [OF wp_trivial])

end

sublocale checkpoint_stack \<subseteq> cleaner: cleanup_service "checkpoint_cleanup xe"
  by unfold_locales
    (simp_all add: checkpoint_cleanup_def keeps_intros prepare_keeps prepared ue_completed)

end
