(* ===== verification/Externals_Laws.thy ===== *)
theory Externals_Laws
  imports Terminal_Externals
begin

text \<open>The name under which an attachment is stored stays inside its directory.\<close>

definition plain_byte :: "char \<Rightarrow> bool" where
  \<comment> \<open>no separator and no control character of ASCII\<close>
  "plain_byte c = (c \<noteq> CHR ''/'' \<and> c \<noteq> CHR 0x5C \<and> 32 \<le> byte c \<and> byte c \<noteq> 127)"

lemma high_plain: "128 \<le> byte c \<Longrightarrow> plain_byte c"
  by (auto simp: plain_byte_def)

lemma rune_bytes_high:
  assumes "\<not> byte a < 128" and "rune_size (a # t) \<noteq> 0"
  shows "\<forall>c \<in> set (take (rune_size (a # t)) (a # t)). 128 \<le> byte c"
proof -
  consider (0) "t = []" | (1) b where "t = [b]" | (2) b c where "t = [b, c]" | (3) b c d r where "t = b # c # d # r"
    by (metis list.exhaust)
  then show ?thesis
  proof cases
    case 0
    then show ?thesis using assms by (simp add: rune_size_def)
  next
    case 1
    then show ?thesis using assms by (auto simp: rune_size_def cont_def in_range_def split: if_splits)
  next
    case 2
    then show ?thesis using assms
      by (cases "in_range 194 223 a"; cases "in_range 224 239 a") (auto simp: rune_size_def cont_def in_range_def split: if_splits)
  next
    case 3
    then show ?thesis using assms
      by (cases "in_range 194 223 a"; cases "in_range 224 239 a") (auto simp: rune_size_def cont_def in_range_def split: if_splits)
  qed
qed

lemma rune_bytes:
  assumes "s \<noteq> []"
  obtains "rune_size s = 0" | a t where "rune_size s = 1" "s = a # t" "byte a < 128"
    | "rune_size s \<noteq> 0" "\<forall>c \<in> set (take (rune_size s) s). 128 \<le> byte c"
proof -
  obtain a t where s: "s = a # t" using assms by (cases s) auto
  show ?thesis
  proof (cases "byte a < 128")
    case True
    then have "rune_size s = 1" by (simp add: s rune_size_def)
    then show ?thesis using that(2) s True by blast
  next
    case False
    then show ?thesis using that(1,3) rune_bytes_high [OF False, of t] s by blast
  qed
qed

lemma name_rune_plain:
  assumes "s \<noteq> []"
  shows "list_all plain_byte (name_rune s)"
  using assms
proof (cases rule: rune_bytes)
  case 1
  then show ?thesis by (auto simp: name_rune_def replacement_rune_def intro!: high_plain)
next
  case (2 a t)
  then show ?thesis by (auto simp: name_rune_def Let_def plain_byte_def)
next
  case 3
  then have "list_all plain_byte (take (rune_size s) s)" by (auto simp: list_all_iff intro: high_plain)
  with 3 show ?thesis by (simp add: name_rune_def Let_def plain_byte_def)
qed

lemma base_runes_plain:
  "list_all plain_byte name \<Longrightarrow> length name \<le> 255 \<Longrightarrow>
    list_all plain_byte (base_runes name s) \<and> length (base_runes name s) \<le> 255"
proof (induction name s rule: base_runes.induct)
  case (1 name s)
  show ?case
  proof (cases "s = [] \<or> 255 < length name + length (name_rune s)")
    case False
    then have "list_all plain_byte (name @ name_rune s)" using 1 name_rune_plain by simp
    with 1 False show ?thesis by (subst (1 2) base_runes.simps) simp
  qed (use 1 in \<open>simp add: base_runes.simps\<close>)
qed

lemma attachment_basename_plain:
  "list_all plain_byte (attachment_basename f) \<and> length (attachment_basename f) \<le> 255 \<and>
   attachment_basename f \<notin> {[], ''.'', ''..''}"
  using base_runes_plain [of "[]" f]
  by (auto simp: attachment_basename_def Let_def plain_byte_def)

end
