(* ===== verification/Persistence_Service.thy ===== *)
theory Persistence_Service
  imports Dorf_World Postgres_Checkpoints "HOL-Library.Multiset"
begin

text \<open>
  Saving a Sandbox (\<open>internal/persistence/service.go\<close>, \<open>captures.go\<close>): a capture reads the
  durable boundary, copies the files, and publishes a checkpoint only for a boundary that held;
  the table of capture attempts retains at most 32 of them and at most one running per Session.
  The driver that copies and uploads is a parameter, and so is what the boundary monitor reports.
\<close>

section \<open>Captures\<close>

record 'w capture_driver =
  cd_capture :: "capture_boundary \<Rightarrow> ('w, snapshot_reference) eff"
  cd_copy :: "(capture_boundary \<Rightarrow> ('w, unit) eff \<Rightarrow> ('w, snapshot_reference \<times> bool) eff) option"

text \<open>
  \<open>cd_copy\<close> is given the report to make once the private copy is complete; beside the reference it
  tells whether the report was made and accepted. What ends a synchronous capture early is a
  cancelled caller or the monitor of the boundary.
\<close>

datatype watch_outcome = WatchQuiet | WatchCancelled err | WatchSuperseded "err option"

record 'w capture_service =
  cs_driver :: "'w capture_driver option"
  cs_idle_delay :: int
  cs_claim :: "('w, unit) act option"
  cs_watch :: "capture_boundary \<Rightarrow> ('w, watch_outcome) act"

definition default_idle_delay :: int where
  "default_idle_delay = 5 * second"

definition capture_idle :: "'w capture_service \<Rightarrow> nat \<Rightarrow> capture_boundary \<Rightarrow> bool" where
  \<comment> \<open>\<open>t\<close>: the time, in the microseconds of the database clock\<close>
  "capture_idle svc t b =
    (let delay = (if cs_idle_delay svc \<le> 0 then default_idle_delay else cs_idle_delay svc) in
     0 < cb_revision b \<and> (case cb_last_activity b of None \<Rightarrow> False | Some a \<Rightarrow> delay \<le> (int t - int a) * 1000))"

definition capture_claim :: "'w capture_service \<Rightarrow> ('w, unit) eff" where
  "capture_claim svc =
    (case cs_claim svc of None \<Rightarrow> fail (Errorf ''checkpoint copying is not configured'') | Some c \<Rightarrow> on_ext c)"

definition seal_copy :: "'w capture_service \<Rightarrow> string \<Rightarrow> capture_boundary \<Rightarrow> ('w, unit) eff" where
  \<comment> \<open>the answer to the report that the copy is complete\<close>
  "seal_copy svc bid b =
    bnd (on_db (store_boundary bid False)) (\<lambda>current.
    seq (require (current = b) (Sentinel ErrCheckpointSuperseded))
        (capture_claim svc))"

definition capture_copy :: "'w capture_service \<Rightarrow> string \<Rightarrow> string \<Rightarrow> string \<Rightarrow> ('w, persisted_checkpoint) eff" where
  "capture_copy svc uuid bid cid =
    (case cs_driver svc of None \<Rightarrow> fail (Errorf ''checkpoint copying is not configured'') | Some drv \<Rightarrow>
     case cd_copy drv of None \<Rightarrow> fail (Errorf ''checkpoint copying is not configured'') | Some copy \<Rightarrow>
     if cs_claim svc = None then fail (Errorf ''checkpoint copying is not configured'')
     else
       bnd (on_db (store_boundary bid False)) (\<lambda>b.
       seq (require (cb_eligible b) (Sentinel ErrCheckpointIneligible))
      (seq (capture_claim svc)
      (bnd (copy b (seal_copy svc bid b)) (\<lambda>(ref, sealed).
       seq (require sealed (Errorf ''checkpoint upload omitted stable copy''))
      (seq (capture_claim svc)
           (on_db (publish_checkpoint uuid b ref cid False))))))))"

definition capture_publish ::
  "'w capture_service \<Rightarrow> string \<Rightarrow> capture_boundary \<Rightarrow> snapshot_reference \<Rightarrow> ('w, persisted_checkpoint) eff" where
  "capture_publish svc uuid b ref = seq (capture_claim svc) (on_db (publish_checkpoint uuid b ref [] True))"

definition capture_outcome ::
  "'w capture_service \<Rightarrow> string \<Rightarrow> capture_boundary \<Rightarrow> watch_outcome \<Rightarrow> err + snapshot_reference \<Rightarrow>
    ('w, persisted_checkpoint) eff" where
  "capture_outcome svc uuid b watch r =
    (case watch of
       WatchCancelled e \<Rightarrow> fail (case r of Inl c \<Rightarrow> Join e c | Inr _ \<Rightarrow> e)
     | WatchSuperseded m \<Rightarrow>
         fail (fold (\<lambda>x e. Join e x) ((case r of Inl c \<Rightarrow> [c] | Inr _ \<Rightarrow> []) @ (case m of None \<Rightarrow> [] | Some x \<Rightarrow> [x]))
           (Sentinel ErrCheckpointSuperseded))
     | WatchQuiet \<Rightarrow> (case r of Inl e \<Rightarrow> fail e | Inr ref \<Rightarrow> capture_publish svc uuid b ref))"

definition capture_now :: "'w capture_service \<Rightarrow> string \<Rightarrow> string \<Rightarrow> bool \<Rightarrow> ('w, persisted_checkpoint) eff" where
  "capture_now svc uuid bid cleanup =
    bnd (on_db (store_boundary bid cleanup)) (\<lambda>b.
    bnd (on_db clock) (\<lambda>t.
    seq (require (\<not> (\<not> cb_eligible b \<or> (\<not> cleanup \<and> \<not> capture_idle svc t b))) (Sentinel ErrCheckpointIneligible))
   (case cs_driver svc of None \<Rightarrow> fail (Errorf ''checkpoint execution is not configured'') | Some drv \<Rightarrow>
    if cs_claim svc = None then fail (Errorf ''checkpoint execution is not configured'')
    else
      seq (capture_claim svc)
     (bnd (attempt (cd_capture drv b)) (\<lambda>r.
      bnd (on_ext (cs_watch svc b)) (\<lambda>watch.
      capture_outcome svc uuid b watch r))))))"

section \<open>Attempts\<close>

datatype capture_state = CaptureCopying | CaptureUploading | CaptureReady | CaptureFailed | CaptureCancelled

record capture_attempt =
  ca_id :: string
  ca_session :: string
  ca_state :: capture_state
  ca_expires :: int
  ca_boundary :: "capture_boundary option"
  ca_checkpoint :: "persisted_checkpoint option"
  ca_cancelled :: bool

record captures =
  cp_attempts :: "capture_attempt list"
  cp_closed :: bool

definition capture_lifetime :: int where "capture_lifetime = 180 * second"
definition capture_retention :: int where "capture_retention = 300 * second"
definition max_captures :: nat where "max_captures = 32"

definition capture_terminal :: "capture_state \<Rightarrow> bool" where
  "capture_terminal s = (s = CaptureReady \<or> s = CaptureFailed \<or> s = CaptureCancelled)"

definition attempt_of :: "captures \<Rightarrow> string \<Rightarrow> capture_attempt option" where
  "attempt_of cs i = find (\<lambda>a. ca_id a = i) (cp_attempts cs)"

definition capture_stale :: "int \<Rightarrow> capture_attempt \<Rightarrow> bool" where
  "capture_stale t a = (ca_expires a + capture_retention < t)"

fun capture_sweep :: "int \<Rightarrow> string \<Rightarrow> capture_attempt list \<Rightarrow> bool \<times> capture_attempt list" where
  \<comment> \<open>drops stale attempts, in the order given, until one of the Session is still running\<close>
  "capture_sweep t sid [] = (False, [])"
| "capture_sweep t sid (a # as) =
    (let kept = (if capture_terminal (ca_state a) \<and> capture_stale t a then [] else [a]) in
     if ca_session a = sid \<and> \<not> capture_terminal (ca_state a) then (True, kept @ as)
     else case capture_sweep t sid as of (conflict, rest) \<Rightarrow> (conflict, kept @ rest))"

definition new_attempt :: "int \<Rightarrow> string \<Rightarrow> string \<Rightarrow> capture_attempt" where
  "new_attempt t sid i =
    \<lparr>ca_id = i, ca_session = sid, ca_state = CaptureCopying, ca_expires = t + capture_lifetime, ca_boundary = None,
     ca_checkpoint = None, ca_cancelled = False\<rparr>"

definition start_capture :: "int \<Rightarrow> string \<Rightarrow> string \<Rightarrow> err + string \<Rightarrow> (captures, capture_attempt) act" where
  \<comment> \<open>\<open>key\<close> is empty where the caller names none; \<open>random\<close> is the identity drawn\<close>
  "start_capture t sid key random = (\<lambda>cs.
    if cp_closed cs then (Inl (Sentinel ErrCaptureConflict), cs)
    else case (if key = [] then None else attempt_of cs key) of
        Some old \<Rightarrow> (Inr old, cs)
      | None \<Rightarrow>
          (case capture_sweep t sid (cp_attempts cs) of (conflict, as) \<Rightarrow>
             let swept = cs\<lparr>cp_attempts := as\<rparr> in
             if conflict \<or> max_captures \<le> length as then (Inl (Sentinel ErrCaptureConflict), swept)
             else case random of Inl e \<Rightarrow> (Inl e, swept) | Inr r \<Rightarrow>
               let a = new_attempt t sid (if key = [] then r else key) in
               (Inr a, swept\<lparr>cp_attempts := filter (\<lambda>b. ca_id b \<noteq> ca_id a) as @ [a]\<rparr>)))"

definition update_attempt :: "string \<Rightarrow> (capture_attempt \<Rightarrow> capture_attempt) \<Rightarrow> captures \<Rightarrow> captures" where
  "update_attempt i f cs = cs\<lparr>cp_attempts := map (\<lambda>a. if ca_id a = i then f a else a) (cp_attempts cs)\<rparr>"

definition attempt_copied :: "capture_boundary \<Rightarrow> capture_attempt \<Rightarrow> capture_attempt" where
  "attempt_copied b a = a\<lparr>ca_state := CaptureUploading, ca_boundary := Some b\<rparr>"

definition attempt_finished :: "err + persisted_checkpoint \<Rightarrow> capture_attempt \<Rightarrow> capture_attempt" where
  \<comment> \<open>the context of the attempt is cancelled by its cancel function\<close>
  "attempt_finished r a =
    (case r of
       Inl e \<Rightarrow> a\<lparr>ca_state := (if ca_cancelled a then CaptureCancelled else CaptureFailed)\<rparr>
     | Inr c \<Rightarrow> a\<lparr>ca_state := CaptureReady, ca_checkpoint := Some c\<rparr>)"

definition observe_capture :: "int \<Rightarrow> string \<Rightarrow> string \<Rightarrow> (captures, capture_attempt) act" where
  "observe_capture t i act = (\<lambda>cs.
    case attempt_of cs i of None \<Rightarrow> (Inl (Sentinel ErrCaptureNotFound), cs)
    | Some a \<Rightarrow>
        if capture_stale t a then (Inl (Sentinel ErrCaptureNotFound), cs)
        else if act = ''status'' then (Inr a, cs)
        else if act = ''cancel'' then
          (Inr a, if capture_terminal (ca_state a) then cs else update_attempt i (\<lambda>a. a\<lparr>ca_cancelled := True\<rparr>) cs)
        else (Inl (Sentinel ErrCaptureConflict), cs))"

definition close_captures :: "captures \<Rightarrow> captures" where
  "close_captures cs =
    cs\<lparr>cp_closed := True, cp_attempts := map (\<lambda>a. a\<lparr>ca_cancelled := True\<rparr>) (cp_attempts cs)\<rparr>"

section \<open>The table as a transition system\<close>

text \<open>
  Each operation holds the lock of the table. A map is ranged over in any order, so a start may
  see the attempts permuted; a drawn identity is new. An attempt reports its copy and its end
  while it runs, and succeeds only after it reported a copy.
\<close>

inductive capture_step :: "captures \<Rightarrow> captures \<Rightarrow> bool" where
  attempt_begun: "\<lbrakk>mset as = mset (cp_attempts cs); \<forall>r. random = Inr r \<longrightarrow> r \<notin> ca_id ` set as\<rbrakk> \<Longrightarrow>
    capture_step cs (snd (start_capture t sid key random (cs\<lparr>cp_attempts := as\<rparr>)))"
| attempt_copies: "\<lbrakk>attempt_of cs i = Some a; \<not> capture_terminal (ca_state a)\<rbrakk> \<Longrightarrow>
    capture_step cs (update_attempt i (attempt_copied b) cs)"
| attempt_ends: "\<lbrakk>attempt_of cs i = Some a; \<not> capture_terminal (ca_state a);
      \<forall>c. r = Inr c \<longrightarrow> ca_boundary a = Some (pc_boundary c)\<rbrakk> \<Longrightarrow>
    capture_step cs (update_attempt i (attempt_finished r) cs)"
| attempt_observed: "capture_step cs (snd (observe_capture t i act cs))"
| captures_close: "capture_step cs (close_captures cs)"

inductive_cases capture_stepE: "capture_step cs ds"

definition running :: "string \<Rightarrow> capture_attempt \<Rightarrow> bool" where
  "running sid a = (ca_session a = sid \<and> \<not> capture_terminal (ca_state a))"

definition attempt_ok :: "capture_attempt \<Rightarrow> bool" where
  \<comment> \<open>a boundary is known once the copy is sealed; a checkpoint exactly when the save is ready\<close>
  "attempt_ok a =
    ((ca_state a = CaptureCopying \<longrightarrow> ca_boundary a = None) \<and> (ca_state a = CaptureUploading \<longrightarrow> ca_boundary a \<noteq> None) \<and>
     (ca_checkpoint a \<noteq> None \<longleftrightarrow> ca_state a = CaptureReady) \<and>
     (\<forall>c. ca_checkpoint a = Some c \<longrightarrow> ca_boundary a = Some (pc_boundary c)))"

definition captures_ok :: "captures \<Rightarrow> bool" where
  "captures_ok cs =
    (distinct (map ca_id (cp_attempts cs)) \<and> length (cp_attempts cs) \<le> max_captures \<and>
     (\<forall>sid. length (filter (running sid) (cp_attempts cs)) \<le> 1) \<and> list_all attempt_ok (cp_attempts cs) \<and>
     (cp_closed cs \<longrightarrow> list_all ca_cancelled (cp_attempts cs)))"

section \<open>The table stays bounded\<close>

lemma sweep_facts:
  "capture_sweep t sid as = (c, rest) \<Longrightarrow>
    set rest \<subseteq> set as \<and> length rest \<le> length as \<and> (distinct (map ca_id as) \<longrightarrow> distinct (map ca_id rest)) \<and>
    (\<forall>s. filter (running s) rest = filter (running s) as) \<and> (\<not> c \<longrightarrow> filter (running sid) as = [])"
proof (induction as arbitrary: c rest)
  case (Cons a as)
  obtain c' rest' where r: "capture_sweep t sid as = (c', rest')" by (cases "capture_sweep t sid as")
  note ih = Cons.IH [OF r]
  have stale: "\<not> running s a" if "capture_terminal (ca_state a)" for s using that by (simp add: running_def)
  show ?case
  proof (cases "ca_session a = sid \<and> \<not> capture_terminal (ca_state a)")
    case True
    with Cons.prems have "c" "rest = a # as" by (auto simp: Let_def)
    then show ?thesis by simp
  next
    case False
    define kept where "kept = (if capture_terminal (ca_state a) \<and> capture_stale t a then [] else [a])"
    have "c = c'" "rest = kept @ rest'"
      using False Cons.prems r by (auto simp: Let_def kept_def)
    moreover have "kept = [a] \<or> kept = [] \<and> capture_terminal (ca_state a)" by (simp add: kept_def)
    moreover have "\<not> running sid a" using False by (auto simp: running_def)
    ultimately show ?thesis using ih stale by auto
  qed
qed simp

lemma capture_sweep_ok:
  assumes ok: "captures_ok cs" and s: "capture_sweep t sid (cp_attempts cs) = (c, rest)"
  shows "captures_ok (cs\<lparr>cp_attempts := rest\<rparr>)"
  using ok sweep_facts [OF s] by (auto simp: captures_ok_def list_all_iff)

lemma captures_ok_perm: "mset as = mset (cp_attempts cs) \<Longrightarrow> captures_ok cs \<Longrightarrow> captures_ok (cs\<lparr>cp_attempts := as\<rparr>)"
proof -
  assume p: "mset as = mset (cp_attempts cs)" and ok: "captures_ok cs"
  have "set as = set (cp_attempts cs)" "length as = length (cp_attempts cs)"
    using p by (metis set_mset_mset, metis size_mset)
  moreover have "distinct (map ca_id as) = distinct (map ca_id (cp_attempts cs))"
    using p by (metis mset_map mset_eq_imp_distinct_iff)
  moreover have "length (filter (running s) as) = length (filter (running s) (cp_attempts cs))" for s
    using p by (metis mset_filter size_mset)
  ultimately show "captures_ok (cs\<lparr>cp_attempts := as\<rparr>)" using ok by (simp add: captures_ok_def list_all_iff)
qed

lemma attempt_of_None: "attempt_of cs i = None \<longleftrightarrow> i \<notin> ca_id ` set (cp_attempts cs)"
  by (auto simp: attempt_of_def find_None_iff)

lemma start_capture_ok:
  assumes ok: "captures_ok cs" and new: "\<forall>r. random = Inr r \<longrightarrow> r \<notin> ca_id ` set (cp_attempts cs)"
  shows "captures_ok (snd (start_capture t sid key random cs))"
proof (cases "cp_closed cs \<or> (if key = [] then None else attempt_of cs key) \<noteq> None")
  case True
  then show ?thesis using ok by (auto simp: start_capture_def)
next
  case False
  then have open': "\<not> cp_closed cs" and key: "key = [] \<or> key \<notin> ca_id ` set (cp_attempts cs)"
    by (auto simp: attempt_of_None split: if_splits)
  obtain c rest where s: "capture_sweep t sid (cp_attempts cs) = (c, rest)" by (cases "capture_sweep t sid (cp_attempts cs)")
  have swept: "captures_ok (cs\<lparr>cp_attempts := rest\<rparr>)" by (rule capture_sweep_ok [OF ok s])
  show ?thesis
  proof (cases "c \<or> max_captures \<le> length rest \<or> (\<exists>e. random = Inl e)")
    case True
    then show ?thesis using open' False s swept by (auto simp: start_capture_def Let_def split: sum.split)
  next
    case False
    then obtain r where r: "\<not> c" "length rest < max_captures" "random = Inr r" by (cases random) auto
    define a where "a = new_attempt t sid (if key = [] then r else key)"
    have fresh: "ca_id a \<notin> ca_id ` set rest"
      using sweep_facts [OF s] key new r(3) by (auto simp: a_def new_attempt_def split: if_splits)
    then have keep: "filter (\<lambda>b. ca_id b \<noteq> ca_id a) rest = rest" unfolding filter_id_conv by (metis imageI)
    have "snd (start_capture t sid key random cs) = cs\<lparr>cp_attempts := rest @ [a]\<rparr>"
      using open' \<open>\<not> (cp_closed cs \<or> _)\<close> s r keep by (simp add: start_capture_def Let_def a_def)
    moreover have "captures_ok (cs\<lparr>cp_attempts := rest @ [a]\<rparr>)"
    proof -
      have a: "\<not> capture_terminal (ca_state a)" "ca_session a = sid" "attempt_ok a"
        by (simp_all add: a_def new_attempt_def capture_terminal_def attempt_ok_def)
      have "filter (running s) rest = []" if "running s a" for s
        using sweep_facts [OF s] r(1) that a by (simp add: running_def)
      with swept fresh r(2) open' a(3) show ?thesis by (auto simp: captures_ok_def image_iff)
    qed
    ultimately show ?thesis by simp
  qed
qed

lemma update_attempt_ok:
  assumes ok: "captures_ok cs" and a: "attempt_of cs i = Some a"
    and f: "ca_id (f a) = ca_id a" "ca_session (f a) = ca_session a" "attempt_ok (f a)" "ca_cancelled a \<longrightarrow> ca_cancelled (f a)"
      "capture_terminal (ca_state a) \<longrightarrow> capture_terminal (ca_state (f a))"
  shows "captures_ok (update_attempt i f cs)"
proof -
  have key: "ca_id a = i" "a \<in> set (cp_attempts cs)" using a by (auto simp: attempt_of_def find_Some_iff)
  have only: "b = a" if "b \<in> set (cp_attempts cs)" "ca_id b = i" for b
    using ok key that by (auto simp: captures_ok_def distinct_map inj_on_def)
  have ids: "map (ca_id \<circ> (\<lambda>a. if ca_id a = i then f a else a)) (cp_attempts cs) = map ca_id (cp_attempts cs)"
    using only f(1) by auto
  have "length (filter (running s) (cp_attempts (update_attempt i f cs))) \<le> length (filter (running s) (cp_attempts cs))" for s
  proof -
    have "running s (if ca_id b = i then f b else b) \<Longrightarrow> running s b" if "b \<in> set (cp_attempts cs)" for b
      using only [OF that] f by (auto simp: running_def split: if_splits)
    then have "length (filter (running s) (map (\<lambda>b. if ca_id b = i then f b else b) bs)) \<le> length (filter (running s) bs)"
      if "set bs \<subseteq> set (cp_attempts cs)" for bs
      using that by (induction bs) auto
    then show ?thesis by (simp add: update_attempt_def)
  qed
  moreover have "list_all attempt_ok (cp_attempts (update_attempt i f cs))"
    using ok only f(3) by (auto simp: captures_ok_def list_all_iff update_attempt_def)
  moreover have "cp_closed cs \<longrightarrow> list_all ca_cancelled (cp_attempts (update_attempt i f cs))"
    using ok only f(4) by (auto simp: captures_ok_def list_all_iff update_attempt_def)
  ultimately show ?thesis
    using ok by (auto simp: captures_ok_def update_attempt_def ids intro: order_trans)
qed

lemma capture_step_ok: "capture_step cs ds \<Longrightarrow> captures_ok cs \<Longrightarrow> captures_ok ds"
proof (induction rule: capture_step.induct)
  case (attempt_begun as cs random t sid key)
  then show ?case by (intro start_capture_ok captures_ok_perm) simp_all
next
  case (attempt_copies cs i a b)
  have "attempt_ok a" using attempt_copies(1,3) by (auto simp: captures_ok_def list_all_iff attempt_of_def find_Some_iff)
  then have "attempt_ok (attempt_copied b a)"
    using attempt_copies(2) by (auto simp: attempt_ok_def attempt_copied_def capture_terminal_def)
  with attempt_copies(2) show ?case by (intro update_attempt_ok [OF attempt_copies(3,1)]) (simp_all add: attempt_copied_def)
next
  case (attempt_ends cs i a r)
  have "attempt_ok a" using attempt_ends(1,4) by (auto simp: captures_ok_def list_all_iff attempt_of_def find_Some_iff)
  then have "attempt_ok (attempt_finished r a)"
    using attempt_ends(2,3) by (auto simp: attempt_ok_def attempt_finished_def capture_terminal_def split: sum.split)
  with attempt_ends(2) show ?case
    by (intro update_attempt_ok [OF attempt_ends(4,1)]) (simp_all add: attempt_finished_def split: sum.split)
next
  case (attempt_observed cs t i act)
  have "captures_ok (update_attempt i (\<lambda>a. a\<lparr>ca_cancelled := True\<rparr>) cs)" if "attempt_of cs i = Some a" for a
  proof (rule update_attempt_ok [OF attempt_observed that])
    have "attempt_ok a" using that attempt_observed by (auto simp: captures_ok_def list_all_iff attempt_of_def find_Some_iff)
    then show "attempt_ok (a\<lparr>ca_cancelled := True\<rparr>)" by (simp add: attempt_ok_def)
  qed simp_all
  with attempt_observed show ?case by (auto simp: observe_capture_def split: option.split)
next
  case (captures_close cs)
  have "filter (running s) (map (\<lambda>a. a\<lparr>ca_cancelled := True\<rparr>) as) = map (\<lambda>a. a\<lparr>ca_cancelled := True\<rparr>) (filter (running s) as)" for s as
    by (induction as) (auto simp: running_def)
  moreover have "attempt_ok (a\<lparr>ca_cancelled := True\<rparr>) = attempt_ok a" for a by (simp add: attempt_ok_def)
  ultimately show ?case using captures_close by (simp add: captures_ok_def close_captures_def list_all_iff comp_def)
qed

definition captures_init :: captures where
  "captures_init = \<lparr>cp_attempts = [], cp_closed = False\<rparr>"

lemma captures_reachable_ok: "capture_step\<^sup>*\<^sup>* captures_init cs \<Longrightarrow> captures_ok cs"
proof (induction rule: rtranclp_induct)
  case base
  show ?case by (simp add: captures_init_def captures_ok_def)
qed (rule capture_step_ok)

end
