(* ===== verification/Postgres_Auth.thy ===== *)
theory Postgres_Auth
  imports Postgres_Sessions Go_Base64
begin

text \<open>
  Custody of control Clients (\<open>internal/postgres/controlauth.go\<close> and
  \<open>dbsql/control_auth.sql.go\<close>): one-time enrollments, the Clients they admit, host-issued keys,
  authentication by credential digest, and revocation. A digest is written as its 64 hexadecimal
  digits; lifetimes are in microseconds, the unit of the database clock.
\<close>

section \<open>Clients\<close>

record auth_client =
  au_id :: string
  au_name :: string
  au_expires :: "time option" \<comment> \<open>\<open>None\<close>: a credential that does not expire\<close>

datatype client_state = ClientActive | ClientExpired | ClientRevoked

record client_record =
  cr_id :: string
  cr_name :: string
  cr_state :: client_state
  cr_created :: time
  cr_expires :: "time option"
  cr_revoked :: "time option"

definition client_name_char :: "char \<Rightarrow> bool" where
  "client_name_char c = (is_lower c \<or> is_digit c \<or> c = CHR ''.'' \<or> c = CHR ''_'' \<or> c = CHR ''-'')"

definition client_name_ok :: "string \<Rightarrow> bool" where
  \<comment> \<open>\<open>^[a-z0-9][a-z0-9._-]{0,62}$\<close>\<close>
  "client_name_ok s =
    (case s of [] \<Rightarrow> False | c # t \<Rightarrow> (is_lower c \<or> is_digit c) \<and> length t \<le> 62 \<and> list_all client_name_char t)"

definition url_text :: "nat \<Rightarrow> string \<Rightarrow> bool" where
  \<comment> \<open>\<open>^[A-Za-z0-9_-]{n}$\<close>\<close>
  "url_text n s = (length s = n \<and> list_all url_char s)"

definition prefixed_id :: "string \<Rightarrow> string \<Rightarrow> bool" where
  "prefixed_id p s = (has_prefix s p \<and> url_text 22 (drop (length p) s))"

definition client_live :: "db \<Rightarrow> client_row \<Rightarrow> bool" where
  "client_live d c = (cl_revoked c = None \<and> (case cl_expires c of None \<Rightarrow> True | Some t \<Rightarrow> now d < t))"

definition client_state_at :: "db \<Rightarrow> client_row \<Rightarrow> client_state" where
  "client_state_at d c =
    (if cl_revoked c \<noteq> None then ClientRevoked
     else case cl_expires c of None \<Rightarrow> ClientActive | Some t \<Rightarrow> if t \<le> now d then ClientExpired else ClientActive)"

definition control_client :: "client_row \<Rightarrow> auth_client" where
  "control_client c = \<lparr>au_id = cl_id c, au_name = cl_name c, au_expires = cl_expires c\<rparr>"

definition control_client_record :: "client_state \<Rightarrow> client_row \<Rightarrow> client_record" where
  "control_client_record st c =
    \<lparr>cr_id = cl_id c, cr_name = cl_name c, cr_state = st, cr_created = cl_created c, cr_expires = cl_expires c,
     cr_revoked = cl_revoked c\<rparr>"

section \<open>Statements\<close>

definition q_authenticate_client :: "string \<Rightarrow> (db, client_row) act" where
  "q_authenticate_client dg =
    bnd (gets (\<lambda>d. find (\<lambda>c. cl_digest c = dg \<and> client_live d c) (clients d))) (\<lambda>r.
    the_row r (Sentinel ErrNoRows))"

definition insert_client :: "client_row \<Rightarrow> (db, client_row) act" where
  "insert_client c = seq (insert_tbl clients_update
      (\<lambda>d. first_violation
        [(\<not> prefixed_id ''cli_'' (cl_id c), check_violation ''control_clients_id_check''),
         (\<not> client_name_ok (cl_name c), check_violation ''control_clients_name_check''),
         (\<not> hex64 (cl_digest c), check_violation ''control_clients_credential_digest_check''),
         ((case cl_expires c of None \<Rightarrow> False | Some t \<Rightarrow> t \<le> cl_created c), check_violation ''control_clients_check''),
         (list_ex (\<lambda>q. cl_id q = cl_id c) (clients d), unique_violation ''control_clients_pkey''),
         (list_ex (\<lambda>q. cl_digest q = cl_digest c) (clients d),
            unique_violation ''control_clients_credential_digest_key'')]) c) (ret c)"

definition q_insert_client :: "string \<Rightarrow> string \<Rightarrow> string \<Rightarrow> int \<Rightarrow> (db, client_row) act" where
  "q_insert_client cid name dg micros =
    bnd clock (\<lambda>t.
    insert_client \<lparr>cl_id = cid, cl_name = name, cl_digest = dg, cl_expires = Some (nat (int t + micros)),
      cl_revoked = None, cl_created = t\<rparr>)"

definition q_insert_api_key :: "string \<Rightarrow> string \<Rightarrow> string \<Rightarrow> (db, client_row) act" where
  "q_insert_api_key cid name dg =
    bnd clock (\<lambda>t.
    insert_client \<lparr>cl_id = cid, cl_name = name, cl_digest = dg, cl_expires = None,
      cl_revoked = None, cl_created = t\<rparr>)"

definition q_insert_enrollment :: "string \<Rightarrow> string \<Rightarrow> int \<Rightarrow> (db, time) act" where
  "q_insert_enrollment i dg micros =
    bnd clock (\<lambda>t.
    seq (insert_tbl enrollments_update
      (\<lambda>d. first_violation
        [(\<not> prefixed_id ''enr_'' i, check_violation ''control_enrollments_id_check''),
         (\<not> hex64 dg, check_violation ''control_enrollments_secret_digest_check''),
         (micros \<le> 0, check_violation ''control_enrollments_check''),
         (list_ex (\<lambda>e. e_id e = i) (enrollments d), unique_violation ''control_enrollments_pkey''),
         (list_ex (\<lambda>e. e_digest e = dg) (enrollments d), unique_violation ''control_enrollments_secret_digest_key'')])
      \<lparr>e_id = i, e_digest = dg, e_expires = nat (int t + micros), e_consumed = None, e_client = None\<rparr>)
    (ret (nat (int t + micros))))"

definition q_get_enrollment :: "string \<Rightarrow> (db, enrollment_row \<times> bool) act" where
  \<comment> \<open>the row and whether it has not expired, under the row lock\<close>
  "q_get_enrollment i =
    bnd (gets (\<lambda>d. map_option (\<lambda>e. (e, now d < e_expires e)) (row_of e_id i (enrollments d)))) (\<lambda>r.
    the_row r (Sentinel ErrNoRows))"

definition q_bind_enrollment :: "string \<Rightarrow> string \<Rightarrow> (db, unit) act" where
  "q_bind_enrollment cid i = (\<lambda>d.
    if list_ex (\<lambda>e. e_client e = Some cid) (enrollments d) \<and> list_ex (\<lambda>e. e_id e = i \<and> e_consumed e = None) (enrollments d) then
      (Inl (unique_violation ''control_enrollments_client_id_key''), d)
    else if row_of cl_id cid (clients d) = None \<and> list_ex (\<lambda>e. e_id e = i \<and> e_consumed e = None) (enrollments d) then
      (Inl (foreign_key_violation ''control_enrollments_client_id_fkey''), d)
    else (Inr (), enrollments_update (upd_where (\<lambda>e. e_id e = i \<and> e_consumed e = None)
      (\<lambda>e. e\<lparr>e_consumed := Some (now d), e_client := Some cid\<rparr>)) d))"

definition q_get_client :: "string \<Rightarrow> (db, client_record) act" where
  "q_get_client cid =
    bnd (gets (\<lambda>d. map_option (\<lambda>c. control_client_record (client_state_at d c) c) (row_of cl_id cid (clients d)))) (\<lambda>r.
    the_row r (Sentinel ErrNoRows))"

definition q_list_clients :: "(db, client_record list) act" where
  "q_list_clients = gets (\<lambda>d.
    map (\<lambda>c. control_client_record (client_state_at d c) c) (rev (sort_key (\<lambda>c. (cl_created c, cl_id c)) (clients d))))"

definition q_revoke_client :: "string \<Rightarrow> (db, client_record) act" where
  "q_revoke_client cid = (\<lambda>d.
    case row_of cl_id cid (clients d) of
      None \<Rightarrow> (Inl (Sentinel ErrNoRows), d)
    | Some c \<Rightarrow>
        if now d < cl_created c \<and> cl_revoked c = None then (Inl (check_violation ''control_clients_check1''), d)
        else (Inr (control_client_record ClientRevoked (c\<lparr>cl_revoked := coalesce (cl_revoked c) (Some (now d))\<rparr>)),
          clients_update (upd_where (\<lambda>q. cl_id q = cid)
            (\<lambda>q. q\<lparr>cl_revoked := coalesce (cl_revoked q) (Some (now d))\<rparr>)) d))"

section \<open>Operations\<close>

definition random_client_id :: "err + string \<Rightarrow> (db, string) act" where
  \<comment> \<open>sixteen random bytes, written by the raw URL encoding\<close>
  "random_client_id raw = bnd (lift raw) (\<lambda>bs. ret (''cli_'' @ raw_url_encode bs))"

definition store_create_enrollment :: "string \<Rightarrow> string \<Rightarrow> int \<Rightarrow> (db, time) act" where
  "store_create_enrollment i dg micros = q_insert_enrollment i dg micros"

definition credential_conflict :: "err \<Rightarrow> bool" where
  "credential_conflict e =
    (case e of PgError code constraint \<Rightarrow> constraint = ''control_clients_credential_digest_key'' | _ \<Rightarrow> False)"

definition redeem_consumed :: "enrollment_row \<Rightarrow> string \<Rightarrow> string \<Rightarrow> (db, auth_client \<times> bool) act" where
  "redeem_consumed e name dg =
    (case e_client e of None \<Rightarrow> fail (Sentinel ErrEnrollmentUnavailable)
     | Some cid \<Rightarrow>
         bnd (attempt (q_authenticate_client dg)) (\<lambda>r. case r of
             Inl x \<Rightarrow> fail (if err_is x ErrNoRows then Sentinel ErrEnrollmentUnavailable else x)
           | Inr c \<Rightarrow>
               seq (require (cl_id c = cid \<and> cl_name c = name) (Sentinel ErrEnrollmentUnavailable))
                   (ret (control_client c, False))))"

definition redeem_fresh :: "err + string \<Rightarrow> string \<Rightarrow> string \<Rightarrow> string \<Rightarrow> int \<Rightarrow> (db, auth_client \<times> bool) act" where
  "redeem_fresh raw i name dg micros =
    bnd (random_client_id raw) (\<lambda>cid.
    bnd (attempt (q_insert_client cid name dg micros)) (\<lambda>r. case r of
        Inl x \<Rightarrow> fail (if credential_conflict x then Sentinel ErrClientConflict else x)
      | Inr c \<Rightarrow> seq (q_bind_enrollment cid i) (ret (control_client c, True))))"

definition redeem_enrollment ::
  "err + string \<Rightarrow> string \<Rightarrow> string \<Rightarrow> string \<Rightarrow> string \<Rightarrow> int \<Rightarrow> (db, auth_client \<times> bool) act" where
  "redeem_enrollment raw i secret name dg micros =
    tx (bnd (no_rows_as (Sentinel ErrEnrollmentUnavailable) (q_get_enrollment i)) (\<lambda>(e, active).
        seq (require (e_digest e = secret) (Sentinel ErrEnrollmentUnavailable))
       (if e_consumed e \<noteq> None then redeem_consumed e name dg
        else seq (require active (Sentinel ErrEnrollmentUnavailable))
                 (redeem_fresh raw i name dg micros))))"

definition authenticate_credential :: "string \<Rightarrow> (db, auth_client) act" where
  "authenticate_credential dg =
    bnd (no_rows_as (Sentinel ErrUnauthenticated) (q_authenticate_client dg)) (\<lambda>c. ret (control_client c))"

definition list_clients :: "(db, client_record list) act" where
  "list_clients = q_list_clients"

definition get_client :: "string \<Rightarrow> (db, client_record) act" where
  "get_client cid = no_rows_as (Sentinel ErrClientNotFound) (q_get_client cid)"

definition revoke_client :: "string \<Rightarrow> (db, client_record) act" where
  "revoke_client cid = no_rows_as (Sentinel ErrClientNotFound) (q_revoke_client cid)"

definition issue_key :: "err + string \<Rightarrow> string \<Rightarrow> string \<Rightarrow> (db, client_record) act" where
  "issue_key raw name dg =
    bnd (random_client_id raw) (\<lambda>cid.
    bnd (q_insert_api_key cid name dg) (\<lambda>c. ret (control_client_record ClientActive c)))"

section \<open>Clients preserve the invariants\<close>

lemma keeps_authenticate [keeps_intros]: "keeps I (q_authenticate_client dg)"
  unfolding q_authenticate_client_def by (intro keeps_intros)

lemma keeps_get_enrollment [keeps_intros]: "keeps I (q_get_enrollment i)"
  unfolding q_get_enrollment_def by (intro keeps_intros)

lemma keeps_get_client [keeps_intros]: "keeps I (q_get_client cid)"
  unfolding q_get_client_def by (intro keeps_intros)

lemma keeps_random_client_id [keeps_intros]: "keeps I (random_client_id raw)"
  unfolding random_client_id_def by (intro keeps_intros)

lemma db_inv_clients:
  "db_inv d \<Longrightarrow> clients_ok (f (clients d)) (enrollments d) \<Longrightarrow> db_inv (clients_update f d)"
  "db_inv d \<Longrightarrow> clients_ok (clients d) (g (enrollments d)) \<Longrightarrow> db_inv (enrollments_update g d)"
  by (simp_all add: db_inv_def)

lemma clients_ok_columns:
  assumes "clients_ok cs es" and "map cl_id bs = map cl_id cs" and "map cl_digest bs = map cl_digest cs"
  shows "clients_ok bs es"
  using assms(1) unfolding clients_ok_def set_map [symmetric] assms(2,3) by blast

lemma sole_clients_add: "sole_clients es \<Longrightarrow> e_client e = None \<Longrightarrow> sole_clients (add_row e es)"
  unfolding sole_clients_def set_add_row by fastforce

lemma clients_ok_add:
  "clients_ok cs es \<Longrightarrow> cl_id c \<notin> cl_id ` set cs \<Longrightarrow> cl_digest c \<notin> cl_digest ` set cs \<Longrightarrow>
    clients_ok (add_row c cs) es"
  "clients_ok cs es \<Longrightarrow> e_id e \<notin> e_id ` set es \<Longrightarrow> e_digest e \<notin> e_digest ` set es \<Longrightarrow> e_consumed e = None \<Longrightarrow>
    e_client e = None \<Longrightarrow> clients_ok cs (add_row e es)"
  by (auto simp: clients_ok_def sole_clients_add)

lemma keeps_insert_client_row [keeps_intros]: "keeps db_inv (insert_client c)"
proof (rule keepsI)
  fix d assume inv: "db_inv d"
  have "db_inv (clients_update (add_row c) d)"
    if "\<not> list_ex (\<lambda>q. cl_id q = cl_id c) (clients d)" "\<not> list_ex (\<lambda>q. cl_digest q = cl_digest c) (clients d)"
    using inv that by (intro db_inv_clients clients_ok_add) (auto simp: db_inv_def list_ex_iff)
  with inv show "wp (insert_client c) (\<lambda>_. db_inv) (\<lambda>_. db_inv) d"
    by (simp add: insert_client_def wp_simps first_violation_None split: option.split)
qed

lemma keeps_insert_client [keeps_intros]:
  "keeps db_inv (q_insert_client cid name dg micros)" "keeps db_inv (q_insert_api_key cid name dg)"
  unfolding q_insert_client_def q_insert_api_key_def clock_def by (intro keeps_intros)+

lemma keeps_insert_enrollment [keeps_intros]: "keeps db_inv (q_insert_enrollment i dg micros)"
proof (rule keepsI)
  fix d assume inv: "db_inv d"
  have "db_inv (enrollments_update (add_row \<lparr>e_id = i, e_digest = dg, e_expires = t, e_consumed = None, e_client = None\<rparr>) d)"
    if "\<not> list_ex (\<lambda>e. e_id e = i) (enrollments d)" "\<not> list_ex (\<lambda>e. e_digest e = dg) (enrollments d)" for t
    using inv that by (intro db_inv_clients clients_ok_add) (auto simp: db_inv_def list_ex_iff)
  with inv show "wp (q_insert_enrollment i dg micros) (\<lambda>_. db_inv) (\<lambda>_. db_inv) d"
    by (simp add: q_insert_enrollment_def wp_simps first_violation_None split: option.split)
qed

lemma keeps_bind_enrollment [keeps_intros]: "keeps db_inv (q_bind_enrollment cid i)"
proof (rule keepsI)
  fix d assume inv: "db_inv d"
  let ?p = "\<lambda>e. e_id e = i \<and> e_consumed e = None"
  let ?f = "\<lambda>e. e\<lparr>e_consumed := Some (now d), e_client := Some cid\<rparr>"
  let ?es = "upd_where ?p ?f (enrollments d)"
  have "clients_ok (clients d) ?es"
    if ok: "list_ex ?p (enrollments d) \<longrightarrow> \<not> list_ex (\<lambda>e. e_client e = Some cid) (enrollments d) \<and>
        row_of cl_id cid (clients d) \<noteq> None"
  proof -
    have old: "clients_ok (clients d) (enrollments d)" using inv by (simp add: db_inv_def)
    have keys: "map e_id ?es = map e_id (enrollments d)" "map e_digest ?es = map e_digest (enrollments d)"
      by (simp_all add: upd_where_def)
    have known: "cid \<in> cl_id ` set (clients d)" if "e \<in> set (enrollments d)" "?p e" for e
      using ok that by (auto simp: list_ex_iff row_of_None)
    have single: "e_client e \<noteq> Some cid" if "e \<in> set (enrollments d)" "x \<in> set (enrollments d)" "?p x" for e x
      using ok that by (auto simp: list_ex_iff)
    have sole: "sole_clients ?es"
      unfolding sole_clients_def
    proof (intro ballI impI)
      fix e f assume e: "e \<in> set ?es" and f: "f \<in> set ?es" and same: "e_client e = e_client f"
      obtain x where x: "x \<in> set (enrollments d)" "e = (if ?p x then ?f x else x)" using e unfolding set_upd_where by blast
      obtain y where y: "y \<in> set (enrollments d)" "f = (if ?p y then ?f y else y)" using f unfolding set_upd_where by blast
      have "e_client x = e_client y \<longrightarrow> e_client x = None \<or> e_id x = e_id y"
        using old x(1) y(1) unfolding clients_ok_def sole_clients_def by blast
      then show "e_client e = None \<or> e_id e = e_id f"
        using same x y single [OF y(1) x(1)] single [OF x(1) y(1)] by (cases "?p x"; cases "?p y") auto
    qed
    have "\<forall>e \<in> set ?es. e_consumed e = None \<longleftrightarrow> e_client e = None"
      using old by (auto simp: clients_ok_def set_upd_where)
    moreover have "\<forall>e \<in> set ?es. \<forall>i. e_client e = Some i \<longrightarrow> i \<in> cl_id ` set (clients d)"
      using old known by (auto simp: clients_ok_def set_upd_where)
    ultimately show ?thesis
      using old sole unfolding clients_ok_def keys by blast
  qed
  with inv show "wp (q_bind_enrollment cid i) (\<lambda>_. db_inv) (\<lambda>_. db_inv) d"
    by (auto simp: q_bind_enrollment_def wp_def intro!: db_inv_clients)
qed

lemma keeps_revoke [keeps_intros]: "keeps db_inv (q_revoke_client cid)"
proof (rule keepsI)
  fix d assume inv: "db_inv d"
  let ?cs = "upd_where (\<lambda>q. cl_id q = cid) (\<lambda>q. q\<lparr>cl_revoked := coalesce (cl_revoked q) (Some (now d))\<rparr>) (clients d)"
  have keys: "map cl_id ?cs = map cl_id (clients d)" "map cl_digest ?cs = map cl_digest (clients d)"
    by (simp_all add: upd_where_def)
  have "db_inv (clients_update (upd_where (\<lambda>q. cl_id q = cid)
      (\<lambda>q. q\<lparr>cl_revoked := coalesce (cl_revoked q) (Some (now d))\<rparr>)) d)"
    using inv by (rule db_inv_clients) (rule clients_ok_columns [OF _ keys], use inv in \<open>simp add: db_inv_def\<close>)
  with inv show "wp (q_revoke_client cid) (\<lambda>_. db_inv) (\<lambda>_. db_inv) d"
    by (auto simp: q_revoke_client_def wp_def split: option.split)
qed

lemma keeps_auth_ops [keeps_intros]:
  "keeps db_inv (store_create_enrollment i dg micros)"
  "keeps db_inv (redeem_enrollment raw i secret name dg micros)"
  "keeps db_inv (issue_key raw name dg)"
  "keeps db_inv (revoke_client cid)"
  unfolding store_create_enrollment_def redeem_enrollment_def redeem_consumed_def redeem_fresh_def issue_key_def
    revoke_client_def
  by (intro keeps_intros)+

end
