(* ===== verification/Store_Steps.thy ===== *)
theory Store_Steps
  imports Postgres_Branches Postgres_Auth Postgres_Profiles
begin

text \<open>
  The store as a state machine: one step is one operation of \<open>internal/postgres\<close> that writes,
  run from any state with any arguments, or a tick of the clock. The theory defines the states
  reachable from an initial database, shows that the schema's invariants hold in all of them,
  and that a row never takes back what an earlier step has recorded: identities, provider
  bindings, settlement times, receipts and wake causes are written once, lifecycles and
  revisions only advance.
\<close>

datatype store_op =
    OpAdmitDirect absurd_env "err + string" string session_admission
  | OpScheduleCleanup absurd_env string string string
  | OpSignalNativeTerminal absurd_env string native_wake_target
  | OpSignalWake absurd_env string string string
  | OpRetry absurd_env string string string
  | OpSetAttention string string string
  | OpClearAttention string string
  | OpSetCleanupAttention string string
  | OpBindResource sandbox string
  | OpResourceDeleted sandbox
  | OpAction string action_kind
  | OpActionSuccess string
  | OpCompleteCleanup string string
  | OpBeginActivity string
  | OpFinishActivity string
  | OpIdleFor string nat
  | OpBindThread string string
  | OpBeginMutation string string string string
  | OpFinishMutation string int
  | OpRequestUpgrade absurd_env string upgrade_request
  | OpUpgradePreparation string string
  | OpUpgradeQuiesced string
  | OpUpgradeCheckpoint string checkpoint
  | OpUpgradeActivated string
  | OpUpgradeRollback string string
  | OpReserveDestination "err + string" upgrade_receipt bool
  | OpUpgradeRestored upgrade_receipt string
  | OpUpgradeVerified string
  | OpUpgradeCheckpointDeleted string
  | OpFinishUpgrade absurd_env string upgrade_receipt
  | OpPublishCheckpoint string capture_boundary snapshot_reference string bool
  | OpRequestRecovery absurd_env "err + string" string recovery_request
  | OpRecoveryRestored recovery_receipt string
  | OpRecoveryVerified string
  | OpAbandonRecovery recovery_receipt
  | OpFinishRecovery absurd_env string recovery_receipt
  | OpRequestBranch absurd_env "err + string" string branch_request
  | OpBranchRestored string
  | OpReleaseBranch absurd_env string string
  | OpFinishBranch branch_receipt
  | OpCreateEnrollment string string int
  | OpRedeemEnrollment "err + string" string string string string int
  | OpIssueKey "err + string" string string
  | OpRevokeClient string
  | OpCreateProfile net_lib sandbox_profile
  | OpUpdateProfile net_lib string profile_patch
  | OpSetDefaultProfile string
  | OpBeginVerification "err + string" string
  | OpProfileProbe profile_verification string
  | OpVerificationCleanup profile_verification
  | OpVerificationError profile_verification "string option"
  | OpProfileUnavailable string string string "string option"
  | OpTick nat

fun run_op :: "store_op \<Rightarrow> db \<Rightarrow> db" where
  "run_op (OpAdmitDirect env n qn i) d = snd (admit_direct env n qn i d)"
| "run_op (OpScheduleCleanup env qn sid c) d = snd (schedule_cleanup env qn sid c d)"
| "run_op (OpSignalNativeTerminal env qn g) d = snd (signal_native_terminal_wake env qn g d)"
| "run_op (OpSignalWake env qn sid c) d = snd (tx (signal_session_wake env qn sid c) d)"
| "run_op (OpRetry env qn sid key) d = snd (retry_failed_session env qn sid key d)"
| "run_op (OpSetAttention sid src det) d = snd (set_execution_attention sid src det d)"
| "run_op (OpClearAttention sid src) d = snd (clear_execution_attention sid src d)"
| "run_op (OpSetCleanupAttention sid det) d = snd (set_cleanup_attention sid det d)"
| "run_op (OpBindResource ow pid) d = snd (bind_sandbox_resource ow pid d)"
| "run_op (OpResourceDeleted ow) d = snd (record_sandbox_resource_deleted ow d)"
| "run_op (OpAction bid k) d = snd (get_or_create_sandbox_action bid k d)"
| "run_op (OpActionSuccess aid) d = snd (record_sandbox_action_success aid d)"
| "run_op (OpCompleteCleanup sid tid) d = snd (complete_cleanup sid tid d)"
| "run_op (OpBeginActivity sid) d = snd (begin_sandbox_activity sid d)"
| "run_op (OpFinishActivity sid) d = snd (finish_sandbox_activity sid d)"
| "run_op (OpIdleFor sid n) d = snd (sandbox_idle_for sid n d)"
| "run_op (OpBindThread sid th) d = snd (bind_native_thread sid th d)"
| "run_op (OpBeginMutation sid th i t) d = snd (begin_native_mutation sid th i t d)"
| "run_op (OpFinishMutation sid n) d = snd (finish_native_mutation sid n d)"
| "run_op (OpRequestUpgrade env qn r) d = snd (request_sandbox_upgrade env qn r d)"
| "run_op (OpUpgradePreparation uid v) d = snd (record_upgrade_preparation uid v d)"
| "run_op (OpUpgradeQuiesced uid) d = snd (record_upgrade_quiesced uid d)"
| "run_op (OpUpgradeCheckpoint uid c) d = snd (record_upgrade_checkpoint uid c d)"
| "run_op (OpUpgradeActivated uid) d = snd (record_upgrade_activated uid d)"
| "run_op (OpUpgradeRollback uid code) d = snd (request_upgrade_rollback uid code d)"
| "run_op (OpReserveDestination n r b) d = snd (reserve_upgrade_destination n r b d)"
| "run_op (OpUpgradeRestored r pid) d = snd (record_upgrade_restored r pid d)"
| "run_op (OpUpgradeVerified uid) d = snd (record_upgrade_verified uid d)"
| "run_op (OpUpgradeCheckpointDeleted uid) d = snd (record_upgrade_checkpoint_deleted uid d)"
| "run_op (OpFinishUpgrade env qn r) d = snd (finish_sandbox_upgrade env qn r d)"
| "run_op (OpPublishCheckpoint uuid b r cid cur) d = snd (publish_checkpoint uuid b r cid cur d)"
| "run_op (OpRequestRecovery env n qn r) d = snd (request_checkpoint_recovery env n qn r d)"
| "run_op (OpRecoveryRestored r pid) d = snd (record_recovery_restored r pid d)"
| "run_op (OpRecoveryVerified i) d = snd (record_recovery_verified i d)"
| "run_op (OpAbandonRecovery r) d = snd (abandon_recovery_for_cleanup r d)"
| "run_op (OpFinishRecovery env qn r) d = snd (finish_checkpoint_recovery env qn r d)"
| "run_op (OpRequestBranch env n qn r) d = snd (request_checkpoint_branch env n qn r d)"
| "run_op (OpBranchRestored i) d = snd (record_branch_restored i d)"
| "run_op (OpReleaseBranch env qn i) d = snd (release_checkpoint_branch env qn i d)"
| "run_op (OpFinishBranch x) d = snd (finish_checkpoint_branch x d)"
| "run_op (OpCreateEnrollment i dg l) d = snd (store_create_enrollment i dg l d)"
| "run_op (OpRedeemEnrollment raw i secret name dg l) d = snd (redeem_enrollment raw i secret name dg l d)"
| "run_op (OpIssueKey raw name dg) d = snd (issue_key raw name dg d)"
| "run_op (OpRevokeClient cid) d = snd (revoke_client cid d)"
| "run_op (OpCreateProfile net p) d = snd (create_profile net p d)"
| "run_op (OpUpdateProfile net name q) d = snd (update_profile net name q d)"
| "run_op (OpSetDefaultProfile name) d = snd (set_default_profile name d)"
| "run_op (OpBeginVerification nonce name) d = snd (begin_profile_verification nonce name d)"
| "run_op (OpProfileProbe x v) d = snd (record_profile_probe x v d)"
| "run_op (OpVerificationCleanup x) d = snd (record_verification_cleanup x d)"
| "run_op (OpVerificationError x f) d = snd (record_verification_error x f d)"
| "run_op (OpProfileUnavailable sid name src f) d = snd (record_profile_unavailable sid name src f d)"
| "run_op (OpTick n) d = d\<lparr>now := now d + n\<rparr>"

inductive store_step :: "db \<Rightarrow> db \<Rightarrow> bool" where
  step: "store_step d (run_op p d)"

inductive reachable :: "db \<Rightarrow> db \<Rightarrow> bool" for d0 where
  start: "reachable d0 d0"
| later: "reachable d0 d \<Longrightarrow> store_step d e \<Longrightarrow> reachable d0 e"

inductive_cases store_stepE: "store_step d e"

section \<open>Invariants of reachable states\<close>

lemma run_op_inv: "db_inv d \<Longrightarrow> db_inv (run_op p d)"
proof (cases p)
  case (OpTick n)
  then show "db_inv d \<Longrightarrow> ?thesis" by (simp add: db_inv_def)
qed (simp_all add: keeps_snd keeps_intros)

lemma step_inv: "store_step d e \<Longrightarrow> db_inv d \<Longrightarrow> db_inv e"
  by (auto elim!: store_stepE intro: run_op_inv)

lemma reachable_inv:
  assumes "reachable d0 d" and "db_inv d0"
  shows "db_inv d"
  using assms by induction (auto intro: step_inv)


section \<open>What a row keeps\<close>

definition kept :: "'a option \<Rightarrow> 'a option \<Rightarrow> bool" where
  "kept x y = (x \<noteq> None \<longrightarrow> y = x)"

lemma kept_simps [simp]: "kept x x" "kept None y" "kept (Some v) y = (y = Some v)" "kept x (coalesce x y)"
  by (auto simp: kept_def coalesce_def)

lemma kept_stamp [simp]: "kept x (stamp x d)"
  by (simp add: stamp_def)

lemma kept_trans: "kept x y \<Longrightarrow> kept y z \<Longrightarrow> kept x z"
  by (auto simp: kept_def)

definition session_later :: "session_row \<Rightarrow> session_row \<Rightarrow> bool" where
  "session_later s t =
    (s_id t = s_id s \<and> s_admission_key t = s_admission_key s \<and> s_agents_md t = s_agents_md s \<and>
     s_created_by t = s_created_by s \<and> s_client_reference t = s_client_reference s \<and>
     s_profile t = s_profile s \<and> s_profile_revision t = s_profile_revision s \<and>
     s_connection t = s_connection s \<and> s_model t = s_model s \<and> s_effort t = s_effort s \<and>
     s_keep_running t = s_keep_running s \<and> s_admitted_at t = s_admitted_at s \<and>
     (s_open t \<longrightarrow> s_open s) \<and> cleanup_rank (s_cleanup s) \<le> cleanup_rank (s_cleanup t) \<and>
     kept (s_cleaned_at s) (s_cleaned_at t) \<and> s_revision s \<le> s_revision t \<and>
     (0 < s_revision s \<longrightarrow> s_thread t = s_thread s))"

definition sandbox_later :: "sandbox_row \<Rightarrow> sandbox_row \<Rightarrow> bool" where
  "sandbox_later b c = (b_id c = b_id b \<and> b_session c = b_session b \<and> b_name c = b_name b)"

definition resource_later :: "resource_row \<Rightarrow> resource_row \<Rightarrow> bool" where
  "resource_later r q =
    (r_id q = r_id r \<and> r_sandbox q = r_sandbox r \<and> r_nonce q = r_nonce r \<and> r_reserved q = r_reserved r \<and>
     kept (r_provider r) (r_provider q) \<and> kept (r_observed r) (r_observed q) \<and> kept (r_deleted r) (r_deleted q))"

definition action_later :: "action_row \<Rightarrow> action_row \<Rightarrow> bool" where
  "action_later a b =
    (a_id b = a_id a \<and> a_session b = a_session a \<and> a_kind b = a_kind a \<and> a_scope b = a_scope a \<and>
     a_created b = a_created a \<and> (a_state a = ActionSucceeded \<longrightarrow> b = a) \<and> kept (a_settled a) (a_settled b))"

definition hold_later :: "hold_row \<Rightarrow> hold_row \<Rightarrow> bool" where
  "hold_later h g =
    (h_id g = h_id h \<and> h_sandbox g = h_sandbox h \<and> h_reason g = h_reason h \<and>
     h_requested g = h_requested h \<and> kept (h_released h) (h_released g))"

definition upgrade_later :: "upgrade_row \<Rightarrow> upgrade_row \<Rightarrow> bool" where
  "upgrade_later u v =
    (u_id v = u_id u \<and> u_sandbox v = u_sandbox u \<and> u_source v = u_source u \<and> u_path v = u_path u \<and>
     u_version v = u_version u \<and> u_requested v = u_requested u \<and>
     kept (u_destination u) (u_destination v) \<and> kept (u_previous u) (u_previous v) \<and>
     kept (u_quiesced u) (u_quiesced v) \<and> (u_cp_ref u \<noteq> None \<longrightarrow>
       u_cp_key v = u_cp_key u \<and> u_cp_ref v = u_cp_ref u \<and> u_cp_source v = u_cp_source u) \<and>
     kept (u_activated u) (u_activated v) \<and> kept (u_rollback u) (u_rollback v) \<and>
     kept (u_failure u) (u_failure v) \<and> kept (u_restored u) (u_restored v) \<and>
     kept (u_verified u) (u_verified v) \<and> kept (u_cp_deleted u) (u_cp_deleted v) \<and>
     kept (u_finished u) (u_finished v))"

definition recovery_later :: "recovery_row \<Rightarrow> recovery_row \<Rightarrow> bool" where
  "recovery_later v w =
    (v_id w = v_id v \<and> v_sandbox w = v_sandbox v \<and> v_repository w = v_repository v \<and>
     v_snapshot w = v_snapshot v \<and> v_source w = v_source v \<and> v_destination w = v_destination v \<and>
     v_requested w = v_requested v \<and> kept (v_verified v) (v_verified w) \<and> kept (v_finished v) (v_finished w))"

definition branch_later :: "branch_row \<Rightarrow> branch_row \<Rightarrow> bool" where
  "branch_later n m =
    (n_id m = n_id n \<and> n_source_session m = n_source_session n \<and>
     n_destination_session m = n_destination_session n \<and> n_destination_sandbox m = n_destination_sandbox n \<and>
     n_repository m = n_repository n \<and> n_snapshot m = n_snapshot n \<and> n_thread m = n_thread n \<and>
     n_requested m = n_requested n \<and> kept (n_restored n) (n_restored m) \<and>
     kept (n_release n) (n_release m) \<and> kept (n_ready n) (n_ready m))"

definition wake_later :: "wake_row \<Rightarrow> wake_row \<Rightarrow> bool" where
  "wake_later w v = (w_session v = w_session w \<and> w_revision w \<le> w_revision v)"

definition client_later :: "client_row \<Rightarrow> client_row \<Rightarrow> bool" where
  "client_later c q =
    (cl_id q = cl_id c \<and> cl_name q = cl_name c \<and> cl_digest q = cl_digest c \<and> cl_expires q = cl_expires c \<and>
     cl_created q = cl_created c \<and> kept (cl_revoked c) (cl_revoked q))"

definition enrollment_later :: "enrollment_row \<Rightarrow> enrollment_row \<Rightarrow> bool" where
  "enrollment_later e f =
    (e_id f = e_id e \<and> e_digest f = e_digest e \<and> e_expires f = e_expires e \<and>
     kept (e_consumed e) (e_consumed f) \<and> (e_consumed e \<noteq> None \<longrightarrow> e_client f = e_client e))"

definition name_later :: "profile_name_row \<Rightarrow> profile_name_row \<Rightarrow> bool" where
  "name_later n m = (pn_name m = pn_name n)"

definition sound_revision :: "sandbox_profile \<Rightarrow> bool" where
  \<comment> \<open>a definition the schema admits, stored under its own hash\<close>
  "sound_revision p = (revision_check p \<and> p_definition_hash p = current_definition_hash p)"

definition sound_growth :: "sandbox_profile list \<Rightarrow> sandbox_profile list \<Rightarrow> bool" where
  "sound_growth ps qs = (\<forall>q \<in> set qs. q \<in> set ps \<or> sound_revision q)"

lemma sound_growth_refl [simp]: "sound_growth ps ps"
  by (simp add: sound_growth_def)

lemma sound_growth_trans: "sound_growth ps qs \<Longrightarrow> sound_growth qs rs \<Longrightarrow> sound_growth ps rs"
  unfolding sound_growth_def by blast

lemmas later_defs = client_later_def enrollment_later_def name_later_def session_later_def sandbox_later_def resource_later_def action_later_def hold_later_def
  upgrade_later_def recovery_later_def branch_later_def wake_later_def

lemma later_refl [simp]:
  "session_later s s" "sandbox_later b b" "resource_later r r" "action_later a a" "hold_later h h"
  "upgrade_later u u" "recovery_later v v" "branch_later n n" "wake_later w w"
  "client_later c c" "enrollment_later e e" "name_later m m"
  by (simp_all add: later_defs)

lemma session_later_trans: "session_later s t \<Longrightarrow> session_later t v \<Longrightarrow> session_later s v"
  by (auto simp: session_later_def kept_def)

lemma sandbox_later_trans: "sandbox_later s t \<Longrightarrow> sandbox_later t v \<Longrightarrow> sandbox_later s v"
  by (auto simp: sandbox_later_def)

lemma resource_later_trans: "resource_later s t \<Longrightarrow> resource_later t v \<Longrightarrow> resource_later s v"
  by (auto simp: resource_later_def kept_def)

lemma action_later_trans: "action_later s t \<Longrightarrow> action_later t v \<Longrightarrow> action_later s v"
  by (auto simp: action_later_def kept_def)

lemma hold_later_trans: "hold_later s t \<Longrightarrow> hold_later t v \<Longrightarrow> hold_later s v"
  by (auto simp: hold_later_def kept_def)

lemma upgrade_later_trans: "upgrade_later s t \<Longrightarrow> upgrade_later t v \<Longrightarrow> upgrade_later s v"
  unfolding upgrade_later_def kept_def by metis

lemma recovery_later_trans: "recovery_later s t \<Longrightarrow> recovery_later t v \<Longrightarrow> recovery_later s v"
  by (auto simp: recovery_later_def kept_def)

lemma branch_later_trans: "branch_later s t \<Longrightarrow> branch_later t v \<Longrightarrow> branch_later s v"
  by (auto simp: branch_later_def kept_def)

lemma wake_later_trans: "wake_later s t \<Longrightarrow> wake_later t v \<Longrightarrow> wake_later s v"
  by (auto simp: wake_later_def)

lemma client_later_trans: "client_later s t \<Longrightarrow> client_later t v \<Longrightarrow> client_later s v"
  by (auto simp: client_later_def kept_def)

lemma enrollment_later_trans: "enrollment_later s t \<Longrightarrow> enrollment_later t v \<Longrightarrow> enrollment_later s v"
  by (auto simp: enrollment_later_def kept_def)

lemma name_later_trans: "name_later s t \<Longrightarrow> name_later t v \<Longrightarrow> name_later s v"
  by (auto simp: name_later_def)

section \<open>What a table keeps\<close>

text \<open>Rows are neither removed nor reordered; each is a later version of itself.\<close>

definition grown :: "('r \<Rightarrow> 'r \<Rightarrow> bool) \<Rightarrow> 'r list \<Rightarrow> 'r list \<Rightarrow> bool" where
  "grown R xs ys = (length xs \<le> length ys \<and> list_all2 R xs (take (length xs) ys))"

lemma grown_refl: "(\<And>x. R x x) \<Longrightarrow> grown R xs xs"
  by (simp add: grown_def list_all2_same)

lemma grown_upd:
  assumes "\<And>x. R x x" and "\<And>x. x \<in> set xs \<Longrightarrow> p x \<Longrightarrow> R x (f x)"
  shows "grown R xs (upd_where p f xs)"
  using assms by (auto simp: grown_def upd_where_def list_all2_conv_all_nth)

lemma grown_add: "(\<And>x. R x x) \<Longrightarrow> grown R xs (add_row r xs)"
  by (simp add: grown_def add_row_def list_all2_same)

lemma grown_trans:
  assumes "\<And>x y z. R x y \<Longrightarrow> R y z \<Longrightarrow> R x z" and "grown R xs ys" and "grown R ys zs"
  shows "grown R xs zs"
proof -
  have "list_all2 R (take (length xs) ys) (take (length xs) (take (length ys) zs))"
    using assms(3) by (simp add: grown_def list_all2_takeI del: take_take)
  then have "list_all2 R (take (length xs) ys) (take (length xs) zs)"
    using assms(2) by (simp add: grown_def min_absorb2)
  with assms(2,3) show ?thesis
    using list_all2_trans [of R R R xs "take (length xs) ys" "take (length xs) zs"] assms(1)
    by (auto simp: grown_def)
qed

lemma grown_row:
  assumes "grown R xs ys" and "\<And>x y. R x y \<Longrightarrow> key y = key x"
    and "row_of key k xs = Some r"
  obtains q where "row_of key k ys = Some q" "R r q"
proof -
  obtain ts us where ys: "ys = ts @ us" "list_all2 R xs ts"
    using assms(1) by (metis append_take_drop_id grown_def)
  have "row_of key k xs = Some r \<Longrightarrow> \<exists>q. row_of key k (ts @ us) = Some q \<and> R r q"
    using ys(2)
    by (induction rule: list_all2_induct) (auto simp: row_of_def dest: assms(2) split: if_splits)
  with assms(3) ys(1) that show thesis by blast
qed

definition evolves :: "db \<Rightarrow> db \<Rightarrow> bool" where
  "evolves d e =
    (now d \<le> now e \<and> grown session_later (sessions d) (sessions e) \<and> grown (=) (tasks d) (tasks e) \<and>
     grown sandbox_later (sandboxes d) (sandboxes e) \<and> grown resource_later (resources d) (resources e) \<and>
     grown action_later (actions d) (actions e) \<and> grown hold_later (holds d) (holds e) \<and>
     grown upgrade_later (upgrades d) (upgrades e) \<and> grown wake_later (wakes d) (wakes e) \<and>
     grown (=) (checkpoints d) (checkpoints e) \<and> grown recovery_later (recoveries d) (recoveries e) \<and>
     grown branch_later (branches d) (branches e) \<and>
     grown client_later (clients d) (clients e) \<and> grown enrollment_later (enrollments d) (enrollments e) \<and>
     grown name_later (profile_names d) (profile_names e) \<and> grown (=) (revisions d) (revisions e) \<and>
     sound_growth (revisions d) (revisions e) \<and>
     grown (=) (causes d) (causes e) \<and> grown (=) (retries d) (retries e) \<and> grown (=) (queue d) (queue e))"

lemma evolves_refl [simp]: "evolves d d"
  by (simp add: evolves_def grown_refl)

lemma evolves_trans:
  assumes "evolves d e" and "evolves e f"
  shows "evolves d f"
proof -
  have eq: "grown (=) xs ys \<Longrightarrow> grown (=) ys zs \<Longrightarrow> grown (=) xs zs" for xs ys zs :: "'r list"
    by (rule grown_trans [where R = "(=)"]) simp_all
  show ?thesis
    using assms unfolding evolves_def
    by (intro conjI)
      (blast intro: order_trans eq sound_growth_trans grown_trans [where R = session_later] session_later_trans
        grown_trans [where R = sandbox_later] sandbox_later_trans grown_trans [where R = resource_later]
        resource_later_trans grown_trans [where R = action_later] action_later_trans grown_trans [where R = hold_later]
        hold_later_trans grown_trans [where R = upgrade_later] upgrade_later_trans grown_trans [where R = wake_later]
        wake_later_trans grown_trans [where R = recovery_later] recovery_later_trans grown_trans [where R = branch_later]
        branch_later_trans grown_trans [where R = client_later] client_later_trans
        grown_trans [where R = enrollment_later] enrollment_later_trans grown_trans [where R = name_later]
        name_later_trans)+
qed


text \<open>
  The state after some steps from \<open>d\<close>. The keys of Sessions and wakes are carried along: two
  statements compute a column of every matching row from one of them.
\<close>

definition steady :: "db \<Rightarrow> db \<Rightarrow> bool" where
  "steady d e = (distinct (map s_id (sessions e)) \<and> distinct (map w_session (wakes e)) \<and> evolves d e)"

lemma upd_keys:
  assumes "\<And>x. x \<in> set xs \<Longrightarrow> p x \<Longrightarrow> key (f x) = key x"
  shows "map key (upd_where p f xs) = map key xs"
  using assms by (simp add: upd_where_def)

lemma steady_evolve:
  assumes "steady d e" and "evolves e f"
    and "distinct (map s_id (sessions e)) \<Longrightarrow> distinct (map s_id (sessions f))"
    and "distinct (map w_session (wakes e)) \<Longrightarrow> distinct (map w_session (wakes f))"
  shows "steady d f"
  using assms unfolding steady_def by (auto intro: evolves_trans)

lemma steady_sessions:
  assumes "steady d e" and "\<And>x. x \<in> set (sessions e) \<Longrightarrow> p x \<Longrightarrow> session_later x (f x)"
  shows "steady d (sessions_update (upd_where p f) e)"
proof (rule steady_evolve [OF assms(1)])
  have "grown session_later (sessions e) (upd_where p f (sessions e))"
    by (rule grown_upd) (use assms(2) in simp_all)
  then show "evolves e (sessions_update (upd_where p f) e)" by (simp add: evolves_def grown_refl)
  have "map s_id (upd_where p f (sessions e)) = map s_id (sessions e)"
    by (rule upd_keys) (use assms(2) in \<open>simp add: session_later_def\<close>)
  then show "distinct (map s_id (sessions e)) \<Longrightarrow> distinct (map s_id (sessions (sessions_update (upd_where p f) e)))"
    by simp
qed simp

lemma steady_wakes:
  assumes "steady d e" and "\<And>x. x \<in> set (wakes e) \<Longrightarrow> p x \<Longrightarrow> wake_later x (f x)"
  shows "steady d (wakes_update (upd_where p f) e)"
proof (rule steady_evolve [OF assms(1)])
  have "grown wake_later (wakes e) (upd_where p f (wakes e))"
    by (rule grown_upd) (use assms(2) in simp_all)
  then show "evolves e (wakes_update (upd_where p f) e)" by (simp add: evolves_def grown_refl)
  have "map w_session (upd_where p f (wakes e)) = map w_session (wakes e)"
    by (rule upd_keys) (use assms(2) in \<open>simp add: wake_later_def\<close>)
  then show "distinct (map w_session (wakes e)) \<Longrightarrow> distinct (map w_session (wakes (wakes_update (upd_where p f) e)))"
    by simp
qed simp

lemma steady_sandboxes:
  "steady d e \<Longrightarrow> (\<And>x. x \<in> set (sandboxes e) \<Longrightarrow> p x \<Longrightarrow> sandbox_later x (f x)) \<Longrightarrow>
    steady d (sandboxes_update (upd_where p f) e)"
  by (rule steady_evolve) (simp_all add: evolves_def grown_refl grown_upd)

lemma steady_resources:
  "steady d e \<Longrightarrow> (\<And>x. x \<in> set (resources e) \<Longrightarrow> p x \<Longrightarrow> resource_later x (f x)) \<Longrightarrow>
    steady d (resources_update (upd_where p f) e)"
  by (rule steady_evolve) (simp_all add: evolves_def grown_refl grown_upd)

lemma steady_actions:
  "steady d e \<Longrightarrow> (\<And>x. x \<in> set (actions e) \<Longrightarrow> p x \<Longrightarrow> action_later x (f x)) \<Longrightarrow>
    steady d (actions_update (upd_where p f) e)"
  by (rule steady_evolve) (simp_all add: evolves_def grown_refl grown_upd)

lemma steady_holds:
  "steady d e \<Longrightarrow> (\<And>x. x \<in> set (holds e) \<Longrightarrow> p x \<Longrightarrow> hold_later x (f x)) \<Longrightarrow>
    steady d (holds_update (upd_where p f) e)"
  by (rule steady_evolve) (simp_all add: evolves_def grown_refl grown_upd)

lemma steady_upgrades:
  "steady d e \<Longrightarrow> (\<And>x. x \<in> set (upgrades e) \<Longrightarrow> p x \<Longrightarrow> upgrade_later x (f x)) \<Longrightarrow>
    steady d (upgrades_update (upd_where p f) e)"
  by (rule steady_evolve) (simp_all add: evolves_def grown_refl grown_upd)

lemma steady_recoveries:
  "steady d e \<Longrightarrow> (\<And>x. x \<in> set (recoveries e) \<Longrightarrow> p x \<Longrightarrow> recovery_later x (f x)) \<Longrightarrow>
    steady d (recoveries_update (upd_where p f) e)"
  by (rule steady_evolve) (simp_all add: evolves_def grown_refl grown_upd)

lemma steady_branches:
  "steady d e \<Longrightarrow> (\<And>x. x \<in> set (branches e) \<Longrightarrow> p x \<Longrightarrow> branch_later x (f x)) \<Longrightarrow>
    steady d (branches_update (upd_where p f) e)"
  by (rule steady_evolve) (simp_all add: evolves_def grown_refl grown_upd)

lemma steady_clients:
  "steady d e \<Longrightarrow> (\<And>x. x \<in> set (clients e) \<Longrightarrow> p x \<Longrightarrow> client_later x (f x)) \<Longrightarrow>
    steady d (clients_update (upd_where p f) e)"
  by (rule steady_evolve) (simp_all add: evolves_def grown_refl grown_upd)

lemma steady_enrollments:
  "steady d e \<Longrightarrow> (\<And>x. x \<in> set (enrollments e) \<Longrightarrow> p x \<Longrightarrow> enrollment_later x (f x)) \<Longrightarrow>
    steady d (enrollments_update (upd_where p f) e)"
  by (rule steady_evolve) (simp_all add: evolves_def grown_refl grown_upd)

lemma steady_names:
  "steady d e \<Longrightarrow> (\<And>x. x \<in> set (profile_names e) \<Longrightarrow> p x \<Longrightarrow> name_later x (f x)) \<Longrightarrow>
    steady d (profile_names_update (upd_where p f) e)"
  by (rule steady_evolve) (simp_all add: evolves_def grown_refl grown_upd)

lemma steady_verifications: "steady d e \<Longrightarrow> steady d (verifications_update f e)"
  by (rule steady_evolve) (simp_all add: evolves_def grown_refl)

lemma steady_add_revision: "steady d e \<Longrightarrow> sound_revision p \<Longrightarrow> steady d (revisions_update (add_row p) e)"
  by (rule steady_evolve) (simp_all add: evolves_def grown_refl grown_add sound_growth_def)

lemma steady_add_sessions:
  "steady d e \<Longrightarrow> s_id x \<notin> s_id ` set (sessions e) \<Longrightarrow> steady d (sessions_update (add_row x) e)"
  by (rule steady_evolve) (simp_all add: evolves_def grown_refl grown_add)

lemma steady_add_wakes:
  "steady d e \<Longrightarrow> w_session x \<notin> w_session ` set (wakes e) \<Longrightarrow> steady d (wakes_update (add_row x) e)"
  by (rule steady_evolve) (simp_all add: evolves_def grown_refl grown_add)

lemma steady_adds:
  assumes e: "steady d e"
  shows "steady d (tasks_update (add_row t) e)" "steady d (sandboxes_update (add_row b) e)"
    "steady d (resources_update (add_row r) e)" "steady d (actions_update (add_row a) e)"
    "steady d (holds_update (add_row h) e)" "steady d (upgrades_update (add_row u) e)"
    "steady d (causes_update (add_row k) e)" "steady d (retries_update (add_row q) e)"
    "steady d (checkpoints_update (add_row c) e)" "steady d (recoveries_update (add_row v) e)"
    "steady d (branches_update (add_row n) e)" "steady d (clients_update (add_row l) e)"
    "steady d (enrollments_update (add_row m) e)" "steady d (profile_names_update (add_row p) e)"
    "steady d (queue_update (\<lambda>q. q @ [call]) e)"
  by (rule steady_evolve [OF e]; simp add: evolves_def grown_refl grown_add; simp add: grown_def list_all2_same)+

lemmas steady_rows = steady_sessions steady_wakes steady_sandboxes steady_resources steady_actions steady_holds
  steady_upgrades steady_recoveries steady_branches steady_clients steady_enrollments steady_names steady_verifications
  steady_add_sessions steady_add_wakes steady_adds

section \<open>Every statement keeps what is recorded\<close>

lemma steady_wp:
  assumes "\<And>e. steady d e \<Longrightarrow> wp m (\<lambda>_. steady d) (\<lambda>_. steady d) e"
  shows "keeps (steady d) m"
  using assms by (rule keepsI)

named_theorems steady_stmts \<open>statements that keep what is recorded\<close>

lemma steady_log_call [steady_stmts]: "keeps (steady d) (log_call c)"
  by (rule steady_wp) (simp add: wp_simps steady_adds)

lemma steady_insert_session_task [steady_stmts]: "keeps (steady d) (q_insert_session_task sid n tid name)"
  by (rule steady_wp) (simp add: wp_def q_insert_session_task_def steady_rows)

lemma steady_mark_scheduled [steady_stmts]: "keeps (steady d) (q_mark_cleanup_scheduled sid)"
  by (rule steady_wp)
    (auto simp: q_mark_cleanup_scheduled_def wp_simps session_later_def intro!: steady_sessions)

lemma steady_request_cleanup [steady_stmts]: "keeps (steady d) (q_request_cleanup sid)"
  by (rule steady_wp)
    (auto simp: q_request_cleanup_def wp_simps session_later_def intro!: steady_sessions)

lemma steady_ensure_wake [steady_stmts]: "keeps (steady d) (q_ensure_wake sid)"
  by (rule steady_wp) (auto simp: wp_def q_ensure_wake_def list_ex_iff intro!: steady_add_wakes)

lemma steady_insert_retry [steady_stmts]: "keeps (steady d) (q_insert_retry k sid t r n)"
  by (rule steady_wp) (simp add: q_insert_retry_def wp_simps steady_rows split: option.split)

lemma steady_set_attention [steady_stmts]: "keeps (steady d) (q_set_execution_attention sid src det)"
  by (rule steady_wp)
    (auto simp: q_set_execution_attention_def wp_simps session_later_def intro!: steady_sessions)

lemma steady_clear_attention [steady_stmts]: "keeps (steady d) (q_clear_execution_attention sid src)"
  by (rule steady_wp)
    (auto simp: q_clear_execution_attention_def wp_simps session_later_def intro!: steady_sessions)

lemma steady_set_cleanup_attention [steady_stmts]: "keeps (steady d) (q_set_cleanup_attention sid det)"
  by (rule steady_wp)
    (auto simp: q_set_cleanup_attention_def wp_simps session_later_def intro!: steady_sessions)

lemma steady_insert_session [steady_stmts]: "keeps (steady d) (q_insert_admitted_session sid rv i)"
  by (rule steady_wp)
    (auto simp: wp_def q_insert_admitted_session_def list_ex_iff intro!: steady_add_sessions)

lemma steady_reserve_sandbox [steady_stmts]: "keeps (steady d) (q_reserve_sandbox bid sid name nonce)"
  by (rule steady_wp) (simp add: wp_def q_reserve_sandbox_def steady_rows)

lemma steady_bind_resource [steady_stmts]: "keeps (steady d) (q_bind_sandbox_resource ow pid)"
  by (rule steady_wp)
    (auto simp: q_bind_sandbox_resource_def wp_simps resource_later_def intro!: steady_resources)

lemma steady_resource_deleted [steady_stmts]: "keeps (steady d) (q_record_resource_deleted rid bid)"
  by (rule steady_wp)
    (auto simp: q_record_resource_deleted_def wp_simps resource_later_def intro!: steady_resources)

lemma steady_insert_action [steady_stmts]: "keeps (steady d) (q_insert_scoped_action aid sid k sc)"
  by (rule steady_wp) (simp add: wp_def q_insert_scoped_action_def steady_rows)

lemma steady_action_success [steady_stmts]: "keeps (steady d) (q_record_action_success aid)"
  by (rule steady_wp)
    (auto simp: q_record_action_success_def wp_simps action_later_def intro!: steady_actions)

lemma steady_complete [steady_stmts]: "keeps (steady d) (q_complete_cleanup sid)"
  by (rule steady_wp)
    (auto simp: wp_def q_complete_cleanup_def Let_def session_later_def hold_later_def
      intro!: steady_sessions steady_holds)

lemma steady_begin_activity [steady_stmts]: "keeps (steady d) (q_begin_sandbox_activity sid)"
  by (rule steady_wp)
    (auto simp: q_begin_sandbox_activity_def wp_simps session_later_def intro!: steady_sessions)

lemma steady_finish_activity [steady_stmts]: "keeps (steady d) (q_finish_sandbox_activity sid)"
  by (rule steady_wp)
    (auto simp: q_finish_sandbox_activity_def wp_simps session_later_def intro!: steady_sessions)

lemma steady_idle_for [steady_stmts]: "keeps (steady d) (sandbox_idle_for sid n)"
  by (rule steady_wp)
    (auto simp: sandbox_idle_for_def wp_def Let_def session_later_def intro!: steady_sessions split: option.split)

lemma steady_insert_hold [steady_stmts]: "keeps (steady d) (q_insert_delivery_hold hid bid reason)"
  by (rule steady_wp) (simp add: q_insert_delivery_hold_def wp_simps steady_rows split: option.split)

lemma steady_release_hold [steady_stmts]: "keeps (steady d) (q_release_delivery_hold hid bid)"
  by (rule steady_wp)
    (auto simp: q_release_delivery_hold_def wp_simps hold_later_def intro!: steady_holds)

lemma steady_bind_thread [steady_stmts]: "keeps (steady d) (q_bind_native_thread sid th)"
  by (rule steady_wp)
    (auto simp: q_bind_native_thread_def wp_def update_tbl_def thread_bindable_def session_later_def intro!: steady_sessions)

lemma steady_finish_mutation [steady_stmts]: "keeps (steady d) (q_finish_native_mutation sid n)"
  by (rule steady_wp)
    (auto simp: q_finish_native_mutation_def wp_simps session_later_def intro!: steady_sessions)

lemma keyed_row:
  assumes "distinct (map key xs)" and "row_of key k xs = Some r" and "x \<in> set xs" and "key x = k"
  shows "x = r"
  using row_of_distinct [OF assms(1,3)] assms(2,4) by simp

lemma steady_begin_mutation [steady_stmts]: "keeps (steady d) (q_begin_native_mutation sid th i t)"
proof (rule steady_wp)
  fix e assume e: "steady d e"
  have one: "x = s" if "session_of e sid = Some s" "x \<in> set (sessions e)" "s_id x = sid" for x s
    using e that keyed_row [of s_id "sessions e" sid s x] by (simp add: steady_def session_of_def)
  have "steady d (sessions_update (upd_where (\<lambda>q. s_id q = sid) (\<lambda>q. q\<lparr>s_revision := s_revision s + 1,
      s_pending_input := nullif_empty i, s_pending_turn := nullif_empty t\<rparr>)) e)"
    if "session_of e sid = Some s" for s
    using e by (rule steady_sessions) (use one [OF that] in \<open>auto simp: session_later_def\<close>)
  with e show "wp (q_begin_native_mutation sid th i t) (\<lambda>_. steady d) (\<lambda>_. steady d) e"
    by (auto simp: wp_def q_begin_native_mutation_def split: option.split)
qed

lemma steady_wake_advance:
  assumes e: "steady d e" and cur: "row_of w_session sid (wakes e) = Some w"
  shows "wp (wake_advance sid cause (w_revision w)) (\<lambda>_. steady d) (\<lambda>_. steady d) e"
proof -
  have "x = w" if "x \<in> set (wakes e)" "w_session x = sid" for x
    using e cur that keyed_row [of w_session "wakes e" sid w x] by (simp add: steady_def)
  then have "steady d (wakes_update (upd_where (\<lambda>v. w_session v = sid) (\<lambda>v. v\<lparr>w_revision := w_revision w + 1\<rparr>)) e)"
    using e by (intro steady_wakes) (auto simp: wake_later_def)
  with e show ?thesis
    by (auto simp: wake_advance_def wp_simps q_set_wake_revision_def q_insert_wake_cause_def
        intro: steady_adds split: option.split)
qed

lemma steady_signal [steady_stmts]: "keeps (steady d) (signal_session_wake env qn sid cause)"
proof -
  have step: "keeps (steady d) (bnd (q_lock_wake sid) (\<lambda>cur.
     bnd (attempt (q_wake_cause sid cause)) (\<lambda>r. case r of
          Inr old \<Rightarrow> ret old
        | Inl e \<Rightarrow> if err_is e ErrNoRows then wake_advance sid cause cur else fail e)))"
    by (rule steady_wp)
      (auto simp: wp_simps q_lock_wake_def q_wake_cause_def steady_wake_advance split: option.split)
  show ?thesis unfolding signal_wake_locked by (intro keeps_intros steady_stmts step)
qed

lemma steady_upd_upgrade:
  assumes "\<And>e u. p u \<Longrightarrow> upgrade_later u (f e u)"
  shows "keeps (steady d) (upd_upgrade uid p f)"
  by (rule steady_wp) (auto simp: wp_simps intro!: steady_upgrades assms)

lemma steady_upgrade_preparation [steady_stmts]: "keeps (steady d) (q_upgrade_preparation uid v)"
  unfolding q_upgrade_preparation_def by (rule steady_upd_upgrade) (auto simp: upgrade_later_def)

lemma steady_upgrade_quiesced [steady_stmts]: "keeps (steady d) (q_upgrade_quiesced uid)"
  unfolding q_upgrade_quiesced_def by (rule steady_upd_upgrade) (auto simp: upgrade_later_def)

lemma steady_upgrade_checkpoint [steady_stmts]: "keeps (steady d) (q_upgrade_checkpoint uid c)"
  unfolding q_upgrade_checkpoint_def by (rule steady_upd_upgrade) (auto simp: upgrade_later_def)

lemma steady_upgrade_activated [steady_stmts]: "keeps (steady d) (q_upgrade_activated uid)"
  unfolding q_upgrade_activated_def by (rule steady_upd_upgrade) (auto simp: upgrade_later_def)

lemma steady_upgrade_rollback [steady_stmts]: "keeps (steady d) (q_upgrade_rollback uid code)"
  unfolding q_upgrade_rollback_def by (rule steady_upd_upgrade) (auto simp: upgrade_later_def)

lemma steady_bind_destination [steady_stmts]: "keeps (steady d) (q_bind_upgrade_destination uid rid)"
proof -
  have "keeps (steady d) (upd_upgrade uid (\<lambda>u. u_rollback u \<noteq> None \<and> (u_destination u = None \<or> u_destination u = Some rid))
      (\<lambda>d u. u\<lparr>u_destination := Some rid\<rparr>))"
    by (rule steady_upd_upgrade) (auto simp: upgrade_later_def)
  then show ?thesis
    by (auto simp: keeps_def q_bind_upgrade_destination_def wp_def)
qed

lemma steady_upgrade_restored [steady_stmts]: "keeps (steady d) (q_upgrade_restored uid)"
  unfolding q_upgrade_restored_def by (rule steady_upd_upgrade) (auto simp: upgrade_later_def)

lemma steady_upgrade_verified [steady_stmts]: "keeps (steady d) (q_upgrade_verified uid)"
  unfolding q_upgrade_verified_def by (rule steady_upd_upgrade) (auto simp: upgrade_later_def)

lemma steady_upgrade_cp_deleted [steady_stmts]: "keeps (steady d) (q_upgrade_checkpoint_deleted uid)"
  unfolding q_upgrade_checkpoint_deleted_def by (rule steady_upd_upgrade) (auto simp: upgrade_later_def)

lemma steady_upgrade_finished [steady_stmts]: "keeps (steady d) (q_upgrade_finished uid)"
  unfolding q_upgrade_finished_def by (rule steady_upd_upgrade) (auto simp: upgrade_later_def)

lemma steady_insert_upgrade [steady_stmts]: "keeps (steady d) (q_insert_upgrade r src)"
  by (rule steady_wp) (simp add: q_insert_upgrade_def wp_simps steady_rows split: option.split)

lemma steady_reserve_resource [steady_stmts]: "keeps (steady d) (q_reserve_resource rid bid nonce)"
  by (rule steady_wp) (simp add: q_reserve_resource_def wp_simps steady_rows split: option.split)

lemma steady_bind_recovered [steady_stmts]: "keeps (steady d) (q_bind_recovered_resource rid pid)"
  by (rule steady_wp)
    (auto simp: q_bind_recovered_resource_def wp_simps resource_later_def intro!: steady_resources)

lemma steady_switch [steady_stmts]: "keeps (steady d) (q_switch_sandbox_resource bid src dst)"
  by (rule steady_wp)
    (auto simp: q_switch_sandbox_resource_def wp_def update_tbl_def sandbox_later_def intro!: steady_sandboxes)

lemma steady_insert_checkpoint [steady_stmts]: "keeps (steady d) (q_insert_checkpoint uuid cid b r)"
  by (rule steady_wp) (simp add: wp_def q_insert_checkpoint_def steady_rows)

lemma steady_insert_recovery [steady_stmts]: "keeps (steady d) (q_insert_recovery r src dst)"
  by (rule steady_wp) (simp add: q_insert_recovery_def wp_simps steady_rows split: option.split)

lemma steady_recovery_verified [steady_stmts]: "keeps (steady d) (q_recovery_verified i)"
  by (rule steady_wp)
    (auto simp: q_recovery_verified_def wp_simps recovery_later_def intro!: steady_recoveries)

lemma steady_recovery_finished [steady_stmts]: "keeps (steady d) (q_recovery_finished i)"
  by (rule steady_wp)
    (auto simp: q_recovery_finished_def wp_simps recovery_later_def intro!: steady_recoveries)

lemma steady_abandon [steady_stmts]: "keeps (steady d) (q_abandon_recovery i)"
  by (rule steady_wp)
    (auto simp: q_abandon_recovery_def wp_simps hold_later_def intro!: steady_holds)

lemma steady_bind_branch_thread [steady_stmts]: "keeps (steady d) (q_bind_branch_thread sid th n)"
  by (rule steady_wp)
    (auto simp: q_bind_branch_thread_def wp_def update_tbl_def session_later_def intro!: steady_sessions)

lemma steady_insert_branch [steady_stmts]: "keeps (steady d) (q_insert_branch r sid bid th)"
  by (rule steady_wp) (simp add: q_insert_branch_def wp_simps steady_rows split: option.split)

lemma steady_branch_restored [steady_stmts]: "keeps (steady d) (q_branch_restored i)"
  by (rule steady_wp)
    (auto simp: q_branch_restored_def wp_simps branch_later_def intro!: steady_branches)

lemma steady_branch_release [steady_stmts]: "keeps (steady d) (q_request_branch_release i)"
  by (rule steady_wp)
    (auto simp: q_request_branch_release_def wp_simps branch_later_def intro!: steady_branches)

lemma steady_finish_branch [steady_stmts]: "keeps (steady d) (q_finish_branch i)"
  by (rule steady_wp)
    (auto simp: q_finish_branch_def wp_def branch_later_def hold_later_def intro!: steady_branches steady_holds)

lemma steady_insert_client [steady_stmts]: "keeps (steady d) (insert_client c)"
  by (rule steady_wp) (simp add: insert_client_def wp_simps steady_rows split: option.split)

lemma steady_insert_clients [steady_stmts]:
  "keeps (steady d) (q_insert_client cid name dg l)" "keeps (steady d) (q_insert_api_key cid name dg)"
  unfolding q_insert_client_def q_insert_api_key_def clock_def by (intro keeps_intros steady_stmts)+

lemma steady_insert_enrollment [steady_stmts]: "keeps (steady d) (q_insert_enrollment i dg l)"
  by (rule steady_wp) (simp add: q_insert_enrollment_def wp_simps steady_rows split: option.split)

lemma steady_bind_enrollment [steady_stmts]: "keeps (steady d) (q_bind_enrollment cid i)"
  by (rule steady_wp)
    (auto simp: wp_def q_bind_enrollment_def enrollment_later_def intro!: steady_enrollments)

lemma steady_revoke [steady_stmts]: "keeps (steady d) (q_revoke_client cid)"
  by (rule steady_wp)
    (auto simp: wp_def q_revoke_client_def client_later_def intro!: steady_clients split: option.split)

lemma steady_profile_names [steady_stmts]:
  "keeps (steady d) (q_insert_profile_name name hash)" "keeps (steady d) (q_update_profile name hash)"
  "keeps (steady d) q_clear_default" "keeps (steady d) (q_set_default name)"
  "keeps (steady d) (q_promote_profile name hash contract)"
  by (rule steady_wp, auto simp: wp_def q_insert_profile_name_def q_update_profile_def q_clear_default_def q_set_default_def
      q_promote_profile_def update_tbl_def name_later_def intro!: steady_names steady_adds)+

lemma steady_verification_stmts [steady_stmts]:
  "keeps (steady d) (q_delete_verification name hash)" "keeps (steady d) (q_begin_verification name contract hash bid nonce)"
  "keeps (steady d) (q_record_probe x version)" "keeps (steady d) (q_record_verification_cleanup x)"
  "keeps (steady d) (q_record_verification_error x detail)" "keeps (steady d) (q_mark_unavailable detail name contract sid)"
  by (rule steady_wp, auto simp: wp_def q_delete_verification_def modify_def q_begin_verification_def Let_def q_record_probe_def
      q_record_verification_cleanup_def q_record_verification_error_def q_mark_unavailable_def update_tbl_def seq_def bnd_def
      require_def ret_def fail_def clock_def gets_def intro!: steady_verifications split: option.split)+

lemma steady_insert_profile:
  assumes "normalize_profile net q = Inr p"
  shows "keeps (steady d) (q_insert_profile p)"
  by (rule steady_wp)
    (auto simp: wp_def q_insert_profile_def sound_revision_def normalized_stored [OF assms] intro!: steady_add_revision)

lemma keeps_bnd_lift: "(\<And>x. r = Inr x \<Longrightarrow> keeps I (f x)) \<Longrightarrow> keeps I (bnd (lift r) f)"
  by (auto simp: keeps_def wp_simps split: sum.split)

section \<open>Every operation keeps what is recorded\<close>

lemma steady_attach [steady_stmts]: "keeps (steady d) (attach_session_task sid x tid name c)"
  unfolding attach_session_task_def by (intro keeps_intros steady_stmts)

lemma steady_spawn [steady_stmts]: "keeps (steady d) (spawn_session_task env qn sid name key)"
  unfolding spawn_session_task_def by (intro keeps_intros steady_stmts)

lemma steady_admit [steady_stmts]: "keeps (steady d) (admit_direct env nonce qn i)"
  unfolding admit_direct_def admit_session_def admission_tx_def find_or_insert_admission_def q_get_admitted_def
    lock_admission_profile_revision_def q_lock_profile_name_def q_lock_verified_profile_def
    reserve_admitted_sandbox_def schedule_session_task_def
  by (intro keeps_intros steady_stmts)

lemma steady_sessions_ops [steady_stmts]:
  "keeps (steady d) (schedule_cleanup env qn sid c)"
  "keeps (steady d) (signal_native_terminal_wake env qn g)"
  "keeps (steady d) (retry_failed_session env qn sid key)"
  "keeps (steady d) (set_execution_attention sid src det)"
  "keeps (steady d) (clear_execution_attention sid src)"
  "keeps (steady d) (set_cleanup_attention sid det)"
  unfolding schedule_cleanup_def signal_native_terminal_wake_def q_native_wake_binding_def
    retry_failed_session_def q_get_retry_def Let_def set_execution_attention_def clear_execution_attention_def
    set_cleanup_attention_def
  by (intro keeps_intros steady_stmts)+

lemma steady_action_ops [steady_stmts]:
  "keeps (steady d) (bind_sandbox_resource ow pid)"
  "keeps (steady d) (record_sandbox_resource_deleted ow)"
  "keeps (steady d) (get_or_create_sandbox_action bid k)"
  "keeps (steady d) (record_sandbox_action_success aid)"
  "keeps (steady d) (complete_cleanup sid tid)"
  "keeps (steady d) (begin_sandbox_activity sid)"
  "keeps (steady d) (finish_sandbox_activity sid)"
  unfolding bind_sandbox_resource_def record_sandbox_resource_deleted_def get_or_create_sandbox_action_def
    q_get_scoped_action_def record_sandbox_action_success_def authorize_sandbox_action_tx_def q_get_action_def
    complete_cleanup_def q_list_session_tasks_def q_count_unsettled_def begin_sandbox_activity_def
    finish_sandbox_activity_def
  by (intro keeps_intros steady_stmts)+

lemma steady_native_ops [steady_stmts]:
  "keeps (steady d) (bind_native_thread sid th)"
  "keeps (steady d) (begin_native_mutation sid th i t)"
  "keeps (steady d) (finish_native_mutation sid n)"
  unfolding bind_native_thread_def begin_native_mutation_def finish_native_mutation_def
  by (intro keeps_intros steady_stmts)+

lemma steady_upgrade_ops [steady_stmts]:
  "keeps (steady d) (request_sandbox_upgrade env qn r)"
  "keeps (steady d) (record_upgrade_preparation uid v)"
  "keeps (steady d) (record_upgrade_quiesced uid)"
  "keeps (steady d) (record_upgrade_checkpoint uid c)"
  "keeps (steady d) (record_upgrade_activated uid)"
  "keeps (steady d) (request_upgrade_rollback uid code)"
  "keeps (steady d) (reserve_upgrade_destination n rc b)"
  "keeps (steady d) (record_upgrade_restored rc pid)"
  "keeps (steady d) (record_upgrade_verified uid)"
  "keeps (steady d) (record_upgrade_checkpoint_deleted uid)"
  "keeps (steady d) (finish_sandbox_upgrade env qn rc)"
  unfolding request_sandbox_upgrade_def record_upgrade_preparation_def record_upgrade_quiesced_def
    record_upgrade_checkpoint_def record_upgrade_activated_def request_upgrade_rollback_def
    reserve_upgrade_destination_def Let_def record_upgrade_restored_def record_upgrade_verified_def
    record_upgrade_checkpoint_deleted_def finish_sandbox_upgrade_def authorize_upgrade_release_def
    switch_and_release_upgrade_def
  by (intro keeps_intros steady_stmts)+

lemma steady_checkpoint_ops [steady_stmts]:
  "keeps (steady d) (publish_checkpoint uuid b r cid cur)"
  unfolding publish_checkpoint_def check_current_boundary_def by (intro keeps_intros steady_stmts)

lemma steady_recovery_ops [steady_stmts]:
  "keeps (steady d) (request_checkpoint_recovery env nonce qn rq)"
  "keeps (steady d) (record_recovery_restored rv pid)"
  "keeps (steady d) (record_recovery_verified i)"
  "keeps (steady d) (abandon_recovery_for_cleanup rv)"
  "keeps (steady d) (finish_checkpoint_recovery env qn rv)"
  unfolding request_checkpoint_recovery_def replay_recovery_def authorize_recovery_request_def
    insert_recovery_request_def record_recovery_restored_def record_recovery_verified_def
    abandon_recovery_for_cleanup_def finish_checkpoint_recovery_def authorize_recovery_release_def
    switch_and_release_recovery_def Let_def
  by (intro keeps_intros steady_stmts)+

lemma steady_branch_ops [steady_stmts]:
  "keeps (steady d) (request_checkpoint_branch env nonce qn rb)"
  "keeps (steady d) (record_branch_restored i)"
  "keeps (steady d) (release_checkpoint_branch env qn i)"
  "keeps (steady d) (finish_checkpoint_branch x)"
  unfolding request_checkpoint_branch_def authorize_branch_source_def replay_checkpoint_branch_def
    persist_new_branch_def q_get_admitted_def reserve_admitted_sandbox_def schedule_session_task_def Let_def
    record_branch_restored_def release_checkpoint_branch_def finish_checkpoint_branch_def
  by (intro keeps_intros steady_stmts)+

lemma steady_auth_ops [steady_stmts]:
  "keeps (steady d) (store_create_enrollment i dg l)"
  "keeps (steady d) (redeem_enrollment raw i secret name dg l)"
  "keeps (steady d) (issue_key raw name dg)"
  "keeps (steady d) (revoke_client cid)"
  unfolding store_create_enrollment_def redeem_enrollment_def redeem_consumed_def redeem_fresh_def issue_key_def
    revoke_client_def
  by (intro keeps_intros steady_stmts)+

lemma steady_candidate_ops [steady_stmts]:
  "keeps (steady d) (create_profile net p)" "keeps (steady d) (update_profile net name patch)"
  unfolding create_profile_def update_profile_def Let_def
  by (intro keeps_bnd_lift steady_insert_profile keeps_intros steady_stmts; assumption)+

lemma steady_profile_ops [steady_stmts]:
  "keeps (steady d) (set_default_profile name)" "keeps (steady d) (begin_profile_verification nonce name)"
  "keeps (steady d) (record_profile_probe x version)" "keeps (steady d) (record_verification_cleanup x)"
  "keeps (steady d) (record_verification_error x failure)" "keeps (steady d) (record_profile_unavailable sid name source failure)"
  unfolding set_default_profile_def begin_profile_verification_def record_profile_probe_def
    record_verification_cleanup_def record_verification_error_def record_profile_unavailable_def Let_def
  by (intro keeps_intros steady_stmts)+

lemma run_op_steady: "steady d e \<Longrightarrow> steady d (run_op p e)"
proof (cases p)
  case (OpTick n)
  assume e: "steady d e"
  have "evolves e (e\<lparr>now := now e + n\<rparr>)" by (simp add: evolves_def grown_refl)
  with e OpTick show ?thesis unfolding steady_def by (auto intro: evolves_trans)
qed (simp_all add: keeps_snd keeps_intros steady_stmts)

lemma reachable_evolves:
  assumes "reachable d0 d" and "db_inv d0"
  shows "evolves d0 d"
proof -
  have "steady d0 d0"
    using assms(2) by (simp add: steady_def db_inv_def sessions_ok_def wakes_ok_def)
  with assms(1) have "steady d0 d"
    by induction (auto elim!: store_stepE intro: run_op_steady)
  then show ?thesis by (simp add: steady_def)
qed

lemma evolved_row:
  assumes "db_inv d0" and "reachable d0 d" and "\<And>d e. evolves d e \<Longrightarrow> grown R (tbl d) (tbl e)"
    and "\<And>x y. R x y \<Longrightarrow> key y = key x" and "row_of key k (tbl d0) = Some r"
  shows "\<exists>q. row_of key k (tbl d) = Some q \<and> R r q"
  using grown_row [OF assms(3) [OF reachable_evolves [OF assms(2,1)]] assms(4,5)] by blast

end
