(* ===== verification/Store_Laws.thy ===== *)
theory Store_Laws
  imports Store_Steps
begin

text \<open>
  What the operations of the store return and leave behind: wakes are numbered once per cause,
  scheduling cleanup hands the Session to one cleanup task, a retry request is answered from
  its receipt, a pending native mutation excludes a second one, and a held Sandbox admits none.
\<close>

section \<open>Wakes\<close>

definition wake_recorded :: "db \<Rightarrow> string \<Rightarrow> string \<Rightarrow> int \<Rightarrow> bool" where
  "wake_recorded d sid cause n =
    ((\<exists>w. row_of w_session sid (wakes d) = Some w) \<and>
     (\<exists>k. row_of (\<lambda>k. (k_session k, k_cause k)) (sid, cause) (causes d) = Some k \<and> k_revision k = n))"

definition wake_level :: "db \<Rightarrow> string \<Rightarrow> int" where
  "wake_level d sid = (case row_of w_session sid (wakes d) of None \<Rightarrow> 0 | Some w \<Rightarrow> w_revision w)"

definition emit_wake :: "absurd_env \<Rightarrow> string \<Rightarrow> string \<Rightarrow> string \<Rightarrow> int \<Rightarrow> (db, int) act" where
  "emit_wake env qn sid cause n =
    seq (log_call (EmitWake qn sid n cause))
   (seq (lift (emit_event env qn (session_execution_wake_event sid n) cause)) (ret n))"

lemma signal_recorded:
  assumes "wake_recorded d sid cause n"
  shows "signal_session_wake env qn sid cause d = emit_wake env qn sid cause n d"
proof -
  obtain w k where w: "row_of w_session sid (wakes d) = Some w"
    and k: "row_of (\<lambda>k. (k_session k, k_cause k)) (sid, cause) (causes d) = Some k" "k_revision k = n"
    using assms by (auto simp: wake_recorded_def)
  have "list_ex (\<lambda>w. w_session w = sid) (wakes d)"
    using w by (auto simp: list_ex_iff dest: row_of_in row_of_key)
  with w k show ?thesis
    by (simp add: signal_session_wake_def emit_wake_def bnd_def seq_def q_ensure_wake_def q_lock_wake_def
        q_wake_cause_def gets_def the_row_def ret_def attempt_def)
qed

lemma ensure_wake_level:
  assumes "q_ensure_wake sid d = (Inr (), e)"
  shows "wake_level e sid = wake_level d sid \<and> causes e = causes d \<and> row_of w_session sid (wakes e) \<noteq> None \<and>
    (\<forall>t. t \<noteq> sid \<longrightarrow> wake_level e t = wake_level d t)"
proof (cases "list_ex (\<lambda>w. w_session w = sid) (wakes d)")
  case True
  with assms show ?thesis
    by (auto simp: q_ensure_wake_def row_of_None list_ex_iff)
next
  case False
  then have "row_of w_session sid (wakes d) = None" by (auto simp: row_of_None list_ex_iff)
  with False assms show ?thesis
    by (auto simp: q_ensure_wake_def wake_level_def row_of_add split: if_splits option.splits)
qed

lemma signal_new:
  assumes run: "signal_session_wake env qn sid cause d = (Inr n, e)"
    and new: "row_of (\<lambda>k. (k_session k, k_cause k)) (sid, cause) (causes d) = None"
  shows "n = wake_level d sid + 1 \<and> wake_recorded e sid cause n \<and> wake_level e sid = n"
proof -
  obtain f where f: "q_ensure_wake sid d = (Inr (), f)"
    using run by (cases "q_ensure_wake sid d") (auto simp: signal_session_wake_def seq_def bnd_def split: sum.splits)
  note lv = ensure_wake_level [OF f]
  then obtain w where w: "row_of w_session sid (wakes f) = Some w" by blast
  let ?ws = "upd_where (\<lambda>v. w_session v = sid) (\<lambda>v. v\<lparr>w_revision := w_revision w + 1\<rparr>) (wakes f)"
  have "row_of w_session sid ?ws = Some (w\<lparr>w_revision := w_revision w + 1\<rparr>)"
    using w by (simp add: row_of_upd)
  moreover have "wake_level f sid = w_revision w" using w by (simp add: wake_level_def)
  moreover have "row_of (\<lambda>k. (k_session k, k_cause k)) (sid, cause) (causes f) = None"
    using lv new by simp
  moreover have "wp (wake_advance sid cause (w_revision w))
     (\<lambda>m g. m = w_revision w + 1 \<and> wakes g = ?ws \<and>
        causes g = add_row \<lparr>k_session = sid, k_cause = cause, k_revision = m\<rparr> (causes f)) (\<lambda>_ _. True) f"
    by (simp add: wake_advance_def wp_simps q_set_wake_revision_def q_insert_wake_cause_def split: option.split)
  ultimately have "wp (signal_session_wake env qn sid cause)
     (\<lambda>m g. m = wake_level d sid + 1 \<and> wake_recorded g sid cause m \<and> wake_level g sid = m) (\<lambda>_ _. True) d"
    using f w lv
    by (simp add: signal_wake_locked wp_seq wp_bnd wp_log_call wp_lift wp_ret)
       (simp add: wp_def [of "q_ensure_wake sid"] q_lock_wake_def wp_simps q_wake_cause_def,
        auto simp: wake_recorded_def row_of_add wake_level_def elim!: wp_mono split: sum.split)
  from wp_result [OF this run] show ?thesis .
qed

section \<open>Scheduling cleanup\<close>

lemma insert_task_frame:
  "wp (q_insert_session_task sid n tid name)
    (\<lambda>_ e. sessions e = sessions d \<and> queue e = queue d) (\<lambda>_ _. True) d"
  by (simp add: wp_def q_insert_session_task_def)

lemma attach_cleanup_schedules:
  assumes inv: "db_inv d"
  shows "wp (attach_session_task sid expected tid name True)
    (\<lambda>_ e. queue e = queue d \<and> (\<exists>s. session_of e sid = Some s \<and> s_cleanup s = CleanupScheduled))
    (\<lambda>_ _. True) d"
proof (cases "find_task_state d sid")
  case None
  then show ?thesis by (simp add: attach_session_task_def q_current_task_for_update_def wp_simps)
next
  case (Some c)
  obtain s where s: "session_of d sid = Some s" "ct_open c = s_open s" "ct_cleanup c = s_cleanup s"
    using Some by (rule find_task_state_cases)
  let ?attached = "\<lambda>e. sessions e = sessions d \<and> queue e = queue d"
  let ?goal = "\<lambda>e. queue e = queue d \<and> (\<exists>s. session_of e sid = Some s \<and> s_cleanup s = CleanupScheduled)"
  have first: "wp (if ct_id c = tid then
         require (ct_name c = name) (Errorf ''task is already attached under another name'')
       else
         seq (require (ct_id c = expected) (Errorf ''current task is not the expected predecessor''))
        (bnd (q_insert_session_task sid (ct_sequence c + 1) tid name) (\<lambda>n.
         require (n = 1) (Errorf ''task is already attached to another Session''))))
     (\<lambda>_. ?attached) (\<lambda>_ _. True) d"
    using insert_task_frame [of sid "ct_sequence c + 1" tid name d]
    by (auto simp: wp_simps elim!: wp_mono)
  show ?thesis
  proof (cases "validate_task_attachment_state c sid tid True")
    case v: None
    then have st: "\<not> s_open s" "s_cleanup s = CleanupRequested \<or> s_cleanup s = CleanupScheduled"
      using s by (auto simp: validate_task_attachment_state_def split: if_splits)
    have mark: "wp (if True \<and> ct_cleanup c = CleanupRequested then
         bnd (q_mark_cleanup_scheduled sid) (\<lambda>n.
         require (n = 1) (Errorf ''cleanup scheduling did not settle''))
       else ret ()) (\<lambda>_. ?goal) (\<lambda>_ _. True) e" if e: "?attached e" for e
    proof -
      have "session_of e sid = Some s" using e s(1) by (simp add: session_of_def)
      moreover have "s_id s = sid" using s(1) by (auto simp: session_of_def dest: row_of_key)
      ultimately show ?thesis using e st s
        by (auto simp: wp_simps q_mark_cleanup_scheduled_def session_of_def row_of_upd_where)
    qed
    show ?thesis using Some v
      by (simp add: attach_session_task_def q_current_task_for_update_def wp_gets wp_bnd wp_the_row wp_seq
            split del: if_split)
         (rule wp_mono [OF first], erule mark [simplified], simp)
  qed (use Some in \<open>simp add: attach_session_task_def q_current_task_for_update_def wp_simps\<close>)
qed

definition cleanup_calls :: "string \<Rightarrow> string \<Rightarrow> string \<Rightarrow> string \<Rightarrow> queue_call list" where
  \<comment> \<open>the superseded task is cancelled unless it schedules its own cleanup, then cleanup is spawned\<close>
  "cleanup_calls qn sid current caller =
    (if current \<noteq> [] \<and> current \<noteq> caller then [CancelTask qn current] else []) @
    [SpawnTask qn cleanup_task_name sid (cleanup_task_key sid)]"

definition cleanup_scheduled_with :: "queue_call list \<Rightarrow> string \<Rightarrow> db \<Rightarrow> bool" where
  "cleanup_scheduled_with qs sid d =
    (queue d = qs \<and> (\<exists>s. session_of d sid = Some s \<and> s_cleanup s = CleanupScheduled))"

definition spawn_cleanup :: "absurd_env \<Rightarrow> string \<Rightarrow> string \<Rightarrow> string \<Rightarrow> (db, unit) act" where
  "spawn_cleanup env qn sid expected =
    bnd (spawn_session_task env qn sid cleanup_task_name (cleanup_task_key sid)) (\<lambda>tid.
    attach_session_task sid expected tid cleanup_task_name True)"

lemma spawn_cleanup_schedules:
  assumes "db_inv d"
  shows "wp (spawn_cleanup env qn sid expected)
    (\<lambda>_. cleanup_scheduled_with (queue d @ [SpawnTask qn cleanup_task_name sid (cleanup_task_key sid)]) sid)
    (\<lambda>_ _. True) d"
proof -
  let ?d = "queue_update (\<lambda>q. q @ [SpawnTask qn cleanup_task_name sid (cleanup_task_key sid)]) d"
  have "db_inv ?d" using assms by (simp add: db_inv_def)
  from attach_cleanup_schedules [OF this] show ?thesis
    unfolding cleanup_scheduled_with_def [abs_def]
    by (simp add: spawn_cleanup_def wp_simps spawn_session_task_def split: sum.split)
qed

lemma schedule_cleanup_result:
  assumes inv: "db_inv d" and run: "schedule_cleanup env qn sid caller d = (Inr (), e)"
  shows "\<exists>c s. find_task_state d sid = Some c \<and> session_of e sid = Some s \<and>
    (if ct_cleanup c = CleanupScheduled \<or> ct_cleanup c = CleanupComplete then e = d
     else s_cleanup s = CleanupScheduled \<and> queue e = queue d @ cleanup_calls qn sid (ct_id c) caller)"
proof (cases "find_task_state d sid")
  case None
  with run show ?thesis
    by (simp add: schedule_cleanup_def tx_def bnd_def q_current_task_for_update_def gets_def the_row_def fail_def)
next
  case (Some c)
  obtain s where s: "session_of d sid = Some s" "ct_cleanup c = s_cleanup s"
    using Some by (rule find_task_state_cases)
  show ?thesis
  proof (cases "ct_cleanup c = CleanupScheduled \<or> ct_cleanup c = CleanupComplete")
    case True
    with run Some s show ?thesis
      by (auto simp: schedule_cleanup_def tx_def bnd_def q_current_task_for_update_def gets_def the_row_def ret_def)
  next
    case False
    let ?p = "\<lambda>s. s_id s = sid \<and> (s_cleanup s = CleanupPending \<or> s_cleanup s = CleanupRequested)"
    let ?f = "\<lambda>s. s\<lparr>s_open := False, s_cleanup := (if s_cleanup s = CleanupPending then CleanupRequested else s_cleanup s)\<rparr>"
    let ?d = "sessions_update (upd_where ?p ?f) d"
    let ?c = "queue_update (\<lambda>q. q @ [CancelTask qn (ct_id c)]) ?d"
    have d1: "db_inv ?d"
      using keepsD [OF keeps_request_cleanup inv, of sid] by (simp add: q_request_cleanup_def wp_simps)
    then have d2: "db_inv ?c" by (simp add: db_inv_def)
    have "wp (schedule_cleanup env qn sid caller) (\<lambda>_. cleanup_scheduled_with (queue d @ cleanup_calls qn sid (ct_id c) caller) sid)
        (\<lambda>_ _. True) d"
      using Some False spawn_cleanup_schedules [OF d1, of env qn sid "ct_id c"]
        spawn_cleanup_schedules [OF d2, of env qn sid "ct_id c"]
      by (auto simp: schedule_cleanup_def wp_simps q_current_task_for_update_def q_request_cleanup_def
          cleanup_calls_def spawn_cleanup_def [symmetric] split: sum.split)
    from wp_result [OF this run] Some False show ?thesis
      by (auto simp: cleanup_scheduled_with_def)
  qed
qed

lemma scheduled_owner:
  assumes "db_inv e" and "session_of e sid = Some s" and "s_cleanup s = CleanupScheduled \<or> s_cleanup s = CleanupComplete"
  shows "\<not> s_open s \<and> (\<exists>t. current_task e sid = Some t \<and> t_name t = cleanup_task_name)"
  using assms session_of_ok [of e sid s]
  by (auto simp: db_inv_def cleanup_owned_def row_ok_iff current_task_def session_tasks_def cleanup_task_name_def
      session_of_def dest: row_of_in)

section \<open>Native mutations\<close>

lemma begin_refused:
  assumes "\<And>s. session_of d sid = Some s \<Longrightarrow> \<not> can_begin_mutation d (nullif_empty th) s"
  shows "begin_native_mutation sid th i t d = (Inl (Sentinel ErrNoRows), d)"
  using assms by (auto simp: begin_native_mutation_def q_begin_native_mutation_def split: option.split)

lemma unfinished_holds_session:
  assumes inv: "db_inv d" and u: "u \<in> set (upgrades d)" "u_finished u = None"
    and b: "sandbox_of d (u_sandbox u) = Some b"
    and s: "session_of d (b_session b) = Some s" "s_cleanup s \<noteq> CleanupComplete"
  shows "session_held d (b_session b)"
proof -
  have "upgrade_held (sessions d) (sandboxes d) (holds d) u"
    using inv u(1) by (simp add: db_inv_def upgrades_held_def)
  then obtain h where h: "h \<in> set (holds d)" "h_sandbox h = u_sandbox u"
    "u_finished u = None \<longrightarrow> h_released h = None \<or> cleanup_over (sessions d) (sandboxes d) (u_sandbox u)"
    by (rule upgrade_heldE)
  have bs: "b \<in> set (sandboxes d)" "b_id b = u_sandbox u"
    using b by (auto simp: sandbox_of_def dest: row_of_in row_of_key)
  have "\<not> cleanup_over (sessions d) (sandboxes d) (u_sandbox u)"
  proof
    assume "cleanup_over (sessions d) (sandboxes d) (u_sandbox u)"
    then obtain c q where c: "c \<in> set (sandboxes d)" "b_id c = u_sandbox u"
      and q: "q \<in> set (sessions d)" "s_id q = b_session c" "s_cleanup q = CleanupComplete"
      by (auto simp: cleanup_over_def)
    have "c = b" using inv c b keyed_row [of b_id "sandboxes d" "u_sandbox u" b c]
      by (simp add: db_inv_def resources_ok_def sandbox_of_def)
    moreover have "q = s" if "s_id q = b_session b"
      using inv q(1) s(1) that keyed_row [of s_id "sessions d" "b_session b" s q]
      by (simp add: db_inv_def sessions_ok_def session_of_def)
    ultimately show False using q s(2) by simp
  qed
  with h u(2) have "h_released h = None" by blast
  with h(1,2) bs show ?thesis
    unfolding session_held_def list_ex_iff by (intro bexI [of _ h] conjI bexI [of _ b]) simp_all
qed

section \<open>Actions\<close>

lemma find_scoped_in:
  "find_scoped_action d sid k sc = Some a \<Longrightarrow>
    a \<in> set (actions d) \<and> a_session a = sid \<and> a_kind a = k \<and> a_scope a = sc"
  by (auto simp: find_scoped_action_def find_Some_iff)

section \<open>Retries\<close>

definition retry_recorded :: "db \<Rightarrow> string \<Rightarrow> string \<Rightarrow> retry_receipt \<Rightarrow> bool" where
  \<comment> \<open>the receipt of a request key is stored, for its Session\<close>
  "retry_recorded d sid key r =
    (\<exists>q. row_of q_key key (retries d) = Some q \<and> q_session q = sid \<and> 
      (q_attempt q = rr_attempt r \<or> q_attempt q = to_int32 (rr_attempt r)) \<and>
      r\<lparr>rr_created := False\<rparr> = retry_receipt_of (q_key q) (q_session q) (q_task q) (q_run q) (rr_attempt r) False)"

lemma insert_retry_recorded:
  "wp (q_insert_retry key sid tid run (to_int32 n))
    (\<lambda>_ e. retry_recorded e sid key (retry_receipt_of key sid tid run n True)) (\<lambda>_ _. True) d"
proof -
  have "row_of q_key key (retries d) = None" if "\<not> list_ex (\<lambda>q. q_key q = key) (retries d)"
    using that by (auto simp: row_of_None list_ex_iff)
  then show ?thesis
    by (auto simp: q_insert_retry_def wp_simps first_violation_None row_of_add retry_recorded_def retry_receipt_of_def
        split: option.split)
qed

lemma retry_result:
  "wp (retry_failed_session env qn sid key)
    (\<lambda>r e. retry_recorded e (trim_space sid) (trim_space key) r) (\<lambda>_ _. True) d"
proof (cases "row_of q_key (trim_space key) (retries d)")
  case None
  have ins: "wp (seq (q_insert_retry (trim_space key) (trim_space sid) tid run (to_int32 n))
      (ret (retry_receipt_of (trim_space key) (trim_space sid) tid run n True)))
      (\<lambda>r e. retry_recorded e (trim_space sid) (trim_space key) r) (\<lambda>_ _. True) f" for tid run n f
    unfolding wp_seq wp_ret by (rule insert_retry_recorded)
  show ?thesis
    unfolding retry_failed_session_def Let_def q_get_retry_def wp_if wp_tx wp_bnd wp_attempt wp_gets wp_the_row None
    by (auto simp: wp_fail wp_no_rows_as wp_require wp_seq [of "log_call _"] wp_seq [of "require _ _"] wp_log_call wp_the_row
        wp_bnd wp_gets q_current_task_for_update_def ins split: option.split sum.split)
next
  case (Some q)
  then show ?thesis
    by (auto simp: retry_failed_session_def Let_def q_get_retry_def wp_simps retry_recorded_def retry_receipt_of_def
        dest: row_of_key)
qed

section \<open>Listing Sessions\<close>

definition listable :: "db \<Rightarrow> session_row list" where
  \<comment> \<open>the Sessions a listing can return, newest first\<close>
  "listable d = rev (sort_key session_position
      (filter (\<lambda>s. revision_of d (s_profile s) (s_profile_revision s) \<noteq> None) (sessions d)))"

definition list_entry :: "session_row \<Rightarrow> listed_session" where
  "list_entry s = \<lparr>ls_created_by = text_of (s_created_by s), ls_client_reference = s_client_reference s,
     ls_id = s_id s, ls_admitted_at = s_admitted_at s\<rparr>"

lemma sorted_strict:
  assumes "distinct (map s_id (sessions d))"
  shows "sorted_wrt (\<lambda>s t. session_position t < session_position s) (listable d)"
proof -
  let ?xs = "sort_key session_position (filter (\<lambda>s. revision_of d (s_profile s) (s_profile_revision s) \<noteq> None) (sessions d))"
  have "distinct (map s_id ?xs)"
    using assms by (simp add: distinct_map distinct_map_filter inj_on_def)
  then have "distinct (map session_position ?xs)"
    by (auto simp: distinct_map inj_on_def session_position_def)
  moreover have "sorted (map session_position ?xs)" by simp
  ultimately have "sorted_wrt (<) (map session_position ?xs)"
    by (simp add: strict_sorted_iff)
  then show ?thesis by (simp add: listable_def sorted_wrt_rev sorted_wrt_map)
qed

lemma below_position:
  assumes "sorted_wrt (\<lambda>s t. f t < (f s :: 'a::linorder)) xs" and "k < length xs"
  shows "filter (\<lambda>s. f s < f (xs ! k)) xs = drop (Suc k) xs"
  using assms
proof (induction xs arbitrary: k)
  case (Cons x xs)
  show ?case
  proof (cases k)
    case 0
    then show ?thesis using Cons.prems by (auto simp: filter_id_conv)
  next
    case (Suc j)
    with Cons.prems have "\<not> f x < f (xs ! j)" by (simp add: not_less less_imp_le)
    with Cons Suc show ?thesis by auto
  qed
qed simp

lemma list_page:
  assumes "1 \<le> l" "l \<le> 101"
  shows "list_sessions l None [] d = (Inr (map list_entry (take (nat l) (listable d))), d)"
  using assms
  by (simp add: list_sessions_def seq_def bnd_def require_def ret_def q_list_sessions_def gets_def listable_def
      list_entry_def)

lemma list_page_after:
  assumes "1 \<le> l" "l \<le> 101" and "i \<noteq> []"
  shows "list_sessions l (Some t) i d =
    (Inr (map list_entry (take (nat l) (filter (\<lambda>s. session_position s < (t, i)) (listable d)))), d)"
proof -
  have both: "filter (\<lambda>s. p s \<and> q s) xs = filter q (filter p xs)" for p q :: "session_row \<Rightarrow> bool" and xs
    by (induction xs) auto
  have "rev (sort_key session_position (filter (\<lambda>s. revision_of d (s_profile s) (s_profile_revision s) \<noteq> None \<and>
        session_position s < (t, i)) (sessions d))) = filter (\<lambda>s. session_position s < (t, i)) (listable d)"
    by (simp only: both listable_def rev_filter filter_sort [symmetric])
  with assms show ?thesis
    by (simp add: list_sessions_def seq_def bnd_def require_def ret_def q_list_sessions_def gets_def list_entry_def)
qed

end
