(* ===== verification/Checkpoint_Laws.thy ===== *)
theory Checkpoint_Laws
  imports Store_Laws Recovery_Service
begin

text \<open>
  What checkpoints, recoveries and branches guarantee: delivery is refused while a restoration is
  pending, a publication certifies the boundary it was copied at, a recovery adopts only a verified
  replacement at exactly the checkpoint's revision, and a request is answered from its receipt.
\<close>

section \<open>Delivery is held\<close>

lemma pending_op_holds_session:
  assumes inv: "db_inv d" and op: "(i, b_id b, why, True) \<in> set (pending_ops (recoveries d) (branches d))"
    and b: "sandbox_of d (b_id b) = Some b" and s: "session_of d (b_session b) = Some s" "s_open s"
  shows "session_held d (b_session b)"
proof -
  have "op_held (sessions d) (sandboxes d) (holds d) (i, b_id b, why, True)"
    using inv op by (simp add: db_inv_def ops_held_def)
  then obtain h where h: "h \<in> set (holds d)" "h_sandbox h = b_id b"
    "True \<longrightarrow> h_released h = None \<or> session_closed (sessions d) (sandboxes d) (b_id b)"
    by (rule op_heldE)
  have "\<not> session_closed (sessions d) (sandboxes d) (b_id b)"
  proof
    assume "session_closed (sessions d) (sandboxes d) (b_id b)"
    then obtain c q where c: "c \<in> set (sandboxes d)" "b_id c = b_id b"
      and q: "q \<in> set (sessions d)" "s_id q = b_session c" "\<not> s_open q"
      by (auto simp: session_closed_def)
    have "c = b" using inv c b keyed_row [of b_id "sandboxes d" "b_id b" b c]
      by (simp add: db_inv_def resources_ok_def sandbox_of_def)
    moreover have "q = s" if "s_id q = b_session b"
      using inv q(1) s(1) that keyed_row [of s_id "sessions d" "b_session b" s q]
      by (simp add: db_inv_def sessions_ok_def session_of_def)
    ultimately show False using q s(2) by simp
  qed
  moreover have "b \<in> set (sandboxes d)" using b by (simp add: sandbox_of_def row_of_in)
  ultimately show ?thesis
    using h unfolding session_held_def list_ex_iff by (intro bexI [of _ h] conjI bexI [of _ b]) simp_all
qed

lemma pending_restoration_op:
  assumes "(\<exists>v \<in> set (recoveries d). v_sandbox v = bid \<and> v_finished v = None) \<or>
    (\<exists>n \<in> set (branches d). n_destination_sandbox n = bid \<and> n_ready n = None)"
  obtains i why where "(i, bid, why, True) \<in> set (pending_ops (recoveries d) (branches d))"
proof -
  consider v where "v \<in> set (recoveries d)" "v_sandbox v = bid" "v_finished v = None"
    | n where "n \<in> set (branches d)" "n_destination_sandbox n = bid" "n_ready n = None"
    using assms by blast
  then show thesis
  proof cases
    case 1
    then have "(v_id v, bid, ''checkpoint_recovery'', True) \<in> set (pending_ops (recoveries d) (branches d))"
      by (auto simp: pending_ops_def intro!: image_eqI [of _ _ v])
    then show thesis by (rule that)
  next
    case 2
    then have "(n_id n, bid, ''checkpoint_branch'', True) \<in> set (pending_ops (recoveries d) (branches d))"
      by (auto simp: pending_ops_def intro!: image_eqI [of _ _ n])
    then show thesis by (rule that)
  qed
qed

section \<open>What a Session is read from\<close>

definition session_view :: "db \<Rightarrow> db \<Rightarrow> bool" where
  \<comment> \<open>the tables Sessions and Sandbox owners are read from are the same\<close>
  "session_view d e = (sessions e = sessions d \<and> tasks e = tasks d \<and> revisions e = revisions d)"

lemma session_view_find: "session_view d e \<Longrightarrow> find_session e = find_session d"
proof (rule ext)
  fix sid assume v: "session_view d e"
  have "session_value e = session_value d"
    by (intro ext) (use v in \<open>simp add: session_view_def session_value_def current_task_def session_tasks_def\<close>)
  moreover have "revision_of e = revision_of d" by (intro ext) (use v in \<open>simp add: session_view_def revision_of_def\<close>)
  ultimately show "find_session e sid = find_session d sid"
    using v by (cases "row_of s_id sid (sessions d)") (simp_all add: find_session_def session_of_def session_view_def)
qed

section \<open>Publications\<close>

lemma same_checkpoint_boundary:
  "same_checkpoint b r c \<Longrightarrow> pc_boundary c = b \<and> pc_reference c = r"
  by (simp add: same_checkpoint_def)

lemma publish_replay:
  assumes "find_checkpoint d r = Some c" and "same_checkpoint b r c" and "validate_checkpoint b r = None"
    and "find_session d (cb_session b) = Some j"
  shows "publish_checkpoint uuid b r cid cur d = (Inr c, d)"
  using assms
  by (simp add: publish_checkpoint_def q_session_admission_def q_get_session_def q_checkpoint_by_reference_def
      tx_def bnd_def seq_def attempt_def gets_def the_row_def ret_def require_def)

lemma publish_frame:
  "wp (publish_checkpoint uuid b r cid cur)
    (\<lambda>_ e. find_session e = find_session d \<and> validate_checkpoint b r = None \<and> find_session d (cb_session b) \<noteq> None)
    (\<lambda>_ _. True) d"
proof -
  let ?I = "session_view d"
  have ins: "keeps ?I (q_insert_checkpoint uuid cid b r)"
    by (rule keeps_total) (simp add: q_insert_checkpoint_def session_view_def)
  have k: "wp (bnd (attempt (q_checkpoint_by_reference r)) (\<lambda>stored. case stored of
           Inr c \<Rightarrow>
             seq (require (same_checkpoint b r c)
                   (Errorf ''checkpoint reference already records a different execution boundary''))
            (ret c)
         | Inl e \<Rightarrow>
             if \<not> err_is e ErrNoRows then fail e else
             seq (if cur then check_current_boundary b else ret ())
            (bnd (q_insert_checkpoint uuid cid b r) (\<lambda>_.
             bnd (q_checkpoint_by_reference r) (\<lambda>c.
             seq (require (same_checkpoint b r c)
                   (Errorf ''checkpoint reference already records a different execution boundary''))
            (ret c)))))) (\<lambda>_. ?I) (\<lambda>_. ?I) d"
    unfolding check_current_boundary_def by (rule keepsD) (intro keeps_intros ins, simp add: session_view_def)
  show ?thesis
  proof (cases "validate_checkpoint b r")
    case None
    show ?thesis
    proof (cases "find_session d (cb_session b)")
      case (Some j)
      show ?thesis
        unfolding publish_checkpoint_def None option.case wp_tx wp_bnd [of "q_session_admission _"] wp_session_admission Some
        by (rule wp_mono [OF k]) (auto dest: session_view_find)
    next
      case none: None
      show ?thesis
        unfolding publish_checkpoint_def None option.case wp_tx wp_bnd [of "q_session_admission _"] wp_session_admission none
        by simp
    qed
  next
    case (Some x)
    then show ?thesis by (simp add: publish_checkpoint_def wp_fail)
  qed
qed

section \<open>Adoption of a replacement\<close>

definition adopted :: "db \<Rightarrow> recovery_receipt \<Rightarrow> db \<Rightarrow> bool" where
  \<comment> \<open>what the adoption of \<open>r\<close> found in \<open>d\<close> and left in \<open>e\<close>\<close>
  "adopted d r e =
    (rv_verified r \<noteq> None \<and> rv_source_deleted r \<noteq> None \<and> rv_destination_provider r \<noteq> [] \<and>
     rv_destination_deleted r = None \<and>
     (\<exists>b s. sandbox_of d (rq_sandbox (rv_request r)) = Some b \<and> session_of d (b_session b) = Some s \<and>
       s_revision s = cb_revision (pc_boundary (rv_checkpoint r)) \<and> s_pending_input s = None \<and> s_pending_turn s = None) \<and>
     (\<exists>b. sandbox_of e (rq_sandbox (rv_request r)) = Some b \<and> b_active b = rv_destination r) \<and>
     (\<exists>v. row_of v_id (rq_id (rv_request r)) (recoveries e) = Some v \<and> v_finished v \<noteq> None) \<and>
     (\<exists>h. row_of h_id (rq_id (rv_request r)) (holds e) = Some h \<and> h_released h \<noteq> None))"

definition releasable :: "db \<Rightarrow> recovery_receipt \<Rightarrow> bool" where
  "releasable d r =
    (rv_verified r \<noteq> None \<and> rv_source_deleted r \<noteq> None \<and> rv_destination_provider r \<noteq> [] \<and>
     rv_destination_deleted r = None \<and>
     (\<exists>b s. sandbox_of d (rq_sandbox (rv_request r)) = Some b \<and> session_of d (b_session b) = Some s \<and>
       s_revision s = cb_revision (pc_boundary (rv_checkpoint r)) \<and> s_pending_input s = None \<and> s_pending_turn s = None))"

lemma authorize_releasable:
  "wp (authorize_recovery_release p q r) (\<lambda>_ e. e = d \<and> releasable d r) (\<lambda>_ _. True) d"
  by (auto simp: authorize_recovery_release_def q_get_delivery_hold_def q_native_state_safe_def wp_simps releasable_def
      split: option.splits)

text \<open>The three rows a release writes.\<close>

definition released_rows :: "string \<Rightarrow> string \<Rightarrow> string \<Rightarrow> db \<Rightarrow> bool" where
  "released_rows i bid destination e =
    ((\<exists>b. sandbox_of e bid = Some b \<and> b_active b = destination) \<and>
     (\<exists>v. row_of v_id i (recoveries e) = Some v \<and> v_finished v \<noteq> None) \<and>
     (\<exists>h. row_of h_id i (holds e) = Some h \<and> h_released h \<noteq> None))"

lemma one_row_hit:
  assumes "distinct (map key t)" and "count_where (\<lambda>r. key r = k \<and> p r) t = Suc 0"
    and "\<And>r. key (f r) = key r" and "\<And>r. P (f r)"
  shows "\<exists>q. row_of key k (upd_where (\<lambda>r. key r = k \<and> p r) f t) = Some q \<and> P q"
proof -
  obtain r where r: "row_of key k t = Some r" "p r" using count_where_one_unique [OF assms(1,2)] by blast
  from row_of_key [OF r(1)] r show ?thesis by (intro exI [of _ "f r"]) (simp add: row_of_upd_where assms(3,4))
qed

lemma wp_switch:
  "wp (q_switch_sandbox_resource bid x y) Q E = (\<lambda>d.
    if list_ex (\<lambda>b. b_id b = bid \<and> b_active b = x) (sandboxes d) \<and> \<not> owns_resource d bid y
    then E (foreign_key_violation ''sandboxes_active_owned_resource'') d
    else Q (count_where (\<lambda>b. b_id b = bid \<and> b_active b = x) (sandboxes d))
      (sandboxes_update (upd_where (\<lambda>b. b_id b = bid \<and> b_active b = x) (\<lambda>b. b\<lparr>b_active := y\<rparr>)) d))"
  by (rule ext) (simp add: wp_def q_switch_sandbox_resource_def update_tbl_def)

lemma released_rows_wp:
  assumes inv: "db_inv d"
  shows "wp (switch_and_release_recovery env qn r)
    (\<lambda>_. released_rows (rq_id (rv_request r)) (rq_sandbox (rv_request r)) (rv_destination r)) (\<lambda>_ _. True) d"
proof -
  let ?i = "rq_id (rv_request r)" and ?b = "rq_sandbox (rv_request r)"
  let ?s = "\<lambda>b. b_id b = ?b \<and> b_active b = rv_source r" and ?v = "\<lambda>v. v_id v = ?i \<and> v_verified v \<noteq> None"
    and ?h = "\<lambda>h. h_id h = ?i \<and> h_sandbox h = ?b"
  have dist: "distinct (map b_id (sandboxes d))" "distinct (map v_id (recoveries d))" "distinct (map h_id (holds d))"
    using inv by (auto simp: db_inv_def resources_ok_def recoveries_ok_def holds_ok_def)
  have tail: "wp (bnd (signal_session_wake env qn sid cause) (\<lambda>_. ret ())) (\<lambda>_. released_rows ?i ?b x) (\<lambda>_ _. True) e"
    if "released_rows ?i ?b x e" for sid cause x e
  proof -
    have "keeps (released_rows ?i ?b x) (signal_session_wake env qn sid cause)"
      by (rule keeps_signal_frame) (simp_all add: released_rows_def sandbox_of_def)
    from keepsD [OF this that] show ?thesis unfolding wp_bnd wp_ret by (rule wp_mono) simp_all
  qed
  have rows: "released_rows ?i ?b (rv_destination r) (holds_update (upd_where ?h (\<lambda>h. h\<lparr>h_released := coalesce (h_released h) (Some t)\<rparr>))
      (recoveries_update (upd_where ?v (\<lambda>v. v\<lparr>v_finished := stamp (v_finished v) e\<rparr>))
        (sandboxes_update (upd_where ?s (\<lambda>b. b\<lparr>b_active := rv_destination r\<rparr>)) d)))"
    if "count_where ?s (sandboxes d) = Suc 0" "count_where ?v (recoveries d) = Suc 0" "count_where ?h (holds d) = Suc 0" for t e
    unfolding released_rows_def sandbox_of_def using dist that
    by (intro conjI) (simp_all add: one_row_hit del: not_None_eq)
  show ?thesis
    unfolding switch_and_release_recovery_def Let_def
    by (auto simp: wp_seq wp_expect_one_rows wp_switch q_recovery_finished_def q_release_delivery_hold_def
        wp_update_tbl_at simp del: not_None_eq intro!: tail rows)
qed

lemma finish_recovery_adopts:
  assumes inv: "db_inv d" and r: "find_recovery d (rq_id (rv_request x)) = Some r" "rv_finished r = None"
  shows "wp (finish_checkpoint_recovery env qn x) (\<lambda>_. adopted d r) (\<lambda>_ _. True) d"
proof -
  have go: "wp (seq (authorize_recovery_release a b r) (switch_and_release_recovery env qn r)) (\<lambda>_. adopted d r) (\<lambda>_ _. True) d" for a b
    unfolding wp_seq
  proof (rule wp_mono [OF authorize_releasable])
    fix y e assume e: "e = d \<and> releasable d r"
    show "wp (switch_and_release_recovery env qn r) (\<lambda>_. adopted d r) (\<lambda>_ _. True) e"
      unfolding e [THEN conjunct1] by (rule wp_mono [OF released_rows_wp [OF inv]])
        (use e in \<open>simp_all add: releasable_def adopted_def released_rows_def\<close>)
  qed simp
  show ?thesis
    unfolding finish_checkpoint_recovery_def wp_tx wp_bnd [of "q_session_admission _"] wp_session_admission
    using go r
    by (auto simp: wp_bnd wp_seq wp_require q_get_session_def q_get_recovery_def wp_gets wp_the_row wp_session_admission
        split: option.split)
qed

section \<open>A recovery request is answered from its receipt\<close>

definition request_view :: "db \<Rightarrow> db \<Rightarrow> bool" where
  "request_view d e =
    (session_view d e \<and> sandboxes e = sandboxes d \<and>
     (\<forall>k q. resource_of d k = Some q \<longrightarrow> resource_of e k = Some q))"

lemma request_view_sandbox:
  assumes "request_view d e" and "find_sandbox d bid = Some b"
  shows "find_sandbox e bid = Some b"
  using assms by (auto simp: request_view_def find_sandbox_def sandbox_of_def split: option.splits)

lemma keeps_request_view:
  "keeps (request_view d) (q_insert_delivery_hold i bid why)"
  "keeps (request_view d) (q_reserve_resource rid bid n)"
  "keeps (request_view d) (q_insert_recovery r src dst)"
  "keeps (request_view d) (signal_session_wake env qn sid cause)"
  by (rule keepsI, simp add: q_insert_delivery_hold_def wp_simps request_view_def session_view_def resource_of_def
      split: option.split)
    (rule keepsI, auto simp: q_reserve_resource_def wp_simps request_view_def session_view_def resource_of_def row_of_add
      split: option.split,
     rule keepsI, simp add: q_insert_recovery_def wp_simps request_view_def session_view_def resource_of_def
      split: option.split,
     rule keeps_signal_frame, simp_all add: request_view_def session_view_def resource_of_def)

definition recorded_request :: "recovery_request \<Rightarrow> db \<Rightarrow> bool" where
  "recorded_request r e =
    (\<exists>v. row_of v_id (rq_id r) (recoveries e) = Some v \<and> v_sandbox v = rq_sandbox r \<and>
       v_repository v = rq_repository r \<and> v_snapshot v = rq_snapshot r)"

lemma insert_recovery_records:
  "wp (q_insert_recovery r src dst) (\<lambda>_. recorded_request r) (\<lambda>_ _. True) d"
proof -
  have "row_of v_id (rq_id r) (recoveries d) = None" if "\<not> list_ex (\<lambda>v. v_id v = rq_id r) (recoveries d)"
    using that by (auto simp: row_of_None list_ex_iff)
  then show ?thesis
    by (auto simp: q_insert_recovery_def wp_simps first_violation_None recorded_request_def row_of_add split: option.split)
qed

lemma insert_request_records:
  "wp (insert_recovery_request nonce r src) (\<lambda>_ e. recorded_request r e \<and> request_view d e) (\<lambda>_ _. True) d"
proof -
  have rec: "wp (insert_recovery_request nonce r src) (\<lambda>_. recorded_request r) (\<lambda>_ _. True) d"
  proof -
    have "wp (bnd (lift nonce) (\<lambda>n. seq (q_reserve_resource (replacement_resource_id (rq_id r)) (rq_sandbox r) n)
        (q_insert_recovery r src (replacement_resource_id (rq_id r))))) (\<lambda>_. recorded_request r) (\<lambda>_ _. True) e" for e
      unfolding wp_bnd wp_seq
      by (rule wp_mono [OF wp_trivial]) (auto intro!: wp_mono [OF wp_trivial] insert_recovery_records)
    then show ?thesis
      unfolding insert_recovery_request_def wp_seq [of "q_insert_delivery_hold _ _ _"] by (rule wp_mono [OF wp_trivial]) simp_all
  qed
  have "keeps (request_view d) (insert_recovery_request nonce r src)"
    unfolding insert_recovery_request_def by (intro keeps_intros keeps_request_view)
  then have "wp (insert_recovery_request nonce r src) (\<lambda>_. request_view d) (\<lambda>_. request_view d) d"
    by (rule keepsD) (simp add: request_view_def session_view_def)
  with rec show ?thesis by (rule wp_both) simp_all
qed

definition answered :: "db \<Rightarrow> recovery_request \<Rightarrow> recovery_receipt \<Rightarrow> db \<Rightarrow> bool" where
  \<comment> \<open>the receipt of \<open>r\<close> is stored, in the Session and Sandbox it names\<close>
  "answered d r x e =
    (request_view d e \<and> find_recovery e (rq_id r) = Some x \<and> rv_request x = r \<and>
     validate_recovery_request r = None \<and> list_all bounded_identity [rq_session r, rq_sandbox r, rq_id r] \<and>
     find_session d (rq_session r) \<noteq> None \<and>
     (\<exists>b. find_sandbox d (rq_sandbox r) = Some b \<and> sb_session_id b = rq_session r))"

lemma recorded_receipt:
  assumes rec: "recorded_request r e" and view: "request_view d e"
    and b: "find_sandbox d (rq_sandbox r) = Some b" "sb_session_id b = rq_session r"
    and x: "find_recovery e (rq_id r) = Some x"
  shows "rv_request x = r"
proof -
  have "find_sandbox e (rq_sandbox r) = Some b" by (rule request_view_sandbox [OF view b(1)])
  then obtain c where c: "sandbox_of e (rq_sandbox r) = Some c" "b_session c = rq_session r"
    using b(2) by (auto simp: find_sandbox_def sandbox_value_def split: option.splits)
  from rec obtain v where v: "row_of v_id (rq_id r) (recoveries e) = Some v" "v_sandbox v = rq_sandbox r"
    "v_repository v = rq_repository r" "v_snapshot v = rq_snapshot r"
    by (auto simp: recorded_request_def)
  show ?thesis
    using x v c row_of_key [OF v(1)]
    by (auto simp: find_recovery_def recovery_joined_def recovery_receipt_of_def split: option.splits)
qed

lemma wp_get_sandbox:
  "wp (q_get_sandbox bid) Q E = (\<lambda>d. case find_sandbox d bid of None \<Rightarrow> E (Sentinel ErrNoRows) d | Some b \<Rightarrow> Q b d)"
  by (simp add: q_get_sandbox_def wp_simps)

lemma wp_get_recovery:
  "wp (q_get_recovery i) Q E = (\<lambda>d. case find_recovery d i of None \<Rightarrow> E (Sentinel ErrNoRows) d | Some x \<Rightarrow> Q x d)"
  by (simp add: q_get_recovery_def wp_simps)

lemma request_recovery_answered:
  "wp (request_checkpoint_recovery env nonce qn r) (\<lambda>x e. answered d r x e) (\<lambda>_ _. True) d"
proof (cases "validate_recovery_request r = None \<and> list_all bounded_identity [rq_session r, rq_sandbox r, rq_id r] \<and>
    find_session d (rq_session r) \<noteq> None \<and>
    (\<exists>b. find_sandbox d (rq_sandbox r) = Some b \<and> sb_session_id b = rq_session r)")
  case False
  then show ?thesis
    by (auto simp: request_checkpoint_recovery_def with_delivery_hold_def wp_simps wp_session_admission q_get_sandbox_def
        split: option.split)
next
  case True
  then obtain b where b: "find_sandbox d (rq_sandbox r) = Some b" "sb_session_id b = rq_session r" by blast
  have refl: "request_view d d" by (simp add: request_view_def session_view_def)
  have final: "wp (bnd (signal_session_wake env qn (rq_session r) cause) (\<lambda>_. q_get_recovery (rq_id r)))
      (\<lambda>x e. answered d r x e) (\<lambda>_ _. True) e" if "recorded_request r e \<and> request_view d e" for e cause
  proof -
    have "keeps (\<lambda>e. recorded_request r e \<and> request_view d e) (signal_session_wake env qn (rq_session r) cause)"
      by (rule keeps_signal_frame) (simp_all add: recorded_request_def request_view_def session_view_def resource_of_def)
    from keepsD [OF this that] show ?thesis
      unfolding wp_bnd
      by (rule wp_mono) (use True b recorded_receipt in \<open>auto simp: q_get_recovery_def wp_simps answered_def split: option.split\<close>)
  qed
  have new: "wp (seq (insert_recovery_request nonce r src)
      (bnd (signal_session_wake env qn (rq_session r) cause) (\<lambda>_. q_get_recovery (rq_id r))))
      (\<lambda>x e. answered d r x e) (\<lambda>_ _. True) d" for src cause
    unfolding wp_seq by (rule wp_mono [OF insert_request_records]) (simp_all add: final)
  have auth: "wp (authorize_recovery_request r) (\<lambda>_ e. e = d) (\<lambda>_ e. e = d) d"
    unfolding authorize_recovery_request_def by (rule wp_reader) (intro keeps_intros)
  have fresh: "wp (bnd (authorize_recovery_request r) (\<lambda>owned.
      seq (require_sandbox_unheld (rq_sandbox r))
     (seq (insert_recovery_request nonce r (sb_resource_id owned))
     (bnd (signal_session_wake env qn (rq_session r) (recovery_cause (rq_id r))) (\<lambda>_. q_get_recovery (rq_id r))))))
     (\<lambda>x e. answered d r x e) (\<lambda>_ _. True) d"
    unfolding wp_bnd [of "authorize_recovery_request r"]
    by (rule wp_mono [OF auth]) (auto simp: wp_seq [of "require_sandbox_unheld _"] require_sandbox_unheld_def
        sandbox_delivery_held_def wp_bnd wp_gets wp_require new [unfolded wp_seq wp_bnd] wp_seq)
  show ?thesis
    using True b refl fresh
    by (auto simp: request_checkpoint_recovery_def with_delivery_hold_def replay_recovery_def wp_simps
        wp_session_admission wp_get_sandbox wp_get_recovery answered_def split: option.split)
qed

lemma answered_replay:
  assumes "answered d r x e"
  shows "request_checkpoint_recovery env nonce qn r e = (Inr x, e)"
proof -
  obtain b where b: "find_sandbox e (rq_sandbox r) = Some b" "sb_session_id b = rq_session r"
    using assms request_view_sandbox by (auto simp: answered_def)
  have "find_session e = find_session d" using assms session_view_find by (auto simp: answered_def request_view_def)
  then show ?thesis
    using assms b
    by (auto simp: answered_def request_checkpoint_recovery_def with_delivery_hold_def q_session_admission_def
        q_get_session_def q_get_sandbox_def replay_recovery_def q_get_recovery_def
        tx_def bnd_def seq_def attempt_def gets_def the_row_def ret_def require_def)
qed

section \<open>A branch starts at its checkpoint and leaves its source alone\<close>

definition bound_session :: "string \<Rightarrow> string \<Rightarrow> int \<Rightarrow> db \<Rightarrow> db \<Rightarrow> bool" where
  \<comment> \<open>the Session \<open>sid\<close> has the Thread and revision, and every other Session is as it was\<close>
  "bound_session sid th n d e =
    ((\<exists>s. session_of e sid = Some s \<and> s_thread s = nullif_empty th \<and> s_revision s = n \<and>
       s_pending_input s = None \<and> s_pending_turn s = None) \<and>
     (\<forall>k. k \<noteq> sid \<longrightarrow> session_of e k = session_of d k))"

definition branch_recorded :: "branch_request \<Rightarrow> string \<Rightarrow> string \<Rightarrow> db \<Rightarrow> bool" where
  "branch_recorded r sid bid e =
    (held_for (br_id r) bid ''checkpoint_branch'' e \<and>
     (\<exists>m. row_of n_id (br_id r) (branches e) = Some m \<and> n_source_session m = br_source r \<and>
       n_destination_session m = sid \<and> n_destination_sandbox m = bid \<and> n_repository m = br_repository r \<and>
       n_snapshot m = br_snapshot r \<and> n_ready m = None))"

lemma keeps_schedule_frame:
  assumes "\<And>f d. I d \<Longrightarrow> I (tasks_update f d)" and "\<And>f d. I d \<Longrightarrow> I (queue_update f d)"
    and "\<And>s d. I d \<Longrightarrow> I (sessions_update s d)"
  shows "keeps I (schedule_session_task env qn sid name key)"
  unfolding schedule_session_task_def spawn_session_task_def attach_session_task_def log_call_def q_insert_session_task_def
    q_mark_cleanup_scheduled_def update_tbl_def q_current_task_for_update_def
  by (intro keeps_intros keeps_modify keeps_total) (auto simp: assms)

lemma bind_branch_binds:
  assumes "distinct (map s_id (sessions d))"
  shows "wp (expect_one_rows (q_bind_branch_thread sid (nullif_empty th) n)) (\<lambda>_. bound_session sid th n d) (\<lambda>_ _. True) d"
proof -
  let ?p = "\<lambda>s. s_id s = sid \<and> s_thread s = None \<and> s_revision s = 0 \<and> s_pending_input s = None \<and> s_pending_turn s = None"
  let ?f = "\<lambda>s. s\<lparr>s_thread := nullif_empty th, s_revision := n\<rparr>"
  have "bound_session sid th n d (sessions_update (upd_where ?p ?f) d)" if "count_where ?p (sessions d) = Suc 0"
  proof -
    obtain s where r: "row_of s_id sid (sessions d) = Some s" "s_thread s = None \<and> s_revision s = 0 \<and>
        s_pending_input s = None \<and> s_pending_turn s = None"
      using count_where_one_unique [OF assms, of sid "\<lambda>s. s_thread s = None \<and> s_revision s = 0 \<and>
        s_pending_input s = None \<and> s_pending_turn s = None"] \<open>count_where ?p (sessions d) = Suc 0\<close> by blast
    then have s: "row_of s_id sid (sessions d) = Some s" "?p s" by (auto dest: row_of_key)
    have "row_of s_id k (upd_where ?p ?f (sessions d)) = row_of s_id k (sessions d)" if "k \<noteq> sid" for k
      using that by (cases "row_of s_id k (sessions d)") (auto simp: row_of_upd_where dest: row_of_key)
    with s show ?thesis by (simp add: bound_session_def session_of_def row_of_upd_where)
  qed
  then show ?thesis by (auto simp: wp_expect_one_rows wp_def q_bind_branch_thread_def update_tbl_def)
qed

lemma open_branch_records:
  "wp (seq (q_insert_delivery_hold (br_id r) bid ''checkpoint_branch'') (q_insert_branch r sid bid th))
    (\<lambda>_ e. branch_recorded r sid bid e \<and> sessions e = sessions d) (\<lambda>_ _. True) d"
proof -
  have "row_of n_id (br_id r) (branches d) = None" if "\<not> list_ex (\<lambda>n. n_id n = br_id r) (branches d)"
    using that by (auto simp: row_of_None list_ex_iff)
  then show ?thesis
    by (auto simp: wp_simps q_insert_delivery_hold_def q_insert_branch_def first_violation_None branch_recorded_def
        held_for_def list_ex_iff row_of_add split: option.split)
qed

lemma persist_branch_records:
  assumes "distinct (map s_id (sessions d))"
  shows "wp (persist_new_branch env nonce qn r sid th n)
    (\<lambda>_ e. bound_session sid th n d e \<and> branch_recorded r sid (main_sandbox_name sid) e) (\<lambda>_ _. True) d"
proof -
  let ?bid = "main_sandbox_name sid"
  let ?Q = "\<lambda>_ e. bound_session sid th n d e \<and> branch_recorded r sid ?bid e"
  have schedule: "wp (schedule_session_task env qn sid tn tk) ?Q (\<lambda>_ _. True) e"
    if e: "bound_session sid th n d e \<and> branch_recorded r sid ?bid e" for tn tk e
  proof -
    have "keeps (branch_recorded r sid ?bid) (schedule_session_task env qn sid tn tk)"
      by (rule keeps_schedule_frame) (simp_all add: branch_recorded_def held_for_def)
    then have "wp (schedule_session_task env qn sid tn tk) (\<lambda>_. branch_recorded r sid ?bid) (\<lambda>_ _. True) e"
      by (rule wp_mono [OF keepsD]) (use e in simp_all)
    with schedule_post [of env qn sid tn tk e] show ?thesis
      by (rule wp_both) (use e in \<open>auto simp: bound_session_def session_of_def\<close>)
  qed
  have rest: "wp (seq (seq (q_insert_delivery_hold (br_id r) ?bid ''checkpoint_branch'') (q_insert_branch r sid ?bid th))
      (schedule_session_task env qn sid tn tk)) ?Q (\<lambda>_ _. True) e" if "bound_session sid th n d e" for e tn tk
    unfolding wp_seq [of "seq _ _"]
    by (rule wp_mono [OF open_branch_records]) (use that schedule in \<open>auto simp: bound_session_def session_of_def\<close>)
  have bind: "wp (seq (expect_one_rows (q_bind_branch_thread sid (nullif_empty th) n))
      (seq (seq (q_insert_delivery_hold (br_id r) ?bid ''checkpoint_branch'') (q_insert_branch r sid ?bid th))
        (schedule_session_task env qn sid tn tk))) ?Q (\<lambda>_ _. True) e" if "sessions e = sessions d" for e tn tk
    unfolding wp_seq [of "expect_one_rows _"]
  proof (rule wp_mono [OF bind_branch_binds])
    show "distinct (map s_id (sessions e))" using assms that by simp
    fix x f assume "bound_session sid th n e f"
    then have "bound_session sid th n d f" using that by (simp add: bound_session_def session_of_def)
    then show "wp (seq (seq (q_insert_delivery_hold (br_id r) ?bid ''checkpoint_branch'') (q_insert_branch r sid ?bid th))
        (schedule_session_task env qn sid tn tk)) ?Q (\<lambda>_ _. True) f" by (rule rest)
  qed simp
  have "wp (seq (reserve_admitted_sandbox nonce sid ?bid) (seq (expect_one_rows (q_bind_branch_thread sid (nullif_empty th) n))
      (seq (seq (q_insert_delivery_hold (br_id r) ?bid ''checkpoint_branch'') (q_insert_branch r sid ?bid th))
        (schedule_session_task env qn sid tn tk)))) ?Q (\<lambda>_ _. True) d" for tn tk
    unfolding wp_seq [of "reserve_admitted_sandbox _ _ _"] by (rule wp_mono [OF reserve_post]) (use bind in auto)
  then show ?thesis
    unfolding persist_new_branch_def Let_def wp_seq by simp
qed

text \<open>What the request of a new branch leaves.\<close>

definition branched :: "db \<Rightarrow> branch_request \<Rightarrow> branch_receipt \<Rightarrow> db \<Rightarrow> bool" where
  "branched d r x e =
    (let sid = session_id (branch_key (br_id r)); bid = main_sandbox_name sid in
     bc_request x = r \<and> bc_session x = sid \<and> bc_sandbox x = bid \<and> bc_ready x = None \<and>
     held_for (br_id r) bid ''checkpoint_branch'' e \<and>
     (\<exists>j c s. find_session d (br_source r) = Some j \<and>
       find_checkpoint d \<lparr>ref_repository = br_repository r, ref_snapshot = br_snapshot r\<rparr> = Some c \<and>
       cb_session (pc_boundary c) = sess_id j \<and> cb_upgrade (pc_boundary c) = [] \<and>
       cb_sandbox (pc_boundary c) = main_sandbox_name (sess_id j) \<and> cb_profile (pc_boundary c) = sess_profile j \<and>
       cb_profile_revision (pc_boundary c) = sess_profile_revision j \<and> cb_revision (pc_boundary c) \<noteq> 0 \<and>
       session_of e sid = Some s \<and> s_thread s = Some (thread_id j) \<and> s_revision s = cb_revision (pc_boundary c) \<and>
       s_pending_input s = None \<and> s_pending_turn s = None) \<and>
     session_of d sid = None \<and> (\<forall>k. k \<noteq> sid \<longrightarrow> session_of e k = session_of d k))"

lemma inserted_session:
  assumes "q_insert_admitted_session sid rv i d = (Inr n, e)" and "n \<noteq> 0"
  shows "session_of d sid = None \<and> (\<forall>k. k \<noteq> sid \<longrightarrow> session_of e k = session_of d k)"
proof -
  obtain r where r: "e = sessions_update (add_row r) d" "s_id r = sid" "\<not> list_ex (\<lambda>s. s_id s = sid \<or> s_admission_key s = ad_key i) (sessions d)"
    using assms by (auto simp: q_insert_admitted_session_def split: if_splits)
  then have "session_of d sid = None" by (auto simp: session_of_def row_of_None list_ex_iff)
  moreover have "session_of e k = session_of d k" if "k \<noteq> sid" for k
    using that r by (cases "row_of s_id k (sessions d)") (auto simp: session_of_def row_of_add)
  ultimately show ?thesis by blast
qed

lemma wp_replay_branch:
  "wp (replay_checkpoint_branch r sid) Q E = wp (checkpoint_branch (br_id r))
    (\<lambda>x d. if bc_request x = r \<and> bc_session x = sid then Q x d
      else E (Wrapf ''branch identity already belongs to another request'' (Sentinel ErrCaptureConflict)) d)
    (\<lambda>_. E (Wrapf ''branch identity already belongs to another request'' (Sentinel ErrCaptureConflict)))"
  by (auto simp: replay_checkpoint_branch_def wp_simps intro!: arg_cong [where f = "\<lambda>q. wp _ q _"] ext)

lemma branch_read:
  assumes rec: "branch_recorded r sid bid e"
  shows "wp (checkpoint_branch (br_id r)) (\<lambda>x f. f = e \<and> bc_request x = r \<and> bc_session x = sid \<and> bc_sandbox x = bid \<and>
    bc_ready x = None) (\<lambda>_ _. True) e"
proof -
  obtain m where m: "row_of n_id (br_id r) (branches e) = Some m" "n_source_session m = br_source r"
      "n_destination_session m = sid" "n_destination_sandbox m = bid" "n_repository m = br_repository r"
      "n_snapshot m = br_snapshot r" "n_ready m = None"
    using rec by (auto simp: branch_recorded_def)
  show ?thesis
    using m row_of_key [OF m(1)]
    by (auto simp: checkpoint_branch_def q_get_branch_def find_branch_def q_checkpoint_by_reference_def wp_simps
        branch_receipt_of_def split: option.split)
qed

lemma request_branch_branches:
  assumes inv: "db_inv d" and new: "row_of s_admission_key (branch_key (br_id r)) (sessions d) = None"
    and free: "session_of d (session_id (branch_key (br_id r))) = None"
  shows "wp (request_checkpoint_branch env nonce qn r) (branched d r) (\<lambda>_ _. True) d"
proof -
  let ?key = "branch_key (br_id r)"
  let ?sid = "session_id ?key" and ?ref = "\<lparr>ref_repository = br_repository r, ref_snapshot = br_snapshot r\<rparr>"
  define source where "source j c \<longleftrightarrow> find_session d (br_source r) = Some j \<and> find_checkpoint d ?ref = Some c \<and>
    cb_session (pc_boundary c) = sess_id j \<and> cb_upgrade (pc_boundary c) = [] \<and>
    cb_sandbox (pc_boundary c) = main_sandbox_name (sess_id j) \<and> cb_profile (pc_boundary c) = sess_profile j \<and>
    cb_profile_revision (pc_boundary c) = sess_profile_revision j \<and> cb_revision (pc_boundary c) \<noteq> 0 \<and>
    thread_id j \<noteq> []" for j c
  have auth: "wp (authorize_branch_source r) (\<lambda>(j, c) e. e = d \<and> source j c) (\<lambda>_ _. True) d"
    by (auto simp: authorize_branch_source_def q_get_session_def q_checkpoint_by_reference_def wp_simps source_def
        split: option.split)
  have persist: "wp (seq (persist_new_branch env nonce qn r ?sid (thread_id j) (cb_revision (pc_boundary c)))
      (checkpoint_branch (br_id r))) (branched d r) (\<lambda>_ _. True) e"
    if src: "source j c" and e: "distinct (map s_id (sessions e))" "session_of d ?sid = None"
      "\<And>k. k \<noteq> ?sid \<Longrightarrow> session_of e k = session_of d k" for j c e
    unfolding wp_seq
  proof (rule wp_mono [OF persist_branch_records [OF e(1)]])
    fix x f assume f: "bound_session ?sid (thread_id j) (cb_revision (pc_boundary c)) e f \<and>
      branch_recorded r ?sid (main_sandbox_name ?sid) f"
    show "wp (checkpoint_branch (br_id r)) (branched d r) (\<lambda>_ _. True) f"
      by (rule wp_mono [OF branch_read])
        (use f e src in \<open>auto simp: branched_def Let_def bound_session_def branch_recorded_def source_def nullif_empty_def\<close>)
  qed simp
  have insert: "wp (q_insert_admitted_session ?sid rv (branch_admission ?key j))
      (\<lambda>n e. n \<noteq> 0 \<and> distinct (map s_id (sessions e)) \<and> (\<forall>k. k \<noteq> ?sid \<longrightarrow> session_of e k = session_of d k)) (\<lambda>_ _. True) d" for rv j
  proof (rule wp_of_result)
    fix n e assume run: "q_insert_admitted_session ?sid rv (branch_admission ?key j) d = (Inr n, e)"
    have "db_inv e" using keeps_run [OF keeps_insert_admitted_session inv run] .
    moreover have "\<not> list_ex (\<lambda>s. s_id s = ?sid \<or> s_admission_key s = ?key) (sessions d)"
      using new free by (simp add: list_ex_iff row_of_None session_of_def) (metis imageI)
    then have "n \<noteq> 0" using run by (auto simp: q_insert_admitted_session_def branch_admission_def split: if_splits)
    ultimately show "n \<noteq> 0 \<and> distinct (map s_id (sessions e)) \<and> (\<forall>k. k \<noteq> ?sid \<longrightarrow> session_of e k = session_of d k)"
      using inserted_session [OF run] by (auto simp: db_inv_def sessions_ok_def)
  qed simp
  have admit: "wp (bnd (q_insert_admitted_session ?sid (sess_profile_revision j) (branch_admission ?key j)) (\<lambda>inserted.
      if inserted = 0 then replay_checkpoint_branch r ?sid
      else seq (persist_new_branch env nonce qn r ?sid (thread_id j) (cb_revision (pc_boundary c)))
               (checkpoint_branch (br_id r)))) (branched d r) (\<lambda>_ _. True) d" if "source j c" for j c
    unfolding wp_bnd by (rule wp_mono [OF insert]) (use persist [OF that] free in auto)
  have "wp (bnd (authorize_branch_source r) (\<lambda>(j, c).
      bnd (q_insert_admitted_session ?sid (sess_profile_revision j) (branch_admission ?key j)) (\<lambda>inserted.
      if inserted = 0 then replay_checkpoint_branch r ?sid
      else seq (persist_new_branch env nonce qn r ?sid (thread_id j) (cb_revision (pc_boundary c)))
               (checkpoint_branch (br_id r))))) (branched d r) (\<lambda>_ _. True) d"
    unfolding wp_bnd [of "authorize_branch_source r"] by (rule wp_mono [OF auth]) (use admit in auto)
  then show ?thesis
    unfolding request_checkpoint_branch_def Let_def
    using new by (auto simp: q_get_admitted_def wp_tx wp_bnd [of "attempt _"] wp_attempt wp_bnd [of "gets _"]
        wp_gets wp_the_row wp_fail split: option.split)
qed

section \<open>A branch becomes ready with its route\<close>

definition branch_ready :: "db \<Rightarrow> branch_receipt \<Rightarrow> db \<Rightarrow> bool" where
  "branch_ready d x e =
    ((\<exists>b. find_sandbox d (bc_sandbox x) = Some b \<and> sb_session_id b = bc_session x \<and> sb_provider_id b \<noteq> []) \<and>
     succeeded_for d (bc_session x) ActionRouteCreate (bc_sandbox x) \<and>
     bc_release x \<noteq> None \<and>
     (\<exists>n. row_of n_id (br_id (bc_request x)) (branches e) = Some n \<and> n_ready n \<noteq> None) \<and>
     list_ex (\<lambda>h. h_id h = br_id (bc_request x) \<and> h_sandbox h = bc_sandbox x \<and> h_released h \<noteq> None) (holds e))"

lemma finish_branch_ready:
  assumes inv: "db_inv d" and x: "checkpoint_branch (br_id (bc_request y)) d = (Inr x, d)" "bc_ready x = None"
  shows "wp (finish_checkpoint_branch y) (\<lambda>_. branch_ready d x) (\<lambda>_ _. True) d"
proof -
  let ?i = "br_id (bc_request y)"
  obtain n where n: "row_of n_id ?i (branches d) = Some n" and cols: "br_id (bc_request x) = ?i"
      "bc_sandbox x = n_destination_sandbox n" "bc_release x = n_release n"
    using x(1) row_of_key [of n_id ?i "branches d"]
    by (auto simp: checkpoint_branch_def q_get_branch_def find_branch_def q_checkpoint_by_reference_def bnd_def gets_def
        the_row_def ret_def fail_def branch_receipt_of_def split: option.splits if_splits)
  let ?e = "holds_update (upd_where (branch_hold d ?i) (\<lambda>h. h\<lparr>h_released := stamp (h_released h) d\<rparr>))
      (branches_update (upd_where (branch_finishable ?i) (\<lambda>n. n\<lparr>n_ready := stamp (n_ready n) d\<rparr>)) d)"
  have fin: "(\<exists>m. row_of n_id ?i (branches ?e) = Some m \<and> n_ready m \<noteq> None) \<and>
      list_ex (\<lambda>h. h_id h = ?i \<and> h_sandbox h = bc_sandbox x \<and> h_released h \<noteq> None) (holds ?e)"
    if one: "count_where (branch_hold d ?i) (holds d) = Suc 0"
  proof -
    obtain h where h: "h \<in> set (holds d)" "branch_hold d ?i h" using count_where_pos [OF one] by blast
    then obtain m where m: "m \<in> set (branches d)" "branch_finishable ?i m" "h_id h = n_id m" "h_sandbox h = n_destination_sandbox m"
      by (auto simp: branch_hold_def list_ex_iff)
    have "distinct (map n_id (branches d))" using inv by (simp add: db_inv_def branches_ok_def)
    from row_of_distinct [OF this m(1)] n m(2) have "m = n" by (simp add: branch_finishable_def)
    have "(\<lambda>h. if branch_hold d ?i h then h\<lparr>h_released := stamp (h_released h) d\<rparr> else h) h \<in> set (holds ?e)"
      using h(1) by (simp add: set_upd_where)
    with h(2) have g: "h\<lparr>h_released := stamp (h_released h) d\<rparr> \<in> set (holds ?e)" by simp
    have "list_ex (\<lambda>h. h_id h = ?i \<and> h_sandbox h = bc_sandbox x \<and> h_released h \<noteq> None) (holds ?e)"
      unfolding list_ex_iff by (rule bexI [OF _ g]) (use m \<open>m = n\<close> cols in \<open>simp add: branch_finishable_def\<close>)
    with n m(2) \<open>m = n\<close> show ?thesis by (simp add: row_of_upd_where)
  qed
  have got: "wp (checkpoint_branch ?i) Q E d = Q x d" for Q E using x(1) by (simp add: wp_def)
  have route: "succeeded_for d (bc_session x) ActionRouteCreate (bc_sandbox x)"
    if "find_scoped_action d (bc_session x) ActionRouteCreate (bc_sandbox x) = Some a" "a_state a = ActionSucceeded" for a
    using find_scoped_in [OF that(1)] that(2) by (auto simp: succeeded_for_def list_ex_iff)
  show ?thesis
    unfolding finish_checkpoint_branch_def wp_tx wp_bnd [of "checkpoint_branch _"] got
    using x(2) fin route cols
    by (auto simp: wp_simps wp_get_sandbox q_get_scoped_action_def wp_def [of "q_finish_branch _"] q_finish_branch_def
        branch_ready_def split: option.split)
qed

end
