(* ===== verification/Control_Auth.thy ===== *)
theory Control_Auth
  imports Postgres_Auth Go_Sha256
begin

text \<open>
  Control authentication (\<open>internal/controlauth/controlauth.go\<close>): enrollment tokens and Client
  credentials are random texts of which the database keeps only digests; the service checks the
  form of what it is given before the store decides. Durations are in nanoseconds; the random
  bytes and their failures are parameters.
\<close>

section \<open>Lifetimes\<close>

definition default_enrollment_lifetime :: int where
  "default_enrollment_lifetime = 10 * 60 * second"

definition default_credential_lifetime :: int where
  "default_credential_lifetime = 90 * 24 * 3600 * second"

definition max_enrollment_lifetime :: int where
  "max_enrollment_lifetime = 24 * 3600 * second"

definition max_credential_lifetime :: int where
  "max_credential_lifetime = 5 * 365 * 24 * 3600 * second"

definition microseconds :: "int \<Rightarrow> int" where
  \<comment> \<open>\<open>Duration.Microseconds\<close>, of a duration that is not negative\<close>
  "microseconds l = l div 1000"

record auth_service =
  as_enrollment_lifetime :: int
  as_credential_lifetime :: int

definition chosen_lifetime :: "int \<Rightarrow> int \<Rightarrow> int" where
  "chosen_lifetime configured fallback = (if configured = 0 then fallback else configured)"

section \<open>Random texts\<close>

definition random_text :: "string \<Rightarrow> err + string \<Rightarrow> (db, string) act" where
  "random_text prefix raw = bnd (lift raw) (\<lambda>bs. ret (prefix @ raw_url_encode bs))"

definition generate_credential :: "err + string \<Rightarrow> (db, string) act" where
  "generate_credential raw = random_text [] raw"

definition credential_ok :: "string \<Rightarrow> bool" where
  "credential_ok s = url_text 43 s"

definition enrollment_id :: "string \<Rightarrow> string \<times> bool" where
  "enrollment_id token =
    (case cut_on (CHR ''.'') token of (i, secret, ok) \<Rightarrow> (i, ok \<and> prefixed_id ''enr_'' i \<and> url_text 43 secret))"

definition valid_client_id :: "string \<Rightarrow> err + string" where
  "valid_client_id i =
    (if prefixed_id ''cli_'' (trim_space i) then Inr (trim_space i)
     else Inl (Wrapf ''malformed Client ID'' (Sentinel ErrInvalidInput)))"

definition normal_client_name :: "string \<Rightarrow> string" where
  "normal_client_name name = to_lower (trim_space name)"

section \<open>The service\<close>

record auth_enrollment =
  en_id :: string
  en_token :: string
  en_expires :: time

definition create_enrollment :: "auth_service \<Rightarrow> err + string \<Rightarrow> err + string \<Rightarrow> (db, auth_enrollment) act" where
  "create_enrollment svc raw_id raw_secret =
    (let lifetime = chosen_lifetime (as_enrollment_lifetime svc) default_enrollment_lifetime in
     seq (require (\<not> (lifetime < millisecond \<or> max_enrollment_lifetime < lifetime))
           (Wrapf ''enrollment lifetime must be between 1ms and 24h'' (Sentinel ErrInvalidInput)))
    (bnd (random_text ''enr_'' raw_id) (\<lambda>i.
     bnd (random_text [] raw_secret) (\<lambda>secret.
     let token = i @ ''.'' @ secret in
     bnd (store_create_enrollment i (sha256_hex token) (microseconds lifetime)) (\<lambda>t.
     ret \<lparr>en_id = i, en_token = token, en_expires = t\<rparr>)))))"

definition require_client_input :: "string \<Rightarrow> string \<Rightarrow> (db, unit) act" where
  "require_client_input name credential =
    seq (require (client_name_ok name) (Wrapf ''Client name'' (Sentinel ErrInvalidInput)))
        (require (credential_ok credential) (Wrapf ''malformed Client credential'' (Sentinel ErrInvalidInput)))"

definition redeem :: "auth_service \<Rightarrow> err + string \<Rightarrow> string \<Rightarrow> string \<Rightarrow> string \<Rightarrow> (db, auth_client \<times> bool) act" where
  "redeem svc raw token name credential =
    (case enrollment_id token of (i, ok) \<Rightarrow>
     seq (require ok (Sentinel ErrEnrollmentUnavailable))
    (seq (require_client_input (normal_client_name name) credential)
    (let lifetime = chosen_lifetime (as_credential_lifetime svc) default_credential_lifetime in
     seq (require (\<not> (lifetime < millisecond \<or> max_credential_lifetime < lifetime))
           (Wrapf ''credential lifetime must be between 1ms and 5 years'' (Sentinel ErrInvalidInput)))
         (redeem_enrollment raw i (sha256_hex token) (normal_client_name name) (sha256_hex credential)
           (microseconds lifetime)))))"

definition auth_issue_key :: "err + string \<Rightarrow> string \<Rightarrow> string \<Rightarrow> (db, client_record) act" where
  "auth_issue_key raw name credential =
    seq (require_client_input (normal_client_name name) credential)
        (issue_key raw (normal_client_name name) (sha256_hex credential))"

definition authenticate :: "string \<Rightarrow> (db, auth_client) act" where
  "authenticate credential =
    seq (require (credential_ok credential) (Sentinel ErrUnauthenticated))
        (authenticate_credential (sha256_hex credential))"

definition auth_list_clients :: "(db, client_record list) act" where
  "auth_list_clients = list_clients"

definition auth_get_client :: "string \<Rightarrow> (db, client_record) act" where
  "auth_get_client cid = bnd (lift (valid_client_id cid)) get_client"

definition auth_revoke :: "string \<Rightarrow> (db, client_record) act" where
  "auth_revoke cid = bnd (lift (valid_client_id cid)) revoke_client"

section \<open>Preservation of the invariants\<close>

lemma keeps_auth_service [keeps_intros]:
  "keeps db_inv (create_enrollment svc raw_id raw_secret)"
  "keeps db_inv (redeem svc raw token name credential)"
  "keeps db_inv (auth_issue_key raw name credential)"
  "keeps db_inv (auth_revoke cid)"
  unfolding create_enrollment_def random_text_def redeem_def require_client_input_def auth_issue_key_def auth_revoke_def
    Let_def
  by (intro keeps_intros)+

section \<open>What the random texts look like\<close>

lemma url_text_encode: "length bs = 16 \<Longrightarrow> url_text 22 (raw_url_encode bs)" "length bs = 32 \<Longrightarrow> url_text 43 (raw_url_encode bs)"
  by (simp_all add: url_text_def raw_url_length raw_url_chars)

lemma prefixed_encode: "length bs = 16 \<Longrightarrow> prefixed_id p (p @ raw_url_encode bs)"
  by (simp add: prefixed_id_def has_prefix_def url_text_encode)

lemma url_text_no_dot: "url_text n s \<Longrightarrow> CHR ''.'' \<notin> set s"
  by (auto simp: url_text_def list_all_iff url_char_def is_lower_def is_upper_def is_digit_def in_range_def)

lemma token_parses:
  assumes "length ib = 16" and "length sb = 32"
  shows "enrollment_id ((''enr_'' @ raw_url_encode ib) @ ''.'' @ raw_url_encode sb) = (''enr_'' @ raw_url_encode ib, True)"
proof -
  have "CHR ''.'' \<notin> set (''enr_'' @ raw_url_encode ib)"
    using url_text_no_dot [OF url_text_encode(1) [OF assms(1)]] by simp
  from cut_on_append [OF this, of "raw_url_encode sb"] show ?thesis
    using prefixed_encode [OF assms(1), of "''enr_''"] url_text_encode(2) [OF assms(2)]
    by (simp add: enrollment_id_def)
qed

section \<open>Redemption and authentication\<close>

lemma wp_authenticate_client:
  "wp (q_authenticate_client dg) Q E d =
    (case find (\<lambda>c. cl_digest c = dg \<and> client_live d c) (clients d) of
       None \<Rightarrow> E (Sentinel ErrNoRows) d | Some c \<Rightarrow> Q c d)"
  by (simp add: q_authenticate_client_def wp_simps split: option.split)

definition admits :: "db \<Rightarrow> string \<Rightarrow> string \<Rightarrow> string \<Rightarrow> auth_client \<Rightarrow> bool" where
  \<comment> \<open>the enrollment is consumed by the one Client with this name and credential digest\<close>
  "admits e i name dg x =
    (\<exists>r c. row_of e_id i (enrollments e) = Some r \<and> e_consumed r \<noteq> None \<and> e_client r = Some (cl_id c) \<and>
       find (\<lambda>c. cl_digest c = dg \<and> client_live e c) (clients e) = Some c \<and> cl_name c = name \<and> x = control_client c)"

lemma find_none_same: "find P xs = None \<Longrightarrow> find P (xs @ [y]) = (if P y then Some y else None)"
  by (induction xs) (auto split: if_splits)

lemma nat_add_less: "0 < m \<Longrightarrow> t < nat (int t + m)"
  by linarith

lemma wp_bind_enrollment:
  assumes "Q () (enrollments_update (upd_where (\<lambda>e. e_id e = i \<and> e_consumed e = None)
      (\<lambda>e. e\<lparr>e_consumed := Some (now d), e_client := Some cid\<rparr>)) d)"
  shows "wp (q_bind_enrollment cid i) Q (\<lambda>_ _. True) d"
  using assms by (simp add: wp_def q_bind_enrollment_def)

lemma redeem_fresh_admits:
  assumes r: "row_of e_id i (enrollments d) = Some r" "e_consumed r = None" and m: "0 < micros"
  shows "wp (redeem_fresh raw i name dg micros) (\<lambda>(x, fresh) e. fresh \<and> admits e i name dg x) (\<lambda>_ _. True) d"
proof -
  have key: "e_id r = i" using r(1) by (rule row_of_key)
  have "admits (enrollments_update (upd_where (\<lambda>e. e_id e = i \<and> e_consumed e = None)
        (\<lambda>e. e\<lparr>e_consumed := Some t, e_client := Some cid\<rparr>)) (clients_update (add_row c) d)) i name dg (control_client c)"
    if "\<not> list_ex (\<lambda>q. cl_digest q = dg) (clients d)"
      "c = \<lparr>cl_id = cid, cl_name = name, cl_digest = dg, cl_expires = Some (nat (int (now d) + micros)),
        cl_revoked = None, cl_created = now d\<rparr>" for t c cid
  proof -
    have "find (\<lambda>c. cl_digest c = dg \<and> client_live e c) (clients d) = None" for e
      using that(1) by (auto simp: find_None_iff list_ex_iff)
    then have "find (\<lambda>c. cl_digest c = dg \<and> client_live e c) (add_row c (clients d)) = Some c" if "now e = now d" for e
      using that nat_add_less [OF m, of "now d"] \<open>c = _\<close>
      by (simp add: add_row_def find_none_same client_live_def)
    moreover have "row_of e_id i (upd_where (\<lambda>e. e_id e = i \<and> e_consumed e = None)
        (\<lambda>e. e\<lparr>e_consumed := Some t, e_client := Some cid\<rparr>) (enrollments d)) = Some (r\<lparr>e_consumed := Some t, e_client := Some cid\<rparr>)"
      using r key by (simp add: row_of_upd_where)
    ultimately show ?thesis using that(2) by (simp add: admits_def)
  qed
  then show ?thesis
    by (auto simp: redeem_fresh_def random_client_id_def q_insert_client_def insert_client_def wp_simps first_violation_None
        simp del: append.simps split: option.split sum.split intro!: wp_bind_enrollment)
qed

lemma redeem_admits:
  assumes "0 < micros"
  shows "wp (redeem_enrollment raw i secret name dg micros)
    (\<lambda>(x, fresh) e. admits e i name dg x \<and>
      (\<exists>r. row_of e_id i (enrollments d) = Some r \<and> e_digest r = secret \<and> (fresh \<longleftrightarrow> e_consumed r = None))) (\<lambda>_ _. True) d"
proof (cases "row_of e_id i (enrollments d)")
  case None
  then show ?thesis by (simp add: redeem_enrollment_def q_get_enrollment_def wp_simps)
next
  case (Some r)
  show ?thesis
  proof (cases "e_consumed r")
    case None
    have "wp (redeem_fresh raw i name dg micros) (\<lambda>(x, fresh) e. fresh \<and> admits e i name dg x) (\<lambda>_ _. True) d"
      by (rule redeem_fresh_admits [OF Some None assms])
    then have "wp (redeem_fresh raw i name dg micros) (\<lambda>(x, fresh) e. admits e i name dg x \<and> fresh) (\<lambda>_ _. True) d"
      by (rule wp_mono) auto
    with Some None show ?thesis
      by (auto simp: redeem_enrollment_def q_get_enrollment_def wp_simps split_def)
  next
    case (Some t)
    with \<open>row_of e_id i (enrollments d) = Some r\<close> show ?thesis
      by (auto simp: redeem_enrollment_def q_get_enrollment_def wp_simps redeem_consumed_def wp_authenticate_client
          admits_def split: option.split)
  qed
qed

lemma admitted_authenticates:
  assumes "admits e i name dg x"
  shows "authenticate_credential dg e = (Inr x, e)"
  using assms
  by (auto simp: admits_def authenticate_credential_def no_rows_as_def q_authenticate_client_def bnd_def attempt_def gets_def
      the_row_def ret_def)

lemma admitted_only:
  assumes adm: "admits e i name dg x" and inv: "db_inv e" and r: "row_of e_id i (enrollments e) = Some r" "e_digest r = secret"
  shows "redeem_enrollment raw i secret name' dg' micros e =
    (if name' = name \<and> dg' = dg then (Inr (x, False), e) else (Inl (Sentinel ErrEnrollmentUnavailable), e))"
proof -
  obtain c where c: "e_client r = Some (cl_id c)" "find (\<lambda>c. cl_digest c = dg \<and> client_live e c) (clients e) = Some c"
    "cl_name c = name" "x = control_client c" and used: "e_consumed r \<noteq> None"
    using adm r(1) by (auto simp: admits_def)
  have other: "q \<noteq> c \<Longrightarrow> cl_id q \<noteq> cl_id c" if "q \<in> set (clients e)" for q
    using inv that c(2) by (auto simp: db_inv_def clients_ok_def find_Some_iff distinct_map inj_on_def)
  have find_digest: "q \<in> set (clients e) \<and> cl_digest q = g"
    if "find (\<lambda>c. cl_digest c = g \<and> client_live e c) (clients e) = Some q" for g q
    using that by (auto simp: find_Some_iff)
  have "find (\<lambda>c. cl_digest c = dg' \<and> client_live e c) (clients e) = Some q \<Longrightarrow> dg' \<noteq> dg \<Longrightarrow> cl_id q \<noteq> cl_id c" for q
    using other [of q] c(2) find_digest by metis
  then show ?thesis
    using r c used
    by (cases "dg' = dg") (auto simp: redeem_enrollment_def q_get_enrollment_def redeem_consumed_def no_rows_as_def q_authenticate_client_def tx_def
        bnd_def seq_def attempt_def gets_def the_row_def ret_def fail_def require_def split: option.split)
qed

end
