(* ===== verification/Control_Laws.thy ===== *)
theory Control_Laws
  imports Checkpoint_Laws Control_Auth
begin

text \<open>
  What control authentication and the profile store guarantee: an enrollment admits one Client and
  can be redeemed until it expires, a revoked Client is never authenticated again, profile
  revisions are permanent and well formed, a staged candidate leaves the active revision alone,
  and only a settled verification makes a revision active.
\<close>

section \<open>Redemption\<close>

lemma whole_lifetime: "\<not> (l < millisecond \<or> m < l) \<Longrightarrow> 0 < microseconds l"
  using zdiv_mono1 [of 1000000 l 1000] by (simp add: millisecond_def microseconds_def)

definition credential_lifetime_ok :: "auth_service \<Rightarrow> bool" where
  "credential_lifetime_ok svc =
    (let l = chosen_lifetime (as_credential_lifetime svc) default_credential_lifetime in
     millisecond \<le> l \<and> l \<le> max_credential_lifetime)"

lemma redeem_run:
  assumes "redeem svc raw token name credential d = (Inr y, e)"
  obtains i micros where "enrollment_id token = (i, True)" "client_name_ok (normal_client_name name)" "credential_ok credential"
    "0 < micros" "credential_lifetime_ok svc" "redeem_enrollment raw i (sha256_hex token) (normal_client_name name) (sha256_hex credential) micros d = (Inr y, e)"
proof -
  obtain i ok where i: "enrollment_id token = (i, ok)" by (cases "enrollment_id token")
  let ?l = "chosen_lifetime (as_credential_lifetime svc) default_credential_lifetime"
  have "ok \<and> client_name_ok (normal_client_name name) \<and> credential_ok credential \<and>
      \<not> (?l < millisecond \<or> max_credential_lifetime < ?l) \<and>
      redeem_enrollment raw i (sha256_hex token) (normal_client_name name) (sha256_hex credential) (microseconds ?l) d = (Inr y, e)"
    using assms
    by (auto simp: redeem_def i require_client_input_def seq_def bnd_def require_def ret_def fail_def Let_def split: if_splits)
  with i whole_lifetime [of ?l] show thesis by (intro that) (auto simp: credential_lifetime_ok_def Let_def)
qed

lemma redeemed_admits:
  assumes "redeem svc raw token name credential d = (Inr (x, fresh), e)" and inv: "db_inv d"
  obtains i r where "enrollment_id token = (i, True)" "admits e i (normal_client_name name) (sha256_hex credential) x"
    "row_of e_id i (enrollments e) = Some r" "e_digest r = sha256_hex token" "db_inv e"
    "credential_ok credential" "client_name_ok (normal_client_name name)" "credential_lifetime_ok svc"
proof -
  obtain i micros where run: "enrollment_id token = (i, True)" "client_name_ok (normal_client_name name)" "credential_ok credential"
    "0 < micros" "credential_lifetime_ok svc" "redeem_enrollment raw i (sha256_hex token) (normal_client_name name) (sha256_hex credential) micros d = (Inr (x, fresh), e)"
    using assms(1) by (rule redeem_run)
  have post: "admits e i (normal_client_name name) (sha256_hex credential) x \<and>
      (\<exists>r. row_of e_id i (enrollments d) = Some r \<and> e_digest r = sha256_hex token \<and> (fresh \<longleftrightarrow> e_consumed r = None))"
    using wp_result [OF redeem_admits [OF run(4)] run(6)] by simp
  have inv': "db_inv e" using keeps_run [OF keeps_auth_ops(2) inv run(6)] .
  obtain q where q: "row_of e_id i (enrollments d) = Some q" "e_digest q = sha256_hex token" using post by auto
  have "keeps (steady d) (redeem_enrollment raw i (sha256_hex token) (normal_client_name name) (sha256_hex credential) micros)"
    by (rule steady_auth_ops)
  moreover have "steady d d" using inv by (simp add: steady_def db_inv_def sessions_ok_def wakes_ok_def)
  ultimately have "steady d e" using run(6) by (rule keeps_run)
  then have g: "grown enrollment_later (enrollments d) (enrollments e)" by (simp add: steady_def evolves_def)
  obtain r where "row_of e_id i (enrollments e) = Some r" "enrollment_later q r"
    by (rule grown_row [OF g _ q(1)]) (simp_all add: enrollment_later_def)
  with q post run inv' show thesis by (intro that [of i r]) (auto simp: enrollment_later_def)
qed

lemma redeem_again:
  assumes "enrollment_id token = (i, True)" and "admits e i (normal_client_name name) (sha256_hex credential) x"
    and "row_of e_id i (enrollments e) = Some r" and "e_digest r = sha256_hex token" and "db_inv e"
    and "client_name_ok (normal_client_name name')" and "credential_ok credential'"
    and l: "credential_lifetime_ok svc"
  shows "redeem svc raw token name' credential' e =
    (if normal_client_name name' = normal_client_name name \<and> sha256_hex credential' = sha256_hex credential
     then (Inr (x, False), e) else (Inl (Sentinel ErrEnrollmentUnavailable), e))"
proof -
  have "\<not> (chosen_lifetime (as_credential_lifetime svc) default_credential_lifetime < millisecond \<or>
      max_credential_lifetime < chosen_lifetime (as_credential_lifetime svc) default_credential_lifetime)"
    using l by (simp add: credential_lifetime_ok_def Let_def)
  then show ?thesis
    using assms admitted_only [OF assms(2,5,3,4)]
    by (simp add: redeem_def require_client_input_def seq_def bnd_def require_def ret_def Let_def)
qed

section \<open>Revocation\<close>

lemma revoked_row:
  assumes "revoke_client cid d = (Inr r, e)" and "row_of cl_id cid (clients d) = Some c"
  shows "\<exists>q. row_of cl_id cid (clients e) = Some q \<and> cl_revoked q \<noteq> None \<and> cl_digest q = cl_digest c"
proof -
  have "e = clients_update (upd_where (\<lambda>q. cl_id q = cid) (\<lambda>q. q\<lparr>cl_revoked := coalesce (cl_revoked q) (Some (now d))\<rparr>)) d"
    using assms
    by (auto simp: revoke_client_def no_rows_as_def q_revoke_client_def bnd_def attempt_def ret_def fail_def split: if_splits)
  with assms(2) row_of_key [OF assms(2)] show ?thesis by (simp add: row_of_upd_where coalesce_def split: option.split)
qed

lemma revoked_refused:
  assumes inv: "db_inv e" and q: "row_of cl_id cid (clients e) = Some q" "cl_revoked q \<noteq> None"
  shows "authenticate_credential (cl_digest q) e = (Inl (Sentinel ErrUnauthenticated), e)"
proof -
  have "c = q" if "c \<in> set (clients e)" "cl_digest c = cl_digest q" for c
    using inv that row_of_in [OF q(1)] by (auto simp: db_inv_def clients_ok_def distinct_map inj_on_def)
  then have "find (\<lambda>c. cl_digest c = cl_digest q \<and> client_live e c) (clients e) = None"
    using q(2) by (auto simp: find_None_iff client_live_def)
  then show ?thesis
    by (simp add: authenticate_credential_def no_rows_as_def q_authenticate_client_def bnd_def attempt_def gets_def the_row_def
        fail_def)
qed

lemma authenticated_client:
  assumes inv: "db_inv d" and a: "authenticate credential d = (Inr x, e)"
  obtains c where "credential_ok credential" "row_of cl_id (au_id x) (clients d) = Some c" "cl_digest c = sha256_hex credential"
    "e = d"
proof -
  have "wp (authenticate credential) (\<lambda>x e. e = d \<and> credential_ok credential \<and>
      (\<exists>c \<in> set (clients d). cl_digest c = sha256_hex credential \<and> x = control_client c)) (\<lambda>_ _. True) d"
    by (auto simp: authenticate_def authenticate_credential_def wp_simps wp_authenticate_client find_Some_iff
        split: option.split)
  from wp_result [OF this a] obtain c where c: "e = d" "credential_ok credential" "c \<in> set (clients d)"
    "cl_digest c = sha256_hex credential" "x = control_client c" by blast
  have "row_of cl_id (cl_id c) (clients d) = Some c"
    using inv c(3) by (intro row_of_distinct) (auto simp: db_inv_def clients_ok_def)
  with c show thesis by (intro that) (simp_all add: control_client_def)
qed

lemma revoked_stays_refused:
  assumes inv: "db_inv d" and c: "row_of cl_id cid (clients d) = Some c" and r: "revoke_client cid d = (Inr r, e)"
    and f: "reachable e f"
  shows "authenticate_credential (cl_digest c) f = (Inl (Sentinel ErrUnauthenticated), f)"
proof -
  obtain q where q: "row_of cl_id cid (clients e) = Some q" "cl_revoked q \<noteq> None" "cl_digest q = cl_digest c"
    using revoked_row [OF r c] by blast
  have e: "db_inv e" using keeps_run [OF keeps_auth_ops(4) inv r] .
  obtain p where p: "row_of cl_id cid (clients f) = Some p" "client_later q p"
    using evolved_row [OF e f, of client_later clients cl_id cid q] q(1)
    by (auto simp: evolves_def client_later_def)
  have "cl_revoked p \<noteq> None" "cl_digest p = cl_digest c"
    using p(2) q(2,3) by (auto simp: client_later_def kept_def)
  with revoked_refused [OF reachable_inv [OF f e] p(1)] show ?thesis by simp
qed

section \<open>A new enrollment can be redeemed\<close>

lemma created_enrollment:
  assumes run: "create_enrollment svc (Inr ib) (Inr sb) d = (Inr en, e)"
  shows "en_token en = (''enr_'' @ raw_url_encode ib) @ ''.'' @ raw_url_encode sb \<and>
    clients e = clients d \<and>
    (\<exists>r. row_of e_id (''enr_'' @ raw_url_encode ib) (enrollments e) = Some r \<and> e_digest r = sha256_hex (en_token en) \<and>
       e_expires r = en_expires en \<and> e_consumed r = None)"
proof -
  have new: "row_of e_id i (enrollments d) = None" if "\<not> list_ex (\<lambda>e. e_id e = i) (enrollments d)" for i
    using that by (auto simp: row_of_None list_ex_iff)
  have "wp (create_enrollment svc (Inr ib) (Inr sb)) (\<lambda>en e.
      en_token en = (''enr_'' @ raw_url_encode ib) @ ''.'' @ raw_url_encode sb \<and> clients e = clients d \<and>
      (\<exists>r. row_of e_id (''enr_'' @ raw_url_encode ib) (enrollments e) = Some r \<and> e_digest r = sha256_hex (en_token en) \<and>
         e_expires r = en_expires en \<and> e_consumed r = None)) (\<lambda>_ _. True) d"
    by (auto simp: create_enrollment_def Let_def random_text_def store_create_enrollment_def q_insert_enrollment_def wp_simps
        first_violation_None row_of_add new simp del: append.simps split: option.split)
  from wp_result [OF this run] show ?thesis .
qed

lemma bind_enrollment_succeeds:
  assumes "\<not> list_ex (\<lambda>e. e_client e = Some cid) (enrollments d)" and "row_of cl_id cid (clients d) \<noteq> None"
  shows "\<exists>e. q_bind_enrollment cid i d = (Inr (), e)"
  using assms by (auto simp: q_bind_enrollment_def)

lemma redeem_succeeds:
  assumes inv: "db_inv d" and r: "row_of e_id i (enrollments d) = Some r" "e_digest r = secret" "e_consumed r = None" "now d < e_expires r"
    and name: "client_name_ok name" and dg: "hex64 dg" and m: "0 < micros" and len: "length cb = 16"
    and fresh: "row_of cl_id (''cli_'' @ raw_url_encode cb) (clients d) = None" "\<forall>c \<in> set (clients d). cl_digest c \<noteq> dg"
  shows "\<exists>x e. redeem_enrollment (Inr cb) i secret name dg micros d = (Inr (x, True), e)"
proof -
  let ?cid = "''cli_'' @ raw_url_encode cb"
  let ?c = "\<lparr>cl_id = ?cid, cl_name = name, cl_digest = dg, cl_expires = Some (nat (int (now d) + micros)), cl_revoked = None, cl_created = now d\<rparr>"
  have id_ok: "prefixed_id ''cli_'' ?cid" by (rule prefixed_encode [OF len])
  have "\<forall>q \<in> set (clients d). cl_id q \<noteq> ?cid" using fresh(1) unfolding row_of_None by (metis imageI)
  then have new: "\<not> list_ex (\<lambda>q. cl_id q = ?cid) (clients d)" "\<not> list_ex (\<lambda>q. cl_digest q = dg) (clients d)"
    using fresh(2) by (simp_all add: list_ex_iff del: append.simps)
  have ins: "q_insert_client ?cid name dg micros d = (Inr ?c, clients_update (add_row ?c) d)"
    using id_ok name dg new nat_add_less [OF m, of "now d"]
    by (simp add: q_insert_client_def insert_client_def bnd_def seq_def clock_def gets_def insert_tbl_def ret_def del: append.simps)
  have unbound: "\<not> list_ex (\<lambda>e. e_client e = Some ?cid) (enrollments d)"
    using inv fresh(1) by (auto simp: db_inv_def clients_ok_def list_ex_iff row_of_None)
  obtain e where "q_bind_enrollment ?cid i (clients_update (add_row ?c) d) = (Inr (), e)"
    using bind_enrollment_succeeds [of ?cid "clients_update (add_row ?c) d" i] unbound fresh(1) by (auto simp: row_of_add)
  with r ins show ?thesis
    by (simp add: redeem_enrollment_def no_rows_as_def q_get_enrollment_def redeem_fresh_def random_client_id_def tx_def bnd_def
        seq_def attempt_def gets_def the_row_def ret_def require_def lift_def del: append.simps)
qed

lemma redeem_of_enrollment:
  assumes "enrollment_id token = (i, True)" and "client_name_ok (normal_client_name name)" and "credential_ok credential"
    and "credential_lifetime_ok svc"
  obtains micros where "0 < micros"
    "redeem svc raw token name credential d = redeem_enrollment raw i (sha256_hex token) (normal_client_name name) (sha256_hex credential) micros d"
proof -
  let ?l = "chosen_lifetime (as_credential_lifetime svc) default_credential_lifetime"
  have "\<not> (?l < millisecond \<or> max_credential_lifetime < ?l)"
    using assms(4) by (simp add: credential_lifetime_ok_def Let_def)
  with assms whole_lifetime [OF this] show thesis
    by (intro that [of "microseconds ?l"]) (simp_all add: redeem_def require_client_input_def seq_def bnd_def require_def ret_def Let_def)
qed

lemma created_redeemable:
  assumes "db_inv d" and "create_enrollment svc (Inr ib) (Inr sb) d = (Inr en, e)"
    and "length ib = 16" and "length sb = 32" and "length cb = 16" and "t < en_expires en"
    and "client_name_ok (normal_client_name name)" and "credential_ok credential" and "credential_lifetime_ok svc"
    and "row_of cl_id (''cli_'' @ raw_url_encode cb) (clients d) = None"
    and "\<forall>c \<in> set (clients d). cl_digest c \<noteq> sha256_hex credential"
  shows "\<exists>x f. redeem svc (Inr cb) (en_token en) name credential (e\<lparr>now := t\<rparr>) = (Inr (x, True), f)"
proof -
  let ?i = "''enr_'' @ raw_url_encode ib" and ?e = "e\<lparr>now := t\<rparr>"
  obtain r where r: "en_token en = ?i @ ''.'' @ raw_url_encode sb" "clients e = clients d"
    "row_of e_id ?i (enrollments e) = Some r" "e_digest r = sha256_hex (en_token en)" "e_expires r = en_expires en"
    "e_consumed r = None"
    using created_enrollment [OF assms(2)] by auto
  have inv: "db_inv ?e" using keeps_run [OF keeps_auth_service(1) assms(1,2)] by (simp add: db_inv_def)
  have "enrollment_id (en_token en) = (?i, True)" unfolding r(1) by (rule token_parses [OF assms(3,4)])
  then obtain micros where m: "0 < micros" "redeem svc (Inr cb) (en_token en) name credential ?e =
      redeem_enrollment (Inr cb) ?i (sha256_hex (en_token en)) (normal_client_name name) (sha256_hex credential) micros ?e"
    by (rule redeem_of_enrollment [OF _ assms(7-9)])
  have "\<exists>x f. redeem_enrollment (Inr cb) ?i (sha256_hex (en_token en)) (normal_client_name name) (sha256_hex credential)
      micros ?e = (Inr (x, True), f)"
    by (rule redeem_succeeds [OF inv, of ?i r]) (use r assms m in \<open>simp_all del: append.simps\<close>)
  with m(2) show ?thesis by simp
qed

section \<open>Profile revisions\<close>

lemma revision_permanent:
  assumes "db_inv d0" and "reachable d0 d" and r: "revision_of d0 name hash = Some p"
  shows "revision_of d name hash = Some p"
proof -
  have key: "revision_of d name hash = row_of (\<lambda>p. (p_name p, p_definition_hash p)) (name, hash) (revisions d)" for d
    by (simp add: revision_of_def row_of_def)
  have "grown (=) (revisions d0) (revisions d)" using reachable_evolves [OF assms(2,1)] by (simp add: evolves_def)
  from grown_row [OF this, of "\<lambda>p. (p_name p, p_definition_hash p)" "(name, hash)" p] r show ?thesis
    unfolding key by auto
qed

lemma revisions_sound:
  assumes "db_inv d0" and "reachable d0 d" and "p \<in> set (revisions d)"
  shows "p \<in> set (revisions d0) \<or> sound_revision p"
  using reachable_evolves [OF assms(2,1)] assms(3) by (auto simp: evolves_def sound_growth_def)

section \<open>Staging and promotion\<close>

definition name_view :: "profile_name_row \<Rightarrow> string \<times> string option \<times> bool" where
  "name_view n = (pn_name n, pn_active n, pn_default n)"

definition staged :: "db \<Rightarrow> db \<Rightarrow> bool" where
  \<comment> \<open>only candidates and revisions may have changed\<close>
  "staged d e = (map name_view (profile_names e) = map name_view (profile_names d) \<and> verifications e = verifications d)"

lemma staged_refl [simp]: "staged d d"
  by (simp add: staged_def)

lemma keeps_staged:
  "keeps (staged d) (q_insert_profile p)" "keeps (staged d) (q_update_profile name hash)"
proof -
  have "map name_view (upd_where (\<lambda>n. pn_name n = name) (\<lambda>n. n\<lparr>pn_candidate := hash\<rparr>) ns) = map name_view ns" for ns
    by (simp add: upd_where_def name_view_def)
  then show "keeps (staged d) (q_insert_profile p)" "keeps (staged d) (q_update_profile name hash)"
    by (auto simp: keeps_def wp_def q_insert_profile_def q_update_profile_def update_tbl_def staged_def)
qed

lemma update_stages: "keeps (staged d) (update_profile net name patch)"
  unfolding update_profile_def Let_def by (intro keeps_intros keeps_staged)

lemma admission_lock_view:
  assumes "staged d e"
  shows "fst (q_lock_verified_profile name contract e) = fst (q_lock_verified_profile name contract d)"
proof -
  have view: "map_option name_view (row_of pn_name name ns) = map_option name_view (row_of pn_name name ms)"
    if "map name_view ns = map name_view ms" for ns ms
    using that
  proof (induction ns arbitrary: ms)
    case (Cons n ns)
    then show ?case by (cases ms) (auto simp: row_of_def name_view_def)
  qed (simp add: row_of_def)
  have "map_option name_view (row_of pn_name name (profile_names e)) = map_option name_view (row_of pn_name name (profile_names d))"
    using assms by (intro view) (simp add: staged_def)
  then show ?thesis
    using assms
    by (cases "row_of pn_name name (profile_names e)"; cases "row_of pn_name name (profile_names d)")
      (auto simp: q_lock_verified_profile_def bnd_def gets_def the_row_def ret_def fail_def staged_def name_view_def
        split: option.split)
qed

lemma update_result:
  "wp (update_profile net name patch) (\<lambda>(p, changed) e. profile_at e (trim_space name) (\<lambda>n. Some (pn_candidate n)) = Some p)
    (\<lambda>_ _. True) d"
proof -
  have reading: "wp (q_get_profile k) (\<lambda>p e. profile_at e k (\<lambda>n. Some (pn_candidate n)) = Some p) (\<lambda>_ _. True) e" for k e
    by (simp add: q_get_profile_def wp_simps split: option.split)
  show ?thesis
    unfolding update_profile_def Let_def wp_tx wp_bnd [of "lock_candidate_profile _"]
    by (rule wp_mono [OF wp_trivial])
      (auto simp: wp_bnd wp_seq wp_if wp_require wp_ret wp_lift reading split: sum.split
        intro!: wp_mono [OF wp_trivial] reading)
qed

lemma promoted_settled:
  "wp (record_verification_cleanup x)
    (\<lambda>_ e. \<forall>m h. row_of pn_name k (profile_names e) = Some m \<and> pn_active m = Some h \<longrightarrow>
      (\<exists>n. row_of pn_name k (profile_names d) = Some n \<and>
        (pn_active n = Some h \<or> pn_candidate n = h \<and> settled_revision e k h base_profile_contract)))
    (\<lambda>_ _. True) d"
proof -
  have "wp (bnd (q_promote_profile name hash contract) (\<lambda>_. ret ()))
    (\<lambda>_ e. \<forall>m h. row_of pn_name k (profile_names e) = Some m \<and> pn_active m = Some h \<longrightarrow>
      (\<exists>n. row_of pn_name k (profile_names d) = Some n \<and>
        (pn_active n = Some h \<or> pn_candidate n = h \<and> settled_revision e k h contract))) (\<lambda>_ _. True) f"
    if same: "profile_names f = profile_names d" for f name hash contract
  proof -
    have "settled_revision (profile_names_update u f) = settled_revision f" for u
      by (intro ext) (simp add: settled_revision_def)
    then show ?thesis
      using same
      by (auto simp: wp_bnd wp_ret wp_def q_promote_profile_def update_tbl_def row_of_upd_where nullif_empty_def
          dest: row_of_key split: if_splits)
  qed
  then show ?thesis
    by (auto simp: record_verification_cleanup_def q_lock_profile_def wp_tx wp_seq [of "q_lock_profile _"]
        wp_bnd [of "gets _"] wp_gets wp_the_row wp_seq [of "expect_one_rows _"] wp_expect_one_rows
        q_record_verification_cleanup_def wp_clock wp_update_tbl_at wp_bnd [of clock] wp_seq split: option.split)
qed

section \<open>Normalised definitions fit the schema\<close>

lemma trim_left_blank: "sql_blank s \<Longrightarrow> trim_left_space s = []"
proof (induction s rule: trim_left_space.induct)
  case (1 s)
  show ?case
  proof (cases s)
    case (Cons c t)
    then have "c = CHR '' ''" "space_size s = 1" using 1(2) by (auto simp: sql_blank_def space_size_def)
    moreover have "sql_blank (drop 1 s)" using 1(2) Cons by (simp add: sql_blank_def)
    ultimately have "trim_left_space (drop 1 s) = []" using 1(1) Cons by simp
    with \<open>space_size s = 1\<close> Cons show ?thesis by (subst trim_left_space.simps) simp
  qed (simp add: trim_left_space.simps)
qed

lemma trim_blank: "sql_blank s \<Longrightarrow> trim_space s = []"
  by (simp add: trim_space_def trim_left_blank trim_right_space.simps)

lemma trimmed_not_blank:
  assumes "trim_space s \<noteq> []"
  shows "\<not> sql_blank (trim_space s)"
proof
  assume b: "sql_blank (trim_space s)"
  let ?t = "trim_space s"
  have "drop (length ?t - 1) ?t = [CHR '' '']"
    using assms b by (cases ?t rule: rev_cases) (simp_all add: sql_blank_def)
  moreover have "Suc 0 \<le> length ?t" using assms by (cases ?t) auto
  ultimately have "space_suffix_size ?t = 1" by (simp add: space_suffix_size_def space_size_def)
  moreover have "space_suffix_size ?t = 0" using trim_right_end [of "trim_left_space s"] assms by (simp add: trim_space_def)
  ultimately show False by simp
qed

lemma identifier_not_blank: "profile_identifier (trim_space s) \<Longrightarrow> \<not> sql_blank s"
  using trim_blank [of s] by (auto simp: profile_identifier_def)

lemma hex64_not_blank: "hex64 s \<Longrightarrow> \<not> sql_blank s"
  by (cases s) (auto simp: hex64_def sql_blank_def lower_hex_def is_digit_def in_range_def)

lemma normalized_trimmed:
  assumes "normalize_profile net q = Inr p"
  shows "trim_space (p_name p) = p_name p \<and> trim_space (p_harness p) = p_harness p \<and>
    trim_space (p_incus_endpoint_authority_hash p) = p_incus_endpoint_authority_hash p \<and>
    trim_space (p_incus_disk_size p) = p_incus_disk_size p \<and> trim_space (p_artifact p) = p_artifact p \<and>
    trim_space (p_e2b_gateway_url p) = p_e2b_gateway_url p"
proof -
  obtain r where "normal_settings net (trimmed_profile q) = Inr r" "p = hashed_profile r"
    using assms by (auto simp: normalize_profile_def split: sum.splits)
  then show ?thesis
    by (auto elim!: normal_settings_cases simp: normal_incus_def normal_e2b_def hashed_profile_def trimmed_profile_def trim_trim
        split: option.splits if_splits)
qed

lemma disk_size_not_blank: "disk_size_ok s \<Longrightarrow> \<not> sql_blank s"
proof
  assume "disk_size_ok s" and b: "sql_blank s"
  then have n: "3 < length s" "list_all is_digit (take (length s - 3) s)" by (simp_all add: disk_size_ok_def Let_def)
  then obtain c t where s: "s = c # t" by (cases s) auto
  with n have "is_digit c" by (cases "length t - 2") auto
  with b s show False by (simp add: sql_blank_def is_digit_def in_range_def)
qed

lemma normalized_revision_check:
  assumes p: "normalize_profile net q = Inr p" and url: "\<And>u. parse_url net [] = Some u \<Longrightarrow> ur_host u = []"
  shows "revision_check (stored_profile p)"
proof -
  have same: "stored_profile p = p" "p_definition_hash p = current_definition_hash p" using normalized_stored [OF p] by auto
  have c: "definition_columns p" and w: "incus_columns net p \<or> e2b_columns net p" using normalized_cases [OF p] by auto
  have trimmed: "trim_space (p_name p) = p_name p" "trim_space (p_harness p) = p_harness p"
    "trim_space (p_incus_endpoint_authority_hash p) = p_incus_endpoint_authority_hash p"
    "trim_space (p_incus_disk_size p) = p_incus_disk_size p" "trim_space (p_artifact p) = p_artifact p"
    "trim_space (p_e2b_gateway_url p) = p_e2b_gateway_url p"
    using normalized_trimmed [OF p] by simp_all
  have base: "profile_identifier (p_name p)" "p_harness p = ''codex'' \<or> p_harness p = ''pi''" "\<not> sql_blank (p_artifact p)"
      "hex64 (p_definition_hash p)"
    using c trimmed trimmed_not_blank [of "p_artifact p"] same(2)
    by (auto simp: definition_columns_def validate_profile_identity_def current_definition_hash_def split: if_splits)
  from w show ?thesis
  proof
    assume i: "incus_columns net p"
    then have v: "hex64 (p_incus_endpoint_authority_hash p)"
        "list_all (\<lambda>f. profile_identifier (trim_space f)) [p_incus_project p, p_incus_storage_pool p, p_incus_network p]"
        "disk_size_ok (p_incus_disk_size p)" "validate_incus_gateway net (trim_space (p_incus_gateway_url p)) = None"
      using trimmed by (auto simp: incus_columns_def validate_incus_settings_def split: if_splits)
    have "\<not> sql_blank (p_incus_gateway_url p)"
    proof
      assume "sql_blank (p_incus_gateway_url p)"
      with v(4) url show False by (auto simp: trim_blank validate_incus_gateway_def Let_def split: option.splits)
    qed
    with i v base identifier_not_blank disk_size_not_blank show ?thesis
      unfolding same(1) by (auto simp: revision_check_def incus_columns_def)
  next
    assume e: "e2b_columns net p"
    then have "p_e2b_gateway_url p \<noteq> []" "0 < p_e2b_sandbox_timeout p"
      by (auto simp: e2b_columns_def validate_e2b_settings_def split: if_splits)
    with e base trimmed trimmed_not_blank [of "p_e2b_gateway_url p"] show ?thesis
      unfolding same(1) by (auto simp: revision_check_def e2b_columns_def)
  qed
qed

end
