(* ===== verification/Demo_States.thy ===== *)
theory Demo_States
  imports Control_Laws Upgrade_Progress
begin

text \<open>
  Small databases on which the witnesses of the properties run: one open Session with its
  Sandbox, task and wake, the same with an upgrade under way, and a Session whose cleanup has
  been scheduled. They are instances of the model's state, not parts of the program.
\<close>

definition demo_profile :: sandbox_profile where
  "demo_profile =
    \<lparr>p_active_revision = ''h'', p_name = ''prof'', p_provider = ''incus'', p_harness = ''codex'', p_artifact = ''img'',
     p_definition_hash = ''h'', p_incus_endpoint_authority_hash = [], p_incus_project = [],
     p_incus_storage_pool = [], p_incus_network = [], p_incus_disk_size = [], p_incus_gateway_url = [],
     p_e2b_gateway_url = [], p_e2b_sandbox_timeout = 0, p_e2b_allow_internet = False, p_default = True,
     p_verification = None\<rparr>"

definition demo_session :: session_row where
  "demo_session =
    \<lparr>s_id = ''s1'', s_admission_key = ''k1'', s_agents_md = [], s_created_by = None, s_client_reference = [],
     s_profile = ''prof'', s_profile_revision = ''h'', s_connection = ''c'', s_model = ''m'', s_effort = ''low'',
     s_keep_running = False, s_open = True, s_cleanup = CleanupPending, s_attention = None,
     s_attention_source = None, s_attention_at = None, s_cleanup_attention = None, s_admitted_at = 1,
     s_cleaned_at = None, s_last_active = Some 1, s_thread = Some ''th'', s_revision = 0,
     s_pending_input = None, s_pending_turn = None\<rparr>"

definition demo_task :: task_row where
  "demo_task = \<lparr>t_session = ''s1'', t_sequence = 1, t_id = ''t1'', t_name = direct_task_name\<rparr>"

definition demo_cleanup_task :: task_row where
  "demo_cleanup_task = \<lparr>t_session = ''s1'', t_sequence = 2, t_id = ''t2'', t_name = cleanup_task_name\<rparr>"

definition demo_sandbox :: sandbox_row where
  "demo_sandbox = \<lparr>b_id = ''b1'', b_session = ''s1'', b_name = ''default'', b_active = ''r1''\<rparr>"

definition demo_resource :: resource_row where
  "demo_resource =
    \<lparr>r_id = ''r1'', r_sandbox = ''b1'', r_nonce = ''n1'', r_provider = Some ''p1'', r_reserved = 1,
     r_observed = Some 1, r_deleted = None\<rparr>"

definition demo_db :: db where
  "demo_db = empty_db\<lparr>sessions := [demo_session], tasks := [demo_task], sandboxes := [demo_sandbox],
     resources := [demo_resource], wakes := [\<lparr>w_session = ''s1'', w_revision = 0\<rparr>], revisions := [demo_profile]\<rparr>"

definition demo_upgrade :: upgrade_row where
  "demo_upgrade =
    \<lparr>u_id = ''up1'', u_sandbox = ''b1'', u_source = ''r1'', u_destination = None, u_path = ''path'',
     u_version = ''2.0.0'', u_requested = 1, u_previous = None, u_quiesced = None, u_cp_key = None,
     u_cp_ref = None, u_cp_source = None, u_activated = None, u_rollback = None, u_failure = None,
     u_restored = None, u_verified = None, u_cp_deleted = None, u_finished = None\<rparr>"

definition demo_hold :: hold_row where
  "demo_hold = \<lparr>h_id = ''up1'', h_sandbox = ''b1'', h_reason = ''workspace_upgrade'', h_requested = 1, h_released = None\<rparr>"

definition demo_upgrading :: db where
  "demo_upgrading = demo_db\<lparr>holds := [demo_hold], upgrades := [demo_upgrade]\<rparr>"

definition demo_closed :: session_row where
  "demo_closed = demo_session\<lparr>s_open := False, s_cleanup := CleanupScheduled\<rparr>"

definition demo_cleaning :: db where
  \<comment> \<open>a Session that never had a Sandbox, in cleanup\<close>
  "demo_cleaning = empty_db\<lparr>sessions := [demo_closed], tasks := [demo_task, demo_cleanup_task],
     revisions := [demo_profile]\<rparr>"

definition quiet_env :: absurd_env where
  \<comment> \<open>Absurd accepts every call\<close>
  "quiet_env = \<lparr>spawn_task = (\<lambda>_ _ _ _. Inr ''t9''), cancel_task = (\<lambda>_ _. Inr ()), emit_event = (\<lambda>_ _ _. Inr ()),
     retry_task = (\<lambda>_ tid. Inr (tid, ''run1'', 1, False))\<rparr>"

lemmas demo_rows = demo_session_def demo_task_def demo_cleanup_task_def demo_sandbox_def demo_resource_def
  demo_upgrade_def demo_hold_def demo_closed_def

lemmas demo_defs = demo_db_def demo_upgrading_def demo_cleaning_def empty_db_def demo_rows demo_profile_def
  direct_task_name_def cleanup_task_name_def

lemma demo_db_inv: "db_inv demo_db"
  by (simp add: demo_defs db_inv_def table_inv_defs open_holds_def upgrades_held_def ops_held_def pending_ops_def cleanup_owned_def
      blank_text_def max_int64_def)

lemma demo_upgrading_inv: "db_inv demo_upgrading"
  by (simp add: demo_defs db_inv_def table_inv_defs open_holds_def upgrades_held_def ops_held_def pending_ops_def upgrade_held_def upgrade_ok_def
      cleanup_owned_def blank_text_def max_int64_def)

lemma demo_cleaning_inv: "db_inv demo_cleaning"
  by (simp add: demo_defs db_inv_def table_inv_defs open_holds_def upgrades_held_def ops_held_def pending_ops_def cleanup_owned_def
      blank_text_def max_int64_def)

definition demo_driver :: "unit upgrade_driver" where
  "demo_driver =
    \<lparr>inspect_package = (\<lambda>_ _ w. (Inr ''1.0.0'', w)), quiesce = (\<lambda>_ _ w. (Inr (), w)),
     capture = (\<lambda>_ _ w. (Inl (External ''down''), w)), activate = (\<lambda>_ _ w. (Inr (), w)), replaces_resource = False,
     restore = (\<lambda>_ _ _ w. (Inr ''p1'', w)), verify_package = (\<lambda>_ _ _ w. (Inr (), w)),
     delete_resource = (\<lambda>_ w. (Inr (), w)), delete_checkpoint = (\<lambda>_ _ w. (Inr (), w))\<rparr>"

definition demo_service :: "unit upgrade_service" where
  "demo_service = \<lparr>us_driver = demo_driver, us_queue = ''q'', us_env = quiet_env, us_claim = Some (\<lambda>w. (Inr (), w)),
     us_nonce = (\<lambda>w. (Inr ''n2'', w))\<rparr>"

definition demo_world :: "unit world" where
  "demo_world = \<lparr>w_db = demo_upgrading, w_ext = ()\<rparr>"

lemma demo_source_trim: "trim_space ''upgrade:up1'' = ''upgrade:up1''"
  by code_simp

lemma demo_reconciled:
  "us_reconcile demo_service None ''s1'' demo_world =
    (Inr True, demo_world\<lparr>w_db := demo_upgrading\<lparr>upgrades := [demo_upgrade\<lparr>u_previous := Some ''1.0.0''\<rparr>]\<rparr>\<rparr>)"
  apply (simp add: us_reconcile_def bnd_def seq_def on_db_def store_session_def no_rows_as_def attempt_def
      q_get_session_def gets_def the_row_def ret_def demo_world_def demo_defs find_session_def session_of_def row_of_def
      revision_of_def session_value_def require_def session_upgrades_def upgrade_joined_def sandbox_of_def resource_of_def
      receipt_of_def us_authorize_def store_sandbox_def q_get_sandbox_def find_sandbox_def sandbox_value_def
      session_delivery_holds_def delivery_hold_value_def q_quiescent_def us_require_claim_def demo_service_def on_ext_def
      us_step_def store_sandbox_resource_def us_prepare_def us_perform_def demo_driver_def us_record_def
      record_upgrade_preparation_def expect_one_rows_def q_upgrade_preparation_def upd_upgrade_def update_tbl_def
      count_where_def upd_where_def clear_execution_attention_def q_clear_execution_attention_def
      insort_key_def Let_def upgrade_attention_source_def demo_source_trim fail_def)
  done

definition long_detail :: "nat \<Rightarrow> string" where
  \<comment> \<open>a two-byte rune after \<open>n\<close> ASCII bytes\<close>
  "long_detail n = replicate n (CHR ''a'') @ [CHR 0xC3, CHR 0xA9]"

lemma two_byte_rune: "valid_utf8 [CHR 0xC3, CHR 0xA9]" "\<not> valid_utf8 [CHR 0xC3]"
  by code_simp+

lemma long_detail_valid: "valid_text (long_detail n)"
  by (simp add: valid_text_def long_detail_def valid_ascii_prefix list_all_iff contains_nul_def
      two_byte_rune)

lemma long_detail_split: "\<not> valid_text (take (Suc n) (long_detail n))"
  by (simp add: valid_text_def long_detail_def valid_ascii_prefix list_all_iff two_byte_rune)

lemma long_detail_trim: "0 < n \<Longrightarrow> trim_space (long_detail n) = long_detail n"
proof -
  assume n: "0 < n"
  then have s: "long_detail n = CHR ''a'' # long_detail (n - 1)"
    by (cases n) (simp_all add: long_detail_def)
  have "space_size (long_detail n) = 0"
    unfolding s by (simp add: space_size_def split: list.split)
  then have "trim_left_space (long_detail n) = long_detail n"
    by (simp add: trim_left_space.simps)
  moreover have "drop (length (long_detail n) - 3) (long_detail n) = [CHR ''a'', CHR 0xC3, CHR 0xA9]"
    using n by (cases n) (simp_all add: long_detail_def replicate_append_same [symmetric] replicate_add)
  then have "space_suffix_size (long_detail n) = 0"
    by (simp add: space_suffix_size_def space_size_def long_detail_def)
  then have "trim_right_space (long_detail n) = long_detail n"
    by (simp add: trim_right_space.simps)
  ultimately show ?thesis by (simp add: trim_space_def)
qed

definition demo_delete :: string where
  "demo_delete = scoped_action_id ''s1'' ActionSandboxDelete ''b1''"

definition demo_deleting :: db where
  \<comment> \<open>a Session in cleanup whose Sandbox has lost its route and awaits deletion\<close>
  "demo_deleting = demo_db\<lparr>sessions := [demo_closed], tasks := [demo_task, demo_cleanup_task],
     actions :=
      [\<lparr>a_id = demo_delete, a_session = ''s1'', a_kind = ActionSandboxDelete, a_state = ActionUnsettled,
        a_scope = ''b1'', a_created = 1, a_settled = None\<rparr>,
       \<lparr>a_id = ''revoke'', a_session = ''s1'', a_kind = ActionRouteRevoke, a_state = ActionSucceeded,
        a_scope = ''b1'', a_created = 1, a_settled = Some 1\<rparr>]\<rparr>"

definition the_auth :: "(err + sandbox_action_authorization) \<times> db \<Rightarrow> sandbox_action_authorization" where
  "the_auth x = projr (fst x)"

definition demo_authorization :: sandbox_action_authorization where
  "demo_authorization = \<lparr>auth_session = (session_value demo_deleting demo_closed demo_profile)\<lparr>current_task_name := []\<rparr>,
     auth_sandbox = sandbox_value demo_sandbox demo_resource,
     auth_action = \<lparr>act_id = demo_delete, act_session_id = ''s1'', act_kind = ActionSandboxDelete,
       act_state = ActionUnsettled, act_scope = ''b1''\<rparr>,
     auth_task_id = ''t2'', auth_task_name = cleanup_task_name\<rparr>"

lemma demo_authorized:
  "authorize_sandbox_action demo_delete ''t2'' cleanup_task_name demo_deleting = (Inr demo_authorization, demo_deleting)"
proof -
  have t: "trim_space ''t2'' = ''t2''" "trim_space ''dorf-session-cleanup-v3'' = ''dorf-session-cleanup-v3''"
    by code_simp+
  show ?thesis
    by (simp add: authorize_sandbox_action_def authorize_sandbox_action_tx_def tx_def bnd_def seq_def q_get_action_def
        gets_def the_row_def ret_def require_def q_get_sandbox_def find_sandbox_def sandbox_of_def resource_of_def row_of_def
        q_get_session_def find_session_def session_of_def revision_of_def session_value_def current_task_def
        session_tasks_def q_get_scoped_action_def find_scoped_action_def no_rows_as_def attempt_def action_value_def
        demo_deleting_def demo_delete_def demo_authorization_def sandbox_value_def demo_defs t)
qed

lemma demo_scheduled:
  "schedule_cleanup quiet_env ''q'' ''s1'' [] demo_db = (Inr (), snd (schedule_cleanup quiet_env ''q'' ''s1'' [] demo_db))"
  by (simp add: schedule_cleanup_def tx_def bnd_def seq_def q_current_task_for_update_def gets_def the_row_def ret_def
      find_task_state_def demo_defs session_of_def row_of_def current_task_def session_tasks_def expect_one_rows_def
      q_request_cleanup_def update_tbl_def count_where_def upd_where_def require_def spawn_session_task_def quiet_env_def
      log_call_def modify_def lift_def attach_session_task_def validate_task_attachment_state_def
      q_insert_session_task_def blank_text_def q_mark_cleanup_scheduled_def add_row_def)

definition demo_owner :: sandbox where
  "demo_owner = sandbox_value demo_sandbox demo_resource"

definition demo_rollback :: upgrade_row where
  "demo_rollback = demo_upgrade\<lparr>u_previous := Some ''1.0.0'', u_quiesced := Some 1, u_cp_key := Some ''up1'',
     u_cp_ref := Some ''ref'', u_cp_source := Some ''p1'', u_rollback := Some 1, u_failure := Some ''activation_failed''\<rparr>"

definition demo_rolled_back :: db where
  "demo_rolled_back = demo_upgrading\<lparr>upgrades := [demo_rollback]\<rparr>"

lemma demo_rolled_back_inv: "db_inv demo_rolled_back"
  by (simp add: demo_rolled_back_def demo_rollback_def demo_defs db_inv_def table_inv_defs open_holds_def
      upgrades_held_def ops_held_def pending_ops_def upgrade_held_def upgrade_ok_def cleanup_owned_def blank_text_def max_int64_def)

definition demo_nonce :: string where
  "demo_nonce = sha256_hex ''nonce''"

definition demo_admission :: session_admission where
  "demo_admission = \<lparr>ad_keep_running = False, ad_created_by = [], ad_client_reference = [], ad_key = ''k1'',
     ad_agents_md = [], ad_profile = ''prof'', ad_connection = ''c'', ad_model = ''other'', ad_effort = ''low''\<rparr>"

definition demo_vacant :: db where
  \<comment> \<open>a verified profile and no Session\<close>
  "demo_vacant = empty_db\<lparr>revisions := [demo_profile],
     profile_names := [\<lparr>pn_name = ''prof'', pn_candidate = ''h'', pn_active = Some ''h'', pn_default = True\<rparr>],
     verifications := [\<lparr>vr_profile = ''prof'', vr_contract = base_profile_contract, vr_hash = ''h'', vr_sandbox = ''v'',
       vr_nonce = ''n'', vr_harness_version = None, vr_attempted = 1, vr_probed = Some 1, vr_cleaned = Some 1,
       vr_error = None\<rparr>]\<rparr>"

lemma valid_text_ascii: "list_all (\<lambda>c. 0 < byte c \<and> byte c < 128) s \<Longrightarrow> valid_text s"
  using valid_ascii_prefix [of s "[]"]
  by (auto simp: valid_text_def contains_nul_def list_all_iff valid_utf8.simps [of "[]"])

definition demo_two :: db where
  "demo_two = demo_db\<lparr>sessions := [demo_session, demo_session\<lparr>s_id := ''s2'', s_admission_key := ''k2'', s_admitted_at := 2\<rparr>]\<rparr>"

definition demo_entry :: "string \<Rightarrow> time \<Rightarrow> listed_session" where
  "demo_entry i t = \<lparr>ls_created_by = [], ls_client_reference = [], ls_id = i, ls_admitted_at = t\<rparr>"

lemma demo_two_inv: "db_inv demo_two"
  by (simp add: demo_two_def demo_defs db_inv_def table_inv_defs open_holds_def upgrades_held_def ops_held_def pending_ops_def cleanup_owned_def
      blank_text_def max_int64_def)

lemma demo_pages:
  "list_sessions 1 None [] demo_two = (Inr [demo_entry ''s2'' 2], demo_two)"
  "list_sessions 1 (Some 2) ''s2'' demo_two = (Inr [demo_entry ''s1'' 1], demo_two)"
  by (simp_all add: list_sessions_def seq_def bnd_def require_def ret_def q_list_sessions_def gets_def demo_two_def demo_defs
      revision_of_def session_position_def demo_entry_def insort_key_def)

lemma hash_text: "valid_text (sha256_hex s)"
  by (rule valid_text_ascii)
    (use sha256_hex_lower [of s] in \<open>auto simp: list_all_iff lower_hex_def is_digit_def in_range_def\<close>)

lemma session_id_text: "valid_text (session_id key)"
proof (rule valid_text_ascii)
  have "list_all (\<lambda>c. 0 < byte c \<and> byte c < 128) (digest key 20)"
    using digest_lower_hex [of key 20] by (auto simp: list_all_iff lower_hex_def is_digit_def in_range_def)
  then show "list_all (\<lambda>c. 0 < byte c \<and> byte c < 128) (session_id key)"
    by (simp add: session_id_def)
qed

lemma demo_admitted:
  "\<exists>j d'. admit_session quiet_env (Inr demo_nonce) ''q'' direct_task_name direct_task_key demo_admission demo_vacant =
      (Inr (j, True), d')"
proof -
  have t: "valid_text ''k1''" "valid_text []" "valid_text ''c''" "valid_text ''other''"
    by (rule valid_text_ascii, simp)+
  have n: "hex64 demo_nonce" by (simp add: demo_nonce_def)
  show ?thesis
    by (simp add: admit_session_def admission_tx_def tx_def bnd_def seq_def find_or_insert_admission_def q_get_admitted_def
        gets_def the_row_def ret_def fail_def attempt_def demo_vacant_def demo_admission_def empty_db_def row_of_def
        lock_admission_profile_revision_def no_rows_as_def q_lock_profile_name_def q_lock_verified_profile_def
        verification_settled_def q_insert_admitted_session_def session_id_text t blank_text_def valid_effort_def
        revision_of_def demo_profile_def add_row_def require_def stored_admission_def reserve_admitted_sandbox_def
        lift_def expect_one_rows_def q_reserve_sandbox_def n session_of_def schedule_session_task_def
        q_current_task_for_update_def find_task_state_def current_task_def session_tasks_def spawn_session_task_def
        quiet_env_def log_call_def modify_def attach_session_task_def validate_task_attachment_state_def
        q_insert_session_task_def direct_task_name_def store_session_def q_get_session_def find_session_def)
qed

end
