(* ===== verification/Demo_Checkpoints.thy ===== *)
theory Demo_Checkpoints
  imports Demo_States
begin

text \<open>
  Databases with checkpoints on which the witnesses run: a Session with one published checkpoint,
  a recovery to it that has just been requested, the same recovery verified and ready to adopt its
  replacement, and a Session that branches are taken from.
\<close>

definition demo_snapshot :: string where
  "demo_snapshot = sha256_hex ''snapshot''"

lemma demo_snapshot_hex [simp]: "hex64 demo_snapshot"
  by (simp add: demo_snapshot_def)

definition demo_reference :: snapshot_reference where
  "demo_reference = \<lparr>ref_repository = ''repo'', ref_snapshot = demo_snapshot\<rparr>"

definition demo_boundary :: capture_boundary where
  "demo_boundary = \<lparr>cb_session = ''s1'', cb_sandbox = ''b1'', cb_resource = ''r1'', cb_profile = ''prof'',
     cb_profile_revision = ''h'', cb_upgrade = [], cb_last_activity = Some 1, cb_revision = 0, cb_holds = 0,
     cb_cleanup = False, cb_eligible = True\<rparr>"

definition demo_checkpoint :: checkpoint_row where
  "demo_checkpoint = \<lparr>c_id = ''c1'', c_repository = ''repo'', c_snapshot = demo_snapshot, c_sandbox = ''b1'',
     c_resource = ''r1'', c_profile = ''prof'', c_profile_revision = ''h'', c_upgrade = None, c_last_activity = 1,
     c_revision = 0, c_holds = 0, c_cleanup = False, c_published = 0, c_sequence = 1\<rparr>"

definition demo_published :: db where
  "demo_published = demo_db\<lparr>checkpoints := [demo_checkpoint]\<rparr>"

definition demo_recovery :: recovery_row where
  "demo_recovery = \<lparr>v_id = ''rec1'', v_sandbox = ''b1'', v_repository = ''repo'', v_snapshot = demo_snapshot,
     v_source = ''r1'', v_destination = ''r2'', v_requested = 1, v_verified = None, v_finished = None\<rparr>"

definition demo_replacement :: resource_row where
  "demo_replacement = \<lparr>r_id = ''r2'', r_sandbox = ''b1'', r_nonce = ''n2'', r_provider = None, r_reserved = 1,
     r_observed = None, r_deleted = None\<rparr>"

definition demo_recovery_hold :: hold_row where
  "demo_recovery_hold = \<lparr>h_id = ''rec1'', h_sandbox = ''b1'', h_reason = ''checkpoint_recovery'', h_requested = 1,
     h_released = None\<rparr>"

definition demo_recovering :: db where
  "demo_recovering = demo_published\<lparr>resources := [demo_resource, demo_replacement], holds := [demo_recovery_hold],
     recoveries := [demo_recovery]\<rparr>"

definition demo_recovered :: db where
  \<comment> \<open>the replacement is verified and the source deleted\<close>
  "demo_recovered = demo_recovering\<lparr>
     resources := [demo_resource\<lparr>r_deleted := Some 2\<rparr>, demo_replacement\<lparr>r_provider := Some ''p2'', r_observed := Some 2\<rparr>],
     recoveries := [demo_recovery\<lparr>v_verified := Some 2\<rparr>]\<rparr>"

lemmas demo_checkpoint_rows = demo_checkpoint_def demo_recovery_def demo_replacement_def demo_recovery_hold_def
  demo_reference_def demo_boundary_def

lemmas demo_checkpoint_defs = demo_published_def demo_recovering_def demo_recovered_def demo_checkpoint_rows demo_defs

lemmas demo_inv_defs = db_inv_def table_inv_defs open_holds_def upgrades_held_def ops_held_def pending_ops_def
  cleanup_owned_def blank_text_def max_int64_def op_held_def

lemma demo_published_inv: "db_inv demo_published"
  by (simp add: demo_checkpoint_defs demo_inv_defs)

lemma demo_recovering_inv: "db_inv demo_recovering"
  by (simp add: demo_checkpoint_defs demo_inv_defs)

lemma demo_recovered_inv: "db_inv demo_recovered"
  by (simp add: demo_checkpoint_defs demo_inv_defs)

lemma demo_trims:
  "trim_space ''s1'' = ''s1''" "trim_space ''b1'' = ''b1''" "trim_space ''r1'' = ''r1''" "trim_space ''prof'' = ''prof''"
  "trim_space ''h'' = ''h''" "trim_space ''repo'' = ''repo''" "trim_space ''rec1'' = ''rec1''" "trim_space ''b9'' = ''b9''"
  by code_simp+

lemma demo_repo_text: "rune_count ''repo'' = 4" "\<not> has_prefix ''repo'' '' ''" "\<not> has_suffix ''repo'' '' ''"
  by code_simp+

lemma demo_publishes:
  "\<exists>c e. publish_checkpoint ''u1'' demo_boundary demo_reference [] True demo_db = (Inr c, e)"
  by (simp add: publish_checkpoint_def validate_checkpoint_def exact_checkpoint_identity_def demo_trims demo_checkpoint_defs
      q_session_admission_def q_get_session_def find_session_def session_of_def row_of_def revision_of_def
      q_checkpoint_by_reference_def find_checkpoint_def checkpoint_at_def tx_def bnd_def seq_def attempt_def gets_def
      the_row_def ret_def fail_def require_def check_current_boundary_def q_get_boundary_def find_boundary_def sandbox_of_def
      resource_of_def boundary_row_def effective_upgrade_def hold_count_def count_where_def boundary_eligible_def
      sandbox_held_def q_insert_checkpoint_def demo_repo_text max_int64_def owns_resource_def add_row_def
      checkpoint_joined_def checkpoint_value_def same_checkpoint_def nullif_empty_def)

lemmas demo_runs = tx_def bnd_def seq_def attempt_def gets_def the_row_def ret_def fail_def require_def modify_def lift_def
  log_call_def no_rows_as_def expect_one_rows_def insert_tbl_def update_tbl_def count_where_def upd_where_def add_row_def

lemmas demo_reads = q_session_admission_def q_get_session_def find_session_def session_of_def row_of_def revision_of_def
  session_value_def current_task_def session_tasks_def q_get_sandbox_def find_sandbox_def sandbox_of_def resource_of_def
  sandbox_value_def q_checkpoint_by_reference_def find_checkpoint_def checkpoint_at_def checkpoint_joined_def
  checkpoint_value_def q_get_recovery_def find_recovery_def recovery_joined_def recovery_receipt_of_def
  recovery_reference_def package_of_def provider_of_def

lemmas demo_signals = signal_session_wake_def q_ensure_wake_def q_lock_wake_def q_wake_cause_def wake_advance_def
  q_set_wake_revision_def q_insert_wake_cause_def quiet_env_def

section \<open>Requesting a recovery\<close>

definition demo_recovery_request :: recovery_request where
  "demo_recovery_request = \<lparr>rq_id = ''rec1'', rq_session = ''s1'', rq_sandbox = ''b1'', rq_repository = ''repo'',
     rq_snapshot = demo_snapshot\<rparr>"

lemma demo_nonce_fresh: "''n1'' \<noteq> demo_nonce"
proof
  assume "''n1'' = demo_nonce"
  then have "length ''n1'' = length demo_nonce" by simp
  then show False by (simp add: demo_nonce_def)
qed

lemma demo_causes: "cause_key_ok ''recovery:rec1''" "cause_key_ok ''recovery-finished:rec1''"
  by code_simp+

lemma demo_requests_recovery:
  "\<exists>x e. request_checkpoint_recovery quiet_env (Inr demo_nonce) ''q'' demo_recovery_request demo_published = (Inr x, e)"
proof -
  have "hex64 demo_nonce" by (simp add: demo_nonce_def)
  then show ?thesis
    by (simp add: request_checkpoint_recovery_def validate_recovery_request_def exact_within_def demo_recovery_request_def
        demo_trims with_delivery_hold_def bounded_identity_def demo_reads demo_runs demo_signals demo_checkpoint_defs
        replay_recovery_def authorize_recovery_request_def require_sandbox_unheld_def sandbox_delivery_held_def
        insert_recovery_request_def q_insert_delivery_hold_def q_reserve_resource_def replacement_resource_id_def
        demo_nonce_fresh q_insert_recovery_def owns_resource_def recovery_cause_def demo_causes max_int64_def)
qed

section \<open>Adopting the replacement\<close>

definition demo_recovery_receipt :: recovery_receipt where
  "demo_recovery_receipt = the (find_recovery demo_recovered ''rec1'')"

lemma demo_receipt:
  "find_recovery demo_recovered ''rec1'' = Some demo_recovery_receipt"
  "rq_id (rv_request demo_recovery_receipt) = ''rec1''" "rv_finished demo_recovery_receipt = None"
  "rq_sandbox (rv_request demo_recovery_receipt) = ''b1''" "rv_destination demo_recovery_receipt = ''r2''"
  by (simp_all add: demo_recovery_receipt_def demo_reads demo_checkpoint_defs)

lemma demo_adopts:
  "\<exists>e. finish_checkpoint_recovery quiet_env ''q'' demo_recovery_receipt demo_recovered = (Inr (), e)"
  by (simp add: finish_checkpoint_recovery_def demo_recovery_receipt_def demo_reads demo_runs demo_signals
      demo_checkpoint_defs authorize_recovery_release_def q_get_delivery_hold_def q_native_state_safe_def
      switch_and_release_recovery_def q_switch_sandbox_resource_def owns_resource_def q_recovery_finished_def
      q_release_delivery_hold_def recovery_finished_cause_def demo_causes max_int64_def Let_def)

section \<open>A step of the recovery executor\<close>

definition demo_recovery_driver :: "unit recovery_driver" where
  "demo_recovery_driver = \<lparr>rd_restore = (\<lambda>_ _ _ w. (Inr ''p2'', w)), rd_verify = (\<lambda>_ _ _ _ w. (Inr (), w)),
     rd_delete = (\<lambda>_ w. (Inr (), w))\<rparr>"

definition demo_recovery_service :: "unit recovery_service" where
  "demo_recovery_service = \<lparr>rs_driver = demo_recovery_driver, rs_queue = ''q'', rs_env = quiet_env,
     rs_claim = Some (\<lambda>w. (Inr (), w))\<rparr>"

definition demo_recovery_world :: "unit world" where
  "demo_recovery_world = \<lparr>w_db = demo_recovering, w_ext = ()\<rparr>"

lemma demo_recovery_trims: "trim_space ''recovery:rec1'' = ''recovery:rec1''" "trim_space ''p2'' = ''p2''"
  by code_simp+

lemma demo_recovery_progress:
  "\<exists>v. progress_run (rs_reconcile demo_recovery_service None ''s1'') 1 demo_recovery_world = Some v"
  by (simp add: rs_reconcile_def on_db_def on_ext_def store_session_def demo_reads demo_runs demo_recovery_world_def
      demo_checkpoint_defs owns_task_def session_recoveries_def insort_key_def rs_attend_def rs_require_safe_def
      recovery_native_state_safe_def q_native_state_safe_def rs_require_claim_def demo_recovery_service_def rs_step_def
      rs_resource_def store_sandbox_resource_def demo_recovery_driver_def rs_record_def record_recovery_restored_def
      demo_recovery_trims q_bind_recovered_resource_def clear_execution_attention_def q_clear_execution_attention_def
      recovery_attention_source_def map_filter_simps Let_def)

section \<open>Branches\<close>

definition demo_branch_request :: branch_request where
  "demo_branch_request = \<lparr>br_id = ''br1'', br_source = ''s1'', br_repository = ''repo'', br_snapshot = demo_snapshot\<rparr>"

definition demo_branch :: branch_row where
  "demo_branch = \<lparr>n_id = ''br1'', n_source_session = ''s1'', n_destination_session = ''s2'', n_destination_sandbox = ''b2'',
     n_repository = ''repo'', n_snapshot = demo_snapshot, n_thread = ''th'', n_requested = 1, n_restored = Some 1,
     n_release = Some 2, n_ready = None\<rparr>"

definition demo_branching :: db where
  \<comment> \<open>a branch whose release is requested and whose route exists\<close>
  "demo_branching = demo_published\<lparr>
     sessions := [demo_session, demo_session\<lparr>s_id := ''s2'', s_admission_key := ''k2''\<rparr>],
     sandboxes := [demo_sandbox, demo_sandbox\<lparr>b_id := ''b2'', b_session := ''s2'', b_active := ''r3''\<rparr>],
     resources := [demo_resource, demo_resource\<lparr>r_id := ''r3'', r_sandbox := ''b2'', r_nonce := ''n3'', r_provider := Some ''p3''\<rparr>],
     holds := [\<lparr>h_id = ''br1'', h_sandbox = ''b2'', h_reason = ''checkpoint_branch'', h_requested = 1, h_released = None\<rparr>],
     actions := [\<lparr>a_id = scoped_action_id ''s2'' ActionRouteCreate ''b2'', a_session = ''s2'', a_kind = ActionRouteCreate, a_state = ActionSucceeded, a_scope = ''b2'',
       a_created = 1, a_settled = Some 1\<rparr>],
     branches := [demo_branch]\<rparr>"

lemma demo_branching_inv: "db_inv demo_branching"
  by (simp add: demo_branching_def demo_branch_def demo_checkpoint_defs demo_inv_defs branch_ok_def)

definition demo_branch_receipt :: branch_receipt where
  "demo_branch_receipt = projr (fst (checkpoint_branch ''br1'' demo_branching))"

lemma demo_branch_read:
  "checkpoint_branch ''br1'' demo_branching = (Inr demo_branch_receipt, demo_branching)"
  "br_id (bc_request demo_branch_receipt) = ''br1''" "bc_ready demo_branch_receipt = None"
  by (simp_all add: demo_branch_receipt_def checkpoint_branch_def q_get_branch_def find_branch_def branch_held_def demo_reads
      demo_runs demo_branching_def demo_branch_def demo_checkpoint_defs branch_reference_def branch_receipt_of_def)

lemma demo_branch_finishes:
  "\<exists>e. finish_checkpoint_branch demo_branch_receipt demo_branching = (Inr (), e)"
  by (simp add: finish_checkpoint_branch_def demo_branch_receipt_def checkpoint_branch_def q_get_branch_def find_branch_def
      branch_held_def demo_reads demo_runs demo_branching_def demo_branch_def demo_checkpoint_defs branch_reference_def
      branch_receipt_of_def same_branch_def q_get_scoped_action_def find_scoped_action_def q_finish_branch_def
      branch_hold_def branch_finishable_def)

end
