(* ===== verification/Demo_Control.thy ===== *)
theory Demo_Control
  imports Demo_States Core_Application
begin

text \<open>
  States for the witnesses of control authentication and of the profile store: an enrollment that
  has just been created, a Client that redeemed it, and a profile with an active revision.
\<close>

section \<open>Clients\<close>

definition demo_auth :: auth_service where
  "demo_auth = \<lparr>as_enrollment_lifetime = 0, as_credential_lifetime = 0\<rparr>"

definition demo_id_bytes :: string where
  "demo_id_bytes = replicate 16 (CHR ''a'')"

definition demo_secret_bytes :: string where
  "demo_secret_bytes = replicate 32 (CHR ''b'')"

definition demo_credential :: string where
  "demo_credential = raw_url_encode (replicate 32 (CHR ''c''))"

lemma demo_credential_ok: "credential_ok demo_credential"
  by (simp add: credential_ok_def demo_credential_def url_text_encode)

lemma demo_lifetimes:
  "\<not> (chosen_lifetime (as_enrollment_lifetime demo_auth) default_enrollment_lifetime < millisecond \<or>
      max_enrollment_lifetime < chosen_lifetime (as_enrollment_lifetime demo_auth) default_enrollment_lifetime)"
  "microseconds (chosen_lifetime (as_enrollment_lifetime demo_auth) default_enrollment_lifetime) = 600000000"
  "millisecond \<le> chosen_lifetime (as_credential_lifetime demo_auth) default_credential_lifetime"
  "chosen_lifetime (as_credential_lifetime demo_auth) default_credential_lifetime \<le> max_credential_lifetime"
  by (simp_all add: demo_auth_def chosen_lifetime_def default_enrollment_lifetime_def default_credential_lifetime_def
      max_enrollment_lifetime_def max_credential_lifetime_def millisecond_def second_def microseconds_def)

lemma demo_enrolls:
  "\<exists>en e. create_enrollment demo_auth (Inr demo_id_bytes) (Inr demo_secret_bytes) empty_db = (Inr en, e) \<and>
    en_expires en = 600000001 \<and> now e = 1"
proof -
  have "prefixed_id ''enr_'' (''enr_'' @ raw_url_encode demo_id_bytes)"
    by (rule prefixed_encode) (simp add: demo_id_bytes_def)
  then show ?thesis
    using demo_lifetimes(1)
    by (simp add: create_enrollment_def Let_def random_text_def store_create_enrollment_def q_insert_enrollment_def
        bnd_def seq_def require_def lift_def ret_def clock_def gets_def insert_tbl_def empty_db_def demo_lifetimes(2)
        del: append.simps)
qed

lemma demo_name_ok: "client_name_ok (normal_client_name ''ci'')"
  by code_simp

lemma demo_bytes: "length demo_id_bytes = 16" "length demo_secret_bytes = 32"
  by (simp_all add: demo_id_bytes_def demo_secret_bytes_def)

lemma demo_lifetime_ok: "credential_lifetime_ok demo_auth"
  using demo_lifetimes(3,4) by (simp add: credential_lifetime_ok_def)

lemma demo_redeems:
  "\<exists>en e x f. create_enrollment demo_auth (Inr demo_id_bytes) (Inr demo_secret_bytes) empty_db = (Inr en, e) \<and>
    redeem demo_auth (Inr demo_id_bytes) (en_token en) ''ci'' demo_credential e = (Inr (x, True), f)"
proof -
  obtain en e where en: "create_enrollment demo_auth (Inr demo_id_bytes) (Inr demo_secret_bytes) empty_db = (Inr en, e)"
    "en_expires en = 600000001" "now e = 1"
    using demo_enrolls by blast
  have "\<exists>x f. redeem demo_auth (Inr demo_id_bytes) (en_token en) ''ci'' demo_credential (e\<lparr>now := now e\<rparr>) = (Inr (x, True), f)"
    by (rule created_redeemable [OF db_inv_empty en(1)])
      (simp_all add: en demo_bytes demo_credential_ok demo_name_ok demo_lifetime_ok empty_db_def row_of_def)
  with en(1) show ?thesis by auto
qed

text \<open>A Client that has just redeemed the enrollment.\<close>

definition demo_client :: client_row where
  "demo_client = \<lparr>cl_id = ''cli_0123456789abcdefABCDEF'', cl_name = ''ci'', cl_digest = sha256_hex demo_credential,
     cl_expires = None, cl_revoked = None, cl_created = 1\<rparr>"

definition demo_clients :: db where
  "demo_clients = empty_db\<lparr>clients := [demo_client]\<rparr>"

lemma demo_clients_inv: "db_inv demo_clients"
  by (simp add: demo_clients_def demo_client_def empty_db_def db_inv_def table_inv_defs open_holds_def upgrades_held_def
      ops_held_def pending_ops_def cleanup_owned_def)

lemma demo_client_authenticates: "authenticate demo_credential demo_clients = (Inr (control_client demo_client), demo_clients)"
  by (simp add: authenticate_def demo_credential_ok authenticate_credential_def no_rows_as_def q_authenticate_client_def
      bnd_def seq_def attempt_def gets_def the_row_def ret_def require_def demo_clients_def demo_client_def client_live_def)

lemma demo_revokes:
  "\<exists>r f. auth_revoke (cl_id demo_client) demo_clients = (Inr r, f) \<and> trim_space (cl_id demo_client) = cl_id demo_client"
proof -
  have t: "trim_space ''cli_0123456789abcdefABCDEF'' = ''cli_0123456789abcdefABCDEF''"
    "prefixed_id ''cli_'' ''cli_0123456789abcdefABCDEF''"
    by code_simp+
  show ?thesis
    by (simp add: auth_revoke_def valid_client_id_def t demo_clients_def demo_client_def empty_db_def revoke_client_def
        no_rows_as_def q_revoke_client_def bnd_def attempt_def lift_def ret_def row_of_def)
qed

section \<open>Profiles\<close>

definition demo_url :: url where
  "demo_url = \<lparr>ur_scheme = ''https'', ur_host = ''g'', ur_hostname = ''g'', ur_has_user = False, ur_path = ''/v1'',
     ur_raw_path = [], ur_raw_query = [], ur_force_query = False, ur_fragment = [], ur_opaque = []\<rparr>"

definition demo_net :: net_lib where
  \<comment> \<open>a parser that knows the empty and one other address\<close>
  "demo_net = \<lparr>parse_url = (\<lambda>s. if s = [] then Some (demo_url\<lparr>ur_scheme := [], ur_host := [], ur_path := []\<rparr>)
       else if s = ''https://g/v1'' then Some demo_url else None), parse_ip4 = (\<lambda>_. None)\<rparr>"

lemma demo_net_empty: "parse_url demo_net [] = Some u \<Longrightarrow> ur_host u = []"
  by (auto simp: demo_net_def)

definition demo_e2b :: sandbox_profile where
  "demo_e2b = demo_profile\<lparr>p_provider := ''e2b'', p_artifact := ''t:1'', p_e2b_gateway_url := ''https://g/v1'',
     p_e2b_sandbox_timeout := second, p_active_revision := [], p_default := False\<rparr>"

lemma demo_normal:
  assumes "harness = ''codex'' \<or> harness = ''pi''"
  shows "normalize_profile demo_net (demo_e2b\<lparr>p_harness := harness, p_default := df, p_active_revision := ar, p_verification := v\<rparr>) =
    Inr (hashed_profile (demo_e2b\<lparr>p_harness := harness, p_definition_hash := []\<rparr>))"
proof -
  have t: "trim_space ''prof'' = ''prof''" "trim_space ''codex'' = ''codex''" "trim_space ''pi'' = ''pi''"
    "trim_space ''t:1'' = ''t:1''" "trim_space ''https://g/v1'' = ''https://g/v1''" "profile_identifier ''prof''"
    by code_simp+
  from assms show ?thesis
    by (auto simp: normalize_profile_def normal_settings_def normal_e2b_def validate_e2b_settings_def
        validate_profile_identity_def trimmed_profile_def demo_e2b_def demo_profile_def demo_net_def demo_url_def
        t second_def Let_def)
qed

lemma demo_normalizes: "\<exists>p. normalize_profile demo_net demo_e2b = Inr p"
  using demo_normal [where harness = "''codex''" and df = False and ar = "[]" and v = None] by (simp add: demo_e2b_def demo_profile_def)

definition demo_staging :: db where
  "demo_staging = empty_db\<lparr>revisions := [demo_e2b],
     profile_names := [\<lparr>pn_name = ''prof'', pn_candidate = ''h'', pn_active = Some ''h'', pn_default = True\<rparr>]\<rparr>"

definition demo_patch :: profile_patch where
  "demo_patch = \<lparr>pp_harness = Some ''pi'', pp_incus_artifact = None, pp_incus_endpoint_authority_hash = None,
     pp_incus_project = None, pp_incus_storage_pool = None, pp_incus_network = None, pp_incus_disk_size = None,
     pp_incus_gateway_url = None, pp_e2b_artifact = None, pp_e2b_gateway_url = None, pp_e2b_sandbox_timeout = None,
     pp_e2b_allow_internet = None\<rparr>"

lemma demo_patched:
  "apply_profile_patch (profile_value demo_staging \<lparr>pn_name = ''prof'', pn_candidate = ''h'', pn_active = Some ''h'', pn_default = True\<rparr> demo_e2b)
      demo_patch =
    Inr (demo_e2b\<lparr>p_harness := ''pi'', p_default := True, p_active_revision := ''h'', p_verification := None\<rparr>)"
  by (simp add: apply_profile_patch_def demo_patch_def patched_def patches_incus_def profile_value_def demo_e2b_def
      demo_profile_def find_verification_def demo_staging_def empty_db_def Let_def)

lemma demo_updates: "\<exists>p e. update_profile demo_net ''prof'' demo_patch demo_staging = (Inr (p, True), e)"
proof -
  let ?p = "hashed_profile (demo_e2b\<lparr>p_harness := ''pi'', p_definition_hash := []\<rparr>)"
  have n: "normalize_profile demo_net (demo_e2b\<lparr>p_harness := ''pi'', p_default := True, p_active_revision := ''h'', p_verification := None\<rparr>) = Inr ?p"
    by (rule demo_normal) simp
  have c: "revision_check (stored_profile ?p)" by (rule normalized_revision_check [OF n demo_net_empty])
  have new: "p_definition_hash ?p \<noteq> ''h''"
  proof
    assume "p_definition_hash ?p = ''h''"
    then have "length (p_definition_hash ?p) = 1" by simp
    then show False by (simp add: hashed_profile_def current_definition_hash_def)
  qed
  have name: "p_name ?p = ''prof''" "p_harness ?p = ''pi''" by (simp_all add: hashed_profile_def demo_e2b_def demo_profile_def)
  have t: "trim_space ''prof'' = ''prof''" by code_simp
  have row: "row_of pn_name ''prof'' (profile_names demo_staging) = Some \<lparr>pn_name = ''prof'', pn_candidate = ''h'', pn_active = Some ''h'', pn_default = True\<rparr>"
    "revision_of demo_staging ''prof'' ''h'' = Some demo_e2b" "verifications demo_staging = []"
    "revision_of demo_staging ''prof'' (p_definition_hash ?p) = None"
    using new by (simp_all add: demo_staging_def row_of_def revision_of_def demo_e2b_def demo_profile_def empty_db_def)
  have other: "\<not> same_profile_definition (profile_value demo_staging \<lparr>pn_name = ''prof'', pn_candidate = ''h'', pn_active = Some ''h'', pn_default = True\<rparr> demo_e2b) ?p"
    by (simp add: same_profile_definition_def profile_value_def hashed_profile_def demo_e2b_def demo_profile_def)
  have names: "profile_names demo_staging = [\<lparr>pn_name = ''prof'', pn_candidate = ''h'', pn_active = Some ''h'', pn_default = True\<rparr>]"
    by (simp add: demo_staging_def)
  have added: "revision_of (profile_names_update u (revisions_update (add_row (stored_profile ?p)) demo_staging)) ''prof'' (p_definition_hash ?p) =
      Some (stored_profile ?p)"
    "revision_of (revisions_update (add_row (stored_profile ?p)) demo_staging) ''prof'' (p_definition_hash ?p) = Some (stored_profile ?p)" for u
    using row(4) name(1) by (simp_all add: revision_of_def add_row_def find_none_same stored_profile_def)
  have texts: "list_all valid_text (profile_texts (stored_profile ?p))"
  proof -
    have "valid_text ''prof''" "valid_text ''e2b''" "valid_text ''pi''" "valid_text ''t:1''" "valid_text []" "valid_text ''https://g/v1''"
      by (rule valid_text_ascii, simp)+
    then show ?thesis
      by (simp add: profile_texts_def stored_profile_def hashed_profile_def current_definition_hash_def hash_text demo_e2b_def
          demo_profile_def)
  qed
  show ?thesis
    using c row other texts
    by (simp add: added names row_of_def upd_where_def count_where_def update_profile_def Let_def tx_def bnd_def seq_def lock_candidate_profile_def no_rows_as_def q_lock_profile_def
        q_get_profile_def profile_at_def gets_def the_row_def attempt_def ret_def lift_def demo_patched n t name
        q_verification_needs_cleanup_def require_def q_insert_profile_def q_update_profile_def update_tbl_def)
qed

text \<open>A verification whose probe is done and whose Sandbox is about to be recorded as deleted.\<close>

definition demo_verification_row :: verification_row where
  "demo_verification_row = \<lparr>vr_profile = ''prof'', vr_contract = base_profile_contract, vr_hash = ''h'', vr_sandbox = ''v'',
     vr_nonce = ''n'', vr_harness_version = Some ''1'', vr_attempted = 1, vr_probed = Some 1, vr_cleaned = None, vr_error = None\<rparr>"

definition demo_verification :: profile_verification where
  "demo_verification = verification_value demo_verification_row"

definition demo_probed :: db where
  "demo_probed = empty_db\<lparr>revisions := [demo_profile],
     profile_names := [\<lparr>pn_name = ''prof'', pn_candidate = ''h'', pn_active = None, pn_default = False\<rparr>],
     verifications := [demo_verification_row]\<rparr>"

lemma demo_promotes:
  "\<exists>e m. record_verification_cleanup demo_verification demo_probed = (Inr (), e) \<and>
    row_of pn_name ''prof'' (profile_names e) = Some m \<and> pn_active m = Some ''h''"
  by (simp add: record_verification_cleanup_def tx_def bnd_def seq_def q_lock_profile_def gets_def the_row_def ret_def
      expect_one_rows_def q_record_verification_cleanup_def clock_def update_tbl_def count_where_def upd_where_def
      same_attempt_def demo_verification_def verification_value_def demo_verification_row_def demo_probed_def empty_db_def
      require_def q_promote_profile_def settled_revision_def row_of_def coalesce_def nullif_empty_def base_profile_contract_def)

lemma demo_vacant_inv: "db_inv demo_vacant"
  by (simp add: demo_vacant_def demo_defs db_inv_def table_inv_defs open_holds_def upgrades_held_def ops_held_def
      pending_ops_def cleanup_owned_def)

end
