(* ===== verification/Demo_Services.thy ===== *)
theory Demo_Services
  imports Admission_Laws Stack_Laws Externals_Laws Persistence_Service Demo_Checkpoints Demo_Control
begin

text \<open>
  Small services on which the witnesses run: a deployment that resolves its defaults, and a
  worker without faults that cleans up the Session of \<open>demo_cleaning\<close>.
\<close>

definition demo_admission_service :: "unit admission_service" where
  "demo_admission_service = \<lparr>ds_store = Some quiet_env, ds_queue = ''q'', ds_provider = Some
     \<lparr>pv_default_connection = (\<lambda>w. (Inr ''c'', w)), pv_default_model = (\<lambda>_ w. (Inr ''other'', w)), pv_check = (\<lambda>_ w. (Inr (), w))\<rparr>\<rparr>"

definition demo_request :: session_admission where
  \<comment> \<open>profile, connection and model are left to the deployment\<close>
  "demo_request = demo_admission\<lparr>ad_profile := [], ad_connection := [], ad_model := []\<rparr>"

definition demo_hash :: string where
  "demo_hash = current_definition_hash demo_profile"

definition demo_ready :: db where
  \<comment> \<open>a verified default profile under its own hash, and no Session\<close>
  "demo_ready = empty_db\<lparr>revisions := [demo_profile\<lparr>p_definition_hash := demo_hash\<rparr>],
     profile_names := [\<lparr>pn_name = ''prof'', pn_candidate = demo_hash, pn_active = Some demo_hash, pn_default = True\<rparr>],
     verifications := [\<lparr>vr_profile = ''prof'', vr_contract = base_profile_contract, vr_hash = demo_hash, vr_sandbox = ''v'',
       vr_nonce = ''n'', vr_harness_version = None, vr_attempted = 1, vr_probed = Some 1, vr_cleaned = Some 1,
       vr_error = None\<rparr>]\<rparr>"

lemma demo_ready_inv: "db_inv demo_ready"
  by (simp add: demo_ready_def demo_defs demo_inv_defs blank_text_def max_int64_def)

lemma demo_admits_direct:
  "\<exists>j d'. admit_session quiet_env (Inr demo_nonce) ''q'' direct_task_name direct_task_key demo_admission demo_ready =
      (Inr (j, True), d')"
proof -
  have t: "valid_text ''k1''" "valid_text []" "valid_text ''c''" "valid_text ''other''"
    by (rule valid_text_ascii, simp)+
  have n: "hex64 demo_nonce" by (simp add: demo_nonce_def)
  show ?thesis
    by (simp add: admit_session_def admission_tx_def tx_def bnd_def seq_def find_or_insert_admission_def q_get_admitted_def
        gets_def the_row_def ret_def fail_def attempt_def demo_ready_def demo_admission_def empty_db_def row_of_def
        lock_admission_profile_revision_def no_rows_as_def q_lock_profile_name_def q_lock_verified_profile_def
        verification_settled_def q_insert_admitted_session_def session_id_text t blank_text_def valid_effort_def
        revision_of_def demo_profile_def add_row_def require_def stored_admission_def reserve_admitted_sandbox_def
        lift_def expect_one_rows_def q_reserve_sandbox_def n session_of_def schedule_session_task_def
        q_current_task_for_update_def find_task_state_def current_task_def session_tasks_def spawn_session_task_def
        quiet_env_def log_call_def modify_def attach_session_task_def validate_task_attachment_state_def
        q_insert_session_task_def direct_task_name_def store_session_def q_get_session_def find_session_def)
qed

lemma demo_requests:
  "\<exists>j w'. admit_request demo_admission_service (Inr demo_nonce) demo_request \<lparr>w_db = demo_ready, w_ext = ()\<rparr> = (Inr (j, True), w')"
proof -
  obtain j d' where run: "admit_session quiet_env (Inr demo_nonce) ''q'' direct_task_name direct_task_key demo_admission demo_ready =
      (Inr (j, True), d')"
    using demo_admits_direct by blast
  have trims: "trim_space ''k1'' = ''k1''" "trim_space ''prof'' = ''prof''" "trim_space ''c'' = ''c''" "trim_space ''other'' = ''other''"
    "trim_space ''low'' = ''low''" by code_simp+
  have k: "direct_admission_key ''k1'' = Inr ''k1''" by code_simp
  have r: "valid_client_reference []" by code_simp
  have n: "normalize_admission_request demo_request = Inr demo_request"
    by (simp add: normalize_admission_request_def demo_request_def demo_admission_def Let_def trims invalid_admission_text_def
        contains_nul_def valid_effort_def)
  have c: "normalize_core_admission demo_admission = Inr demo_admission"
    by (simp add: normalize_core_admission_def demo_admission_def Let_def trims valid_effort_def r)
  have h: "current_definition_hash (demo_profile\<lparr>p_definition_hash := x, p_default := b, p_active_revision := y, p_verification := z\<rparr>) = demo_hash" for x b y z
    by (simp add: demo_hash_def current_definition_hash_def definition_fields_def)
  have hne: "demo_hash \<noteq> []"
    using sha256_hex_length [of "canonical_fields (definition_fields demo_profile)"]
    by (auto simp: demo_hash_def current_definition_hash_def simp del: sha256_hex_length)
  have "\<exists>p. selected_profile demo_request demo_ready = (Inr p, demo_ready) \<and> p_name p = ''prof'' \<and> p_harness p = ''codex''"
    using h [where x = demo_hash] hne
    by (simp add: selected_profile_def select_verified_def default_profile_def active_profile_def q_get_default_profile_def
        no_rows_as_def q_get_active_profile_def profile_at_def profile_value_def revision_of_def find_verification_def
        verification_value_def base_verified_def demo_ready_def demo_request_def demo_admission_def empty_db_def bnd_def seq_def
        attempt_def gets_def the_row_def ret_def require_def row_of_def trims demo_profile_def base_profile_contract_def)
  then obtain p where p: "selected_profile demo_request demo_ready = (Inr p, demo_ready)" "p_name p = ''prof''" "p_harness p = ''codex''" by blast
  have same: "demo_request\<lparr>ad_key := ''k1''\<rparr> = demo_request" "ad_key demo_request = ''k1''" "ad_client_reference demo_request = []"
     "ad_connection demo_request = []" "ad_model demo_request = []"
     "demo_request\<lparr>ad_profile := ''prof'', ad_connection := ''c'', ad_model := ''other''\<rparr> = demo_admission"
    by (simp_all add: demo_request_def demo_admission_def)
  have e: "session_exists (session_id ''k1'') demo_ready = (Inr False, demo_ready)"
    by (simp add: session_exists_def store_session_def q_get_session_def find_session_def session_of_def row_of_def demo_ready_def
        empty_db_def bnd_def attempt_def gets_def the_row_def no_rows_as_def ret_def fail_def)
  have o: "\<not> invalid_admission_text ''other'' 1024 True" by code_simp
  show ?thesis
    using run
    by (simp add: admit_request_def require_run bnd_lift Let_def same r k demo_admission_service_def e bnd_def seq_def lift_def ret_def on_db_def
      admit_new_direct_def n p require_def resolve_model_def on_ext_def attempt_def trims o admit_direct_def c)
qed

definition quiet_runtime :: "unit task_runtime" where
  \<comment> \<open>the runtime of the cleanup task, on which nothing fails\<close>
  "quiet_runtime =
    \<lparr>rt_task = Some (''t2'', cleanup_task_name), rt_heartbeat = (\<lambda>w. (Inr (), w)), rt_lost = (\<lambda>w. (Inr (), w)),
     rt_load_step = (\<lambda>_ w. (Inr None, w)), rt_save_step = (\<lambda>_ _ w. (Inr (), w)), rt_fence = (\<lambda>_ w. (Inr (), w)),
     rt_power = (\<lambda>_ w. (Inr True, w)), rt_commit = (\<lambda>_ w. (Inr (), w)), rt_rollback = (\<lambda>_ w. w)\<rparr>"

definition quiet_execution :: "unit execution" where
  "quiet_execution =
    \<lparr>es_runtime = quiet_runtime, es_claim = Some (\<lambda>w. (Inr (), w)), es_barrier = None,
     es_create = (\<lambda>_ _ w. (Inr ''p1'', w)), es_route_create = (\<lambda>_ _ _ w. (Inr (), w)),
     es_route_revoke = (\<lambda>_ _ _ w. (Inr (), w)), es_delete = (\<lambda>_ _ w. (Inr (), w)), es_pause = None,
     es_native = None, es_error_text = (\<lambda>_. ''failed'')\<rparr>"

definition quiet_upgrades :: "unit upgrade_execution" where
  "quiet_upgrades = \<lparr>ue_core = quiet_execution, ue_upgrades = demo_service\<rparr>"

definition quiet_application :: "unit application" where
  "quiet_application =
    \<lparr>ap_runtime = quiet_runtime, ap_env = quiet_env, ap_queue = Some ''q'', ap_resolve_sandbox = None,
     ap_resolve_cleanup = Some (\<lambda>ref w. (Inr (upgrade_cleanup quiet_upgrades, ref), w)), ap_error_text = (\<lambda>_. ''failed'')\<rparr>"

definition cleaning_world :: "unit world" where
  "cleaning_world = \<lparr>w_db = demo_cleaning, w_ext = ()\<rparr>"

lemma demo_completes:
  "\<exists>e. complete_cleanup ''s1'' ''t2'' demo_cleaning = (Inr (), e)"
proof -
  have t: "trim_space ''t2'' = ''t2''" by code_simp
  show ?thesis
    by (simp add: complete_cleanup_def tx_def bnd_def seq_def q_current_task_for_update_def gets_def the_row_def ret_def
        find_task_state_def demo_defs session_of_def row_of_def current_task_def session_tasks_def require_def
        q_list_session_tasks_def q_count_unsettled_def count_where_def expect_one_rows_def q_complete_cleanup_def Let_def t
        insort_key_def)
qed

lemma demo_cleaning_reads:
  obtains j where "store_session ''s1'' demo_cleaning = (Inr j, demo_cleaning)" and "cleanup_state j = CleanupScheduled"
    and "\<not> admission_open j" and "current_task_id j = ''t2''" and "current_task_name j = cleanup_task_name"
    and "sess_id j = ''s1''" and "cleanup_attention j = []"
  by (rule that [of "session_value demo_cleaning demo_closed demo_profile"])
    (simp_all add: store_session_def no_rows_as_def attempt_def bnd_def gets_def the_row_def ret_def q_get_session_def
      find_session_def session_of_def row_of_def revision_of_def session_value_def current_task_def session_tasks_def demo_defs)

lemma demo_cleans:
  "\<exists>v. run_cleanup quiet_application (upgrade_cleanup quiet_upgrades) ''s1'' cleaning_world = (Inr (), v)"
proof -
  obtain j where j: "store_session ''s1'' demo_cleaning = (Inr j, demo_cleaning)" "cleanup_state j = CleanupScheduled"
    "\<not> admission_open j" "current_task_id j = ''t2''" "current_task_name j = cleanup_task_name" "sess_id j = ''s1''"
    "cleanup_attention j = []"
    by (rule demo_cleaning_reads)
  obtain e where e: "complete_cleanup ''s1'' ''t2'' demo_cleaning = (Inr (), e)" using demo_completes by blast
  have u: "session_upgrades ''s1'' demo_cleaning = (Inr [], demo_cleaning)"
    by (simp add: session_upgrades_def gets_def bnd_def ret_def demo_defs)
  have b: "q_list_session_sandboxes ''s1'' demo_cleaning = (Inr [], demo_cleaning)"
    by (simp add: q_list_session_sandboxes_def gets_def demo_defs)
  note steps = bnd_def seq_def on_db_def on_ext_def attempt_def ret_def fail_def require_def j u b e
  have c: "cleanup_task_name \<noteq> []" by (simp add: cleanup_task_name_def)
  have read: "es_require_cleanup_task quiet_execution ''s1'' cleaning_world = (Inr (), cleaning_world)"
    by (simp add: es_require_cleanup_task_def es_require_claim_def exact_current_attached_task_def quiet_execution_def
        quiet_runtime_def cleaning_world_def Let_def steps c)
  have up: "us_cleanup demo_service (Some (''t2'', cleanup_task_name)) ''s1'' fn cleaning_world = (Inr (), cleaning_world)" for fn
    by (simp add: us_cleanup_def us_require_claim_def demo_service_def cleaning_world_def steps)
  have rt: "es_runtime quiet_execution = quiet_runtime" "rt_task quiet_runtime = Some (''t2'', cleanup_task_name)"
    by (simp_all add: quiet_execution_def quiet_runtime_def)
  have fence: "with_session_fence quiet_runtime sid m cleaning_world = m cleaning_world"
    if "m cleaning_world = (Inr x, v)" for sid and m :: "(unit, 'b) eff" and x v
    using that by (simp add: with_session_fence_def fence_release_def quiet_runtime_def cleaning_world_def steps)
  have db: "w_db cleaning_world = demo_cleaning" "cleaning_world\<lparr>w_db := demo_cleaning\<rparr> = cleaning_world"
    by (simp_all add: cleaning_world_def)
  have prep: "es_prepare_cleanup quiet_execution ''s1'' cleaning_world = (Inr (j, []), cleaning_world)"
    unfolding es_prepare_cleanup_def rt
    by (subst fence) (simp_all add: seq_def bnd_def read on_db_def db j b ret_def)
  have comp: "es_complete_cleanup quiet_execution ''s1'' cleaning_world = (Inr (), cleaning_world\<lparr>w_db := e\<rparr>)"
    unfolding es_complete_cleanup_def rt
    by (subst fence) (simp_all add: seq_def bnd_def read on_db_def db e)
  show ?thesis
    by (simp add: run_cleanup_def upgrade_cleanup_def ue_prepare_cleanup_def ue_complete_cleanup_def quiet_upgrades_def
        ue_runtime_def rt us_prepare_cleanup_def us_complete_cleanup_def up prep comp bnd_def seq_def ret_def j
        cleanup_targets_def finish_cleanup_def attempt_def)
qed

end
