(* ===== verification/Go_Json_Decode.thy ===== *)
theory Go_Json_Decode
  imports Go_Json
begin

text \<open>
  \<open>encoding/json\<close>, reading: the scanner and the values of a text, and how a struct takes the
  members of an object. The recursion is bounded by fuel; a text never needs more than its length.
  Go refuses a nesting deeper than 10000.
\<close>

datatype json = JNull | JBool bool | JNum string | JStr string | JArr "json list" | JObj "(string \<times> json) list"

definition json_space :: "char \<Rightarrow> bool" where
  "json_space c = (byte c = 32 \<or> byte c = 9 \<or> byte c = 10 \<or> byte c = 13)"

definition skip_space :: "string \<Rightarrow> string" where
  "skip_space s = dropWhile json_space s"

lemma skip_space_length: "length (skip_space s) \<le> length s"
  by (simp add: skip_space_def length_dropWhile_le)

section \<open>Strings\<close>

definition hex_value :: "char \<Rightarrow> nat option" where
  "hex_value c =
    (if is_digit c then Some (byte c - 48)
     else if in_range 97 102 c then Some (byte c - 87)
     else if in_range 65 70 c then Some (byte c - 55) else None)"

fun hex4 :: "string \<Rightarrow> (nat \<times> string) option" where
  "hex4 (a # b # c # d # s) =
    (case (hex_value a, hex_value b, hex_value c, hex_value d) of
       (Some p, Some q, Some r, Some t) \<Rightarrow> Some (((p * 16 + q) * 16 + r) * 16 + t, s)
     | _ \<Rightarrow> None)"
| "hex4 _ = None"

lemma hex4_length: "hex4 s = Some (n, t) \<Longrightarrow> length s = length t + 4"
  by (cases s rule: hex4.cases) (auto split: option.splits)

definition broken_rune :: string where
  \<comment> \<open>U+FFFD\<close>
  "broken_rune = map char_of [239, 191, 189 :: nat]"

definition surrogate :: "nat \<Rightarrow> bool" where
  "surrogate r = (55296 \<le> r \<and> r < 57344)"

definition rune_text :: "nat \<Rightarrow> string" where
  \<comment> \<open>\<open>utf8.EncodeRune\<close>\<close>
  "rune_text r =
    (if r < 128 then [char_of r]
     else if r < 2048 then map char_of [192 + r div 64, 128 + r mod 64]
     else if surrogate r \<or> 1114111 < r then broken_rune
     else if r < 65536 then map char_of [224 + r div 4096, 128 + r div 64 mod 64, 128 + r mod 64]
     else map char_of [240 + r div 262144, 128 + r div 4096 mod 64, 128 + r div 64 mod 64, 128 + r mod 64])"

fun simple_escape :: "char \<Rightarrow> nat option" where
  "simple_escape c =
    (let b = byte c in
     if b = 34 \<or> b = 92 \<or> b = 47 then Some b
     else if b = 98 then Some 8 else if b = 102 then Some 12 else if b = 110 then Some 10
     else if b = 114 then Some 13 else if b = 116 then Some 9 else None)"

definition low_after :: "nat \<Rightarrow> string \<Rightarrow> (nat \<times> string) option" where
  \<comment> \<open>the rune of a high surrogate and the escaped low surrogate that follows it\<close>
  "low_after r s =
    (case s of
       a # b # t \<Rightarrow>
         if a = backslash \<and> b = CHR ''u'' then
           (case hex4 t of None \<Rightarrow> None
            | Some (q, u) \<Rightarrow>
                if r < 56320 \<and> 56320 \<le> q \<and> q < 57344 then Some ((r - 55296) * 1024 + (q - 56320) + 65536, u) else None)
         else None
     | _ \<Rightarrow> None)"

lemma low_after_length: "low_after r s = Some (n, t) \<Longrightarrow> length t < length s"
  by (auto simp: low_after_def dest: hex4_length split: list.splits option.splits prod.splits if_splits)

definition prepend :: "string \<Rightarrow> (string \<times> string) option \<Rightarrow> (string \<times> string) option" where
  "prepend p r = map_option (\<lambda>(t, rest). (p @ t, rest)) r"

function string_body :: "string \<Rightarrow> (string \<times> string) option" where
  \<comment> \<open>after the opening quote; a byte that is no character becomes U+FFFD\<close>
  "string_body [] = None"
| "string_body (c # s) =
    (if c = CHR 0x22 then Some ([], s)
     else if c = backslash then
       (case s of [] \<Rightarrow> None
        | e # t \<Rightarrow>
            if e = CHR ''u'' then
              (case hex4 t of None \<Rightarrow> None
               | Some (r, u) \<Rightarrow>
                   if \<not> surrogate r then prepend (rune_text r) (string_body u)
                   else (case low_after r u of
                       Some (q, v) \<Rightarrow> prepend (rune_text q) (string_body v)
                     | None \<Rightarrow> prepend broken_rune (string_body u)))
            else (case simple_escape e of None \<Rightarrow> None | Some b \<Rightarrow> prepend [char_of b] (string_body t)))
     else if byte c < 32 then None
     else if rune_size (c # s) = 0 then prepend broken_rune (string_body s)
     else prepend (take (rune_size (c # s)) (c # s)) (string_body (drop (rune_size (c # s)) (c # s))))"
  by pat_completeness auto
termination
  by (relation "measure length") (auto dest!: hex4_length low_after_length)

declare string_body.simps [simp del]

section \<open>Numbers\<close>

definition json_digits :: "string \<Rightarrow> (string \<times> string) option" where
  \<comment> \<open>at least one digit\<close>
  "json_digits s = (let d = takeWhile is_digit s in if d = [] then None else Some (d, drop (length d) s))"

definition json_fraction :: "string \<Rightarrow> (string \<times> string) option" where
  "json_fraction s =
    (case s of c # t \<Rightarrow> if c = CHR ''.'' then prepend ''.'' (json_digits t) else Some ([], s) | [] \<Rightarrow> Some ([], []))"

definition json_exponent :: "string \<Rightarrow> (string \<times> string) option" where
  "json_exponent s =
    (case s of c # t \<Rightarrow>
       if c = CHR ''e'' \<or> c = CHR ''E'' then
         (case t of p # u \<Rightarrow> if p = CHR ''+'' \<or> p = CHR ''-'' then prepend [c, p] (json_digits u) else prepend [c] (json_digits t)
          | [] \<Rightarrow> None)
       else Some ([], s)
     | [] \<Rightarrow> Some ([], []))"

definition json_integer :: "string \<Rightarrow> (string \<times> string) option" where
  "json_integer s =
    (case s of [] \<Rightarrow> None
     | c # t \<Rightarrow> if c = CHR ''0'' then Some (''0'', t) else json_digits s)"

definition json_number :: "string \<Rightarrow> (string \<times> string) option" where
  "json_number s =
    (let neg = has_prefix s ''-''; s1 = (if neg then tl s else s) in
     case json_integer s1 of None \<Rightarrow> None | Some (i, s2) \<Rightarrow>
     case json_fraction s2 of None \<Rightarrow> None | Some (f, s3) \<Rightarrow>
       prepend ((if neg then ''-'' else []) @ i @ f) (json_exponent s3))"

section \<open>Values\<close>

definition json_depth :: nat where "json_depth = 10000"

definition literal :: "string \<Rightarrow> json \<Rightarrow> string \<Rightarrow> (json \<times> string) option" where
  "literal w v s = (if has_prefix s w then Some (v, drop (length w) s) else None)"

fun parse_value :: "nat \<Rightarrow> nat \<Rightarrow> string \<Rightarrow> (json \<times> string) option"
and parse_elements :: "nat \<Rightarrow> nat \<Rightarrow> string \<Rightarrow> (json list \<times> string) option"
and parse_members :: "nat \<Rightarrow> nat \<Rightarrow> string \<Rightarrow> ((string \<times> json) list \<times> string) option" where
  \<comment> \<open>fuel, nesting left, text; the text of elements and members begins after the bracket or a comma\<close>
  "parse_value 0 d s = None"
| "parse_value (Suc n) d s =
    (case skip_space s of [] \<Rightarrow> None
     | c # t \<Rightarrow>
         if c = CHR 0x22 then map_option (\<lambda>(x, r). (JStr x, r)) (string_body t)
         else if c = CHR ''['' then
           (if d = 0 then None
            else case skip_space t of [] \<Rightarrow> None
              | e # u \<Rightarrow> if e = CHR '']'' then Some (JArr [], u)
                  else map_option (\<lambda>(vs, r). (JArr vs, r)) (parse_elements n (d - 1) t))
         else if c = CHR ''{'' then
           (if d = 0 then None
            else case skip_space t of [] \<Rightarrow> None
              | e # u \<Rightarrow> if e = CHR ''}'' then Some (JObj [], u)
                  else map_option (\<lambda>(ms, r). (JObj ms, r)) (parse_members n (d - 1) t))
         else if c = CHR ''t'' then literal ''true'' (JBool True) (c # t)
         else if c = CHR ''f'' then literal ''false'' (JBool False) (c # t)
         else if c = CHR ''n'' then literal ''null'' JNull (c # t)
         else map_option (\<lambda>(x, r). (JNum x, r)) (json_number (c # t)))"
| "parse_elements 0 d s = None"
| "parse_elements (Suc n) d s =
    (case parse_value n d s of None \<Rightarrow> None
     | Some (v, r) \<Rightarrow>
         (case skip_space r of [] \<Rightarrow> None
          | c # t \<Rightarrow>
              if c = CHR '']'' then Some ([v], t)
              else if c = CHR '','' then map_option (\<lambda>(vs, u). (v # vs, u)) (parse_elements n d t)
              else None))"
| "parse_members 0 d s = None"
| "parse_members (Suc n) d s =
    (case skip_space s of [] \<Rightarrow> None
     | q # t \<Rightarrow>
         if q \<noteq> CHR 0x22 then None
         else case string_body t of None \<Rightarrow> None
          | Some (k, r) \<Rightarrow>
              (case skip_space r of [] \<Rightarrow> None
               | c # u \<Rightarrow>
                   if c \<noteq> CHR '':'' then None
                   else case parse_value n d u of None \<Rightarrow> None
                    | Some (v, r2) \<Rightarrow>
                        (case skip_space r2 of [] \<Rightarrow> None
                         | e # w \<Rightarrow>
                             if e = CHR ''}'' then Some ([(k, v)], w)
                             else if e = CHR '','' then map_option (\<lambda>(ms, x). ((k, v) # ms, x)) (parse_members n d w)
                             else None)))"

definition json_decode :: "string \<Rightarrow> (json \<times> string) option" where
  \<comment> \<open>one value of a stream and the text behind it\<close>
  "json_decode s = parse_value (Suc (length s)) json_depth s"

definition json_parse :: "string \<Rightarrow> json option" where
  \<comment> \<open>a text that is one value\<close>
  "json_parse s =
    (case json_decode s of None \<Rightarrow> None | Some (v, r) \<Rightarrow> if skip_space r = [] then Some v else None)"

section \<open>Structs\<close>

fun fold_name :: "string \<Rightarrow> string" where
  \<comment> \<open>how field names are compared: without case, and with the two runes that fold to ASCII letters\<close>
  "fold_name (a # b # s) =
    (if byte a = 197 \<and> byte b = 191 then CHR ''s'' # fold_name s
     else case s of
        c # t \<Rightarrow> if byte a = 226 \<and> byte b = 132 \<and> byte c = 170 then CHR ''k'' # fold_name t
                else to_lower [a] @ fold_name (b # s)
      | [] \<Rightarrow> to_lower [a] @ fold_name (b # s))"
| "fold_name s = to_lower s"

definition field_of :: "string list \<Rightarrow> string \<Rightarrow> string option" where
  \<comment> \<open>the field of a struct a member is for\<close>
  "field_of names k = (if k \<in> set names then Some k else find (\<lambda>n. fold_name n = fold_name k) names)"

definition take_string :: "json \<Rightarrow> string option" where
  "take_string v = (case v of JStr s \<Rightarrow> Some s | _ \<Rightarrow> None)"

definition take_uint :: "nat \<Rightarrow> json \<Rightarrow> nat option" where
  \<comment> \<open>an unsigned integer of the given width\<close>
  "take_uint w v =
    (case v of JNum t \<Rightarrow> if list_all is_digit t \<and> atoi t < 2 ^ w then Some (atoi t) else None | _ \<Rightarrow> None)"

definition take_int :: "json \<Rightarrow> int option" where
  "take_int v =
    (case v of
       JNum t \<Rightarrow>
         let neg = has_prefix t ''-''; u = (if neg then tl t else t); n = (if neg then - int (atoi u) else int (atoi u)) in
         if list_all is_digit u \<and> - (2 ^ 63) \<le> n \<and> n < 2 ^ 63 then Some n else None
     | _ \<Rightarrow> None)"

text \<open>A member that does not fit its field leaves it as it is and makes the decoding fail at its end; null changes nothing.\<close>

definition set_field :: "(json \<Rightarrow> 'a option) \<Rightarrow> ('a \<Rightarrow> 's \<Rightarrow> 's) \<Rightarrow> json \<Rightarrow> 's \<times> bool \<Rightarrow> 's \<times> bool" where
  "set_field get put v st =
    (if v = JNull then st else case get v of Some x \<Rightarrow> (put x (fst st), snd st) | None \<Rightarrow> (fst st, False))"

fun set_members :: "(string \<Rightarrow> json \<Rightarrow> 's \<times> bool \<Rightarrow> 's \<times> bool) \<Rightarrow> (string \<times> json) list \<Rightarrow> 's \<times> bool \<Rightarrow> 's \<times> bool" where
  "set_members set1 [] st = st"
| "set_members set1 ((k, v) # ms) st = set_members set1 ms (set1 k v st)"

definition set_struct :: "(string \<Rightarrow> json \<Rightarrow> 's \<times> bool \<Rightarrow> 's \<times> bool) \<Rightarrow> json \<Rightarrow> 's \<Rightarrow> 's \<times> bool" where
  "set_struct set1 v s =
    (case v of JObj ms \<Rightarrow> set_members set1 ms (s, True) | JNull \<Rightarrow> (s, True) | _ \<Rightarrow> (s, False))"

end
