(* ===== verification/Json_Laws.thy ===== *)
theory Json_Laws
  imports Go_Json_Decode "HOL-Library.List_Lexorder" "HOL-Library.Char_ord"
begin

text \<open>
  Writing JSON values (\<open>json.Marshal\<close> of maps, slices, strings and numbers) and the round trip: a
  value that was written is read back as it was, whatever follows it. Strings must be valid UTF-8:
  what is not becomes U+FFFD on the way.
\<close>

fun json_text :: "json \<Rightarrow> string" where
  "json_text JNull = ''null''"
| "json_text (JBool b) = (if b then ''true'' else ''false'')"
| "json_text (JNum t) = t"
| "json_text (JStr s) = json_string s"
| "json_text (JArr vs) = ''['' @ join_with '','' (map json_text vs) @ '']''"
| "json_text (JObj ms) = ''{'' @ join_with '','' (map (\<lambda>(k, v). json_string k @ '':'' @ json_text v) ms) @ ''}''"

definition json_map :: "(string \<times> json) list \<Rightarrow> json" where
  \<comment> \<open>a Go map is written in the order of its keys\<close>
  "json_map ms = JObj (sort_key fst ms)"

section \<open>Strings\<close>

lemma rune_size_take:
  assumes "rune_size s = n" and "0 < n"
  shows "rune_size (take n s @ t) = n \<and> length (take n s) = n"
proof -
  obtain a s1 where s: "s = a # s1" using assms by (cases s) (auto simp: rune_size_def)
  show ?thesis
  proof (cases "byte a < 128")
    case True
    then have "n = 1" using assms s by (simp add: rune_size_def)
    then show ?thesis using True s by (simp add: rune_size_def)
  next
    case a: False
    obtain b s2 where s1: "s1 = b # s2" using assms s a by (cases s1) (auto simp: rune_size_def)
    show ?thesis
    proof (cases "in_range 194 223 a")
      case True
      have eq: "rune_size (a # b # u) = rune_size s" for u
        unfolding s s1 using a True by (simp add: rune_size_def)
      moreover have "n = 2"
        using assms a True unfolding s s1 by (simp add: rune_size_def split: if_splits)
      ultimately show ?thesis using assms(1) by (simp add: s s1 numeral_2_eq_2)
    next
      case a2: False
      obtain c s3 where s2: "s2 = c # s3" using assms s s1 a a2 by (cases s2) (auto simp: rune_size_def)
      show ?thesis
      proof (cases "in_range 224 239 a")
        case True
        have eq: "rune_size (a # b # c # u) = rune_size s" for u
          unfolding s s1 s2 using a a2 True by (simp add: rune_size_def)
        moreover have "n = 3"
          using assms a a2 True unfolding s s1 s2 by (simp add: rune_size_def split: if_splits)
        ultimately show ?thesis using assms(1) by (simp add: s s1 s2 numeral_3_eq_3)
      next
        case a3: False
        obtain d s4 where s3: "s3 = d # s4" using assms s s1 s2 a a2 a3 by (cases s3) (auto simp: rune_size_def)
        have eq: "rune_size (a # b # c # d # u) = rune_size s" for u
          unfolding s s1 s2 s3 using a a2 a3 by (simp add: rune_size_def)
        moreover have "n = 4"
          using assms a a2 a3 unfolding s s1 s2 s3 by (simp add: rune_size_def split: if_splits)
        ultimately show ?thesis using assms(1) by (simp add: s s1 s2 s3 eval_nat_numeral)
      qed
    qed
  qed
qed

lemma byte_char: "byte c = n \<Longrightarrow> c = char_of n"
  by auto

lemma hex_value_digit: "n < 16 \<Longrightarrow> hex_value (hex_digit n) = Some n"
  by (auto simp: hex_value_def hex_digit_def is_digit_def in_range_def)

lemma prepend_simps [simp]: "prepend p (Some (t, r)) = Some (p @ t, r)" "prepend p None = None"
  by (simp_all add: prepend_def)

lemma string_body_ascii:
  assumes c: "byte c < 128"
  shows "string_body (json_ascii c @ t) = prepend [c] (string_body t)"
proof -
  have self: "char_of (byte c) = c" by simp
  have esc: "string_body (backslash # e # t) = prepend [char_of b] (string_body t)"
    if "e \<noteq> CHR ''u''" "simple_escape e = Some b" for e b
    using that by (subst string_body.simps) (simp add: backslash_def)
  consider "byte c = 34 \<or> byte c = 92" | "byte c = 8" | "byte c = 12" | "byte c = 10" | "byte c = 13" | "byte c = 9"
    | "byte c \<notin> {34, 92, 8, 12, 10, 13, 9}" "byte c < 32 \<or> byte c = 60 \<or> byte c = 62 \<or> byte c = 38"
    | "byte c \<notin> {34, 92, 8, 12, 10, 13, 9}" "\<not> (byte c < 32 \<or> byte c = 60 \<or> byte c = 62 \<or> byte c = 38)" by auto
  then show ?thesis
  proof cases
    case 1
    then have "c \<noteq> CHR ''u''" by auto
    then show ?thesis using 1 esc [of c "byte c"] self by (auto simp: json_ascii_def Let_def)
  next
    case 7
    have h: "hex4 (''00'' @ [hex_digit (byte c div 16), hex_digit (byte c mod 16)] @ t) = Some (byte c, t)"
      using c by (simp add: hex_value_digit) (simp add: hex_value_def is_digit_def in_range_def)
    have u: "json_ascii c = backslash # CHR ''u'' # ''00'' @ [hex_digit (byte c div 16), hex_digit (byte c mod 16)]"
      using 7 by (auto simp: json_ascii_def Let_def json_u00_def)
    have "rune_text (byte c) = [c]" using c by (simp add: rune_text_def)
    then show ?thesis
      unfolding u append_Cons
      using h c by (subst string_body.simps) (simp add: backslash_def surrogate_def)
  next
    case 8
    then have u: "json_ascii c = [c]" and "c \<noteq> CHR 0x22" "c \<noteq> backslash" "rune_size (c # t) = 1"
      using c by (auto simp: json_ascii_def Let_def backslash_def rune_size_def)
    then show ?thesis unfolding u append_Cons append_Nil using 8 by (subst string_body.simps) simp
  qed (use self in \<open>auto simp: json_ascii_def Let_def esc\<close>)
qed

lemma string_body_json_body:
  "valid_utf8 s \<Longrightarrow> string_body (json_body s @ CHR 0x22 # r) = Some (s, r)"
proof (induction s rule: valid_utf8.induct)
  case (1 s)
  show ?case
  proof (cases "s = []")
    case True
    then show ?thesis by (simp add: json_body.simps string_body.simps)
  next
    case ne: False
    define n where "n = rune_size s"
    have v: "0 < n" "valid_utf8 (drop n s)"
      using 1(2) ne by (auto simp: n_def valid_utf8.simps [of s] split: if_splits)
    have IH: "string_body (json_body (drop n s) @ CHR 0x22 # r) = Some (drop n s, r)"
      using 1(1) ne v by (simp add: n_def)
    obtain c t where s: "s = c # t" using ne by (cases s) auto
    show ?thesis
    proof (cases "byte c < 128")
      case True
      then have "n = 1" by (simp add: n_def s rune_size_def)
      then show ?thesis
        using IH string_body_ascii [OF True] by (simp add: s json_body.simps [of "c # t"] True)
    next
      case False
      have m: "max 1 n = n" using v by simp
      have rs: "rune_size (take n s @ u) = n" "length (take n s) = n" for u
        using rune_size_take [of s n] v by (simp_all add: n_def)
      have three: "take n s = map char_of [226, 128, b]" if h: "map byte (take 3 s) = [226, 128, b]" for b
      proof -
        have "take 3 s = map char_of [226, 128, b]"
          using h by (cases s; cases "tl s"; cases "tl (tl s)") (auto simp: numeral_3_eq_3 dest: byte_char)
        moreover have "n = 3"
        proof -
          obtain x y z u where "s = x # y # z # u" "byte x = 226" "byte y = 128" "byte z = b"
            using h by (cases s; cases "tl s"; cases "tl (tl s)") (auto simp: numeral_3_eq_3)
          then show ?thesis
            using v(1) by (auto simp: n_def rune_size_def in_range_def cont_def split: if_splits)
        qed
        ultimately show ?thesis by simp
      qed
      have split: "take n s @ drop n s = s" by simp
      have esc: "string_body (backslash # CHR ''u'' # [d1, d2, d3, d4] @ u) = prepend (take n s) (string_body u)"
        if "hex4 ([d1, d2, d3, d4] @ u) = Some (q, u)" "rune_text q = take n s" "\<not> surrogate q" for d1 d2 d3 d4 q u
        using that by (subst string_body.simps) (simp add: backslash_def)
      have lit: "string_body (take n s @ u) = prepend (take n s) (string_body u)" for u
      proof -
        have "take n s = c # take (n - 1) t" using v(1) by (cases n) (simp_all add: s)
        then obtain p where p: "take n s = c # p" by simp
        have k: "rune_size (c # p @ u) = Suc (length p)" using rs(1) [of u] rs(2) p by simp
        have "c \<noteq> CHR 0x22" "c \<noteq> backslash" "\<not> byte c < 32" using False by (auto simp: backslash_def)
        then show ?thesis
          unfolding p append_Cons using k by (subst string_body.simps) simp
      qed
      have l1: "string_body (backslash # ''u2028'' @ u) = prepend (take n s) (string_body u)"
        if "map byte (take 3 s) = [226, 128, 168]" for u
        using esc [of "CHR ''2''" "CHR ''0''" "CHR ''2''" "CHR ''8''" u 8232] three [OF that]
        by (simp add: hex_value_def is_digit_def in_range_def rune_text_def surrogate_def)
      have l2: "string_body (backslash # ''u2029'' @ u) = prepend (take n s) (string_body u)"
        if "map byte (take 3 s) = [226, 128, 169]" for u
        using esc [of "CHR ''2''" "CHR ''0''" "CHR ''2''" "CHR ''9''" u 8233] three [OF that]
        by (simp add: hex_value_def is_digit_def in_range_def rune_text_def surrogate_def)
      let ?x = "if map byte (take 3 s) = [226, 128, 168] then backslash # ''u2028''
        else if map byte (take 3 s) = [226, 128, 169] then backslash # ''u2029'' else take n s"
      have "json_body s = ?x @ json_body (drop n s)"
        using ne False v(1) by (subst json_body.simps) (simp add: s [symmetric] n_def [symmetric] m, simp add: s)
      moreover have "string_body (?x @ u) = prepend (take n s) (string_body u)" for u
        using l1 [of u] l2 [of u] lit [of u] by simp
      ultimately show ?thesis using IH by simp
    qed
  qed
qed

section \<open>Numbers\<close>

definition stops :: "string \<Rightarrow> bool" where
  \<comment> \<open>what may follow a value inside a text\<close>
  "stops r = (r = [] \<or> hd r \<in> {CHR '','', CHR '']'', CHR ''}'', CHR 0x0A})"

lemma take_digits: "list_all is_digit d \<Longrightarrow> (r \<noteq> [] \<Longrightarrow> \<not> is_digit (hd r)) \<Longrightarrow> takeWhile is_digit (d @ r) = d"
  by (induction d) (cases r, auto)

lemma itoa_zero: "itoa n = CHR ''0'' # t \<Longrightarrow> n = 0 \<and> t = []"
proof (induction n arbitrary: t rule: itoa.induct)
  case (1 n)
  show ?case
  proof (cases "n < 10")
    case True
    then have "char_of (48 + n) = CHR ''0'' \<and> t = []" using 1(2) by (simp add: itoa.simps [of n])
    then have "byte (char_of (48 + n) :: char) = 48 \<and> t = []" by simp
    then show ?thesis using True by simp
  next
    case False
    have "itoa (n div 10) \<noteq> []" by simp
    then obtain u where "itoa (n div 10) = CHR ''0'' # u"
      using 1(2) False by (cases "itoa (n div 10)") (auto simp: itoa.simps [of n])
    from 1(1) [OF False this] show ?thesis using False by (simp add: div_eq_0_iff)
  qed
qed

lemma json_integer_itoa: "stops r \<Longrightarrow> json_integer (itoa n @ r) = Some (itoa n, r)"
proof -
  assume r: "stops r"
  obtain c t where c: "itoa n = c # t" by (cases "itoa n") auto
  show ?thesis
  proof (cases "c = CHR ''0''")
    case True
    then show ?thesis using itoa_zero [of n t] c by (simp add: json_integer_def)
  next
    case False
    have "list_all is_digit (itoa n)" by (simp add: list_all_iff itoa_digits)
    moreover have "r \<noteq> [] \<Longrightarrow> \<not> is_digit (hd r)"
      using r by (auto simp: stops_def is_digit_def in_range_def)
    ultimately have "takeWhile is_digit (itoa n @ r) = itoa n" by (rule take_digits)
    then show ?thesis using False c by (simp add: json_integer_def json_digits_def)
  qed
qed

lemma json_number_int: "stops r \<Longrightarrow> json_number (format_int i @ r) = Some (format_int i, r)"
proof -
  assume r: "stops r"
  have rest: "json_fraction r = Some ([], r)" "json_exponent r = Some ([], r)"
    using r by (auto simp: stops_def json_fraction_def json_exponent_def split: list.split)
  have "\<not> has_prefix (itoa n @ r) ''-''" for n
  proof -
    obtain c t where c: "itoa n = c # t" by (cases "itoa n") auto
    then have "is_digit c" using itoa_digits [of c n] by simp
    then show ?thesis using c by (auto simp: has_prefix_def is_digit_def in_range_def)
  qed
  then show ?thesis
    using rest json_integer_itoa [OF r] by (simp add: json_number_def format_int_def Let_def has_prefix_def)
qed

section \<open>Values\<close>

fun depth_of :: "json \<Rightarrow> nat" where
  "depth_of (JArr vs) = Suc (Max (insert 0 (depth_of ` set vs)))"
| "depth_of (JObj ms) = Suc (Max (insert 0 ((\<lambda>(k, v). depth_of v) ` set ms)))"
| "depth_of _ = 0"

fun plain_json :: "json \<Rightarrow> bool" where
  \<comment> \<open>valid strings, and integers as numbers\<close>
  "plain_json JNull = True"
| "plain_json (JBool b) = True"
| "plain_json (JNum t) = (\<exists>i. t = format_int i)"
| "plain_json (JStr s) = valid_utf8 s"
| "plain_json (JArr vs) = (\<forall>v \<in> set vs. plain_json v)"
| "plain_json (JObj ms) = (\<forall>(k, v) \<in> set ms. valid_utf8 k \<and> plain_json v)"

lemma stops_simps [simp]: "stops []" "stops (CHR '','' # r)" "stops (CHR '']'' # r)" "stops (CHR ''}'' # r)" "stops (CHR 0x0A # r)"
  by (simp_all add: stops_def)

lemma skip_plain: "\<not> json_space c \<Longrightarrow> skip_space (c # s) = c # s"
  by (simp add: skip_space_def)

lemma json_string_ne [simp]: "json_string s = CHR 0x22 # json_body s @ [CHR 0x22]"
  by (simp add: json_string_def)

definition starts_value :: "char \<Rightarrow> bool" where
  "starts_value c = (\<not> json_space c \<and> c \<noteq> CHR '']'')"

lemma json_text_start: "plain_json v \<Longrightarrow> \<exists>c t. json_text v = c # t \<and> starts_value c"
proof (cases v)
  case (JNum t)
  assume "plain_json v"
  then obtain i where t: "t = format_int i" using JNum by auto
  show ?thesis
  proof (cases "i < 0")
    case False
    obtain c u where c: "itoa (nat i) = c # u" by (cases "itoa (nat i)") auto
    then have "is_digit c" using itoa_digits [of c "nat i"] by simp
    then show ?thesis using c t JNum False
      by (auto simp: format_int_def starts_value_def json_space_def is_digit_def in_range_def)
  qed (simp add: JNum t format_int_def starts_value_def json_space_def)
qed (auto simp: starts_value_def json_space_def)

lemma join_cons: "join_with sep (x # y # ys) = x @ sep @ join_with sep (y # ys)"
  by (simp add: join_with_def)

lemma join_one: "join_with sep [x] = x"
  by (simp add: join_with_def)

lemma json_number_value:
  assumes "stops r"
  shows "parse_value (Suc n) d (format_int i @ r) = Some (JNum (format_int i), r)"
proof -
  obtain c t where c: "format_int i = c # t" "c = CHR ''-'' \<or> is_digit c"
  proof (cases "i < 0")
    case False
    obtain c u where c: "itoa (nat i) = c # u" by (cases "itoa (nat i)") auto
    moreover have "is_digit c" using c itoa_digits [of c "nat i"] by simp
    ultimately show thesis using False that by (simp add: format_int_def)
  qed (use that in \<open>simp add: format_int_def\<close>)
  then have "\<not> json_space c" "c \<notin> {CHR 0x22, CHR ''['', CHR ''{'', CHR ''t'', CHR ''f'', CHR ''n''}"
    by (auto simp: json_space_def is_digit_def in_range_def)
  moreover have "json_number (c # t @ r) = Some (c # t, r)" using json_number_int [OF assms, of i] c by simp
  ultimately show ?thesis by (simp add: c skip_plain)
qed

text \<open>The elements of an array and the members of an object, given that their values are read back.\<close>

lemma parse_elements_text:
  assumes "vs \<noteq> []" and "length (join_with '','' (map json_text vs)) < n"
    and "\<And>v m r. v \<in> set vs \<Longrightarrow> length (json_text v) \<le> m \<Longrightarrow> stops r \<Longrightarrow> parse_value (Suc m) d (json_text v @ r) = Some (v, r)"
  shows "parse_elements (Suc n) d (join_with '','' (map json_text vs) @ CHR '']'' # r) = Some (vs, r)"
  using assms
proof (induction vs arbitrary: n rule: induct_list012)
  case (2 v)
  then obtain m where m: "n = Suc m" by (cases n) auto
  have "parse_value (Suc m) d (json_text v @ CHR '']'' # r) = Some (v, CHR '']'' # r)"
    using 2 m by (intro 2(3)) (simp_all add: join_one)
  then show ?case by (simp add: m join_one skip_plain json_space_def)
next
  case (3 v u vs)
  let ?rest = "join_with '','' (map json_text (u # vs)) @ CHR '']'' # r"
  have jt: "join_with '','' (map json_text (v # u # vs)) = json_text v @ '','' @ join_with '','' (map json_text (u # vs))"
    by (simp only: list.map join_cons)
  then obtain m where m: "n = Suc m" "length (json_text v) \<le> m" "length (join_with '','' (map json_text (u # vs))) < m"
    using 3(4) by (cases n) auto
  have "parse_value (Suc m) d (json_text v @ CHR '','' # ?rest) = Some (v, CHR '','' # ?rest)"
    using m by (intro 3(5)) simp_all
  moreover have "parse_elements (Suc m) d ?rest = Some (u # vs, r)"
    using m by (intro 3(2) 3(5)) simp_all
  ultimately show ?case
    unfolding jt m(1) by (simp add: skip_plain json_space_def)
qed simp

abbreviation member_text :: "string \<times> json \<Rightarrow> string" where
  "member_text \<equiv> (\<lambda>(k, v). json_string k @ '':'' @ json_text v)"

lemma parse_members_text:
  assumes "ms \<noteq> []" and "length (join_with '','' (map member_text ms)) < n" and "\<forall>(k, v) \<in> set ms. valid_utf8 k"
    and "\<And>k v m r. (k, v) \<in> set ms \<Longrightarrow> length (json_text v) \<le> m \<Longrightarrow> stops r \<Longrightarrow>
      parse_value (Suc m) d (json_text v @ r) = Some (v, r)"
  shows "parse_members (Suc n) d (join_with '','' (map member_text ms) @ CHR ''}'' # r) = Some (ms, r)"
  using assms
proof (induction ms arbitrary: n rule: induct_list012)
  case (2 kv)
  obtain k v where kv: "kv = (k, v)" by (cases kv)
  obtain m where m: "n = Suc m" "length (json_text v) \<le> m" using 2(2) by (cases n) (auto simp: join_one kv)
  have "parse_value (Suc m) d (json_text v @ CHR ''}'' # r) = Some (v, CHR ''}'' # r)"
    using m by (intro 2(4) [where k = k]) (simp_all add: kv)
  moreover have "string_body (json_body k @ CHR 0x22 # u) = Some (k, u)" for u
    using 2(3) by (intro string_body_json_body) (simp add: kv)
  ultimately show ?case by (simp add: m(1) kv join_one skip_plain json_space_def)
next
  case (3 kv x ms)
  obtain k v where kv: "kv = (k, v)" by (cases kv)
  let ?rest = "join_with '','' (map member_text (x # ms)) @ CHR ''}'' # r"
  have jt: "join_with '','' (map member_text (kv # x # ms)) = member_text kv @ '','' @ join_with '','' (map member_text (x # ms))"
    by (simp only: list.map join_cons)
  then obtain m where m: "n = Suc m" "length (json_text v) \<le> m" "length (join_with '','' (map member_text (x # ms))) < m"
    using 3(4) by (cases n) (auto simp: kv)
  have "parse_value (Suc m) d (json_text v @ CHR '','' # ?rest) = Some (v, CHR '','' # ?rest)"
    using m by (intro 3(6) [where k = k]) (simp_all add: kv)
  moreover have "string_body (json_body k @ CHR 0x22 # u) = Some (k, u)" for u
    using 3(5) by (intro string_body_json_body) (simp add: kv)
  moreover have "parse_members (Suc m) d ?rest = Some (x # ms, r)"
  proof (rule 3(2))
    show "\<forall>(k, v) \<in> set (x # ms). valid_utf8 k" using 3(5) by simp
    show "parse_value (Suc m) d (json_text v @ r) = Some (v, r)"
      if "(k, v) \<in> set (x # ms)" "length (json_text v) \<le> m" "stops r" for k v m r
      using that by (intro 3(6) [where k = k]) simp_all
  qed (use m in simp_all)
  ultimately show ?case
    unfolding jt m(1) by (simp add: kv skip_plain json_space_def)
qed simp

lemma join_start: "xs \<noteq> [] \<Longrightarrow> hd xs = c # t \<Longrightarrow> \<exists>u. join_with sep xs = c # u"
  by (cases xs) (simp_all add: join_with_def)

lemma parse_value_text:
  "plain_json v \<Longrightarrow> depth_of v \<le> d \<Longrightarrow> length (json_text v) \<le> n \<Longrightarrow> stops r \<Longrightarrow>
    parse_value (Suc n) d (json_text v @ r) = Some (v, r)"
proof (induction v arbitrary: d n r rule: json_text.induct)
  case (3 t)
  then show ?case using json_number_value by auto
next
  case (4 s)
  then show ?case by (simp add: string_body_json_body skip_plain json_space_def)
next
  case (5 vs)
  obtain e where d: "d = Suc e" using 5(3) by (cases d) auto
  show ?case
  proof (cases vs)
    case Nil
    then show ?thesis by (simp add: d skip_plain json_space_def join_with_def)
  next
    case (Cons v ws)
    let ?t = "join_with '','' (map json_text vs)"
    obtain c t where ct: "json_text v = c # t" "starts_value c"
      using json_text_start [of v] 5(2) Cons by auto
    then obtain u where u: "?t = c # u" using join_start [of "map json_text vs"] Cons by force
    obtain m where m: "n = Suc m" "length ?t < m" using 5(4) by (cases n) auto
    have dep: "depth_of v \<le> e" if "v \<in> set vs" for v using 5(3) that by (simp add: d)
    have "parse_elements (Suc m) e (?t @ CHR '']'' # r) = Some (vs, r)"
      using m Cons 5(2) dep by (intro parse_elements_text 5(1)) auto
    moreover have "c \<noteq> CHR '']''" "\<not> json_space c" using ct(2) by (auto simp: starts_value_def)
    ultimately show ?thesis
      by (simp add: d m(1) u skip_plain) (simp add: skip_plain json_space_def)
  qed
next
  case (6 ms)
  obtain e where d: "d = Suc e" using 6(3) by (cases d) auto
  show ?case
  proof (cases ms)
    case Nil
    then show ?thesis by (simp add: d skip_plain json_space_def join_with_def)
  next
    case (Cons kv ws)
    let ?t = "join_with '','' (map member_text ms)"
    obtain u where u: "?t = CHR 0x22 # u"
      using join_start [of "map member_text ms" "CHR 0x22"] Cons by (cases kv) force
    obtain m where m: "n = Suc m" "length ?t < m" using 6(4) by (cases n) auto
    have dep: "depth_of v \<le> e" if "(k, v) \<in> set ms" for k v using 6(3) that by (auto simp: d)
    have pm: "parse_members (Suc m) e (?t @ CHR ''}'' # r) = Some (ms, r)"
    proof (rule parse_members_text)
      show "parse_value (Suc m) e (json_text v @ r) = Some (v, r)"
        if "(k, v) \<in> set ms" "length (json_text v) \<le> m" "stops r" for k v m r
        using 6(1) [OF that(1) refl] 6(2) that dep by auto
    qed (use m Cons 6(2) in auto)
    have jt: "json_text (JObj ms) @ r = CHR ''{'' # ?t @ CHR ''}'' # r" by simp
    have "parse_members (Suc m) e (CHR 0x22 # u @ CHR ''}'' # r) = Some (ms, r)"
      using pm unfolding u by (simp only: append_Cons)
    then show ?thesis
      unfolding jt u m(1) d by (simp add: skip_plain json_space_def del: parse_members.simps)
  qed
qed (simp_all add: skip_plain json_space_def literal_def has_prefix_def)

theorem json_parse_text:
  assumes "plain_json v" and "depth_of v \<le> json_depth"
  shows "json_parse (json_text v) = Some v"
proof -
  have "parse_value (Suc (length (json_text v))) json_depth (json_text v @ []) = Some (v, [])"
    using assms by (intro parse_value_text) simp_all
  then show ?thesis by (simp add: json_parse_def json_decode_def skip_space_def)
qed

end
