(* ===== verification/Codex_Replies.thy ===== *)
theory Codex_Replies
  imports Go_Json Go_Sha256 "HOL-Library.Sublist"
begin

text \<open>
  The reply feed (\<open>internal/codex/reply_feed.go\<close>): what the worker retains of the messages of
  recent Turns, so that observers can follow them without reading native history. It is bounded in
  Turns and in bytes; what it cannot vouch for becomes a gap. The map and the order of its keys
  are one list, oldest Turn first; a notification channel is a number that its replacement raises.
\<close>

section \<open>Items\<close>

record conversation_item =
  ci_index :: int
  ci_native :: string
  ci_kind :: string
  ci_phase :: string
  ci_text :: string
  ci_client :: string

definition json_field :: "string \<Rightarrow> string \<Rightarrow> string" where
  "json_field k v = json_string k @ '':'' @ v"

definition json_object :: "string list \<Rightarrow> string" where
  "json_object fs = ''{'' @ join_with '','' fs @ ''}''"

definition json_omitted :: "string \<Rightarrow> string \<Rightarrow> string list" where
  \<comment> \<open>a text field with \<open>omitempty\<close>\<close>
  "json_omitted k v = (if v = [] then [] else [json_field k (json_string v)])"

definition item_json :: "conversation_item \<Rightarrow> string" where
  "item_json i =
    json_object ([json_field ''index'' (format_int (ci_index i)), json_field ''native_item_id'' (json_string (ci_native i)),
        json_field ''kind'' (json_string (ci_kind i))] @
      json_omitted ''phase'' (ci_phase i) @ json_omitted ''text'' (ci_text i) @ json_omitted ''client_id'' (ci_client i))"

definition items_json :: "conversation_item list option \<Rightarrow> string" where
  \<comment> \<open>a nil slice is null\<close>
  "items_json is = (case is of None \<Rightarrow> ''null'' | Some xs \<Rightarrow> ''['' @ join_with '','' (map item_json xs) @ '']'')"

section \<open>The feed\<close>

record reply_binding =
  rb_session :: string
  rb_sandbox :: string
  rb_nonce :: string
  rb_harness :: string
  rb_thread :: string
  rb_turn :: string

record reply_snapshot =
  sn_status :: string
  sn_items :: "conversation_item list"
  sn_complete :: bool
  sn_gap :: bool

record reply_entry =
  re_snapshot :: reply_snapshot
  re_bytes :: nat
  re_changed :: nat

record reply_feed =
  rf_entries :: "(reply_binding \<times> reply_entry) list"
  rf_changed :: nat

definition reply_max_turns :: nat where "reply_max_turns = 128"
definition reply_max_bytes :: nat where "reply_max_bytes = 16777216"

definition new_reply_feed :: reply_feed where
  "new_reply_feed = \<lparr>rf_entries = [], rf_changed = 0\<rparr>"

definition fresh_entry :: reply_entry where
  "fresh_entry = \<lparr>re_snapshot = \<lparr>sn_status = [], sn_items = [], sn_complete = False, sn_gap = False\<rparr>, re_bytes = 0, re_changed = 0\<rparr>"

definition entry_of :: "reply_feed \<Rightarrow> reply_binding \<Rightarrow> reply_entry option" where
  "entry_of f b = map_of (rf_entries f) b"

definition feed_read :: "reply_feed \<Rightarrow> reply_binding \<Rightarrow> reply_snapshot option" where
  "feed_read f b = map_option re_snapshot (entry_of f b)"

definition feed_entry :: "reply_binding \<Rightarrow> reply_feed \<Rightarrow> reply_feed" where
  \<comment> \<open>a new Turn displaces the oldest one\<close>
  "feed_entry b f =
    (if entry_of f b \<noteq> None then f
     else let es = rf_entries f; kept = (if length es = reply_max_turns then tl es else es) in
       \<lparr>rf_entries = kept @ [(b, fresh_entry)], rf_changed = Suc (rf_changed f)\<rparr>)"

definition update_entry :: "reply_binding \<Rightarrow> (reply_entry \<Rightarrow> reply_entry) \<Rightarrow> reply_feed \<Rightarrow> reply_feed" where
  "update_entry b g f = f\<lparr>rf_entries := map (\<lambda>(k, e). if k = b then (k, g e) else (k, e)) (rf_entries f)\<rparr>"

definition notify_reply :: "reply_entry \<Rightarrow> reply_entry" where
  "notify_reply e = e\<lparr>re_changed := Suc (re_changed e)\<rparr>"

definition set_gap :: "reply_entry \<Rightarrow> reply_entry" where
  "set_gap e = e\<lparr>re_snapshot := (re_snapshot e)\<lparr>sn_gap := True\<rparr>\<rparr>"

definition feed_status :: "reply_binding \<Rightarrow> string \<Rightarrow> reply_feed \<Rightarrow> reply_feed" where
  "feed_status b status f =
    update_entry b (\<lambda>e. if sn_status (re_snapshot e) \<noteq> status
        then notify_reply (e\<lparr>re_snapshot := (re_snapshot e)\<lparr>sn_status := status\<rparr>\<rparr>) else e) (feed_entry b f)"

definition feed_gap :: "reply_binding \<Rightarrow> reply_feed \<Rightarrow> reply_feed" where
  "feed_gap b f = update_entry b (notify_reply \<circ> set_gap) (feed_entry b f)"

definition feed_begin :: "reply_binding \<Rightarrow> bool \<Rightarrow> reply_feed \<Rightarrow> reply_feed" where
  "feed_begin b fresh f =
    (if entry_of f b \<noteq> None then f
     else update_entry b (\<lambda>e. e\<lparr>re_snapshot := (re_snapshot e)\<lparr>sn_gap := \<not> fresh\<rparr>\<rparr>) (feed_entry b f))"

fun trim_entries :: "reply_binding \<Rightarrow> nat \<Rightarrow> (reply_binding \<times> reply_entry) list \<Rightarrow> (reply_binding \<times> reply_entry) list" where
  "trim_entries b n [] = []"
| "trim_entries b n ((k, e) # es) =
    (if n \<le> reply_max_bytes then (k, e) # es
     else if k = b then (k, e) # trim_entries b n es
     else trim_entries b (n - re_bytes e) es)"

definition feed_bytes :: "(reply_binding \<times> reply_entry) list \<Rightarrow> nat" where
  "feed_bytes es = sum_list (map (\<lambda>(k, e). re_bytes e) es)"

definition feed_trim :: "reply_binding \<Rightarrow> reply_feed \<Rightarrow> reply_feed" where
  "feed_trim b f = f\<lparr>rf_entries := trim_entries b (feed_bytes (rf_entries f)) (rf_entries f)\<rparr>"

definition same_native :: "conversation_item \<Rightarrow> conversation_item \<Rightarrow> bool" where
  "same_native i j = (ci_native j = ci_native i)"

definition append_item :: "conversation_item \<Rightarrow> reply_entry \<Rightarrow> reply_entry" where
  \<comment> \<open>the item takes the next position; beyond the bound the Turn becomes a gap\<close>
  "append_item item e =
    (let s = re_snapshot e; i = item\<lparr>ci_index := int (length (sn_items s))\<rparr>; n = re_bytes e + length (item_json i) in
     e\<lparr>re_bytes := n,
       re_snapshot := (if reply_max_bytes < n then s\<lparr>sn_gap := True\<rparr> else s\<lparr>sn_items := sn_items s @ [i]\<rparr>)\<rparr>)"

definition feed_append :: "reply_binding \<Rightarrow> conversation_item \<Rightarrow> reply_feed \<Rightarrow> reply_feed" where
  "feed_append b item f0 =
    (let f = feed_entry b f0 in
     case entry_of f b of None \<Rightarrow> f
     | Some e \<Rightarrow>
         if sn_gap (re_snapshot e) \<or> sn_complete (re_snapshot e) then f
         else case find (same_native item) (sn_items (re_snapshot e)) of
           Some old \<Rightarrow> if old \<noteq> item\<lparr>ci_index := ci_index old\<rparr> then update_entry b (notify_reply \<circ> set_gap) f else f
         | None \<Rightarrow> update_entry b notify_reply (feed_trim b (update_entry b (append_item item) f)))"

definition unnamed :: "conversation_item \<Rightarrow> conversation_item" where
  \<comment> \<open>without its native identity, which may change when a connection is made again\<close>
  "unnamed i = i\<lparr>ci_native := []\<rparr>"

definition seed_valid :: "conversation_item list option \<Rightarrow> reply_entry \<Rightarrow> bool" where
  "seed_valid is e =
    (case is of None \<Rightarrow> False
     | Some xs \<Rightarrow>
         length (items_json is) \<le> reply_max_bytes \<and> length (sn_items (re_snapshot e)) \<le> length xs \<and>
         list_all2 (\<lambda>i j. unnamed i = unnamed j) (sn_items (re_snapshot e)) (take (length (sn_items (re_snapshot e))) xs))"

definition feed_seed :: "reply_binding \<Rightarrow> conversation_item list option \<Rightarrow> bool \<Rightarrow> reply_feed \<Rightarrow> reply_feed" where
  "feed_seed b is complete f0 =
    (let f = feed_entry b f0 in
     case entry_of f b of None \<Rightarrow> f
     | Some e \<Rightarrow>
         if \<not> seed_valid is e then update_entry b (notify_reply \<circ> set_gap) f
         else update_entry b notify_reply (feed_trim b (update_entry b (\<lambda>e. e\<lparr>re_bytes := length (items_json is),
             re_snapshot := \<lparr>sn_status = sn_status (re_snapshot e), sn_items = (case is of None \<Rightarrow> [] | Some xs \<Rightarrow> xs),
                             sn_complete = complete, sn_gap = False\<rparr>\<rparr>) f)))"

definition feed_latest :: "reply_feed \<Rightarrow> string \<Rightarrow> string \<Rightarrow> string \<Rightarrow> string \<Rightarrow> reply_snapshot option" where
  \<comment> \<open>the newest Turn of a Thread, without its items\<close>
  "feed_latest f sid bid nonce th =
    map_option (\<lambda>(k, e). (re_snapshot e)\<lparr>sn_items := []\<rparr>)
      (find (\<lambda>(k, e). rb_session k = sid \<and> rb_sandbox k = bid \<and> rb_nonce k = nonce \<and> rb_thread k = th) (rev (rf_entries f)))"

section \<open>The feed as a transition system\<close>

inductive feed_step :: "reply_feed \<Rightarrow> reply_feed \<Rightarrow> bool" where
  feed_begins: "feed_step f (feed_begin b fresh f)"
| feed_reports: "feed_step f (feed_status b status f)"
| feed_breaks: "feed_step f (feed_gap b f)"
| feed_appends: "feed_step f (feed_append b item f)"
| feed_seeds: "feed_step f (feed_seed b is complete f)"

inductive_cases feed_stepE: "feed_step f g"

section \<open>The feed is bounded\<close>

definition items_bytes :: "reply_entry \<Rightarrow> nat" where
  "items_bytes e = sum_list (map (length \<circ> item_json) (sn_items (re_snapshot e)))"

definition capped :: "(reply_binding \<times> reply_entry) list \<Rightarrow> nat" where
  \<comment> \<open>an entry that overflowed keeps its count, not its bytes\<close>
  "capped es = sum_list (map (\<lambda>(k, e). min (re_bytes e) reply_max_bytes) es)"

definition feed_ok :: "reply_feed \<Rightarrow> bool" where
  "feed_ok f =
    (distinct (map fst (rf_entries f)) \<and> length (rf_entries f) \<le> reply_max_turns \<and>
     (\<forall>(k, e) \<in> set (rf_entries f). items_bytes e \<le> min (re_bytes e) reply_max_bytes) \<and>
     capped (rf_entries f) \<le> reply_max_bytes)"

definition retained_bytes :: "reply_feed \<Rightarrow> nat" where
  "retained_bytes f = sum_list (map (\<lambda>(k, e). items_bytes e) (rf_entries f))"

lemma retained_bounded:
  assumes "feed_ok f"
  shows "retained_bytes f \<le> reply_max_bytes"
proof -
  have "retained_bytes f \<le> capped (rf_entries f)"
    unfolding retained_bytes_def capped_def
    using assms by (intro sum_list_mono) (auto simp: feed_ok_def)
  with assms show ?thesis by (simp add: feed_ok_def)
qed

lemma trim_sub: "set (trim_entries b n es) \<subseteq> set es \<and> length (trim_entries b n es) \<le> length es \<and>
    (distinct (map fst es) \<longrightarrow> distinct (map fst (trim_entries b n es)))"
proof (induction b n es rule: trim_entries.induct)
  case (2 b n k e es)
  then show ?case by (auto split: if_splits)
qed simp

lemma trim_keeps: "(b, e) \<in> set es \<Longrightarrow> (b, e) \<in> set (trim_entries b n es)"
  by (induction b n es rule: trim_entries.induct) (auto split: if_splits)

lemma trim_total:
  "n = s + feed_bytes es \<Longrightarrow>
    s + feed_bytes (trim_entries b n es) \<le> reply_max_bytes \<or> set (map fst (trim_entries b n es)) \<subseteq> {b}"
proof (induction b n es arbitrary: s rule: trim_entries.induct)
  case (2 b n k e es)
  show ?case
  proof (cases "n \<le> reply_max_bytes")
    case False
    show ?thesis
    proof (cases "k = b")
      case True
      have "n = (s + re_bytes e) + feed_bytes es" using 2(3) by (simp add: feed_bytes_def)
      from 2(1) [OF False True this] show ?thesis using False True by (auto simp: feed_bytes_def)
    next
      case other: False
      have "n - re_bytes e = s + feed_bytes es" using 2(3) by (simp add: feed_bytes_def)
      from 2(2) [OF False other this] show ?thesis using False other by simp
    qed
  qed (use 2(3) in simp)
qed (simp add: feed_bytes_def)

lemma capped_le: "capped es \<le> feed_bytes es"
  unfolding capped_def feed_bytes_def by (intro sum_list_mono) auto

lemma capped_single: "distinct (map fst es) \<Longrightarrow> set (map fst es) \<subseteq> {b} \<Longrightarrow> capped es \<le> reply_max_bytes"
proof -
  assume d: "distinct (map fst es)" "set (map fst es) \<subseteq> {b}"
  then have "length es \<le> 1"
    by (metis card_mono distinct_card finite.emptyI finite_insert length_map card.empty card_insert_disjoint empty_iff One_nat_def)
  then show ?thesis by (cases es) (auto simp: capped_def split: prod.split)
qed

lemma trim_ok:
  assumes d: "distinct (map fst (rf_entries f))" "length (rf_entries f) \<le> reply_max_turns"
    and e: "\<forall>(k, e) \<in> set (rf_entries f). items_bytes e \<le> min (re_bytes e) reply_max_bytes"
  shows "feed_ok (feed_trim b f)"
proof -
  let ?es = "trim_entries b (feed_bytes (rf_entries f)) (rf_entries f)"
  have sub: "set ?es \<subseteq> set (rf_entries f)" "length ?es \<le> length (rf_entries f)" "distinct (map fst ?es)"
    using trim_sub [of b "feed_bytes (rf_entries f)" "rf_entries f"] d by auto
  have "feed_bytes ?es \<le> reply_max_bytes \<or> set (map fst ?es) \<subseteq> {b}"
    using trim_total [of "feed_bytes (rf_entries f)" 0 "rf_entries f" b] by simp
  then have "capped ?es \<le> reply_max_bytes"
    using capped_le [of ?es] capped_single [OF sub(3)] by auto
  with sub d e show ?thesis by (auto simp: feed_ok_def feed_trim_def)
qed

lemma update_keys: "map fst (rf_entries (update_entry b g f)) = map fst (rf_entries f)"
  by (auto simp: update_entry_def)

lemma update_length: "length (rf_entries (update_entry b g f)) = length (rf_entries f)"
  by (simp add: update_entry_def)

lemma update_ok:
  assumes f: "feed_ok f" and g: "\<And>e. re_bytes (g e) = re_bytes e" "\<And>e. sn_items (re_snapshot (g e)) = sn_items (re_snapshot e)"
  shows "feed_ok (update_entry b g f)"
proof -
  have "capped (rf_entries (update_entry b g f)) = capped (rf_entries f)"
    by (simp add: capped_def update_entry_def comp_def case_prod_unfold g if_distrib [of re_bytes] if_distrib [of snd] cong: if_cong)
  moreover have "items_bytes (g e) = items_bytes e" for e by (simp add: items_bytes_def g)
  moreover have "length (rf_entries (update_entry b g f)) \<le> reply_max_turns" using f by (simp add: feed_ok_def update_length)
  moreover have "distinct (map fst (rf_entries (update_entry b g f)))" using f by (simp only: feed_ok_def update_keys)
  moreover have "\<forall>(k, e) \<in> set (rf_entries (update_entry b g f)). items_bytes e \<le> min (re_bytes e) reply_max_bytes"
    using f calculation(2) g(1) by (fastforce simp: feed_ok_def update_entry_def split: if_splits)
  ultimately show ?thesis using f by (simp add: feed_ok_def)
qed

lemma entry_ok:
  assumes "feed_ok f"
  shows "feed_ok (feed_entry b f)"
proof (cases "entry_of f b = None")
  case True
  let ?es = "rf_entries f" and ?kept = "if length (rf_entries f) = reply_max_turns then tl (rf_entries f) else rf_entries f"
  have sub: "set ?kept \<subseteq> set ?es" by (cases ?es) auto
  have "b \<notin> fst ` set ?es" using True by (simp add: entry_of_def map_of_eq_None_iff)
  then have "b \<notin> fst ` set ?kept" using sub by blast
  moreover have "distinct (map fst ?kept)"
    using assms by (simp add: feed_ok_def map_tl distinct_tl)
  moreover have "length ?kept < reply_max_turns"
    using assms by (auto simp: feed_ok_def reply_max_turns_def)
  moreover have "capped ?kept \<le> capped ?es" by (cases ?es) (auto simp: capped_def)
  moreover have "capped (?kept @ [(b, fresh_entry)]) = capped ?kept" by (simp add: capped_def fresh_entry_def)
  moreover have "items_bytes fresh_entry = 0" by (simp add: items_bytes_def fresh_entry_def)
  ultimately show ?thesis
    using True assms sub by (auto simp: feed_entry_def Let_def feed_ok_def)
qed (use assms in \<open>simp add: feed_entry_def\<close>)

lemma changed_ok:
  assumes f: "feed_ok f" and g: "\<And>e. items_bytes e \<le> min (re_bytes e) reply_max_bytes \<Longrightarrow>
      items_bytes (g e) \<le> min (re_bytes (g e)) reply_max_bytes"
  shows "feed_ok (feed_trim b (update_entry b g f))"
proof (rule trim_ok)
  show "distinct (map fst (rf_entries (update_entry b g f)))" using f by (simp only: feed_ok_def update_keys)
  show "length (rf_entries (update_entry b g f)) \<le> reply_max_turns" using f by (simp add: feed_ok_def update_length)
  show "\<forall>(k, e) \<in> set (rf_entries (update_entry b g f)). items_bytes e \<le> min (re_bytes e) reply_max_bytes"
    using f g by (fastforce simp: feed_ok_def update_entry_def split: if_splits)
qed

lemma join_length: "sum_list (map length ss) \<le> length (join_with '','' ss)"
  by (induction ss rule: induct_list012) (simp_all add: join_with_def)

lemma items_json_length: "sum_list (map (length \<circ> item_json) xs) \<le> length (items_json (Some xs))"
  using join_length [of "map item_json xs"] by (simp add: items_json_def comp_def)

lemma append_item_ok:
  assumes "items_bytes e \<le> min (re_bytes e) reply_max_bytes"
  shows "items_bytes (append_item i e) \<le> min (re_bytes (append_item i e)) reply_max_bytes"
  using assms by (auto simp: append_item_def items_bytes_def Let_def)

lemma notify_simps [simp]: "re_bytes (notify_reply e) = re_bytes e" "re_snapshot (notify_reply e) = re_snapshot e"
  by (simp_all add: notify_reply_def)

lemma set_gap_simps [simp]: "re_bytes (set_gap e) = re_bytes e" "sn_items (re_snapshot (set_gap e)) = sn_items (re_snapshot e)"
  by (simp_all add: set_gap_def)

lemma feed_step_ok:
  assumes "feed_step f g" and "feed_ok f"
  shows "feed_ok g"
  using assms(1)
proof cases
  case (feed_begins b fresh)
  then show ?thesis using assms(2) by (auto simp: feed_begin_def intro!: update_ok entry_ok)
next
  case (feed_reports b status)
  then show ?thesis using assms(2) by (auto simp: feed_status_def intro!: update_ok entry_ok)
next
  case (feed_breaks b)
  then show ?thesis using assms(2) by (auto simp: feed_gap_def intro!: update_ok entry_ok)
next
  case (feed_appends b item)
  have f: "feed_ok (feed_entry b f)" by (rule entry_ok [OF assms(2)])
  then show ?thesis
    unfolding feed_appends feed_append_def Let_def
    by (auto split: option.split intro!: update_ok [OF f] update_ok [OF changed_ok [OF f append_item_ok]])
next
  case (feed_seeds b "is" complete)
  have f: "feed_ok (feed_entry b f)" by (rule entry_ok [OF assms(2)])
  have "items_bytes (e\<lparr>re_bytes := length (items_json is), re_snapshot := \<lparr>sn_status = st, sn_items = xs, sn_complete = complete, sn_gap = False\<rparr>\<rparr>)
      \<le> min (length (items_json is)) reply_max_bytes" if "seed_valid is e'" "is = Some xs" for e e' st xs
    using that items_json_length [of xs] by (simp add: items_bytes_def seed_valid_def)
  then show ?thesis
    unfolding feed_seeds feed_seed_def Let_def
    by (auto split: option.split simp: seed_valid_def f intro!: update_ok [OF f] update_ok changed_ok [OF f])
qed

lemma feed_reachable_ok: "feed_step\<^sup>*\<^sup>* new_reply_feed f \<Longrightarrow> feed_ok f"
proof (induction rule: rtranclp_induct)
  case base
  show ?case by (simp add: new_reply_feed_def feed_ok_def capped_def)
qed (rule feed_step_ok)

section \<open>What was reported is not taken back\<close>

definition extends :: "reply_entry \<Rightarrow> reply_entry \<Rightarrow> bool" where
  \<comment> \<open>the items, apart from their native identities, only grow at the end\<close>
  "extends e e' = prefix (map unnamed (sn_items (re_snapshot e))) (map unnamed (sn_items (re_snapshot e')))"

definition grows :: "reply_feed \<Rightarrow> reply_feed \<Rightarrow> bool" where
  "grows f g = (\<forall>b e e'. entry_of f b = Some e \<longrightarrow> entry_of g b = Some e' \<longrightarrow> extends e e')"

lemma extends_refl: "extends e e"
  by (simp add: extends_def)

lemma extends_trans: "extends e e' \<Longrightarrow> extends e' e'' \<Longrightarrow> extends e e''"
  unfolding extends_def by (rule prefix_order.trans)

lemma entry_update: "entry_of (update_entry b g f) k = map_option (\<lambda>e. if k = b then g e else e) (entry_of f k)"
proof -
  have "map_of (map (\<lambda>(k, e). if k = b then (k, g e) else (k, e)) es) k = map_option (\<lambda>e. if k = b then g e else e) (map_of es k)" for es
    by (induction es) auto
  then show ?thesis by (simp add: entry_of_def update_entry_def)
qed

lemma map_of_distinct: "distinct (map fst es) \<Longrightarrow> (k, e) \<in> set es \<longleftrightarrow> map_of es k = Some e"
  by (simp add: map_of_eq_Some_iff)

lemma entry_trim:
  assumes "distinct (map fst (rf_entries f))" and "entry_of (feed_trim b f) k = Some e"
  shows "entry_of f k = Some e"
proof -
  let ?es = "trim_entries b (feed_bytes (rf_entries f)) (rf_entries f)"
  have "(k, e) \<in> set ?es" using assms(2) by (simp add: entry_of_def feed_trim_def map_of_SomeD)
  then have "(k, e) \<in> set (rf_entries f)" using trim_sub by blast
  then show ?thesis using map_of_distinct [OF assms(1)] by (simp add: entry_of_def)
qed

lemma feed_entry_in:
  assumes "(k, e) \<in> set (rf_entries (feed_entry b f))" and "entry_of f k \<noteq> None"
  shows "(k, e) \<in> set (rf_entries f)"
proof (cases "entry_of f b = None")
  case True
  then have "k \<noteq> b" using assms(2) by auto
  moreover have "(k, e) \<in> set (rf_entries f) \<or> (k, e) = (b, fresh_entry)"
    using assms(1) True by (cases "rf_entries f") (auto simp: feed_entry_def Let_def split: if_splits)
  ultimately show ?thesis by blast
qed (use assms in \<open>simp add: feed_entry_def\<close>)

lemma entry_keeps:
  assumes ok: "feed_ok f" and e: "entry_of f k = Some e" and e': "entry_of (feed_entry b f) k = Some e'"
  shows "e' = e"
proof -
  have "(k, e') \<in> set (rf_entries (feed_entry b f))" using e' unfolding entry_of_def by (rule map_of_SomeD)
  moreover have "entry_of f k \<noteq> None" using e by simp
  ultimately have "(k, e') \<in> set (rf_entries f)" by (rule feed_entry_in)
  moreover have d: "distinct (map fst (rf_entries f))" using ok by (simp add: feed_ok_def)
  ultimately have "map_of (rf_entries f) k = Some e'" using map_of_distinct [OF d] by blast
  then show ?thesis using e by (simp add: entry_of_def)
qed

lemma grows_entry: "feed_ok f \<Longrightarrow> grows f (feed_entry b f)"
  unfolding grows_def by (intro allI impI) (drule (2) entry_keeps, simp add: extends_refl)

lemma grows_update:
  assumes "grows f g" and "\<And>e. entry_of g b = Some e \<Longrightarrow> extends e (h e)"
  shows "grows f (update_entry b h g)"
  unfolding grows_def
proof (intro allI impI)
  fix k e e' assume e: "entry_of f k = Some e" and e': "entry_of (update_entry b h g) k = Some e'"
  then obtain z where z: "entry_of g k = Some z" "e' = (if k = b then h z else z)"
    by (auto simp: entry_update)
  then have "extends e z" using assms(1) e by (auto simp: grows_def)
  then show "extends e e'" using z assms(2) by (auto intro: extends_trans)
qed

lemma grows_trim:
  assumes "grows f g" and "distinct (map fst (rf_entries g))"
  shows "grows f (feed_trim b g)"
  using assms entry_trim by (fastforce simp: grows_def)

lemma feed_step_grows:
  assumes "feed_step f g" and ok: "feed_ok f"
  shows "grows f g"
  using assms(1)
proof cases
  case (feed_begins b fresh)
  then show ?thesis
    by (auto simp: feed_begin_def extends_def intro!: grows_update grows_entry [OF ok]) (simp add: grows_def extends_refl)
next
  case (feed_reports b status)
  then show ?thesis by (auto simp: feed_status_def extends_def intro!: grows_update grows_entry [OF ok])
next
  case (feed_breaks b)
  then show ?thesis by (auto simp: feed_gap_def extends_def intro!: grows_update grows_entry [OF ok])
next
  case (feed_appends b item)
  let ?f = "feed_entry b f"
  have f: "grows f ?f" and d: "distinct (map fst (rf_entries ?f))"
    using grows_entry [OF ok] entry_ok [OF ok] by (auto simp: feed_ok_def)
  have "extends e (append_item item e)" for e
    by (simp add: extends_def append_item_def Let_def)
  then have "grows f (feed_trim b (update_entry b (append_item item) ?f))"
    by (intro grows_trim grows_update f) (simp_all only: update_keys d)
  then have 1: "grows f (update_entry b notify_reply (feed_trim b (update_entry b (append_item item) ?f)))"
    by (rule grows_update) (simp add: extends_def)
  have 2: "grows f (update_entry b (notify_reply \<circ> set_gap) ?f)"
    by (rule grows_update [OF f]) (simp add: extends_def)
  from f 1 2 show ?thesis
    unfolding feed_appends feed_append_def Let_def by (auto split: option.split)
next
  case (feed_seeds b "is" complete)
  let ?f = "feed_entry b f"
  let ?put = "\<lambda>e. e\<lparr>re_bytes := length (items_json is), re_snapshot := \<lparr>sn_status = sn_status (re_snapshot e),
      sn_items = (case is of None \<Rightarrow> [] | Some xs \<Rightarrow> xs), sn_complete = complete, sn_gap = False\<rparr>\<rparr>"
  have f: "grows f ?f" and d: "distinct (map fst (rf_entries ?f))"
    using grows_entry [OF ok] entry_ok [OF ok] by (auto simp: feed_ok_def)
  have put: "extends e (?put e)" if v: "seed_valid is e" for e
  proof -
    obtain xs where xs: "is = Some xs" using v by (cases "is") (auto simp: seed_valid_def)
    let ?n = "length (sn_items (re_snapshot e))"
    have "list_all2 (\<lambda>i j. unnamed i = unnamed j) (sn_items (re_snapshot e)) (take ?n xs)"
      using v by (simp add: seed_valid_def xs)
    then have "map unnamed (sn_items (re_snapshot e)) = map unnamed (take ?n xs)"
      by (simp add: list_all2_conv_all_nth list_eq_iff_nth_eq)
    then show ?thesis by (simp add: extends_def xs take_map [symmetric] take_is_prefix)
  qed
  have 1: "grows f (update_entry b notify_reply (feed_trim b (update_entry b ?put ?f)))"
    if "entry_of ?f b = Some e" "seed_valid is e" for e
  proof -
    have "grows f (feed_trim b (update_entry b ?put ?f))"
      by (intro grows_trim grows_update f) (use that put in \<open>simp_all only: update_keys d, auto\<close>)
    then show ?thesis by (rule grows_update) (simp add: extends_def)
  qed
  have 2: "grows f (update_entry b (notify_reply \<circ> set_gap) ?f)"
    by (rule grows_update [OF f]) (simp add: extends_def)
  from f 1 2 show ?thesis
    unfolding feed_seeds feed_seed_def Let_def by (auto split: option.split)
qed

end
