(* ===== verification/Codex_Protocol.thy ===== *)
theory Codex_Protocol
  imports Json_Laws Terminal_Externals Codex_Replies
begin

text \<open>
  The Codex app-server protocol (\<open>internal/codex\<close>): requests and responses over one connection, the
  Threads and Turns they speak of, and what a client reads out of native history. The connection
  is a parameter: sending and receiving a message, the counter of request identities, and what the
  observations of the worker take from a notification or from a Turn that was read, which acts on
  the outside only. A wait ends after \<open>wi_patience\<close> messages, when the context has expired.
\<close>

section \<open>Values of decoded messages\<close>

definition jget :: "json \<Rightarrow> string \<Rightarrow> json" where
  \<comment> \<open>a member of a map; the last of equal keys, null where there is none\<close>
  "jget v k =
    (case v of JObj ms \<Rightarrow> (case map_of (rev ms) k of Some x \<Rightarrow> x | None \<Rightarrow> JNull) | _ \<Rightarrow> JNull)"

definition string_value :: "json \<Rightarrow> string" where
  "string_value v = (case v of JStr s \<Rightarrow> s | _ \<Rightarrow> [])"

definition is_map :: "json \<Rightarrow> bool" where
  "is_map v = (case v of JObj _ \<Rightarrow> True | _ \<Rightarrow> False)"

definition array_of :: "json \<Rightarrow> json list option" where
  "array_of v = (case v of JArr vs \<Rightarrow> Some vs | _ \<Rightarrow> None)"

definition jnat :: "nat \<Rightarrow> json" where
  "jnat n = JNum (format_int (int n))"

section \<open>Numbers\<close>

text \<open>
  A number is read as a \<open>float64\<close>: the decimal \<open>m * 10 ^ e\<close>, rounded to 53 bits, halves to even. Only
  its integer part matters, and whether it is finite.
\<close>

definition number_mantissa :: "string \<Rightarrow> string \<times> string" where
  \<comment> \<open>the digits before and after the point, without sign and exponent\<close>
  "number_mantissa t =
    (let u = takeWhile (\<lambda>c. c \<noteq> CHR ''e'' \<and> c \<noteq> CHR ''E'') (trim_prefix t ''-'') in
     case cut_on (CHR ''.'') u of (a, b, _) \<Rightarrow> (a, b))"

definition number_exponent :: "string \<Rightarrow> int" where
  "number_exponent t =
    (case dropWhile (\<lambda>c. c \<noteq> CHR ''e'' \<and> c \<noteq> CHR ''E'') t of [] \<Rightarrow> 0
     | _ # u \<Rightarrow> if has_prefix u ''-'' then - int (atoi (tl u)) else int (atoi (trim_prefix u ''+'')))"

definition number_ratio :: "string \<Rightarrow> nat \<times> nat" where
  "number_ratio t =
    (case number_mantissa t of (a, b) \<Rightarrow>
       let e = number_exponent t - int (length b); m = atoi (a @ b) in
       if 0 \<le> e then (m * 10 ^ nat e, 1) else (m, 10 ^ nat (- e)))"

definition round_even :: "nat \<Rightarrow> nat \<Rightarrow> nat" where
  "round_even a b =
    (let q = a div b; r = a mod b in if b < 2 * r \<or> (2 * r = b \<and> odd q) then Suc q else q)"

function float_floor :: "nat \<Rightarrow> nat \<Rightarrow> nat \<Rightarrow> nat" where
  \<comment> \<open>the integer part of \<open>a / (b * 2 ^ k)\<close>, rounded to 53 bits\<close>
  "float_floor a b k =
    (if a = 0 \<or> b = 0 then 0
     else if a < b * 2 ^ 52 then float_floor (2 * a) b (Suc k)
     else round_even a b div 2 ^ k)"
  by pat_completeness auto
termination
  by (relation "measure (\<lambda>(a, b, k). b * 2 ^ 52 - a)") auto

declare float_floor.simps [simp del]

fun coarse :: "nat \<Rightarrow> nat \<Rightarrow> nat \<Rightarrow> nat" where
  \<comment> \<open>values of 53 bits and more: the rounding drops low bits\<close>
  "coarse 0 a b = round_even a b"
| "coarse (Suc n) a b = (if a < b * 2 ^ 53 then round_even a b else 2 * coarse n a (2 * b))"

definition number_floor :: "string \<Rightarrow> nat" where
  "number_floor t =
    (case number_ratio t of (a, b) \<Rightarrow> if a < b * 2 ^ 53 then float_floor a b 0 else coarse a a b)"

definition number_id :: "string \<Rightarrow> int" where
  "number_id t = (if has_prefix t ''-'' then - int (number_floor t) else int (number_floor t))"

fun numbers_finite :: "json \<Rightarrow> bool" where
  \<comment> \<open>a number beyond the range fails the decoding of the message\<close>
  "numbers_finite (JNum t) = (number_floor t < 2 ^ 1024)"
| "numbers_finite (JArr vs) = (\<forall>v \<in> set vs. numbers_finite v)"
| "numbers_finite (JObj ms) = (\<forall>(k, v) \<in> set ms. numbers_finite v)"
| "numbers_finite _ = True"

section \<open>The connection\<close>

record 'w wire =
  wi_send :: "string \<Rightarrow> ('w, unit) act"
  wi_receive :: "('w, bool \<times> string) act" \<comment> \<open>whether it is a text message, and the message\<close>
  wi_next :: "('w, nat) act" \<comment> \<open>the identity of the next request\<close>
  wi_observe :: "json \<Rightarrow> 'w \<Rightarrow> 'w"
  wi_history :: "string \<Rightarrow> json \<Rightarrow> 'w \<Rightarrow> 'w"
  wi_patience :: nat

definition send_message :: "'w wire \<Rightarrow> json \<Rightarrow> ('w, unit) act" where
  "send_message p m = bnd (attempt (wi_send p (json_text m))) (\<lambda>r. case r of
     Inl e \<Rightarrow> fail (Wrapf ''send Codex app-server message'' e) | Inr _ \<Rightarrow> ret ())"

definition decode_message :: "string \<Rightarrow> json option" where
  "decode_message payload =
    (case json_parse payload of None \<Rightarrow> None
     | Some v \<Rightarrow> if (is_map v \<or> v = JNull) \<and> numbers_finite v then Some v else None)"

definition receive_raw :: "'w wire \<Rightarrow> ('w, json) act" where
  "receive_raw p =
    bnd (attempt (wi_receive p)) (\<lambda>r. case r of
      Inl e \<Rightarrow> fail (Wrapf ''receive Codex app-server message'' e)
    | Inr (txt_message, payload) \<Rightarrow>
        if \<not> txt_message then fail (Errorf ''Codex app-server sent a non-text protocol message'')
        else case decode_message payload of
            None \<Rightarrow> fail (Wrapf ''decode Codex app-server message'' (External ''json''))
          | Some v \<Rightarrow> seq (modify (wi_observe p v)) (ret v))"

definition numeric_id :: "json \<Rightarrow> int option" where
  "numeric_id v = (case v of JNum t \<Rightarrow> Some (number_id t) | _ \<Rightarrow> None)"

definition rejected :: "string \<Rightarrow> err" where
  "rejected m = Errorf (''Codex app-server rejected '' @ m)"

fun await_response :: "nat \<Rightarrow> 'w wire \<Rightarrow> string \<Rightarrow> nat \<Rightarrow> ('w, json) act" where
  "await_response 0 p m i = fail (External ''context deadline exceeded'')"
| "await_response (Suc n) p m i =
    bnd (receive_raw p) (\<lambda>v.
    case numeric_id (jget v ''id'') of None \<Rightarrow> await_response n p m i
    | Some k \<Rightarrow>
        if k \<noteq> int i then fail (Errorf ''unexpected app-server response id'')
        else if jget v ''error'' \<noteq> JNull then fail (rejected m)
        else if \<not> is_map (jget v ''result'') then fail (Errorf ''response is missing result'')
        else ret (jget v ''result''))"

definition codex_call :: "'w wire \<Rightarrow> string \<Rightarrow> json \<Rightarrow> ('w, json) act" where
  "codex_call p m params =
    bnd (wi_next p) (\<lambda>i.
    seq (send_message p (json_map [(''method'', JStr m), (''id'', jnat i), (''params'', params)]))
        (await_response (wi_patience p) p m i))"

definition codex_initialize :: "'w wire \<Rightarrow> ('w, unit) act" where
  "codex_initialize p =
    seq (codex_call p ''initialize'' (json_map
          [(''clientInfo'', json_map [(''name'', JStr ''dorf''), (''title'', JStr ''Dorf''), (''version'', JStr ''0.1.0'')]),
           (''capabilities'', json_map [(''experimentalApi'', JBool True)])]))
        (send_message p (json_map [(''method'', JStr ''initialized''), (''params'', json_map [])]))"

section \<open>Threads and Turns\<close>

definition max_instruction_file_bytes :: nat where
  "max_instruction_file_bytes = 131072"

definition start_thread :: "'w wire \<Rightarrow> string \<Rightarrow> string \<Rightarrow> string \<Rightarrow> ('w, string) act" where
  "start_thread p workspace m capability =
    bnd (codex_call p ''thread/start'' (json_map
          [(''cwd'', JStr workspace), (''model'', JStr m), (''approvalPolicy'', JStr ''never''), (''sandbox'', JStr capability),
           (''config'', json_map [(''project_doc_max_bytes'', jnat max_instruction_file_bytes)])])) (\<lambda>r.
    let i = string_value (jget (jget r ''thread'') ''id'') in
    seq (require (i \<noteq> []) (Errorf ''thread/start response is missing result.thread.id'')) (ret i))"

definition bound_thread :: "json \<Rightarrow> string \<Rightarrow> bool" where
  "bound_thread r th = (is_map (jget r ''thread'') \<and> jget (jget r ''thread'') ''id'' = JStr th)"

definition resume_thread :: "'w wire \<Rightarrow> string \<Rightarrow> ('w, unit) act" where
  "resume_thread p th =
    bnd (codex_call p ''thread/resume'' (json_map [(''threadId'', JStr th)])) (\<lambda>r.
    require (bound_thread r th) (Errorf ''thread/resume did not return the exact bound thread''))"

definition read_thread :: "'w wire \<Rightarrow> string \<Rightarrow> ('w, json) act" where
  "read_thread p th =
    bnd (codex_call p ''thread/read'' (json_map [(''threadId'', JStr th), (''includeTurns'', JBool True)])) (\<lambda>r.
    seq (require (bound_thread r th) (Errorf ''thread/read did not return the bound thread'')) (ret (jget r ''thread'')))"

text \<open>Codex does not keep the client identity of a tool output; the program writes it into the output.\<close>

record application_observation =
  ao_delivery :: string
  ao_content :: string

definition native_observation :: "string \<Rightarrow> string \<Rightarrow> json" where
  "native_observation delivery content =
    json_map [(''name'', JStr ''application_observation''), (''namespace'', JStr ''dorf''),
      (''output'', JStr (json_text (JObj [(''delivery_id'', JStr delivery), (''content'', JStr content)])))]"

definition set_observation_member :: "string \<Rightarrow> json \<Rightarrow> application_observation \<times> bool \<Rightarrow> application_observation \<times> bool" where
  "set_observation_member k v st =
    (let f = field_of [''delivery_id'', ''content''] k in
     if f = Some ''delivery_id'' then set_field take_string (\<lambda>x. ao_delivery_update (\<lambda>_. x)) v st
     else if f = Some ''content'' then set_field take_string (\<lambda>x. ao_content_update (\<lambda>_. x)) v st
     else st)"

definition observation_delivery_id :: "json \<Rightarrow> string" where
  "observation_delivery_id item =
    (if jget item ''type'' \<noteq> JStr ''functionCallOutput'' \<or> jget item ''name'' \<noteq> JStr ''application_observation'' \<or>
        jget item ''namespace'' \<noteq> JStr ''dorf'' then []
     else case json_parse (string_value (jget item ''output'')) of None \<Rightarrow> []
       | Some v \<Rightarrow>
           (case set_struct set_observation_member v \<lparr>ao_delivery = [], ao_content = []\<rparr> of (ob, ok) \<Rightarrow>
              if \<not> ok \<or> ao_content ob = [] then [] else ao_delivery ob))"

definition item_client_ids :: "json \<Rightarrow> string list" where
  "item_client_ids item =
    (if \<not> is_map item then []
     else if observation_delivery_id item \<noteq> [] then [observation_delivery_id item]
     else if jget item ''type'' = JStr ''userMessage'' \<and> string_value (jget item ''clientId'') \<noteq> [] then
       [string_value (jget item ''clientId'')]
     else [])"

definition parse_turn :: "json \<Rightarrow> harness_turn" where
  "parse_turn turn =
    \<lparr>turn_id = string_value (jget turn ''id''), turn_status = string_value (jget turn ''status''),
     turn_client_ids = concat (map item_client_ids (case array_of (jget turn ''items'') of None \<Rightarrow> [] | Some is \<Rightarrow> is))\<rparr>"

definition agent_message_text :: "json \<Rightarrow> string" where
  "agent_message_text item =
    (if string_value (jget item ''text'') \<noteq> [] then string_value (jget item ''text'')
     else concat (map (\<lambda>c. string_value (jget c ''text''))
            (case array_of (jget item ''content'') of None \<Rightarrow> [] | Some cs \<Rightarrow> cs)))"

fun parse_turns :: "'w wire \<Rightarrow> string \<Rightarrow> json list \<Rightarrow> ('w, harness_turn list) act" where
  "parse_turns p th [] = ret []"
| "parse_turns p th (v # vs) =
    (if \<not> is_map v \<or> turn_id (parse_turn v) = [] then parse_turns p th vs
     else seq (modify (wi_history p th v)) (bnd (parse_turns p th vs) (\<lambda>ts. ret (parse_turn v # ts))))"

definition parse_read_turns :: "'w wire \<Rightarrow> string \<Rightarrow> json \<Rightarrow> ('w, harness_turn list) act" where
  "parse_read_turns p th thread =
    (case array_of (jget thread ''turns'') of
       None \<Rightarrow> fail (Errorf ''thread/read response is missing native turn identities'')
     | Some vs \<Rightarrow> parse_turns p th vs)"

definition codex_read_turns :: "'w wire \<Rightarrow> string \<Rightarrow> ('w, harness_turn list) act" where
  "codex_read_turns p th = bnd (read_thread p th) (parse_read_turns p th)"

end
