(* ===== verification/Control_Reader.thy ===== *)
theory Control_Reader
  imports Execution_Laws Terminal_Externals Postgres_Branches Direct_Admission Codex_Replies Go_Json_Decode
begin

text \<open>
  The reader service of a worker (\<open>internal/controlreader\<close>): what the control API may read from
  and write to the Sandbox of a Session. Every access proves under the Session fence that the
  Sandbox is still the one that was asked for, that its Session is not being cleaned up and that
  no delivery hold keeps it, and counts as activity unless it only observes. The runtimes a profile
  resolves to are parameters; an interface the runtime may lack is an option.
\<close>

section \<open>Identities\<close>

definition bounded_text :: "nat \<Rightarrow> string \<Rightarrow> bool" where
  "bounded_text n v = (v \<noteq> [] \<and> v = trim_space v \<and> length v \<le> n \<and> \<not> contains_nul v)"

definition valid_identity :: "string \<Rightarrow> bool" where
  "valid_identity = bounded_text 255"

definition valid_model :: "string \<Rightarrow> bool" where
  "valid_model = bounded_text 1024"

section \<open>The runtime of a Sandbox\<close>

record harness_timeline =
  ht_completed :: "conversation_item list option"
  ht_harness :: string
  ht_thread :: string
  ht_turn :: string
  ht_status :: string
  ht_items :: "json list" \<comment> \<open>raw messages, as the values they are\<close>

record 'w native_session =
  nv_capabilities :: "session \<Rightarrow> sandbox \<Rightarrow> ('w, input_capabilities) act"
  nv_submit :: "session \<Rightarrow> sandbox \<Rightarrow> native_event \<Rightarrow> bool \<Rightarrow> ('w, native_acknowledgement) native_mutation"
  nv_turns :: "session \<Rightarrow> sandbox \<Rightarrow> ('w, harness_history) act"

record 'w file_access =
  fa_read :: "session \<Rightarrow> sandbox \<Rightarrow> string \<Rightarrow> ('w, string) act"
  fa_write :: "(session \<Rightarrow> sandbox \<Rightarrow> string \<Rightarrow> string \<Rightarrow> bool \<Rightarrow> ('w, unit) act) option"

text \<open>\<open>sr_execution\<close> is the execution service, which reconciles idle Sandboxes.\<close>

record 'w sandbox_runtime =
  sr_native :: "'w native_session option"
  sr_status :: "(session \<Rightarrow> sandbox \<Rightarrow> ('w, provider_status) act) option"
  sr_timeline :: "(session \<Rightarrow> sandbox \<Rightarrow> string \<Rightarrow> string \<Rightarrow> ('w, harness_timeline) act) option"
  sr_execution :: "'w execution option"
  sr_files :: "'w file_access option"
  sr_commands :: "(session \<Rightarrow> sandbox \<Rightarrow> command \<Rightarrow> ('w, command_result) act) option"
  sr_profile :: profile_ref

text \<open>The externals of a worker as such a runtime; \<open>nonce\<close> names the directory of the attachments.\<close>

definition externals_native :: "'w externals \<Rightarrow> err + string \<Rightarrow> 'w native_session" where
  "externals_native e nonce =
    \<lparr>nv_capabilities = externals_capabilities e, nv_submit = submit_event e nonce, nv_turns = read_native_turns e\<rparr>"

definition externals_files :: "'w externals \<Rightarrow> 'w file_access" where
  "externals_files e = \<lparr>fa_read = read_sandbox_file e, fa_write = Some (write_sandbox_file e)\<rparr>"

record workspace_view =
  wv_observed :: time
  wv_path :: string
  wv_backup :: bool
  wv_idle_delay :: "int option"
  wv_checkpoint :: "time option"

record 'w connection_provider =
  cp_default :: "('w, string) act"
  cp_model :: "string \<Rightarrow> ('w, string) act"
  cp_check :: "string \<Rightarrow> ('w, unit) act"

record 'w reader =
  rd_locks :: "'w task_runtime" \<comment> \<open>the advisory locks of the store\<close>
  rd_resolve :: "(profile_ref \<Rightarrow> ('w, 'w sandbox_runtime) act) option"
  rd_workspace :: "(session \<Rightarrow> ('w, workspace_view) act) option"
  rd_provider :: "'w connection_provider option"

section \<open>Authority over a Sandbox\<close>

definition reader_error :: "reader_error \<Rightarrow> err" where
  "reader_error e = Sentinel (Reader e)"

definition gone_unavailable :: "err \<Rightarrow> err" where
  "gone_unavailable e = (if err_is e ErrNotFound then reader_error ReaderUnavailable else e)"

definition mapped :: "(err \<Rightarrow> err) \<Rightarrow> ('s, 'a) act \<Rightarrow> ('s, 'a) act" where
  \<comment> \<open>an error that is translated before it is returned\<close>
  "mapped f m = bnd (attempt m) (\<lambda>r. case r of Inl e \<Rightarrow> fail (f e) | Inr x \<Rightarrow> ret x)"

definition authorize_held_preparation :: "string \<Rightarrow> bool \<Rightarrow> (db, unit) act" where
  "authorize_held_preparation bid allow =
    (if \<not> allow then fail (reader_error ReaderUnavailable)
     else bnd (q_branch_file_preparation bid) (\<lambda>allowed. require allowed (reader_error ReaderUnavailable)))"

definition stored_authority :: "sandbox \<Rightarrow> bool \<Rightarrow> (db, session) act" where
  "stored_authority owned allow =
    bnd (mapped gone_unavailable (store_session (sb_session_id owned))) (\<lambda>j.
    seq (require (\<not> (sess_id j \<noteq> sb_session_id owned \<or> cleanup_state j \<noteq> CleanupPending)) (reader_error ReaderUnavailable))
   (bnd (mapped gone_unavailable (store_sandbox (sb_id owned))) (\<lambda>current.
    seq (require (current = owned) (reader_error ReaderUnavailable))
   (bnd (sandbox_delivery_held (sb_id owned)) (\<lambda>held.
    seq (if held then authorize_held_preparation (sb_id owned) allow else ret ()) (ret j))))))"

definition sandbox_authority ::
  "(profile_ref \<Rightarrow> ('w, 'w sandbox_runtime) act) \<Rightarrow> sandbox \<Rightarrow> bool \<Rightarrow> ('w, 'w sandbox_runtime \<times> session) eff" where
  "sandbox_authority resolve owned allow =
    bnd (on_db (stored_authority owned allow)) (\<lambda>j.
    bnd (mapped (Wrapf ''resolve Sandbox profile for file read'') (on_ext (resolve (profile_ref_of j)))) (\<lambda>srt.
    seq (require (sr_profile srt = profile_ref_of j) (Errorf ''resolved Sandbox runtime has a different profile''))
        (ret (srt, j))))"

section \<open>Access\<close>

text \<open>
  A fenced section remembers the runtime it resolved also when it fails: after the fence is
  released the runtime reconciles the Sandboxes that are idle, and its error is only logged.
\<close>

type_synonym ('w, 'a) observed = "'w execution option \<times> (err + 'a)"

definition with_runtime ::
  "('w, 'w sandbox_runtime \<times> session) eff \<Rightarrow> ('w sandbox_runtime \<Rightarrow> session \<Rightarrow> ('w, 'a) eff) \<Rightarrow> ('w, ('w, 'a) observed) eff" where
  "with_runtime authority call =
    bnd (attempt authority) (\<lambda>a. case a of
      Inl e \<Rightarrow> ret (None, Inl e)
    | Inr (srt, j) \<Rightarrow> bnd (attempt (call srt j)) (\<lambda>r. ret (sr_execution srt, r)))"

definition observed_fence ::
  "'w task_runtime \<Rightarrow> string \<Rightarrow> ('w, ('w, 'a) observed) eff \<Rightarrow> ('w, ('w, 'a) observed) eff" where
  "observed_fence rt sid m =
    bnd (attempt (on_ext (rt_fence rt sid))) (\<lambda>l. case l of
      Inl e \<Rightarrow> ret (None, Inl e)
    | Inr _ \<Rightarrow> bnd m (\<lambda>(idle, r). bnd (attempt (fence_release rt sid r)) (\<lambda>s. ret (idle, s))))"

definition reconcile_idle :: "'w execution option \<Rightarrow> string \<Rightarrow> ('w, unit) eff" where
  "reconcile_idle idle sid =
    (case idle of None \<Rightarrow> ret () | Some ex \<Rightarrow> bnd (attempt (es_reconcile_idle ex sid)) (\<lambda>_. ret ()))"

definition call_error :: "err \<Rightarrow> err" where
  "call_error e =
    (if err_is e ErrInvalidFilePath then reader_error ReaderInvalidFilePath
     else if err_is e ErrFileUnavailable then reader_error ReaderFileNotFound
     else if err_is e ErrFileTooLarge then reader_error ReaderFileTooLarge
     else e)"

definition owned_sandbox :: "string \<Rightarrow> (db, sandbox) act" where
  "owned_sandbox bid =
    bnd (mapped (\<lambda>e. if err_is e ErrNotFound then reader_error ReaderSandboxNotFound else e) (store_sandbox bid)) (\<lambda>owned.
    seq (require (\<not> (sb_id owned \<noteq> bid \<or> \<not> valid_identity (sb_session_id owned) \<or>
             \<not> valid_identity (sb_ownership_nonce owned))) (reader_error ReaderUnavailable))
        (ret owned))"

definition sandbox_call ::
  "bool \<Rightarrow> ('w sandbox_runtime \<Rightarrow> session \<Rightarrow> sandbox \<Rightarrow> ('w, 'a) eff) \<Rightarrow> sandbox \<Rightarrow> 'w sandbox_runtime \<Rightarrow> session \<Rightarrow> ('w, 'a) eff" where
  "sandbox_call reconcile call owned srt j =
    mapped call_error
      (if reconcile then with_sandbox_activity (sess_id j) (call srt j owned) else call srt j owned)"

definition access_sandbox_mode ::
  "'w reader \<Rightarrow> string \<Rightarrow> bool \<Rightarrow> bool \<Rightarrow> ('w sandbox_runtime \<Rightarrow> session \<Rightarrow> sandbox \<Rightarrow> ('w, 'a) eff) \<Rightarrow> ('w, 'a) eff" where
  "access_sandbox_mode rd bid reconcile allow call =
    (if \<not> valid_identity bid then fail (reader_error ReaderSandboxNotFound)
     else case rd_resolve rd of None \<Rightarrow> fail (Errorf ''control reader file authority is not configured'')
     | Some resolve \<Rightarrow>
         bnd (on_db (owned_sandbox bid)) (\<lambda>owned.
         bnd (observed_fence (rd_locks rd) (sb_session_id owned)
               (with_runtime (sandbox_authority resolve owned allow) (sandbox_call reconcile call owned))) (\<lambda>(idle, r).
         seq (if reconcile then reconcile_idle idle (sb_session_id owned) else ret ()) (lift r))))"

definition with_sandbox where "with_sandbox rd bid call = access_sandbox_mode rd bid True False call"
definition with_file_sandbox where "with_file_sandbox rd bid call = access_sandbox_mode rd bid True True call"
definition access_sandbox where "access_sandbox rd bid reconcile call = access_sandbox_mode rd bid reconcile False call"

section \<open>Files, commands and status\<close>

definition rd_read_file :: "'w reader \<Rightarrow> string \<Rightarrow> string \<Rightarrow> ('w, string) eff" where
  "rd_read_file rd bid name =
    (if validate_file_path name \<noteq> None then fail (reader_error ReaderInvalidFilePath)
     else with_file_sandbox rd bid (\<lambda>srt j owned.
       case sr_files srt of None \<Rightarrow> fail (reader_error ReaderUnavailable)
       | Some files \<Rightarrow>
           bnd (on_ext (fa_read files j owned name)) (\<lambda>contents.
           if max_file_read_bytes < int (length contents) then fail (reader_error ReaderFileTooLarge)
           else ret contents)))"

definition rd_write_file :: "'w reader \<Rightarrow> string \<Rightarrow> string \<Rightarrow> string \<Rightarrow> bool \<Rightarrow> ('w, unit) eff" where
  "rd_write_file rd bid name contents if_absent =
    (if validate_file_path name \<noteq> None then fail (reader_error ReaderInvalidFilePath)
     else if max_file_write_bytes < length contents then fail (reader_error ReaderInvalidRequest)
     else with_file_sandbox rd bid (\<lambda>srt j owned.
       case sr_files srt of None \<Rightarrow> fail (reader_error ReaderUnavailable)
       | Some files \<Rightarrow>
           case fa_write files of None \<Rightarrow> fail (reader_error ReaderUnavailable)
           | Some write \<Rightarrow> on_ext (write j owned name contents if_absent)))"

definition rd_exec :: "'w reader \<Rightarrow> string \<Rightarrow> command \<Rightarrow> ('w, command_result) eff" where
  "rd_exec rd bid c =
    (if validate_command c \<noteq> None then fail (reader_error ReaderInvalidRequest)
     else with_sandbox rd bid (\<lambda>srt j owned.
       case sr_commands srt of None \<Rightarrow> fail (reader_error ReaderUnavailable)
       | Some exec \<Rightarrow> on_ext (exec j owned c)))"

definition rd_status :: "'w reader \<Rightarrow> string \<Rightarrow> ('w, provider_status) eff" where
  \<comment> \<open>an observation must not wake the guest, nor count as its use\<close>
  "rd_status rd bid =
    access_sandbox rd bid False (\<lambda>srt j owned.
      case sr_status srt of None \<Rightarrow> fail (reader_error ReaderUnavailable) | Some st \<Rightarrow> on_ext (st j owned))"

definition rd_read_workspace :: "'w reader \<Rightarrow> string \<Rightarrow> ('w, workspace_view) eff" where
  "rd_read_workspace rd sid =
    (if \<not> valid_identity sid then fail (reader_error ReaderSessionNotFound)
     else bnd (on_db (store_session sid)) (\<lambda>j.
       case rd_workspace rd of None \<Rightarrow> fail (reader_error ReaderUnavailable) | Some f \<Rightarrow> on_ext (f j)))"

end
