(* ===== verification/Codex_Timeline.thy ===== *)
theory Codex_Timeline
  imports Codex_Protocol Control_Reader
begin

text \<open>
  Reading the timeline of a Turn from Codex (\<open>internal/codex/timeline.go\<close>) and the audio
  capabilities of a model (\<open>input_capabilities.go\<close>): pages are followed by cursors that must not
  repeat, within a bound on the bytes read; a Turn is projected to the conversation items that are
  complete.
\<close>

section \<open>Struct fields\<close>

definition field_values :: "string list \<Rightarrow> string \<Rightarrow> json \<Rightarrow> json list" where
  "field_values names f v =
    (case v of JObj ms \<Rightarrow> map snd (filter (\<lambda>(k, x). field_of names k = Some f) ms) | _ \<Rightarrow> [])"

definition string_field :: "string list \<Rightarrow> string \<Rightarrow> json \<Rightarrow> string option" where
  \<comment> \<open>\<open>None\<close>: some value does not fit; null changes nothing\<close>
  "string_field names f v =
    foldl (\<lambda>r x. case r of None \<Rightarrow> None | Some s \<Rightarrow> if x = JNull then Some s else take_string x)
      (Some []) (field_values names f v)"

definition pointer_field :: "(json \<Rightarrow> 'a option) \<Rightarrow> string list \<Rightarrow> string \<Rightarrow> json \<Rightarrow> 'a option option" where
  "pointer_field get names f v =
    foldl (\<lambda>r x. case r of None \<Rightarrow> None | Some s \<Rightarrow> if x = JNull then Some None else map_option Some (get x))
      (Some None) (field_values names f v)"

definition raw_field :: "string list \<Rightarrow> string \<Rightarrow> json \<Rightarrow> json option" where
  "raw_field names f v = (case rev (field_values names f v) of [] \<Rightarrow> None | x # _ \<Rightarrow> Some x)"

definition struct_value :: "json \<Rightarrow> bool" where
  "struct_value v = (is_map v \<or> v = JNull)"

section \<open>Pages\<close>

definition timeline_page_size :: nat where "timeline_page_size = 1"
definition timeline_max_bytes :: nat where "timeline_max_bytes = 16777216"

record timeline_page =
  tp_data :: "json list"
  tp_next :: "string option"

record pagination =
  tg_cursors :: "string list"
  tg_bytes :: nat

definition timeline_unavailable :: err where
  "timeline_unavailable = Sentinel ErrTimelineUnavailable"

definition decode_page :: "json \<Rightarrow> pagination \<Rightarrow> err + timeline_page \<times> pagination" where
  "decode_page v st =
    (let names = [''data'', ''nextCursor''] in
     if \<not> struct_value v then Inl (External ''json'')
     else case (pointer_field array_of names ''data'' v, pointer_field take_string names ''nextCursor'' v) of
       (Some (Some xs), Some cursor) \<Rightarrow>
         if timeline_page_size < length xs then Inl timeline_unavailable
         else (case cursor of None \<Rightarrow> Inr (\<lparr>tp_data = xs, tp_next = None\<rparr>, st)
           | Some c \<Rightarrow>
               if c = [] \<or> 4096 < length c \<or> c \<in> set (tg_cursors st) \<or> xs = [] then Inl timeline_unavailable
               else Inr (\<lparr>tp_data = xs, tp_next = Some c\<rparr>, st\<lparr>tg_cursors := c # tg_cursors st\<rparr>))
     | (Some None, Some _) \<Rightarrow> Inl timeline_unavailable
     | _ \<Rightarrow> Inl (External ''json''))"

definition read_response :: "string \<Rightarrow> (int option \<times> json option \<times> json option) option" where
  \<comment> \<open>identity, result and error of a message\<close>
  "read_response payload =
    (let names = [''id'', ''result'', ''error''] in
     case json_parse payload of None \<Rightarrow> None
     | Some v \<Rightarrow>
         if \<not> struct_value v then None
         else map_option (\<lambda>i. (i, raw_field names ''result'' v, raw_field names ''error'' v)) (pointer_field take_int names ''id'' v))"

fun await_page :: "nat \<Rightarrow> 'w wire \<Rightarrow> nat \<Rightarrow> pagination \<Rightarrow> ('w, timeline_page \<times> pagination) act" where
  "await_page 0 p i st = fail (External ''context deadline exceeded'')"
| "await_page (Suc n) p i st =
    bnd (wi_receive p) (\<lambda>(is_txt, payload).
    let st' = st\<lparr>tg_bytes := tg_bytes st + length payload\<rparr> in
    if \<not> is_txt \<or> timeline_max_bytes < tg_bytes st' then fail timeline_unavailable
    else case read_response payload of None \<Rightarrow> fail (External ''json'')
    | Some (None, _, _) \<Rightarrow>
        seq (case decode_message payload of None \<Rightarrow> ret () | Some v \<Rightarrow> modify (wi_observe p v)) (await_page n p i st')
    | Some (Some k, res, er) \<Rightarrow>
        if k \<noteq> int i \<or> (er \<noteq> None \<and> er \<noteq> Some JNull) then fail timeline_unavailable
        else case res of None \<Rightarrow> fail (External ''json'') | Some v \<Rightarrow> lift (decode_page v st'))"

definition page_params :: "string \<Rightarrow> string option \<Rightarrow> json" where
  "page_params th cursor =
    json_map ([(''threadId'', JStr th), (''sortDirection'', JStr ''desc''), (''itemsView'', JStr ''full''),
      (''limit'', jnat timeline_page_size)] @ (case cursor of None \<Rightarrow> [] | Some c \<Rightarrow> [(''cursor'', JStr c)]))"

definition timeline_page_of :: "'w wire \<Rightarrow> string \<Rightarrow> string option \<Rightarrow> pagination \<Rightarrow> ('w, timeline_page \<times> pagination) act" where
  "timeline_page_of p th cursor st =
    bnd (wi_next p) (\<lambda>i.
    seq (send_message p (json_map [(''method'', JStr ''thread/turns/list''), (''id'', jnat i), (''params'', page_params th cursor)]))
        (await_page (wi_patience p) p i st))"

section \<open>Turns\<close>

record timeline_turn =
  tt_id :: string
  tt_status :: string
  tt_items :: "json list"

definition decode_timeline_turn :: "json \<Rightarrow> timeline_turn option" where
  "decode_timeline_turn v =
    (let names = [''id'', ''status'', ''itemsView'', ''items''] in
     if \<not> struct_value v then None
     else case (string_field names ''id'' v, string_field names ''status'' v, string_field names ''itemsView'' v,
                pointer_field array_of names ''items'' v) of
       (Some i, Some st, Some view, Some (Some is)) \<Rightarrow>
         if i = [] \<or> view \<noteq> ''full'' \<or> (st \<noteq> ''inProgress'' \<and> st \<notin> {''completed'', ''interrupted'', ''failed''}) then None
         else Some \<lparr>tt_id = i, tt_status = st, tt_items = is\<rparr>
     | _ \<Rightarrow> None)"

definition item_head :: "json \<Rightarrow> (string \<times> string) option" where
  "item_head v =
    (let names = [''id'', ''type''] in
     if \<not> struct_value v then None
     else case (string_field names ''id'' v, string_field names ''type'' v) of
       (Some i, Some k) \<Rightarrow> if i = [] \<or> k = [] then None else Some (i, k) | _ \<Rightarrow> None)"

fun conversation_items :: "string list \<Rightarrow> bool \<Rightarrow> json list \<Rightarrow> (json list \<times> bool) option" where
  \<comment> \<open>the messages, and whether an application observation was seen; identities must not repeat\<close>
  "conversation_items seen ob [] = Some ([], ob)"
| "conversation_items seen ob (v # vs) =
    (case item_head v of None \<Rightarrow> None
     | Some (i, k) \<Rightarrow>
         if i \<in> set seen then None
         else if k = ''functionCallOutput'' \<and> \<not> numbers_finite v then None
         else map_option (\<lambda>(is, b). (if k = ''userMessage'' \<or> k = ''agentMessage'' then v # is else is, b))
           (conversation_items (i # seen) (ob \<or> (k = ''functionCallOutput'' \<and> observation_delivery_id v \<noteq> [])) vs))"

definition timeline_items :: "json list \<Rightarrow> json list option" where
  "timeline_items native =
    (case conversation_items [] False native of None \<Rightarrow> None
     | Some (is, ob) \<Rightarrow> if is = [] \<and> \<not> ob then None else Some is)"

definition content_block_ok :: "json \<Rightarrow> bool" where
  "content_block_ok v = (is_map v \<and> pointer_field take_string [''text''] ''text'' v \<noteq> None)"

definition completed_fields :: "json \<Rightarrow> (string \<times> string \<times> string \<times> string) option" where
  \<comment> \<open>identity, type, phase and client of an item that can be read\<close>
  "completed_fields v =
    (let names = [''id'', ''type'', ''phase'', ''clientId'', ''text'', ''content''] in
     if \<not> struct_value v then None
     else case (string_field names ''id'' v, string_field names ''type'' v, string_field names ''phase'' v,
                string_field names ''clientId'' v, pointer_field take_string names ''text'' v,
                pointer_field array_of names ''content'' v) of
       (Some i, Some k, Some ph, Some cl, Some _, Some content) \<Rightarrow>
         if list_all content_block_ok (case content of None \<Rightarrow> [] | Some cs \<Rightarrow> cs) then Some (i, k, ph, cl) else None
     | _ \<Rightarrow> None)"

definition completed_item :: "int \<Rightarrow> json \<Rightarrow> conversation_item option option" where
  \<comment> \<open>\<open>None\<close>: unavailable; \<open>Some None\<close>: not a message\<close>
  "completed_item n v =
    (case completed_fields v of None \<Rightarrow> None
     | Some (i, k, ph, cl) \<Rightarrow>
         let entry = \<lparr>ci_index = n, ci_native = i, ci_kind = [], ci_phase = [], ci_text = [], ci_client = []\<rparr> in
         if k = ''userMessage'' then Some (Some (entry\<lparr>ci_kind := ''input'', ci_client := cl\<rparr>))
         else if k = ''functionCallOutput'' then
           (if \<not> numbers_finite v then None
            else if observation_delivery_id v = [] then Some None
            else Some (Some (entry\<lparr>ci_kind := ''input'', ci_client := observation_delivery_id v\<rparr>)))
         else if k = ''agentMessage'' then
           (if ph \<noteq> [] \<and> ph \<noteq> ''final_answer'' \<and> ph \<noteq> ''commentary'' then Some None
            else if \<not> numbers_finite v then None
            else if agent_message_text v = [] then Some None
            else Some (Some (entry\<lparr>ci_kind := ''assistant_message'', ci_phase := ph, ci_text := agent_message_text v\<rparr>)))
         else Some None)"

fun completed_items :: "conversation_item list \<Rightarrow> json list \<Rightarrow> conversation_item list option" where
  "completed_items acc [] = Some acc"
| "completed_items acc (v # vs) =
    (case completed_item (int (length acc)) v of None \<Rightarrow> None
     | Some None \<Rightarrow> completed_items acc vs
     | Some (Some i) \<Rightarrow> completed_items (acc @ [i]) vs)"

definition codex_name :: string where
  "codex_name = ''codex''"

datatype turn_match = NoTurn "string list" | TurnUnavailable | TurnFound harness_timeline

fun match_turns :: "string \<Rightarrow> string \<Rightarrow> string list \<Rightarrow> json list \<Rightarrow> turn_match" where
  \<comment> \<open>the Turns of a page; identities must not repeat over the pages\<close>
  "match_turns th wanted seen [] = NoTurn seen"
| "match_turns th wanted seen (v # vs) =
    (case decode_timeline_turn v of None \<Rightarrow> TurnUnavailable
     | Some turn \<Rightarrow>
         if tt_id turn \<in> set seen then TurnUnavailable
         else if wanted = [] \<or> tt_id turn = wanted then
           (case timeline_items (tt_items turn) of None \<Rightarrow> TurnUnavailable
            | Some is \<Rightarrow> TurnFound \<lparr>ht_completed = completed_items [] (tt_items turn), ht_harness = codex_name, ht_thread = th,
                ht_turn = tt_id turn, ht_status = tt_status turn, ht_items = is\<rparr>)
         else match_turns th wanted (tt_id turn # seen) vs)"

fun timeline_pages ::
  "nat \<Rightarrow> 'w wire \<Rightarrow> string \<Rightarrow> string \<Rightarrow> string list \<Rightarrow> string option \<Rightarrow> pagination \<Rightarrow> ('w, harness_timeline) act" where
  \<comment> \<open>at most \<open>n\<close> pages, which the bytes a page takes bound\<close>
  "timeline_pages 0 p th wanted seen cursor st = fail timeline_unavailable"
| "timeline_pages (Suc n) p th wanted seen cursor st =
    bnd (attempt (timeline_page_of p th cursor st)) (\<lambda>r. case r of
      Inl e \<Rightarrow> fail (Join timeline_unavailable e)
    | Inr (page, st') \<Rightarrow>
        (case match_turns th wanted seen (tp_data page) of
           TurnUnavailable \<Rightarrow> fail timeline_unavailable
         | TurnFound t \<Rightarrow> ret t
         | NoTurn seen' \<Rightarrow>
             (case tp_next page of
                None \<Rightarrow> if wanted \<noteq> [] then fail (Sentinel ErrTurnNotFound) else fail timeline_unavailable
              | Some c \<Rightarrow> timeline_pages n p th wanted seen' (Some c) st')))"

definition read_timeline :: "'w wire \<Rightarrow> string \<Rightarrow> string \<Rightarrow> ('w, harness_timeline) act" where
  "read_timeline p th wanted =
    (if th = [] then fail timeline_unavailable
     else timeline_pages (Suc timeline_max_bytes) p th wanted [] None \<lparr>tg_cursors = [], tg_bytes = 0\<rparr>)"

definition codex_read_timeline :: "('w, harness_timeline) act \<Rightarrow> ('w, harness_timeline) act" where
  \<comment> \<open>the errors of \<open>Agent.ReadTimeline\<close>\<close>
  "codex_read_timeline m =
    mapped (\<lambda>e. if err_is e ErrTurnNotFound then Sentinel ErrTurnNotFound else Join timeline_unavailable e) m"

section \<open>Capabilities\<close>

definition audio_types :: "string list" where
  "audio_types = [''audio/wav'', ''audio/mpeg'', ''audio/mp4'', ''audio/webm'', ''audio/ogg'']"

definition model_entry :: "string \<Rightarrow> json list \<Rightarrow> json option" where
  "model_entry m vs = find (\<lambda>v. is_map v \<and> string_value (jget v ''model'') = m) vs"

definition entry_capabilities :: "string \<Rightarrow> json \<Rightarrow> input_capabilities" where
  "entry_capabilities m v =
    (if JStr ''audio'' \<in> set (case array_of (jget v ''inputModalities'') of None \<Rightarrow> [] | Some ms \<Rightarrow> ms)
     then \<lparr>ic_model = m, ic_media_types = audio_types, ic_max_audio = int max_file_write_bytes\<rparr>
     else \<lparr>ic_model = m, ic_media_types = [], ic_max_audio = 0\<rparr>)"

definition models_params :: "string \<Rightarrow> json" where
  "models_params cursor =
    json_map ([(''includeHidden'', JBool True), (''limit'', jnat 100)] @ (if cursor \<noteq> [] then [(''cursor'', JStr cursor)] else []))"

fun model_pages :: "nat \<Rightarrow> 'w wire \<Rightarrow> string \<Rightarrow> string list \<Rightarrow> string \<Rightarrow> ('w, input_capabilities) act" where
  \<comment> \<open>at most \<open>n\<close> pages before the context expires\<close>
  "model_pages 0 p m seen cursor = fail (External ''context deadline exceeded'')"
| "model_pages (Suc n) p m seen cursor =
    bnd (codex_call p ''model/list'' (models_params cursor)) (\<lambda>r.
    case array_of (jget r ''data'') of None \<Rightarrow> fail (Errorf ''model/list returned invalid data'')
    | Some vs \<Rightarrow>
        (case model_entry m vs of Some v \<Rightarrow> ret (entry_capabilities m v)
         | None \<Rightarrow>
             let c = string_value (jget r ''nextCursor'') in
             if c = [] then ret \<lparr>ic_model = m, ic_media_types = [], ic_max_audio = 0\<rparr>
             else if c \<in> set seen then fail (Errorf ''model/list repeated its cursor'')
             else model_pages n p m (c # seen) c))"

definition codex_capabilities :: "'w wire \<Rightarrow> string \<Rightarrow> ('w, input_capabilities) act" where
  "codex_capabilities p m = model_pages (wi_patience p) p m [] []"

end
