(* ===== verification/Control_Native.thy ===== *)
theory Control_Native
  imports Control_Reader
begin

text \<open>
  Native events and native history through the reader (\<open>internal/controlreader/native.go\<close>,
  \<open>timeline.go\<close>). A submission is a program of the Harness with two callbacks, which the reader
  interprets over the store: the Thread is bound and the mutation is marked pending before the
  Harness may write, and the marker is cleared only after the Harness has answered.
\<close>

section \<open>Custody of one submission\<close>

text \<open>
  The Thread of the Session as the callbacks know it, the revision of the mutation that was begun
  (zero before), and the number of nonces drawn.
\<close>

record custody =
  cu_thread :: string
  cu_revision :: int
  cu_draws :: nat

definition bind_callback :: "string \<Rightarrow> string \<Rightarrow> custody \<Rightarrow> 'w world \<Rightarrow> (err + unit) \<times> custody \<times> 'w world" where
  "bind_callback sid th c w =
    (case on_db (bind_native_thread sid th) w of
       (Inl e, v) \<Rightarrow> (Inl e, c, v) | (Inr _, v) \<Rightarrow> (Inr (), c\<lparr>cu_thread := th\<rparr>, v))"

definition begin_input_id :: "native_event \<Rightarrow> string \<Rightarrow> string \<Rightarrow> string" where
  "begin_input_id ev nonce turn = (if turn \<noteq> [] then [] else ev_client_id ev @ ''/'' @ nonce)"

definition begin_callback ::
  "string \<Rightarrow> (nat \<Rightarrow> err + string) \<Rightarrow> native_event \<Rightarrow> string \<Rightarrow> custody \<Rightarrow> 'w world \<Rightarrow> (err + string) \<times> custody \<times> 'w world" where
  \<comment> \<open>an error of the store leaves revision zero\<close>
  "begin_callback sid draw ev turn c w =
    (let c' = c\<lparr>cu_draws := Suc (cu_draws c)\<rparr> in
     case draw (cu_draws c) of Inl e \<Rightarrow> (Inl e, c', w)
     | Inr nonce \<Rightarrow>
         let input = begin_input_id ev nonce turn in
         case on_db (begin_native_mutation sid (cu_thread c) input turn) w of
           (Inl e, v) \<Rightarrow> (Inl e, c'\<lparr>cu_revision := 0\<rparr>, v)
         | (Inr n, v) \<Rightarrow> (Inr input, c'\<lparr>cu_revision := n\<rparr>, v))"

primrec run_custody ::
  "string \<Rightarrow> (nat \<Rightarrow> err + string) \<Rightarrow> native_event \<Rightarrow> ('w, 'a) native_mutation \<Rightarrow> custody \<Rightarrow> 'w world \<Rightarrow>
    (err + 'a) \<times> custody \<times> 'w world" where
  "run_custody sid draw ev (Finished r) = (\<lambda>c w. (r, c, w))"
| "run_custody sid draw ev (Outside f k) =
    (\<lambda>c w. run_custody sid draw ev (k (w_ext w)) c (w\<lparr>w_ext := f (w_ext w)\<rparr>))"
| "run_custody sid draw ev (BindThread th k) =
    (\<lambda>c w. case bind_callback sid th c w of (r, c', v) \<Rightarrow> run_custody sid draw ev (k r) c' v)"
| "run_custody sid draw ev (BeginMutation turn k) =
    (\<lambda>c w. case begin_callback sid draw ev turn c w of (r, c', v) \<Rightarrow> run_custody sid draw ev (k r) c' v)"

definition outcome_unknown :: "err \<Rightarrow> err" where
  "outcome_unknown e = Join (Sentinel ErrNativeUnknown) e"

definition settle_custody :: "string \<Rightarrow> (err + 'a) \<times> custody \<times> 'w world \<Rightarrow> (err + 'a) \<times> 'w world" where
  "settle_custody sid o' =
    (case o' of
       (Inl e, c, v) \<Rightarrow> (Inl (if cu_revision c \<noteq> 0 then outcome_unknown e else e), v)
     | (Inr ack, c, v) \<Rightarrow>
         if cu_revision c = 0 then (Inr ack, v)
         else seq (mapped outcome_unknown (on_db (finish_native_mutation sid (cu_revision c)))) (ret ack) v)"

definition submit_native_event ::
  "'w native_session \<Rightarrow> (nat \<Rightarrow> err + string) \<Rightarrow> session \<Rightarrow> sandbox \<Rightarrow> native_event \<Rightarrow> native_state \<Rightarrow>
    ('w, native_acknowledgement) eff" where
  "submit_native_event native draw j owned ev st =
    (\<lambda>w. settle_custody (sess_id j)
      (run_custody (sess_id j) draw ev (nv_submit native j owned ev (ns_revision st = 0))
        \<lparr>cu_thread = thread_id j, cu_revision = 0, cu_draws = 0\<rparr> w))"

section \<open>Submitting an event\<close>

definition settle_pending :: "'w native_session \<Rightarrow> session \<Rightarrow> sandbox \<Rightarrow> native_state \<Rightarrow> ('w, unit) eff" where
  \<comment> \<open>an earlier mutation must be proven by native history\<close>
  "settle_pending native j owned st =
    (if \<not> native_pending st then ret ()
     else bnd (attempt (on_ext (nv_turns native j owned))) (\<lambda>h. case h of
         Inl _ \<Rightarrow> fail (Sentinel ErrNativeUnknown)
       | Inr history \<Rightarrow>
           if \<not> native_mutation_proven st history then fail (Sentinel ErrNativeUnknown)
           else on_db (finish_native_mutation (sess_id j) (ns_revision st))))"

definition submit_ready :: "action list \<Rightarrow> sandbox \<Rightarrow> bool" where
  "submit_ready as owned =
    (has_succeeded_action as ActionSandboxCreate (sb_id owned) \<and> has_succeeded_action as ActionRouteCreate (sb_id owned))"

definition submit_call ::
  "string \<Rightarrow> (nat \<Rightarrow> err + string) \<Rightarrow> native_event \<Rightarrow> 'w sandbox_runtime \<Rightarrow> session \<Rightarrow> sandbox \<Rightarrow> ('w, native_acknowledgement) eff" where
  "submit_call sid draw ev srt j owned =
    (case sr_native srt of None \<Rightarrow> fail (Sentinel ErrNativeUnavailable)
     | Some native \<Rightarrow>
         seq (require (admission_open j) (Sentinel ErrNativeUnavailable))
        (bnd (on_db (list_actions sid)) (\<lambda>as.
         seq (require (submit_ready as owned) (Sentinel ErrNativeUnavailable))
        (bnd (on_db (store_native_state sid)) (\<lambda>st.
         seq (settle_pending native j owned st)
             (submit_native_event native draw j owned ev st))))))"

definition native_unavailable :: "err \<Rightarrow> err" where
  "native_unavailable e = (if err_is e (Reader ReaderUnavailable) then Sentinel ErrNativeUnavailable else e)"

definition rd_submit_event ::
  "'w reader \<Rightarrow> (nat \<Rightarrow> err + string) \<Rightarrow> string \<Rightarrow> native_event \<Rightarrow> ('w, native_acknowledgement) eff" where
  "rd_submit_event rd draw sid ev =
    (case validate_event ev of Some e \<Rightarrow> fail e
     | None \<Rightarrow>
         if \<not> valid_identity sid then fail (Sentinel ErrNativeUnavailable)
         else mapped native_unavailable (with_sandbox rd (main_sandbox_name sid) (submit_call sid draw ev)))"

section \<open>Reading native state\<close>

definition client_attribution :: "string \<Rightarrow> string" where
  \<comment> \<open>without the nonce\<close>
  "client_attribution i = fst (cut_on (CHR ''/'') i)"

definition attribute_turn :: "harness_turn \<Rightarrow> harness_turn" where
  "attribute_turn t = t\<lparr>turn_client_ids := map client_attribution (turn_client_ids t)\<rparr>"

definition rd_native_turns :: "'w reader \<Rightarrow> string \<Rightarrow> ('w, harness_history) eff" where
  "rd_native_turns rd sid =
    (if \<not> valid_identity sid then fail (reader_error ReaderSessionNotFound)
     else bnd (with_sandbox rd (main_sandbox_name sid) (\<lambda>srt j owned.
         case sr_native srt of None \<Rightarrow> fail (Sentinel ErrNativeUnavailable) | Some native \<Rightarrow> on_ext (nv_turns native j owned)))
       (\<lambda>h. ret (h\<lparr>hist_turns := map attribute_turn (hist_turns h)\<rparr>)))"

definition rd_input_capabilities :: "'w reader \<Rightarrow> string \<Rightarrow> ('w, input_capabilities) eff" where
  "rd_input_capabilities rd sid =
    (if \<not> valid_identity sid then fail (reader_error ReaderSessionNotFound)
     else mapped native_unavailable (access_sandbox rd (main_sandbox_name sid) False (\<lambda>srt j owned.
         case sr_native srt of None \<Rightarrow> fail (Sentinel ErrNativeUnavailable)
         | Some native \<Rightarrow> on_ext (nv_capabilities native j owned))))"

section \<open>The timeline of a Turn\<close>

definition terminal_status :: "string \<Rightarrow> bool" where
  "terminal_status st = (st = ''completed'' \<or> st = ''failed'' \<or> st = ''interrupted'')"

definition valid_timeline :: "harness_timeline \<Rightarrow> string \<Rightarrow> string \<Rightarrow> string \<Rightarrow> bool" where
  "valid_timeline t harness th turn =
    (\<not> (ht_harness t \<noteq> harness \<or> ht_thread t \<noteq> th \<or> ht_turn t = [] \<or> (turn \<noteq> [] \<and> ht_turn t \<noteq> turn) \<or> ht_items t = []) \<and>
     \<not> (ht_status t \<noteq> ''inProgress'' \<and> \<not> terminal_status (ht_status t)))"

fun default_timeline_sandbox :: "string \<Rightarrow> sandbox option \<Rightarrow> sandbox list \<Rightarrow> sandbox option" where
  \<comment> \<open>the only default Sandbox of the Session\<close>
  "default_timeline_sandbox sid found [] = found"
| "default_timeline_sandbox sid found (b # bs) =
    (if sb_name b \<noteq> default_sandbox then default_timeline_sandbox sid found bs
     else if found \<noteq> None \<or> sb_session_id b \<noteq> sid \<or> \<not> valid_identity (sb_id b) \<or> \<not> valid_identity (sb_ownership_nonce b)
       then None
     else default_timeline_sandbox sid (Some b) bs)"

definition timeline_binding :: "session \<Rightarrow> (db, sandbox) act" where
  "timeline_binding j =
    (if \<not> valid_identity (sess_harness j) \<or> \<not> valid_identity (thread_id j) then fail (Sentinel ErrTimelineUnavailable)
     else bnd (q_list_session_sandboxes (sess_id j)) (\<lambda>bs.
       the_row (default_timeline_sandbox (sess_id j) None bs) (Sentinel ErrTimelineUnavailable)))"

definition timeline_session :: "string \<Rightarrow> (db, session \<times> sandbox) act" where
  "timeline_session sid =
    bnd (mapped (\<lambda>e. if err_is e ErrNotFound then reader_error ReaderSessionNotFound else e) (store_session sid)) (\<lambda>j.
    seq (require (\<not> (sess_id j \<noteq> sid \<or> cleanup_state j \<noteq> CleanupPending)) (Sentinel ErrTimelineUnavailable))
   (bnd (timeline_binding j) (\<lambda>owned. ret (j, owned))))"

definition timeline_authority ::
  "(profile_ref \<Rightarrow> ('w, 'w sandbox_runtime) act) \<Rightarrow> string \<Rightarrow> ('w, 'w sandbox_runtime \<times> session \<times> session \<times> sandbox) eff" where
  \<comment> \<open>the Session first read binds the Harness and the Thread, the one read with the authority is handed on\<close>
  "timeline_authority resolve sid =
    bnd (on_db (timeline_session sid)) (\<lambda>(j, owned).
    bnd (mapped (\<lambda>_. Sentinel ErrTimelineUnavailable) (sandbox_authority resolve owned False)) (\<lambda>(srt, k).
    seq (require (sr_timeline srt \<noteq> None) (Sentinel ErrTimelineUnavailable)) (ret (srt, k, j, owned))))"

definition timeline_call ::
  "string \<Rightarrow> 'w sandbox_runtime \<Rightarrow> session \<times> session \<times> sandbox \<Rightarrow> ('w, harness_timeline) eff" where
  "timeline_call turn srt = (\<lambda>(k, j, owned).
    case sr_timeline srt of None \<Rightarrow> fail (Sentinel ErrTimelineUnavailable)
    | Some read \<Rightarrow>
        bnd (mapped (Join (Sentinel ErrTimelineUnavailable))
              (with_sandbox_activity (sess_id k) (on_ext (read k owned (thread_id j) turn)))) (\<lambda>t.
        seq (require (valid_timeline t (sess_harness j) (thread_id j) turn) (Sentinel ErrTimelineUnavailable)) (ret t)))"

definition rd_timeline :: "'w reader \<Rightarrow> string \<Rightarrow> string \<Rightarrow> ('w, harness_timeline) eff" where
  "rd_timeline rd sid turn =
    (if \<not> valid_identity sid then fail (reader_error ReaderSessionNotFound)
     else if turn \<noteq> [] \<and> \<not> valid_identity turn then fail (reader_error ReaderInvalidRequest)
     else case rd_resolve rd of None \<Rightarrow> fail (Sentinel ErrTimelineUnavailable)
     | Some resolve \<Rightarrow>
         bnd (observed_fence (rd_locks rd) sid
           (bnd (attempt (timeline_authority resolve sid)) (\<lambda>a. case a of
               Inl e \<Rightarrow> ret (None, Inl e)
             | Inr (srt, x) \<Rightarrow> bnd (attempt (timeline_call turn srt x)) (\<lambda>r. ret (sr_execution srt, r))))) (\<lambda>(idle, r).
         seq (reconcile_idle idle sid) (lift r)))"

end
