(* ===== verification/Control_Laws_Native.thy ===== *)
theory Control_Laws_Native
  imports Control_Native Admission_Laws
begin

text \<open>
  What the custody of native submissions guarantees. The marker of a Session is its native revision
  with the pending input or cancellation. A Harness that begins at most one mutation per submission
  can only leave a marker that the reader clears or reports as an unknown outcome.
\<close>

section \<open>Invariants of the database part of a world\<close>

definition of_db :: "(db \<Rightarrow> bool) \<Rightarrow> 'w world \<Rightarrow> bool" where
  "of_db P w = P (w_db w)"

lemma of_db_on_db [keeps_intros]: "keeps P m \<Longrightarrow> keeps (of_db P) (on_db m)"
  by (rule keepsI) (auto simp: wp_simps of_db_def dest!: keepsD elim!: wp_mono)

lemma of_db_on_ext [keeps_intros]: "keeps (of_db P) (on_ext m)"
  by (rule keepsI) (auto simp: of_db_def intro: wp_mono [OF wp_ext_db])

lemma of_db_release [keeps_intros]: "keeps (of_db P) (fence_release rt sid r)"
  unfolding fence_release_def by (intro keeps_intros)

lemma of_db_fence [keeps_intros]: "keeps (of_db P) m \<Longrightarrow> keeps (of_db P) (with_session_fence rt sid m)"
  unfolding with_session_fence_def by (intro keeps_intros)

lemma of_db_pause_fence [keeps_intros]: "keeps (of_db P) m \<Longrightarrow> keeps (of_db P) (with_pause_fence rt sid m)"
  unfolding with_pause_fence_def by (intro keeps_intros)

lemma keeps_mapped [keeps_intros]: "keeps I m \<Longrightarrow> keeps I (mapped f m)"
  unfolding mapped_def by (intro keeps_intros)

section \<open>The native marker\<close>

definition native_marker :: "db \<Rightarrow> string \<Rightarrow> (int \<times> string option \<times> string option) option" where
  "native_marker d sid = map_option (\<lambda>s. (s_revision s, s_pending_input s, s_pending_turn s)) (session_of d sid)"

definition marker_clear :: "(int \<times> string option \<times> string option) option \<Rightarrow> bool" where
  "marker_clear m = (case m of None \<Rightarrow> False | Some (n, i, t) \<Rightarrow> i = None \<and> t = None)"

lemma marker_frame:
  assumes "\<And>s. s_id (f s) = s_id s \<and> s_revision (f s) = s_revision s \<and>
      s_pending_input (f s) = s_pending_input s \<and> s_pending_turn (f s) = s_pending_turn s"
  shows "native_marker (sessions_update (upd_where p f) d) sid = native_marker d sid"
proof -
  have "session_of (sessions_update (upd_where p f) d) sid = map_option (\<lambda>s. if p s then f s else s) (session_of d sid)"
    using assms by (simp add: session_of_def row_of_upd_where)
  then show ?thesis using assms by (cases "session_of d sid") (simp_all add: native_marker_def)
qed

lemma activity_state:
  "snd (begin_sandbox_activity i d) = sessions_update (upd_where (\<lambda>s. s_id s = i) (\<lambda>s. s\<lparr>s_last_active := None\<rparr>)) d"
  "snd (finish_sandbox_activity i d) =
    sessions_update (upd_where (\<lambda>s. s_id s = i) (\<lambda>s. s\<lparr>s_last_active := Some (now d)\<rparr>)) d"
  by (simp_all add: begin_sandbox_activity_def q_begin_sandbox_activity_def finish_sandbox_activity_def
      q_finish_sandbox_activity_def expect_one_rows_def update_tbl_def bnd_def require_def ret_def fail_def)

lemma idle_state:
  "snd (sandbox_idle_for i g d) = d \<or>
   snd (sandbox_idle_for i g d) = sessions_update (upd_where (\<lambda>s. s_id s = i)
     (\<lambda>s. s\<lparr>s_last_active := coalesce (s_last_active s) (Some (now d))\<rparr>)) d"
  by (simp add: sandbox_idle_for_def Let_def split: option.split)

lemma keeps_marker_begin [keeps_intros]: "keeps (\<lambda>d. P (native_marker d sid)) (begin_sandbox_activity i)"
  by (rule keeps_total, unfold activity_state, subst marker_frame) simp_all

lemma keeps_marker_finish [keeps_intros]: "keeps (\<lambda>d. P (native_marker d sid)) (finish_sandbox_activity i)"
  by (rule keeps_total, unfold activity_state, subst marker_frame) simp_all

lemma keeps_marker_idle [keeps_intros]: "keeps (\<lambda>d. P (native_marker d sid)) (sandbox_idle_for i g)"
proof (rule keeps_total)
  fix d assume P: "P (native_marker d sid)"
  have "native_marker (snd (sandbox_idle_for i g d)) sid = native_marker d sid"
    using idle_state [of i g d]
  proof
    assume "snd (sandbox_idle_for i g d) = sessions_update (upd_where (\<lambda>s. s_id s = i)
        (\<lambda>s. s\<lparr>s_last_active := coalesce (s_last_active s) (Some (now d))\<rparr>)) d"
    then show ?thesis by (simp only:) (subst marker_frame, simp_all)
  qed simp
  with P show "P (native_marker (snd (sandbox_idle_for i g d)) sid)" by simp
qed

lemma finish_marker:
  "native_marker (sessions_update (upd_where (\<lambda>s. s_id s = sid \<and> s_revision s = n)
      (\<lambda>s. s\<lparr>s_pending_input := None, s_pending_turn := None\<rparr>)) d) i =
    (case native_marker d i of Some (m, p) \<Rightarrow> if i = sid \<and> m = n then Some (m, None, None) else Some (m, p) | None \<Rightarrow> None)"
proof -
  let ?f = "\<lambda>s. s\<lparr>s_pending_input := None, s_pending_turn := None\<rparr>"
  have "session_of (sessions_update (upd_where (\<lambda>s. s_id s = sid \<and> s_revision s = n) ?f) d) i =
      map_option (\<lambda>s. if s_id s = sid \<and> s_revision s = n then ?f s else s) (session_of d i)"
    by (simp add: session_of_def row_of_upd_where)
  note upd = this
  show ?thesis
  proof (cases "session_of d i")
    case (Some s)
    then have "s_id s = i" unfolding session_of_def by (rule row_of_key)
    with Some show ?thesis by (simp add: native_marker_def upd)
  qed (simp add: native_marker_def upd)
qed

lemma finish_state:
  "snd (finish_native_mutation sid n d) = sessions_update (upd_where (\<lambda>s. s_id s = sid \<and> s_revision s = n)
      (\<lambda>s. s\<lparr>s_pending_input := None, s_pending_turn := None\<rparr>)) d"
  by (simp add: finish_native_mutation_def q_finish_native_mutation_def expect_one_rows_def update_tbl_def bnd_def
      require_def ret_def fail_def)

lemma keeps_clear_finish [keeps_intros]:
  "keeps (\<lambda>d. marker_clear (native_marker d sid)) (finish_native_mutation i n)"
proof (rule keeps_total)
  fix d assume c: "marker_clear (native_marker d sid)"
  show "marker_clear (native_marker (snd (finish_native_mutation i n d)) sid)"
    unfolding finish_state finish_marker using c by (auto simp: marker_clear_def split: option.splits)
qed

lemma keeps_clear_reconcile [keeps_intros]:
  "keeps (of_db (\<lambda>d. marker_clear (native_marker d sid))) (es_reconcile_idle ex i)"
proof -
  let ?I = "of_db (\<lambda>d. marker_clear (native_marker d sid))"
  have idle: "keeps ?I (es_native_idle ex j b)" for j b
    unfolding es_native_idle_def es_settle_native_def by (intro keeps_intros)
  have each: "keeps ?I (es_pause_each ex (\<lambda>j b. on_ext (pause j b)) i j bs)" for pause j bs
    by (induction bs) (auto intro!: keeps_intros idle)
  show ?thesis
    unfolding es_reconcile_idle_def es_pause_idle_def by (intro keeps_intros each)
qed

section \<open>Running a submission\<close>

primrec begins_once :: "('w, 'a) native_mutation \<Rightarrow> bool \<Rightarrow> bool" where
  \<comment> \<open>the flag: a mutation was begun already\<close>
  "begins_once (Finished r) = (\<lambda>b. True)"
| "begins_once (Outside f k) = (\<lambda>b. \<forall>w. begins_once (k w) b)"
| "begins_once (BindThread th k) = (\<lambda>b. \<forall>r. begins_once (k r) b)"
| "begins_once (BeginMutation turn k) = (\<lambda>b. \<not> b \<and> (\<forall>r. begins_once (k r) True))"

definition custody_of :: "(int \<times> string option \<times> string option) option \<Rightarrow> custody \<Rightarrow> db \<Rightarrow> string \<Rightarrow> bool" where
  \<comment> \<open>either nothing was begun since the marker \<open>m\<close>, or the marker names the mutation that was begun\<close>
  "custody_of m c d sid =
    (if cu_revision c = 0 then native_marker d sid = m
     else \<exists>i t. native_marker d sid = Some (cu_revision c, i, t))"

lemma bind_marker:
  assumes "bind_callback sid th c w = (r, c', v)"
  shows "native_marker (w_db v) i = native_marker (w_db w) i \<and> cu_revision c' = cu_revision c"
proof -
  have "w_db v = snd (bind_native_thread sid th (w_db w))"
    using assms by (auto simp: bind_callback_def on_db_def split: prod.splits sum.splits)
  then have "w_db v = w_db w \<or> (\<exists>p. w_db v = sessions_update (upd_where p (\<lambda>s. s\<lparr>s_thread := nullif_empty th\<rparr>)) (w_db w))"
    by (auto simp: bind_native_thread_def q_bind_native_thread_def expect_one_rows_def update_tbl_def bnd_def require_def
        ret_def fail_def)
  then have "native_marker (w_db v) i = native_marker (w_db w) i"
    using marker_frame [of "\<lambda>s. s\<lparr>s_thread := nullif_empty th\<rparr>"] by auto
  moreover have "cu_revision c' = cu_revision c"
    using assms by (auto simp: bind_callback_def split: prod.splits sum.splits)
  ultimately show ?thesis by simp
qed

lemma begin_marker:
  assumes run: "begin_callback sid draw ev turn c w = (r, c', v)" and ok: "db_ok w" and c: "cu_revision c = 0"
  shows "custody_of (native_marker (w_db w) sid) c' (w_db v) sid"
proof (cases "draw (cu_draws c)")
  case (Inl e)
  then have "c' = c\<lparr>cu_draws := Suc (cu_draws c)\<rparr>" "v = w"
    using run by (simp_all add: begin_callback_def Let_def)
  then show ?thesis using c by (simp add: custody_of_def)
next
  case (Inr nonce)
  let ?i = "begin_input_id ev nonce turn"
  obtain q e where q: "begin_native_mutation sid (cu_thread c) ?i turn (w_db w) = (q, e)" by (meson surj_pair)
  show ?thesis
  proof (cases q)
    case (Inl x)
    then have "e = w_db w"
      using q by (auto simp: begin_native_mutation_def q_begin_native_mutation_def split: option.splits if_splits)
    then show ?thesis
      using run Inr q Inl by (auto simp: begin_callback_def on_db_def custody_of_def Let_def)
  next
    case (Inr n)
    then have b: "begin_native_mutation sid (cu_thread c) ?i turn (w_db w) = (Inr n, e)" using q by simp
    obtain s where s: "session_of (w_db w) sid = Some s" "n = s_revision s + 1"
      "e = sessions_update (upd_where (\<lambda>q. s_id q = sid) (\<lambda>q. q\<lparr>s_revision := n,
          s_pending_input := nullif_empty ?i, s_pending_turn := nullif_empty turn\<rparr>)) (w_db w)"
      using begin_result [OF b] by metis
    have "0 \<le> s_revision s"
      using session_of_ok [OF _ s(1)] ok by (auto simp: db_ok_def db_inv_def row_ok_iff)
    then have "n \<noteq> 0" using s(2) by simp
    moreover have "native_marker e sid = Some (n, nullif_empty ?i, nullif_empty turn)"
      unfolding native_marker_def s(3) by (subst session_of_upd) (simp_all add: s(1))
    moreover have "c' = c\<lparr>cu_draws := Suc (cu_draws c), cu_revision := n\<rparr>" "v = w\<lparr>w_db := e\<rparr>"
      using run \<open>draw (cu_draws c) = Inr nonce\<close> b by (auto simp: begin_callback_def on_db_def Let_def)
    ultimately show ?thesis by (simp add: custody_of_def)
  qed
qed

lemma callbacks_keep:
  "bind_callback sid th c w = (r, c', v) \<Longrightarrow> db_ok w \<Longrightarrow> db_ok v"
  "begin_callback sid draw ev turn c w = (r', c', v) \<Longrightarrow> db_ok w \<Longrightarrow> db_ok v"
proof -
  show "db_ok v" if run: "bind_callback sid th c w = (r, c', v)" and ok: "db_ok w"
  proof -
    have "v = snd (on_db (bind_native_thread sid th) w)"
      using run by (auto simp: bind_callback_def split: prod.splits sum.splits)
    moreover have "keeps db_ok (on_db (bind_native_thread sid th) :: ('b, unit) eff)" by (intro keeps_intros)
    ultimately show ?thesis using keeps_snd ok by metis
  qed
  show "db_ok v" if run: "begin_callback sid draw ev turn c w = (r', c', v)" and ok: "db_ok w"
  proof -
    have "v = w \<or> (\<exists>x i. v = snd (on_db (begin_native_mutation sid x i turn) w))"
      using run by (auto simp: begin_callback_def Let_def split: prod.splits sum.splits) (metis snd_conv)+
    moreover have "keeps db_ok (on_db (begin_native_mutation sid x i turn) :: ('b, int) eff)" for x i
      by (intro keeps_intros)
    ultimately show ?thesis using keeps_snd ok by metis
  qed
qed

lemma run_keeps: "run_custody sid draw ev p c w = (r, c', v) \<Longrightarrow> db_ok w \<Longrightarrow> db_ok v"
proof (induction p arbitrary: c w)
  case (Outside f k)
  have "run_custody sid draw ev (k (w_ext w)) c (w\<lparr>w_ext := f (w_ext w)\<rparr>) = (r, c', v)" using Outside.prems by simp
  from Outside.IH [OF _ this] show ?case using Outside.prems by (auto simp: db_ok_def)
next
  case (BindThread th k)
  obtain q d u where q: "bind_callback sid th c w = (q, d, u)" by (meson prod_cases3)
  then have "run_custody sid draw ev (k q) d u = (r, c', v)" using BindThread.prems by simp
  from BindThread.IH [OF _ this] show ?case using callbacks_keep(1) [OF q] BindThread.prems by auto
next
  case (BeginMutation turn k)
  obtain q d u where q: "begin_callback sid draw ev turn c w = (q, d, u)" by (meson prod_cases3)
  then have "run_custody sid draw ev (k q) d u = (r, c', v)" using BeginMutation.prems by simp
  from BeginMutation.IH [OF _ this] show ?case using callbacks_keep(2) [OF q] BeginMutation.prems by auto
qed simp

lemma run_custody_marker:
  assumes "run_custody sid draw ev p c w = (r, c', v)" and "begins_once p b" and "db_ok w"
    and "custody_of m c (w_db w) sid" and "cu_revision c \<noteq> 0 \<longrightarrow> b"
  shows "custody_of m c' (w_db v) sid"
  using assms
proof (induction p arbitrary: c w b)
  case (Outside f k)
  have "run_custody sid draw ev (k (w_ext w)) c (w\<lparr>w_ext := f (w_ext w)\<rparr>) = (r, c', v)" using Outside.prems by simp
  from Outside.IH [OF _ this] show ?case using Outside.prems by (auto simp: db_ok_def)
next
  case (BindThread th k)
  obtain q d u where q: "bind_callback sid th c w = (q, d, u)" by (meson prod_cases3)
  then have run: "run_custody sid draw ev (k q) d u = (r, c', v)" using BindThread.prems by simp
  have "custody_of m d (w_db u) sid" "cu_revision d = cu_revision c"
    using bind_marker [OF q, of sid] BindThread.prems(4) by (auto simp: custody_of_def)
  then show ?case
    using BindThread.IH [OF _ run] BindThread.prems callbacks_keep(1) [OF q] by auto
next
  case (BeginMutation turn k)
  obtain q d u where q: "begin_callback sid draw ev turn c w = (q, d, u)" by (meson prod_cases3)
  then have run: "run_custody sid draw ev (k q) d u = (r, c', v)" using BeginMutation.prems by simp
  have c: "cu_revision c = 0" using BeginMutation.prems by auto
  then have "m = native_marker (w_db w) sid" using BeginMutation.prems(4) by (simp add: custody_of_def)
  then have "custody_of m d (w_db u) sid" using begin_marker [OF q BeginMutation.prems(3) c] by simp
  then show ?case
    using BeginMutation.IH [OF _ run, of True] BeginMutation.prems callbacks_keep(2) [OF q] by auto
qed simp

definition custody_settled ::
  "(int \<times> string option \<times> string option) option \<Rightarrow> err + native_acknowledgement \<Rightarrow>
    (int \<times> string option \<times> string option) option \<Rightarrow> bool" where
  \<comment> \<open>what a caller may conclude: only an unknown outcome leaves a mutation pending that was not pending before\<close>
  "custody_settled m s n =
    (case s of Inl e \<Rightarrow> err_is e ErrNativeUnknown \<or> n = m | Inr _ \<Rightarrow> n = m \<or> marker_clear n)"

lemma settle_custody_marker:
  assumes c: "custody_of m c (w_db w) sid" and run: "settle_custody sid (r, c, w) = (s, v)"
  shows "custody_settled m s (native_marker (w_db v) sid)"
proof (cases r)
  case (Inl e)
  then show ?thesis
    using run c by (auto simp: settle_custody_def outcome_unknown_def custody_of_def custody_settled_def split: if_splits)
next
  case (Inr ack)
  show ?thesis
  proof (cases "cu_revision c = 0")
    case False
    let ?n = "cu_revision c"
    obtain i t where m: "native_marker (w_db w) sid = Some (?n, i, t)"
      using c False by (auto simp: custody_of_def)
    have "native_marker (snd (finish_native_mutation sid ?n (w_db w))) sid = Some (?n, None, None)"
      unfolding finish_state finish_marker by (simp add: m)
    moreover have "seq (mapped outcome_unknown (on_db (finish_native_mutation sid ?n))) (ret ack) w = (s, v)"
      using run Inr False by (simp add: settle_custody_def)
    then have "(\<exists>e. s = Inl (outcome_unknown e)) \<or> s = Inr ack \<and> w_db v = snd (finish_native_mutation sid ?n (w_db w))"
      by (auto simp: seq_def bnd_def mapped_def attempt_def on_db_def ret_def fail_def split: prod.splits sum.splits)
    ultimately show ?thesis by (auto simp: marker_clear_def outcome_unknown_def custody_settled_def)
  qed (use run c Inr in \<open>auto simp: settle_custody_def custody_of_def custody_settled_def ret_def\<close>)
qed

section \<open>What the reader relies on\<close>

text \<open>
  The interface of a Harness the reader submits through: a submission begins at most one mutation.
\<close>

locale single_submission =
  fixes native :: "'w native_session"
  assumes once: "begins_once (nv_submit native j owned ev unused) False"
begin

lemma settled_or_unknown:
  assumes run: "submit_native_event native draw j owned ev st w = (s, v)" and ok: "db_ok w"
  shows "custody_settled (native_marker (w_db w) (sess_id j)) s (native_marker (w_db v) (sess_id j))"
proof -
  let ?c = "\<lparr>cu_thread = thread_id j, cu_revision = 0, cu_draws = 0\<rparr>" and ?m = "native_marker (w_db w) (sess_id j)"
  obtain r c u where p: "run_custody (sess_id j) draw ev (nv_submit native j owned ev (ns_revision st = 0)) ?c w = (r, c, u)"
    by (meson prod_cases3)
  have "custody_of ?m c (w_db u) (sess_id j)"
    by (rule run_custody_marker [OF p once ok]) (simp_all add: custody_of_def)
  moreover have "settle_custody (sess_id j) (r, c, u) = (s, v)"
    using run by (simp add: submit_native_event_def p)
  ultimately show ?thesis by (rule settle_custody_marker)
qed

lemma keeps_marker:
  assumes "submit_native_event native draw j owned ev st w = (Inr ack, v)" and "db_ok w"
    and "marker_clear (native_marker (w_db w) (sess_id j))"
  shows "marker_clear (native_marker (w_db v) (sess_id j))"
  using settled_or_unknown [OF assms(1,2)] assms(3) by (auto simp: custody_settled_def)

end

end
