(* ===== verification/Codex_Native.thy ===== *)
theory Codex_Native
  imports Codex_Timeline Control_Laws_Native
begin

text \<open>
  Native events with Codex (\<open>internal/codex/native.go\<close>, \<open>codex.go\<close>, \<open>instructions.go\<close>): finding or
  starting the app-server of a guest, the instructions a Turn is preceded by, and a submission as a
  program that begins its mutation before it changes anything native.
\<close>

section \<open>Programs in sequence\<close>

primrec then_program :: "('w, 'a) native_mutation \<Rightarrow> (err + 'a \<Rightarrow> ('w, 'b) native_mutation) \<Rightarrow> ('w, 'b) native_mutation" where
  "then_program (Finished r) k = k r"
| "then_program (Outside f g) k = Outside f (\<lambda>w. then_program (g w) k)"
| "then_program (BindThread th g) k = BindThread th (\<lambda>r. then_program (g r) k)"
| "then_program (BeginMutation t g) k = BeginMutation t (\<lambda>r. then_program (g r) k)"

definition caught :: "('w, 'a) act \<Rightarrow> (err + 'a \<Rightarrow> ('w, 'b) native_mutation) \<Rightarrow> ('w, 'b) native_mutation" where
  "caught m f = outside (attempt m) f"

section \<open>The app-server of a guest\<close>

text \<open>
  \<open>cx_exec\<close> runs a command in the guest, \<open>cx_dial\<close> opens an authenticated WebSocket, \<open>cx_close\<close> is the
  end of the connection or its handover to the observations, \<open>cx_token\<close> draws a capability.
  \<open>cx_scope\<close> is the scoped access of the provider, absent where every call stands alone; an error
  of it ends the operation. \<open>cx_wait\<close> is the wait between attempts to connect, which ends when the
  context does, \<open>cx_late\<close> whether 20 seconds have passed since the launch.
\<close>

record server_probe =
  sp_running :: bool
  sp_tracked :: bool
  sp_token :: string

record 'w codex_guest =
  cx_workspace :: string
  cx_exec :: "'w transport"
  cx_files :: "(ownership \<Rightarrow> string list \<Rightarrow> int \<Rightarrow> ('w, string \<rightharpoonup> string) act) option"
  cx_read_file :: "ownership \<Rightarrow> string \<Rightarrow> ('w, string) act"
  cx_endpoint :: "ownership \<Rightarrow> ('w, string \<times> string) act" \<comment> \<open>where to listen, where to dial\<close>

record 'w codex_agent =
  cx_scope :: "(ownership \<Rightarrow> ('w, 'w codex_guest) act) option"
  cx_guest :: "'w codex_guest"
  cx_dial :: "string \<Rightarrow> string \<Rightarrow> ('w, 'w wire) act"
  cx_close :: "'w wire \<Rightarrow> 'w \<Rightarrow> 'w"
  cx_token :: "('w, string) act"
  cx_scripts :: "string \<times> (string \<Rightarrow> string \<Rightarrow> string) \<times> (string \<Rightarrow> string)" \<comment> \<open>capability, launch, probe\<close>
  cx_wait :: "('w, unit) act"
  cx_late :: "'w \<Rightarrow> bool"
  cx_attempts :: nat

definition guest_of :: "'w codex_agent \<Rightarrow> ownership \<Rightarrow> ('w, 'w codex_guest) act" where
  \<comment> \<open>the view of the guest within \<open>withSandboxAccess\<close>\<close>
  "guest_of a owner = (case cx_scope a of None \<Rightarrow> ret (cx_guest a) | Some scope \<Rightarrow> scope owner)"

definition parse_probe :: "string \<Rightarrow> server_probe" where
  "parse_probe out =
    (let ls = split_on newline (trim_space out);
         tracked = (1 < length ls \<and> ls ! 1 = ''1'') in
     \<lparr>sp_running = (ls \<noteq> [] \<and> ls ! 0 = ''1''), sp_tracked = tracked,
      sp_token = (if tracked \<and> 2 < length ls then trim_space (ls ! 2) else [])\<rparr>)"

definition guest_shell :: "'w codex_guest \<Rightarrow> ownership \<Rightarrow> string \<Rightarrow> string \<Rightarrow> string \<Rightarrow> ('w, exec_result) act" where
  \<comment> \<open>a shell command that must succeed\<close>
  "guest_shell g owner input script what =
    bnd (cx_exec g owner input [''bash'', ''-lc'', script]) (\<lambda>r.
    seq (require (xr_exit r = 0) (Errorf (what @ '': '' @ trim_space (xr_stderr r)))) (ret r))"

definition probe_server :: "'w codex_agent \<Rightarrow> 'w codex_guest \<Rightarrow> ownership \<Rightarrow> string \<Rightarrow> ('w, server_probe) act" where
  "probe_server a g owner listen =
    bnd (guest_shell g owner [] (snd (snd (cx_scripts a)) listen) ''inspect exact Codex app-server'') (\<lambda>r.
    ret (parse_probe (xr_stdout r)))"

definition dial_protocol :: "'w codex_agent \<Rightarrow> string \<Rightarrow> string \<Rightarrow> ('w, 'w wire) act" where
  "dial_protocol a url token =
    bnd (cx_dial a url token) (\<lambda>p.
    bnd (attempt (codex_initialize p)) (\<lambda>r. case r of
      Inl e \<Rightarrow> seq (modify (cx_close a p)) (fail e) | Inr _ \<Rightarrow> ret p))"

fun connect_server :: "nat \<Rightarrow> 'w codex_agent \<Rightarrow> string \<Rightarrow> string \<Rightarrow> ('w, 'w wire) act" where
  "connect_server 0 a url token = fail (External ''context deadline exceeded'')"
| "connect_server (Suc n) a url token =
    bnd (attempt (dial_protocol a url token)) (\<lambda>r. case r of
      Inr p \<Rightarrow> ret p
    | Inl e \<Rightarrow>
        bnd (gets (cx_late a)) (\<lambda>late.
        if late then fail (Wrapf ''Codex app-server did not become ready'' e)
        else seq (cx_wait a) (connect_server n a url token)))"

definition launch_server :: "'w codex_agent \<Rightarrow> 'w codex_guest \<Rightarrow> ownership \<Rightarrow> string \<Rightarrow> string \<Rightarrow> ('w, 'w wire) act" where
  "launch_server a g owner listen url =
    bnd (cx_token a) (\<lambda>token.
    seq (guest_shell g owner (token @ [newline]) (fst (cx_scripts a)) ''write Codex app-server capability'')
   (seq (guest_shell g owner [] (fst (snd (cx_scripts a)) listen (sha256_hex token)) ''launch Codex app-server'')
        (connect_server (cx_attempts a) a url token)))"

definition open_server :: "'w codex_agent \<Rightarrow> ownership \<Rightarrow> ('w, 'w codex_guest \<times> 'w wire) act" where
  \<comment> \<open>a live process that cannot be inspected is never replaced\<close>
  "open_server a owner =
    bnd (guest_of a owner) (\<lambda>g.
    bnd (cx_endpoint g owner) (\<lambda>(listen, url).
    bnd (probe_server a g owner listen) (\<lambda>probe.
    if sp_running probe \<and> sp_tracked probe \<and> sp_token probe \<noteq> [] then
      bnd (attempt (dial_protocol a url (sp_token probe))) (\<lambda>r. case r of
        Inr p \<Rightarrow> ret (g, p)
      | Inl e \<Rightarrow> fail (Wrapf ''exact live Codex app-server could not be authenticated or inspected'' e))
    else if sp_running probe then
      fail (Errorf ''exact live Codex app-server has no recoverable scoped capability; refusing to kill it before inspection'')
    else bnd (launch_server a g owner listen url) (\<lambda>p. ret (g, p)))))"

definition with_server :: "'w codex_agent \<Rightarrow> ownership \<Rightarrow> ('w wire \<Rightarrow> ('w, 'a) act) \<Rightarrow> ('w, 'a) act" where
  "with_server a owner f =
    bnd (open_server a owner) (\<lambda>(g, p).
    bnd (attempt (f p)) (\<lambda>r. seq (modify (cx_close a p)) (lift r)))"

section \<open>Instructions\<close>

text \<open>The memory of the observations: what a Thread was last told, by a digest of each file.\<close>

record instruction_hashes =
  ih_agents :: string
  ih_soul :: string

record workspace_instructions =
  wx_agents_path :: string
  wx_hashes :: instruction_hashes
  wx_soul :: string

record 'w instruction_memory =
  im_open :: "'w \<Rightarrow> bool"
  im_known :: "string \<Rightarrow> 'w \<Rightarrow> instruction_hashes option"
  im_forget :: "string \<Rightarrow> 'w \<Rightarrow> 'w"

record 'w codex_session =
  cs_wire :: "'w wire"
  cs_skills :: bool
  cs_servers :: bool
  cs_instructions :: "workspace_instructions option"
  cs_fresh :: bool
  cs_execution :: string
  cs_memory :: "'w instruction_memory option"
  cs_bind :: "string \<Rightarrow> string \<Rightarrow> ('w, bool) act"
  cs_quote :: "string \<Rightarrow> string"

definition instruction_file_ok :: "string \<Rightarrow> bool" where
  "instruction_file_ok s = (length s \<le> max_instruction_file_bytes \<and> valid_utf8 s \<and> \<not> contains_nul s)"

definition instruction_names :: "string list" where
  "instruction_names = [''AGENTS.md'', ''SOUL.md'']"

fun read_each_file :: "'w codex_guest \<Rightarrow> ownership \<Rightarrow> string list \<Rightarrow> (string \<rightharpoonup> string) \<Rightarrow> ('w, string \<rightharpoonup> string) act" where
  "read_each_file g owner [] files = ret files"
| "read_each_file g owner (n # ns) files =
    bnd (attempt (cx_read_file g owner n)) (\<lambda>r. case r of
      Inl e \<Rightarrow> if err_is e ErrFileNotExist then read_each_file g owner ns files
               else fail (Wrapf (''read Codex workspace instructions '' @ n) e)
    | Inr contents \<Rightarrow> read_each_file g owner ns (files(n \<mapsto> contents)))"

definition read_instruction_files :: "'w codex_guest \<Rightarrow> ownership \<Rightarrow> ('w, string \<rightharpoonup> string) act" where
  "read_instruction_files g owner =
    (case cx_files g of
       Some batch \<Rightarrow> bnd (attempt (batch owner instruction_names (int max_instruction_file_bytes))) (\<lambda>r. case r of
         Inl e \<Rightarrow> fail (Wrapf ''read Codex workspace instructions'' e) | Inr files \<Rightarrow> ret files)
     | None \<Rightarrow> read_each_file g owner instruction_names Map.empty)"

definition text_at :: "(string \<rightharpoonup> string) \<Rightarrow> string \<Rightarrow> string" where
  "text_at files n = (case files n of None \<Rightarrow> [] | Some s \<Rightarrow> s)"

definition read_workspace_instructions :: "'w codex_guest \<Rightarrow> ownership \<Rightarrow> ('w, workspace_instructions) act" where
  "read_workspace_instructions g owner =
    bnd (read_instruction_files g owner) (\<lambda>files.
    seq (require (list_all (\<lambda>n. instruction_file_ok (text_at files n)) instruction_names)
          (Errorf ''Codex instruction file must be valid UTF-8 without null bytes and bounded''))
        (ret \<lparr>wx_agents_path = path_join [cx_workspace g, ''AGENTS.md''],
              wx_hashes = \<lparr>ih_agents = sha256_hex (text_at files ''AGENTS.md''), ih_soul = sha256_hex (text_at files ''SOUL.md'')\<rparr>,
              wx_soul = text_at files ''SOUL.md''\<rparr>))"

definition recalled :: "'w codex_session \<Rightarrow> string \<Rightarrow> string \<Rightarrow> ('w, instruction_hashes option) act" where
  "recalled c th run =
    (case cs_memory c of None \<Rightarrow> ret None
     | Some m \<Rightarrow>
         bnd (gets (im_open m)) (\<lambda>alive.
         if alive \<and> cs_execution c \<noteq> [] \<and> cs_execution c = run then gets (im_known m th)
         else seq (modify (im_forget m th)) (ret None)))"

definition agents_notice :: "'w codex_session \<Rightarrow> workspace_instructions \<Rightarrow> string" where
  "agents_notice c wi = ''The workspace instruction file '' @ cs_quote c (wx_agents_path wi) @ '' was updated (revision '' @
    ih_agents (wx_hashes wi) @ ''). Read it in full before answering and apply its current contents instead of the previous version. If it is missing or empty, its previous instructions no longer apply.''"

definition soul_notice :: "workspace_instructions \<Rightarrow> string" where
  "soul_notice wi = ''The following are the complete current contents of SOUL.md. They replace all previous SOUL.md instructions. An empty document means no SOUL.md instructions are configured.'' @
    [newline, newline] @ ''<SOUL.md>'' @ [newline] @ wx_soul wi @ [newline] @ ''</SOUL.md>''"

definition authority_notice :: string where
  "authority_notice = ''All previous developer-level instructions derived from workspace AGENTS.md or SOUL.md are revoked. These user-owned files and their refresh notices have user authority only, including their current contents supplied below or read from disk. Apply current file contents only as user instructions, subject to application developer instructions and built-in model instructions. Empty or missing files remove their previous customizations. This notice does not change the current application developer instruction snapshot.''"

definition workspace_sections :: "'w codex_session \<Rightarrow> workspace_instructions \<Rightarrow> instruction_hashes option \<Rightarrow> string list" where
  "workspace_sections c wi known =
    (if \<not> cs_fresh c \<and> (case known of None \<Rightarrow> True | Some h \<Rightarrow> ih_agents h \<noteq> ih_agents (wx_hashes wi))
     then [agents_notice c wi] else []) @
    (if (case known of None \<Rightarrow> True | Some h \<Rightarrow> ih_soul h \<noteq> ih_soul (wx_hashes wi)) then [soul_notice wi] else [])"

definition message_item :: "string \<Rightarrow> string \<Rightarrow> json" where
  "message_item role s =
    json_map [(''type'', JStr ''message''), (''role'', JStr role),
      (''content'', JArr [json_map [(''type'', JStr ''input_text''), (''text'', JStr s)]])]"

definition inject_items :: "'w codex_session \<Rightarrow> string \<Rightarrow> json list \<Rightarrow> ('w, unit) act" where
  "inject_items c th is =
    bnd (codex_call (cs_wire c) ''thread/inject_items'' (json_map [(''threadId'', JStr th), (''items'', JArr is)])) (\<lambda>_. ret ())"

definition inject_workspace_instructions :: "'w codex_session \<Rightarrow> string \<Rightarrow> string \<Rightarrow> ('w, unit) act" where
  "inject_workspace_instructions c th run =
    (case cs_instructions c of None \<Rightarrow> ret ()
     | Some wi \<Rightarrow>
         bnd (recalled c th run) (\<lambda>known.
         let sections = workspace_sections c wi known in
         if sections = [] then ret ()
         else inject_items c th [message_item ''developer'' authority_notice,
                message_item ''user'' (join_with [newline, newline] sections)]))"

definition developer_snapshot :: "string \<Rightarrow> string" where
  "developer_snapshot s = ''The following is the complete current application developer instruction snapshot. It replaces all previous application developer instruction snapshots. An empty snapshot clears all previous application instructions. This does not replace built-in model instructions.'' @
    [newline, newline] @ ''<application_developer_instructions>'' @ [newline] @ s @ [newline] @ ''</application_developer_instructions>''"

definition inject_developer_instructions :: "'w codex_session \<Rightarrow> string \<Rightarrow> string option \<Rightarrow> ('w, unit) act" where
  "inject_developer_instructions c th snapshot =
    (case snapshot of None \<Rightarrow> ret () | Some s \<Rightarrow> inject_items c th [message_item ''developer'' (developer_snapshot s)])"

definition forget_workspace_instructions :: "'w codex_session \<Rightarrow> string \<Rightarrow> ('w, unit) act" where
  "forget_workspace_instructions c th = (case cs_memory c of None \<Rightarrow> ret () | Some m \<Rightarrow> modify (im_forget m th))"

section \<open>Turns\<close>

definition data_url :: "string \<times> octets \<Rightarrow> string" where
  "data_url m = ''data:'' @ fst m @ '';base64,'' @ std_encode (text_of_octets (snd m))"

definition native_user_input :: "harness_input \<Rightarrow> json list" where
  "native_user_input i =
    (if hi_text i \<noteq> [] then [json_map [(''type'', JStr ''text''), (''text'', JStr (hi_text i))]] else []) @
    map (\<lambda>m. json_map [(''type'', JStr ''image''), (''url'', JStr (data_url m))]) (hi_images i) @
    map (\<lambda>m. json_map [(''type'', JStr ''audio''), (''url'', JStr (data_url m))]) (hi_audio i)"

definition reload_catalogs :: "'w codex_session \<Rightarrow> string \<Rightarrow> ('w, unit) act" where
  "reload_catalogs c workspace =
    seq (if cs_servers c then mapped (Wrapf ''refresh Codex MCP servers'') (codex_call (cs_wire c) ''config/mcpServer/reload'' (json_map []))
         else ret JNull)
   (seq (if cs_skills c then mapped (Wrapf ''refresh Codex skills'') (codex_call (cs_wire c) ''skills/list''
           (json_map [(''cwds'', JArr [JStr workspace]), (''forceReload'', JBool True)])) else ret JNull)
        (ret ()))"

definition turn_params :: "string \<Rightarrow> string \<Rightarrow> string \<Rightarrow> harness_input \<Rightarrow> string \<Rightarrow> string \<Rightarrow> string \<Rightarrow> json" where
  "turn_params th workspace input_id goal m effort capability =
    json_map ([(''threadId'', JStr th), (''cwd'', JStr workspace), (''model'', JStr m), (''effort'', JStr effort),
        (''approvalPolicy'', JStr ''never''),
        (''sandboxPolicy'', json_map [(''type'', JStr (if capability = ''read-only'' then ''readOnly'' else ''dangerFullAccess''))])] @
      (if hi_observation goal
       then [(''input'', JArr []), (''toolOutput'', native_observation input_id (hi_text goal))]
       else [(''clientUserMessageId'', JStr input_id), (''input'', JArr (native_user_input goal))]))"

definition submit_turn ::
  "'w codex_session \<Rightarrow> string \<Rightarrow> string \<Rightarrow> string \<Rightarrow> harness_input \<Rightarrow> string \<Rightarrow> string \<Rightarrow> string \<Rightarrow> ('w, string \<times> bool) act" where
  \<comment> \<open>the Turn, and whether its observation was bound\<close>
  "submit_turn c th workspace input_id goal m effort capability =
    seq (inject_developer_instructions c th (hi_developer goal))
   (seq (inject_workspace_instructions c th input_id)
   (bnd (codex_call (cs_wire c) ''turn/start'' (turn_params th workspace input_id goal m effort capability)) (\<lambda>r.
    let i = string_value (jget (jget r ''turn'') ''id'') in
    seq (require (i \<noteq> []) (Errorf ''turn/start response is missing result.turn.id''))
   (bnd (if cs_execution c = input_id then cs_bind c th i else ret False) (\<lambda>bound. ret (i, bound))))))"

definition start_turn ::
  "'w codex_session \<Rightarrow> string \<Rightarrow> string \<Rightarrow> string \<Rightarrow> harness_input \<Rightarrow> string \<Rightarrow> string \<Rightarrow> string \<Rightarrow> ('w, string) act" where
  \<comment> \<open>a Turn that is not bound forgets what its Thread was told\<close>
  "start_turn c th workspace input_id goal m effort capability =
    seq (reload_catalogs c workspace)
   (bnd (attempt (submit_turn c th workspace input_id goal m effort capability)) (\<lambda>r. case r of
      Inl e \<Rightarrow> seq (forget_workspace_instructions c th) (fail e)
    | Inr (i, bound) \<Rightarrow> seq (if bound then ret () else forget_workspace_instructions c th) (ret i)))"

section \<open>A submission\<close>

definition prepared_thread ::
  "'w codex_session \<Rightarrow> string \<Rightarrow> bool \<Rightarrow> (err + string \<Rightarrow> ('w, 'b) native_mutation) \<Rightarrow> ('w, 'b) native_mutation" where
  \<comment> \<open>the Thread is resumed; one that was never used may be replaced\<close>
  "prepared_thread c th unused k =
    (if th = [] then k (Inr [])
     else caught (resume_thread (cs_wire c) th) (\<lambda>r. case r of
       Inr _ \<Rightarrow> k (Inr th) | Inl e \<Rightarrow> if unused then k (Inr []) else k (Inl e)))"

fun live_turn :: "string \<Rightarrow> harness_turn list \<Rightarrow> err + string" where
  \<comment> \<open>the only Turn that is not terminal\<close>
  "live_turn found [] = Inr found"
| "live_turn found (t # ts) =
    (if turn_terminal t then live_turn found ts
     else if found \<noteq> [] then Inl (Sentinel ErrNativeUnavailable)
     else live_turn (turn_id t) ts)"

definition acknowledged :: "native_event \<Rightarrow> string \<Rightarrow> string \<Rightarrow> string \<Rightarrow> native_acknowledgement" where
  "acknowledged ev kind th turn =
    \<lparr>ack_harness = codex_name, ack_type = kind, ack_client_id = ev_client_id ev, ack_thread_id = th, ack_turn_id = turn\<rparr>"

definition cancel_native :: "'w codex_session \<Rightarrow> native_event \<Rightarrow> string \<Rightarrow> ('w, native_acknowledgement) native_mutation" where
  "cancel_native c ev th =
    outside (codex_read_turns (cs_wire c) th) (\<lambda>turns.
    case live_turn [] turns of Inl e \<Rightarrow> Finished (Inl e)
    | Inr turn \<Rightarrow>
        if turn = [] then Finished (Inr (acknowledged ev ''input.cancelled'' th []))
        else BeginMutation turn (\<lambda>r. case r of Inl e \<Rightarrow> Finished (Inl e)
          | Inr _ \<Rightarrow> caught (codex_call (cs_wire c) ''turn/interrupt'' (json_map [(''threadId'', JStr th), (''turnId'', JStr turn)]))
              (\<lambda>s. case s of Inl e \<Rightarrow> Finished (Inl (Join (Sentinel ErrNativeUnknown) e))
               | Inr _ \<Rightarrow> Finished (Inr (acknowledged ev ''input.cancelled'' th turn)))))"

definition input_native ::
  "'w codex_session \<Rightarrow> session \<Rightarrow> native_event \<Rightarrow> harness_input \<Rightarrow> string \<Rightarrow> string \<Rightarrow> ('w, native_acknowledgement) native_mutation" where
  "input_native c j ev input workspace th =
    BeginMutation [] (\<lambda>r. case r of Inl e \<Rightarrow> Finished (Inl e)
      | Inr correlation \<Rightarrow>
          caught (start_turn (c\<lparr>cs_execution := correlation\<rparr>) th workspace correlation input (model j) (reasoning_effort j)
              ''danger-full-access'')
            (\<lambda>s. case s of Inl e \<Rightarrow> Finished (Inl (Join (Sentinel ErrNativeUnknown) e))
             | Inr turn \<Rightarrow> Finished (Inr (acknowledged ev ''input.accepted'' th turn))))"

definition thread_native ::
  "'w codex_session \<Rightarrow> session \<Rightarrow> native_event \<Rightarrow> harness_input \<Rightarrow> string \<Rightarrow> string \<Rightarrow> ('w, native_acknowledgement) native_mutation" where
  "thread_native c j ev input workspace th =
    (if ev_type ev = ''input.cancel'' then cancel_native (c\<lparr>cs_execution := ev_client_id ev\<rparr>) ev th
     else input_native c j ev input workspace th)"

definition connected_native ::
  "'w codex_session \<Rightarrow> session \<Rightarrow> native_event \<Rightarrow> harness_input \<Rightarrow> bool \<Rightarrow> string \<Rightarrow> ('w, native_acknowledgement) native_mutation" where
  "connected_native c j ev input unused workspace =
    prepared_thread c (thread_id j) unused (\<lambda>r. case r of Inl e \<Rightarrow> Finished (Inl e)
    | Inr th \<Rightarrow>
        if th \<noteq> [] then thread_native c j ev input workspace th
        else if ev_type ev = ''input.cancel'' then Finished (Inr (acknowledged ev ''input.cancelled'' [] []))
        else outside (start_thread (cs_wire c) workspace (model j) ''danger-full-access'') (\<lambda>new.
          BindThread new (\<lambda>b. case b of Inl e \<Rightarrow> Finished (Inl e)
            | Inr _ \<Rightarrow> thread_native (c\<lparr>cs_fresh := True\<rparr>) j ev input workspace new)))"

definition codex_submit ::
  "'w codex_agent \<Rightarrow> ('w wire \<Rightarrow> workspace_instructions option \<Rightarrow> 'w codex_session) \<Rightarrow> ownership \<Rightarrow> session \<Rightarrow> native_event \<Rightarrow>
    harness_input \<Rightarrow> bool \<Rightarrow> ('w, native_acknowledgement) native_mutation" where
  \<comment> \<open>\<open>session\<close>: what the connection knows at its start, for a wire and the instructions that were read\<close>
  "codex_submit a session owner j ev input unused =
    outside (guest_of a owner) (\<lambda>g.
    outside (if ev_type ev = ''input.cancel'' then ret None
             else bnd (read_workspace_instructions g owner) (\<lambda>wi. ret (Some wi))) (\<lambda>wi.
    outside (open_server (a\<lparr>cx_scope := None, cx_guest := g\<rparr>) owner) (\<lambda>(_, p).
    then_program (connected_native (session p wi\<lparr>cs_skills := ev_refresh_skills ev, cs_servers := ev_refresh_mcp_servers ev\<rparr>)
        j ev input unused (cx_workspace g))
      (\<lambda>r. Outside (cx_close a p) (\<lambda>_. Finished r)))))"

section \<open>At most one mutation\<close>

lemma begins_outsideI: "(\<And>x. begins_once (f x) b) \<Longrightarrow> begins_once (outside m f) b"
  by (simp add: outside_def split: sum.split)

lemma begins_caught: "(\<And>r. begins_once (f r) b) \<Longrightarrow> begins_once (caught m f) b"
  unfolding caught_def by (rule begins_outsideI)

lemma begins_then:
  assumes "\<And>r b. begins_once (k r) b"
  shows "begins_once p b \<Longrightarrow> begins_once (then_program p k) b"
  by (induction p arbitrary: b) (simp_all add: assms)

lemma begins_cancel: "begins_once (cancel_native c ev th) False"
  unfolding cancel_native_def
  by (intro begins_outsideI) (auto intro!: begins_caught split: sum.split)

lemma begins_input: "begins_once (input_native c j ev input workspace th) False"
  unfolding input_native_def by (auto intro!: begins_caught split: sum.split)

lemma begins_connected: "begins_once (connected_native c j ev input unused workspace) False"
proof -
  have th: "begins_once (thread_native c j ev input workspace t) False" for c t
    by (simp add: thread_native_def begins_cancel begins_input)
  show ?thesis
    unfolding connected_native_def prepared_thread_def
    by (auto simp: th intro!: begins_caught begins_outsideI split: sum.split)
qed

lemma begins_codex: "begins_once (codex_submit a session owner j ev input unused) False"
  unfolding codex_submit_def
  by (intro begins_outsideI) (auto intro!: begins_outsideI begins_then begins_connected split: prod.split)

end
