(* ===== verification/Codex_Harness.thy ===== *)
theory Codex_Harness
  imports Codex_Native
begin

text \<open>
  The rest of the Codex agent (\<open>internal/codex\<close>): native history and idleness, the route files of a
  guest (\<open>route.go\<close>), and the continuity proof (\<open>continuity.go\<close>, \<open>upgrade.go\<close>), a manifest of the
  settled Turns that travels with a backup and is compared with native history after a restore or a
  package change.
\<close>

section \<open>History\<close>

definition read_usage :: "'w codex_guest \<Rightarrow> string \<Rightarrow> (string \<Rightarrow> bool) \<Rightarrow> ownership \<Rightarrow> string \<Rightarrow> string \<Rightarrow> harness_turn list \<Rightarrow> ('w, unit) act" where
  \<comment> \<open>the counters themselves are not part of the model; \<open>decodes\<close>: the printed records can be read\<close>
  "read_usage g script decodes owner th file turns =
    (if file = [] \<or> turns = [] then ret ()
     else bnd (cx_exec g owner [] [''python3'', ''-c'', script, file, th]) (\<lambda>r.
       seq (require (xr_exit r = 0 \<and> \<not> xr_truncated r) (Errorf ''read persisted Codex usage failed''))
           (require (decodes (xr_stdout r)) (Wrapf ''decode persisted Codex usage'' (External ''json'')))))"

record 'w codex_history =
  hy_script :: string
  hy_decodes :: "string \<Rightarrow> bool"
  hy_latest :: "(ownership \<Rightarrow> string \<Rightarrow> 'w \<Rightarrow> reply_snapshot option) option" \<comment> \<open>\<open>ReplyFeed.Latest\<close>, with observations\<close>

definition codex_turns :: "'w codex_agent \<Rightarrow> 'w codex_history \<Rightarrow> ownership \<Rightarrow> string \<Rightarrow> ('w, harness_history) act" where
  \<comment> \<open>the usage is read through the agent's own guest\<close>
  "codex_turns a hy owner th =
    with_server a owner (\<lambda>p.
      bnd (read_thread p th) (\<lambda>thread.
      bnd (parse_read_turns p th thread) (\<lambda>turns.
      seq (read_usage (cx_guest a) (hy_script hy) (hy_decodes hy) owner th (string_value (jget thread ''path'')) turns)
          (ret \<lparr>hist_harness = codex_name, hist_thread_id = th, hist_turns = turns\<rparr>))))"

definition codex_idle :: "'w codex_agent \<Rightarrow> 'w codex_history \<Rightarrow> ownership \<Rightarrow> string \<Rightarrow> ('w, bool) act" where
  \<comment> \<open>continuous observations answer without writing native history; a gap needs fresh evidence\<close>
  "codex_idle a hy owner th =
    (let fresh = bnd (codex_turns a hy owner th) (\<lambda>h. ret (list_all turn_terminal (hist_turns h))) in
     case hy_latest hy of None \<Rightarrow> fresh
     | Some latest \<Rightarrow>
         bnd (gets (latest owner th)) (\<lambda>snap. case snap of None \<Rightarrow> fresh
         | Some s \<Rightarrow> if sn_gap s then fresh else ret (sn_complete s \<and> terminal_status (sn_status s))))"

section \<open>Route files\<close>

definition route_key_path :: string where "route_key_path = ''/root/.config/dorf/provider-route.key''"
definition route_options_path :: string where "route_options_path = ''/root/.config/dorf/codex-route.options''"

definition route_options :: "string \<Rightarrow> string" where
  "route_options url = ''model_providers.dorf={name=\"Dorf Provider Gateway\",base_url='' @ json_string url @
    '',env_key=\"DORF_PROVIDER_ROUTE_KEY\",wire_api=\"responses\",requires_openai_auth=false,supports_websockets=true}'' @ [newline]"

definition codex_install_route :: "'w sandbox_provider \<Rightarrow> ownership \<Rightarrow> string \<Rightarrow> string \<Rightarrow> string \<Rightarrow> ('w, unit) act" where
  "codex_install_route box owner url key m =
    seq (box_put_file box owner route_key_path (key @ [newline]))
        (box_put_file box owner route_options_path (route_options url))"

definition codex_remove_route :: "'w sandbox_provider \<Rightarrow> ownership \<Rightarrow> ('w, unit) act" where
  "codex_remove_route box owner =
    bnd (box_exec box owner [] [''rm'', ''-f'', route_key_path, route_options_path]) (\<lambda>r.
    require (xr_exit r = 0) (Errorf ''remove Codex scoped route files failed''))"

definition codex_native_harness ::
  "'w codex_agent \<Rightarrow> ('w wire \<Rightarrow> workspace_instructions option \<Rightarrow> 'w codex_session) \<Rightarrow> 'w codex_history \<Rightarrow> 'w native_harness" where
  "codex_native_harness a session hy =
    \<lparr>nh_capabilities = (\<lambda>owner m. with_server a owner (\<lambda>p. codex_capabilities p m)),
     nh_submit = codex_submit a session, nh_turns = codex_turns a hy, nh_idle = codex_idle a hy\<rparr>"

definition codex_harness ::
  "'w sandbox_provider \<Rightarrow> 'w codex_agent \<Rightarrow> ('w wire \<Rightarrow> workspace_instructions option \<Rightarrow> 'w codex_session) \<Rightarrow> 'w codex_history \<Rightarrow> 'w harness" where
  "codex_harness box a session hy =
    \<lparr>ha_name = codex_name, ha_install = codex_install_route box, ha_remove = codex_remove_route box,
     ha_native = Some (codex_native_harness a session hy)\<rparr>"

text \<open>A worker with Codex submits at most one mutation per event.\<close>

lemma codex_begins_once:
  "begins_once (nv_submit (externals_native (e\<lparr>ex_agent := codex_harness box a session hy\<rparr>) nonce) j owned ev unused) False"
  by (auto simp: externals_native_def submit_event_def native_of_def codex_harness_def codex_native_harness_def
      begins_codex intro!: begins_outsideI)

interpretation codex_custody:
  single_submission "externals_native (e\<lparr>ex_agent := codex_harness box a session hy\<rparr>) nonce"
  by unfold_locales (rule codex_begins_once)

section \<open>Continuity\<close>

record retained_turn =
  rt_thread :: string
  rt_turn :: string
  rt_outcome :: string

definition continuity_file :: string where
  "continuity_file = ''.dorf/native-continuity.json''"

definition retained_json :: "retained_turn \<Rightarrow> json" where
  "retained_json t =
    JObj [(''thread_id'', JStr (rt_thread t)), (''turn_id'', JStr (rt_turn t)), (''status'', JStr (rt_outcome t))]"

definition retain_turn :: "string \<Rightarrow> harness_turn \<Rightarrow> retained_turn" where
  "retain_turn th t = \<lparr>rt_thread = th, rt_turn = turn_id t, rt_outcome = turn_status t\<rparr>"

definition continuity_text :: "retained_turn list \<Rightarrow> string" where
  \<comment> \<open>\<open>json.Marshal\<close> of the manifest\<close>
  "continuity_text ts = json_text (JArr (map retained_json ts))"

definition capture_continuity ::
  "'w codex_guest \<Rightarrow> string \<Rightarrow> ownership \<Rightarrow> 'w wire \<Rightarrow> string \<Rightarrow> ('w, retained_turn list) act" where
  "capture_continuity g script owner p th =
    (if th = [] then ret []
     else bnd (codex_read_turns p th) (\<lambda>turns.
       seq (require (turns \<noteq> []) (Errorf ''bound native Thread has no persisted work''))
      (seq (require (list_all turn_terminal turns) (Errorf ''native Thread is not quiescent''))
      (let expected = map (retain_turn th) turns; raw = continuity_text expected in
       seq (require (\<not> max_file_write_bytes < length raw) (Errorf ''native continuity proof exceeds its bound''))
      (seq (write_file_via_exec script (Some (cx_exec g)) owner (cx_workspace g)
             (path_join [cx_workspace g, continuity_file]) raw False)
           (ret expected))))))"

definition set_retained_member :: "string \<Rightarrow> json \<Rightarrow> retained_turn \<times> bool \<Rightarrow> retained_turn \<times> bool" where
  "set_retained_member k v st =
    (let f = field_of [''thread_id'', ''turn_id'', ''status''] k in
     if f = Some ''thread_id'' then set_field take_string (\<lambda>x. rt_thread_update (\<lambda>_. x)) v st
     else if f = Some ''turn_id'' then set_field take_string (\<lambda>x. rt_turn_update (\<lambda>_. x)) v st
     else if f = Some ''status'' then set_field take_string (\<lambda>x. rt_outcome_update (\<lambda>_. x)) v st
     else st)"

definition decode_retained :: "json \<Rightarrow> retained_turn option" where
  "decode_retained v =
    (case set_struct set_retained_member v \<lparr>rt_thread = [], rt_turn = [], rt_outcome = []\<rparr> of (t, ok) \<Rightarrow> if ok then Some t else None)"

fun decode_each :: "(json \<Rightarrow> 'a option) \<Rightarrow> json list \<Rightarrow> 'a list option" where
  "decode_each f [] = Some []"
| "decode_each f (v # vs) = (case f v of None \<Rightarrow> None | Some x \<Rightarrow> map_option ((#) x) (decode_each f vs))"

definition decode_continuity :: "string \<Rightarrow> retained_turn list option" where
  \<comment> \<open>a text that is not an array, or an empty one, is no proof\<close>
  "decode_continuity raw =
    (case json_parse raw of Some (JArr vs) \<Rightarrow> decode_each decode_retained vs | _ \<Rightarrow> None)"

fun continuity_fits :: "string \<Rightarrow> string list \<Rightarrow> retained_turn list \<Rightarrow> bool" where
  "continuity_fits th seen [] = True"
| "continuity_fits th seen (t # ts) =
    (\<not> (rt_thread t \<noteq> th \<or> rt_turn t = [] \<or> rt_turn t \<in> set seen \<or> \<not> terminal_status (rt_outcome t)) \<and>
     continuity_fits th (rt_turn t # seen) ts)"

definition accept_continuity :: "string \<Rightarrow> string \<Rightarrow> err + retained_turn list" where
  "accept_continuity th raw =
    (case decode_continuity raw of None \<Rightarrow> Inl (Errorf ''native continuity proof is missing'')
     | Some ts \<Rightarrow>
         if ts = [] then Inl (Errorf ''native continuity proof is missing'')
         else if \<not> continuity_fits th [] ts then Inl (Errorf ''native continuity proof does not match the bound Thread'')
         else Inr ts)"

definition read_continuity :: "'w codex_guest \<Rightarrow> ownership \<Rightarrow> string \<Rightarrow> ('w, retained_turn list) act" where
  "read_continuity g owner th = bnd (cx_read_file g owner continuity_file) (\<lambda>raw. lift (accept_continuity th raw))"

definition observed_status :: "harness_turn list \<Rightarrow> string \<Rightarrow> string" where
  \<comment> \<open>the last status of a Turn, empty where it is not known\<close>
  "observed_status turns i =
    (case find (\<lambda>t. turn_id t = i) (rev turns) of None \<Rightarrow> [] | Some t \<Rightarrow> turn_status t)"

definition verify_retained_turns :: "retained_turn list \<Rightarrow> harness_turn list \<Rightarrow> err option" where
  "verify_retained_turns expected turns =
    (if \<not> list_all turn_terminal turns then Some (Errorf ''native Thread is not quiescent'')
     else if \<not> list_all (\<lambda>t. observed_status turns (rt_turn t) = rt_outcome t) expected
       then Some (Errorf ''native verification did not retain exact settled Turn history'')
     else None)"

definition verify_continuity :: "'w codex_agent \<Rightarrow> bool \<Rightarrow> ownership \<Rightarrow> string \<Rightarrow> ('w, unit) act" where
  "verify_continuity a resume owner th =
    (if th = [] then ret ()
     else bnd (read_continuity (cx_guest a) owner th) (\<lambda>expected.
       with_server a owner (\<lambda>p.
         seq (if resume then resume_thread p th else ret ())
        (bnd (codex_read_turns p th) (\<lambda>turns.
         case verify_retained_turns expected turns of None \<Rightarrow> ret () | Some e \<Rightarrow> fail e)))))"

definition verify_retained_thread :: "'w codex_agent \<Rightarrow> ownership \<Rightarrow> string \<Rightarrow> ('w, unit) act" where
  "verify_retained_thread a = verify_continuity a False"

definition verify_upgrade :: "'w codex_agent \<Rightarrow> ownership \<Rightarrow> string \<Rightarrow> ('w, unit) act" where
  "verify_upgrade a = verify_continuity a True"

definition codex_quiesce :: "'w codex_agent \<Rightarrow> string \<Rightarrow> string \<Rightarrow> ownership \<Rightarrow> string \<Rightarrow> ('w, unit) act" where
  \<comment> \<open>\<open>stop\<close>: the program that stops the tracked server; a server that is absent is quiescent\<close>
  "codex_quiesce a script stop owner th =
    bnd (guest_of a owner) (\<lambda>g.
    bnd (cx_endpoint g owner) (\<lambda>(listen, url).
    bnd (probe_server a g owner listen) (\<lambda>probe.
    if \<not> sp_running probe then
      (if th = [] then ret () else bnd (read_continuity g owner th) (\<lambda>_. ret ()))
    else
      seq (require (\<not> (\<not> sp_tracked probe \<or> sp_token probe = [])) (Errorf ''cannot stop an unproven app-server''))
     (bnd (dial_protocol a url (sp_token probe)) (\<lambda>p.
      bnd (attempt
        (bnd (capture_continuity g script owner p th) (\<lambda>_.
         bnd (cx_exec g owner (sp_token probe) [''python3'', ''-c'', stop, listen]) (\<lambda>r.
         require (xr_exit r = 0) (Errorf ''tracked app-server did not quiesce''))))) (\<lambda>r.
      seq (modify (cx_close a p)) (lift r)))))))"

section \<open>The manifest\<close>

lemma decode_retained_json: "decode_retained (retained_json t) = Some t"
  by (simp add: decode_retained_def retained_json_def set_struct_def set_retained_member_def field_of_def set_field_def
      take_string_def Let_def)

lemma decode_each_map: "(\<And>x. f (g x) = Some x) \<Longrightarrow> decode_each f (map g xs) = Some xs"
  by (induction xs) simp_all

definition retained_writable :: "retained_turn \<Rightarrow> bool" where
  "retained_writable t = (valid_utf8 (rt_thread t) \<and> valid_utf8 (rt_turn t) \<and> valid_utf8 (rt_outcome t))"

lemma decode_continuity_text:
  assumes "list_all retained_writable ts"
  shows "decode_continuity (continuity_text ts) = Some ts"
proof -
  have key: "valid_utf8 ''thread_id''" "valid_utf8 ''turn_id''" "valid_utf8 ''status''"
    by (simp_all add: valid_utf8.simps rune_size_def)
  have "plain_json (JArr (map retained_json ts))"
    using assms key by (auto simp: retained_json_def retained_writable_def list_all_iff)
  moreover have "depth_of (JArr (map retained_json ts)) \<le> json_depth"
  proof -
    have one: "depth_of (retained_json t) = 1" for t by (simp add: retained_json_def)
    have "Max (insert 0 (depth_of ` set (map retained_json ts))) \<le> 1"
      by (rule Max.boundedI) (auto simp: one)
    then have "depth_of (JArr (map retained_json ts)) \<le> 2" unfolding depth_of.simps by linarith
    then show ?thesis unfolding json_depth_def by linarith
  qed
  ultimately have "json_parse (json_text (JArr (map retained_json ts))) = Some (JArr (map retained_json ts))"
    by (rule json_parse_text)
  then show ?thesis by (simp add: continuity_text_def decode_continuity_def decode_each_map [OF decode_retained_json])
qed

lemma continuity_fits_map:
  "distinct (map turn_id turns @ seen) \<Longrightarrow> \<forall>t \<in> set turns. turn_id t \<noteq> [] \<and> turn_terminal t \<Longrightarrow>
    continuity_fits th seen (map (retain_turn th) turns)"
  by (induction turns arbitrary: seen) (auto simp: retain_turn_def terminal_status_def turn_terminal_def)

lemma find_found: "find P xs = Some x \<Longrightarrow> x \<in> set xs \<and> P x"
  by (induction xs) (auto split: if_splits)

lemma observed_exact:
  assumes "distinct (map turn_id turns)" and "t \<in> set turns"
  shows "observed_status turns (turn_id t) = turn_status t"
proof -
  have "find (\<lambda>s. turn_id s = turn_id t) (rev turns) = Some t"
  proof -
    obtain s where s: "find (\<lambda>s. turn_id s = turn_id t) (rev turns) = Some s"
      using assms(2) by (cases "find (\<lambda>s. turn_id s = turn_id t) (rev turns)") (auto simp: find_None_iff)
    then have "s \<in> set turns" "turn_id s = turn_id t" using find_found by fastforce+
    then have "s = t" using assms by (metis distinct_map inj_on_def)
    with s show ?thesis by simp
  qed
  then show ?thesis by (simp add: observed_status_def)
qed

text \<open>
  The manifest of a quiescent history is read back as it was written, for its own Thread only, and
  verification succeeds exactly against a quiescent history that kept every Turn with its status.
\<close>

lemma continuity_accepted:
  assumes "turns \<noteq> []" and "distinct (map turn_id turns)"
    and "\<forall>t \<in> set turns. turn_id t \<noteq> [] \<and> turn_terminal t \<and> valid_utf8 (turn_id t) \<and> valid_utf8 (turn_status t)"
    and "valid_utf8 th"
  shows "accept_continuity th' (continuity_text (map (retain_turn th) turns)) =
    (if th' = th then Inr (map (retain_turn th) turns)
     else Inl (Errorf ''native continuity proof does not match the bound Thread''))"
proof -
  have "list_all retained_writable (map (retain_turn th) turns)"
    using assms by (auto simp: list_all_iff retained_writable_def retain_turn_def)
  from decode_continuity_text [OF this]
  have "decode_continuity (continuity_text (map (retain_turn th) turns)) = Some (map (retain_turn th) turns)" .
  moreover have "continuity_fits th [] (map (retain_turn th) turns)"
    using assms by (intro continuity_fits_map) auto
  moreover have "\<not> continuity_fits th' [] (map (retain_turn th) turns)" if "th' \<noteq> th"
    using assms(1) that by (cases turns) (auto simp: retain_turn_def)
  ultimately show ?thesis using assms(1) by (simp add: accept_continuity_def)
qed

lemma verified_exact:
  assumes "verify_retained_turns expected turns = None" and "t \<in> set expected" and "rt_outcome t \<noteq> []"
  shows "\<exists>u \<in> set turns. turn_id u = rt_turn t \<and> turn_status u = rt_outcome t \<and> turn_terminal u"
proof -
  have o': "observed_status turns (rt_turn t) = rt_outcome t" and q: "list_all turn_terminal turns"
    using assms(1,2) by (auto simp: verify_retained_turns_def list_all_iff split: if_splits)
  then obtain u where u: "find (\<lambda>u. turn_id u = rt_turn t) (rev turns) = Some u" "turn_status u = rt_outcome t"
    using assms(3) by (auto simp: observed_status_def split: option.splits)
  then have "u \<in> set turns" "turn_id u = rt_turn t"
    using find_found by fastforce+
  with u q show ?thesis by (auto simp: list_all_iff)
qed

lemma continuity_verified:
  assumes d: "distinct (map turn_id history)" and t: "\<forall>t \<in> set turns. turn_status t \<noteq> []"
  shows "verify_retained_turns (map (retain_turn th) turns) history = None \<longleftrightarrow>
    list_all turn_terminal history \<and>
    (\<forall>t \<in> set turns. \<exists>u \<in> set history. turn_id u = turn_id t \<and> turn_status u = turn_status t)"
proof
  assume v: "verify_retained_turns (map (retain_turn th) turns) history = None"
  have "list_all turn_terminal history" using v by (simp add: verify_retained_turns_def split: if_splits)
  moreover have "\<exists>u \<in> set history. turn_id u = turn_id t \<and> turn_status u = turn_status t" if "t \<in> set turns" for t
    using verified_exact [OF v, of "retain_turn th t"] that t by (auto simp: retain_turn_def)
  ultimately show "list_all turn_terminal history \<and>
    (\<forall>t \<in> set turns. \<exists>u \<in> set history. turn_id u = turn_id t \<and> turn_status u = turn_status t)" by blast
next
  assume h: "list_all turn_terminal history \<and>
    (\<forall>t \<in> set turns. \<exists>u \<in> set history. turn_id u = turn_id t \<and> turn_status u = turn_status t)"
  then have "observed_status history (turn_id t) = turn_status t" if "t \<in> set turns" for t
    using that observed_exact [OF d] by metis
  with h show "verify_retained_turns (map (retain_turn th) turns) history = None"
    by (simp add: verify_retained_turns_def list_all_iff retain_turn_def)
qed

end
