(* ===== verification/Codex_Laws.thy ===== *)
theory Codex_Laws
  imports Codex_Harness
begin

text \<open>
  Reading a timeline ends: every page takes at least one byte of a bounded budget, so the number of
  pages is bounded and the bound of the model is never what stops it. What was written into a
  tool output as the identity of a delivery is what is read back from native history.
\<close>

section \<open>Pages consume a bounded budget\<close>

lemma read_response_bytes: "read_response payload = Some x \<Longrightarrow> payload \<noteq> []"
  by (cases payload) (auto simp: read_response_def Let_def json_parse_def json_decode_def skip_space_def)

lemma decode_page_bytes: "decode_page v st = Inr (page, st') \<Longrightarrow> tg_bytes st' = tg_bytes st"
  by (auto simp: decode_page_def Let_def split: if_splits option.splits)

lemma await_page_bytes:
  "await_page n p i st w = (Inr (page, st'), v) \<Longrightarrow> tg_bytes st < tg_bytes st' \<and> tg_bytes st' \<le> timeline_max_bytes"
proof (induction n arbitrary: st w)
  case (Suc n)
  obtain is_txt payload u where rc: "wi_receive p w = (Inr (is_txt, payload), u)"
    using Suc.prems by (auto simp: bnd_def split: prod.splits sum.splits)
  let ?st = "st\<lparr>tg_bytes := tg_bytes st + length payload\<rparr>"
  have b: "is_txt" "tg_bytes ?st \<le> timeline_max_bytes"
    using Suc.prems rc by (auto simp: bnd_def fail_def Let_def split: if_splits)
  obtain k res er where rr: "read_response payload = Some (k, res, er)"
    using Suc.prems rc b by (cases "read_response payload") (auto simp: bnd_def fail_def Let_def)
  have pos: "tg_bytes st < tg_bytes ?st" using read_response_bytes [OF rr] by simp
  show ?case
  proof (cases k)
    case None
    then obtain u' where "await_page n p i ?st u' = (Inr (page, st'), v)"
      using Suc.prems rc b rr by (auto simp: bnd_def seq_def Let_def split: prod.splits sum.splits if_splits)
    from Suc.IH [OF this] pos show ?thesis by simp
  next
    case (Some x)
    then obtain y where "decode_page y ?st = Inr (page, st')"
      using Suc.prems rc b rr
      by (auto simp: bnd_def fail_def lift_def ret_def Let_def split: if_splits option.splits sum.splits)
    from decode_page_bytes [OF this] pos b(2) show ?thesis by simp
  qed
qed (simp add: fail_def)

lemma page_bytes:
  assumes "timeline_page_of p th cursor st w = (Inr (page, st'), v)"
  shows "tg_bytes st < tg_bytes st' \<and> tg_bytes st' \<le> timeline_max_bytes"
proof -
  obtain i u where "await_page (wi_patience p) p i st u = (Inr (page, st'), v)"
    using assms by (auto simp: timeline_page_of_def bnd_def seq_def split: prod.splits sum.splits)
  then show ?thesis by (rule await_page_bytes)
qed

lemma timeline_fuel:
  assumes "timeline_max_bytes < n + tg_bytes st" and "timeline_max_bytes < m + tg_bytes st"
    and "tg_bytes st \<le> timeline_max_bytes"
  shows "timeline_pages n p th wanted seen cursor st w = timeline_pages m p th wanted seen cursor st w"
  using assms
proof (induction n arbitrary: m seen cursor st w)
  case (Suc n)
  obtain k where m: "m = Suc k" using Suc.prems by (cases m) auto
  obtain r u where run: "timeline_page_of p th cursor st w = (r, u)" by (cases "timeline_page_of p th cursor st w") auto
  show ?case
  proof (cases r)
    case (Inl e)
    then show ?thesis by (simp add: m bnd_def attempt_def run)
  next
    case (Inr x)
    then obtain page st' where x: "r = Inr (page, st')" by (cases x) auto
    have "tg_bytes st < tg_bytes st'" "tg_bytes st' \<le> timeline_max_bytes"
      using page_bytes [of p th cursor st w page st' u] run x by simp_all
    then have "timeline_pages n p th wanted seen' (Some c) st' u = timeline_pages k p th wanted seen' (Some c) st' u" for seen' c
      using Suc.prems m by (intro Suc.IH) simp_all
    then show ?thesis
      by (cases "match_turns th wanted seen (tp_data page)"; cases "tp_next page")
        (simp_all add: m bnd_def attempt_def run x)
  qed
qed simp

text \<open>The pages that are read one after another, whatever cursors ask for them.\<close>

inductive pages_read ::
  "'w wire \<Rightarrow> string \<Rightarrow> nat \<Rightarrow> pagination \<times> 'w \<Rightarrow> pagination \<times> 'w \<Rightarrow> bool" for p th where
  no_page: "pages_read p th 0 x x"
| one_page: "pages_read p th n x (st, v) \<Longrightarrow> timeline_page_of p th cursor st v = (Inr (page, st'), u) \<Longrightarrow>
    pages_read p th (Suc n) x (st', u)"

lemma pages_bounded:
  "pages_read p th n x y \<Longrightarrow> tg_bytes (fst x) \<le> timeline_max_bytes \<Longrightarrow>
    tg_bytes (fst x) + n \<le> tg_bytes (fst y) \<and> tg_bytes (fst y) \<le> timeline_max_bytes"
proof (induction rule: pages_read.induct)
  case (one_page n x st v cursor page st' u)
  then show ?case using page_bytes [OF one_page.hyps(2)] by simp
qed simp

section \<open>Delivery identities\<close>

lemma decode_observation:
  assumes "valid_utf8 d" and "valid_utf8 c" and "c \<noteq> []"
  shows "\<exists>v. json_parse (json_text (JObj [(''delivery_id'', JStr d), (''content'', JStr c)])) = Some v \<and>
    set_struct set_observation_member v \<lparr>ao_delivery = [], ao_content = []\<rparr> = (\<lparr>ao_delivery = d, ao_content = c\<rparr>, True)"
proof -
  have key: "valid_utf8 ''delivery_id''" "valid_utf8 ''content''"
    by (simp_all add: valid_utf8.simps rune_size_def)
  have "json_parse (json_text (JObj [(''delivery_id'', JStr d), (''content'', JStr c)])) =
      Some (JObj [(''delivery_id'', JStr d), (''content'', JStr c)])"
    using assms key by (intro json_parse_text) (simp_all add: json_depth_def)
  then show ?thesis
    by (auto simp: set_struct_def set_observation_member_def field_of_def set_field_def take_string_def Let_def)
qed

lemma delivery_attributed:
  assumes "valid_utf8 d" and "valid_utf8 c" and "c \<noteq> []"
    and "jget item ''type'' = JStr ''functionCallOutput''"
    and "\<forall>k \<in> {''name'', ''namespace'', ''output''}. jget item k = jget (native_observation d c) k"
  shows "observation_delivery_id item = d"
proof -
  have o': "jget (native_observation d c) ''name'' = JStr ''application_observation''"
    "jget (native_observation d c) ''namespace'' = JStr ''dorf''"
    "jget (native_observation d c) ''output'' = JStr (json_text (JObj [(''delivery_id'', JStr d), (''content'', JStr c)]))"
    by (simp_all add: native_observation_def json_map_def jget_def sort_key_def insort_key_def)
  obtain v where "json_parse (json_text (JObj [(''delivery_id'', JStr d), (''content'', JStr c)])) = Some v"
    "set_struct set_observation_member v \<lparr>ao_delivery = [], ao_content = []\<rparr> = (\<lparr>ao_delivery = d, ao_content = c\<rparr>, True)"
    using decode_observation [OF assms(1-3)] by blast
  then show ?thesis
    using assms(3-5) by (simp add: observation_delivery_id_def o' string_value_def)
qed

end
