(* ===== verification/Control_Observation.thy ===== *)
theory Control_Observation
  imports Control_Native Json_Laws
begin

text \<open>
  Following the messages of a Turn (\<open>internal/controlreader/observation.go\<close>). An observation is a
  projection of the reply feed from a cursor on: a cursor names the Session, the Turn, its binding,
  how many items were delivered and a digest of them, so that a feed that cannot vouch for the
  delivered prefix answers with a gap instead of other items.
\<close>

section \<open>The raw URL encoding, decoded\<close>

fun url_values :: "string \<Rightarrow> nat list option" where
  "url_values [] = Some []"
| "url_values (c # s) =
     (case b64_value (CHR ''-'') (CHR ''_'') c of None \<Rightarrow> None | Some n \<Rightarrow> map_option ((#) n) (url_values s))"

definition loosen :: "nat list \<Rightarrow> nat list" where
  \<comment> \<open>the decoder that is not strict drops the trailing bits\<close>
  "loosen ns =
    (if length ns mod 4 = 2 then butlast ns @ [last ns div 16 * 16]
     else if length ns mod 4 = 3 then butlast ns @ [last ns div 4 * 4] else ns)"

definition raw_url_decode :: "string \<Rightarrow> string option" where
  "raw_url_decode s =
    (case url_values (filter (\<lambda>c. c \<noteq> CHR 0x0A \<and> c \<noteq> CHR 0x0D) s) of None \<Rightarrow> None
     | Some ns \<Rightarrow> map_option (map char_of) (octets (loosen ns)))"

section \<open>Cursors\<close>

record observation_binding =
  obi_harness :: string
  obi_thread :: string
  obi_turn :: string

record observation_cursor =
  oc_session :: string
  oc_turn :: string
  oc_binding :: observation_binding
  oc_next :: int
  oc_digest :: string

definition binding_json :: "observation_binding \<Rightarrow> json" where
  "binding_json b =
    JObj [(''harness'', JStr (obi_harness b)), (''thread_id'', JStr (obi_thread b)), (''turn_id'', JStr (obi_turn b))]"

definition cursor_json :: "observation_cursor \<Rightarrow> json" where
  "cursor_json c =
    JObj [(''j'', JStr (oc_session c)), (''t'', JStr (oc_turn c)), (''b'', binding_json (oc_binding c)),
          (''n'', JNum (format_int (oc_next c))), (''h'', JStr (oc_digest c))]"

definition set_binding_member :: "string \<Rightarrow> json \<Rightarrow> observation_binding \<times> bool \<Rightarrow> observation_binding \<times> bool" where
  "set_binding_member k v st =
    (let f = field_of [''harness'', ''thread_id'', ''turn_id''] k in
     if f = Some ''harness'' then set_field take_string (\<lambda>x. obi_harness_update (\<lambda>_. x)) v st
     else if f = Some ''thread_id'' then set_field take_string (\<lambda>x. obi_thread_update (\<lambda>_. x)) v st
     else if f = Some ''turn_id'' then set_field take_string (\<lambda>x. obi_turn_update (\<lambda>_. x)) v st
     else st)"

definition set_cursor_member :: "string \<Rightarrow> json \<Rightarrow> observation_cursor \<times> bool \<Rightarrow> observation_cursor \<times> bool" where
  "set_cursor_member k v st =
    (let f = field_of [''j'', ''t'', ''b'', ''n'', ''h''] k in
     if f = Some ''j'' then set_field take_string (\<lambda>x. oc_session_update (\<lambda>_. x)) v st
     else if f = Some ''t'' then set_field take_string (\<lambda>x. oc_turn_update (\<lambda>_. x)) v st
     else if f = Some ''b'' then
       (case set_struct set_binding_member v (oc_binding (fst st)) of (b, ok) \<Rightarrow> ((fst st)\<lparr>oc_binding := b\<rparr>, snd st \<and> ok))
     else if f = Some ''n'' then set_field take_int (\<lambda>x. oc_next_update (\<lambda>_. x)) v st
     else if f = Some ''h'' then set_field take_string (\<lambda>x. oc_digest_update (\<lambda>_. x)) v st
     else st)"

definition empty_cursor :: observation_cursor where
  "empty_cursor = \<lparr>oc_session = [], oc_turn = [], oc_binding = \<lparr>obi_harness = [], obi_thread = [], obi_turn = []\<rparr>,
    oc_next = 0, oc_digest = []\<rparr>"

definition decode_cursor :: "string \<Rightarrow> observation_cursor option" where
  "decode_cursor raw =
    (case json_parse raw of None \<Rightarrow> None
     | Some v \<Rightarrow> (case set_struct set_cursor_member v empty_cursor of (c, ok) \<Rightarrow> if ok then Some c else None))"

definition cursor_text :: "observation_cursor \<Rightarrow> string" where
  "cursor_text c = raw_url_encode (json_text (cursor_json c))"

definition cursor_fits :: "string \<Rightarrow> string \<Rightarrow> observation_cursor \<Rightarrow> bool" where
  "cursor_fits sid turn c =
    (\<not> (oc_session c \<noteq> sid \<or> oc_turn c \<noteq> turn \<or> oc_next c < 0 \<or> length (oc_digest c) \<noteq> 64 \<or>
        \<not> valid_identity (obi_harness (oc_binding c)) \<or> \<not> valid_identity (obi_thread (oc_binding c)) \<or>
        \<not> valid_identity (obi_turn (oc_binding c))))"

definition parse_observation_cursor :: "string \<Rightarrow> string \<Rightarrow> string \<Rightarrow> err + observation_cursor option" where
  "parse_observation_cursor value sid turn =
    (if value = [] then Inr None
     else if 4096 < length value then Inl (reader_error ReaderInvalidRequest)
     else case raw_url_decode value of None \<Rightarrow> Inl (reader_error ReaderInvalidRequest)
     | Some raw \<Rightarrow>
         (case decode_cursor raw of None \<Rightarrow> Inl (reader_error ReaderInvalidRequest)
          | Some c \<Rightarrow>
              if \<not> cursor_fits sid turn c \<or> cursor_text c \<noteq> value then Inl (reader_error ReaderInvalidRequest)
              else Inr (Some c)))"

section \<open>Observations\<close>

record turn_observation =
  to_type :: string
  to_session :: string
  to_turn :: string
  to_status :: string
  to_binding :: "observation_binding option"
  to_items :: "conversation_item list"
  to_cursor :: "string option"
  to_from :: int
  to_next :: int
  to_watermark :: "int option"
  to_state :: string

record observation_request =
  or_session :: string
  or_turn :: string
  or_cursor :: string

definition observation_prefix_digest :: "conversation_item list \<Rightarrow> string" where
  "observation_prefix_digest is = sha256_hex (concat (map (\<lambda>i. item_json (unnamed i) @ [CHR 0x0A]) is))"

definition attribute_item :: "conversation_item \<Rightarrow> conversation_item" where
  "attribute_item i = i\<lparr>ci_client := client_attribution (ci_client i)\<rparr>"

definition next_cursor :: "observation_request \<Rightarrow> observation_binding \<Rightarrow> conversation_item list \<Rightarrow> observation_cursor" where
  "next_cursor input b is =
    \<lparr>oc_session = or_session input, oc_turn = or_turn input, oc_binding = b, oc_next = int (length is),
     oc_digest = observation_prefix_digest is\<rparr>"

definition project_items ::
  "turn_observation \<Rightarrow> observation_request \<Rightarrow> observation_binding \<Rightarrow> reply_snapshot \<Rightarrow> turn_observation" where
  "project_items result input b snap =
    (let n = int (length (sn_items snap));
         r = result\<lparr>to_items := to_items result @ map attribute_item (drop (nat (to_from result)) (sn_items snap)),
                    to_next := n, to_cursor := Some (cursor_text (next_cursor input b (sn_items snap)))\<rparr> in
     if sn_complete snap \<and> terminal_status (to_status result)
     then r\<lparr>to_type := ''turn.completed'', to_state := ''complete'', to_watermark := Some n\<rparr> else r)"

definition project_observation ::
  "turn_observation \<Rightarrow> observation_request \<Rightarrow> observation_binding \<Rightarrow> observation_cursor option \<Rightarrow> reply_snapshot option \<Rightarrow>
    turn_observation" where
  \<comment> \<open>\<open>projectTurnObservation\<close>; the items of the given result are empty\<close>
  "project_observation result input b cursor snapshot =
    (case snapshot of None \<Rightarrow> result\<lparr>to_state := ''resync_deferred''\<rparr>
     | Some snap \<Rightarrow>
         let r = result\<lparr>to_status := sn_status snap\<rparr> in
         if sn_gap snap \<or> int (length (sn_items snap)) < to_from r then r\<lparr>to_state := ''gap''\<rparr>
         else if (case cursor of None \<Rightarrow> False
                  | Some c \<Rightarrow> oc_digest c \<noteq> observation_prefix_digest (take (nat (to_from r)) (sn_items snap)))
           then r\<lparr>to_state := ''gap''\<rparr>
         else project_items r input b snap)"

definition initial_observation :: "observation_request \<Rightarrow> turn_observation" where
  "initial_observation input =
    \<lparr>to_type = ''turn.updated'', to_session = or_session input, to_turn = or_turn input, to_status = [], to_binding = None,
     to_items = [], to_cursor = None, to_from = 0, to_next = 0, to_watermark = None, to_state = ''observing''\<rparr>"

definition resumed_observation ::
  "observation_request \<Rightarrow> observation_binding \<Rightarrow> observation_cursor option \<Rightarrow> turn_observation" where
  "resumed_observation input b cursor =
    (let r = (initial_observation input)\<lparr>to_binding := Some b\<rparr> in
     case cursor of None \<Rightarrow> r
     | Some c \<Rightarrow> r\<lparr>to_from := oc_next c, to_next := oc_next c, to_cursor := Some (or_cursor input)\<rparr>)"

section \<open>The service\<close>

text \<open>The feed is part of the outside of a world; a service without one uses a fresh feed for one read.\<close>

record 'w observer =
  ov_reader :: "'w reader"
  ov_feed :: "('w \<Rightarrow> reply_feed) option"
  ov_update :: "(reply_feed \<Rightarrow> reply_feed) \<Rightarrow> 'w \<Rightarrow> 'w"

definition observable_session :: "session \<Rightarrow> bool" where
  "observable_session j = (admission_open j \<and> cleanup_state j = CleanupPending \<and> thread_id j \<noteq> [])"

definition observed_binding :: "session \<Rightarrow> observation_request \<Rightarrow> observation_binding" where
  "observed_binding j input = \<lparr>obi_harness = sess_harness j, obi_thread = thread_id j, obi_turn = or_turn input\<rparr>"

definition observed_reply :: "session \<Rightarrow> sandbox \<Rightarrow> observation_request \<Rightarrow> reply_binding" where
  "observed_reply j owned input =
    \<lparr>rb_session = sess_id j, rb_sandbox = sb_id owned, rb_nonce = sb_ownership_nonce owned, rb_harness = sess_harness j,
     rb_thread = thread_id j, rb_turn = or_turn input\<rparr>"

definition observation_subject :: "observation_request \<Rightarrow> (db, session \<times> sandbox \<times> observation_cursor option) act" where
  "observation_subject input =
    bnd (mapped (\<lambda>_. reader_error ReaderInvalidRequest)
          (lift (parse_observation_cursor (or_cursor input) (or_session input) (or_turn input)))) (\<lambda>cursor.
    seq (require (\<not> (\<not> valid_identity (or_session input) \<or> \<not> valid_identity (or_turn input))) (reader_error ReaderInvalidRequest))
   (bnd (store_session (or_session input)) (\<lambda>j.
    seq (require (observable_session j) (Sentinel ErrTimelineUnavailable))
   (bnd (store_sandbox (main_sandbox_name (sess_id j))) (\<lambda>owned.
    seq (require (sb_session_id owned = sess_id j) (Sentinel ErrTimelineUnavailable))
   (seq (require (\<not> (case cursor of None \<Rightarrow> False | Some c \<Rightarrow> oc_binding c \<noteq> observed_binding j input))
          (reader_error ReaderInvalidRequest))
        (ret (j, owned, cursor))))))))"

definition hydrate_feed :: "reply_binding \<Rightarrow> harness_timeline \<Rightarrow> reply_feed \<Rightarrow> reply_feed" where
  "hydrate_feed b t f = feed_status b (ht_status t) (feed_seed b (ht_completed t) (terminal_status (ht_status t)) f)"

definition hydrated_snapshot :: "'w observer \<Rightarrow> reply_binding \<Rightarrow> harness_timeline \<Rightarrow> ('w, reply_snapshot option) act" where
  "hydrated_snapshot ov b t =
    (case ov_feed ov of
       None \<Rightarrow> ret (feed_read (hydrate_feed b t new_reply_feed) b)
     | Some feed \<Rightarrow> seq (modify (ov_update ov (hydrate_feed b t))) (gets (\<lambda>w. feed_read (feed w) b)))"

definition read_snapshot :: "'w observer \<Rightarrow> reply_binding \<Rightarrow> ('w, reply_snapshot option) act" where
  "read_snapshot ov b = (case ov_feed ov of None \<Rightarrow> ret None | Some feed \<Rightarrow> gets (\<lambda>w. feed_read (feed w) b))"

definition turn_snapshot ::
  "'w observer \<Rightarrow> bool \<Rightarrow> session \<Rightarrow> observation_request \<Rightarrow> reply_binding \<Rightarrow> ('w, reply_snapshot option) eff" where
  "turn_snapshot ov hydrate j input b =
    bnd (on_ext (read_snapshot ov b)) (\<lambda>snap.
    if hydrate \<and> (case snap of None \<Rightarrow> True | Some s \<Rightarrow> sn_gap s) then
      bnd (rd_timeline (ov_reader ov) (sess_id j) (or_turn input)) (\<lambda>t. on_ext (hydrated_snapshot ov b t))
    else ret snap)"

definition turn_observation_of :: "'w observer \<Rightarrow> bool \<Rightarrow> observation_request \<Rightarrow> ('w, turn_observation) eff" where
  "turn_observation_of ov hydrate input =
    bnd (on_db (observation_subject input)) (\<lambda>(j, owned, cursor).
    let b = observed_binding j input in
    bnd (turn_snapshot ov hydrate j input (observed_reply j owned input)) (\<lambda>snap.
    ret (project_observation (resumed_observation input b cursor) input b cursor snap)))"

definition read_turn_observation :: "'w observer \<Rightarrow> string \<Rightarrow> string \<Rightarrow> string \<Rightarrow> ('w, turn_observation) eff" where
  "read_turn_observation ov sid turn cursor =
    turn_observation_of ov True \<lparr>or_session = sid, or_turn = turn, or_cursor = cursor\<rparr>"

text \<open>
  A stream remembers what it last emitted, without the items, and continues from the cursor it
  emitted. An iteration emits unless nothing changed; between iterations it waits for the feed or
  the timer.
\<close>

record observation_stream =
  os_previous :: "turn_observation option"
  os_request :: observation_request

definition stream_stamp :: "turn_observation \<Rightarrow> turn_observation" where
  "stream_stamp r = r\<lparr>to_items := [], to_from := 0\<rparr>"

definition stream_emits :: "observation_stream \<Rightarrow> turn_observation \<Rightarrow> bool" where
  "stream_emits st r = (os_previous st \<noteq> Some (stream_stamp r) \<or> to_items r \<noteq> [])"

definition stream_after :: "observation_stream \<Rightarrow> turn_observation \<Rightarrow> observation_stream" where
  "stream_after st r =
    (if stream_emits st r
     then st\<lparr>os_previous := Some (stream_stamp r),
             os_request := (case to_cursor r of None \<Rightarrow> os_request st | Some c \<Rightarrow> (os_request st)\<lparr>or_cursor := c\<rparr>)\<rparr>
     else st)"

definition stream_iteration ::
  "'w observer \<Rightarrow> (turn_observation \<Rightarrow> ('w, unit) act) \<Rightarrow> observation_stream \<Rightarrow> ('w, observation_stream) eff" where
  "stream_iteration ov emit st =
    bnd (turn_observation_of ov False (os_request st)) (\<lambda>r.
    seq (if stream_emits st r then on_ext (emit r) else ret ()) (ret (stream_after st r)))"

end
