(* ===== verification/Observation_Laws.thy ===== *)
theory Observation_Laws
  imports Control_Observation
begin

text \<open>
  What a cursor is worth. A cursor that was handed out is accepted as it was made, and resuming from it
  delivers exactly the items that follow: over any sequence of snapshots that only extend one
  another, a stream delivers every item once and in order.
\<close>

section \<open>Encodings of cursors\<close>

lemma b64_round_url:
  assumes "n < 64"
  shows "b64_value (CHR ''-'') (CHR ''_'') (b64_char (CHR ''-'') (CHR ''_'') n) = Some n"
  using assms
  by (auto simp: b64_value_def b64_char_def is_upper_def is_lower_def is_digit_def in_range_def byte_char_of)

lemma url_values_encode:
  "list_all (\<lambda>n. n < 64) ns \<Longrightarrow> url_values (map (b64_char (CHR ''-'') (CHR ''_'')) ns) = Some ns"
  by (induction ns) (simp_all add: b64_round_url)

lemma url_char_no_break: "url_char c \<Longrightarrow> c \<noteq> CHR 0x0A \<and> c \<noteq> CHR 0x0D"
  by (auto simp: url_char_def is_upper_def is_lower_def is_digit_def in_range_def)

lemma loosen_cons: "loosen (a # b # c # d # ns) = a # b # c # d # loosen ns"
  by (auto simp: loosen_def)

lemma loosen_sextets: "loosen (sextets bs) = sextets bs"
proof (induction bs rule: sextets.induct)
  case (1 a b c r)
  then show ?case by (simp add: loosen_cons)
next
  case (2 a b)
  have "b mod 16 * 4 div 4 * 4 = b mod 16 * 4" by simp
  then show ?case by (simp add: loosen_def)
next
  case (3 a)
  have "a mod 4 * 16 div 16 * 16 = a mod 4 * 16" by simp
  then show ?case by (simp add: loosen_def)
qed (simp add: loosen_def)

lemma raw_url_decode_encode: "raw_url_decode (raw_url_encode s) = Some s"
proof -
  let ?t = "raw_url_encode s" and ?ns = "sextets (map byte s)"
  have "filter (\<lambda>c. c \<noteq> CHR 0x0A \<and> c \<noteq> CHR 0x0D) ?t = ?t"
    using raw_url_chars [of s] by (auto simp: filter_id_conv list_all_iff dest: url_char_no_break)
  moreover have "url_values ?t = Some ?ns"
    unfolding raw_url_encode_def using sextets_bound [OF byte_list] by (intro url_values_encode) (auto simp: list_all_iff)
  moreover have "octets ?ns = Some (map byte s)" by (rule octets_sextets [OF byte_list])
  moreover have "map char_of (map byte s) = s" by (simp add: comp_def)
  ultimately show ?thesis by (simp add: raw_url_decode_def loosen_sextets)
qed

lemma ascii_utf8: "list_all (\<lambda>c. byte c < 128) s \<Longrightarrow> valid_utf8 s"
  by (induction s) (simp_all add: valid_utf8.simps rune_size_def)

lemma lower_hex_utf8: "list_all lower_hex s \<Longrightarrow> valid_utf8 s"
  by (rule ascii_utf8) (auto simp: list_all_iff lower_hex_def is_digit_def is_lower_def in_range_def)

lemma take_int_format:
  assumes "0 \<le> n" and "n < 2 ^ 63"
  shows "take_int (JNum (format_int n)) = Some n"
proof -
  have "list_all is_digit (itoa (nat n))" by (simp add: list_all_iff itoa_digits)
  moreover have "\<not> has_prefix (itoa (nat n)) ''-''"
  proof -
    obtain c t where c: "itoa (nat n) = c # t" by (cases "itoa (nat n)") auto
    then have "is_digit c" using itoa_digits [of c "nat n"] by simp
    then show ?thesis using c by (auto simp: has_prefix_def is_digit_def in_range_def)
  qed
  ultimately show ?thesis
    using assms by (simp add: take_int_def format_int_def Let_def atoi_itoa)
qed

definition writable_cursor :: "observation_cursor \<Rightarrow> bool" where
  "writable_cursor c =
    (valid_utf8 (oc_session c) \<and> valid_utf8 (oc_turn c) \<and> valid_utf8 (obi_harness (oc_binding c)) \<and>
     valid_utf8 (obi_thread (oc_binding c)) \<and> valid_utf8 (obi_turn (oc_binding c)) \<and> valid_utf8 (oc_digest c) \<and>
     0 \<le> oc_next c \<and> oc_next c < 2 ^ 63)"

lemma decode_cursor_text:
  assumes "writable_cursor c"
  shows "decode_cursor (json_text (cursor_json c)) = Some c"
proof -
  have key: "valid_utf8 ''j''" "valid_utf8 ''t''" "valid_utf8 ''b''" "valid_utf8 ''n''" "valid_utf8 ''h''"
    "valid_utf8 ''harness''" "valid_utf8 ''thread_id''" "valid_utf8 ''turn_id''"
    by (rule ascii_utf8, simp)+
  have "plain_json (cursor_json c)"
    using assms key by (auto simp: cursor_json_def binding_json_def writable_cursor_def)
  moreover have "depth_of (cursor_json c) \<le> json_depth"
    by (simp add: cursor_json_def binding_json_def json_depth_def)
  ultimately have "json_parse (json_text (cursor_json c)) = Some (cursor_json c)" by (rule json_parse_text)
  moreover have "take_int (JNum (format_int (oc_next c))) = Some (oc_next c)"
    using assms by (intro take_int_format) (simp_all add: writable_cursor_def)
  ultimately show ?thesis
    by (simp add: decode_cursor_def cursor_json_def binding_json_def set_struct_def set_cursor_member_def
        set_binding_member_def field_of_def set_field_def take_string_def empty_cursor_def Let_def)
qed

lemma json_text_ne: "json_text (JObj ms) \<noteq> []"
  by simp

lemma parse_cursor_text:
  assumes "writable_cursor c" and "cursor_fits sid turn c" and "length (cursor_text c) \<le> 4096"
  shows "parse_observation_cursor (cursor_text c) sid turn = Inr (Some c)"
proof -
  have "cursor_text c \<noteq> []"
  proof
    assume "cursor_text c = []"
    then have "raw_url_decode (cursor_text c) = Some []" by (simp add: raw_url_decode_def loosen_def)
    then have "json_text (cursor_json c) = []" by (simp add: cursor_text_def raw_url_decode_encode)
    then show False by (simp add: cursor_json_def)
  qed
  then show ?thesis
    using assms decode_cursor_text [OF assms(1)]
    by (simp add: parse_observation_cursor_def cursor_text_def raw_url_decode_encode)
qed

section \<open>Resuming\<close>

definition subject_ok :: "observation_request \<Rightarrow> observation_binding \<Rightarrow> bool" where
  "subject_ok input b =
    (valid_utf8 (or_session input) \<and> valid_utf8 (or_turn input) \<and>
     (\<forall>s \<in> {obi_harness b, obi_thread b, obi_turn b}. valid_utf8 s \<and> valid_identity s))"

definition deliverable :: "observation_request \<Rightarrow> observation_binding \<Rightarrow> conversation_item list \<Rightarrow> bool" where
  \<comment> \<open>the cursor behind the items is short enough to be handed back\<close>
  "deliverable input b is =
    (length (cursor_text (next_cursor input b is)) \<le> 4096 \<and> int (length is) < 2 ^ 63)"

lemma cursor_accepted:
  assumes "subject_ok input b" and "deliverable input b is"
  shows "parse_observation_cursor (cursor_text (next_cursor input b is)) (or_session input) (or_turn input) =
    Inr (Some (next_cursor input b is))"
proof (rule parse_cursor_text)
  have hex: "list_all lower_hex (observation_prefix_digest is)" "length (observation_prefix_digest is) = 64"
    by (simp_all add: observation_prefix_digest_def sha256_hex_lower)
  show "writable_cursor (next_cursor input b is)"
    using assms lower_hex_utf8 [OF hex(1)] by (simp add: writable_cursor_def next_cursor_def subject_ok_def deliverable_def)
  show "cursor_fits (or_session input) (or_turn input) (next_cursor input b is)"
    using assms hex(2) by (simp add: cursor_fits_def next_cursor_def subject_ok_def)
qed (use assms in \<open>simp add: deliverable_def\<close>)

definition continues :: "conversation_item list \<Rightarrow> conversation_item list \<Rightarrow> bool" where
  "continues is js = prefix (map unnamed is) (map unnamed js)"

lemma continues_take: "continues is js \<Longrightarrow> map unnamed (take (length is) js) = map unnamed is \<and> length is \<le> length js"
proof -
  assume "continues is js"
  then obtain zs where "map unnamed js = map unnamed is @ zs" by (auto simp: continues_def prefix_def)
  moreover from this have "length is \<le> length js" by (metis length_append length_map le_add1)
  ultimately show ?thesis by (simp add: take_map [symmetric])
qed

lemma digest_continues: "continues is js \<Longrightarrow> observation_prefix_digest (take (length is) js) = observation_prefix_digest is"
proof -
  assume "continues is js"
  then have u: "map unnamed (take (length is) js) = map unnamed is" using continues_take by blast
  have "observation_prefix_digest xs = sha256_hex (concat (map (\<lambda>i. item_json i @ [CHR 0x0A]) (map unnamed xs)))" for xs
    by (simp add: observation_prefix_digest_def comp_def)
  then show ?thesis by (simp only: u)
qed

lemma project_continues:
  assumes "\<not> sn_gap snap" and "continues is (sn_items snap)" and "to_from r = int (length is)" and "to_items r = []"
    and "\<And>c. cursor = Some c \<Longrightarrow> oc_digest c = observation_prefix_digest is"
  shows "let o' = project_observation r input b cursor (Some snap) in
    to_items o' = map attribute_item (drop (length is) (sn_items snap)) \<and>
    to_cursor o' = Some (cursor_text (next_cursor input b (sn_items snap))) \<and> to_from o' = to_from r \<and>
    to_next o' = int (length (sn_items snap))"
proof -
  have "length is \<le> length (sn_items snap)" using continues_take [OF assms(2)] by blast
  moreover have "\<not> (case cursor of None \<Rightarrow> False
      | Some c \<Rightarrow> oc_digest c \<noteq> observation_prefix_digest (take (length is) (sn_items snap)))"
    using assms(5) digest_continues [OF assms(2)] by (simp split: option.split)
  ultimately show ?thesis
    using assms(1,3,4) by (cases cursor) (simp_all add: project_observation_def project_items_def Let_def)
qed

section \<open>Streams\<close>

definition stream_observes :: "observation_binding \<Rightarrow> observation_stream \<Rightarrow> reply_snapshot \<Rightarrow> turn_observation" where
  "stream_observes b st snap =
    (let input = os_request st;
         cursor = (case parse_observation_cursor (or_cursor input) (or_session input) (or_turn input) of Inl _ \<Rightarrow> None | Inr c \<Rightarrow> c) in
     project_observation (resumed_observation input b cursor) input b cursor (Some snap))"

fun stream_items :: "observation_binding \<Rightarrow> observation_stream \<Rightarrow> reply_snapshot list \<Rightarrow> conversation_item list" where
  \<comment> \<open>everything a stream emits over the snapshots it finds\<close>
  "stream_items b st [] = []"
| "stream_items b st (s # ss) =
    (let r = stream_observes b st s in
     (if stream_emits st r then to_items r else []) @ stream_items b (stream_after st r) ss)"

fun each_continues :: "conversation_item list \<Rightarrow> reply_snapshot list \<Rightarrow> bool" where
  "each_continues is [] = True"
| "each_continues is (s # ss) = (\<not> sn_gap s \<and> continues is (sn_items s) \<and> each_continues (sn_items s) ss)"

lemma next_cursor_request: "next_cursor (input\<lparr>or_cursor := x\<rparr>) b is = next_cursor input b is"
  by (simp add: next_cursor_def)

lemma resumed_delivers:
  assumes ok: "subject_ok (os_request st) b"
    and cur: "if is = [] \<and> or_cursor (os_request st) = [] then True
      else or_cursor (os_request st) = cursor_text (next_cursor (os_request st) b is) \<and> deliverable (os_request st) b is"
    and s: "\<not> sn_gap s" "continues is (sn_items s)"
  shows "to_items (stream_observes b st s) = map attribute_item (drop (length is) (sn_items s)) \<and>
    to_cursor (stream_observes b st s) = Some (cursor_text (next_cursor (os_request st) b (sn_items s)))"
proof (cases "is = [] \<and> or_cursor (os_request st) = []")
  case True
  then have p: "parse_observation_cursor (or_cursor (os_request st)) (or_session (os_request st)) (or_turn (os_request st)) = Inr None"
    by (simp add: parse_observation_cursor_def)
  let ?r = "resumed_observation (os_request st) b None"
  have "to_from ?r = int (length is)" "to_items ?r = []"
    using True by (simp_all add: resumed_observation_def initial_observation_def)
  from project_continues [OF s this, of None "os_request st" b] show ?thesis
    by (simp add: stream_observes_def p Let_def)
next
  case False
  let ?c = "next_cursor (os_request st) b is" and ?input = "os_request st"
  have p: "parse_observation_cursor (or_cursor ?input) (or_session ?input) (or_turn ?input) = Inr (Some ?c)"
    using cur False cursor_accepted [OF ok] by simp
  let ?r = "resumed_observation ?input b (Some ?c)"
  have "to_from ?r = int (length is)" "to_items ?r = []"
    by (simp_all add: resumed_observation_def initial_observation_def next_cursor_def)
  from project_continues [OF s this, of "Some ?c" ?input b] show ?thesis
    by (simp add: stream_observes_def p Let_def next_cursor_def)
qed

lemma unnamed_attribute: "unnamed (attribute_item i) = attribute_item (unnamed i)"
  by (simp add: unnamed_def attribute_item_def)

lemma stream_delivers_from:
  assumes "subject_ok (os_request st) b"
    and "if is = [] \<and> or_cursor (os_request st) = [] then True
      else or_cursor (os_request st) = cursor_text (next_cursor (os_request st) b is) \<and> deliverable (os_request st) b is"
    and "each_continues is ss" and "\<forall>s \<in> set ss. deliverable (os_request st) b (sn_items s)"
  shows "map unnamed (stream_items b st ss) =
    drop (length is) (map (unnamed \<circ> attribute_item) (if ss = [] then is else sn_items (last ss)))"
  using assms
proof (induction ss arbitrary: st "is")
  case (Cons s ss)
  let ?r = "stream_observes b st s" and ?st = "stream_after st (stream_observes b st s)"
  have s: "\<not> sn_gap s" "continues is (sn_items s)" "each_continues (sn_items s) ss" using Cons.prems(3) by simp_all
  note del = resumed_delivers [OF Cons.prems(1,2) s(1,2)]
  define js where "js = (if stream_emits st ?r then sn_items s else is)"
  have same: "map unnamed js = map unnamed (sn_items s)"
  proof (cases "stream_emits st ?r")
    case False
    then have "drop (length is) (sn_items s) = []" using del by (simp add: stream_emits_def)
    then show ?thesis using continues_take [OF s(2)] by (simp add: js_def False)
  qed (simp add: js_def)
  then have len: "length js = length (sn_items s)" by (metis length_map)
  have req: "os_request ?st = (os_request st)\<lparr>or_cursor := or_cursor (os_request ?st)\<rparr>"
    by (simp add: stream_after_def split: option.split)
  have nx: "next_cursor (os_request ?st) b k = next_cursor (os_request st) b k" for k
    by (subst req) (rule next_cursor_request)
  have del': "deliverable (os_request ?st) b k = deliverable (os_request st) b k" for k
    by (simp add: deliverable_def nx)
  have ok: "subject_ok (os_request ?st) b"
    using Cons.prems(1) by (subst req) (simp add: subject_ok_def)
  have cur: "if js = [] \<and> or_cursor (os_request ?st) = [] then True
      else or_cursor (os_request ?st) = cursor_text (next_cursor (os_request ?st) b js) \<and> deliverable (os_request ?st) b js"
  proof (cases "stream_emits st ?r")
    case True
    then have "or_cursor (os_request ?st) = cursor_text (next_cursor (os_request st) b (sn_items s))"
      using del by (simp add: stream_after_def)
    then show ?thesis using Cons.prems(4) True by (simp add: js_def nx del')
  next
    case False
    then have "?st = st" by (simp add: stream_after_def)
    then show ?thesis using Cons.prems(2) False by (simp add: js_def)
  qed
  have each: "each_continues js ss" using s(3) same by (cases ss) (simp_all add: continues_def)
  have rest: "map unnamed (stream_items b ?st ss) =
      drop (length js) (map (unnamed \<circ> attribute_item) (if ss = [] then js else sn_items (last ss)))"
    using Cons.prems(4) by (intro Cons.IH ok cur each) (simp add: del')
  have now: "map unnamed (if stream_emits st ?r then to_items ?r else []) =
      drop (length is) (map (unnamed \<circ> attribute_item) (sn_items s))"
    using del by (simp add: stream_emits_def drop_map)
  have conv: "map (unnamed \<circ> attribute_item) xs = map attribute_item (map unnamed xs)" for xs
    by (simp add: unnamed_attribute)
  show ?case
  proof (cases "ss = []")
    case True
    then show ?thesis using now by (simp add: Let_def comp_def)
  next
    case False
    then have "continues (sn_items s) (sn_items (last ss))"
      using s(3)
    proof (induction ss arbitrary: s)
      case (Cons x xs)
      show ?case
      proof (cases "xs = []")
        case False
        then have "continues (sn_items x) (sn_items (last xs))" using Cons by (cases xs) auto
        then show ?thesis using Cons.prems False by (auto simp: continues_def intro: prefix_order.trans)
      qed (use Cons.prems in simp)
    qed simp
    from continues_take [OF this]
    have t: "map unnamed (take (length (sn_items s)) (sn_items (last ss))) = map unnamed (sn_items s)"
      "length (sn_items s) \<le> length (sn_items (last ss))" by simp_all
    have "drop (length is) (map (unnamed \<circ> attribute_item) (sn_items (last ss))) =
        drop (length is) (map (unnamed \<circ> attribute_item) (take (length (sn_items s)) (sn_items (last ss)))) @
        drop (length (sn_items s)) (map (unnamed \<circ> attribute_item) (sn_items (last ss)))"
    proof -
      let ?f = "map (unnamed \<circ> attribute_item) (sn_items (last ss))" and ?n = "length (sn_items s)"
      have "length is \<le> ?n" using continues_take [OF s(2)] by simp
      then have "drop (length is) ?f = drop (length is) (take ?n ?f) @ drop ?n ?f"
        using t(2) by (metis append_take_drop_id drop_append length_map length_take min.absorb2 diff_is_0_eq drop_0)
      then show ?thesis by (simp add: take_map)
    qed
    also have "map (unnamed \<circ> attribute_item) (take (length (sn_items s)) (sn_items (last ss))) =
        map (unnamed \<circ> attribute_item) (sn_items s)" by (simp only: conv t(1))
    finally show ?thesis using now rest False len by (simp add: Let_def comp_def)
  qed
qed simp

section \<open>How long a cursor is\<close>

lemma json_body_unfold:
  "json_body (c # t) =
    (if byte c < 128 then json_ascii c @ json_body t
     else if rune_size (c # t) = 0 then backslash # ''ufffd'' @ json_body t
     else (if map byte (take 3 (c # t)) = [226, 128, 168] then backslash # ''u2028''
           else if map byte (take 3 (c # t)) = [226, 128, 169] then backslash # ''u2029''
           else take (rune_size (c # t)) (c # t)) @ json_body (drop (rune_size (c # t)) (c # t)))"
  by (subst json_body.simps) (simp add: Let_def max_def)

lemma json_body_length: "length (json_body s) \<le> 6 * length s"
proof (induction "length s" arbitrary: s rule: less_induct)
  case less
  show ?case
  proof (cases s)
    case Nil
    then show ?thesis by (simp add: json_body.simps)
  next
    case (Cons c t)
    let ?n = "rune_size s" and ?b = "json_body (drop (rune_size s) s)"
    have a: "length (json_ascii c) \<le> 6" by (simp add: json_ascii_def json_u00_def Let_def)
    have t: "length (json_body t) \<le> 6 * length t" using less Cons by simp
    show ?thesis
    proof (cases "byte c < 128 \<or> ?n = 0")
      case True
      then show ?thesis unfolding Cons json_body_unfold using a t by (auto simp: Cons)
    next
      case False
      then have "length (drop ?n s) < length s" by (simp add: Cons)
      from less [OF this] have d: "length ?b \<le> 6 * (length s - ?n)" by simp
      have e: "json_body s = (if map byte (take 3 s) = [226, 128, 168] then backslash # ''u2028''
          else if map byte (take 3 s) = [226, 128, 169] then backslash # ''u2029'' else take ?n s) @ ?b"
        using False unfolding Cons json_body_unfold by simp
      have "1 \<le> ?n" "1 \<le> length s" using False Cons by simp_all
      then show ?thesis unfolding e using d by (simp split: if_split) (intro conjI impI; linarith)
    qed
  qed
qed

lemma itoa_length: "0 < k \<Longrightarrow> n < 10 ^ k \<Longrightarrow> length (itoa n) \<le> k"
proof (induction k arbitrary: n)
  case (Suc k)
  show ?case
  proof (cases "n < 10")
    case False
    then have "0 < k" using Suc.prems by (cases k) auto
    then have "length (itoa (n div 10)) \<le> k" using Suc by (simp add: less_mult_imp_div_less)
    then show ?thesis using False by (subst itoa.simps) simp
  qed (subst itoa.simps, simp)
qed simp

definition subject_size :: "observation_request \<Rightarrow> observation_binding \<Rightarrow> nat" where
  "subject_size input b =
    length (or_session input) + length (or_turn input) + length (obi_harness b) + length (obi_thread b) + length (obi_turn b)"

lemma deliverable_short:
  assumes "subject_size input b \<le> 400" and "int (length is) < 2 ^ 63"
  shows "deliverable input b is"
proof -
  let ?c = "next_cursor input b is"
  have n: "length (format_int (int (length is))) \<le> 19"
  proof -
    have "length is < 10 ^ 19" using assms(2) by simp
    then show ?thesis by (simp add: format_int_def itoa_length)
  qed
  have d: "length (observation_prefix_digest is) = 64" by (simp add: observation_prefix_digest_def)
  have k: "length (json_body ''j'') \<le> 6" "length (json_body ''t'') \<le> 6" "length (json_body ''b'') \<le> 6"
    "length (json_body ''n'') \<le> 6" "length (json_body ''h'') \<le> 6"
    using json_body_length [of "''j''"] json_body_length [of "''t''"] json_body_length [of "''b''"]
      json_body_length [of "''n''"] json_body_length [of "''h''"] by simp_all
  have w: "json_body ''harness'' = ''harness''" "json_body ''thread_id'' = ''thread_id''" "json_body ''turn_id'' = ''turn_id''"
    by (simp_all add: json_body.simps json_ascii_def Let_def)
  have "length (json_text (cursor_json ?c)) \<le> 6 * subject_size input b + 6 * 64 + 19 + 110"
    using n d k w json_body_length [of "or_session input"] json_body_length [of "or_turn input"] json_body_length [of "obi_harness b"]
      json_body_length [of "obi_thread b"] json_body_length [of "obi_turn b"] json_body_length [of "observation_prefix_digest is"]
    by (simp add: cursor_json_def binding_json_def next_cursor_def subject_size_def join_with_def)
  then have "length (json_text (cursor_json ?c)) \<le> 2913" using assms(1) by simp
  then have "length (cursor_text ?c) \<le> 4096" by (simp add: cursor_text_def raw_url_length)
  then show ?thesis using assms(2) by (simp add: deliverable_def)
qed

end
