(* ===== verification/Demo_Workers.thy ===== *)
theory Demo_Workers
  imports Demo_Services Codex_Laws Observation_Laws
begin

text \<open>
  Small instances for the witnesses about workers and observers: a worker whose Sandbox cannot be
  reached, an observer of one Turn, and a wire that is closed by its server.
\<close>

definition offline :: "('w, 'a) act" where
  "offline = fail (Errorf ''offline'')"

definition offline_box :: "unit sandbox_provider" where
  "offline_box =
    \<lparr>box_workspace = ''/work'', box_run = (\<lambda>_ _ w. ((Some (Errorf ''offline''), \<lparr>rn_result = \<lparr>xr_stdout = [], xr_stderr = [], xr_exit = 1,
        xr_truncated = False\<rparr>, rn_stopped = False\<rparr>), w)),
     box_create = (\<lambda>_. offline), box_attest = (\<lambda>_. offline), box_present = (\<lambda>_. offline), box_delete = (\<lambda>_. offline),
     box_put_file = (\<lambda>_ _ _. offline), box_read_file = (\<lambda>_ _. offline), box_exec = (\<lambda>_ _ _. offline),
     box_route_url = offline, box_observe = None, box_pause = None, box_checkpointer = None\<rparr>"

definition offline_guest :: "unit codex_guest" where
  "offline_guest =
    \<lparr>cx_workspace = ''/work'', cx_exec = (\<lambda>_ _ _. offline), cx_files = None, cx_read_file = (\<lambda>_ _. offline),
     cx_endpoint = (\<lambda>_. offline)\<rparr>"

definition offline_agent :: "unit codex_agent" where
  "offline_agent =
    \<lparr>cx_scope = None, cx_guest = offline_guest, cx_dial = (\<lambda>_ _. offline), cx_close = (\<lambda>_ w. w), cx_token = offline,
     cx_scripts = ([], \<lambda>_ _. [], \<lambda>_. []), cx_wait = offline, cx_late = (\<lambda>_. True), cx_attempts = 0\<rparr>"

definition offline_session :: "unit wire \<Rightarrow> workspace_instructions option \<Rightarrow> unit codex_session" where
  "offline_session p wi =
    \<lparr>cs_wire = p, cs_skills = False, cs_servers = False, cs_instructions = wi, cs_fresh = False, cs_execution = [],
     cs_memory = None, cs_bind = (\<lambda>_ _. offline), cs_quote = (\<lambda>s. s)\<rparr>"

definition offline_history :: "unit codex_history" where
  "offline_history = \<lparr>hy_script = [], hy_decodes = (\<lambda>_. True), hy_latest = None\<rparr>"

definition offline_worker :: "unit externals" where
  "offline_worker =
    \<lparr>ex_sandbox = offline_box,
     ex_gateway = \<lparr>gw_create = (\<lambda>_ _ _. offline), gw_require_model = (\<lambda>_ _ _. offline), gw_revoke = (\<lambda>_ _. offline)\<rparr>,
     ex_agent = \<lparr>ha_name = [], ha_install = (\<lambda>_ _ _ _. offline), ha_remove = (\<lambda>_. offline), ha_native = None\<rparr>,
     ex_owner = Some (\<lambda>i. ret \<lparr>ow_session = ''s1'', ow_sandbox = i, ow_nonce = ''n1''\<rparr>), ex_quote = (\<lambda>s. s), ex_script = []\<rparr>"

definition demo_cancel :: native_event where
  "demo_cancel = \<lparr>ev_type = ''input.cancel'', ev_client_id = ''cl'', ev_text = [], ev_developer_instructions = None,
     ev_refresh_skills = False, ev_refresh_mcp_servers = False, ev_attachments = []\<rparr>"

definition demo_job :: session where
  "demo_job = session_value demo_db demo_session demo_profile"

definition demo_owned :: sandbox where
  "demo_owned = sandbox_value demo_sandbox demo_resource"

definition demo_item :: "string \<Rightarrow> conversation_item" where
  "demo_item s = \<lparr>ci_index = 0, ci_native = ''i1'', ci_kind = ''message'', ci_phase = [], ci_text = s, ci_client = []\<rparr>"

definition demo_subject :: observation_binding where
  "demo_subject = \<lparr>obi_harness = ''codex'', obi_thread = ''th'', obi_turn = ''t1''\<rparr>"

definition demo_reply :: reply_binding where
  "demo_reply = \<lparr>rb_session = ''s1'', rb_sandbox = ''b1'', rb_nonce = ''n1'', rb_harness = ''codex'', rb_thread = ''th'', rb_turn = ''t1''\<rparr>"

definition demo_stream :: observation_stream where
  "demo_stream = \<lparr>os_previous = None, os_request = \<lparr>or_session = ''s1'', or_turn = ''t1'', or_cursor = []\<rparr>\<rparr>"

definition demo_seen :: "conversation_item list \<Rightarrow> reply_snapshot" where
  "demo_seen is = \<lparr>sn_status = ''inProgress'', sn_items = is, sn_complete = False, sn_gap = False\<rparr>"

lemma demo_subject_ok: "subject_ok (os_request demo_stream) demo_subject"
proof -
  have "trim_space ''codex'' = ''codex''" "trim_space ''th'' = ''th''" "trim_space ''t1'' = ''t1''" by code_simp+
  moreover have "valid_utf8 ''codex''" "valid_utf8 ''th''" "valid_utf8 ''t1''" "valid_utf8 ''s1''" by (rule ascii_utf8, simp)+
  ultimately show ?thesis
    by (simp add: subject_ok_def demo_stream_def demo_subject_def valid_identity_def bounded_text_def contains_nul_def)
qed

definition page_text :: string where
  "page_text = json_text (JObj [(''id'', JNum (format_int 1)), (''result'', JObj [(''data'', JArr [])])])"

definition page_wire :: "unit wire" where
  \<comment> \<open>every request is answered with an empty page\<close>
  "page_wire =
    \<lparr>wi_send = (\<lambda>_. ret ()), wi_receive = ret (True, page_text), wi_next = ret 1, wi_observe = (\<lambda>_ w. w),
     wi_history = (\<lambda>_ _ w. w), wi_patience = 1\<rparr>"

lemma page_text_parses:
  "json_parse page_text = Some (JObj [(''id'', JNum (format_int 1)), (''result'', JObj [(''data'', JArr [])])])"
proof -
  have "valid_utf8 ''id''" "valid_utf8 ''result''" "valid_utf8 ''data''" by (rule ascii_utf8, simp)+
  then show ?thesis
    unfolding page_text_def by (intro json_parse_text) (auto simp: json_depth_def)
qed

lemma page_text_length: "length page_text \<le> 37"
  by (simp add: page_text_def join_with_def format_int_def itoa.simps json_body_unfold json_ascii_def json_body.simps [of "[]"])

lemma page_wire_reads:
  "timeline_page_of page_wire ''th'' None \<lparr>tg_cursors = [], tg_bytes = 0\<rparr> () =
    (Inr (\<lparr>tp_data = [], tp_next = None\<rparr>, \<lparr>tg_cursors = [], tg_bytes = length page_text\<rparr>), ())"
proof -
  have b: "\<not> timeline_max_bytes < length page_text" using page_text_length by (simp add: timeline_max_bytes_def)
  have i: "take_int (JNum (format_int 1)) = Some 1" by (rule take_int_format) simp_all
  have rr: "read_response page_text = Some (Some 1, Some (JObj [(''data'', JArr [])]), None)"
    unfolding read_response_def page_text_parses
    by (simp add: Let_def struct_value_def raw_field_def pointer_field_def field_of_def i field_values_def is_map_def)
  show ?thesis
    by (simp add: timeline_page_of_def page_wire_def bnd_def seq_def ret_def send_message_def attempt_def b rr
        decode_page_def Let_def lift_def struct_value_def raw_field_def pointer_field_def field_of_def string_field_def field_values_def is_map_def array_of_def)
qed

end
