(* ===== verification/Demo_Digests.thy ===== *)
theory Demo_Digests
  imports Core_Domain
begin

text \<open>
  Evaluating SHA-256 in the kernel for the witnesses: words are read as natural numbers, on which
  the simplifier computes. Each message of the section on digests is one block.
\<close>

unbundle bit_operations_syntax

section \<open>Words as numbers\<close>

definition wd :: "nat \<Rightarrow> u32" where "wd n = word_of_nat n"

lemma wd_add: "wd a + wd b = wd (a + b)"
  by (simp add: wd_def)

lemma wd_mod: "wd (a mod 4294967296) = wd a"
proof -
  have "wd (a mod 2 ^ 32) = wd a"
    by (simp only: wd_def word_of_nat_eq_iff take_bit_eq_mod) simp
  then show ?thesis by simp
qed

lemma wd_bit: "bit (wd a) i \<longleftrightarrow> i < 32 \<and> bit a i"
  by (simp add: wd_def bit_simps)

lemma small_bit: "a < 4294967296 \<Longrightarrow> bit (a::nat) i \<Longrightarrow> i < 32"
proof -
  assume "a < 4294967296" "bit a i"
  moreover from this have "take_bit 32 a = a" by (simp add: take_bit_eq_mod)
  ultimately show ?thesis by (metis bit_take_bit_iff)
qed

lemma wd_and: "wd a AND wd b = wd (a AND b)"
  by (rule bit_eqI) (simp add: wd_def bit_simps)
lemma wd_xor: "wd a XOR wd b = wd (a XOR b)"
  by (rule bit_eqI) (auto simp: wd_def bit_simps)
lemma wd_drop: "a < 4294967296 \<Longrightarrow> drop_bit n (wd a) = wd (a div 2 ^ n)"
  by (rule bit_eqI) (auto simp: wd_bit bit_drop_bit_eq bit_simps simp flip: drop_bit_eq_div dest: small_bit)
lemma wd_not: "a < 4294967296 \<Longrightarrow> NOT (wd a) = wd (4294967295 - a)"
proof -
  assume a: "a < 4294967296"
  have "NOT (wd a) = - 1 - wd a" by (simp add: not_eq_complement)
  also have "\<dots> = wd 4294967295 - wd a" by (simp add: wd_def)
  also have "\<dots> = wd (4294967295 - a)" using a by (simp add: wd_def of_nat_diff)
  finally show ?thesis .
qed
lemma wd_rotr:
  assumes a: "a < 4294967296" and n: "n < 32"
  shows "rotr n (wd a) = wd (a div 2 ^ n + a mod 2 ^ n * 2 ^ (32 - n))"
proof -
  have "a div 2 ^ n + a mod 2 ^ n * 2 ^ (32 - n) = drop_bit n a + push_bit (32 - n) (take_bit n a)"
    by (simp add: drop_bit_eq_div push_bit_eq_mult take_bit_eq_mod)
  also have "\<dots> = drop_bit n a OR push_bit (32 - n) (take_bit n a)"
    using small_bit [OF a] n by (intro disjunctive_add) (fastforce simp: bit_simps)
  finally have e: "a div 2 ^ n + a mod 2 ^ n * 2 ^ (32 - n) = drop_bit n a OR push_bit (32 - n) (take_bit n
      a)" .
  show ?thesis
    unfolding rotr_def e using small_bit [OF a] n by (intro bit_eqI) (auto simp: wd_bit bit_simps)
qed


section \<open>The rounds on numbers\<close>

definition small :: "nat list \<Rightarrow> bool" where
  "small ns = list_all (\<lambda>n. n < 4294967296) ns"

definition nrot :: "nat \<Rightarrow> nat \<Rightarrow> nat" where
  "nrot n a = a div 2 ^ n + a mod 2 ^ n * 2 ^ (32 - n)"

fun nround :: "nat \<times> nat \<Rightarrow> nat list \<Rightarrow> nat list" where
  "nround (k, w) [a, b, c, d, e, f, g, h] =
    (let t1 = h + (nrot 6 e XOR nrot 11 e XOR nrot 25 e) + ((e AND f) XOR ((4294967295 - e) AND g)) + k + w;
         s0 = nrot 2 a XOR nrot 13 a XOR nrot 22 a; mj = (a AND b) XOR (a AND c) XOR (b AND c)
     in [(t1 + (s0 + mj)) mod 4294967296, a, b, c, (d + t1) mod 4294967296, e, f, g])"
| "nround _ v = v"

definition nword :: "nat list \<Rightarrow> nat" where
  "nword w =
    (let a = w ! 14; e = w ! 1;
         s0 = nrot 7 a XOR nrot 18 a XOR (a div 8);
         s1 = nrot 17 e XOR nrot 19 e XOR (e div 1024)
     in (w ! 15 + s0 + w ! 6 + s1) mod 4294967296)"

fun nschedule :: "nat \<Rightarrow> nat list \<Rightarrow> nat list" where
  "nschedule 0 w = w"
| "nschedule (Suc n) w = nschedule n (nword w # w)"

lemma nschedule_numeral: "nschedule (numeral k) w = nschedule (pred_numeral k) (nword w # w)"
  by (simp only: numeral_eq_Suc [of k] nschedule.simps)

lemma nschedule_add: "nschedule (m + n) w = nschedule n (nschedule m w)"
  by (induction m arbitrary: w) simp_all

lemma nrot_wd: "a < 4294967296 \<Longrightarrow> n < 32 \<Longrightarrow> rotr n (wd a) = wd (nrot n a)"
  by (simp add: wd_rotr nrot_def)

lemma nround_wd:
  "small v \<Longrightarrow> sha_round (wd k, wd x) (map wd v) = map wd (nround (k, x) v) \<and> small
      (nround (k, x) v)"
  by (induction "(k, x)" v rule: nround.induct)
    (simp_all add: small_def Let_def nrot_wd wd_not wd_and wd_xor wd_add wd_mod)

lemma nrounds_wd:
  "small v \<Longrightarrow> fold sha_round (zip (map wd ks) (map wd xs)) (map wd v) = map wd (fold nround
      (zip ks xs) v)"
proof (induction ks arbitrary: xs v)
  case (Cons k ks)
  then show ?case using nround_wd [of v k] by (cases xs) simp_all
qed simp

lemma nth_small: "small w \<Longrightarrow> i < length w \<Longrightarrow> w ! i < 4294967296"
  by (simp add: small_def list_all_length)

lemma nschedule_wd:
  "small w \<Longrightarrow> 16 \<le> length w \<Longrightarrow> schedule n (map wd w) = map wd (nschedule n
      w) \<and> small (nschedule n w)"
proof (induction n arbitrary: w)
  case (Suc n)
  have b: "w ! 14 < 4294967296" "w ! 1 < 4294967296" using Suc.prems by (auto intro: nth_small)
  have d: "drop_bit 3 (wd (w ! 14)) = wd (w ! 14 div 8)" "drop_bit 10 (wd (w ! 1)) = wd (w ! 1 div 1024)"
    using wd_drop [OF b(1), of 3] wd_drop [OF b(2), of 10] by simp_all
  have "schedule (Suc n) (map wd w) = schedule n (map wd (nword w # w))"
    using Suc.prems b by (simp add: Let_def nword_def nrot_wd d [unfolded One_nat_def] wd_xor wd_add wd_mod)
  moreover have "small (nword w # w)" using Suc.prems(1) by (simp add: small_def nword_def Let_def)
  ultimately show ?case using Suc.IH [of "nword w # w"] Suc.prems(2) by simp
qed simp

definition nk_first :: "nat list" where
  "nk_first =
    [1116352408, 1899447441, 3049323471, 3921009573, 961987163, 1508970993, 2453635748, 2870763221,
     3624381080, 310598401, 607225278, 1426881987, 1925078388, 2162078206, 2614888103, 3248222580,
     3835390401, 4022224774, 264347078, 604807628, 770255983, 1249150122, 1555081692, 1996064986,
     2554220882, 2821834349, 2952996808, 3210313671, 3336571891, 3584528711, 113926993, 338241895]"

definition nk_last :: "nat list" where
  "nk_last =
    [666307205, 773529912, 1294757372, 1396182291, 1695183700, 1986661051, 2177026350, 2456956037,
     2730485921, 2820302411, 3259730800, 3345764771, 3516065817, 3600352804, 4094571909, 275423344,
     430227734, 506948616, 659060556, 883997877, 958139571, 1322822218, 1537002063, 1747873779,
     1955562222, 2024104815, 2227730452, 2361852424, 2428436474, 2756734187, 3204031479, 3329325298]"

definition nk :: "nat list" where
  "nk = nk_first @ nk_last"

definition ninit :: "nat list" where
  "ninit = [1779033703, 3144134277, 1013904242, 2773480762, 1359893119, 2600822924, 528734635, 1541459225]"

definition nblock :: "nat list \<Rightarrow> nat list" where
  "nblock ws = map2 (\<lambda>x y. (x + y) mod 4294967296) ninit (fold nround (zip nk (rev (nschedule 48
      (rev ws)))) ninit)"

lemma sha_block_wd:
  assumes "small ws" and "length ws = 16"
  shows "sha_block sha_init (map wd ws) = map wd (nblock ws)"
proof -
  have s: "schedule 48 (rev (map wd ws)) = map wd (nschedule 48 (rev ws))"
    using nschedule_wd [of "rev ws" 48] assms unfolding rev_map [symmetric] by (simp add: small_def)
  have i: "sha_init = map wd ninit" "sha_k = map wd nk" by (simp_all add: sha_init_def ninit_def sha_k_def
      nk_def nk_first_def nk_last_def wd_def)
  have "small ninit" by (simp add: small_def ninit_def)
  then have r: "fold sha_round (zip sha_k (rev (schedule 48 (rev (map wd ws))))) sha_init =
      map wd (fold nround (zip nk (rev (nschedule 48 (rev ws)))) ninit)"
    unfolding s i rev_map [symmetric] by (simp only: rev_map nrounds_wd)
  have "map2 (+) (map wd xs) (map wd ys) = map wd (map2 (\<lambda>x y. (x + y) mod 4294967296) xs ys)" for
      xs ys
    by (induction xs ys rule: list_induct2') (simp_all add: wd_add wd_mod)
  then show ?thesis unfolding sha_block_def r unfolding i nblock_def by blast
qed

lemma replicate_numeral_nat: "replicate (numeral k) x = x # replicate (pred_numeral k) x"
  by (simp only: numeral_eq_Suc [of k] replicate_Suc)

lemma one_block:
  assumes "be_words (sha_pad (map of_char s)) = map wd ws" and "small ws" and "length ws = 16"
    and sched: "nschedule 24 (rev ws) = vs" "nschedule 24 vs = rev (xs @ ys)" and xs: "length xs = 32"
    and rounds: "fold nround (zip nk_first xs) ninit = u" "fold nround (zip nk_last ys) u = v"
    and sum: "map2 (\<lambda>x y. (x + y) mod 4294967296) ninit v = ns"
  shows "sha256_words s = map wd ns"
proof -
  have "nschedule 48 (rev ws) = rev (xs @ ys)"
    using nschedule_add [of 24 24 "rev ws"] sched by simp
  moreover have "length nk_first = 32" by (simp add: nk_first_def)
  then have "fold nround (zip nk (xs @ ys)) ninit = v"
    using xs rounds by (simp add: nk_def zip_append)
  ultimately have "nblock ws = ns" using sum by (simp add: nblock_def)
  then show ?thesis
    using assms(1-3) sha_block_wd [OF assms(2,3)]
    by (cases "ws = []") (simp_all add: sha256_words_def sha_blocks.simps [of _ "map wd ws"]
        sha_blocks.simps [of _ "[]"])
qed

section \<open>Digests\<close>

lemma source_schedule:
  "nschedule 24 [16, 0, 0, 0, 0, 0, 0, 0, 0, 0, 0, 0, 0, 0, 0, 1932623872] =
    [1977617286, 2762781750, 1675217550, 3947875483, 1096122481, 653315387, 3892649909, 1767615962,
        3621037348, 2674149852, 3749285827, 2170898404, 2472972763, 83099897, 3359036556, 1931873048,
        1949417483, 1149709640, 16951296, 3800080691, 1073742468, 4028431262, 655360, 1932623872, 16, 0, 0,
        0, 0, 0, 0, 0, 0, 0, 0, 0, 0, 0, 0, 1932623872]"
  "nschedule 24 [1977617286, 2762781750, 1675217550, 3947875483, 1096122481, 653315387, 3892649909,
      1767615962, 3621037348, 2674149852, 3749285827, 2170898404, 2472972763, 83099897, 3359036556,
      1931873048, 1949417483, 1149709640, 16951296, 3800080691, 1073742468, 4028431262, 655360, 1932623872,
      16, 0, 0, 0, 0, 0, 0, 0, 0, 0, 0, 0, 0, 0, 0, 1932623872] =
    [1961754645, 4160928395, 3139856018, 4259041448, 692706675, 1635213339, 3834385879, 2455480321,
        1215437541, 3140786749, 446134071, 1357643748, 3416294440, 1367285602, 495023201, 3483405627,
        2511794513, 256422239, 2536760256, 469080497, 1221628101, 1291291994, 3867105080, 3717553648,
        1977617286, 2762781750, 1675217550, 3947875483, 1096122481, 653315387, 3892649909, 1767615962,
        3621037348, 2674149852, 3749285827, 2170898404, 2472972763, 83099897, 3359036556, 1931873048,
        1949417483, 1149709640, 16951296, 3800080691, 1073742468, 4028431262, 655360, 1932623872, 16, 0, 0,
        0, 0, 0, 0, 0, 0, 0, 0, 0, 0, 0, 0, 1932623872]"
  by (simp_all add: nschedule_numeral nword_def nrot_def)

lemma source_first:
  "fold nround (zip nk_first [1932623872, 0, 0, 0, 0, 0, 0, 0, 0, 0, 0, 0, 0, 0, 0, 16, 1932623872, 655360,
      4028431262, 1073742468, 3800080691, 16951296, 1149709640, 1949417483, 1931873048, 3359036556,
      83099897, 2472972763, 2170898404, 3749285827, 2674149852, 3621037348]) ninit =
    [2031156340, 1082721569, 3610751508, 2918873786, 1344859663, 3477328875, 1872059853, 1365354850]"
  by (simp add: nk_first_def ninit_def nrot_def)

lemma source_last:
  "fold nround (zip nk_last [1767615962, 3892649909, 653315387, 1096122481, 3947875483, 1675217550,
      2762781750, 1977617286, 3717553648, 3867105080, 1291291994, 1221628101, 469080497, 2536760256,
      256422239, 2511794513, 3483405627, 495023201, 1367285602, 3416294440, 1357643748, 446134071,
      3140786749, 1215437541, 2455480321, 3834385879, 1635213339, 692706675, 4259041448, 3139856018,
      4160928395, 1961754645])
    [2031156340, 1082721569, 3610751508, 2918873786, 1344859663, 3477328875, 1872059853, 1365354850] =
    [2125606869, 3347526402, 4139358475, 2775990689, 3915356290, 2750245615, 1219383863, 3002824883]"
  by (simp add: nk_last_def nrot_def)

lemma source_words: "sha256_words ''s1'' = map wd [3904640572, 2196693383, 858295421, 1254504155, 980282113,
    1056101243, 1748118498, 249316812]"
proof (rule one_block)
  show "be_words (sha_pad (map of_char ''s1'')) = map wd [1932623872, 0, 0, 0, 0, 0, 0, 0, 0, 0, 0, 0, 0, 0,
      0, 16]"
    by (simp add: sha_pad_def wd_def Let_def upt_rec replicate_numeral_nat)
  show "nschedule 24 (rev [1932623872, 0, 0, 0, 0, 0, 0, 0, 0, 0, 0, 0, 0, 0, 0, 16]) = [1977617286,
      2762781750, 1675217550, 3947875483, 1096122481, 653315387, 3892649909, 1767615962, 3621037348,
      2674149852, 3749285827, 2170898404, 2472972763, 83099897, 3359036556, 1931873048, 1949417483,
      1149709640, 16951296, 3800080691, 1073742468, 4028431262, 655360, 1932623872, 16, 0, 0, 0, 0, 0, 0, 0,
      0, 0, 0, 0, 0, 0, 0, 1932623872]"
    unfolding rev.simps append.simps by (rule source_schedule)
  show "nschedule 24 [1977617286, 2762781750, 1675217550, 3947875483, 1096122481, 653315387, 3892649909,
      1767615962, 3621037348, 2674149852, 3749285827, 2170898404, 2472972763, 83099897, 3359036556,
      1931873048, 1949417483, 1149709640, 16951296, 3800080691, 1073742468, 4028431262, 655360, 1932623872,
      16, 0, 0, 0, 0, 0, 0, 0, 0, 0, 0, 0, 0, 0, 0, 1932623872] = rev ([1932623872, 0, 0, 0, 0, 0, 0, 0, 0,
      0, 0, 0, 0, 0, 0, 16, 1932623872, 655360, 4028431262, 1073742468, 3800080691, 16951296, 1149709640,
      1949417483, 1931873048, 3359036556, 83099897, 2472972763, 2170898404, 3749285827, 2674149852,
      3621037348] @ [1767615962, 3892649909, 653315387, 1096122481, 3947875483, 1675217550, 2762781750,
      1977617286, 3717553648, 3867105080, 1291291994, 1221628101, 469080497, 2536760256, 256422239,
      2511794513, 3483405627, 495023201, 1367285602, 3416294440, 1357643748, 446134071, 3140786749,
      1215437541, 2455480321, 3834385879, 1635213339, 692706675, 4259041448, 3139856018, 4160928395,
      1961754645])"
    unfolding source_schedule by simp
qed (rule source_first source_last | simp add: small_def ninit_def)+

lemma key_schedule:
  "nschedule 24 [168, 0, 0, 0, 0, 0, 0, 0, 0, 0, 830472192, 1748656754, 1918987875, 1853107554, 1802530665,
      1667786083] =
    [3396844776, 3273680965, 3398629899, 203426410, 2156098058, 1929885181, 3039975903, 3816405125,
        206594940, 403746554, 1057575746, 2426442753, 1151546524, 4054424275, 3296252164, 547834945,
        1866587269, 1111281978, 2458953594, 3524218901, 2718498111, 4004447941, 771515860, 667622738, 168,
        0, 0, 0, 0, 0, 0, 0, 0, 0, 830472192, 1748656754, 1918987875, 1853107554, 1802530665, 1667786083]"
  "nschedule 24 [3396844776, 3273680965, 3398629899, 203426410, 2156098058, 1929885181, 3039975903,
      3816405125, 206594940, 403746554, 1057575746, 2426442753, 1151546524, 4054424275, 3296252164,
      547834945, 1866587269, 1111281978, 2458953594, 3524218901, 2718498111, 4004447941, 771515860,
      667622738, 168, 0, 0, 0, 0, 0, 0, 0, 0, 0, 830472192, 1748656754, 1918987875, 1853107554, 1802530665,
      1667786083] =
    [4075298414, 3927730733, 2928478865, 34248544, 3198153758, 976209567, 2271224796, 3032579098, 69385177,
        3525882024, 1222116061, 3614995515, 828508701, 105989987, 2823938369, 2721982972, 2994261660,
        2953864611, 2411096589, 221569128, 3888938511, 1517588749, 1086260384, 876286634, 3396844776,
        3273680965, 3398629899, 203426410, 2156098058, 1929885181, 3039975903, 3816405125, 206594940,
        403746554, 1057575746, 2426442753, 1151546524, 4054424275, 3296252164, 547834945, 1866587269,
        1111281978, 2458953594, 3524218901, 2718498111, 4004447941, 771515860, 667622738, 168, 0, 0, 0, 0,
        0, 0, 0, 0, 0, 830472192, 1748656754, 1918987875, 1853107554, 1802530665, 1667786083]"
  by (simp_all add: nschedule_numeral nword_def nrot_def)

lemma key_first:
  "fold nround (zip nk_first [1667786083, 1802530665, 1853107554, 1918987875, 1748656754, 830472192, 0, 0,
      0, 0, 0, 0, 0, 0, 0, 168, 667622738, 771515860, 4004447941, 2718498111, 3524218901, 2458953594,
      1111281978, 1866587269, 547834945, 3296252164, 4054424275, 1151546524, 2426442753, 1057575746,
      403746554, 206594940]) ninit =
    [1849093255, 961789571, 874396541, 3575431209, 1841299037, 3624100417, 1586595926, 4059848290]"
  by (simp add: nk_first_def ninit_def nrot_def)

lemma key_last:
  "fold nround (zip nk_last [3816405125, 3039975903, 1929885181, 2156098058, 203426410, 3398629899,
      3273680965, 3396844776, 876286634, 1086260384, 1517588749, 3888938511, 221569128, 2411096589,
      2953864611, 2994261660, 2721982972, 2823938369, 105989987, 828508701, 3614995515, 1222116061,
      3525882024, 69385177, 3032579098, 2271224796, 976209567, 3198153758, 34248544, 2928478865, 3927730733,
      4075298414])
    [1849093255, 961789571, 874396541, 3575431209, 1841299037, 3624100417, 1586595926, 4059848290] =
    [2174884592, 739505932, 3184006927, 3130070621, 3501853242, 2787481574, 1989542688, 3657248007]"
  by (simp add: nk_last_def nrot_def)

lemma key_words: "sha256_words ''checkpoint-branch:br1'' = map wd [3953918295, 3883640209, 4197911169,
    1608584087, 566779065, 1093337202, 2518277323, 903739936]"
proof (rule one_block)
  show "be_words (sha_pad (map of_char ''checkpoint-branch:br1'')) = map wd [1667786083, 1802530665,
      1853107554, 1918987875, 1748656754, 830472192, 0, 0, 0, 0, 0, 0, 0, 0, 0, 168]"
    by (simp add: sha_pad_def wd_def Let_def upt_rec replicate_numeral_nat)
  show "nschedule 24 (rev [1667786083, 1802530665, 1853107554, 1918987875, 1748656754, 830472192, 0, 0, 0,
      0, 0, 0, 0, 0, 0, 168]) = [3396844776, 3273680965, 3398629899, 203426410, 2156098058, 1929885181,
      3039975903, 3816405125, 206594940, 403746554, 1057575746, 2426442753, 1151546524, 4054424275,
      3296252164, 547834945, 1866587269, 1111281978, 2458953594, 3524218901, 2718498111, 4004447941,
      771515860, 667622738, 168, 0, 0, 0, 0, 0, 0, 0, 0, 0, 830472192, 1748656754, 1918987875, 1853107554,
      1802530665, 1667786083]"
    unfolding rev.simps append.simps by (rule key_schedule)
  show "nschedule 24 [3396844776, 3273680965, 3398629899, 203426410, 2156098058, 1929885181, 3039975903,
      3816405125, 206594940, 403746554, 1057575746, 2426442753, 1151546524, 4054424275, 3296252164,
      547834945, 1866587269, 1111281978, 2458953594, 3524218901, 2718498111, 4004447941, 771515860,
      667622738, 168, 0, 0, 0, 0, 0, 0, 0, 0, 0, 830472192, 1748656754, 1918987875, 1853107554, 1802530665,
      1667786083] = rev ([1667786083, 1802530665, 1853107554, 1918987875, 1748656754, 830472192, 0, 0, 0, 0,
      0, 0, 0, 0, 0, 168, 667622738, 771515860, 4004447941, 2718498111, 3524218901, 2458953594, 1111281978,
      1866587269, 547834945, 3296252164, 4054424275, 1151546524, 2426442753, 1057575746, 403746554,
      206594940] @ [3816405125, 3039975903, 1929885181, 2156098058, 203426410, 3398629899, 3273680965,
      3396844776, 876286634, 1086260384, 1517588749, 3888938511, 221569128, 2411096589, 2953864611,
      2994261660, 2721982972, 2823938369, 105989987, 828508701, 3614995515, 1222116061, 3525882024,
      69385177, 3032579098, 2271224796, 976209567, 3198153758, 34248544, 2928478865, 3927730733,
      4075298414])"
    unfolding key_schedule by simp
qed (rule key_first key_last | simp add: small_def ninit_def)+

lemma branch_schedule:
  "nschedule 24 [224, 0, 0, 0, 0, 0, 0, 0, 2147483648, 1717646135, 1630878001, 1698117474, 808531255,
      1700946275, 1768910381, 1936028531] =
    [222396620, 3916714194, 3431797319, 2311303380, 2913114935, 4285654057, 3397727061, 1639838059,
        3567671892, 1079694807, 2756436880, 904525542, 640293217, 3307449008, 1923009182, 1139346759,
        3128962950, 1421256250, 2510996487, 1781123251, 503838438, 1619107971, 3155804131, 4292467893, 224,
        0, 0, 0, 0, 0, 0, 0, 2147483648, 1717646135, 1630878001, 1698117474, 808531255, 1700946275,
        1768910381, 1936028531]"
  "nschedule 24 [222396620, 3916714194, 3431797319, 2311303380, 2913114935, 4285654057, 3397727061,
      1639838059, 3567671892, 1079694807, 2756436880, 904525542, 640293217, 3307449008, 1923009182,
      1139346759, 3128962950, 1421256250, 2510996487, 1781123251, 503838438, 1619107971, 3155804131,
      4292467893, 224, 0, 0, 0, 0, 0, 0, 0, 2147483648, 1717646135, 1630878001, 1698117474, 808531255,
      1700946275, 1768910381, 1936028531] =
    [3259984986, 3275579574, 1415374652, 3738018174, 1586537238, 103511430, 3130151126, 3105592295,
        3796248085, 680983512, 2087973624, 1510728853, 1965208213, 2858042272, 3695304133, 2527099959,
        3067246081, 4095257394, 2485129596, 2650013300, 2634862756, 1723117745, 4128213370, 818490749,
        222396620, 3916714194, 3431797319, 2311303380, 2913114935, 4285654057, 3397727061, 1639838059,
        3567671892, 1079694807, 2756436880, 904525542, 640293217, 3307449008, 1923009182, 1139346759,
        3128962950, 1421256250, 2510996487, 1781123251, 503838438, 1619107971, 3155804131, 4292467893, 224,
        0, 0, 0, 0, 0, 0, 0, 2147483648, 1717646135, 1630878001, 1698117474, 808531255, 1700946275,
        1768910381, 1936028531]"
  by (simp_all add: nschedule_numeral nword_def nrot_def)

lemma branch_first:
  "fold nround (zip nk_first [1936028531, 1768910381, 1700946275, 808531255, 1698117474, 1630878001,
      1717646135, 2147483648, 0, 0, 0, 0, 0, 0, 0, 224, 4292467893, 3155804131, 1619107971, 503838438,
      1781123251, 2510996487, 1421256250, 3128962950, 1139346759, 1923009182, 3307449008, 640293217,
      904525542, 2756436880, 1079694807, 3567671892]) ninit =
    [3413981630, 3530371818, 18458319, 553780309, 2556612102, 2302957190, 2366736939, 3832043794]"
  by (simp add: nk_first_def ninit_def nrot_def)

lemma branch_last:
  "fold nround (zip nk_last [1639838059, 3397727061, 4285654057, 2913114935, 2311303380, 3431797319,
      3916714194, 222396620, 818490749, 4128213370, 1723117745, 2634862756, 2650013300, 2485129596,
      4095257394, 3067246081, 2527099959, 3695304133, 2858042272, 1965208213, 1510728853, 2087973624,
      680983512, 3796248085, 3105592295, 3130151126, 103511430, 1586537238, 3738018174, 1415374652,
      3275579574, 3259984986])
    [3413981630, 3530371818, 18458319, 553780309, 2556612102, 2302957190, 2366736939, 3832043794] =
    [1917491980, 1197397640, 3830259202, 1443273415, 1178532744, 2816804046, 4259136193, 3206524960]"
  by (simp add: nk_last_def nrot_def)

lemma branch_words: "sha256_words ''session-ebac0157e77ba591fa37'' = map wd [3696525683, 46564621,
    549196148, 4216754177, 2538425863, 1122659674, 492903532, 453016889]"
proof (rule one_block)
  show "be_words (sha_pad (map of_char ''session-ebac0157e77ba591fa37'')) = map wd [1936028531, 1768910381,
      1700946275, 808531255, 1698117474, 1630878001, 1717646135, 2147483648, 0, 0, 0, 0, 0, 0, 0, 224]"
    by (simp add: sha_pad_def wd_def Let_def upt_rec replicate_numeral_nat)
  show "nschedule 24 (rev [1936028531, 1768910381, 1700946275, 808531255, 1698117474, 1630878001,
      1717646135, 2147483648, 0, 0, 0, 0, 0, 0, 0, 224]) = [222396620, 3916714194, 3431797319, 2311303380,
      2913114935, 4285654057, 3397727061, 1639838059, 3567671892, 1079694807, 2756436880, 904525542,
      640293217, 3307449008, 1923009182, 1139346759, 3128962950, 1421256250, 2510996487, 1781123251,
      503838438, 1619107971, 3155804131, 4292467893, 224, 0, 0, 0, 0, 0, 0, 0, 2147483648, 1717646135,
      1630878001, 1698117474, 808531255, 1700946275, 1768910381, 1936028531]"
    unfolding rev.simps append.simps by (rule branch_schedule)
  show "nschedule 24 [222396620, 3916714194, 3431797319, 2311303380, 2913114935, 4285654057, 3397727061,
      1639838059, 3567671892, 1079694807, 2756436880, 904525542, 640293217, 3307449008, 1923009182,
      1139346759, 3128962950, 1421256250, 2510996487, 1781123251, 503838438, 1619107971, 3155804131,
      4292467893, 224, 0, 0, 0, 0, 0, 0, 0, 2147483648, 1717646135, 1630878001, 1698117474, 808531255,
      1700946275, 1768910381, 1936028531] = rev ([1936028531, 1768910381, 1700946275, 808531255, 1698117474,
      1630878001, 1717646135, 2147483648, 0, 0, 0, 0, 0, 0, 0, 224, 4292467893, 3155804131, 1619107971,
      503838438, 1781123251, 2510996487, 1421256250, 3128962950, 1139346759, 1923009182, 3307449008,
      640293217, 904525542, 2756436880, 1079694807, 3567671892] @ [1639838059, 3397727061, 4285654057,
      2913114935, 2311303380, 3431797319, 3916714194, 222396620, 818490749, 4128213370, 1723117745,
      2634862756, 2650013300, 2485129596, 4095257394, 3067246081, 2527099959, 3695304133, 2858042272,
      1965208213, 1510728853, 2087973624, 680983512, 3796248085, 3105592295, 3130151126, 103511430,
      1586537238, 3738018174, 1415374652, 3275579574, 3259984986])"
    unfolding branch_schedule by simp
qed (rule branch_first branch_last | simp add: small_def ninit_def)+

section \<open>Names\<close>

lemma wd_hex: "n < 4294967296 \<Longrightarrow> hex_word (wd n) = map (\<lambda>i. hex_digit (n div 16 ^ (7
    - i) mod 16)) [0..<8]"
  by (simp add: hex_word_def wd_def unsigned_of_nat take_bit_eq_mod)

lemma digest_words: "sha256_words s = map wd ns \<Longrightarrow> small ns \<Longrightarrow>
    digest s n = take n (concat (map (\<lambda>m. map (\<lambda>i. hex_digit (m div 16 ^ (7 - i) mod 16))
        [0..<8]) ns))"
proof -
  assume w: "sha256_words s = map wd ns" and "small ns"
  then have "map hex_word (map wd ns) = map (\<lambda>m. map (\<lambda>i. hex_digit (m div 16 ^ (7 - i) mod
      16)) [0..<8]) ns"
    by (auto simp: small_def list_all_iff wd_hex)
  then show ?thesis by (simp only: digest_def sha256_hex_def w)
qed

lemma hex_digits:
  "hex_digit 0 = CHR ''0''" "hex_digit (Suc 0) = CHR ''1''" "hex_digit 2 = CHR ''2''" "hex_digit 3 = CHR
      ''3''"
  "hex_digit 4 = CHR ''4''" "hex_digit 5 = CHR ''5''" "hex_digit 6 = CHR ''6''" "hex_digit 7 = CHR ''7''"
  "hex_digit 8 = CHR ''8''" "hex_digit 9 = CHR ''9''" "hex_digit 10 = CHR ''a''" "hex_digit 11 = CHR ''b''"
  "hex_digit 12 = CHR ''c''" "hex_digit 13 = CHR ''d''" "hex_digit 14 = CHR ''e''" "hex_digit 15 = CHR ''f''"
  by code_simp+

lemma source_main_name: "main_sandbox_name ''s1'' = ''dorf-e8bc163c82eee1873328''"
  by (simp add: main_sandbox_name_def digest_words [OF source_words] small_def upt_rec hex_digits)

lemma branch_session_id: "session_id ''checkpoint-branch:br1'' = ''session-ebac0157e77ba591fa37''"
  by (simp add: session_id_def digest_words [OF key_words] small_def upt_rec hex_digits)

lemma branch_main_name: "main_sandbox_name ''session-ebac0157e77ba591fa37'' = ''dorf-dc54817302c6850d20bc''"
  by (simp add: main_sandbox_name_def digest_words [OF branch_words] small_def upt_rec hex_digits)

end
