(* ===== verification/Demo_Branches.thy ===== *)
theory Demo_Branches
  imports Demo_Checkpoints Demo_Digests
begin

text \<open>
  A Session whose main Sandbox has a checkpoint behind native work, and the run that admits a
  branch of it. The names of Sandboxes are digests, so they are evaluated.
\<close>

definition demo_branchable :: db where
  "demo_branchable = demo_db\<lparr>
     sessions := [demo_session\<lparr>s_revision := 1\<rparr>],
     sandboxes := [demo_sandbox\<lparr>b_id := main_sandbox_name ''s1''\<rparr>],
     resources := [demo_resource\<lparr>r_sandbox := main_sandbox_name ''s1''\<rparr>],
     checkpoints := [demo_checkpoint\<lparr>c_sandbox := main_sandbox_name ''s1'', c_revision := 1\<rparr>]\<rparr>"

lemma demo_branchable_inv: "db_inv demo_branchable"
  by (simp add: demo_branchable_def demo_checkpoint_defs demo_inv_defs)

lemma demo_branch_key: "branch_key ''br1'' = ''checkpoint-branch:br1''"
  by (simp add: branch_key_def)

lemma demo_branches:
  "\<exists>x e. request_checkpoint_branch quiet_env (Inr demo_nonce) ''q'' demo_branch_request demo_branchable = (Inr x, e)"
proof -
  have n: "hex64 demo_nonce" by (simp add: demo_nonce_def)
  have t: "valid_text ''checkpoint-branch:br1''" "valid_text []" "valid_text ''c''" "valid_text ''m''" "valid_text ''prof''"
    "valid_text ''low''"
    by (rule valid_text_ascii, simp)+
  have "valid_text (session_id ''checkpoint-branch:br1'')" by (rule session_id_text)
  note t' = this [unfolded branch_session_id]
  have i: "trim_space ''br1'' = ''br1''" by code_simp
  have v: "validate_branch_request demo_branch_request = None"
    by (simp add: validate_branch_request_def exact_within_def demo_branch_request_def demo_trims i)
  show ?thesis
    by (simp add: request_checkpoint_branch_def v [unfolded demo_branch_request_def] demo_branch_key branch_session_id demo_branch_request_def Let_def
        demo_runs q_get_admitted_def authorize_branch_source_def demo_reads demo_branchable_def demo_checkpoint_defs
        demo_defs source_main_name q_insert_admitted_session_def branch_admission_def t t' blank_text_def valid_effort_def
        persist_new_branch_def branch_main_name reserve_admitted_sandbox_def q_reserve_sandbox_def n initial_resource_id_def
        demo_nonce_fresh q_bind_branch_thread_def nullif_empty_def max_int64_def q_insert_delivery_hold_def
        q_insert_branch_def schedule_session_task_def q_current_task_for_update_def find_task_state_def
        spawn_session_task_def quiet_env_def attach_session_task_def validate_task_attachment_state_def
        q_insert_session_task_def direct_task_name_def checkpoint_branch_def q_get_branch_def find_branch_def
        branch_held_def branch_reference_def branch_receipt_of_def)
qed

end
