(* ===== verification/Checkpoint_Capture.thy ===== *)
theory Checkpoint_Capture
  imports Execution_Stack Persistence_Service
begin

text \<open>
  Saving a Sandbox through its provider (\<open>cmd/dorf/persistence_capture.go\<close>): the guest is kept
  awake, a native guard covers the copy, and guard and copy are removed whatever happens. Before
  a cleanup deletes a Sandbox it is saved, unless the provider no longer has it
  (\<open>persistence_cleanup.go\<close>). The Codex guard and restic are parameters. A provider with scoped
  access is used through the capability it hands out.
\<close>

record capture_guard =
  cg_id :: string
  cg_paths :: "string list"

record 'w checkpoint_capture =
  cc_repository :: string
  cc_additional_paths :: "string list"
  cc_runtime :: "'w task_runtime"
  cc_awake :: "string \<Rightarrow> ('w, unit) act" \<comment> \<open>the shared power lock\<close>
  cc_scoped :: "ownership \<Rightarrow> ('w, 'w sandbox_provider) act"
  cc_begin :: "'w sandbox_provider \<Rightarrow> ownership \<Rightarrow> string \<Rightarrow> string list \<Rightarrow> ('w, capture_guard) act"
  cc_copy :: "'w sandbox_provider \<Rightarrow> ownership \<Rightarrow> capture_guard \<Rightarrow> ('w, string) act"
  cc_finish :: "'w sandbox_provider \<Rightarrow> ownership \<Rightarrow> capture_guard \<Rightarrow> ('w, unit) act"
  cc_remove :: "'w sandbox_provider \<Rightarrow> ownership \<Rightarrow> capture_guard \<Rightarrow> ('w, unit) act"
  cc_cancel :: "'w sandbox_provider \<Rightarrow> ownership \<Rightarrow> capture_guard \<Rightarrow> ('w, unit) act"
  cc_initialize :: "'w sandbox_provider \<Rightarrow> ownership \<Rightarrow> ('w, unit) act"
  cc_backup :: "'w sandbox_provider \<Rightarrow> ownership \<Rightarrow> string \<Rightarrow> string list \<Rightarrow> ('w, string) act"

definition pause_reserve :: nat where
  \<comment> \<open>fifteen seconds of the database clock\<close>
  "pause_reserve = 15000000"

definition capture_deadline :: "capture_boundary \<Rightarrow> nat" where
  "capture_deadline b = (case cb_last_activity b of None \<Rightarrow> 0 | Some a \<Rightarrow> a + (idle_grace - pause_reserve))"

definition capture_in_time :: "bool \<Rightarrow> capture_boundary \<Rightarrow> nat \<Rightarrow> bool" where
  \<comment> \<open>the guest cannot become eligible for a pause while it is captured\<close>
  "capture_in_time keep b t = (keep \<or> cb_cleanup b \<or> t < capture_deadline b)"

definition deferred :: "('s, 'a) act \<Rightarrow> ('s, unit) act \<Rightarrow> ('s, 'a) act" where
  \<comment> \<open>\<open>defer\<close> of a call whose error is dropped\<close>
  "deferred m clean = bnd (attempt m) (\<lambda>r. seq (attempt clean) (lift r))"

definition capture_owned ::
  "'w checkpoint_capture \<Rightarrow> 'w sandbox_provider \<Rightarrow> capture_boundary \<Rightarrow> ownership \<Rightarrow> ('w, unit) eff option \<Rightarrow>
    ('w, snapshot_reference) eff" where
  "capture_owned cc p b owner copied =
    bnd (on_db (store_session (cb_session b))) (\<lambda>j.
    bnd (on_ext (cc_begin cc p owner (thread_id j) (cc_additional_paths cc))) (\<lambda>g.
    deferred
     (deferred
       (bnd (on_ext (cc_copy cc p owner g)) (\<lambda>root.
        seq (on_ext (cc_finish cc p owner g))
       (seq (case copied of None \<Rightarrow> ret () | Some report \<Rightarrow> report)
       (seq (on_ext (cc_initialize cc p owner))
       (bnd (on_ext (cc_backup cc p owner root (cg_paths g))) (\<lambda>snap.
        ret \<lparr>ref_repository = cc_repository cc, ref_snapshot = snap\<rparr>))))))
       (on_ext (cc_remove cc p owner g)))
     (on_ext (cc_cancel cc p owner g))))"

definition capture_awake ::
  "'w checkpoint_capture \<Rightarrow> capture_boundary \<Rightarrow> ('w, unit) eff option \<Rightarrow> ('w, snapshot_reference) eff" where
  "capture_awake cc b copied =
    bnd (on_db (store_session (cb_session b))) (\<lambda>j.
    bnd (on_db clock) (\<lambda>t.
    seq (require (capture_in_time (keep_running j \<or> copied \<noteq> None) b t) (Sentinel ErrCheckpointIneligible))
   (bnd (on_db (store_sandbox (cb_sandbox b))) (\<lambda>owned.
    seq (require (\<not> (sb_session_id owned \<noteq> cb_session b \<or> sb_resource_id owned \<noteq> cb_resource b))
          (Sentinel ErrCheckpointSuperseded))
   (bnd (on_ext (cc_scoped cc (ownership_metadata owned))) (\<lambda>p.
    capture_owned cc p b (ownership_metadata owned) copied))))))"

definition provider_capture ::
  "'w checkpoint_capture \<Rightarrow> capture_boundary \<Rightarrow> ('w, unit) eff option \<Rightarrow> ('w, snapshot_reference) eff" where
  "provider_capture cc b copied =
    seq (on_ext (cc_awake cc (cb_session b)))
   (bnd (attempt (capture_awake cc b copied)) (fence_release (cc_runtime cc) (cb_session b)))"

section \<open>Before cleanup\<close>

text \<open>\<open>resolve\<close> constructs the provider of a pinned profile, \<open>service\<close> the capture service of a boundary.\<close>

definition capture_before_cleanup ::
  "(sandbox_profile \<Rightarrow> err + 'w sandbox_provider) \<Rightarrow> (capture_boundary \<Rightarrow> ('w, 'w capture_service) eff) \<Rightarrow> string \<Rightarrow>
    session \<Rightarrow> sandbox \<Rightarrow> ('w, unit) eff" where
  "capture_before_cleanup resolve service uuid j owned =
    bnd (on_db (profile_revision (profile_ref_of j))) (\<lambda>p.
    bnd (lift (resolve p)) (\<lambda>box.
    bnd (on_db (store_boundary (sb_id owned) True)) (\<lambda>b.
    bnd (service b) (\<lambda>svc.
    bnd (on_ext (box_present box (ownership_metadata owned))) (\<lambda>present.
    if \<not> present then ret ()
    else bnd (capture_now svc uuid (sb_id owned) True) (\<lambda>_. ret ()))))))"

end
