(* ===== verification/Runtime_Resolver.thy ===== *)
theory Runtime_Resolver
  imports Checkpoint_Capture Stack_Laws
begin

text \<open>
  How a worker resolves a pinned profile to the services that run its Sessions
  (\<open>cmd/dorf/runtime.go\<close>, \<open>runtime_upgrade.go\<close>, \<open>persistence_capture.go\<close>, \<open>persistence_recovery.go\<close>):
  a Codex profile runs behind upgrades, and behind checkpoints where the checkpoint file enables
  it. The providers of \<open>sandboxForProfile\<close>, the agents, the gateway and the checkpoint file are
  parameters. The section at the end discharges the contract \<open>checkpoint_stack\<close> for what the
  resolver builds.
\<close>

text \<open>The fields of the checkpoint file the worker reads, besides the credentials of restic.\<close>

record checkpoint_config =
  kc_id :: string
  kc_profile_name :: string
  kc_profile_revision :: string
  kc_additional_paths :: "string list"
  kc_idle_delay_seconds :: int

definition config_enabled :: "checkpoint_config \<Rightarrow> profile_ref \<Rightarrow> bool" where
  "config_enabled c ref =
    (pr_name ref = kc_profile_name c \<and> (kc_profile_revision c = ''*'' \<or> pr_revision ref = kc_profile_revision c))"

record 'w profile_resolver =
  pv_config :: "('w, checkpoint_config option) act" \<comment> \<open>\<open>readCheckpointConfig\<close>\<close>
  pv_sandbox :: "sandbox_profile \<Rightarrow> err + 'w sandbox_provider" \<comment> \<open>\<open>sandboxForProfile\<close>\<close>
  pv_gateway :: "'w gateway"
  pv_agent :: "'w sandbox_provider \<Rightarrow> 'w codex_agent"
  pv_codex :: "'w sandbox_provider \<Rightarrow> 'w harness"
  pv_pi :: "'w sandbox_provider \<Rightarrow> 'w harness"
  pv_owner :: "string \<Rightarrow> ('w, ownership) act"
  pv_native :: "'w native_driver" \<comment> \<open>the scripts and the probe count of the upgrade driver\<close>
  pv_package_script :: string
  pv_quote :: "string \<Rightarrow> string"
  pv_write_script :: string
  pv_restic :: "checkpoint_config \<Rightarrow> 'w sandbox_provider \<Rightarrow> 'w checkpoint_capture" \<comment> \<open>restic, the capture guards and the power lock\<close>
  pv_restore_files :: "checkpoint_config \<Rightarrow> 'w sandbox_provider \<Rightarrow> ownership \<Rightarrow> ownership \<Rightarrow> string \<Rightarrow> ('w, unit) act"
  pv_runtime :: "'w task_runtime"
  pv_claim :: "('w, unit) act"
  pv_barrier :: "(string \<Rightarrow> string \<Rightarrow> string \<Rightarrow> ('w, unit) act) option"
  pv_watch :: "capture_boundary \<Rightarrow> ('w, watch_outcome) act"
  pv_nonce :: "('w, string) act"
  pv_uuid :: string
  pv_queue :: "string option" \<comment> \<open>of the Absurd client, where there is one\<close>
  pv_env :: absurd_env
  pv_error_text :: "err \<Rightarrow> string"

section \<open>The base runtime\<close>

record 'w base_runtime =
  bt_profile :: profile_ref
  bt_execution :: "'w execution"
  bt_externals :: "'w externals"
  bt_sandbox :: "'w sandbox_provider"

definition externals_execution :: "'w profile_resolver \<Rightarrow> 'w externals \<Rightarrow> 'w execution" where
  \<comment> \<open>\<open>NewExecutionService\<close> over the terminal externals, which can pause and observe\<close>
  "externals_execution pv e =
    \<lparr>es_runtime = pv_runtime pv, es_claim = Some (pv_claim pv), es_barrier = pv_barrier pv, es_create = sandbox_create e,
     es_route_create = route_create e, es_route_revoke = route_revoke e, es_delete = sandbox_delete e,
     es_pause = Some (sandbox_pause e),
     es_native = Some \<lparr>na_idle = externals_idle e, na_turns = read_native_turns e\<rparr>, es_error_text = pv_error_text pv\<rparr>"

definition resolver_agent :: "'w profile_resolver \<Rightarrow> sandbox_profile \<Rightarrow> 'w sandbox_provider \<Rightarrow> err + 'w harness" where
  "resolver_agent pv p box =
    (if p_harness p = ''codex'' then Inr (pv_codex pv box)
     else if p_harness p = ''pi'' then Inr (pv_pi pv box)
     else Inl (Errorf ''unsupported Harness in Sandbox profile''))"

definition resolver_externals :: "'w profile_resolver \<Rightarrow> 'w sandbox_provider \<Rightarrow> 'w harness \<Rightarrow> 'w externals" where
  "resolver_externals pv box agent =
    \<lparr>ex_sandbox = box, ex_gateway = pv_gateway pv, ex_agent = agent, ex_owner = Some (pv_owner pv),
     ex_quote = pv_quote pv, ex_script = pv_write_script pv\<rparr>"

definition resolve_base :: "'w profile_resolver \<Rightarrow> profile_ref \<Rightarrow> ('w, 'w base_runtime) eff" where
  "resolve_base pv ref =
    bnd (on_db (profile_revision ref)) (\<lambda>p.
    bnd (lift (pv_sandbox pv p)) (\<lambda>box.
    bnd (lift (resolver_agent pv p box)) (\<lambda>agent.
    let e = resolver_externals pv box agent in
    ret \<lparr>bt_profile = ref_of_profile p, bt_execution = externals_execution pv e,
         bt_externals = e, bt_sandbox = box\<rparr>)))"

section \<open>Upgrades\<close>

definition queue_name :: "'w profile_resolver \<Rightarrow> string" where
  "queue_name pv = (case pv_queue pv of None \<Rightarrow> [] | Some q \<Rightarrow> q)"

definition resolver_upgrades :: "'w profile_resolver \<Rightarrow> 'w base_runtime \<Rightarrow> ('w, 'w upgrade_execution) eff" where
  "resolver_upgrades pv resolved =
    bnd (on_db (profile_revision (bt_profile resolved))) (\<lambda>p.
    case (if p_harness p = ''codex'' then box_checkpointer (bt_sandbox resolved) else None) of
      None \<Rightarrow> fail (Errorf ''profile does not support verified Codex package upgrades'')
    | Some ck \<Rightarrow>
        ret \<lparr>ue_core = bt_execution resolved,
             ue_upgrades = \<lparr>us_driver = native_upgrade_driver ((pv_native pv)
                 \<lparr>nd_sandbox := bt_sandbox resolved, nd_checkpointer := ck, nd_agent := pv_agent pv (bt_sandbox resolved),
                  nd_replace := (p_provider p = ''e2b'')\<rparr>),
               us_queue = queue_name pv, us_env = pv_env pv, us_claim = Some (pv_claim pv), us_nonce = pv_nonce pv\<rparr>\<rparr>)"

section \<open>Checkpoints\<close>

definition checkpoint_provider ::
  "'w profile_resolver \<Rightarrow> profile_ref \<Rightarrow> err \<Rightarrow> err \<Rightarrow> ('w, checkpoint_config \<times> 'w sandbox_provider) eff" where
  \<comment> \<open>what the capture service and the recovery driver have in common; the errors differ\<close>
  "checkpoint_provider pv ref unconfigured other =
    bnd (on_ext (pv_config pv)) (\<lambda>cfg. case cfg of None \<Rightarrow> fail unconfigured
    | Some c \<Rightarrow>
        seq (require (config_enabled c ref) unconfigured)
       (bnd (on_db (profile_revision ref)) (\<lambda>p.
        seq (require (\<not> (p_harness p \<noteq> ''codex'' \<or> p_provider p \<noteq> ''e2b'')) other)
       (bnd (lift (pv_sandbox pv p)) (\<lambda>box. ret (c, box))))))"

definition resolver_driver :: "'w profile_resolver \<Rightarrow> profile_ref \<Rightarrow> ('w, 'w checkpoint_driver) eff" where
  "resolver_driver pv ref =
    bnd (checkpoint_provider pv ref (Errorf ''checkpoint recovery profile is not configured'')
          (Errorf ''checkpoint recovery requires the configured Codex E2B profile'')) (\<lambda>(c, box).
    ret \<lparr>cr_repository = kc_id c, cr_sandbox = box, cr_agent = pv_agent pv box,
         cr_externals = (resolver_externals pv box (pv_codex pv box))\<lparr>ex_owner := None\<rparr>,
         cr_restore_files = pv_restore_files pv c box, cr_package_script = pv_package_script pv\<rparr>)"

definition resolver_capture :: "'w profile_resolver \<Rightarrow> checkpoint_config \<Rightarrow> 'w sandbox_provider \<Rightarrow> 'w checkpoint_capture" where
  "resolver_capture pv c box =
    (pv_restic pv c box)\<lparr>cc_repository := kc_id c, cc_additional_paths := kc_additional_paths c, cc_runtime := pv_runtime pv\<rparr>"

definition resolver_capture_driver :: "'w checkpoint_capture \<Rightarrow> 'w capture_driver" where
  \<comment> \<open>\<open>Capture\<close> and \<open>CaptureCopy\<close>; a capture that returned has made its report, and the report was accepted\<close>
  "resolver_capture_driver cc =
    \<lparr>cd_capture = (\<lambda>b. provider_capture cc b None),
     cd_copy = Some (\<lambda>b copied. bnd (provider_capture cc b (Some copied)) (\<lambda>ref. ret (ref, True)))\<rparr>"

definition resolver_service :: "'w profile_resolver \<Rightarrow> capture_boundary \<Rightarrow> ('w, 'w capture_service) eff" where
  "resolver_service pv b =
    bnd (checkpoint_provider pv \<lparr>pr_name = cb_profile b, pr_revision = cb_profile_revision b\<rparr>
          (Errorf ''checkpoint profile is not configured'')
          (Errorf ''checkpoint capture requires the configured Codex E2B profile'')) (\<lambda>(c, box).
    ret \<lparr>cs_driver = Some (resolver_capture_driver (resolver_capture pv c box)),
         cs_idle_delay = kc_idle_delay_seconds c * second, cs_claim = Some (pv_claim pv), cs_watch = pv_watch pv\<rparr>)"

definition resolver_checkpoints :: "'w profile_resolver \<Rightarrow> 'w upgrade_execution \<Rightarrow> 'w checkpoint_execution" where
  "resolver_checkpoints pv ue =
    \<lparr>xe_upgrade = ue, xe_driver = resolver_driver pv, xe_env = pv_env pv, xe_queue = queue_name pv,
     xe_capture = capture_before_cleanup (pv_sandbox pv) (resolver_service pv) (pv_uuid pv)\<rparr>"

section \<open>What a worker runs\<close>

definition resolve_execution ::
  "'w profile_resolver \<Rightarrow> ('w execution \<Rightarrow> 'a) \<Rightarrow> ('w upgrade_execution \<Rightarrow> 'a) \<Rightarrow> ('w checkpoint_execution \<Rightarrow> 'a) \<Rightarrow>
    profile_ref \<Rightarrow> ('w, profile_ref \<times> 'a) eff" where
  \<comment> \<open>the body \<open>ResolveCleanup\<close> and \<open>ResolveDirect\<close> share\<close>
  "resolve_execution pv core upgraded checkpointed ref =
    bnd (resolve_base pv ref) (\<lambda>resolved.
    bnd (on_db (profile_revision ref)) (\<lambda>p.
    if p_harness p \<noteq> ''codex'' then ret (bt_profile resolved, core (bt_execution resolved))
    else
      bnd (resolver_upgrades pv resolved) (\<lambda>ue.
      bnd (on_ext (pv_config pv)) (\<lambda>cfg.
      ret (bt_profile resolved,
           if (case cfg of None \<Rightarrow> False | Some c \<Rightarrow> config_enabled c ref)
           then checkpointed (resolver_checkpoints pv ue) else upgraded ue)))))"

definition resolve_cleanup :: "'w profile_resolver \<Rightarrow> profile_ref \<Rightarrow> ('w, profile_ref \<times> 'w cleanup_execution) eff" where
  "resolve_cleanup pv = resolve_execution pv core_cleanup upgrade_cleanup checkpoint_cleanup"

definition resolve_direct :: "'w profile_resolver \<Rightarrow> profile_ref \<Rightarrow> ('w, profile_ref \<times> 'w direct_execution) eff" where
  "resolve_direct pv = resolve_execution pv core_direct upgrade_direct checkpoint_direct"

section \<open>The worker's executions satisfy their contracts\<close>

lemma keeps_profile_revision [keeps_intros]: "keeps I (profile_revision ref)"
  unfolding profile_revision_def by (intro keeps_intros)

lemma keeps_deferred [keeps_intros]: "keeps I m \<Longrightarrow> keeps I clean \<Longrightarrow> keeps I (deferred m clean)"
  unfolding deferred_def by (intro keeps_intros)

lemma keeps_provider_capture:
  assumes "\<And>r. copied = Some r \<Longrightarrow> keeps db_ok r"
  shows "keeps db_ok (provider_capture cc b copied)"
proof -
  have report: "keeps db_ok (case copied of None \<Rightarrow> ret () | Some r \<Rightarrow> r)"
    using assms by (auto split: option.split intro: keeps_intros)
  show ?thesis
    unfolding provider_capture_def capture_awake_def capture_owned_def by (intro keeps_intros report)
qed

lemma keeps_capture_claim [keeps_intros]: "keeps db_ok (capture_claim svc)"
  unfolding capture_claim_def by (intro keeps_intros)

lemma keeps_capture_outcome [keeps_intros]: "keeps db_ok (capture_outcome svc uuid b watch r)"
  by (cases watch; cases r) (auto simp: capture_outcome_def capture_publish_def intro!: keeps_intros)

lemma keeps_capture_now:
  assumes "\<And>drv b. cs_driver svc = Some drv \<Longrightarrow> keeps db_ok (cd_capture drv b)"
  shows "keeps db_ok (capture_now svc uuid bid c)"
  by (cases "cs_driver svc") (auto simp: capture_now_def intro!: keeps_intros assms)

lemma keeps_checkpoint_provider [keeps_intros]: "keeps db_ok (checkpoint_provider pv ref e1 e2)"
  unfolding checkpoint_provider_def by (intro keeps_intros)

lemma keeps_resolver_driver: "keeps db_ok (resolver_driver pv ref)"
  unfolding resolver_driver_def by (intro keeps_intros)

lemma bnd_ret [simp]: "bnd (ret x) f = f x"
  by (simp add: bnd_def ret_def fun_eq_iff)

lemma keeps_resolver_capture: "keeps db_ok (capture_before_cleanup resolve (resolver_service pv) uuid j b)"
  unfolding capture_before_cleanup_def resolver_service_def bnd_assoc case_prod_unfold bnd_ret
  by (intro keeps_intros keeps_capture_now) (auto simp: resolver_capture_driver_def intro: keeps_provider_capture)

interpretation resolved_stack: checkpoint_stack "resolver_checkpoints pv ue" for pv ue
  by unfold_locales (simp_all add: resolver_checkpoints_def keeps_resolver_driver keeps_resolver_capture)

text \<open>Whatever the resolver chooses for a cleanup meets the contract of the cleanup task.\<close>

lemma wp_any: "(\<And>x t. Q x t) \<Longrightarrow> wp m Q (\<lambda>_ _. True) s"
  by (auto simp: wp_def split: prod.splits sum.splits)

lemma resolved_execution:
  assumes "\<And>ex. P (core ex)" and "\<And>ue. P (upgraded ue)" and "\<And>ue. P (checkpointed (resolver_checkpoints pv ue))"
  shows "wp (resolve_execution pv core upgraded checkpointed ref) (\<lambda>r _. P (snd r)) (\<lambda>_ _. True) w"
proof -
  have chosen: "wp (bnd (resolver_upgrades pv base) (\<lambda>ue. bnd (on_ext (pv_config pv)) (\<lambda>cfg.
      ret (bt_profile base, if c cfg then checkpointed (resolver_checkpoints pv ue) else upgraded ue))))
      (\<lambda>r _. P (snd r)) (\<lambda>_ _. True) t" for base c t
    unfolding wp_bnd by (rule wp_any, rule wp_any) (simp add: wp_ret assms)
  show ?thesis
    unfolding resolve_execution_def wp_bnd [of "resolve_base _ _"] wp_bnd [of "on_db _"]
    by (rule wp_any, rule wp_any) (simp add: wp_ret chosen assms)
qed

lemma resolved_cleanup: "wp (resolve_cleanup pv ref) (\<lambda>r _. cleanup_service (snd r)) (\<lambda>_ _. True) w"
  unfolding resolve_cleanup_def
  by (rule resolved_execution)
    (rule core_cleaner.cleanup_service_axioms upgrade_cleaner.cleanup_service_axioms
      resolved_stack.cleaner.cleanup_service_axioms)+

end
