(* ===== verification/Profile_Verify.thy ===== *)
theory Profile_Verify
  imports Terminal_Externals Core_Application
begin

text \<open>
  The functional qualification of a profile (\<open>internal/profile/verify.go\<close>): one disposable
  resource is created, probed and deleted; the profile is eligible for new Sessions only when
  probe and deletion are recorded and no failure is. The construction of a runtime and its
  provider are parameters; \<open>text\<close> is the message of an error.
\<close>

record 'w profile_verifier =
  pf_construct :: "(sandbox_profile \<Rightarrow> err + 'w sandbox_provider) option"
  pf_acquired :: bool \<comment> \<open>the advisory lock of the name was free\<close>
  pf_nonce :: "err + string"
  pf_script :: string
  pf_text :: "err \<Rightarrow> string"

definition clean_verification :: "'w sandbox_provider \<Rightarrow> ownership \<Rightarrow> ('w, unit) act" where
  "clean_verification p owner =
    bnd (attempt (box_delete p owner)) (\<lambda>r. case r of
      Inl e \<Rightarrow> fail (Wrapf ''delete verification Sandbox'' e)
    | Inr _ \<Rightarrow>
        bnd (attempt (box_present p owner)) (\<lambda>r. case r of
          Inl e \<Rightarrow> fail (Wrapf ''confirm verification Sandbox absence'' e)
        | Inr present \<Rightarrow> require (\<not> present) (Errorf ''verification Sandbox remains after exact deletion'')))"

definition record_failure :: "'w profile_verifier \<Rightarrow> profile_verification \<Rightarrow> err \<Rightarrow> ('w, 'a) eff" where
  "record_failure pf v e =
    bnd (attempt (on_db (record_verification_error v (Some (pf_text pf e))))) (\<lambda>r. case r of
      Inl re \<Rightarrow> fail (Wrapf ''record verification failure'' re)
    | Inr _ \<Rightarrow> fail e)"

definition fail_and_clean ::
  "'w profile_verifier \<Rightarrow> 'w sandbox_provider \<Rightarrow> profile_verification \<Rightarrow> ownership \<Rightarrow> err \<Rightarrow> ('w, 'a) eff" where
  "fail_and_clean pf p v owner e =
    bnd (attempt (seq (on_ext (clean_verification p owner)) (on_db (record_verification_cleanup v)))) (\<lambda>r.
    record_failure pf v (case r of Inl c \<Rightarrow> Wrapf ''cleanup verification Sandbox'' c | Inr _ \<Rightarrow> e))"

definition base_probe ::
  "'w profile_verifier \<Rightarrow> 'w sandbox_provider \<Rightarrow> ownership \<Rightarrow> string \<Rightarrow> string \<Rightarrow> string \<Rightarrow> ('w, string) act" where
  \<comment> \<open>\<open>runBaseProbe\<close>\<close>
  "base_probe pf p owner harness put_probe read_probe =
    bnd (attempt (box_exec p owner [] [''bash'', ''-lc'', pf_script pf, ''dorf-profile-'' @ base_profile_contract,
          box_workspace p, harness, put_probe, ''dorf-'' @ base_profile_contract, read_probe])) (\<lambda>r. case r of
      Inl e \<Rightarrow> fail (Wrapf ''run profile probe'' e)
    | Inr x \<Rightarrow>
        seq (require (xr_exit x = 0) (Errorf ''profile probe failed''))
       (let version = trim_space (xr_stdout x) in
        seq (require (\<not> (version = [] \<or> newline \<in> set version)) (Errorf ''profile probe returned an invalid Harness version''))
            (ret version)))"

definition read_expected :: string where
  "read_expected = map char_of [100, 0, 111, 114, 102, 255, 10 :: nat]"

definition probe_resource ::
  "'w profile_verifier \<Rightarrow> 'w sandbox_provider \<Rightarrow> ownership \<Rightarrow> string \<Rightarrow> ('w, string) act" where
  \<comment> \<open>creates the resource, checks exact files and runs the probe\<close>
  "probe_resource pf p owner harness =
    (let put_probe = box_workspace p @ ''/.dorf-profile-put-file'';
         read_name = ''.dorf-profile-read-file''; read_probe = box_workspace p @ ''/'' @ read_name in
     bnd (attempt (box_create p owner)) (\<lambda>r. case r of Inl e \<Rightarrow> fail (Wrapf ''create verification Sandbox'' e) | Inr _ \<Rightarrow>
     bnd (attempt (box_put_file p owner put_probe (''dorf-'' @ base_profile_contract @ [newline]))) (\<lambda>r. case r of
       Inl e \<Rightarrow> fail (Wrapf ''run atomic file probe'' e) | Inr _ \<Rightarrow>
     bnd (attempt (box_put_file p owner read_probe read_expected)) (\<lambda>r. case r of
       Inl e \<Rightarrow> fail (Wrapf ''prepare exact file-read probe'' e) | Inr _ \<Rightarrow>
     bnd (attempt (box_read_file p owner read_name)) (\<lambda>r. case r of
       Inl e \<Rightarrow> fail (Wrapf ''run exact file-read probe'' e) | Inr observed \<Rightarrow>
     seq (require (observed = read_expected) (Errorf ''exact file-read probe returned different bytes''))
         (base_probe pf p owner harness put_probe read_probe))))))"

definition probe_if_needed ::
  "'w profile_verifier \<Rightarrow> 'w sandbox_provider \<Rightarrow> sandbox_profile \<Rightarrow> profile_verification \<Rightarrow> ownership \<Rightarrow> ('w, unit) eff" where
  "probe_if_needed pf p profile v owner =
    (if pv_probe_completed_at v \<noteq> None then ret ()
     else bnd (attempt (on_ext (probe_resource pf p owner (p_harness profile)))) (\<lambda>r. case r of
         Inl e \<Rightarrow> fail_and_clean pf p v owner e
       | Inr version \<Rightarrow>
           bnd (attempt (on_db (record_profile_probe v version))) (\<lambda>r. case r of
             Inl e \<Rightarrow> fail_and_clean pf p v owner (Wrapf ''record profile probe'' e)
           | Inr _ \<Rightarrow> ret ())))"

definition settle_verification ::
  "'w profile_verifier \<Rightarrow> 'w sandbox_provider \<Rightarrow> sandbox_profile \<Rightarrow> profile_verification \<Rightarrow> ownership \<Rightarrow>
    ('w, sandbox_profile) eff" where
  "settle_verification pf p profile v owner =
    bnd (attempt (on_ext (clean_verification p owner))) (\<lambda>r. case r of
      Inl e \<Rightarrow> bnd (attempt (on_db (record_verification_error v (Some (pf_text pf e))))) (\<lambda>_. fail e)
    | Inr _ \<Rightarrow>
        bnd (attempt (on_db (record_verification_cleanup v))) (\<lambda>r. case r of
          Inl e \<Rightarrow> fail (Wrapf ''record profile verification cleanup'' e)
        | Inr _ \<Rightarrow> on_db (profile_revision (ref_of_profile profile))))"

definition verification_owner :: "sandbox_profile \<Rightarrow> profile_verification \<Rightarrow> ownership" where
  "verification_owner p v =
    \<lparr>ow_session = ''profile:'' @ p_name p, ow_sandbox = pv_sandbox_id v, ow_nonce = pv_ownership_nonce v\<rparr>"

definition verify_base_exclusive :: "'w profile_verifier \<Rightarrow> string \<Rightarrow> ('w, sandbox_profile) eff" where
  "verify_base_exclusive pf name =
    bnd (on_db (begin_profile_verification (pf_nonce pf) name)) (\<lambda>(profile, v).
    case pf_construct pf of None \<Rightarrow> fail (Errorf ''Sandbox profile runtime construction is not configured'')
    | Some construct \<Rightarrow>
        (case construct profile of
           Inl e \<Rightarrow> record_failure pf v (Wrapf ''construct verification runtime'' e)
         | Inr p \<Rightarrow>
             seq (probe_if_needed pf p profile v (verification_owner profile v))
                 (settle_verification pf p profile v (verification_owner profile v))))"

definition verify_base :: "'w profile_verifier \<Rightarrow> string \<Rightarrow> ('w, sandbox_profile) eff" where
  "verify_base pf name = with_profile_verification (pf_acquired pf) name (verify_base_exclusive pf name)"

end
