(* ===== verification/Spec2Isabelle.thy ===== *)
theory Spec2Isabelle
  imports Upgrade_Progress Demo_Workers Demo_Branches Runtime_Resolver Profile_Verify
begin

text \<open>
  Dorf runs coding agents ("Sessions") in Sandboxes of a provider (Incus, E2B) for clients of a
  control API. PostgreSQL holds all durable state; the Absurd queue runs one task per Session;
  the services between them decide what is done next from what the database says was done. A
  worker executes provider effects only as Actions the store authorises, submits native input to
  the Harness (Codex) under a durable marker, saves Sandboxes as checkpoints, and upgrades,
  recovers and branches from receipts that each reconciliation carries one effect further.
  Observers follow the messages of a Turn through a feed the worker retains.

  Theories, in dependency order:

  \<^item> \<open>Dorf_Prelude\<close>: Go errors as values, actions with state and errors (\<open>bnd\<close>, \<open>require\<close>,
    \<open>tx\<close>), weakest preconditions \<open>wp\<close> and invariant preservation \<open>keeps\<close>.
  \<^item> \<open>Go_Strings\<close>, \<open>Go_Base64\<close>, \<open>Go_Sha256\<close>, \<open>Go_Json\<close>, \<open>Go_Json_Decode\<close>, \<open>Json_Laws\<close>: the
    parts of Go's standard library the program uses, on strings of bytes, with the round trips
    of base64 and JSON.
  \<^item> \<open>Core_Domain\<close>: \<open>internal/core\<close> data, derived identities, validation (\<open>domain.go\<close>,
    \<open>native.go\<close>, \<open>admission.go\<close>, \<open>native_lifecycle.go\<close>).
  \<^item> \<open>Sql_Tables\<close>, \<open>Postgres_State\<close>: tables as lists of rows, the statements on them, the rows
    of the \<open>dorf\<close> schema and its invariants \<open>db_inv\<close> (\<open>internal/postgres/migrations\<close>).
  \<^item> \<open>Postgres_Sessions\<close>, \<open>Postgres_Admission\<close>, \<open>Postgres_Actions\<close>, \<open>Postgres_Native\<close>,
    \<open>Postgres_Upgrades\<close>, \<open>Postgres_Checkpoints\<close>, \<open>Postgres_Recovery\<close>, \<open>Postgres_Branches\<close>,
    \<open>Postgres_Auth\<close>, \<open>Postgres_Profiles\<close>: the store, \<open>internal/postgres\<close> with \<open>dbsql\<close>; one
    definition \<open>q_...\<close> per SQL statement and one definition per Go function that composes them.
    \<open>Control_Auth\<close> is the service over the clients' tables (\<open>internal/controlauth\<close>).
  \<^item> \<open>Store_Steps\<close>, \<open>Store_Laws\<close>, \<open>Checkpoint_Laws\<close>, \<open>Control_Laws\<close>: the store as a state machine,
    its reachable states, what no step takes back, and what single operations return and leave
    behind.
  \<^item> \<open>Dorf_World\<close>: the database beside an outside that is a parameter. \<open>Upgrade_Service\<close>,
    \<open>Upgrade_Progress\<close> (\<open>internal/upgrade\<close>) and \<open>Recovery_Service\<close> (\<open>internal/persistence\<close>): the
    executors of receipts over an arbitrary driver, and the rank of a receipt that every reported
    step lowers (locale \<open>reconciler\<close>). \<open>Persistence_Service\<close>: captures and their attempts.
  \<^item> \<open>Core_Execution\<close>, \<open>Core_Application\<close>, \<open>Execution_Laws\<close>: Actions under fence, claim and step,
    native settlement, idle pausing, the cleanup task (locale \<open>cleanup_service\<close>), handles, wakes
    and retries (\<open>internal/core\<close>, \<open>internal/absurdruntime\<close>).
  \<^item> \<open>Sandbox_Contract\<close>, \<open>Terminal_Externals\<close>, \<open>Externals_Laws\<close>: files, commands, attachments and the
    provider, gateway and Harness calls of each operation (\<open>internal/sandbox\<close>, \<open>internal/terminal\<close>).
  \<^item> \<open>Direct_Admission\<close>, \<open>Admission_Laws\<close>, \<open>Direct_Task\<close>, \<open>Profile_Verify\<close>: admission with defaults
    and its replay, the durable task, the qualification of a profile (\<open>internal/direct\<close>,
    \<open>internal/profile\<close>).
  \<^item> \<open>Execution_Stack\<close>, \<open>Checkpoint_Capture\<close>, \<open>Stack_Laws\<close>, \<open>Runtime_Resolver\<close>: upgrades, recoveries,
    branches and captures in front of the execution service, and the choice among them for a
    pinned profile (\<open>cmd/dorf\<close>); whatever is chosen meets the contract of the cleanup task.
  \<^item> \<open>Codex_Replies\<close>, \<open>Codex_Protocol\<close>, \<open>Codex_Timeline\<close>, \<open>Codex_Native\<close>, \<open>Codex_Harness\<close>,
    \<open>Codex_Laws\<close>: the Codex agent (\<open>internal/codex\<close>) over a wire that is a parameter.
  \<^item> \<open>Control_Reader\<close>, \<open>Control_Native\<close>, \<open>Control_Observation\<close>, \<open>Control_Laws_Native\<close>,
    \<open>Observation_Laws\<close>: what a worker answers to the control API (\<open>internal/controlreader\<close>): files,
    commands, native events with their custody (locale \<open>single_submission\<close>), observation streams.
  \<^item> \<open>Demo_States\<close>, \<open>Demo_Checkpoints\<close>, \<open>Demo_Control\<close>, \<open>Demo_Services\<close>, \<open>Demo_Workers\<close>,
    \<open>Demo_Digests\<close>, \<open>Demo_Branches\<close>: the states and services on which the witnesses run;
    \<open>Demo_Digests\<close> evaluates the digests that name their rows.

  Conventions. A Go function that returns an error and changes durable state is an action
  \<open>'s \<Rightarrow> (err + 'a) \<times> 's\<close>; a transaction (\<open>tx\<close>) restores the state it began with when it
  fails. The store takes the Session's row lock or its fence before it decides, so an operation
  is one atomic step of the database; what other processes do between operations is any number
  of other steps (\<open>store_step\<close>). Properties of the store hold over every interleaving of them;
  a property of a run of a service is about a run nothing else interferes with, as the fence of
  its Session provides, except where it says otherwise. An \<open>UPDATE\<close> returns its number of affected
  rows and the Go caller's test of that number is part of the model. Times are readings of the
  database clock, a natural number; a null column is \<open>None\<close>. Identities are strings of bytes and
  compared and ordered by bytes, where the database orders by its collation. Random values and
  the answers of Absurd, of the drivers and of claims are parameters that may be anything, errors
  included.

  Bounds. The receipts bound the work of \<open>Reconcile\<close>: the rank of an upgrade is at most ten and
  of a recovery at most four, so that no fuel is needed. The loops of the direct task, the wait
  for a branch and the wait for a guest run as long as their caller's context: their fuel is that
  number of rounds, and running out of it is a result of its own. A client of the app-server waits
  for an answer as long as its context; the model counts the messages it reads meanwhile
  (\<open>wi_patience\<close>) and the attempts to connect (\<open>cx_attempts\<close>). The JSON reader is given the length
  of its text and the pages of a timeline the byte budget, both of which are proved to be enough.

  Not modelled: failures of the database connection itself (they abort the transaction),
  telemetry and logging, columns that are only displayed, and the components the manifest lists
  so: HTTP routing and its client, the Pi Harness, the Incus and E2B adapters, the provisioning of
  the AI gateway and of the tunnel, deployment files, flags and build tools. They are I/O whose
  answers the model takes as arbitrary parameters. Process scripts are texts.
\<close>

text \<open>
  C1. The invariants of the schema hold in every state that the store's operations can
  reach from a state in which they hold, whatever the arguments, the errors and the order.
\<close>

theorem store_invariant:
  assumes "db_inv d0" and "reachable d0 d"
  shows "db_inv d"
  using assms(2,1) by (rule reachable_inv)

theorem store_invariant_witness: "db_inv (run_op (OpBeginMutation ''s1'' ''th'' ''in'' []) demo_db)"
  by (rule store_invariant [OF demo_db_inv]) (rule later [OF start step])

text \<open>
  C2. While a package upgrade of a Sandbox is unfinished and its Session is not cleaned up, no
  native input or cancellation can begin for that Session.
\<close>

theorem upgrade_blocks_delivery:
  assumes inv: "db_inv d" and u: "u \<in> set (upgrades d)" "u_finished u = None"
    and b: "sandbox_of d (u_sandbox u) = Some b"
    and s: "session_of d (b_session b) = Some s" "s_cleanup s \<noteq> CleanupComplete"
  shows "begin_native_mutation (b_session b) th input turn d = (Inl (Sentinel ErrNoRows), d)"
proof (rule begin_refused)
  fix q assume q: "session_of d (b_session b) = Some q"
  have "s_id q = b_session b" using q by (simp add: session_of_def row_of_key [where key = s_id])
  with unfinished_holds_session [OF assms] show "\<not> can_begin_mutation d (nullif_empty th) q"
    by (simp add: can_begin_mutation_def)
qed

theorem upgrade_blocks_delivery_witness:
  "begin_native_mutation (b_session demo_sandbox) ''th'' ''in'' [] demo_upgrading = (Inl (Sentinel ErrNoRows), demo_upgrading)"
  by (rule upgrade_blocks_delivery [OF demo_upgrading_inv, of demo_upgrade _ demo_session])
    (simp_all add: demo_defs sandbox_of_def session_of_def row_of_def)

text \<open>
  C3. The upgrade executor terminates: from any well-formed state, at most ten consecutive
  reconciliations per stored receipt can report progress, whatever the driver answers.
\<close>

theorem upgrade_reconciliation_bounded:
  assumes "db_ok w" and "progress_run (us_reconcile svc task sid) n w = Some v"
  shows "n \<le> 10 * length (upgrades (w_db w))"
  using upgrade_loop.run_length [OF assms] backlog_bound [of "w_db w"] by (rule le_trans)

theorem upgrade_reconciliation_bounded_witness:
  "progress_run (us_reconcile demo_service None ''s1'') 1 demo_world \<noteq> None \<and> (1::nat) \<le> 10 * length (upgrades (w_db demo_world))"
proof -
  obtain v where v: "progress_run (us_reconcile demo_service None ''s1'') 1 demo_world = Some v"
    using demo_reconciled by simp
  have "db_ok demo_world" by (simp add: db_ok_def demo_world_def demo_upgrading_inv)
  from upgrade_reconciliation_bounded [OF this v] v show ?thesis by simp
qed

text \<open>
  C4. A cleanup that completes has settled everything: every Sandbox of the Session has its
  route revoked and its deletion succeeded, no resource or upgrade checkpoint of it is left, all
  its delivery holds are released, and the Session is closed and stamped.
\<close>

theorem completed_cleanup_settled:
  assumes "db_inv d" and "session_of d sid = Some s" and "s_cleanup s \<noteq> CleanupComplete"
    and "complete_cleanup sid tid d = (Inr (), e)"
  shows "cleanup_settled e sid \<and>
    (\<exists>t. session_of e sid = Some t \<and> s_cleanup t = CleanupComplete \<and> \<not> s_open t \<and> s_cleaned_at t \<noteq> None)"
  using assms by (rule complete_cleanup_settles)

theorem completed_cleanup_settled_witness:
  "\<exists>t. session_of (snd (complete_cleanup ''s1'' ''t2'' demo_cleaning)) ''s1'' = Some t \<and> s_cleanup t = CleanupComplete"
proof -
  have t: "trim_space ''t2'' = ''t2''" by code_simp
  have "complete_cleanup ''s1'' ''t2'' demo_cleaning = (Inr (), snd (complete_cleanup ''s1'' ''t2'' demo_cleaning))"
    by (simp add: complete_cleanup_def tx_def bnd_def seq_def q_current_task_for_update_def gets_def the_row_def ret_def
        find_task_state_def demo_defs session_of_def row_of_def current_task_def session_tasks_def require_def
        q_list_session_tasks_def q_count_unsettled_def count_where_def expect_one_rows_def q_complete_cleanup_def Let_def t
        insort_key_def)
  from completed_cleanup_settled [OF demo_cleaning_inv _ _ this, of demo_closed] show ?thesis
    by (auto simp: demo_defs session_of_def row_of_def)
qed

text \<open>
  C5. A Sandbox deletion is only ever authorised for the stored Action of that identity and the
  Sandbox it names, for a closed Session whose cleanup is scheduled, to the task that is the
  Session's current one and is its cleanup task, after the route of that Sandbox was revoked.
\<close>

theorem delete_needs_revoked_route:
  assumes "authorize_sandbox_action aid tid tname d = (Inr z, e)"
    and "act_kind (auth_action z) = ActionSandboxDelete"
  shows "e = d \<and> \<not> admission_open (auth_session z) \<and> cleanup_state (auth_session z) = CleanupScheduled \<and>
    trim_space tname = cleanup_task_name \<and>
    (\<exists>t. current_task d (act_session_id (auth_action z)) = Some t \<and> t_id t = trim_space tid \<and> t_name t = cleanup_task_name) \<and>
    (\<exists>a. row_of a_id aid (actions d) = Some a \<and> auth_action z = action_value a \<and>
      (a_state a = ActionUnsettled \<or> a_state a = ActionSucceeded) \<and>
      a_id a = scoped_action_id (a_session a) ActionSandboxDelete (a_scope a)) \<and>
    find_sandbox d (act_scope (auth_action z)) = Some (auth_sandbox z) \<and>
    sb_session_id (auth_sandbox z) = act_session_id (auth_action z) \<and>
    succeeded_for d (act_session_id (auth_action z)) ActionRouteRevoke (act_scope (auth_action z))"
proof -
  have "wp (authorize_sandbox_action aid tid tname)
    (\<lambda>z e. e = d \<and> auth_certifies d aid (trim_space tid) (trim_space tname) True z) (\<lambda>_ _. True) d"
    unfolding authorize_sandbox_action_def wp_tx by (rule wp_mono [OF wp_authorize_tx]) simp_all
  from wp_result [OF this assms(1)]
  have "e = d" and z: "auth_certifies d aid (trim_space tid) (trim_space tname) True z" by blast+
  then show ?thesis
    using certified_task [OF z] assms(2)
    by (auto simp: auth_certifies_def action_value_def succeeded_for_def list_ex_iff dest!: find_scoped_in)
qed

theorem delete_needs_revoked_route_witness:
  "\<not> admission_open (auth_session (the_auth (authorize_sandbox_action demo_delete ''t2'' cleanup_task_name demo_deleting)))"
proof -
  have "authorize_sandbox_action demo_delete ''t2'' cleanup_task_name demo_deleting =
    (Inr (the_auth (authorize_sandbox_action demo_delete ''t2'' cleanup_task_name demo_deleting)), demo_deleting)"
    "act_kind (auth_action (the_auth (authorize_sandbox_action demo_delete ''t2'' cleanup_task_name demo_deleting))) = ActionSandboxDelete"
    unfolding demo_authorized by (simp_all add: the_auth_def demo_authorization_def)
  from delete_needs_revoked_route [OF this] show ?thesis by blast
qed

text \<open>
  C6. When scheduling cleanup succeeds the Session is closed, its cleanup is scheduled, its
  current task is the cleanup task, and scheduling again changes nothing.
\<close>

theorem scheduled_cleanup_owned:
  assumes "db_inv d" and "schedule_cleanup env qn sid caller d = (Inr (), e)"
  shows "\<exists>s t. session_of e sid = Some s \<and> \<not> s_open s \<and>
      (s_cleanup s = CleanupScheduled \<or> s_cleanup s = CleanupComplete) \<and>
      current_task e sid = Some t \<and> t_name t = cleanup_task_name \<and>
      schedule_cleanup env' qn' sid caller' e = (Inr (), e)"
proof -
  obtain c s where c: "find_task_state d sid = Some c" and s: "session_of e sid = Some s"
    and r: "if ct_cleanup c = CleanupScheduled \<or> ct_cleanup c = CleanupComplete then e = d
     else s_cleanup s = CleanupScheduled \<and> queue e = queue d @ cleanup_calls qn sid (ct_id c) caller"
    using schedule_cleanup_result [OF assms] by blast
  have inv: "db_inv e" using assms keeps_run [OF keeps_schedule_cleanup] by blast
  have st: "s_cleanup s = CleanupScheduled \<or> s_cleanup s = CleanupComplete"
    using r c s by (auto elim!: find_task_state_cases split: if_splits)
  obtain x where x: "find_task_state e sid = Some x" "ct_cleanup x = s_cleanup s"
    using s by (auto simp: find_task_state_def split: option.split)
  have "schedule_cleanup env' qn' sid caller' e = (Inr (), e)"
    using x st by (auto simp: schedule_cleanup_def tx_def bnd_def q_current_task_for_update_def gets_def the_row_def ret_def)
  with scheduled_owner [OF inv s st] s st show ?thesis by blast
qed

theorem scheduled_cleanup_owned_witness:
  "\<exists>s. session_of (snd (schedule_cleanup quiet_env ''q'' ''s1'' [] demo_db)) ''s1'' = Some s \<and> \<not> s_open s"
  using scheduled_cleanup_owned [OF demo_db_inv demo_scheduled] by blast

text \<open>
  Scheduling cleanup of a Session that has not scheduled it cancels the task attached to
  the Session, unless that task is the caller itself, before it spawns the cleanup task.
\<close>

theorem cleanup_cancels_predecessor:
  assumes "db_inv d" and "schedule_cleanup env qn sid caller d = (Inr (), e)"
    and "session_of d sid = Some s" and "s_cleanup s = CleanupPending \<or> s_cleanup s = CleanupRequested"
  shows "queue e = queue d @
    cleanup_calls qn sid (case current_task d sid of None \<Rightarrow> [] | Some t \<Rightarrow> t_id t) caller"
  using schedule_cleanup_result [OF assms(1,2)] assms(3,4)
  by (auto elim!: find_task_state_cases split: if_splits)

theorem cleanup_cancels_predecessor_witness:
  "queue (snd (schedule_cleanup quiet_env ''q'' ''s1'' [] demo_db)) =
    [CancelTask ''q'' ''t1'', SpawnTask ''q'' cleanup_task_name ''s1'' (cleanup_task_key ''s1'')]"
proof -
  have t: "current_task demo_db ''s1'' = Some demo_task"
    by (simp add: current_task_def session_tasks_def demo_defs)
  have "queue (snd (schedule_cleanup quiet_env ''q'' ''s1'' [] demo_db)) = queue demo_db @
    cleanup_calls ''q'' ''s1'' (case current_task demo_db ''s1'' of None \<Rightarrow> [] | Some t \<Rightarrow> t_id t) []"
    by (rule cleanup_cancels_predecessor [OF demo_db_inv demo_scheduled, of demo_session])
      (simp_all add: demo_defs session_of_def row_of_def)
  then show ?thesis using t by (simp add: cleanup_calls_def demo_defs)
qed

text \<open>
  C7. A native mutation that begins advances the Session's revision by one, on the bound
  Thread, and as long as its marker is pending no other mutation of the Session begins.
\<close>

theorem native_mutation_exclusive:
  assumes "begin_native_mutation sid th input turn d = (Inr n, e)"
  shows "\<exists>s t. session_of d sid = Some s \<and> session_of e sid = Some t \<and> n = s_revision s + 1 \<and>
      s_revision t = n \<and> s_thread t = Some th \<and>
      s_pending_input t = nullif_empty input \<and> s_pending_turn t = nullif_empty turn \<and>
      (input \<noteq> [] \<or> turn \<noteq> [] \<longrightarrow>
         (\<forall>th' i' t'. begin_native_mutation sid th' i' t' e = (Inl (Sentinel ErrNoRows), e)))"
proof -
  obtain s where s: "session_of d sid = Some s" "can_begin_mutation d (nullif_empty th) s"
    "n = s_revision s + 1" "input = [] \<or> turn = []"
    and e: "e = sessions_update (upd_where (\<lambda>q. s_id q = sid)
          (\<lambda>q. q\<lparr>s_revision := n, s_pending_input := nullif_empty input, s_pending_turn := nullif_empty turn\<rparr>)) d"
    using assms by (rule begin_result)
  let ?t = "s\<lparr>s_revision := n, s_pending_input := nullif_empty input, s_pending_turn := nullif_empty turn\<rparr>"
  have t: "session_of e sid = Some ?t" using s(1) by (simp add: e session_of_upd)
  have "s_thread ?t = Some th" using s(2) by (auto simp: can_begin_mutation_def nullif_empty_def split: if_splits)
  moreover have "\<forall>th' i' t'. begin_native_mutation sid th' i' t' e = (Inl (Sentinel ErrNoRows), e)"
    if "input \<noteq> [] \<or> turn \<noteq> []"
    using that t by (intro allI begin_refused) (auto simp: can_begin_mutation_def nullif_empty_def)
  ultimately show ?thesis using s(1,3) t by (intro exI [of _ s] exI [of _ ?t]) simp
qed

theorem native_mutation_exclusive_witness:
  "\<exists>t. session_of (snd (begin_native_mutation ''s1'' ''th'' ''in'' [] demo_db)) ''s1'' = Some t \<and> s_revision t = 1"
proof -
  have "begin_native_mutation ''s1'' ''th'' ''in'' [] demo_db =
    (Inr 1, snd (begin_native_mutation ''s1'' ''th'' ''in'' [] demo_db))"
    by (simp add: begin_native_mutation_def q_begin_native_mutation_def can_begin_mutation_def demo_defs session_of_def
        row_of_def session_held_def nullif_empty_def max_int64_def)
  from native_mutation_exclusive [OF this] show ?thesis by auto
qed

text \<open>
  C8. A settlement clears the pending marker exactly when it names the current revision; a
  stale settlement is refused and changes nothing.
\<close>

theorem settlement_by_revision:
  assumes inv: "db_inv d" and s: "session_of d sid = Some s"
  shows "finish_native_mutation sid m d =
    (if m = s_revision s
     then (Inr (), sessions_update (upd_where (\<lambda>q. s_id q = sid) (\<lambda>q. q\<lparr>s_pending_input := None, s_pending_turn := None\<rparr>)) d)
     else (Inl (Sentinel ErrNotFound), d))"
proof -
  have one: "q = s" if "q \<in> set (sessions d)" "s_id q = sid" for q
    using inv s that keyed_row [of s_id "sessions d" sid s q] by (simp add: db_inv_def sessions_ok_def session_of_def)
  have "count_where (\<lambda>q. s_id q = sid \<and> s_revision q = m) (sessions d) = (if s_revision s = m then 1 else 0)"
    using inv s count_where_key [of s_id "sessions d" sid "\<lambda>q. s_revision q = m"]
    by (simp add: db_inv_def sessions_ok_def session_of_def)
  moreover have "upd_where (\<lambda>q. s_id q = sid \<and> s_revision q = s_revision s) f (sessions d) = upd_where (\<lambda>q. s_id q = sid) f (sessions d)" for f
    using one by (auto simp: upd_where_def)
  moreover have "upd_where (\<lambda>q. s_id q = sid \<and> s_revision q = m) f (sessions d) = sessions d" if "m \<noteq> s_revision s" for f
    by (rule upd_where_none) (use one that in auto)
  ultimately show ?thesis
    by (auto simp: finish_native_mutation_def q_finish_native_mutation_def expect_one_rows_def bnd_def update_tbl_def
        require_def ret_def fail_def)
qed

theorem settlement_by_revision_witness:
  "finish_native_mutation ''s1'' 5 demo_db = (Inl (Sentinel ErrNotFound), demo_db)"
  using settlement_by_revision [OF demo_db_inv, of "''s1''" demo_session 5]
  by (simp add: demo_defs session_of_def row_of_def)

text \<open>
  C9. A Session keeps its identity and admitted inputs for ever, its lifecycle and native
  revision only advance, a cleanup time stays, and its Thread is fixed by the first mutation.
\<close>

theorem sessions_only_advance:
  assumes "db_inv d0" and "reachable d0 d" and "session_of d0 sid = Some s"
  shows "\<exists>t. session_of d sid = Some t \<and> session_later s t"
  using evolved_row [OF assms(1,2), of session_later sessions s_id] assms(3)
  by (simp add: session_of_def evolves_def session_later_def)

theorem sessions_only_advance_witness:
  "\<exists>t. session_of (run_op (OpScheduleCleanup quiet_env ''q'' ''s1'' []) demo_db) ''s1'' = Some t \<and>
    session_later demo_session t"
  by (rule sessions_only_advance [OF demo_db_inv])
    (rule later [OF start step], simp add: session_of_def row_of_def demo_defs)

text \<open>
  C15. Once a Sandbox resource is bound to a provider identity it is never bound to another,
  and its owner, nonce and deletion time never change.
\<close>

theorem bindings_permanent:
  assumes "db_inv d0" and "reachable d0 d" and "resource_of d0 rid = Some r" and "r_provider r = Some pid"
  shows "\<exists>q. resource_of d rid = Some q \<and> r_provider q = Some pid \<and> r_sandbox q = r_sandbox r \<and>
    r_nonce q = r_nonce r \<and> (r_deleted r \<noteq> None \<longrightarrow> r_deleted q = r_deleted r)"
  using evolved_row [OF assms(1,2), of resource_later resources r_id] assms(3,4)
  by (fastforce simp: resource_of_def evolves_def resource_later_def kept_def)

theorem bindings_permanent_witness:
  "\<exists>q. resource_of (run_op (OpBindResource demo_owner ''p2'') demo_db) ''r1'' = Some q \<and> r_provider q = Some ''p1''"
  using bindings_permanent [OF demo_db_inv later [OF start step], of "''r1''" demo_resource "''p1''" "OpBindResource demo_owner ''p2''"]
  by (auto simp: demo_defs resource_of_def row_of_def)

text \<open>
  C16. An upgrade receipt is written once: whatever a step records in a receipt (package,
  quiescence, checkpoint, activation, rollback, destination, verification, finish) stays.
\<close>

theorem upgrade_receipts_written_once:
  assumes "db_inv d0" and "reachable d0 d" and "row_of u_id uid (upgrades d0) = Some u"
  shows "\<exists>v. row_of u_id uid (upgrades d) = Some v \<and> upgrade_later u v"
  using evolved_row [OF assms(1,2), of upgrade_later upgrades u_id] assms(3)
  by (simp add: evolves_def upgrade_later_def)

theorem upgrade_receipts_written_once_witness:
  "\<exists>v. row_of u_id ''up1'' (upgrades (run_op (OpUpgradePreparation ''up1'' ''1.0.0'') demo_upgrading)) = Some v \<and>
    upgrade_later demo_upgrade v"
  by (rule upgrade_receipts_written_once [OF demo_upgrading_inv])
    (rule later [OF start step], simp add: demo_defs row_of_def)

text \<open>
  C17. An upgrade that has requested its rollback is never recorded as activated, and is not
  recorded as verified before its resource is restored.
\<close>

theorem rolled_back_never_reactivated:
  assumes "db_inv d" and "row_of u_id uid (upgrades d) = Some u" and "u_rollback u \<noteq> None"
  shows "record_upgrade_activated uid d = (Inl (Sentinel ErrNotFound), d) \<and>
    (u_restored u = None \<longrightarrow> record_upgrade_verified uid d = (Inl (Sentinel ErrNotFound), d))"
proof -
  have one: "q = u" if "q \<in> set (upgrades d)" "u_id q = uid" for q
    using assms(1,2) that keyed_row [of u_id "upgrades d" uid u q] by (simp add: db_inv_def upgrades_ok_def)
  have none: "count_where (\<lambda>q. u_id q = uid \<and> p q) (upgrades d) = 0 \<and> upd_where (\<lambda>q. u_id q = uid \<and> p q) f (upgrades d) = upgrades d"
    if "\<not> p u" for p f
    using one that by (auto simp: count_where_zero intro!: upd_where_none)
  show ?thesis
    using none [of "\<lambda>u. u_cp_ref u \<noteq> None \<and> u_rollback u = None"]
      none [of "\<lambda>u. (u_activated u \<noteq> None \<or> u_restored u \<noteq> None) \<and> (u_rollback u = None \<or> u_restored u \<noteq> None)"] assms(3)
    by (auto simp: record_upgrade_activated_def q_upgrade_activated_def record_upgrade_verified_def q_upgrade_verified_def
        expect_one_rows_def bnd_def upd_upgrade_def update_tbl_def require_def fail_def)
qed

theorem rolled_back_never_reactivated_witness:
  "record_upgrade_activated ''up1'' demo_rolled_back = (Inl (Sentinel ErrNotFound), demo_rolled_back)"
  using rolled_back_never_reactivated [OF demo_rolled_back_inv, of "''up1''" demo_rollback]
  by (simp add: demo_rolled_back_def demo_rollback_def demo_defs row_of_def)

text \<open>
  C18. Admission is idempotent: after an admission succeeded, the same admission, by any
  client and with any nonce, returns the same Session, marks it as not created, and changes
  nothing. (A task identity Absurd returns is never empty.)
\<close>

theorem admission_replayed:
  assumes "admit_session env nonce qn tn tk i d = (Inr (j, created), d')"
    and "\<And>sid. spawn_task env qn tn sid (tk sid) \<noteq> Inr []"
    and "i'\<lparr>ad_created_by := []\<rparr> = i\<lparr>ad_created_by := []\<rparr>"
  shows "admit_session env' (Inr owner) qn' tn' tk' i' d' = (Inr (j, False), d')"
  using assms by (rule admit_session_replay)

theorem admission_replayed_witness:
  "\<exists>j d'. admit_session quiet_env (Inr demo_nonce) ''q'' direct_task_name direct_task_key demo_admission demo_vacant =
      (Inr (j, True), d') \<and>
    admit_session quiet_env (Inr demo_nonce) ''q'' direct_task_name direct_task_key
      (demo_admission\<lparr>ad_created_by := ''other''\<rparr>) d' = (Inr (j, False), d')"
proof -
  obtain j d' where run: "admit_session quiet_env (Inr demo_nonce) ''q'' direct_task_name direct_task_key
      demo_admission demo_vacant = (Inr (j, True), d')"
    using demo_admitted by blast
  have "admit_session quiet_env (Inr demo_nonce) ''q'' direct_task_name direct_task_key
      (demo_admission\<lparr>ad_created_by := ''other''\<rparr>) d' = (Inr (j, False), d')"
    by (rule admission_replayed [OF run]) (simp_all add: quiet_env_def)
  with run show ?thesis by blast
qed

text \<open>
  C19. An admission key that is already used for other input is refused with the conflict
  error and changes nothing.
\<close>

theorem admission_conflicts:
  assumes "row_of s_admission_key (ad_key i) (sessions d) = Some s"
    and "stored_admission s \<noteq> i\<lparr>ad_created_by := []\<rparr>"
  shows "admit_session env nonce qn tn tk i d = (Inl (Wrapf (ad_key i) (Sentinel ErrAdmissionConflict)), d)"
  using assms by (rule admit_session_conflict)

theorem admission_conflicts_witness:
  "snd (admit_session quiet_env (Inr demo_nonce) ''q'' direct_task_name direct_task_key demo_admission demo_db) = demo_db"
  using admission_conflicts [of demo_admission demo_db demo_session quiet_env "Inr demo_nonce" "''q''" direct_task_name direct_task_key]
  by (simp add: demo_defs demo_admission_def row_of_def stored_admission_def)

text \<open>
  C20. Each cause of an execution wake is numbered once: a new cause takes the next revision,
  and signalling it again returns the recorded revision and only repeats the event.
\<close>

theorem wake_numbered_once:
  assumes "signal_session_wake env qn sid cause d = (Inr n, e)"
  shows "(row_of (\<lambda>k. (k_session k, k_cause k)) (sid, cause) (causes d) = None \<longrightarrow>
      n = wake_level d sid + 1 \<and> wake_level e sid = n) \<and>
    wake_recorded e sid cause n \<and>
    signal_session_wake env' qn' sid cause e = emit_wake env' qn' sid cause n e"
proof (cases "row_of (\<lambda>k. (k_session k, k_cause k)) (sid, cause) (causes d)")
  case None
  from signal_new [OF assms None] show ?thesis using None signal_recorded by blast
next
  case (Some k)
  have "wp (signal_session_wake env qn sid cause) (\<lambda>m f. wake_recorded f sid cause m) (\<lambda>_ _. True) d"
  proof -
    have "wp (q_ensure_wake sid) (\<lambda>_ f. causes f = causes d) (\<lambda>_ _. True) d"
      by (simp add: wp_def q_ensure_wake_def)
    then show ?thesis
      unfolding signal_wake_locked wp_seq
      by (rule wp_mono)
        (auto simp: wp_simps q_lock_wake_def q_wake_cause_def Some wake_recorded_def split: option.split sum.split)
  qed
  from wp_result [OF this assms] show ?thesis using Some by (simp add: signal_recorded)
qed

theorem wake_numbered_once_witness:
  "\<exists>e. signal_session_wake quiet_env ''q'' ''s1'' ''cause'' demo_db = (Inr 1, e) \<and> wake_recorded e ''s1'' ''cause'' 1"
proof -
  have c: "cause_key_ok ''cause''" by code_simp
  obtain e where e: "signal_session_wake quiet_env ''q'' ''s1'' ''cause'' demo_db = (Inr 1, e)"
    by (simp add: signal_session_wake_def bnd_def seq_def q_ensure_wake_def q_lock_wake_def q_wake_cause_def gets_def
        the_row_def ret_def attempt_def fail_def wake_advance_def q_set_wake_revision_def q_insert_wake_cause_def
        insert_tbl_def update_tbl_def expect_one_rows_def require_def count_where_def upd_where_def log_call_def
        modify_def lift_def quiet_env_def demo_defs row_of_def max_int64_def c add_row_def)
  from wake_numbered_once [OF e] e show ?thesis by blast
qed

text \<open>
  An operator retry is performed once per request key: repeating the request returns the
  stored receipt, marked as not created, without calling Absurd again, as long as the attempt it counts fits 32 bits.
\<close>

theorem retry_replayed:
  assumes "retry_failed_session env qn sid key d = (Inr r, e)" and "0 \<le> rr_attempt r" and "rr_attempt r < 2 ^ 31"
  shows "retry_failed_session env' qn sid key e = (Inr (r\<lparr>rr_created := False\<rparr>), e)"
proof -
  obtain q where q: "row_of q_key (trim_space key) (retries e) = Some q" "q_session q = trim_space sid"
    "r\<lparr>rr_created := False\<rparr> = retry_receipt_of (q_key q) (q_session q) (q_task q) (q_run q) (q_attempt q) False"
    using wp_result [OF retry_result assms(1)] to_int32_id [OF assms(2,3)] by (auto simp: retry_recorded_def)
  have "\<not> (trim_space qn = [] \<or> length (trim_space qn) > 57 \<or> trim_space sid = [] \<or> trim_space key = [] \<or>
      length (trim_space key) > 255)"
    using assms(1) by (auto simp: retry_failed_session_def Let_def fail_def split: if_splits)
  with q show ?thesis
    by (simp add: retry_failed_session_def Let_def q_get_retry_def tx_def bnd_def attempt_def gets_def the_row_def ret_def
        seq_def require_def)
qed

theorem retry_replayed_witness:
  "\<exists>r e. retry_failed_session quiet_env ''q'' ''s1'' ''key'' demo_db = (Inr r, e) \<and>
    retry_failed_session quiet_env ''q'' ''s1'' ''key'' e = (Inr (r\<lparr>rr_created := False\<rparr>), e)"
proof -
  have t: "trim_space ''q'' = ''q''" "trim_space ''s1'' = ''s1''" "trim_space ''key'' = ''key''"
    by code_simp+
  have one: "to_int32 1 = 1" by (rule to_int32_id) simp_all
  have "\<exists>r e. retry_failed_session quiet_env ''q'' ''s1'' ''key'' demo_db = (Inr r, e) \<and> rr_attempt r = 1"
    by (simp add: retry_failed_session_def Let_def t tx_def bnd_def seq_def q_get_retry_def attempt_def gets_def the_row_def
        fail_def ret_def no_rows_as_def q_current_task_for_update_def find_task_state_def demo_defs session_of_def row_of_def
        current_task_def session_tasks_def require_def log_call_def modify_def quiet_env_def q_insert_retry_def
        insert_tbl_def one retry_receipt_of_def)
  then obtain r e where run: "retry_failed_session quiet_env ''q'' ''s1'' ''key'' demo_db = (Inr r, e)" "rr_attempt r = 1" by blast
  from retry_replayed [OF run(1)] run show ?thesis by auto
qed

text \<open>
  C21. Listing is paged without loss or repetition: a full page followed by the page after
  its last entry is the page of both sizes together.
\<close>

theorem session_pages_join:
  assumes "db_inv d" and "1 \<le> l" and "1 \<le> m" and "l + m \<le> 101"
    and "list_sessions l None [] d = (Inr xs, d)" and "length xs = nat l" and "ls_id (last xs) \<noteq> []"
    and "list_sessions m (Some (ls_admitted_at (last xs))) (ls_id (last xs)) d = (Inr ys, d)"
  shows "list_sessions (l + m) None [] d = (Inr (xs @ ys), d)"
proof -
  let ?L = "listable d"
  have xs: "xs = map list_entry (take (nat l) ?L)" using assms(2-5) by (simp add: list_page)
  have len: "nat l \<le> length ?L" using assms(6) xs by simp
  have k: "nat l - 1 < length ?L" using assms(2) len by linarith
  have ne: "xs \<noteq> []" using assms(2,6) by auto
  have "last xs = list_entry (?L ! (nat l - 1))"
    using ne xs len assms(2) by (simp add: last_conv_nth min_absorb2)
  then have pos: "(ls_admitted_at (last xs), ls_id (last xs)) = session_position (?L ! (nat l - 1))"
    by (simp add: list_entry_def session_position_def)
  have "filter (\<lambda>s. session_position s < session_position (?L ! (nat l - 1))) ?L = drop (nat l) ?L"
    using below_position [OF sorted_strict k] assms(1,2) by (simp add: db_inv_def sessions_ok_def)
  then have "ys = map list_entry (take (nat m) (drop (nat l) ?L))"
    using list_page_after [of m "ls_id (last xs)" "ls_admitted_at (last xs)" d] assms(2,3,4,7,8) pos by simp
  then show ?thesis
    using xs assms(2-4) by (simp add: list_page nat_add_distrib take_add)
qed

theorem session_pages_join_witness:
  "list_sessions 2 None [] demo_two = (Inr [demo_entry ''s2'' 2, demo_entry ''s1'' 1], demo_two)"
proof -
  have a: "list_sessions 1 None [] demo_two = (Inr [demo_entry ''s2'' 2], demo_two)"
    and b: "list_sessions 1 (Some 2) ''s2'' demo_two = (Inr [demo_entry ''s1'' 1], demo_two)"
    by (rule demo_pages)+
  have "list_sessions (1 + 1) None [] demo_two = (Inr ([demo_entry ''s2'' 2] @ [demo_entry ''s1'' 1]), demo_two)"
    by (rule session_pages_join [OF demo_two_inv _ _ _ a _ _]) (simp_all add: demo_entry_def b)
  then show ?thesis by simp
qed

text \<open>
  The text that is hashed into a profile's definition hash determines every field of the
  definition: two profiles with the same text have the same provider, harness, artifact,
  network and lifetime settings.
\<close>

theorem definition_hash_canonical:
  assumes "canonical_fields (definition_fields p) = canonical_fields (definition_fields q)"
  shows "p_provider p = p_provider q \<and> p_harness p = p_harness q \<and> p_artifact p = p_artifact q \<and>
    p_incus_endpoint_authority_hash p = p_incus_endpoint_authority_hash q \<and> p_incus_project p = p_incus_project q \<and>
    p_incus_storage_pool p = p_incus_storage_pool q \<and> p_incus_network p = p_incus_network q \<and>
    p_incus_disk_size p = p_incus_disk_size q \<and> p_incus_gateway_url p = p_incus_gateway_url q \<and>
    p_e2b_gateway_url p = p_e2b_gateway_url q \<and> p_e2b_sandbox_timeout p = p_e2b_sandbox_timeout q \<and>
    p_e2b_allow_internet p = p_e2b_allow_internet q"
  using canonical_fields_inject [OF assms]
  by (auto simp: definition_fields_def format_bool_def dest: format_int_inject split: if_splits)

theorem definition_hash_canonical_witness:
  "p_artifact demo_profile = p_artifact (demo_profile\<lparr>p_name := ''other''\<rparr>)"
  using definition_hash_canonical [of demo_profile "demo_profile\<lparr>p_name := ''other''\<rparr>"]
  by (simp add: definition_fields_def)

text \<open>
  The text that is hashed into the identity of a Sandbox Action determines its Session,
  its kind and its Sandbox, as long as the first two contain no NUL.
\<close>

theorem scoped_action_preimage_unique:
  assumes "scoped_action_preimage s k c = scoped_action_preimage t l e"
    and "nul \<notin> set s" "nul \<notin> set t" "nul \<notin> set (kind_name k)" "nul \<notin> set (kind_name l)"
  shows "s = t \<and> kind_name k = kind_name l \<and> c = e"
proof -
  from assms(1) have "s @ [nul] @ (kind_name k @ [nul] @ c) = t @ [nul] @ (kind_name l @ [nul] @ e)"
    by (simp add: scoped_action_preimage_def)
  from nul_cut_unique [OF this assms(2,3)] nul_cut_unique [OF _ assms(4,5)] show ?thesis by blast
qed

theorem scoped_action_preimage_unique_witness:
  "scoped_action_preimage ''s1'' ActionSandboxDelete ''b1'' \<noteq> scoped_action_preimage ''s1'' ActionRouteRevoke ''b1''"
proof
  assume "scoped_action_preimage ''s1'' ActionSandboxDelete ''b1'' = scoped_action_preimage ''s1'' ActionRouteRevoke ''b1''"
  then have "kind_name ActionSandboxDelete = kind_name ActionRouteRevoke"
    using scoped_action_preimage_unique [of "''s1''" ActionSandboxDelete "''b1''" "''s1''" ActionRouteRevoke "''b1''"]
    by (simp add: nul_def)
  then show False by simp
qed

text \<open>
  Distinct wake revisions of a Session have distinct event names.
\<close>

theorem wake_events_distinct:
  assumes "0 \<le> m" "0 \<le> n" and "session_execution_wake_event sid m = session_execution_wake_event sid n"
  shows "m = n"
  using assms by (auto simp: session_execution_wake_event_def dest!: pad20_inject)

theorem wake_events_distinct_witness:
  "session_execution_wake_event ''s1'' 1 \<noteq> session_execution_wake_event ''s1'' 2"
  using wake_events_distinct [of 1 2 "''s1''"] by auto

text \<open>
  C22. The bound on stored attention cuts bytes, not characters: there is a valid detail text
  that the operation refuses to store, because the cut leaves half a character.
\<close>

theorem attention_detail_split:
  "\<exists>detail. valid_text detail \<and> set_execution_attention ''s1'' ''src'' detail demo_db = (Inl text_error, demo_db)"
proof (intro exI conjI)
  show "valid_text (long_detail 4095)" by (rule long_detail_valid)
  have "bounded_detail (long_detail 4095) = take (Suc 4095) (long_detail 4095)"
    by (simp add: bounded_detail_def max_attention_bytes_def long_detail_def)
  then have "\<not> valid_text (bounded_detail (long_detail 4095))"
    using long_detail_split [of 4095] by simp
  moreover have "trim_space ''src'' = ''src''" by code_simp
  moreover have "long_detail 4095 \<noteq> []" by (simp add: long_detail_def)
  ultimately show "set_execution_attention ''s1'' ''src'' (long_detail 4095) demo_db = (Inl text_error, demo_db)"
    by (simp add: set_execution_attention_def long_detail_trim q_set_execution_attention_def expect_one_rows_def bnd_def
        seq_def require_def fail_def)
qed

text \<open>
  C23. While a checkpoint recovery of a Sandbox is unfinished, or a branch into it is not ready,
  and its Session is open, no native input or cancellation can begin for that Session.
\<close>

theorem pending_restoration_blocks_delivery:
  assumes inv: "db_inv d"
    and op: "(\<exists>v \<in> set (recoveries d). v_sandbox v = bid \<and> v_finished v = None) \<or>
      (\<exists>n \<in> set (branches d). n_destination_sandbox n = bid \<and> n_ready n = None)"
    and b: "sandbox_of d bid = Some b" and s: "session_of d (b_session b) = Some s" "s_open s"
  shows "begin_native_mutation (b_session b) th input turn d = (Inl (Sentinel ErrNoRows), d)"
proof (rule begin_refused)
  fix q assume q: "session_of d (b_session b) = Some q"
  have bid: "b_id b = bid" using b by (auto simp: sandbox_of_def dest: row_of_key)
  from op obtain i why where op: "(i, b_id b, why, True) \<in> set (pending_ops (recoveries d) (branches d))"
    unfolding bid by (rule pending_restoration_op)
  have "session_held d (b_session b)"
    by (rule pending_op_holds_session [OF inv op _ s]) (use b bid in simp)
  moreover have "s_id q = b_session b" using q by (simp add: session_of_def row_of_key [where key = s_id])
  ultimately show "\<not> can_begin_mutation d (nullif_empty th) q" by (simp add: can_begin_mutation_def)
qed

theorem pending_restoration_blocks_delivery_witness:
  "begin_native_mutation (b_session demo_sandbox) ''th'' ''in'' [] demo_recovering = (Inl (Sentinel ErrNoRows), demo_recovering)"
  by (rule pending_restoration_blocks_delivery [OF demo_recovering_inv, of "''b1''" _ demo_session])
    (simp_all add: demo_checkpoint_defs sandbox_of_def session_of_def row_of_def)

text \<open>
  C24. A publication that succeeds has stored exactly the boundary and the snapshot it was given;
  when it is new and was required to be current, the Sandbox's boundary in the database was that
  boundary. Publishing it again returns the same checkpoint and changes nothing.
\<close>

theorem publication_certifies_boundary:
  assumes "publish_checkpoint uuid b r cid cur d = (Inr c, e)"
  shows "pc_boundary c = b \<and> pc_reference c = r \<and> find_checkpoint e r = Some c \<and>
    (find_checkpoint d r = None \<and> cur \<longrightarrow> find_boundary d (cb_cleanup b) (cb_sandbox b) = Some b) \<and>
    publish_checkpoint uuid' b r cid' cur' e = (Inr c, e)"
proof -
  have pub: "published d b r cur c e" by (rule wp_result [OF publish_result assms])
  then have c: "same_checkpoint b r c" "find_checkpoint e r = Some c" by (simp_all add: published_def)
  have "find_session e = find_session d \<and> validate_checkpoint b r = None \<and> find_session d (cb_session b) \<noteq> None"
    by (rule wp_result [OF publish_frame assms])
  then obtain j where "find_session e (cb_session b) = Some j" "validate_checkpoint b r = None" by auto
  with c have "publish_checkpoint uuid' b r cid' cur' e = (Inr c, e)" by (intro publish_replay)
  with pub show ?thesis by (simp add: published_def same_checkpoint_def)
qed

theorem publication_certifies_boundary_witness:
  "\<exists>c e. publish_checkpoint ''u1'' demo_boundary demo_reference [] True demo_db = (Inr c, e) \<and>
    publish_checkpoint ''u2'' demo_boundary demo_reference [] False e = (Inr c, e)"
  using demo_publishes publication_certifies_boundary by metis

text \<open>
  C25. A recovery adopts its replacement only when the replacement was verified and is bound, the
  source is deleted, and the Session is still at the checkpoint's revision with nothing pending;
  it then leaves the replacement active, the recovery finished and its hold released.
\<close>

theorem recovery_adopts_at_checkpoint:
  assumes "db_inv d" and "find_recovery d (rq_id (rv_request x)) = Some r" and "rv_finished r = None"
    and "finish_checkpoint_recovery env qn x d = (Inr (), e)"
  shows "adopted d r e"
  using assms(4) by (rule wp_result [OF finish_recovery_adopts [OF assms(1-3)]])

theorem recovery_adopts_at_checkpoint_witness:
  "\<exists>b. sandbox_of (snd (finish_checkpoint_recovery quiet_env ''q'' demo_recovery_receipt demo_recovered)) ''b1'' = Some b \<and>
    b_active b = ''r2''"
proof -
  obtain e where e: "finish_checkpoint_recovery quiet_env ''q'' demo_recovery_receipt demo_recovered = (Inr (), e)"
    using demo_adopts by blast
  have "adopted demo_recovered demo_recovery_receipt e"
    by (rule recovery_adopts_at_checkpoint [OF demo_recovered_inv _ _ e]) (simp_all add: demo_receipt)
  with e show ?thesis by (simp add: adopted_def demo_receipt)
qed

text \<open>
  A recovery request that succeeds is answered from its stored receipt ever after: repeating
  it, with any nonce, returns the same receipt and changes nothing.
\<close>

theorem recovery_request_replayed:
  assumes "request_checkpoint_recovery env nonce qn r d = (Inr x, e)"
  shows "rv_request x = r \<and> find_recovery e (rq_id r) = Some x \<and>
    request_checkpoint_recovery env' nonce' qn' r e = (Inr x, e)"
proof -
  have a: "answered d r x e" by (rule wp_result [OF request_recovery_answered assms])
  then show ?thesis using answered_replay [OF a] by (simp add: answered_def)
qed

theorem recovery_request_replayed_witness:
  "\<exists>x e. request_checkpoint_recovery quiet_env (Inr demo_nonce) ''q'' demo_recovery_request demo_published = (Inr x, e) \<and>
    request_checkpoint_recovery quiet_env (Inl AbsurdTimeout) ''q'' demo_recovery_request e = (Inr x, e)"
  using demo_requests_recovery recovery_request_replayed by blast

text \<open>
  C26. The recovery executor terminates: from any well-formed state, at most four consecutive
  reconciliations per stored recovery can report progress, whatever the driver answers.
\<close>

theorem recovery_reconciliation_bounded:
  assumes "db_ok w" and "progress_run (rs_reconcile svc task sid) n w = Some v"
  shows "n \<le> 4 * length (recoveries (w_db w))"
  using recovery_loop.run_length [OF assms] recovery_backlog_bound [of "w_db w"] by (rule le_trans)

theorem recovery_reconciliation_bounded_witness:
  "progress_run (rs_reconcile demo_recovery_service None ''s1'') 1 demo_recovery_world \<noteq> None \<and>
    (1::nat) \<le> 4 * length (recoveries (w_db demo_recovery_world))"
proof -
  obtain v where v: "progress_run (rs_reconcile demo_recovery_service None ''s1'') 1 demo_recovery_world = Some v"
    using demo_recovery_progress by blast
  have "db_ok demo_recovery_world" by (simp add: db_ok_def demo_recovery_world_def demo_recovering_inv)
  from recovery_reconciliation_bounded [OF this v] v show ?thesis by simp
qed

text \<open>
  C27. A branch request under a new identity either is refused and changes nothing, or admits a
  Session that did not exist, on the source's Thread at the revision of a checkpoint of the
  source's main Sandbox behind native work and under its own profile revision, with nothing
  pending, held until it is ready, and leaves every other Session as it was.
\<close>

theorem branch_starts_at_checkpoint:
  assumes "db_inv d" and "row_of s_admission_key (branch_key (br_id r)) (sessions d) = None"
    and "session_of d (session_id (branch_key (br_id r))) = None"
  shows "case request_checkpoint_branch env nonce qn r d of
      (Inl x, e) \<Rightarrow> e = d
    | (Inr x, e) \<Rightarrow> branched d r x e"
proof -
  have "wp (request_checkpoint_branch env nonce qn r) (\<lambda>_ _. True) (\<lambda>_ e. e = d) d"
    by (auto simp: request_checkpoint_branch_def Let_def wp_tx wp_fail wp_mono [OF wp_trivial] split: option.split)
  with request_branch_branches [OF assms, of env nonce qn]
  have "wp (request_checkpoint_branch env nonce qn r) (branched d r) (\<lambda>_ e. e = d) d" by (rule wp_both) simp_all
  then show ?thesis by (simp add: wp_def split: prod.splits sum.splits)
qed

theorem branch_starts_at_checkpoint_witness:
  "\<exists>x e. request_checkpoint_branch quiet_env (Inr demo_nonce) ''q'' demo_branch_request demo_branchable = (Inr x, e) \<and>
    branched demo_branchable demo_branch_request x e"
proof -
  obtain x e where run: "request_checkpoint_branch quiet_env (Inr demo_nonce) ''q'' demo_branch_request demo_branchable = (Inr x, e)"
    using demo_branches by blast
  have "row_of s_admission_key (branch_key (br_id demo_branch_request)) (sessions demo_branchable) = None"
    "session_of demo_branchable (session_id (branch_key (br_id demo_branch_request))) = None"
    by (simp_all add: demo_branchable_def demo_checkpoint_defs demo_branch_request_def branch_key_def session_id_def
        session_of_def row_of_def)
  from branch_starts_at_checkpoint [OF demo_branchable_inv this, of quiet_env "Inr demo_nonce" "''q''"] run
  show ?thesis by auto
qed

text \<open>
  A branch becomes ready only after its release was requested, its Sandbox is bound and its
  route was created; then its hold is released.
\<close>

theorem branch_ready_needs_route:
  assumes "db_inv d" and "checkpoint_branch (br_id (bc_request y)) d = (Inr x, d)" and "bc_ready x = None"
    and "finish_checkpoint_branch y d = (Inr (), e)"
  shows "branch_ready d x e"
  using assms(4) by (rule wp_result [OF finish_branch_ready [OF assms(1-3)]])

theorem branch_ready_needs_route_witness:
  "list_ex (\<lambda>h. h_id h = ''br1'' \<and> h_released h \<noteq> None)
    (holds (snd (finish_checkpoint_branch demo_branch_receipt demo_branching)))"
proof -
  obtain e where e: "finish_checkpoint_branch demo_branch_receipt demo_branching = (Inr (), e)"
    using demo_branch_finishes by blast
  have "branch_ready demo_branching demo_branch_receipt e"
    by (rule branch_ready_needs_route [OF demo_branching_inv _ _ e]) (simp_all add: demo_branch_read)
  with e show ?thesis by (auto simp: branch_ready_def list_ex_iff demo_branch_read)
qed

text \<open>
  C28. Redeeming an enrollment admits one Client: its credential authenticates as that Client, the
  same redemption is answered with the same Client, and any other name or credential is refused.
\<close>

theorem enrollment_admits_one_client:
  assumes "db_inv d" and "redeem svc raw token name credential d = (Inr (x, fresh), e)"
  shows "authenticate credential e = (Inr x, e) \<and>
    (client_name_ok (normal_client_name name') \<and> credential_ok credential' \<longrightarrow>
      redeem svc raw' token name' credential' e =
        (if normal_client_name name' = normal_client_name name \<and> sha256_hex credential' = sha256_hex credential
         then (Inr (x, False), e) else (Inl (Sentinel ErrEnrollmentUnavailable), e)))"
proof -
  obtain i r where r: "enrollment_id token = (i, True)" "admits e i (normal_client_name name) (sha256_hex credential) x"
    "row_of e_id i (enrollments e) = Some r" "e_digest r = sha256_hex token" "db_inv e" "credential_ok credential"
    "credential_lifetime_ok svc"
    using assms(2,1) by (rule redeemed_admits)
  have "authenticate credential e = (Inr x, e)"
    using admitted_authenticates [OF r(2)] r(6) by (simp add: authenticate_def seq_def bnd_def require_def ret_def)
  with redeem_again [OF r(1-5) _ _ r(7)] show ?thesis by simp
qed

theorem enrollment_admits_one_client_witness:
  "\<exists>en e x f. create_enrollment demo_auth (Inr demo_id_bytes) (Inr demo_secret_bytes) empty_db = (Inr en, e) \<and>
    redeem demo_auth (Inr demo_id_bytes) (en_token en) ''ci'' demo_credential e = (Inr (x, True), f) \<and>
    authenticate demo_credential f = (Inr x, f)"
proof -
  obtain en e x f where run: "create_enrollment demo_auth (Inr demo_id_bytes) (Inr demo_secret_bytes) empty_db = (Inr en, e)"
    "redeem demo_auth (Inr demo_id_bytes) (en_token en) ''ci'' demo_credential e = (Inr (x, True), f)"
    using demo_redeems by blast
  have "db_inv e" using keeps_run [OF keeps_auth_service(1) db_inv_empty run(1)] .
  from enrollment_admits_one_client [OF this run(2)] run show ?thesis by blast
qed

text \<open>
  C29. A revoked Client is never authenticated again: whatever operations follow the revocation,
  its credential is refused.
\<close>

theorem revoked_never_authenticates:
  assumes "db_inv d" and "authenticate credential d = (Inr x, e)"
    and "auth_revoke cid e = (Inr r, f)" and "trim_space cid = au_id x" and "reachable f g"
  shows "authenticate credential g = (Inl (Sentinel ErrUnauthenticated), g)"
proof -
  obtain c where c: "credential_ok credential" "row_of cl_id (au_id x) (clients d) = Some c"
    "cl_digest c = sha256_hex credential" "e = d"
    using assms(1,2) by (rule authenticated_client)
  have "revoke_client (au_id x) d = (Inr r, f)"
    using assms(3,4) c(4)
    by (auto simp: auth_revoke_def valid_client_id_def bnd_def lift_def ret_def fail_def split: if_splits)
  from revoked_stays_refused [OF assms(1) c(2) this assms(5)] c(1,3) show ?thesis
    by (simp add: authenticate_def seq_def bnd_def require_def ret_def)
qed

theorem revoked_never_authenticates_witness:
  "authenticate demo_credential (snd (auth_revoke (cl_id demo_client) demo_clients)) =
    (Inl (Sentinel ErrUnauthenticated), snd (auth_revoke (cl_id demo_client) demo_clients))"
proof -
  obtain r f where r: "auth_revoke (cl_id demo_client) demo_clients = (Inr r, f)" "trim_space (cl_id demo_client) = cl_id demo_client"
    using demo_revokes by blast
  from revoked_never_authenticates [OF demo_clients_inv demo_client_authenticates r(1) _ reachable.start] r
  show ?thesis by (simp add: control_client_def)
qed

text \<open>
  C30. A new enrollment can be redeemed: until it expires, an admissible name and credential with
  fresh random bytes admit a Client.
\<close>

theorem issued_enrollment_redeemable:
  assumes "db_inv d" and "create_enrollment svc (Inr ib) (Inr sb) d = (Inr en, e)"
    and "length ib = 16" and "length sb = 32" and "length cb = 16" and "t < en_expires en"
    and "client_name_ok (normal_client_name name)" and "credential_ok credential" and "credential_lifetime_ok svc"
    and "row_of cl_id (''cli_'' @ raw_url_encode cb) (clients d) = None"
    and "\<forall>c \<in> set (clients d). cl_digest c \<noteq> sha256_hex credential"
  shows "\<exists>x f. redeem svc (Inr cb) (en_token en) name credential (e\<lparr>now := t\<rparr>) = (Inr (x, True), f)"
  by (rule created_redeemable [OF assms])

theorem issued_enrollment_redeemable_witness:
  "\<exists>en e x f. create_enrollment demo_auth (Inr demo_id_bytes) (Inr demo_secret_bytes) empty_db = (Inr en, e) \<and>
    redeem demo_auth (Inr demo_id_bytes) (en_token en) ''ci'' demo_credential (e\<lparr>now := 5\<rparr>) = (Inr (x, True), f)"
proof -
  obtain en e where en: "create_enrollment demo_auth (Inr demo_id_bytes) (Inr demo_secret_bytes) empty_db = (Inr en, e)"
    "en_expires en = 600000001"
    using demo_enrolls by blast
  have "\<exists>x f. redeem demo_auth (Inr demo_id_bytes) (en_token en) ''ci'' demo_credential (e\<lparr>now := 5\<rparr>) = (Inr (x, True), f)"
    by (rule issued_enrollment_redeemable [OF db_inv_empty en(1)])
      (simp_all add: en(2) demo_bytes demo_credential_ok demo_name_ok demo_lifetime_ok empty_db_def row_of_def)
  with en show ?thesis by blast
qed

text \<open>
  C31. Profile revisions are permanent and well formed: a stored revision is never changed or
  removed, and every revision added satisfies the schema and carries the hash of its definition.
\<close>

theorem profile_revisions_permanent:
  assumes "db_inv d0" and "reachable d0 d"
  shows "(revision_of d0 name hash = Some p \<longrightarrow> revision_of d name hash = Some p) \<and>
    (\<forall>p \<in> set (revisions d). p \<in> set (revisions d0) \<or>
       (revision_check p \<and> p_definition_hash p = current_definition_hash p))"
  using revision_permanent [OF assms] revisions_sound [OF assms] by (auto simp: sound_revision_def)

theorem profile_revisions_permanent_witness:
  "revision_of (run_op (OpTick 3) demo_vacant) ''prof'' ''h'' = Some demo_profile"
proof -
  have "reachable demo_vacant (run_op (OpTick 3) demo_vacant)"
    by (rule reachable.later [OF reachable.start store_step.step])
  from profile_revisions_permanent [OF demo_vacant_inv this, of "''prof''" "''h''" demo_profile]
  show ?thesis by (simp add: demo_vacant_def demo_profile_def revision_of_def)
qed

text \<open>
  Updating a profile stages a candidate: the candidate is the returned definition, and
  what a new Session is admitted to stays as it was, for every profile.
\<close>

theorem update_stages_candidate:
  assumes "update_profile net name patch d = (Inr (p, changed), e)"
  shows "profile_at e (trim_space name) (\<lambda>n. Some (pn_candidate n)) = Some p \<and>
    fst (q_lock_verified_profile k contract e) = fst (q_lock_verified_profile k contract d)"
proof -
  have "staged d e" using keeps_run [OF update_stages staged_refl assms] .
  moreover have "profile_at e (trim_space name) (\<lambda>n. Some (pn_candidate n)) = Some p"
    using wp_result [OF update_result assms] by simp
  ultimately show ?thesis using admission_lock_view by blast
qed

theorem update_stages_candidate_witness:
  "\<exists>p e. update_profile demo_net ''prof'' demo_patch demo_staging = (Inr (p, True), e) \<and>
    fst (q_lock_verified_profile ''prof'' base_profile_contract e) =
    fst (q_lock_verified_profile ''prof'' base_profile_contract demo_staging)"
  using demo_updates update_stages_candidate by blast

text \<open>
  C32. Recording the cleanup of a verification makes a revision active only if it was the candidate
  and its verification, for the current contract, has completed its probe, is cleaned up and
  carries no error; any other active revision was active before.
\<close>

theorem activation_needs_settled_verification:
  assumes "record_verification_cleanup x d = (Inr (), e)"
    and "row_of pn_name k (profile_names e) = Some m" and "pn_active m = Some h"
  shows "\<exists>n. row_of pn_name k (profile_names d) = Some n \<and>
    (pn_active n = Some h \<or> pn_candidate n = h \<and> settled_revision e k h base_profile_contract)"
  using wp_result [OF promoted_settled assms(1), of k] assms(2,3) by blast

theorem activation_needs_settled_verification_witness:
  "settled_revision (snd (record_verification_cleanup demo_verification demo_probed)) ''prof'' ''h'' base_profile_contract"
proof -
  obtain e m where e: "record_verification_cleanup demo_verification demo_probed = (Inr (), e)"
    "row_of pn_name ''prof'' (profile_names e) = Some m" "pn_active m = Some ''h''"
    using demo_promotes by blast
  from activation_needs_settled_verification [OF e] e(1) show ?thesis
    by (auto simp: demo_probed_def demo_defs row_of_def)
qed

text \<open>
  C33. A normalised profile fits the schema: what is written to the revisions table is the profile
  itself, it satisfies every check of the table, and its hash is that of its definition.
\<close>

theorem normalized_profile_fits_schema:
  assumes "normalize_profile net q = Inr p" and "\<And>u. parse_url net [] = Some u \<Longrightarrow> ur_host u = []"
  shows "stored_profile p = p \<and> revision_check (stored_profile p) \<and> p_definition_hash p = current_definition_hash p"
  using normalized_stored [OF assms(1)] normalized_revision_check [OF assms] by simp

theorem normalized_profile_fits_schema_witness:
  "\<exists>p. normalize_profile demo_net demo_e2b = Inr p \<and> revision_check p"
proof -
  obtain p where p: "normalize_profile demo_net demo_e2b = Inr p" using demo_normalizes by blast
  from normalized_profile_fits_schema [OF p demo_net_empty] have "revision_check p" by metis
  with p show ?thesis by blast
qed

text \<open>
  C34. A provider effect of a Sandbox Action runs only in a state in which the store certifies
  that very unsettled Action for the task that is running: replacing the effect by any other
  behaviour in all other states changes nothing.
\<close>

theorem effects_need_authorization:
  "es_run_action ex sid bid kind effect w =
   es_run_action ex sid bid kind
     (guarded (\<lambda>a v. effect_authorized ex sid (scoped_action_id sid kind bid) (w_db v) a) effect other) w"
  by (rule run_guarded)

text \<open>
  C35. The guest of a Session is paused only in a state in which no client wants it running,
  nothing used it for the grace period, nothing is pending and no maintenance holds it:
  replacing the pause by any other behaviour in all other states changes nothing.
\<close>

theorem paused_only_while_idle:
  "es_pause_idle ex (\<lambda>j b. on_ext (pause j b)) sid w =
   es_pause_idle ex (\<lambda>j b. guarded (\<lambda>_ v. pausable (w_db v) sid) (\<lambda>_. on_ext (pause j b)) other ()) sid w"
  by (rule pause_idle_guarded)

text \<open>
  C36. When the cleanup of a Session under the upgrade execution returns without an error,
  everything the Session owned is settled, its cleanup is complete and it stays closed.
\<close>

theorem cleanup_run_settles:
  assumes "db_ok w" and "run_cleanup ap (upgrade_cleanup ue) sid w = (Inr (), v)"
  shows "cleanup_finished (w_db v) sid"
  using wp_result [OF upgrade_cleaner.run_finishes [OF assms(1), unfolded ensures_def] assms(2)] by simp

theorem cleanup_run_settles_witness:
  "\<exists>v. run_cleanup quiet_application (upgrade_cleanup quiet_upgrades) ''s1'' cleaning_world = (Inr (), v) \<and>
     cleanup_finished (w_db v) ''s1''"
proof -
  obtain v where v: "run_cleanup quiet_application (upgrade_cleanup quiet_upgrades) ''s1'' cleaning_world = (Inr (), v)"
    using demo_cleans by blast
  have "db_ok cleaning_world" using demo_cleaning_inv by (simp add: db_ok_def cleaning_world_def)
  from cleanup_run_settles [OF this v] v show ?thesis by blast
qed

text \<open>
  C37. What a new direct admission resolved from the deployment's defaults is kept: the same
  request is answered with the same Session and changes nothing, whatever connection and model
  the deployment would choose now, and whatever has become of the profile store, whose default,
  candidates, verifications and further revisions may have changed in any way.
\<close>

theorem admission_pins_defaults:
  assumes "db_ok w" and "admit_request svc nonce r w = (Inr (j, True), w')"
    and "\<And>env sid. ds_store svc = Some env \<Longrightarrow>
      spawn_task env (ds_queue svc) direct_task_name sid (direct_task_key sid) \<noteq> Inr []"
    and "sessions_kept (w_db w') (w_db v)"
  shows "admit_request (svc\<lparr>ds_provider := pv\<rparr>) (Inr owner) r v = (Inr (j, False), v)"
  using assms by (rule admit_request_pins)

theorem admission_pins_defaults_witness:
  "\<exists>j w' v. admit_request demo_admission_service (Inr demo_nonce) demo_request \<lparr>w_db = demo_ready, w_ext = ()\<rparr> = (Inr (j, True), w') \<and>
     w_db v = (w_db w')\<lparr>profile_names := [], verifications := []\<rparr> \<and>
     admit_request (demo_admission_service\<lparr>ds_provider := None\<rparr>) (Inr demo_nonce) demo_request v = (Inr (j, False), v)"
proof -
  obtain j w' where run: "admit_request demo_admission_service (Inr demo_nonce) demo_request \<lparr>w_db = demo_ready, w_ext = ()\<rparr> = (Inr (j, True), w')"
    using demo_requests by blast
  let ?v = "w'\<lparr>w_db := (w_db w')\<lparr>profile_names := [], verifications := []\<rparr>\<rparr>"
  have "admit_request (demo_admission_service\<lparr>ds_provider := None\<rparr>) (Inr demo_nonce) demo_request ?v = (Inr (j, False), ?v)"
    by (rule admission_pins_defaults [OF _ run])
      (auto simp: db_ok_def demo_ready_inv demo_admission_service_def quiet_env_def sessions_kept_def revision_of_def)
  with run show ?thesis by (intro exI [of _ j] exI [of _ w'] exI [of _ ?v]) simp
qed

text \<open>
  In every state the table of captures can reach it holds at most 32 attempts under
  distinct identities, at most one of a Session is running, and an attempt has a checkpoint
  exactly when it is ready, for the boundary it reported.
\<close>

theorem captures_bounded:
  assumes "capture_step\<^sup>*\<^sup>* captures_init cs"
  shows "length (cp_attempts cs) \<le> max_captures \<and> distinct (map ca_id (cp_attempts cs)) \<and>
    length (filter (running sid) (cp_attempts cs)) \<le> 1 \<and> list_all attempt_ok (cp_attempts cs)"
  using captures_reachable_ok [OF assms] by (simp add: captures_ok_def)

theorem captures_bounded_witness:
  "length (filter (running ''s1'') (cp_attempts (snd (start_capture 0 ''s1'' [] (Inr ''a'') captures_init)))) \<le> 1"
proof -
  have "capture_step captures_init (snd (start_capture 0 ''s1'' [] (Inr ''a'') captures_init))"
    using attempt_begun [of "[]" captures_init "Inr ''a''" 0 "''s1''" "[]"] by (simp add: captures_init_def)
  then have "capture_step\<^sup>*\<^sup>* captures_init (snd (start_capture 0 ''s1'' [] (Inr ''a'') captures_init))"
    by (rule r_into_rtranclp)
  from captures_bounded [OF this] show ?thesis by blast
qed

text \<open>
  C38. The output buffer refines its specification: whatever chunks a command writes, the
  buffer never refuses one and holds the longest prefix of their concatenation that fits the
  limit, and says whether anything was cut off.
\<close>

theorem output_buffer_refines_prefix:
  "buffer_writes (fresh_buffer limit) ps = Some (captured limit (concat ps))"
proof -
  have "fresh_buffer limit = captured limit []" by (simp add: fresh_buffer_def captured_def)
  then show ?thesis using buffer_writes_captured [of limit "[]" ps] by simp
qed

text \<open>
  C39. A batch of files read from a guest is exact or refused: from what the reading script
  prints for the files, the decoder returns their bytes, or the error of the first file above
  the limit.
\<close>

theorem file_batch_exact:
  assumes "length fs = length names" and "names \<noteq> []"
  shows "decode_file_batch (batch_output (limit + 1) fs) names limit =
    (case find (\<lambda>(n, f). \<not> fits limit f) (zip names fs) of
       None \<Rightarrow> Inr (exact_files (zip names fs) Map.empty)
     | Some (n, f) \<Rightarrow> Inl (Wrapf n (Sentinel ErrFileTooLarge)))"
  using assms by (rule decode_batch)

theorem file_batch_exact_witness:
  "decode_file_batch (batch_output 4 [Some ''abc'', None]) [''x'', ''y''] 3 = Inr [''x'' \<mapsto> ''abc''] \<and>
   decode_file_batch (batch_output 3 [Some ''abc'', None]) [''x'', ''y''] 2 = Inl (Wrapf ''x'' (Sentinel ErrFileTooLarge))"
  using file_batch_exact [of "[Some ''abc'', None]" "[''x'', ''y'']" 3] file_batch_exact [of "[Some ''abc'', None]" "[''x'', ''y'']" 2]
  by (simp add: fits_def)

text \<open>
  C40. The name an attachment is stored under is at most 255 bytes, is neither empty nor a dot
  entry, and contains no path separator and no control character, whatever name was sent.
\<close>

theorem attachment_name_safe:
  "length (attachment_basename f) \<le> 255 \<and> attachment_basename f \<notin> {[], ''.'', ''..''} \<and>
   (\<forall>c. c \<in> set (attachment_basename f) \<longrightarrow> c \<noteq> CHR ''/'' \<and> c \<noteq> CHR 0x5C \<and> 32 \<le> byte c \<and> byte c \<noteq> 127)"
  using attachment_basename_plain [of f] by (simp add: list_all_iff plain_byte_def)

theorem attachment_name_safe_witness:
  "CHR ''/'' \<notin> set (attachment_basename ''../../etc/passwd'')"
  using attachment_name_safe [of "''../../etc/passwd''"] by blast

text \<open>
  C10. Submitting an event to Codex leaves no mutation pending in the dark: after an error other
  than an unknown outcome the native marker is as it was, and after success it is as it was or
  clear, whatever the Sandbox, the app-server and the database answered.
\<close>

theorem submission_settled_or_unknown:
  assumes "submit_native_event (externals_native (e\<lparr>ex_agent := codex_harness box a session hy\<rparr>) nonce) draw j owned ev st w
      = (s, v)"
    and "db_ok w"
  shows "custody_settled (native_marker (w_db w) (sess_id j)) s (native_marker (w_db v) (sess_id j))"
  using assms by (rule codex_custody.settled_or_unknown)

theorem submission_settled_or_unknown_witness:
  "\<exists>s v. submit_native_event (externals_native (offline_worker\<lparr>ex_agent :=
        codex_harness offline_box offline_agent offline_session offline_history\<rparr>) (Inr [])) (\<lambda>_. Inr ''n'') demo_job demo_owned
        demo_cancel \<lparr>ns_revision = 0, ns_pending_input = [], ns_pending_turn = []\<rparr> \<lparr>w_db = demo_db, w_ext = ()\<rparr> = (s, v) \<and>
     custody_settled (native_marker demo_db ''s1'') s (native_marker (w_db v) ''s1'')"
proof -
  obtain s v where run: "submit_native_event (externals_native (offline_worker\<lparr>ex_agent :=
        codex_harness offline_box offline_agent offline_session offline_history\<rparr>) (Inr [])) (\<lambda>_. Inr ''n'') demo_job demo_owned
        demo_cancel \<lparr>ns_revision = 0, ns_pending_input = [], ns_pending_turn = []\<rparr> \<lparr>w_db = demo_db, w_ext = ()\<rparr> = (s, v)"
    by (meson surj_pair)
  from submission_settled_or_unknown [OF run] run show ?thesis
    using demo_db_inv by (auto simp: db_ok_def demo_job_def session_value_def demo_session_def)
qed

text \<open>
  C11. A stream of observations delivers every message once: over any sequence of snapshots that
  extend one another, what it emits is exactly the messages of the last one, in order, although
  every iteration only remembers the cursor it handed out.
\<close>

theorem stream_delivers_once:
  assumes "subject_ok (os_request st) b" and "or_cursor (os_request st) = []" and "subject_size (os_request st) b \<le> 400"
    and "each_continues [] ss" and "ss \<noteq> []" and "\<forall>s \<in> set ss. int (length (sn_items s)) < 2 ^ 63"
  shows "map unnamed (stream_items b st ss) = map (unnamed \<circ> attribute_item) (sn_items (last ss))"
proof -
  have "\<forall>s \<in> set ss. deliverable (os_request st) b (sn_items s)"
    using assms(3,6) by (auto intro: deliverable_short)
  from stream_delivers_from [OF assms(1) _ assms(4) this] show ?thesis using assms(2,5) by simp
qed

theorem stream_delivers_once_witness:
  "map unnamed (stream_items demo_subject demo_stream [demo_seen [demo_item ''a''], demo_seen [demo_item ''a'', demo_item ''b'']]) =
    map (unnamed \<circ> attribute_item) [demo_item ''a'', demo_item ''b'']"
proof -
  have "subject_size (os_request demo_stream) demo_subject \<le> 400" "or_cursor (os_request demo_stream) = []"
    by (simp_all add: subject_size_def demo_stream_def demo_subject_def)
  moreover have "each_continues [] [demo_seen [demo_item ''a''], demo_seen [demo_item ''a'', demo_item ''b'']]"
    by (simp add: demo_seen_def continues_def)
  ultimately show ?thesis
    using stream_delivers_once [OF demo_subject_ok,
        of "[demo_seen [demo_item ''a''], demo_seen [demo_item ''a'', demo_item ''b'']]"]
    by (simp add: demo_seen_def)
qed

text \<open>
  C12. The reply feed is bounded and never takes back a message: in every state it can reach it
  holds at most 128 Turns and 16 MiB of messages, and a further operation only extends the
  messages of a Turn it keeps.
\<close>

theorem reply_feed_bounded:
  assumes "feed_step\<^sup>*\<^sup>* new_reply_feed f" and "feed_step f g"
  shows "length (rf_entries f) \<le> reply_max_turns \<and> retained_bytes f \<le> reply_max_bytes \<and> grows f g"
  using feed_reachable_ok [OF assms(1)] feed_step_grows [OF assms(2)] retained_bounded by (auto simp: feed_ok_def)

theorem reply_feed_bounded_witness:
  "grows (feed_status demo_reply ''inProgress'' new_reply_feed) (feed_append demo_reply (demo_item ''a'') (feed_status demo_reply ''inProgress'' new_reply_feed))"
proof -
  have "feed_step\<^sup>*\<^sup>* new_reply_feed (feed_status demo_reply ''inProgress'' new_reply_feed)"
    by (rule r_into_rtranclp) (rule feed_reports)
  from reply_feed_bounded [OF this feed_appends] show ?thesis by blast
qed

text \<open>
  C13. The continuity proof of a quiescent Thread travels: what is written for its Turns is read
  back exactly as it was written, for that Thread and no other, and verification succeeds against
  a history exactly when that history is quiescent and has every one of those Turns with the same
  outcome.
\<close>

theorem continuity_proof_travels:
  assumes "turns \<noteq> []" and "distinct (map turn_id turns)"
    and "\<forall>t \<in> set turns. turn_id t \<noteq> [] \<and> turn_terminal t \<and> valid_utf8 (turn_id t) \<and> valid_utf8 (turn_status t)"
    and "valid_utf8 th" and "distinct (map turn_id history)"
  shows "accept_continuity th' (continuity_text (map (retain_turn th) turns)) =
      (if th' = th then Inr (map (retain_turn th) turns)
       else Inl (Errorf ''native continuity proof does not match the bound Thread'')) \<and>
    (verify_retained_turns (map (retain_turn th) turns) history = None \<longleftrightarrow>
      list_all turn_terminal history \<and>
      (\<forall>t \<in> set turns. \<exists>u \<in> set history. turn_id u = turn_id t \<and> turn_status u = turn_status t))"
proof -
  have "turn_status t \<noteq> []" if "t \<in> set turns" for t
    using assms(3) that by (auto simp: turn_terminal_def)
  then show ?thesis
    using continuity_accepted [OF assms(1-4)] continuity_verified [OF assms(5)] by blast
qed

theorem continuity_proof_travels_witness:
  "accept_continuity ''th'' (continuity_text [retain_turn ''th'' \<lparr>turn_id = ''t1'', turn_status = ''completed'', turn_client_ids = []\<rparr>]) =
     Inr [retain_turn ''th'' \<lparr>turn_id = ''t1'', turn_status = ''completed'', turn_client_ids = []\<rparr>] \<and>
   verify_retained_turns [retain_turn ''th'' \<lparr>turn_id = ''t1'', turn_status = ''completed'', turn_client_ids = []\<rparr>]
     [\<lparr>turn_id = ''t1'', turn_status = ''completed'', turn_client_ids = []\<rparr>,
      \<lparr>turn_id = ''t2'', turn_status = ''failed'', turn_client_ids = []\<rparr>] = None \<and>
   verify_retained_turns [retain_turn ''th'' \<lparr>turn_id = ''t1'', turn_status = ''completed'', turn_client_ids = []\<rparr>]
     [\<lparr>turn_id = ''t2'', turn_status = ''failed'', turn_client_ids = []\<rparr>] \<noteq> None"
proof -
  have "valid_utf8 ''t1''" "valid_utf8 ''completed''" "valid_utf8 ''th''" by (rule ascii_utf8, simp)+
  then show ?thesis
    using continuity_proof_travels [of "[\<lparr>turn_id = ''t1'', turn_status = ''completed'', turn_client_ids = []\<rparr>]" "''th''"
        "[\<lparr>turn_id = ''t1'', turn_status = ''completed'', turn_client_ids = []\<rparr>,
          \<lparr>turn_id = ''t2'', turn_status = ''failed'', turn_client_ids = []\<rparr>]" "''th''"]
      continuity_proof_travels [of "[\<lparr>turn_id = ''t1'', turn_status = ''completed'', turn_client_ids = []\<rparr>]" "''th''"
        "[\<lparr>turn_id = ''t2'', turn_status = ''failed'', turn_client_ids = []\<rparr>]" "''th''"]
    by (simp add: turn_terminal_def)
qed

text \<open>
  C14. Reading a timeline ends: however many pages the app-server offers, the number that is
  read is bounded by the byte budget, and the bound on recursion in the model is never the
  reason why reading stops.
\<close>

theorem timeline_reading_ends:
  assumes "pages_read p th n (\<lparr>tg_cursors = [], tg_bytes = 0\<rparr>, w) y" and "timeline_max_bytes < m" and "th \<noteq> []"
  shows "n \<le> timeline_max_bytes \<and>
    timeline_pages m p th wanted [] None \<lparr>tg_cursors = [], tg_bytes = 0\<rparr> = read_timeline p th wanted"
proof
  show "n \<le> timeline_max_bytes" using pages_bounded [OF assms(1)] by simp
  show "timeline_pages m p th wanted [] None \<lparr>tg_cursors = [], tg_bytes = 0\<rparr> = read_timeline p th wanted"
  proof
    fix v
    show "timeline_pages m p th wanted [] None \<lparr>tg_cursors = [], tg_bytes = 0\<rparr> v = read_timeline p th wanted v"
      unfolding read_timeline_def if_not_P [OF assms(3)] by (rule timeline_fuel) (use assms(2) in simp_all)
  qed
qed

theorem timeline_reading_ends_witness:
  "timeline_pages (timeline_max_bytes + 2) page_wire ''th'' [] [] None \<lparr>tg_cursors = [], tg_bytes = 0\<rparr> =
    read_timeline page_wire ''th'' []"
  using timeline_reading_ends [OF one_page [OF no_page page_wire_reads], of "timeline_max_bytes + 2"] by simp

end
